(* ===== verification/Moc_Prelude.thy ===== *)
theory Moc_Prelude
  imports Main "HOL-Library.Word"
begin

text \<open>
  The vocabulary the components share.

  \<^item> Bytes are \<open>8 word\<close>, a \<open>std::vector<uint8_t>\<close> is a list of bytes, a
    \<open>std::string\<close> is Isabelle's \<open>string\<close>.
  \<^item> Exceptions are values of the datatype \<open>exn\<close>, one constructor per exception
    class the sources throw or let through.  A message is a list of fragments, so that the
    text OpenSSL's error queue contributes at run time (\<open>ErrString\<close>, \<open>ErrCode\<close>) and
    formatted numbers stay symbolic while every literal of the sources is kept.
  \<^item> A function that may throw returns \<open>'a res\<close>, that is \<open>exn + 'a\<close>; a method that
    changes its object returns \<open>'a res \<times> 's\<close>, so that the state an exception leaves
    behind is visible.
\<close>

section \<open>Named collections\<close>

named_theorems res_simps
  \<open>rewrite rules of the exception and state combinators\<close>

named_theorems ossl_simps
  \<open>definitions of the checked OpenSSL wrappers\<close>

section \<open>Types\<close>

type_synonym byte = "8 word"
type_synonym bytes = "8 word list"
type_synonym size_t = "64 word"

datatype frag = Str string | Num int | Bin bytes | ErrString | ErrCode

type_synonym message = "frag list"

datatype exn =
    MoCOCrWException message
  | OpenSSLException message
  | RuntimeError message
  | OutOfRange

type_synonym 'a res = "exn + 'a"
type_synonym ('s, 'a) st = "'s \<Rightarrow> 'a res \<times> 's"

primrec what :: "exn \<Rightarrow> message" where
  "what (MoCOCrWException m) = m"
| "what (OpenSSLException m) = m"
| "what (RuntimeError m) = m"
| "what OutOfRange = []"

abbreviation ok :: "'a res \<Rightarrow> bool" where
  "ok r \<equiv> \<not> isl r"

section \<open>Sequencing\<close>

definition bindR :: "'a res \<Rightarrow> ('a \<Rightarrow> 'b res) \<Rightarrow> 'b res" where
  "bindR r f = (case r of Inl e \<Rightarrow> Inl e | Inr x \<Rightarrow> f x)"

lemma bindR_simps [simp, res_simps]:
  "bindR (Inl e) f = Inl e"
  "bindR (Inr x) f = f x"
  by (simp_all add: bindR_def)

lemma bindR_eq_Inr [res_simps]:
  "bindR r f = Inr y \<longleftrightarrow> (\<exists>x. r = Inr x \<and> f x = Inr y)"
  by (cases r) auto

lemma bindR_eq_Inl [res_simps]:
  "bindR r f = Inl e \<longleftrightarrow> r = Inl e \<or> (\<exists>x. r = Inr x \<and> f x = Inl e)"
  by (cases r) auto

lemma bindR_assoc: "bindR (bindR r f) g = bindR r (\<lambda>x. bindR (f x) g)"
  by (cases r) auto

lemma bindR_cong [fundef_cong]:
  "r = r' \<Longrightarrow> (\<And>x. r' = Inr x \<Longrightarrow> f x = f' x) \<Longrightarrow> bindR r f = bindR r' f'"
  by (cases r) auto

definition returnS :: "'a \<Rightarrow> ('s, 'a) st" where
  "returnS x = (\<lambda>s. (Inr x, s))"

definition throwS :: "exn \<Rightarrow> ('s, 'a) st" where
  "throwS e = (\<lambda>s. (Inl e, s))"

definition bindS :: "('s, 'a) st \<Rightarrow> ('a \<Rightarrow> ('s, 'b) st) \<Rightarrow> ('s, 'b) st" where
  "bindS m f = (\<lambda>s. case m s of (Inl e, t) \<Rightarrow> (Inl e, t) | (Inr x, t) \<Rightarrow> f x t)"

definition liftS :: "'a res \<Rightarrow> ('s, 'a) st" where
  "liftS r = (\<lambda>s. (r, s))"

definition getS :: "('s \<Rightarrow> 'a) \<Rightarrow> ('s, 'a) st" where
  "getS f = (\<lambda>s. (Inr (f s), s))"

definition modifyS :: "('s \<Rightarrow> 's) \<Rightarrow> ('s, unit) st" where
  "modifyS f = (\<lambda>s. (Inr (), f s))"

lemma st_simps [simp, res_simps]:
  "returnS x s = (Inr x, s)"
  "throwS e s = (Inl e, s)"
  "liftS r s = (r, s)"
  "getS g s = (Inr (g s), s)"
  "modifyS h s = (Inr (), h s)"
  by (simp_all add: returnS_def throwS_def liftS_def getS_def modifyS_def)

lemma bindS_unfold [res_simps]:
  "bindS m f s = (case m s of (Inl e, t) \<Rightarrow> (Inl e, t) | (Inr x, t) \<Rightarrow> f x t)"
  by (simp add: bindS_def)

lemma bindS_eq_Inr:
  "bindS m f s = (Inr y, u) \<longleftrightarrow> (\<exists>x t. m s = (Inr x, t) \<and> f x t = (Inr y, u))"
  by (auto simp: bindS_def split: prod.splits sum.splits)

text \<open>An object fed with chunk after chunk, up to the first exception.\<close>

fun feed :: "(bytes \<Rightarrow> ('s, unit) st) \<Rightarrow> bytes list \<Rightarrow> ('s, unit) st" where
  "feed upd [] s = (Inr (), s)"
| "feed upd (c # cs) s = bindS (upd c) (\<lambda>_. feed upd cs) s"

lemma feed_single: "feed upd [c] = upd c"
proof
  show "feed upd [c] s = upd c s" for s
    by (cases "upd c s"; cases "fst (upd c s)") (auto simp: bindS_def)
qed

section \<open>Exception translation\<close>

text \<open>
  \<open>catch (const OpenSSLException)\<close> clauses of the sources replace the exception by
  another one built from its message; every other exception passes through.
\<close>

definition catchOpenSSL :: "'a res \<Rightarrow> (message \<Rightarrow> exn) \<Rightarrow> 'a res" where
  "catchOpenSSL r h =
     (case r of
        Inl (OpenSSLException m) \<Rightarrow> Inl (h m)
      | Inl e \<Rightarrow> Inl e
      | Inr x \<Rightarrow> Inr x)"

lemma catchOpenSSL_simps [simp, res_simps]:
  "catchOpenSSL (Inr x) h = Inr x"
  "catchOpenSSL (Inl (OpenSSLException m)) h = Inl (h m)"
  "catchOpenSSL (Inl (MoCOCrWException m)) h = Inl (MoCOCrWException m)"
  "catchOpenSSL (Inl (RuntimeError m)) h = Inl (RuntimeError m)"
  "catchOpenSSL (Inl OutOfRange) h = Inl OutOfRange"
  by (simp_all add: catchOpenSSL_def)

lemma catchOpenSSL_eq_Inr [simp, res_simps]:
  "catchOpenSSL r h = Inr x \<longleftrightarrow> r = Inr x"
  by (auto simp: catchOpenSSL_def split: sum.splits exn.splits)

lemma catchOpenSSL_never_OpenSSL:
  "catchOpenSSL r (\<lambda>m. MoCOCrWException (f m)) \<noteq> Inl (OpenSSLException m')"
  by (auto simp: catchOpenSSL_def split: sum.splits exn.splits)

section \<open>Machine integers and buffers\<close>

text \<open>
  \<open>int\<close> is 32 bit, \<open>long\<close>, \<open>size_t\<close> and \<open>time_t\<close> are 64 bit: the targets named
  in the README (x86\_64 and aarch64 Linux).
\<close>

definition INT_MAX :: int where "INT_MAX = 2147483647"
definition INT_MIN :: int where "INT_MIN = - 2147483648"
definition LONG_MAX :: int where "LONG_MAX = 9223372036854775807"
definition LONG_MIN :: int where "LONG_MIN = - 9223372036854775808"

lemmas int_limits = INT_MAX_def INT_MIN_def LONG_MAX_def LONG_MIN_def

text \<open>Conversion of a size to a C \<open>int\<close>: the low 32 bits, read as two's complement.\<close>

definition to_int :: "nat \<Rightarrow> int" where
  "to_int n = sint (word_of_nat n :: 32 word)"

lemma to_int_small: "int n \<le> INT_MAX \<Longrightarrow> to_int n = int n"
proof -
  assume "int n \<le> INT_MAX"
  then have "n < 2 ^ 31" by (simp add: INT_MAX_def)
  then show ?thesis
    unfolding to_int_def by (simp add: signed_of_nat signed_take_bit_int_eq_self)
qed

lemma to_int_wrap: "int k \<le> INT_MAX \<Longrightarrow> to_int (4294967296 + k) = int k"
proof -
  assume "int k \<le> INT_MAX"
  then have "to_int k = int k" by (rule to_int_small)
  moreover have "(4294967296 :: 32 word) = 0" by simp
  ultimately show ?thesis by (simp only: to_int_def of_nat_add of_nat_numeral add_0)
qed

lemma sint32_negative: "2147483648 \<le> uint (w :: 32 word) \<Longrightarrow> sint w < 0"
proof -
  assume w: "2147483648 \<le> uint w"
  have "uint w < 4294967296" using unsigned_less [of w, where 'a = int] by simp
  with w have "(uint w - 2147483648) mod 4294967296 = uint w - 2147483648"
    by (intro mod_pos_pos_trivial) simp_all
  moreover have "uint w + 2147483648 = (uint w - 2147483648) + 4294967296" by simp
  ultimately have "(uint w + 2147483648) mod 4294967296 = uint w - 2147483648"
    by (metis mod_add_self2)
  then have "take_bit 32 (uint w + 2147483648) = uint w - 2147483648"
    by (simp add: take_bit_eq_mod)
  with \<open>uint w < 4294967296\<close> show "sint w < 0"
    by (simp add: sint_uint signed_take_bit_eq_take_bit_shift)
qed

lemma unat_of_nat_small: "n < 2 ^ LENGTH('a) \<Longrightarrow> unat (word_of_nat n :: 'a :: len word) = n"
  by (simp add: unsigned_of_nat take_bit_nat_eq_self)

lemma unat_of_nat_size_t: "n < 18446744073709551616 \<Longrightarrow> unat (word_of_nat n :: size_t) = n"
  by (simp add: unsigned_of_nat take_bit_nat_eq_self)

lemma size_t_of_nat_eq_iff:
  assumes "m < 18446744073709551616" "n < 18446744073709551616"
  shows "(word_of_nat m :: size_t) = word_of_nat n \<longleftrightarrow> m = n"
  using unat_of_nat_size_t [OF assms(1)] unat_of_nat_size_t [OF assms(2)] by metis

lemma uint_of_nat_size_t: "n < 18446744073709551616 \<Longrightarrow> uint (word_of_nat n :: size_t) = int n"
  by (simp add: unsigned_of_nat take_bit_nat_eq_self)

lemma unat_max_size_t: "unat (- 1 :: size_t) = 18446744073709551615"
  by (simp add: unsigned_minus_1_eq_mask mask_eq_exp_minus_1)

text \<open>
  A C function that fills the start of a caller's buffer: \<open>overwrite buf out\<close> is the
  buffer afterwards.
\<close>

definition overwrite :: "'a list \<Rightarrow> 'a list \<Rightarrow> 'a list" where
  "overwrite buf out = take (length buf) (out @ drop (length out) buf)"

lemma length_overwrite [simp]: "length (overwrite buf out) = length buf"
  by (simp add: overwrite_def)

lemma overwrite_full [simp]: "length out = length buf \<Longrightarrow> overwrite buf out = out"
  by (simp add: overwrite_def)

text \<open>\<open>std::vector::resize\<close> on a byte vector: truncate, or pad with zero bytes.\<close>

definition resize :: "bytes \<Rightarrow> nat \<Rightarrow> bytes" where
  "resize v n = take n v @ replicate (n - length v) 0"

lemma length_resize [simp]: "length (resize v n) = n"
  by (simp add: resize_def)

lemma resize_prefix: "n \<le> length v \<Longrightarrow> resize v n = take n v"
  by (simp add: resize_def)

lemma take_overwrite: "length out \<le> length buf \<Longrightarrow> take (length out) (overwrite buf out) = out"
  by (simp add: overwrite_def)

lemma resize_overwrite: "length out \<le> n \<Longrightarrow> resize (overwrite (replicate n 0) out) (length out) = out"
  by (simp add: resize_prefix take_overwrite)

section \<open>Strings\<close>

text \<open>
  The characters of a \<open>std::string\<close> as bytes and back, and what a function that takes a C
  string sees of it: the part before the first null character.
\<close>

definition string_bytes :: "string \<Rightarrow> bytes" where
  "string_bytes s = map of_char s"

definition bytes_string :: "bytes \<Rightarrow> string" where
  "bytes_string b = map (\<lambda>x. char_of (unat x)) b"

lemma char_of_unat_of_char: "char_of (unat (of_char c :: byte)) = c"
proof -
  have "unat (word_of_nat (of_char c) :: byte) = of_char c" by (rule unat_of_nat_small) simp
  then show ?thesis by (simp add: of_nat_of_char)
qed

lemma bytes_string_bytes [simp]: "bytes_string (string_bytes s) = s"
  by (simp add: bytes_string_def string_bytes_def comp_def char_of_unat_of_char)

lemma length_string_bytes [simp]: "length (string_bytes s) = length s"
  by (simp add: string_bytes_def)

definition c_str :: "string \<Rightarrow> string" where
  "c_str s = takeWhile (\<lambda>c. c \<noteq> CHR 0x00) s"

lemma c_str_id: "CHR 0x00 \<notin> set s \<Longrightarrow> c_str s = s"
  by (auto simp: c_str_def takeWhile_eq_all_conv)

lemma c_str_cut: "c_str (s @ CHR 0x00 # t) = c_str s"
  by (induction s) (simp_all add: c_str_def)

section \<open>Lists\<close>

lemma takeWhile_all_append:
  "(\<And>x. x \<in> set xs \<Longrightarrow> P x) \<Longrightarrow> takeWhile P (xs @ ys) = xs @ takeWhile P ys"
  by (simp add: takeWhile_append)

lemma take_drop_append [simp]: "take n xs @ drop n xs @ ys = xs @ ys"
  by (simp flip: append_assoc)

lemma sum_list_length_concat: "length (concat xss) = sum_list (map length xss)"
  by (simp add: length_concat)

end
