(* ===== verification/Cxx_Strings.thy ===== *)
theory Cxx_Strings
  imports Moc_Prelude
begin

text \<open>
  The operations of \<open>std::string\<close> and of the C library that the sources use, on
  Isabelle's \<open>string\<close>.  A position is a \<open>nat\<close>, \<open>std::string::npos\<close> is
  \<open>None\<close>; where the sources compute with \<open>npos\<close> the 64-bit form \<open>pos_word\<close> is
  used.
\<close>

section \<open>Searching\<close>

fun find_prefix :: "string \<Rightarrow> string \<Rightarrow> nat \<Rightarrow> nat option" where
  "find_prefix pat [] i = (if pat = [] then Some i else None)"
| "find_prefix pat (c # cs) i =
     (if take (length pat) (c # cs) = pat then Some i else find_prefix pat cs (Suc i))"

definition str_find :: "string \<Rightarrow> string \<Rightarrow> nat \<Rightarrow> nat option" where
  "str_find s pat pos = (if pos \<le> length s then find_prefix pat (drop pos s) pos else None)"

definition str_rfind :: "string \<Rightarrow> string \<Rightarrow> nat option" where
  "str_rfind s pat =
     find (\<lambda>i. i + length pat \<le> length s \<and> take (length pat) (drop i s) = pat)
       (rev [0..<Suc (length s)])"

fun find_not_of :: "char list \<Rightarrow> string \<Rightarrow> nat \<Rightarrow> nat option" where
  "find_not_of cs [] i = None"
| "find_not_of cs (x # xs) i = (if x \<in> set cs then find_not_of cs xs (Suc i) else Some i)"

definition str_find_first_not_of :: "string \<Rightarrow> char list \<Rightarrow> nat \<Rightarrow> nat option" where
  "str_find_first_not_of s cs pos = find_not_of cs (drop pos s) pos"

definition str_find_last_not_of :: "string \<Rightarrow> char list \<Rightarrow> nat option" where
  "str_find_last_not_of s cs =
     (case find_not_of cs (rev s) 0 of None \<Rightarrow> None | Some k \<Rightarrow> Some (length s - 1 - k))"

text \<open>\<open>substr\<close> throws \<open>std::out_of_range\<close> when the position is past the end.\<close>

definition str_substr :: "string \<Rightarrow> nat \<Rightarrow> nat \<Rightarrow> string res" where
  "str_substr s pos n = (if pos \<le> length s then Inr (take n (drop pos s)) else Inl OutOfRange)"

definition npos :: size_t where "npos = - 1"

definition pos_word :: "nat option \<Rightarrow> size_t" where
  "pos_word p = (case p of None \<Rightarrow> npos | Some n \<Rightarrow> word_of_nat n)"

section \<open>Character classes\<close>

text \<open>\<open>std::isspace\<close> in the C locale: tab, newline, vertical tab, form feed, return, blank.\<close>

definition isspace :: "char \<Rightarrow> bool" where
  "isspace c = (let n = of_char c :: nat in n = 32 \<or> (9 \<le> n \<and> n \<le> 13))"

abbreviation nl :: char where "nl \<equiv> CHR 0x0A"

text \<open>The literal \<open>" \r\n\t"\<close> of the sources.\<close>

definition ws :: "char list" where
  "ws = [CHR '' '', CHR 0x0D, CHR 0x0A, CHR 0x09]"

definition hex_val :: "char \<Rightarrow> nat option" where
  "hex_val c =
     (let n = of_char c :: nat in
      if 48 \<le> n \<and> n \<le> 57 then Some (n - 48)
      else if 97 \<le> n \<and> n \<le> 102 then Some (n - 87)
      else if 65 \<le> n \<and> n \<le> 70 then Some (n - 55)
      else None)"

section \<open>strtoul\<close>

fun hex_digits :: "nat \<Rightarrow> string \<Rightarrow> nat \<times> string" where
  "hex_digits acc [] = (acc, [])"
| "hex_digits acc (c # cs) =
     (case hex_val c of None \<Rightarrow> (acc, c # cs) | Some d \<Rightarrow> hex_digits (16 * acc + d) cs)"

text \<open>
  \<open>strtoul (s, \&endptr, 16)\<close>: white space, an optional sign, an optional \<open>0x\<close> that a
  digit must follow, digits.  The result is the value, the string \<open>endptr\<close> points to, and
  whether \<open>errno\<close> is set (\<open>ERANGE\<close>, value \<open>ULONG_MAX\<close>).  With no digits nothing is
  consumed and the value is 0.
\<close>

definition strtoul16 :: "string \<Rightarrow> size_t \<times> string \<times> bool" where
  "strtoul16 s =
     (let s1 = dropWhile isspace s;
          neg = (s1 \<noteq> [] \<and> hd s1 = CHR ''-'');
          s2 = (if s1 \<noteq> [] \<and> (hd s1 = CHR ''-'' \<or> hd s1 = CHR ''+'') then tl s1 else s1);
          s3 = (if length s2 \<ge> 3 \<and> s2 ! 0 = CHR ''0'' \<and> s2 ! 1 \<in> {CHR ''x'', CHR ''X''}
                   \<and> hex_val (s2 ! 2) \<noteq> None
                then drop 2 s2 else s2)
      in if s3 = [] \<or> hex_val (hd s3) = None then (0, s, False)
         else let (v, rest) = hex_digits 0 s3
              in if v \<ge> 2 ^ 64 then (- 1, rest, True)
                 else (if neg then - word_of_nat v else word_of_nat v, rest, False))"

section \<open>Facts about searching\<close>

lemma find_prefix_Some:
  "find_prefix pat s i = Some k \<Longrightarrow>
     i \<le> k \<and> k - i + length pat \<le> length s \<and> take (length pat) (drop (k - i) s) = pat"
proof (induction pat s i rule: find_prefix.induct)
  case (1 pat i)
  then show ?case by (simp split: if_splits)
next
  case (2 pat c cs i)
  show ?case
  proof (cases "take (length pat) (c # cs) = pat")
    case True
    then have "length pat \<le> length (c # cs)"
      by (metis length_take min.cobounded1)
    with True 2 show ?thesis by simp
  next
    case False
    with 2 have IH: "Suc i \<le> k" "k - Suc i + length pat \<le> length cs"
      "take (length pat) (drop (k - Suc i) cs) = pat"
      by auto
    then have "k - i = Suc (k - Suc i)" by simp
    with IH show ?thesis by simp
  qed
qed

lemma str_find_Some:
  assumes "str_find s pat pos = Some k"
  shows "pos \<le> k" and "k + length pat \<le> length s" and "take (length pat) (drop k s) = pat"
proof -
  from assms have le: "pos \<le> length s" and f: "find_prefix pat (drop pos s) pos = Some k"
    by (simp_all add: str_find_def split: if_splits)
  note F = find_prefix_Some [OF f]
  show "pos \<le> k" using F by simp
  from F have "k - pos + length pat \<le> length (drop pos s)" and "pos \<le> k" by blast+
  then have "k - pos + length pat \<le> length s - pos" by (simp only: length_drop)
  with le \<open>pos \<le> k\<close> show "k + length pat \<le> length s" by linarith
  have "k - pos + pos = k" using F by simp
  with F show "take (length pat) (drop k s) = pat" by simp
qed

text \<open>
  Skipping characters no occurrence can start with: the first character of a non-empty
  pattern does not occur among them.
\<close>

lemma find_prefix_skip:
  "pat \<noteq> [] \<Longrightarrow> hd pat \<notin> set xs \<Longrightarrow>
     find_prefix pat (xs @ s) i = find_prefix pat s (i + length xs)"
proof (induction xs arbitrary: i)
  case Nil
  then show ?case by simp
next
  case (Cons x xs)
  then have "take (length pat) (x # xs @ s) \<noteq> pat"
    by (cases pat) auto
  with Cons show ?case by simp
qed

lemma find_prefix_here: "find_prefix pat (pat @ s) i = Some i"
proof (cases "pat @ s")
  case Nil
  then show ?thesis by simp
next
  case (Cons a xs)
  have "take (length pat) (pat @ s) = pat" by simp
  with Cons show ?thesis by simp
qed

lemma find_prefix_absent:
  "pat \<noteq> [] \<Longrightarrow> hd pat \<notin> set xs \<Longrightarrow> find_prefix pat xs i = None"
  using find_prefix_skip [of pat xs "[]" i] by simp

lemma str_find_at:
  assumes "pat \<noteq> []" "hd pat \<notin> set xs" "s = pre @ xs @ pat @ post" "pos = length pre"
  shows "str_find s pat pos = Some (pos + length xs)"
  using assms by (simp add: str_find_def find_prefix_skip find_prefix_here)

lemma find_not_of_Some:
  "find_not_of cs s i = Some k \<Longrightarrow>
     i \<le> k \<and> k - i < length s \<and> s ! (k - i) \<notin> set cs \<and> set (take (k - i) s) \<subseteq> set cs"
proof (induction cs s i rule: find_not_of.induct)
  case (2 cs x xs i)
  show ?case
  proof (cases "x \<in> set cs")
    case True
    with 2 have IH: "Suc i \<le> k" "k - Suc i < length xs" "xs ! (k - Suc i) \<notin> set cs"
      "set (take (k - Suc i) xs) \<subseteq> set cs"
      by auto
    then have "k - i = Suc (k - Suc i)" by simp
    with IH True show ?thesis by simp
  next
    case False
    with 2 show ?thesis by simp
  qed
qed simp

lemma find_not_of_None: "find_not_of cs s i = None \<longleftrightarrow> set s \<subseteq> set cs"
  by (induction cs s i rule: find_not_of.induct) auto

lemma find_not_of_skip:
  "set xs \<subseteq> set cs \<Longrightarrow> find_not_of cs (xs @ s) i = find_not_of cs s (i + length xs)"
  by (induction xs arbitrary: i) auto

lemma find_last_not_of_Some:
  assumes "str_find_last_not_of s cs = Some k"
  shows "k < length s" and "s ! k \<notin> set cs" and "set (drop (Suc k) s) \<subseteq> set cs"
proof -
  from assms obtain j where j: "find_not_of cs (rev s) 0 = Some j" and k: "k = length s - 1 - j"
    by (auto simp: str_find_last_not_of_def split: option.splits)
  from find_not_of_Some [OF j] have lt: "j < length s" and at: "rev s ! j \<notin> set cs"
    and pre: "set (take j (rev s)) \<subseteq> set cs"
    by auto
  show "k < length s" using lt k by simp
  show "s ! k \<notin> set cs" using at lt k by (simp add: rev_nth)
  have "take j (rev s) = rev (drop (Suc k) s)"
    using lt k by (simp add: take_rev Suc_diff_Suc)
  with pre show "set (drop (Suc k) s) \<subseteq> set cs" by simp
qed

lemma find_last_not_of_None: "str_find_last_not_of s cs = None \<longleftrightarrow> set s \<subseteq> set cs"
  using find_not_of_None [of cs "rev s" 0]
  by (auto simp: str_find_last_not_of_def split: option.splits)

text \<open>Trimming: the last character that is not white space ends the body.\<close>

lemma find_last_not_of_append:
  assumes "body \<noteq> []" "last body \<notin> set cs" "set tail \<subseteq> set cs"
  shows "str_find_last_not_of (body @ tail) cs = Some (length body - 1)"
proof -
  obtain xs b where body: "body = xs @ [b]"
    using assms(1) by (cases body rule: rev_cases) auto
  then have "find_not_of cs (rev (body @ tail)) 0 = Some (length tail)"
    using assms(2,3) by (simp add: find_not_of_skip)
  then show ?thesis by (simp add: str_find_last_not_of_def)
qed

lemma rfind_only_at_0:
  assumes "take (length pat) s = pat"
    and "\<And>i. 0 < i \<Longrightarrow> i + length pat \<le> length s \<Longrightarrow> take (length pat) (drop i s) \<noteq> pat"
  shows "str_rfind s pat = Some 0"
proof -
  let ?P = "\<lambda>i. i + length pat \<le> length s \<and> take (length pat) (drop i s) = pat"
  have "length pat \<le> length s"
    using assms(1) by (metis length_take min.cobounded1)
  then have P0: "?P 0" using assms(1) by simp
  have split: "rev [0..<Suc (length s)] = rev [1..<Suc (length s)] @ [0]"
    by (simp add: upt_conv_Cons del: upt_Suc)
  have "\<not> ?P i" if "i \<in> set (rev [1..<Suc (length s)])" for i
  proof -
    from that have "0 < i" by auto
    then show ?thesis using assms(2) by blast
  qed
  then have "find ?P (rev [1..<Suc (length s)]) = None"
    by (auto simp only: find_None_iff)
  moreover have "find ?P (xs @ ys) = (case find ?P xs of None \<Rightarrow> find ?P ys | Some x \<Rightarrow> Some x)"
    for xs ys by (induction xs) auto
  ultimately show ?thesis
    unfolding str_rfind_def split using P0 by simp
qed

end
