(* ===== verification/Check_Call.thy ===== *)
theory Check_Call
  imports Moc_Prelude
begin

text \<open>
  Checked calls: the template library \<open>src/src/cppc/checkcall.hpp\<close> and the policies
  \<open>src/src/openssl_wrap.cpp\<close> instantiates it with.  A raw OpenSSL function returns a
  status or a pointer (an option, \<open>None\<close> for \<open>nullptr\<close>); the wrappers turn a value the
  policy rejects into an exception.
\<close>

section \<open>cppc\<close>

text \<open>
  \<open>ReturnCheckWrapper\<close>: the error policy is called on a value that is not ok and the value
  is returned after it, unless it threw; with a \<open>handleOk\<close> both policies give the result.
\<close>

definition policyHandeledReturnValue ::
  "('rv \<Rightarrow> bool) \<Rightarrow> ('rv \<Rightarrow> unit res) \<Rightarrow> 'rv \<Rightarrow> 'rv res" where
  "policyHandeledReturnValue returnValueIsOk handleError rv =
     (if \<not> returnValueIsOk rv then bindR (handleError rv) (\<lambda>_. Inr rv) else Inr rv)"

definition policyHandeledReturnValue_ok ::
  "('rv \<Rightarrow> bool) \<Rightarrow> ('rv \<Rightarrow> 'a res) \<Rightarrow> ('rv \<Rightarrow> 'a res) \<Rightarrow> 'rv \<Rightarrow> 'a res" where
  "policyHandeledReturnValue_ok returnValueIsOk handleError handleOk rv =
     (if \<not> returnValueIsOk rv then handleError rv else handleOk rv)"

definition ReportReturnValue_handleError :: "int \<Rightarrow> unit res" where
  "ReportReturnValue_handleError rv =
     Inl (RuntimeError [Str ''Return value indicated error: '', Num rv])"

definition IsZero_returnValueIsOk :: "int \<Rightarrow> bool" where
  "IsZero_returnValueIsOk rv = (rv = 0)"

definition IsNotNegative_returnValueIsOk :: "int \<Rightarrow> bool" where
  "IsNotNegative_returnValueIsOk rv = (rv \<ge> 0)"

definition IsNotZero_returnValueIsOk :: "int \<Rightarrow> bool" where
  "IsNotZero_returnValueIsOk rv = (rv \<noteq> 0)"

definition IsNotNullptr_returnValueIsOk :: "'p option \<Rightarrow> bool" where
  "IsNotNullptr_returnValueIsOk rv = (rv \<noteq> None)"

text \<open>
  \<open>errno\<close> is the state of the checked calls: a policy may read it and may have a
  \<open>preCall\<close>, which \<open>_callIf\<close> finds by overload resolution.  The two policies that report
  the C library's text for an error number take \<open>strerror\<close> as an argument.
\<close>

definition callPrecCallIfPresent :: "(int \<Rightarrow> int) option \<Rightarrow> int \<Rightarrow> int" where
  "callPrecCallIfPresent preCall errno = (case preCall of Some f \<Rightarrow> f errno | None \<Rightarrow> errno)"

definition IsErrnoZero_returnValueIsOk :: "int \<Rightarrow> 'rv \<Rightarrow> bool" where
  "IsErrnoZero_returnValueIsOk errno rv = (errno = 0)"

definition IsErrnoZero_preCall :: "int \<Rightarrow> int" where
  "IsErrnoZero_preCall errno = 0"

definition ErrnoErrorPolicy_handleError :: "(int \<Rightarrow> string) \<Rightarrow> int \<Rightarrow> 'rv \<Rightarrow> unit res" where
  "ErrnoErrorPolicy_handleError strerror errno rv = Inl (RuntimeError [Str (strerror errno)])"

definition ErrorCodeErrorPolicy_handleError :: "(int \<Rightarrow> string) \<Rightarrow> int \<Rightarrow> unit res" where
  "ErrorCodeErrorPolicy_handleError strerror rv = Inl (RuntimeError [Str (strerror (- rv))])"

text \<open>
  \<open>callChecked\<close>: the callable is a function of its arguments and of the \<open>errno\<close> it starts
  with.  The policies OpenSSL is called with have no \<open>preCall\<close> and do not look at
  \<open>errno\<close>; for them \<open>callChecked\<close> below takes what the callable returned.
\<close>

definition callChecked_at ::
  "(int \<Rightarrow> int) option \<Rightarrow> (int \<Rightarrow> 'rv \<Rightarrow> bool) \<Rightarrow> (int \<Rightarrow> 'rv \<Rightarrow> unit res)
     \<Rightarrow> ('a \<Rightarrow> int \<Rightarrow> 'rv \<times> int) \<Rightarrow> 'a \<Rightarrow> int \<Rightarrow> 'rv res \<times> int" where
  "callChecked_at preCall returnValueIsOk handleError callable args errno =
     (let (retVal, errno') = callable args (callPrecCallIfPresent preCall errno)
      in (policyHandeledReturnValue (returnValueIsOk errno') (handleError errno') retVal, errno'))"

definition callChecked ::
  "('rv \<Rightarrow> bool) \<Rightarrow> ('rv \<Rightarrow> unit res) \<Rightarrow> 'rv \<Rightarrow> 'rv res" where
  "callChecked returnValueIsOk handleError retVal =
     policyHandeledReturnValue returnValueIsOk handleError retVal"

text \<open>\<open>CallGuard\<close> keeps the functor and checks every call of it.\<close>

record ('a, 'rv) CallGuard =
  cg_functor :: "'a \<Rightarrow> int \<Rightarrow> 'rv \<times> int"

definition CallGuard_new :: "('a \<Rightarrow> int \<Rightarrow> 'rv \<times> int) \<Rightarrow> ('a, 'rv) CallGuard" where
  "CallGuard_new t = \<lparr>cg_functor = t\<rparr>"

definition CallGuard_call ::
  "(int \<Rightarrow> int) option \<Rightarrow> (int \<Rightarrow> 'rv \<Rightarrow> bool) \<Rightarrow> (int \<Rightarrow> 'rv \<Rightarrow> unit res)
     \<Rightarrow> ('a, 'rv) CallGuard \<Rightarrow> 'a \<Rightarrow> int \<Rightarrow> 'rv res \<times> int" where
  "CallGuard_call preCall returnValueIsOk handleError g args errno =
     callChecked_at preCall returnValueIsOk handleError (cg_functor g) args errno"

definition CallCheckContext_callChecked ::
  "(int \<Rightarrow> int) option \<Rightarrow> (int \<Rightarrow> 'rv \<Rightarrow> bool) \<Rightarrow> (int \<Rightarrow> 'rv \<Rightarrow> unit res)
     \<Rightarrow> ('a \<Rightarrow> int \<Rightarrow> 'rv \<times> int) \<Rightarrow> 'a \<Rightarrow> int \<Rightarrow> 'rv res \<times> int" where
  "CallCheckContext_callChecked preCall returnValueIsOk handleError callable args errno =
     callChecked_at preCall returnValueIsOk handleError callable args errno"

lemmas guarded_defs = CallGuard_new_def CallGuard_call_def CallCheckContext_callChecked_def
  callChecked_at_def callPrecCallIfPresent_def policyHandeledReturnValue_def

lemma callChecked_at_plain:
  "callChecked_at None (\<lambda>_. ok) (\<lambda>_. h) callable args errno =
     (callChecked ok h (fst (callable args errno)), snd (callable args errno))"
  by (simp add: callChecked_at_def callChecked_def callPrecCallIfPresent_def case_prod_beta)

text \<open>
  A guard with the \<open>errno\<close> policies does not see an error number left by an earlier call:
  the callable starts with \<open>errno\<close> 0, its value is returned if it leaves 0 and otherwise the
  text of the number it left is thrown.
\<close>

lemma errno_guard_fresh:
  assumes "f args 0 = (rv, e)"
  shows "CallGuard_call (Some IsErrnoZero_preCall) IsErrnoZero_returnValueIsOk
           (ErrnoErrorPolicy_handleError strerror) (CallGuard_new f) args errno =
         (if e = 0 then Inr rv else Inl (RuntimeError [Str (strerror e)]), e)"
  using assms by (simp add: guarded_defs IsErrnoZero_preCall_def IsErrnoZero_returnValueIsOk_def
      ErrnoErrorPolicy_handleError_def)

section \<open>OpenSSL policies\<close>

definition generateOpenSSLErrorString :: message where
  "generateOpenSSLErrorString = [ErrString, Str '': '', ErrCode]"

definition OpenSSLException_default :: exn where
  "OpenSSLException_default = OpenSSLException generateOpenSSLErrorString"

definition OpenSSLExceptionErrorPolicy_handleError :: "'rv \<Rightarrow> unit res" where
  "OpenSSLExceptionErrorPolicy_handleError rv = Inl OpenSSLException_default"

definition OpenSSLIsOne :: "int \<Rightarrow> bool" where
  "OpenSSLIsOne rv = (rv = 1)"

definition OpenSSLPositive :: "int \<Rightarrow> bool" where
  "OpenSSLPositive rv = (rv > 0)"

definition OpenSSLNonNegative :: "int \<Rightarrow> bool" where
  "OpenSSLNonNegative rv = (rv \<ge> 0)"

definition OpensslCallIsOne :: "int \<Rightarrow> int res" where
  "OpensslCallIsOne = callChecked OpenSSLIsOne OpenSSLExceptionErrorPolicy_handleError"

definition OpensslCallIsNonNegative :: "int \<Rightarrow> int res" where
  "OpensslCallIsNonNegative = callChecked OpenSSLNonNegative OpenSSLExceptionErrorPolicy_handleError"

definition OpensslCallIsPositive :: "int \<Rightarrow> int res" where
  "OpensslCallIsPositive = callChecked OpenSSLPositive OpenSSLExceptionErrorPolicy_handleError"

definition OpensslCallPtr :: "'p option \<Rightarrow> 'p res" where
  "OpensslCallPtr p =
     bindR (callChecked IsNotNullptr_returnValueIsOk OpenSSLExceptionErrorPolicy_handleError p)
       (\<lambda>q. Inr (the q))"

text \<open>
  A wrapper around a function that updates a context: the status is checked, the context is
  as OpenSSL left it.
\<close>

definition checkS :: "(int \<Rightarrow> int res) \<Rightarrow> int \<times> 'c \<Rightarrow> unit res \<times> 'c" where
  "checkS chk r = (bindR (chk (fst r)) (\<lambda>_. Inr ()), snd r)"

section \<open>What the policies let through\<close>

lemma call_simps [simp, res_simps]:
  "OpensslCallIsOne rv = (if rv = 1 then Inr rv else Inl OpenSSLException_default)"
  "OpensslCallIsNonNegative rv = (if rv \<ge> 0 then Inr rv else Inl OpenSSLException_default)"
  "OpensslCallIsPositive rv = (if rv > 0 then Inr rv else Inl OpenSSLException_default)"
  by (simp_all add: OpensslCallIsOne_def OpensslCallIsNonNegative_def OpensslCallIsPositive_def
      callChecked_def policyHandeledReturnValue_def OpenSSLIsOne_def OpenSSLPositive_def
      OpenSSLNonNegative_def OpenSSLExceptionErrorPolicy_handleError_def)

lemma callPtr_simps [simp, res_simps]:
  "OpensslCallPtr (Some p) = Inr p"
  "OpensslCallPtr None = Inl OpenSSLException_default"
  by (simp_all add: OpensslCallPtr_def callChecked_def policyHandeledReturnValue_def
      IsNotNullptr_returnValueIsOk_def OpenSSLExceptionErrorPolicy_handleError_def)

lemma checkS_simps [simp, res_simps]:
  "checkS OpensslCallIsOne (rv, c) =
     (if rv = 1 then Inr () else Inl OpenSSLException_default, c)"
  "checkS OpensslCallIsPositive (rv, c) =
     (if rv > 0 then Inr () else Inl OpenSSLException_default, c)"
  "checkS OpensslCallIsNonNegative (rv, c) =
     (if rv \<ge> 0 then Inr () else Inl OpenSSLException_default, c)"
  by (simp_all add: checkS_def)

lemma checkS_IsOne: "checkS OpensslCallIsOne r =
    (if fst r = 1 then Inr () else Inl OpenSSLException_default, snd r)"
  by (simp add: checkS_def)

lemma checkS_IsPositive: "checkS OpensslCallIsPositive r =
    (if fst r > 0 then Inr () else Inl OpenSSLException_default, snd r)"
  by (simp add: checkS_def)

text \<open>
  A checked call returns exactly the values its policy accepts, unchanged, and throws the
  OpenSSL exception for every other: status codes 1, positive, non-negative, and pointers
  that are not null.
\<close>

theorem checked_calls_sound:
  "(OpensslCallIsOne rv = Inr v \<longleftrightarrow> rv = 1 \<and> v = 1)
   \<and> (OpensslCallIsPositive rv = Inr v \<longleftrightarrow> rv > 0 \<and> v = rv)
   \<and> (OpensslCallIsNonNegative rv = Inr v \<longleftrightarrow> rv \<ge> 0 \<and> v = rv)
   \<and> (OpensslCallPtr p = Inr q \<longleftrightarrow> p = Some q)
   \<and> (OpensslCallPtr p = Inl e \<longleftrightarrow> p = None \<and> e = OpenSSLException_default)"
  by (cases p) auto

section \<open>OpenSSL constants\<close>

text \<open>
  \<open>DigestTypes\<close> and \<open>CmacCipherTypes\<close> of \<open>openssl_wrap.h\<close>; the constructors of
  \<open>EVP_MD\<close> and \<open>EVP_CIPHER\<close> name the static objects OpenSSL's functions of the same
  name return.
\<close>

definition EVP_MAX_BLOCK_LENGTH :: nat where "EVP_MAX_BLOCK_LENGTH = 32"

datatype DigestTypes = SHA1 | SHA256 | SHA384 | SHA512 | SHA3_256 | SHA3_384 | SHA3_512 | NONE

datatype CmacCipherTypes = AES_CBC_128 | AES_CBC_256

datatype EVP_MD = EVP_sha1 | EVP_sha256 | EVP_sha384 | EVP_sha512
  | EVP_sha3_256 | EVP_sha3_384 | EVP_sha3_512

datatype EVP_CIPHER = EVP_aes_128_gcm | EVP_aes_256_gcm | EVP_aes_128_cbc | EVP_aes_256_cbc
  | EVP_aes_128_ctr | EVP_aes_256_ctr

fun getMDPtrFromDigestType :: "DigestTypes \<Rightarrow> EVP_MD res" where
  "getMDPtrFromDigestType SHA1 = Inr EVP_sha1"
| "getMDPtrFromDigestType SHA256 = Inr EVP_sha256"
| "getMDPtrFromDigestType SHA384 = Inr EVP_sha384"
| "getMDPtrFromDigestType SHA512 = Inr EVP_sha512"
| "getMDPtrFromDigestType SHA3_256 = Inr EVP_sha3_256"
| "getMDPtrFromDigestType SHA3_384 = Inr EVP_sha3_384"
| "getMDPtrFromDigestType SHA3_512 = Inr EVP_sha3_512"
| "getMDPtrFromDigestType NONE = Inl (RuntimeError [Str ''Unknown digest type''])"

fun getCipherPtrFromCmacCipherType :: "CmacCipherTypes \<Rightarrow> EVP_CIPHER res" where
  "getCipherPtrFromCmacCipherType AES_CBC_128 = Inr EVP_aes_128_cbc"
| "getCipherPtrFromCmacCipherType AES_CBC_256 = Inr EVP_aes_256_cbc"

lemma getMDPtr_error: "getMDPtrFromDigestType t = Inl e \<Longrightarrow> t = NONE"
  by (cases t) auto

end
