(* ===== verification/Hex_Util.thy ===== *)
theory Hex_Util
  imports Cxx_Strings Check_Call
begin

text \<open>
  \<open>src/src/util.cpp\<close>: the hexadecimal codec and the random byte helper.  \<open>toHex\<close> writes
  two lower-case digits per byte; \<open>fromHex\<close> cuts its input into pieces of two characters
  and gives each to \<open>strtoul\<close>, whose own liberality (signs, white space, a nested
  \<open>0x\<close>) it inherits.
\<close>

section \<open>Encoding\<close>

definition hex_digit :: "nat \<Rightarrow> char" where
  "hex_digit n = (if n < 10 then char_of (48 + n) else char_of (87 + n))"

definition toHex_byte :: "byte \<Rightarrow> string" where
  "toHex_byte b = [hex_digit (unat b div 16), hex_digit (unat b mod 16)]"

definition toHex :: "bytes \<Rightarrow> string" where
  "toHex data = concat (map toHex_byte data)"

section \<open>Decoding\<close>

definition invalid_hex :: "string \<Rightarrow> exn" where
  "invalid_hex hexData = MoCOCrWException [Str (''Invalid hex string: '' @ hexData)]"

definition fromHex_piece :: "string \<Rightarrow> string \<Rightarrow> byte res" where
  "fromHex_piece hexData encodedByte =
     (let (v, endptr, errno) = strtoul16 (c_str encodedByte);
          b = ucast v :: byte
      in if errno \<and> b = 0 then Inl (invalid_hex hexData)
         else if \<not> (c_str encodedByte \<noteq> [] \<and> endptr = []) then Inl (invalid_hex hexData)
         else Inr b)"

fun fromHex_loop :: "string \<Rightarrow> string \<Rightarrow> bytes res" where
  "fromHex_loop hexData [] = Inr []"
| "fromHex_loop hexData [c] = bindR (fromHex_piece hexData [c]) (\<lambda>b. Inr [b])"
| "fromHex_loop hexData (c # d # rest) =
     bindR (fromHex_piece hexData [c, d]) (\<lambda>b.
     bindR (fromHex_loop hexData rest) (\<lambda>bs. Inr (b # bs)))"

definition fromHex :: "string \<Rightarrow> bytes res" where
  "fromHex hexData =
     (let startPos = (if str_rfind hexData ''0x'' = Some 0 then 2 else 0)
      in fromHex_loop hexData (drop startPos hexData))"

section \<open>The codec is a round trip\<close>

lemma hex_val_digit: "n < 16 \<Longrightarrow> hex_val (hex_digit n) = Some n"
  by (auto simp: hex_val_def hex_digit_def Let_def of_char_of)

lemma hex_digit_class:
  assumes "n < 16"
  shows "\<not> isspace (hex_digit n)" "hex_digit n \<noteq> CHR 0x00" "hex_digit n \<noteq> CHR ''x''"
    "hex_digit n \<noteq> CHR ''-''" "hex_digit n \<noteq> CHR ''+''"
proof -
  have v: "of_char (hex_digit n) = (if n < 10 then 48 + n else 87 + n)"
    using assms by (auto simp: hex_digit_def of_char_of)
  show "\<not> isspace (hex_digit n)"
    using v by (auto simp: isspace_def Let_def)
  show "hex_digit n \<noteq> CHR 0x00" "hex_digit n \<noteq> CHR ''x''"
    "hex_digit n \<noteq> CHR ''-''" "hex_digit n \<noteq> CHR ''+''"
    using v assms by (auto dest: arg_cong [where f = "of_char :: char \<Rightarrow> nat"] split: if_splits)
qed

lemma byte_split: "unat (b :: byte) div 16 < 16" "unat (b :: byte) mod 16 < 16"
  using unsigned_less [of b, where 'a = nat] by (simp_all add: less_mult_imp_div_less)

lemma strtoul16_two_digits:
  assumes "m < 16" "n < 16"
  shows "strtoul16 [hex_digit m, hex_digit n] = (word_of_nat (16 * m + n), [], False)"
proof -
  have "(16 * m + n) < (2 :: nat) ^ 64" using assms by simp
  with assms show ?thesis
    by (simp add: strtoul16_def Let_def hex_digit_class hex_val_digit)
qed

lemma fromHex_piece_digits:
  assumes "m < 16" "n < 16"
  shows "fromHex_piece h [hex_digit m, hex_digit n] = Inr (word_of_nat (16 * m + n))"
proof -
  have "c_str [hex_digit m, hex_digit n] = [hex_digit m, hex_digit n]"
    using assms by (simp add: c_str_def hex_digit_class)
  moreover have "ucast (word_of_nat (16 * m + n) :: size_t) = (word_of_nat (16 * m + n) :: byte)"
    using assms by (simp add: unsigned_of_nat take_bit_nat_eq_self del: of_nat_add of_nat_mult)
  ultimately show ?thesis
    using assms by (simp add: fromHex_piece_def strtoul16_two_digits Let_def del: of_nat_add of_nat_mult)
qed

lemma fromHex_piece_toHex_byte: "fromHex_piece h (toHex_byte b) = Inr b"
  by (simp add: toHex_byte_def fromHex_piece_digits byte_split del: of_nat_add of_nat_mult)

lemma fromHex_loop_toHex: "fromHex_loop h (toHex bs) = Inr bs"
proof (induction bs)
  case Nil
  show ?case by (simp add: toHex_def)
next
  case (Cons b bs)
  have "toHex (b # bs) = hex_digit (unat b div 16) # hex_digit (unat b mod 16) # toHex bs"
    by (simp add: toHex_def toHex_byte_def)
  with Cons fromHex_piece_toHex_byte [of h b] show ?case
    by (simp add: toHex_byte_def)
qed

lemma toHex_no_x: "CHR ''x'' \<notin> set (toHex bs)"
  using hex_digit_class(3) [OF byte_split(1)] hex_digit_class(3) [OF byte_split(2)]
  by (auto simp: toHex_def toHex_byte_def dest: sym)

lemma rfind_no_x: "CHR ''x'' \<notin> set s \<Longrightarrow> str_rfind s ''0x'' \<noteq> Some 0"
proof
  assume "CHR ''x'' \<notin> set s" "str_rfind s ''0x'' = Some 0"
  then have "take 2 s = ''0x''"
    by (auto simp: str_rfind_def find_Some_iff numeral_2_eq_2)
  then have "CHR ''x'' \<in> set (take 2 s)" by simp
  with \<open>CHR ''x'' \<notin> set s\<close> show False by (meson in_set_takeD)
qed

lemma rfind_prefixed:
  assumes "CHR ''x'' \<notin> set s"
  shows "str_rfind (''0x'' @ s) ''0x'' = Some 0"
proof (rule rfind_only_at_0)
  show "take (length ''0x'') (''0x'' @ s) = ''0x''" by simp
next
  fix i :: nat
  assume i: "0 < i" "i + length ''0x'' \<le> length (''0x'' @ s)"
  show "take (length ''0x'') (drop i (''0x'' @ s)) \<noteq> ''0x''"
  proof
    assume eq: "take (length ''0x'') (drop i (''0x'' @ s)) = ''0x''"
    from i(1) have "drop i (''0x'' @ s) = drop (i - 1) (CHR ''x'' # s)"
      by (cases i) auto
    with eq have hd: "take 2 (drop (i - 1) (CHR ''x'' # s)) = ''0x''"
      by (simp add: numeral_2_eq_2)
    show False
    proof (cases "i = 1")
      case True
      with hd show False by simp
    next
      case False
      with i(1) have "drop (i - 1) (CHR ''x'' # s) = drop (i - 2) s"
        by (cases "i - 1") (auto simp: numeral_2_eq_2 diff_Suc split: nat.splits)
      with hd have "CHR ''x'' \<in> set (take 2 (drop (i - 2) s))" by simp
      with assms show False by (meson in_set_dropD in_set_takeD)
    qed
  qed
qed

text \<open>Encoding a byte vector and decoding the result gives the vector back.\<close>

theorem fromHex_toHex: "fromHex (toHex bs) = Inr bs"
  using rfind_no_x [OF toHex_no_x] by (simp add: fromHex_def fromHex_loop_toHex)

lemma fromHex_literal: "toHex bs = s \<Longrightarrow> fromHex s = Inr bs"
  using fromHex_toHex [of bs] by simp

theorem fromHex_0x_toHex: "fromHex (''0x'' @ toHex bs) = Inr bs"
  using rfind_prefixed [OF toHex_no_x] by (simp add: fromHex_def fromHex_loop_toHex)

section \<open>Size and errors\<close>

lemma length_toHex: "length (toHex bs) = 2 * length bs"
  by (induction bs) (simp_all add: toHex_def toHex_byte_def)

lemma fromHex_loop_length:
  "fromHex_loop h s = Inr bs \<Longrightarrow> length bs = (length s + 1) div 2"
  by (induction h s arbitrary: bs rule: fromHex_loop.induct) (auto simp: bindR_eq_Inr)

lemma fromHex_piece_error: "fromHex_piece h p = Inl e \<Longrightarrow> e = invalid_hex h"
  by (auto simp: fromHex_piece_def Let_def split: prod.splits if_splits)

lemma fromHex_loop_error: "fromHex_loop h s = Inl e \<Longrightarrow> e = invalid_hex h"
  by (induction h s rule: fromHex_loop.induct)
    (auto simp: bindR_eq_Inl dest: fromHex_piece_error)

lemma hex_val_less: "hex_val c = Some n \<Longrightarrow> n < 16"
  by (auto simp: hex_val_def Let_def split: if_splits)

lemma hex_val_class:
  assumes "hex_val c = Some n"
  shows "\<not> isspace c" "c \<noteq> CHR 0x00" "c \<noteq> CHR ''-''" "c \<noteq> CHR ''+''"
proof -
  have v: "(48 \<le> (of_char c :: nat) \<and> (of_char c :: nat) \<le> 57) \<or> 65 \<le> (of_char c :: nat)"
    using assms by (auto simp: hex_val_def Let_def split: if_splits)
  show "\<not> isspace c" using v by (auto simp: isspace_def Let_def)
  show "c \<noteq> CHR 0x00" "c \<noteq> CHR ''-''" "c \<noteq> CHR ''+''" using v by auto
qed

lemma isspace_class: "isspace c \<Longrightarrow> c \<noteq> CHR 0x00 \<and> c \<noteq> CHR ''-'' \<and> c \<noteq> CHR ''+''"
  by (auto simp: isspace_def Let_def)

lemma byte_of_word: "n < 256 \<Longrightarrow> ucast (word_of_nat n :: size_t) = (word_of_nat n :: byte)"
  by (simp add: unsigned_of_nat take_bit_nat_eq_self)

lemma byte_of_minus: "n < 256 \<Longrightarrow> ucast (- word_of_nat n :: size_t) = (- word_of_nat n :: byte)"
  by transfer simp

text \<open>What \<open>strtoul\<close> makes of a piece, character class by character class.\<close>

definition piece_value :: "char \<Rightarrow> char \<Rightarrow> byte option" where
  "piece_value c d =
     (case (hex_val c, hex_val d) of
        (Some m, Some n) \<Rightarrow> Some (word_of_nat (16 * m + n))
      | (Some m, None) \<Rightarrow> if d = CHR 0x00 then Some (word_of_nat m) else None
      | (None, Some n) \<Rightarrow>
          if isspace c \<or> c = CHR ''+'' then Some (word_of_nat n)
          else if c = CHR ''-'' then Some (- word_of_nat n) else None
      | (None, None) \<Rightarrow> None)"

lemma fromHex_piece_pair:
  "fromHex_piece h [c, d] =
     (case piece_value c d of None \<Rightarrow> Inl (invalid_hex h) | Some b \<Rightarrow> Inr b)"
proof (cases "hex_val c")
  case (Some m)
  note m = Some hex_val_less [OF Some] hex_val_class [OF Some]
  show ?thesis
  proof (cases "hex_val d")
    case None
    with m show ?thesis
      by (simp add: fromHex_piece_def piece_value_def c_str_def strtoul16_def byte_of_word)
  next
    case (Some n)
    note n = Some hex_val_less [OF Some] hex_val_class [OF Some]
    have "16 * m + n < 256" "16 * m + n < 2 ^ 64" using m(2) n(2) by simp_all
    with m n show ?thesis
      by (simp add: fromHex_piece_def piece_value_def c_str_def strtoul16_def byte_of_word
          del: of_nat_add of_nat_mult)
  qed
next
  case c: None
  show ?thesis
  proof (cases "hex_val d")
    case None
    with c isspace_class [of c] show ?thesis
      by (auto simp: fromHex_piece_def piece_value_def c_str_def strtoul16_def Let_def)
  next
    case (Some n)
    note n = Some hex_val_less [OF Some] hex_val_class [OF Some]
    have z: "n < 18446744073709551616" "n < 256" using n(2) by simp_all
    consider "isspace c" | "c = CHR ''+''" | "c = CHR ''-''" | "c = CHR 0x00"
      | "\<not> isspace c" "c \<noteq> CHR ''+''" "c \<noteq> CHR ''-''" "c \<noteq> CHR 0x00" by blast
    then show ?thesis
    proof cases
      case 1
      with c n z isspace_class [OF 1] show ?thesis
        by (simp add: fromHex_piece_def piece_value_def c_str_def strtoul16_def byte_of_word)
    next
      case 2
      with n z show ?thesis
        by (simp add: fromHex_piece_def piece_value_def c_str_def strtoul16_def byte_of_word
            isspace_def hex_val_def [of "CHR ''+''"])
    next
      case 3
      with n z show ?thesis
        by (simp add: fromHex_piece_def piece_value_def c_str_def strtoul16_def byte_of_minus
            isspace_def hex_val_def [of "CHR ''-''"])
    next
      case 4
      then show ?thesis
        by (simp add: fromHex_piece_def piece_value_def c_str_def strtoul16_def isspace_def
            hex_val_def [of "CHR 0x00"] split: option.split)
    next
      case 5
      with c n show ?thesis
        by (simp add: fromHex_piece_def piece_value_def c_str_def strtoul16_def)
    qed
  qed
qed

fun pieces :: "string \<Rightarrow> byte option list" where
  "pieces (c # d # s) = piece_value c d # pieces s"
| "pieces _ = []"

lemma fromHex_loop_exact:
  "even (length s) \<Longrightarrow> fromHex_loop h s =
     (if None \<in> set (pieces s) then Inl (invalid_hex h) else Inr (map the (pieces s)))"
  by (induction s rule: pieces.induct) (auto simp: fromHex_piece_pair split: option.splits)

text \<open>
  An input of even length without prefix is cut into pairs.  A pair decodes to the value
  of its two hexadecimal digits; it is also accepted when its first character is white space
  or a sign before one digit (a minus negates the byte), or when a NUL follows one digit.
  The whole input is rejected as soon as one pair is none of these.
\<close>

theorem fromHex_exact:
  assumes "even (length s)" and "str_rfind s ''0x'' \<noteq> Some 0"
  shows "fromHex s =
     (if None \<in> set (pieces s) then Inl (invalid_hex s) else Inr (map the (pieces s)))"
  using assms by (simp add: fromHex_def fromHex_loop_exact)

theorem fromHex_exact_witness: "fromHex ''0aFF'' = Inr [10, 255] \<and> fromHex ''0g'' = Inl (invalid_hex ''0g'')"
proof -
  have "str_rfind ''0aFF'' ''0x'' \<noteq> Some 0" "str_rfind ''0g'' ''0x'' \<noteq> Some 0"
    by (rule rfind_no_x, simp)+
  then show ?thesis
    using fromHex_exact [of "''0aFF''"] fromHex_exact [of "''0g''"]
    by (simp add: piece_value_def hex_val_def)
qed

text \<open>
  Decoding throws the one exception that names the input, or returns one byte for every
  two characters after an optional leading \<open>0x\<close>, a last single character included.
\<close>

theorem fromHex_results:
  "case fromHex s of
     Inl e \<Rightarrow> e = MoCOCrWException [Str (''Invalid hex string: '' @ s)]
   | Inr bs \<Rightarrow> length bs = (length s - (if str_rfind s ''0x'' = Some 0 then 2 else 0) + 1) div 2"
  by (auto simp: fromHex_def Let_def invalid_hex_def
      dest: fromHex_loop_length fromHex_loop_error split: sum.splits)

text \<open>
  The sign that \<open>strtoul\<close> takes makes \<open>fromHex\<close> accept an input with a character that
  is no hexadecimal digit: \<open>-1\<close> decodes to the byte 255.
\<close>

theorem fromHex_accepts_sign: "fromHex ''-1'' = Inr [255]"
proof -
  have "str_rfind ''-1'' ''0x'' \<noteq> Some 0" by (rule rfind_no_x) simp
  then show ?thesis
    by (simp add: fromHex_def fromHex_piece_pair piece_value_def hex_val_def isspace_def)
qed

section \<open>Random bytes\<close>

text \<open>
  \<open>RAND_bytes\<close> takes the number of bytes as an \<open>int\<close>; it returns the status and what
  it wrote.  The vector has the requested length whatever the call is told.
\<close>

definition ossl_RAND_bytes :: "(int \<Rightarrow> int \<times> bytes) \<Rightarrow> bytes \<Rightarrow> int \<Rightarrow> bytes res" where
  [ossl_simps]: "ossl_RAND_bytes RAND buf num =
     (let (rv, out) = RAND num in bindR (OpensslCallIsOne rv) (\<lambda>_. Inr (overwrite buf out)))"

definition cryptoRandomBytes :: "(int \<Rightarrow> int \<times> bytes) \<Rightarrow> nat \<Rightarrow> bytes res" where
  "cryptoRandomBytes RAND len = ossl_RAND_bytes RAND (replicate len 0) (to_int len)"

definition rand_law :: "(int \<Rightarrow> int \<times> bytes) \<Rightarrow> bool" where
  "rand_law RAND \<longleftrightarrow> (\<forall>n \<ge> 0. fst (RAND n) = 1 \<and> length (snd (RAND n)) = nat n)"

text \<open>
  A request for up to \<open>INT_MAX\<close> bytes returns exactly what the generator produced; a
  request for \<open>2 ^ 32 + k\<close> bytes succeeds with only \<open>k\<close> random bytes, every byte after
  them being zero.
\<close>

theorem cryptoRandomBytes_length_narrowing:
  assumes "rand_law RAND" and "int k \<le> INT_MAX"
  shows "cryptoRandomBytes RAND k = Inr (snd (RAND (int k)))
     \<and> cryptoRandomBytes RAND (4294967296 + k) = Inr (snd (RAND (int k)) @ replicate 4294967296 0)"
proof -
  have r: "fst (RAND (int k)) = 1" "length (snd (RAND (int k))) = k"
    using assms(1) by (simp_all add: rand_law_def)
  have n: "to_int (4294967296 + k) = int k" using assms(2) by (rule to_int_wrap)
  show ?thesis
    unfolding cryptoRandomBytes_def ossl_RAND_bytes_def n to_int_small [OF assms(2)]
    using r by (simp add: case_prod_beta overwrite_def add.commute)
qed

theorem cryptoRandomBytes_length_narrowing_witness:
  "cryptoRandomBytes (\<lambda>n. (1, replicate (nat n) 5)) 4294967298
     = Inr ([5, 5] @ replicate 4294967296 0)"
  using cryptoRandomBytes_length_narrowing [of "\<lambda>n. (1, replicate (nat n) 5)" 2]
  by (simp add: rand_law_def INT_MAX_def numeral_2_eq_2)

end
