(* ===== verification/Pem_Format.thy ===== *)
theory Pem_Format
  imports Cxx_Strings
begin

text \<open>
  PEM text handling: \<open>splitPEMChain\<close> of \<open>src/src/format_utils.h\<close> and the reformatting
  of a single certificate, \<open>reformatPEMCertificate\<close> of \<open>src/src/x509.cpp\<close>.

  The loop of \<open>splitPEMChain\<close> is \<open>splitPEMChain_loop\<close>; one round of it is
  \<open>splitPEMChain_step\<close>, which throws, leaves the loop (\<open>None\<close>) or gives the next
  element and the position after it.  Termination is the progress lemma
  \<open>splitPEMChain_step_progress\<close>.
\<close>

section \<open>splitPEMChain\<close>

definition err_end_of_chain :: exn where
  "err_end_of_chain =
     MoCOCrWException [Str ''PEM Chain invalid. Invalid characters at end of chain'']"

definition err_before_element :: "nat \<Rightarrow> exn" where
  "err_before_element index =
     MoCOCrWException [Str ''PEM Chain invalid. Invalid characters before element '', Num (int index)]"

definition err_no_end_marker :: "nat \<Rightarrow> exn" where
  "err_no_end_marker index =
     MoCOCrWException [Str ''PEM chain invalid. Element '', Num (int index), Str '' has no end marker'']"

definition err_empty_element :: "nat \<Rightarrow> exn" where
  "err_empty_element index =
     MoCOCrWException [Str ''PEM chain invalid. Element '', Num (int index), Str '' appears to be empty'']"

definition splitPEMChain_step ::
  "string \<Rightarrow> string \<Rightarrow> string \<Rightarrow> nat \<Rightarrow> nat \<Rightarrow> (string \<times> nat) option res" where
  "splitPEMChain_step pemChain beginMarker endMarker pos index =
     (case str_find pemChain beginMarker pos of
        None \<Rightarrow>
          bindR (str_substr pemChain pos (length pemChain)) (\<lambda>rest.
            if str_find_first_not_of rest ws 0 \<noteq> None then Inl err_end_of_chain else Inr None)
      | Some nextBeginPos \<Rightarrow>
          bindR (str_substr pemChain pos (nextBeginPos - pos)) (\<lambda>between.
            if nextBeginPos \<noteq> pos \<and> str_find_first_not_of between ws 0 \<noteq> None
            then Inl (err_before_element index)
            else
              (case str_find_first_not_of pemChain ws (nextBeginPos + length beginMarker) of
                 None \<Rightarrow> Inl (err_no_end_marker index)
               | Some encodedPemBeginPos \<Rightarrow>
                   (case str_find pemChain endMarker encodedPemBeginPos of
                      None \<Rightarrow> Inl (err_no_end_marker index)
                    | Some nextEndPos \<Rightarrow>
                        bindR (str_substr pemChain encodedPemBeginPos
                                 (nextEndPos - encodedPemBeginPos)) (\<lambda>encodedPem.
                          (case str_find_last_not_of encodedPem ws of
                             None \<Rightarrow> Inl (err_empty_element index)
                           | Some lastNonWhitespace \<Rightarrow>
                               Inr (Some (beginMarker @ [nl] @
                                          take (lastNonWhitespace + 1) encodedPem @ [nl] @ endMarker,
                                          nextEndPos + length endMarker))))))))"

lemma str_find_first_not_of_Some:
  assumes "str_find_first_not_of s cs pos = Some k"
  shows "pos \<le> k" and "k < length s" and "s ! k \<notin> set cs"
proof -
  from assms have f: "find_not_of cs (drop pos s) pos = Some k"
    by (simp add: str_find_first_not_of_def)
  note F = find_not_of_Some [OF f]
  show "pos \<le> k" using F by simp
  from F have "k - pos < length s - pos" by simp
  with \<open>pos \<le> k\<close> show "k < length s" by linarith
  with F \<open>pos \<le> k\<close> show "s ! k \<notin> set cs" by simp
qed

lemma splitPEMChain_step_progress:
  assumes "splitPEMChain_step chain b e pos index = Inr (Some (pem, pos'))"
  shows "pos < pos'" and "pos' \<le> length chain"
proof -
  from assms obtain n k m last enc where
      n: "str_find chain b pos = Some n"
    and k: "str_find_first_not_of chain ws (n + length b) = Some k"
    and m: "str_find chain e k = Some m"
    and enc: "str_substr chain k (m - k) = Inr enc"
    and last: "str_find_last_not_of enc ws = Some last"
    and pos': "pos' = m + length e"
    by (auto simp: splitPEMChain_step_def bindR_eq_Inr split: option.splits if_splits)
  have "pos \<le> n" using n by (rule str_find_Some)
  have "n + length b \<le> k" using k by (rule str_find_first_not_of_Some)
  have "last < length enc" using last by (rule find_last_not_of_Some)
  moreover have "length enc \<le> m - k"
    using enc by (auto simp: str_substr_def split: if_splits)
  ultimately have "k < m" by simp
  with \<open>pos \<le> n\<close> \<open>n + length b \<le> k\<close> pos' show "pos < pos'" by simp
  show "pos' \<le> length chain" using str_find_Some(2) [OF m] pos' by simp
qed

function splitPEMChain_loop ::
  "string \<Rightarrow> string \<Rightarrow> string \<Rightarrow> nat \<Rightarrow> nat \<Rightarrow> string list \<Rightarrow> string list res" where
  "splitPEMChain_loop pemChain b e pos index pemList =
     (if pos < length pemChain then
        (case splitPEMChain_step pemChain b e pos index of
           Inl ex \<Rightarrow> Inl ex
         | Inr None \<Rightarrow> Inr pemList
         | Inr (Some (pem, pos')) \<Rightarrow>
             splitPEMChain_loop pemChain b e pos' (index + 1) (pemList @ [pem]))
      else Inr pemList)"
  by pat_completeness auto
termination
proof (relation "measure (\<lambda>(chain, b, e, pos, index, acc). length chain - pos)", goal_cases)
  case 1
  show ?case by simp
next
  case (2 chain b e pos index acc r x2 pem pos')
  then have "splitPEMChain_step chain b e pos index = Inr (Some (pem, pos'))" by simp
  from splitPEMChain_step_progress [OF this] 2 show ?case by simp
qed

declare splitPEMChain_loop.simps [simp del]

definition splitPEMChain :: "string \<Rightarrow> string \<Rightarrow> string \<Rightarrow> string list res" where
  "splitPEMChain pemChain beginMarker endMarker =
     splitPEMChain_loop pemChain beginMarker endMarker 0 0 []"

section \<open>Splitting recovers the elements of a chain\<close>

text \<open>
  One element as it may stand in a chain: white space before the begin marker, after it and
  before the end marker, around a trimmed, non-empty body that does not contain the first
  character of the end marker (base64 has no dash).
\<close>

record pem_item =
  lead :: string
  gap :: string
  body :: string
  trail :: string

definition is_ws :: "string \<Rightarrow> bool" where
  "is_ws s = (set s \<subseteq> set ws)"

definition render_item :: "string \<Rightarrow> string \<Rightarrow> pem_item \<Rightarrow> string" where
  "render_item b e it = lead it @ b @ gap it @ body it @ trail it @ e"

definition canonical :: "string \<Rightarrow> string \<Rightarrow> string \<Rightarrow> string" where
  "canonical b e x = b @ [nl] @ x @ [nl] @ e"

definition wf_markers :: "string \<Rightarrow> string \<Rightarrow> bool" where
  "wf_markers b e = (b \<noteq> [] \<and> e \<noteq> [] \<and> hd b \<notin> set ws \<and> hd e \<notin> set ws)"

definition wf_item :: "string \<Rightarrow> pem_item \<Rightarrow> bool" where
  "wf_item e it =
     (is_ws (lead it) \<and> is_ws (gap it) \<and> is_ws (trail it) \<and> body it \<noteq> []
      \<and> hd (body it) \<notin> set ws \<and> last (body it) \<notin> set ws \<and> hd e \<notin> set (body it))"

lemma find_not_of_ws: "is_ws s \<Longrightarrow> str_find_first_not_of s ws 0 = None"
  by (simp add: str_find_first_not_of_def find_not_of_None is_ws_def)

lemma find_first_at:
  assumes "is_ws g" "x \<notin> set ws"
  shows "str_find_first_not_of (pre @ g @ x # s) ws (length pre) = Some (length pre + length g)"
  using assms by (simp add: str_find_first_not_of_def find_not_of_skip is_ws_def)

lemma splitPEMChain_step_item:
  assumes m: "wf_markers b e" and it: "wf_item e it"
  shows "splitPEMChain_step (pre @ render_item b e it @ post) b e (length pre) index =
     Inr (Some (canonical b e (body it), length (pre @ render_item b e it)))"
proof -
  let ?chain = "pre @ render_item b e it @ post"
  let ?n = "length pre + length (lead it)"
  let ?k = "?n + length b + length (gap it)"
  let ?m = "?k + length (body it) + length (trail it)"
  obtain x bs where x: "body it = x # bs" "x \<notin> set ws"
    using it by (cases "body it") (auto simp: wf_item_def)
  have find_b: "str_find ?chain b (length pre) = Some ?n"
  proof (rule str_find_at)
    show "b \<noteq> []" "hd b \<notin> set (lead it)"
      using m it by (auto simp: wf_markers_def wf_item_def is_ws_def)
    show "?chain = pre @ lead it @ b @ (gap it @ body it @ trail it @ e @ post)"
      by (simp add: render_item_def)
  qed simp
  have between: "str_substr ?chain (length pre) (?n - length pre) = Inr (lead it)"
    by (simp add: str_substr_def render_item_def)
  have find_body: "str_find_first_not_of ?chain ws (?n + length b) = Some ?k"
    using find_first_at [of "gap it" x "pre @ lead it @ b" "bs @ trail it @ e @ post"] it x
    by (simp add: wf_item_def render_item_def ac_simps)
  have find_e: "str_find ?chain e ?k = Some ?m"
  proof -
    have "str_find ?chain e ?k = Some (?k + length (body it @ trail it))"
    proof (rule str_find_at)
      show "e \<noteq> []" "hd e \<notin> set (body it @ trail it)"
        using m it by (auto simp: wf_markers_def wf_item_def is_ws_def)
      show "?chain = (pre @ lead it @ b @ gap it) @ (body it @ trail it) @ e @ post"
        by (simp add: render_item_def)
    qed simp
    then show ?thesis by simp
  qed
  have enc: "str_substr ?chain ?k (?m - ?k) = Inr (body it @ trail it)"
    by (simp add: str_substr_def render_item_def)
  have last: "str_find_last_not_of (body it @ trail it) ws = Some (length (body it) - 1)"
    using it by (intro find_last_not_of_append) (auto simp: wf_item_def is_ws_def)
  have "is_ws (lead it)" using it by (simp add: wf_item_def)
  then have lead: "str_find_first_not_of (lead it) ws 0 = None" by (rule find_not_of_ws)
  have "length (body it) - 1 + 1 = length (body it)" using x by simp
  then have trim: "take (length (body it) - 1 + 1) (body it @ trail it) = body it" by simp
  have len: "length (pre @ render_item b e it) = ?m + length e" by (simp add: render_item_def)
  show ?thesis
    unfolding splitPEMChain_step_def find_b option.case between bindR_simps
    by (simp only: lead find_body find_e enc last trim len canonical_def option.case bindR_simps
        simp_thms if_False)
qed

lemma splitPEMChain_step_tail:
  assumes "wf_markers b e" "is_ws t"
  shows "splitPEMChain_step (pre @ t) b e (length pre) index = Inr None"
proof -
  have "hd b \<notin> set t" using assms by (auto simp: wf_markers_def is_ws_def)
  then have "str_find (pre @ t) b (length pre) = None"
    using assms(1) by (simp add: str_find_def find_prefix_absent wf_markers_def)
  then show ?thesis
    using find_not_of_ws [OF assms(2)] by (simp add: splitPEMChain_step_def str_substr_def)
qed

lemma splitPEMChain_loop_items:
  assumes m: "wf_markers b e" and t: "is_ws t"
  shows "list_all (wf_item e) items \<Longrightarrow>
     splitPEMChain_loop (pre @ concat (map (render_item b e) items) @ t) b e (length pre) index acc
     = Inr (acc @ map (\<lambda>it. canonical b e (body it)) items)"
proof (induction items arbitrary: pre index acc)
  case Nil
  show ?case
    using splitPEMChain_step_tail [OF m t, of pre index]
    by (simp add: splitPEMChain_loop.simps [of "pre @ t"])
next
  case (Cons it items)
  let ?post = "concat (map (render_item b e) items) @ t"
  let ?chain = "pre @ render_item b e it @ ?post"
  have step: "splitPEMChain_step ?chain b e (length pre) index =
      Inr (Some (canonical b e (body it), length (pre @ render_item b e it)))"
    using m Cons.prems by (intro splitPEMChain_step_item) simp_all
  have "length pre < length ?chain"
    using splitPEMChain_step_progress [OF step] by simp
  moreover have "splitPEMChain_loop ((pre @ render_item b e it) @ ?post) b e
      (length (pre @ render_item b e it)) (index + 1) (acc @ [canonical b e (body it)])
      = Inr ((acc @ [canonical b e (body it)]) @ map (\<lambda>it. canonical b e (body it)) items)"
    using Cons.prems by (intro Cons.IH) simp
  ultimately show ?case
    using step by (simp add: splitPEMChain_loop.simps [of ?chain])
qed

lemma splitPEMChain_items:
  assumes "wf_markers b e" and "list_all (wf_item e) items" and "is_ws t"
  shows "splitPEMChain (concat (map (render_item b e) items) @ t) b e
     = Inr (map (\<lambda>it. canonical b e (body it)) items)"
  using splitPEMChain_loop_items [OF assms(1,3,2), of "[]" 0 "[]"]
  by (simp add: splitPEMChain_def)

text \<open>
  C31: A chain written from well-formed elements, whatever white space surrounds the markers
  and bodies, is split into exactly those elements, in order, each with one newline after the
  begin marker and one before the end marker.
\<close>

theorem splitPEMChain_recovers:
  assumes "wf_markers b e" and "list_all (wf_item e) items" and "is_ws t"
  shows "splitPEMChain (concat (map (render_item b e) items) @ t) b e
     = Inr (map (\<lambda>it. canonical b e (body it)) items)"
  using assms by (rule splitPEMChain_items)

section \<open>Every element of a result is well formed\<close>

lemma splitPEMChain_step_shape:
  assumes "splitPEMChain_step chain b e pos index = Inr (Some (pem, pos'))"
  shows "\<exists>x. pem = canonical b e x \<and> x \<noteq> [] \<and> hd x \<notin> set ws \<and> last x \<notin> set ws"
proof -
  from assms obtain n k m l enc where
      k: "str_find_first_not_of chain ws (n + length b) = Some k"
    and m: "str_find chain e k = Some m"
    and enc: "str_substr chain k (m - k) = Inr enc"
    and last: "str_find_last_not_of enc ws = Some l"
    and pem: "pem = canonical b e (take (l + 1) enc)"
    by (auto simp: splitPEMChain_step_def canonical_def bindR_eq_Inr split: option.splits if_splits)
  have l: "l < length enc" "enc ! l \<notin> set ws"
    using find_last_not_of_Some [OF last] by simp_all
  have e: "enc = take (m - k) (drop k chain)"
    using enc by (auto simp: str_substr_def split: if_splits)
  have k': "k < length chain" "chain ! k \<notin> set ws"
    using str_find_first_not_of_Some [OF k] by simp_all
  have "enc \<noteq> []" using l by auto
  then have "hd enc = chain ! k"
    using e k'(1) by (simp add: hd_conv_nth)
  moreover have "last (take (l + 1) enc) = enc ! l"
    using l(1) by (simp add: take_Suc_conv_app_nth)
  ultimately show ?thesis
    using pem k'(2) l \<open>enc \<noteq> []\<close> by (intro exI [of _ "take (l + 1) enc"]) auto
qed

lemma splitPEMChain_loop_shape:
  assumes "splitPEMChain_loop chain b e pos index acc = Inr out"
    and "list_all P acc"
    and "\<And>pos index pem pos'. splitPEMChain_step chain b e pos index = Inr (Some (pem, pos')) \<Longrightarrow> P pem"
  shows "list_all P out"
  using assms
proof (induction chain b e pos index acc rule: splitPEMChain_loop.induct)
  case (1 chain b e pos index acc)
  show ?case
  proof (cases "pos < length chain")
    case False
    with 1 show ?thesis by (simp add: splitPEMChain_loop.simps [of chain])
  next
    case True
    consider (exn) ex where "splitPEMChain_step chain b e pos index = Inl ex"
      | (stop) "splitPEMChain_step chain b e pos index = Inr None"
      | (more) pem pos' where "splitPEMChain_step chain b e pos index = Inr (Some (pem, pos'))"
      by (metis sum.exhaust option.exhaust surj_pair)
    then show ?thesis
    proof cases
      case exn
      with True 1 show ?thesis by (simp add: splitPEMChain_loop.simps [of chain])
    next
      case stop
      with True 1 show ?thesis by (simp add: splitPEMChain_loop.simps [of chain])
    next
      case more
      have "P pem" using more by (rule "1.prems"(3))
      with more True 1 show ?thesis
        by (simp add: splitPEMChain_loop.simps [of chain b e pos])
    qed
  qed
qed

definition canonical_elem :: "string \<Rightarrow> string \<Rightarrow> string \<Rightarrow> bool" where
  "canonical_elem b e pem \<longleftrightarrow>
     (\<exists>x. pem = canonical b e x \<and> x \<noteq> [] \<and> hd x \<notin> set ws \<and> last x \<notin> set ws)"

text \<open>
  Whatever the input and the markers, splitting ends, and every element it returns is the
  begin marker, a non-empty body without white space at its ends, and the end marker, each
  separated by one newline.
\<close>

theorem splitPEMChain_elements_canonical:
  assumes "splitPEMChain chain b e = Inr pems"
  shows "list_all (canonical_elem b e) pems"
  using assms unfolding splitPEMChain_def canonical_elem_def
  by (elim splitPEMChain_loop_shape) (simp_all add: splitPEMChain_step_shape)

definition sample_items :: "pem_item list" where
  "sample_items =
     [\<lparr>lead = [CHR '' ''], gap = [nl], body = ''QUJD'', trail = [nl, nl]\<rparr>,
      \<lparr>lead = [nl], gap = [], body = ''RA=='', trail = []\<rparr>]"

lemma sample_items_wf: "wf_markers ''<'' ''>''" "list_all (wf_item ''>'') sample_items" "is_ws [nl]"
  by (simp_all add: wf_markers_def wf_item_def sample_items_def is_ws_def ws_def)

theorem splitPEMChain_recovers_witness:
  "splitPEMChain (concat (map (render_item ''<'' ''>'') sample_items) @ [nl]) ''<'' ''>''
     = Inr [canonical ''<'' ''>'' ''QUJD'', canonical ''<'' ''>'' ''RA=='']"
  using splitPEMChain_recovers [OF sample_items_wf] by (simp add: sample_items_def)

theorem splitPEMChain_elements_canonical_witness:
  "list_all (canonical_elem ''<'' ''>'') [canonical ''<'' ''>'' ''QUJD'', canonical ''<'' ''>'' ''RA=='']"
proof -
  have "splitPEMChain (concat (map (render_item ''<'' ''>'') sample_items) @ [nl]) ''<'' ''>''
     = Inr [canonical ''<'' ''>'' ''QUJD'', canonical ''<'' ''>'' ''RA=='']"
    using splitPEMChain_loop_items [OF sample_items_wf(1,3,2), of "[]" 0 "[]"]
    by (simp add: splitPEMChain_def sample_items_def)
  then show ?thesis by (rule splitPEMChain_elements_canonical)
qed

end
