(* ===== verification/Pem_Reformat.thy ===== *)
theory Pem_Reformat
  imports Cxx_Strings
begin

text \<open>
  \<open>reformatPEMCertificate\<close> of \<open>src/src/x509.cpp\<close> with its two marker helpers.  Positions
  are 64-bit words here, because the code adds a marker length to a position that may be
  \<open>npos\<close> and subtracts positions without a check; both wrap around.
\<close>

section \<open>The code\<close>

definition BEGIN_CERT :: string where "BEGIN_CERT = ''-----BEGIN CERTIFICATE-----''"
definition END_CERT :: string where "END_CERT = ''-----END CERTIFICATE-----''"

definition findStartOfNextMarker :: "string \<Rightarrow> string \<Rightarrow> size_t \<Rightarrow> size_t" where
  "findStartOfNextMarker pem marker start = pos_word (str_find pem marker (unat start))"

definition findEndOfNextMarker :: "string \<Rightarrow> string \<Rightarrow> size_t \<Rightarrow> size_t" where
  "findEndOfNextMarker pem marker start =
     findStartOfNextMarker pem marker start + word_of_nat (length marker)"

function split64 :: "string \<Rightarrow> string" where
  "split64 base64 =
     (if length base64 > 64 then take 64 base64 @ [nl] @ split64 (drop 64 base64) else base64)"
  by pat_completeness auto
termination
  by (relation "measure length") auto

declare split64.simps [simp del]

definition reformatPEMCertificate :: "string \<Rightarrow> string res" where
  "reformatPEMCertificate pem =
     (let endBeginMarker = findEndOfNextMarker pem BEGIN_CERT 0 in
      if endBeginMarker = npos then Inr pem
      else let startEndMarker = findStartOfNextMarker pem END_CERT endBeginMarker in
      if startEndMarker = npos then Inr pem
      else
        bindR (str_substr pem 0 (unat endBeginMarker)) (\<lambda>prevBase64.
        bindR (str_substr pem (unat startEndMarker) (unat npos)) (\<lambda>postBase64.
        bindR (str_substr pem (unat endBeginMarker)
                 (unat (startEndMarker - endBeginMarker - 1))) (\<lambda>base64.
          Inr (prevBase64 @ [nl] @ split64 (filter (\<lambda>x. \<not> isspace x) base64) @ [nl] @ postBase64)))))"

section \<open>Lines of at most 64 characters\<close>

fun lines :: "string \<Rightarrow> string list" where
  "lines [] = [[]]"
| "lines (c # cs) =
     (if c = nl then [] # lines cs
      else (case lines cs of [] \<Rightarrow> [[c]] | l # ls \<Rightarrow> (c # l) # ls))"

lemma lines_not_Nil: "lines s \<noteq> []"
  by (cases s) (auto split: list.splits)

lemma lines_append_nl: "nl \<notin> set xs \<Longrightarrow> lines (xs @ nl # ys) = xs # lines ys"
  by (induction xs) auto

lemma lines_single: "nl \<notin> set xs \<Longrightarrow> lines xs = [xs]"
  by (induction xs) auto

lemma isspace_nl: "isspace nl"
  by (simp add: isspace_def)

lemma lines_split64:
  "nl \<notin> set xs \<Longrightarrow> concat (lines (split64 xs)) = xs \<and> (\<forall>l \<in> set (lines (split64 xs)). length l \<le> 64)"
proof (induction xs rule: split64.induct)
  case (1 xs)
  show ?case
  proof (cases "length xs > 64")
    case True
    have "nl \<notin> set (take 64 xs)" "nl \<notin> set (drop 64 xs)"
      using 1(2) by (meson in_set_takeD in_set_dropD)+
    with True 1 show ?thesis
      by (simp add: split64.simps [of xs] lines_append_nl)
  next
    case False
    with 1 show ?thesis by (simp add: split64.simps [of xs] lines_single)
  qed
qed

lemma filter_split64:
  "filter (\<lambda>x. \<not> isspace x) (split64 xs) = filter (\<lambda>x. \<not> isspace x) xs"
proof (induction xs rule: split64.induct)
  case (1 xs)
  show ?case
  proof (cases "length xs > 64")
    case True
    have "filter (\<lambda>x. \<not> isspace x) xs =
        filter (\<lambda>x. \<not> isspace x) (take 64 xs) @ filter (\<lambda>x. \<not> isspace x) (drop 64 xs)"
      by (metis append_take_drop_id filter_append)
    with True 1 show ?thesis by (simp add: split64.simps [of xs] isspace_nl)
  next
    case False
    then show ?thesis by (simp add: split64.simps [of xs])
  qed
qed

lemma set_split64: "set (split64 xs) \<subseteq> insert nl (set xs)"
proof (induction xs rule: split64.induct)
  case (1 xs)
  show ?case
  proof (cases "length xs > 64")
    case True
    with 1 have "set (split64 (drop 64 xs)) \<subseteq> insert nl (set xs)"
      using set_drop_subset by fastforce
    with True show ?thesis
      by (auto simp: split64.simps [of xs] dest: in_set_takeD)
  next
    case False
    then show ?thesis by (auto simp: split64.simps [of xs])
  qed
qed

section \<open>A certificate text with a newline before the end marker\<close>

definition cert_text :: "string \<Rightarrow> string \<Rightarrow> string \<Rightarrow> string" where
  "cert_text pre b64 post = pre @ BEGIN_CERT @ b64 @ [nl] @ END_CERT @ post"

definition wf_cert_text :: "string \<Rightarrow> string \<Rightarrow> bool" where
  "wf_cert_text pre b64 =
     (str_find (pre @ BEGIN_CERT) BEGIN_CERT 0 = Some (length pre) \<and> CHR ''-'' \<notin> set b64)"

lemma find_prefix_ext:
  "find_prefix pat (xs @ pat) i = Some (i + length xs) \<Longrightarrow>
     find_prefix pat (xs @ pat @ s) i = Some (i + length xs)"
proof (induction xs arbitrary: i)
  case Nil
  show ?case by (simp add: find_prefix_here)
next
  case (Cons x xs)
  have "take (length pat) (x # xs @ pat) \<noteq> pat"
    using Cons.prems by (auto split: if_splits)
  moreover have "take (length pat) (x # xs @ pat @ s) = take (length pat) (x # xs @ pat)"
    using take_append [of "length pat" "x # xs @ pat" s] by simp
  ultimately show ?case
    using Cons.prems Cons.IH [of "Suc i"] by simp
qed

lemma markers: "length BEGIN_CERT = 27" "length END_CERT = 25" "END_CERT \<noteq> []"
  "hd END_CERT = CHR ''-''"
  by (simp_all add: BEGIN_CERT_def END_CERT_def)

lemma find_begin:
  assumes "wf_cert_text pre b64"
  shows "str_find (cert_text pre b64 post) BEGIN_CERT 0 = Some (length pre)"
  using assms find_prefix_ext [of BEGIN_CERT pre 0]
  by (simp add: wf_cert_text_def str_find_def cert_text_def)

lemma find_end:
  assumes "wf_cert_text pre b64"
  shows "str_find (cert_text pre b64 post) END_CERT (length pre + 27)
     = Some (length pre + 27 + length b64 + 1)"
proof -
  have "str_find (cert_text pre b64 post) END_CERT (length pre + 27)
      = Some (length pre + 27 + length (b64 @ [nl]))"
    by (rule str_find_at [of _ _ _ "pre @ BEGIN_CERT" post])
      (use assms in \<open>auto simp: markers wf_cert_text_def cert_text_def\<close>)
  then show ?thesis by simp
qed

lemma pos_word_Some: "n < 2 ^ 64 \<Longrightarrow> unat (pos_word (Some n)) = n"
  by (simp add: pos_word_def unat_of_nat_size_t)

lemma small_not_npos: "n < 2 ^ 64 - 1 \<Longrightarrow> word_of_nat n \<noteq> npos"
proof
  assume n: "n < 2 ^ 64 - 1" and "word_of_nat n = npos"
  then have "unat (word_of_nat n :: size_t) = 2 ^ 64 - 1"
    by (simp add: npos_def unat_max_size_t)
  with n show False by (simp add: unat_of_nat_size_t)
qed

lemma reformat_positions:
  assumes b: "findEndOfNextMarker pem BEGIN_CERT 0 = word_of_nat b"
    and e: "str_find pem END_CERT b = Some e" and "b < e" and small: "length pem < 2 ^ 63"
  shows "reformatPEMCertificate pem =
     Inr (take b pem @ [nl] @ split64 (filter (\<lambda>x. \<not> isspace x) (take (e - b - 1) (drop b pem)))
          @ [nl] @ drop e pem)"
proof -
  have len: "e + 25 \<le> length pem" using str_find_Some(2) [OF e] markers(2) by simp
  have ub: "unat (word_of_nat b :: size_t) = b" and ue: "unat (word_of_nat e :: size_t) = e"
    by (rule unat_of_nat_size_t; use small len \<open>b < e\<close> in simp)+
  have find_e: "findStartOfNextMarker pem END_CERT (word_of_nat b) = word_of_nat e"
    unfolding findStartOfNextMarker_def ub e by (simp add: pos_word_def)
  have "(word_of_nat e :: size_t) - word_of_nat b - 1 = word_of_nat (e - b - 1)"
    using \<open>b < e\<close> by (simp add: of_nat_diff)
  moreover have "unat (word_of_nat (e - b - 1) :: size_t) = e - b - 1"
    by (rule unat_of_nat_size_t) (use small len in simp)
  ultimately have d: "unat ((word_of_nat e :: size_t) - word_of_nat b - 1) = e - b - 1"
    by simp
  have nb: "word_of_nat b \<noteq> npos" and ne: "word_of_nat e \<noteq> npos"
    by (rule small_not_npos; use small len \<open>b < e\<close> in simp)+
  have "unat npos = 18446744073709551615" by (simp add: npos_def unat_max_size_t)
  then have post: "str_substr pem e (unat npos) = Inr (drop e pem)"
    using small len by (simp add: str_substr_def)
  have pre: "str_substr pem 0 b = Inr (take b pem)"
    and mid: "str_substr pem b (e - b - 1) = Inr (take (e - b - 1) (drop b pem))"
    using len \<open>b < e\<close> by (simp_all add: str_substr_def)
  show ?thesis
    unfolding reformatPEMCertificate_def Let_def b find_e
    by (simp only: nb ne ub ue d pre post mid if_False bindR_simps)
qed

lemma reformat_wf:
  assumes wf: "wf_cert_text pre b64" and small: "length (cert_text pre b64 post) < 2 ^ 63"
  shows "reformatPEMCertificate (cert_text pre b64 post) =
     Inr (cert_text pre ([nl] @ split64 (filter (\<lambda>x. \<not> isspace x) b64)) post)"
proof -
  have "findEndOfNextMarker (cert_text pre b64 post) BEGIN_CERT 0 = word_of_nat (length pre + 27)"
    using find_begin [OF wf, of post]
    by (simp add: findEndOfNextMarker_def findStartOfNextMarker_def pos_word_def markers)
  from reformat_positions [OF this find_end [OF wf] _ small] show ?thesis
    by (simp add: cert_text_def markers)
qed

text \<open>
  In a certificate text whose end marker follows a newline, the function touches nothing
  but the base64 part, and rewrites that to the same characters without white space in
  lines of at most 64 characters.
\<close>

theorem reformat_correct:
  assumes "wf_cert_text pre b64" and "length (cert_text pre b64 post) < 2 ^ 63"
  shows "\<exists>out. reformatPEMCertificate (cert_text pre b64 post) = Inr (cert_text pre ([nl] @ out) post)
     \<and> concat (lines out) = filter (\<lambda>x. \<not> isspace x) b64
     \<and> (\<forall>l \<in> set (lines out). length l \<le> 64)"
proof -
  have "nl \<notin> set (filter (\<lambda>x. \<not> isspace x) b64)" by (simp add: isspace_nl)
  from lines_split64 [OF this] reformat_wf [OF assms] show ?thesis by blast
qed

definition sample_b64 :: string where "sample_b64 = [nl, CHR ''A'', nl, CHR ''B'']"

lemma sample_wf: "wf_cert_text [] sample_b64"
  by (simp add: wf_cert_text_def str_find_def BEGIN_CERT_def sample_b64_def)

theorem reformat_correct_witness:
  "\<exists>out. reformatPEMCertificate (cert_text [] sample_b64 []) = Inr (cert_text [] ([nl] @ out) [])
     \<and> concat (lines out) = ''AB'' \<and> (\<forall>l \<in> set (lines out). length l \<le> 64)"
proof -
  have "length (cert_text [] sample_b64 []) < 2 ^ 63"
    by (simp add: cert_text_def markers sample_b64_def)
  from reformat_correct [OF sample_wf this]
  have "\<exists>out. reformatPEMCertificate (cert_text [] sample_b64 []) = Inr (cert_text [] ([nl] @ out) [])
     \<and> concat (lines out) = filter (\<lambda>x. \<not> isspace x) sample_b64
     \<and> (\<forall>l \<in> set (lines out). length l \<le> 64)" .
  moreover have "filter (\<lambda>x. \<not> isspace x) sample_b64 = ''AB''"
    by (simp add: sample_b64_def isspace_def)
  ultimately show ?thesis by simp
qed

lemma wf_reformatted:
  assumes "wf_cert_text pre b64"
  shows "wf_cert_text pre ([nl] @ split64 (filter (\<lambda>x. \<not> isspace x) b64))"
  using assms set_split64 [of "filter (\<lambda>x. \<not> isspace x) b64"]
  by (auto simp: wf_cert_text_def)

text \<open>
  Reformatting is idempotent on such texts: a second pass changes nothing.
\<close>

theorem reformat_idempotent:
  assumes "wf_cert_text pre b64" and "length (cert_text pre b64 post) < 2 ^ 63"
    and "reformatPEMCertificate (cert_text pre b64 post) = Inr out" and "length out < 2 ^ 63"
  shows "reformatPEMCertificate out = Inr out"
proof -
  let ?b = "filter (\<lambda>x. \<not> isspace x) b64"
  have out: "out = cert_text pre ([nl] @ split64 ?b) post"
    using assms(3) by (simp add: reformat_wf [OF assms(1,2)])
  have "filter (\<lambda>x. \<not> isspace x) ([nl] @ split64 ?b) = ?b"
    by (simp add: isspace_nl filter_split64)
  then show ?thesis
    using reformat_wf [OF wf_reformatted [OF assms(1)], of post] assms(4) out by simp
qed

theorem reformat_idempotent_witness:
  "reformatPEMCertificate (cert_text [] ''AB'' []) = Inr (cert_text [] (nl # ''AB'') [])
   \<and> reformatPEMCertificate (cert_text [] (nl # ''AB'') []) = Inr (cert_text [] (nl # ''AB'') [])"
proof -
  have wf: "wf_cert_text [] ''AB''"
    by (simp add: wf_cert_text_def str_find_def BEGIN_CERT_def)
  have small: "length (cert_text [] ''AB'' []) < 2 ^ 63"
    and small': "length (cert_text [] (nl # ''AB'') []) < 2 ^ 63"
    by (simp_all add: cert_text_def markers)
  have first: "reformatPEMCertificate (cert_text [] ''AB'' []) = Inr (cert_text [] (nl # ''AB'') [])"
    using reformat_wf [OF wf small] by (simp add: isspace_def split64.simps)
  show ?thesis
    using first reformat_idempotent [OF wf small first small'] by simp
qed

section \<open>Where the code departs from its comment\<close>

text \<open>
  The comment says that a text without the begin marker is returned as it is.  The guard
  compares \<open>npos + 27\<close> with \<open>npos\<close>, so it never fires: a text that has an end marker
  past position 26 but no begin marker is rewritten, as if its first 26 characters were the
  part up to a begin marker.
\<close>

theorem reformat_missing_begin_marker:
  assumes "str_find pem BEGIN_CERT 0 = None" and "str_find pem END_CERT 26 = Some e"
    and "26 < e" and "length pem < 2 ^ 63"
  shows "reformatPEMCertificate pem =
     Inr (take 26 pem @ [nl] @ split64 (filter (\<lambda>x. \<not> isspace x) (take (e - 27) (drop 26 pem)))
          @ [nl] @ drop e pem)"
proof -
  have "findEndOfNextMarker pem BEGIN_CERT 0 = word_of_nat 26"
    using assms(1) by (simp add: findEndOfNextMarker_def findStartOfNextMarker_def pos_word_def
        npos_def markers)
  from reformat_positions [OF this assms(2-4)] show ?thesis by simp
qed

theorem reformat_missing_begin_marker_witness:
  "str_find (replicate 30 CHR ''A'' @ END_CERT) BEGIN_CERT 0 = None \<and>
   reformatPEMCertificate (replicate 30 CHR ''A'' @ END_CERT)
     = Inr (replicate 26 CHR ''A'' @ [nl] @ ''AAA'' @ [nl] @ END_CERT)"
proof -
  let ?pem = "replicate 30 CHR ''A'' @ END_CERT"
  have 1: "str_find ?pem BEGIN_CERT 0 = None"
    and 2: "str_find ?pem END_CERT 26 = Some 30"
    by (simp_all add: str_find_def BEGIN_CERT_def END_CERT_def eval_nat_numeral)
  have 3: "(26::nat) < 30" and 4: "length ?pem < 2 ^ 63" by (simp_all add: markers)
  have mid: "split64 (filter (\<lambda>x. \<not> isspace x) (take (30 - 27) (drop 26 ?pem))) = ''AAA''"
    by (simp add: eval_nat_numeral isspace_def split64.simps)
  have "take 26 ?pem = replicate 26 CHR ''A''" and "drop 30 ?pem = END_CERT" by simp_all
  with mid 1 reformat_missing_begin_marker [OF 1 2 3 4] show ?thesis by simp
qed

text \<open>
  When the end marker follows the base64 data directly, without a newline in between, the
  last base64 character is lost: the code always leaves out the character before the end
  marker.
\<close>

theorem reformat_drops_character:
  assumes "b64 \<noteq> []" and "CHR ''-'' \<notin> set b64" and "length b64 < 2 ^ 62"
  shows "reformatPEMCertificate (BEGIN_CERT @ b64 @ END_CERT)
     = Inr (BEGIN_CERT @ [nl] @ split64 (filter (\<lambda>x. \<not> isspace x) (butlast b64)) @ [nl] @ END_CERT)"
proof -
  let ?pem = "BEGIN_CERT @ b64 @ END_CERT"
  have "str_find ?pem BEGIN_CERT 0 = Some 0"
    by (simp add: str_find_def find_prefix_here)
  then have b: "findEndOfNextMarker ?pem BEGIN_CERT 0 = word_of_nat 27"
    by (simp add: findEndOfNextMarker_def findStartOfNextMarker_def pos_word_def markers)
  have e: "str_find ?pem END_CERT 27 = Some (27 + length b64)"
    by (rule str_find_at [of _ _ _ BEGIN_CERT "[]"]) (use assms in \<open>auto simp: markers\<close>)
  have "27 < 27 + length b64" "length ?pem < 2 ^ 63"
    using assms by (simp_all add: markers)
  from reformat_positions [OF b e this] show ?thesis
    by (simp add: markers butlast_conv_take)
qed

theorem reformat_drops_character_witness:
  "reformatPEMCertificate (BEGIN_CERT @ ''QUJD'' @ END_CERT)
     = Inr (BEGIN_CERT @ [nl] @ ''QUJ'' @ [nl] @ END_CERT)"
proof -
  have "length ''QUJD'' < 2 ^ 62" by simp
  from reformat_drops_character [OF _ _ this] show ?thesis
    by (simp add: isspace_def split64.simps)
qed

end
