(* ===== verification/Symmetric_Memory.thy ===== *)
theory Symmetric_Memory
  imports Moc_Prelude
begin

text \<open>
  The buffer between a cipher and its reader: the interface \<open>CipherMemoryStrategyI\<close> and
  its implementation \<open>QueueOfVectorsMemoryStrategy\<close>, a queue of chunks with a running
  byte count (\<open>src/src/symmetric_memory.cpp\<close>, \<open>src/src/mococrw/symmetric_memory.h\<close>).

  The locale \<open>memory_strategy\<close> is the interface: the abstract value of a strategy is the
  byte stream it still holds.  The queue implements it for every argument, including empty
  chunks, and its byte count never goes wrong.
\<close>

section \<open>The implementation\<close>

record queue_strategy =
  mem_queue :: "bytes list"
  totalBytesStored :: size_t

definition queue_new :: queue_strategy where
  "queue_new = \<lparr>mem_queue = [], totalBytesStored = 0\<rparr>"

definition queue_write :: "bytes \<Rightarrow> queue_strategy \<Rightarrow> queue_strategy" where
  "queue_write chunk s =
     s\<lparr>totalBytesStored := totalBytesStored s + word_of_nat (length chunk),
       mem_queue := mem_queue s @ [chunk]\<rparr>"

definition readCompleteBlock :: "queue_strategy \<Rightarrow> bytes \<times> queue_strategy" where
  "readCompleteBlock s =
     (let b = hd (mem_queue s)
      in (b, s\<lparr>mem_queue := tl (mem_queue s),
               totalBytesStored := totalBytesStored s - word_of_nat (length b)\<rparr>))"

definition readPartialBlock :: "nat \<Rightarrow> bytes \<Rightarrow> queue_strategy \<Rightarrow> bytes \<times> queue_strategy" where
  "readPartialBlock requestedSize output s =
     (let b = hd (mem_queue s)
      in (output @ take requestedSize b,
          s\<lparr>mem_queue := drop requestedSize b # tl (mem_queue s),
            totalBytesStored := totalBytesStored s - word_of_nat requestedSize\<rparr>))"

function readAll_loop :: "bytes \<Rightarrow> queue_strategy \<Rightarrow> bytes \<times> queue_strategy" where
  "readAll_loop buf s =
     (if mem_queue s \<noteq> []
      then readAll_loop (buf @ hd (mem_queue s)) (s\<lparr>mem_queue := tl (mem_queue s)\<rparr>)
      else (buf, s))"
  by pat_completeness auto
termination
  by (relation "measure (\<lambda>(buf, s). length (mem_queue s))") auto

declare readAll_loop.simps [simp del]

definition queue_readAll :: "queue_strategy \<Rightarrow> bytes \<times> queue_strategy" where
  "queue_readAll s =
     (if length (mem_queue s) = 1
      then (hd (mem_queue s), s\<lparr>mem_queue := [], totalBytesStored := 0\<rparr>)
      else (let (buf, t) = readAll_loop [] s
            in (buf, t\<lparr>totalBytesStored := totalBytesStored t - word_of_nat (length buf)\<rparr>)))"

text \<open>The \<open>while\<close> loop of \<open>read\<close>: whole blocks as long as they fit.\<close>

function read_blocks :: "nat \<Rightarrow> bytes \<Rightarrow> queue_strategy \<Rightarrow> bytes \<times> queue_strategy" where
  "read_blocks n buf s =
     (if mem_queue s \<noteq> [] \<and> length (hd (mem_queue s)) \<le> n - length buf
      then (let (b, t) = readCompleteBlock s in read_blocks n (buf @ b) t)
      else (buf, s))"
  by pat_completeness auto
termination
  by (relation "measure (\<lambda>(n, buf, s). length (mem_queue s))")
    (auto simp: readCompleteBlock_def Let_def)

declare read_blocks.simps [simp del]

definition queue_read :: "nat \<Rightarrow> queue_strategy \<Rightarrow> bytes \<times> queue_strategy" where
  "queue_read n s =
     (if mem_queue s = [] then ([], s)
      else if length (hd (mem_queue s)) = n then readCompleteBlock s
      else if length (hd (mem_queue s)) > n then readPartialBlock n [] s
      else if length (mem_queue s) = 1 then queue_readAll s
      else (let (buf, t) = read_blocks n [] s
            in if length buf < n \<and> mem_queue t \<noteq> []
               then readPartialBlock (n - length buf) buf t
               else (buf, t)))"

section \<open>The interface\<close>

datatype mem_op = Write bytes | Read nat | ReadAll

fun mem_run ::
  "(bytes \<Rightarrow> 's \<Rightarrow> 's) \<Rightarrow> (nat \<Rightarrow> 's \<Rightarrow> bytes \<times> 's) \<Rightarrow> ('s \<Rightarrow> bytes \<times> 's)
     \<Rightarrow> mem_op list \<Rightarrow> 's \<Rightarrow> bytes list \<times> 's" where
  "mem_run w r ra [] s = ([], s)"
| "mem_run w r ra (Write c # ops) s = mem_run w r ra ops (w c s)"
| "mem_run w r ra (Read n # ops) s =
     (let (b, t) = r n s; (bs, u) = mem_run w r ra ops t in (b # bs, u))"
| "mem_run w r ra (ReadAll # ops) s =
     (let (b, t) = ra s; (bs, u) = mem_run w r ra ops t in (b # bs, u))"

fun written :: "mem_op list \<Rightarrow> bytes" where
  "written [] = []"
| "written (Write c # ops) = c @ written ops"
| "written (Read n # ops) = written ops"
| "written (ReadAll # ops) = written ops"

locale memory_strategy =
  fixes new :: "'s"
    and mwrite :: "bytes \<Rightarrow> 's \<Rightarrow> 's"
    and mread :: "nat \<Rightarrow> 's \<Rightarrow> bytes \<times> 's"
    and mreadAll :: "'s \<Rightarrow> bytes \<times> 's"
    and contents :: "'s \<Rightarrow> bytes"
    and invar :: "'s \<Rightarrow> bool"
  assumes invar_new: "invar new"
    and contents_new: "contents new = []"
    and invar_write: "invar s \<Longrightarrow> invar (mwrite c s)"
    and contents_write: "invar s \<Longrightarrow> contents (mwrite c s) = contents s @ c"
    and read_spec: "invar s \<Longrightarrow> mread n s = (b, t) \<Longrightarrow>
          b = take n (contents s) \<and> contents t = drop n (contents s) \<and> invar t"
    and readAll_spec: "invar s \<Longrightarrow> mreadAll s = (b, t) \<Longrightarrow>
          b = contents s \<and> contents t = [] \<and> invar t"
begin

lemma run_stream:
  "invar s \<Longrightarrow> mem_run mwrite mread mreadAll ops s = (outs, t) \<Longrightarrow>
     invar t \<and> concat outs @ contents t = contents s @ written ops"
proof (induction ops arbitrary: s outs t)
  case Nil
  then show ?case by simp
next
  case (Cons op ops)
  show ?case
  proof (cases op)
    case (Write c)
    with Cons have "invar t \<and> concat outs @ contents t = contents (mwrite c s) @ written ops"
      by (intro Cons.IH) (auto simp: invar_write)
    with Write Cons.prems(1) show ?thesis by (simp add: contents_write)
  next
    case (Read n)
    obtain b u where r: "mread n s = (b, u)" by fastforce
    obtain bs v where m: "mem_run mwrite mread mreadAll ops u = (bs, v)" by fastforce
    note R = read_spec [OF Cons.prems(1) r]
    from R m have "invar v \<and> concat bs @ contents v = contents u @ written ops"
      by (intro Cons.IH) auto
    with Read R r m Cons.prems(2) show ?thesis
      by auto
  next
    case ReadAll
    obtain b u where r: "mreadAll s = (b, u)" by fastforce
    obtain bs v where m: "mem_run mwrite mread mreadAll ops u = (bs, v)" by fastforce
    note R = readAll_spec [OF Cons.prems(1) r]
    from R m have "invar v \<and> concat bs @ contents v = contents u @ written ops"
      by (intro Cons.IH) auto
    with ReadAll R r m Cons.prems(2) show ?thesis by auto
  qed
qed

end

section \<open>The queue implements the interface\<close>

definition queue_contents :: "queue_strategy \<Rightarrow> bytes" where
  "queue_contents s = concat (mem_queue s)"

text \<open>The count is the number of stored bytes, modulo the range of \<open>size_t\<close>.\<close>

definition queue_invar :: "queue_strategy \<Rightarrow> bool" where
  "queue_invar s = (totalBytesStored s = word_of_nat (length (queue_contents s)))"

lemma readCompleteBlock_spec:
  assumes "queue_invar s" "mem_queue s \<noteq> []" "readCompleteBlock s = (b, t)"
  shows "b = hd (mem_queue s) \<and> mem_queue t = tl (mem_queue s) \<and> queue_invar t"
  using assms
  by (cases "mem_queue s") (auto simp: readCompleteBlock_def queue_invar_def queue_contents_def)

lemma readPartialBlock_spec:
  assumes "queue_invar s" "mem_queue s \<noteq> []" "n < length (hd (mem_queue s))"
    and "readPartialBlock n out s = (b, t)"
  shows "b = out @ take n (queue_contents s) \<and> queue_contents t = drop n (queue_contents s)
    \<and> queue_invar t"
proof (cases "mem_queue s")
  case Nil
  with assms show ?thesis by simp
next
  case (Cons c cs)
  then have "word_of_nat (length c - n) = (word_of_nat (length c) - word_of_nat n :: size_t)"
    using assms(3) by (simp add: of_nat_diff)
  with Cons assms show ?thesis
    by (auto simp: readPartialBlock_def queue_invar_def queue_contents_def)
qed

lemma readAll_loop_spec:
  "readAll_loop buf s = (b, t) \<Longrightarrow>
     b = buf @ queue_contents s \<and> mem_queue t = [] \<and> totalBytesStored t = totalBytesStored s"
proof (induction buf s rule: readAll_loop.induct)
  case (1 buf s)
  show ?case
  proof (cases "mem_queue s")
    case Nil
    with 1(2) show ?thesis by (auto simp: readAll_loop.simps [of buf s] queue_contents_def)
  next
    case (Cons c cs)
    with 1 show ?thesis by (auto simp: readAll_loop.simps [of buf s] queue_contents_def)
  qed
qed

lemma queue_readAll_spec:
  assumes "queue_invar s" "queue_readAll s = (b, t)"
  shows "b = queue_contents s \<and> queue_contents t = [] \<and> queue_invar t"
proof (cases "length (mem_queue s) = 1")
  case True
  then obtain c where "mem_queue s = [c]" by (cases "mem_queue s") auto
  with assms show ?thesis
    by (auto simp: queue_readAll_def queue_contents_def queue_invar_def)
next
  case False
  obtain buf u where l: "readAll_loop [] s = (buf, u)" by fastforce
  from readAll_loop_spec [OF l] False assms l show ?thesis
    by (auto simp: queue_readAll_def queue_contents_def queue_invar_def)
qed

lemma read_blocks_spec:
  "queue_invar s \<Longrightarrow> length buf \<le> n \<Longrightarrow> read_blocks n buf s = (b, t) \<Longrightarrow>
     queue_invar t \<and> b @ queue_contents t = buf @ queue_contents s \<and> length b \<le> n
     \<and> (mem_queue t = [] \<or> n - length b < length (hd (mem_queue t)))"
proof (induction n buf s rule: read_blocks.induct)
  case (1 n buf s)
  show ?case
  proof (cases "mem_queue s \<noteq> [] \<and> length (hd (mem_queue s)) \<le> n - length buf")
    case False
    with 1 show ?thesis by (auto simp: read_blocks.simps [of n buf s])
  next
    case True
    obtain c u where r: "readCompleteBlock s = (c, u)" by fastforce
    note R = readCompleteBlock_spec [OF "1.prems"(1) _ r]
    from True R have c: "queue_contents s = c @ queue_contents u"
      by (cases "mem_queue s") (auto simp: queue_contents_def)
    have "queue_invar t \<and> b @ queue_contents t = (buf @ c) @ queue_contents u \<and> length b \<le> n
       \<and> (mem_queue t = [] \<or> n - length b < length (hd (mem_queue t)))"
      using True R r "1.prems"
      by (intro "1.IH" [OF True r [symmetric] refl]) (auto simp: read_blocks.simps [of n buf s])
    with c show ?thesis by simp
  qed
qed

lemma take_drop_split: "xs @ ys = zs \<Longrightarrow> length xs \<le> n \<Longrightarrow>
   take n zs = xs @ take (n - length xs) ys \<and> drop n zs = drop (n - length xs) ys"
  by auto

lemma queue_read_spec:
  assumes inv: "queue_invar s" and rd: "queue_read n s = (b, t)"
  shows "b = take n (queue_contents s) \<and> queue_contents t = drop n (queue_contents s)
    \<and> queue_invar t"
proof (cases "mem_queue s")
  case Nil
  with assms show ?thesis by (auto simp: queue_read_def queue_contents_def)
next
  case (Cons c cs)
  consider (exact) "length c = n" | (partial) "length c > n"
    | (all) "length c < n" "cs = []" | (blocks) "length c < n" "cs \<noteq> []"
    by linarith
  then show ?thesis
  proof cases
    case exact
    with Cons rd have r: "readCompleteBlock s = (b, t)" by (simp add: queue_read_def)
    from readCompleteBlock_spec [OF inv _ r] Cons exact show ?thesis
      by (simp add: queue_contents_def)
  next
    case partial
    with Cons rd have "readPartialBlock n [] s = (b, t)" by (simp add: queue_read_def)
    with readPartialBlock_spec [OF inv] Cons partial show ?thesis by fastforce
  next
    case all
    with Cons rd have "queue_readAll s = (b, t)" by (simp add: queue_read_def)
    from queue_readAll_spec [OF inv this] Cons all show ?thesis
      by (simp add: queue_contents_def)
  next
    case blocks
    obtain buf u where m: "read_blocks n [] s = (buf, u)" by fastforce
    have R: "queue_invar u" "buf @ queue_contents u = queue_contents s" "length buf \<le> n"
      "mem_queue u = [] \<or> n - length buf < length (hd (mem_queue u))"
      using read_blocks_spec [OF inv _ m] by simp_all
    note split = take_drop_split [OF R(2,3)]
    show ?thesis
    proof (cases "length buf < n \<and> mem_queue u \<noteq> []")
      case True
      with Cons rd blocks m have "readPartialBlock (n - length buf) buf u = (b, t)"
        by (simp add: queue_read_def)
      with readPartialBlock_spec [OF R(1)] True R(4) split show ?thesis by metis
    next
      case False
      with Cons rd blocks m have "b = buf" "t = u" by (simp_all add: queue_read_def)
      moreover from False R have "n - length buf = 0 \<or> queue_contents u = []"
        by (auto simp: queue_contents_def)
      ultimately show ?thesis using split R by auto
    qed
  qed
qed

interpretation qmem: memory_strategy queue_new queue_write queue_read queue_readAll
  queue_contents queue_invar
proof
  show "queue_invar queue_new" "queue_contents queue_new = []"
    by (simp_all add: queue_invar_def queue_contents_def queue_new_def)
  show "queue_invar (queue_write c s)" if "queue_invar s" for s c
    using that by (simp add: queue_invar_def queue_contents_def queue_write_def)
  show "queue_contents (queue_write c s) = queue_contents s @ c" for s c
    by (simp add: queue_contents_def queue_write_def)
qed (use queue_read_spec queue_readAll_spec in blast)+

text \<open>
  C8: Refinement of the three operations of \<open>QueueOfVectorsMemoryStrategy\<close> to a stream of
  bytes: whatever chunks the queue holds, \<open>read\<close> returns the first \<open>n\<close> bytes (all of them if
  there are fewer) and leaves the rest, \<open>readAll\<close> returns all bytes and leaves none, and
  \<open>write\<close> appends; each keeps the byte count exact.
\<close>

theorem queue_read_refines:
  assumes "queue_invar s"
  shows "fst (queue_read n s) = take n (queue_contents s)
    \<and> queue_contents (snd (queue_read n s)) = drop n (queue_contents s)
    \<and> queue_invar (snd (queue_read n s))
    \<and> fst (queue_readAll s) = queue_contents s
    \<and> queue_contents (snd (queue_readAll s)) = []
    \<and> queue_invar (snd (queue_readAll s))
    \<and> queue_contents (queue_write c s) = queue_contents s @ c
    \<and> queue_invar (queue_write c s)"
  using qmem.read_spec [OF assms prod.collapse [symmetric], of n]
    qmem.readAll_spec [OF assms prod.collapse [symmetric]]
    qmem.contents_write [OF assms] qmem.invar_write [OF assms]
  by simp

theorem queue_read_refines_witness:
  "fst (queue_read 3 (queue_write [4, 5, 6] (queue_write [] (queue_write [1, 2] queue_new)))) = [1, 2, 4]
   \<and> fst (queue_readAll (queue_write [4, 5, 6] (queue_write [] (queue_write [1, 2] queue_new)))) = [1, 2, 4, 5, 6]"
proof -
  let ?s = "queue_write [4, 5, 6] (queue_write [] (queue_write [1, 2] queue_new))"
  have "queue_invar ?s"
    by (intro qmem.invar_write qmem.invar_new)
  moreover have "queue_contents ?s = [1, 2, 4, 5, 6]"
    by (simp add: queue_contents_def queue_write_def queue_new_def)
  ultimately show ?thesis using queue_read_refines [of ?s 3] by simp
qed

text \<open>
  C34: No byte is lost, duplicated or reordered by any interleaving of writes and reads: what
  the reads returned, followed by what is still stored, is exactly what was written.
\<close>

theorem queue_stream:
  "\<exists>outs t. mem_run queue_write queue_read queue_readAll ops queue_new = (outs, t)
     \<and> concat outs @ queue_contents t = written ops
     \<and> totalBytesStored t = word_of_nat (length (queue_contents t))"
proof -
  obtain outs t where r: "mem_run queue_write queue_read queue_readAll ops queue_new = (outs, t)"
    by fastforce
  from qmem.run_stream [OF qmem.invar_new r] r show ?thesis
    by (simp add: qmem.contents_new queue_invar_def)
qed

end
