(* ===== verification/Hash_Ctx.thy ===== *)
theory Hash_Ctx
  imports Check_Call
begin

text \<open>
  \<open>src/src/hash.cpp\<close>: the incremental hash object and the one-shot helpers, over the
  digest functions of OpenSSL (the record \<open>digest_lib\<close>, a parameter).  A digest context is
  a value of type \<open>'c\<close>: the code owns each context through one \<open>unique_ptr\<close>.
\<close>

section \<open>OpenSSL digests and their wrappers\<close>

record 'c digest_lib =
  SSL_EVP_MD_CTX_create :: "'c option"
  SSL_EVP_MD_CTX_init :: "'c \<Rightarrow> 'c"
  SSL_EVP_DigestInit_ex :: "'c \<Rightarrow> EVP_MD \<Rightarrow> int \<times> 'c"
  SSL_EVP_DigestUpdate :: "'c \<Rightarrow> bytes \<Rightarrow> int \<times> 'c"
  SSL_EVP_DigestFinal_ex :: "'c \<Rightarrow> int \<times> bytes \<times> 'c"

definition ossl_EVP_MD_CTX_create :: "'c digest_lib \<Rightarrow> 'c res" where
  [ossl_simps]: "ossl_EVP_MD_CTX_create L = OpensslCallPtr (SSL_EVP_MD_CTX_create L)"

definition ossl_EVP_MD_CTX_init :: "'c digest_lib \<Rightarrow> 'c \<Rightarrow> 'c" where
  [ossl_simps]: "ossl_EVP_MD_CTX_init L ctx = SSL_EVP_MD_CTX_init L ctx"

definition ossl_EVP_DigestInit_ex :: "'c digest_lib \<Rightarrow> EVP_MD \<Rightarrow> ('c, unit) st" where
  [ossl_simps]: "ossl_EVP_DigestInit_ex L md ctx =
     checkS OpensslCallIsOne (SSL_EVP_DigestInit_ex L ctx md)"

definition ossl_EVP_DigestUpdate :: "'c digest_lib \<Rightarrow> bytes \<Rightarrow> ('c, unit) st" where
  [ossl_simps]: "ossl_EVP_DigestUpdate L d ctx =
     checkS OpensslCallIsOne (SSL_EVP_DigestUpdate L ctx d)"

text \<open>The digest is written to the caller's buffer, whatever the status.\<close>

definition ossl_EVP_DigestFinal_ex ::
  "'c digest_lib \<Rightarrow> bytes \<Rightarrow> 'c \<Rightarrow> unit res \<times> bytes \<times> 'c" where
  [ossl_simps]: "ossl_EVP_DigestFinal_ex L md ctx =
     (let (rv, out, ctx') = SSL_EVP_DigestFinal_ex L ctx
      in (bindR (OpensslCallIsOne rv) (\<lambda>_. Inr ()), overwrite md out, ctx'))"

section \<open>The hash object\<close>

definition lengthInBytes :: "DigestTypes \<rightharpoonup> nat" where
  "lengthInBytes =
     [SHA1 \<mapsto> 160 div 8, SHA256 \<mapsto> 256 div 8, SHA384 \<mapsto> 384 div 8, SHA512 \<mapsto> 512 div 8,
      SHA3_256 \<mapsto> 256 div 8, SHA3_384 \<mapsto> 384 div 8, SHA3_512 \<mapsto> 512 div 8]"

definition getDigestSize :: "DigestTypes \<Rightarrow> nat res" where
  "getDigestSize t = (case lengthInBytes t of None \<Rightarrow> Inl OutOfRange | Some n \<Rightarrow> Inr n)"

record 'c Hash =
  digestCtx :: 'c
  finalDigestValue :: bytes
  hashDigestType :: DigestTypes

definition Hash_new :: "'c digest_lib \<Rightarrow> DigestTypes \<Rightarrow> 'c Hash res" where
  "Hash_new L t =
     bindR (getMDPtrFromDigestType t) (\<lambda>digestFn.
     bindR (ossl_EVP_MD_CTX_create L) (\<lambda>ctx.
       (case ossl_EVP_DigestInit_ex L digestFn (ossl_EVP_MD_CTX_init L ctx) of
          (Inl e, _) \<Rightarrow> Inl e
        | (Inr _, ctx') \<Rightarrow>
            Inr \<lparr>digestCtx = ctx', finalDigestValue = [], hashDigestType = t\<rparr>)))"

definition fromDigestType :: "'c digest_lib \<Rightarrow> DigestTypes \<Rightarrow> 'c Hash res" where
  "fromDigestType L t = Hash_new L t"

definition Hash_digest :: "'c digest_lib \<Rightarrow> ('c Hash, bytes) st" where
  "Hash_digest L h =
     (if finalDigestValue h = [] then
        (case getDigestSize (hashDigestType h) of
           Inl e \<Rightarrow> (Inl e, h)
         | Inr n \<Rightarrow>
             (let (r, buf, ctx) =
                    ossl_EVP_DigestFinal_ex L (resize (finalDigestValue h) n) (digestCtx h);
                  h' = h\<lparr>digestCtx := ctx, finalDigestValue := buf\<rparr>
              in (bindR r (\<lambda>_. Inr buf), h')))
      else (Inr (finalDigestValue h), h))"

definition err_update_after_digest :: exn where
  "err_update_after_digest =
     MoCOCrWException [Str ''update method cannot be called after digest was called'']"

definition Hash_update :: "'c digest_lib \<Rightarrow> bytes \<Rightarrow> ('c Hash, unit) st" where
  "Hash_update L chunk h =
     (if finalDigestValue h \<noteq> [] then (Inl err_update_after_digest, h)
      else (let (r, ctx) = ossl_EVP_DigestUpdate L chunk (digestCtx h)
            in (r, h\<lparr>digestCtx := ctx\<rparr>)))"

text \<open>The overload for \<open>std::string\<close> hands the characters over as bytes.\<close>

definition Hash_update_string :: "'c digest_lib \<Rightarrow> string \<Rightarrow> ('c Hash, unit) st" where
  "Hash_update_string L chunk = Hash_update L (string_bytes chunk)"

definition Hash_sha1 :: "'c digest_lib \<Rightarrow> 'c Hash res" where "Hash_sha1 L = Hash_new L SHA1"
definition Hash_sha256 :: "'c digest_lib \<Rightarrow> 'c Hash res" where "Hash_sha256 L = Hash_new L SHA256"
definition Hash_sha384 :: "'c digest_lib \<Rightarrow> 'c Hash res" where "Hash_sha384 L = Hash_new L SHA384"
definition Hash_sha512 :: "'c digest_lib \<Rightarrow> 'c Hash res" where "Hash_sha512 L = Hash_new L SHA512"
definition Hash_sha3_256 :: "'c digest_lib \<Rightarrow> 'c Hash res" where "Hash_sha3_256 L = Hash_new L SHA3_256"
definition Hash_sha3_384 :: "'c digest_lib \<Rightarrow> 'c Hash res" where "Hash_sha3_384 L = Hash_new L SHA3_384"
definition Hash_sha3_512 :: "'c digest_lib \<Rightarrow> 'c Hash res" where "Hash_sha3_512 L = Hash_new L SHA3_512"

text \<open>The free functions \<open>sha1\<close> to \<open>sha3_512\<close>: a fresh object, one update, the digest.\<close>

definition hash_oneshot :: "'c digest_lib \<Rightarrow> 'c Hash res \<Rightarrow> bytes \<Rightarrow> bytes res" where
  "hash_oneshot L hash message =
     bindR hash (\<lambda>h. fst (bindS (Hash_update L message) (\<lambda>_. Hash_digest L) h))"

definition sha1 :: "'c digest_lib \<Rightarrow> bytes \<Rightarrow> bytes res" where
  "sha1 L = hash_oneshot L (Hash_sha1 L)"
definition sha256 :: "'c digest_lib \<Rightarrow> bytes \<Rightarrow> bytes res" where
  "sha256 L = hash_oneshot L (Hash_sha256 L)"
definition sha384 :: "'c digest_lib \<Rightarrow> bytes \<Rightarrow> bytes res" where
  "sha384 L = hash_oneshot L (Hash_sha384 L)"
definition sha512 :: "'c digest_lib \<Rightarrow> bytes \<Rightarrow> bytes res" where
  "sha512 L = hash_oneshot L (Hash_sha512 L)"
definition sha3_256 :: "'c digest_lib \<Rightarrow> bytes \<Rightarrow> bytes res" where
  "sha3_256 L = hash_oneshot L (Hash_sha3_256 L)"
definition sha3_384 :: "'c digest_lib \<Rightarrow> bytes \<Rightarrow> bytes res" where
  "sha3_384 L = hash_oneshot L (Hash_sha3_384 L)"
definition sha3_512 :: "'c digest_lib \<Rightarrow> bytes \<Rightarrow> bytes res" where
  "sha3_512 L = hash_oneshot L (Hash_sha3_512 L)"

text \<open>\<open>createHash\<close> of \<open>src/src/asymmetric_crypto_ctx.cpp\<close>.\<close>

fun createHash :: "'c digest_lib \<Rightarrow> DigestTypes \<Rightarrow> bytes \<Rightarrow> bytes res" where
  "createHash L SHA1 m = sha1 L m"
| "createHash L SHA256 m = sha256 L m"
| "createHash L SHA384 m = sha384 L m"
| "createHash L SHA512 m = sha512 L m"
| "createHash L SHA3_256 m = sha3_256 L m"
| "createHash L SHA3_384 m = sha3_384 L m"
| "createHash L SHA3_512 m = sha3_512 L m"
| "createHash L NONE m = Inl (MoCOCrWException [Str ''Unknown Hash Function''])"

lemmas sha_defs = sha1_def sha256_def sha384_def sha512_def sha3_256_def sha3_384_def sha3_512_def
  Hash_sha1_def Hash_sha256_def Hash_sha384_def Hash_sha512_def Hash_sha3_256_def Hash_sha3_384_def Hash_sha3_512_def

fun update_all :: "'c digest_lib \<Rightarrow> bytes list \<Rightarrow> ('c Hash, unit) st" where
  "update_all L [] h = (Inr (), h)"
| "update_all L (c # cs) h = bindS (Hash_update L c) (\<lambda>_. update_all L cs) h"

section \<open>What OpenSSL documents\<close>

text \<open>
  The documented behaviour of the EVP digest functions: a context carries the digest chosen
  at initialisation and the data hashed so far, every call succeeds, and the final call
  writes \<open>H md data\<close>, whose length is the digest's size.
\<close>

fun md_size :: "EVP_MD \<Rightarrow> nat" where
  "md_size EVP_sha1 = 20" | "md_size EVP_sha256 = 32" | "md_size EVP_sha384 = 48"
| "md_size EVP_sha512 = 64" | "md_size EVP_sha3_256 = 32" | "md_size EVP_sha3_384 = 48"
| "md_size EVP_sha3_512 = 64"

definition digest_lib_laws ::
  "'c digest_lib \<Rightarrow> ('c \<Rightarrow> EVP_MD \<times> bytes) \<Rightarrow> (EVP_MD \<Rightarrow> bytes \<Rightarrow> bytes) \<Rightarrow> bool" where
  "digest_lib_laws L absorbed H \<longleftrightarrow>
     SSL_EVP_MD_CTX_create L \<noteq> None
     \<and> (\<forall>c md. fst (SSL_EVP_DigestInit_ex L c md) = 1
            \<and> absorbed (snd (SSL_EVP_DigestInit_ex L c md)) = (md, []))
     \<and> (\<forall>c d. fst (SSL_EVP_DigestUpdate L c d) = 1
            \<and> absorbed (snd (SSL_EVP_DigestUpdate L c d)) =
              (fst (absorbed c), snd (absorbed c) @ d))
     \<and> (\<forall>c. fst (SSL_EVP_DigestFinal_ex L c) = 1
            \<and> fst (snd (SSL_EVP_DigestFinal_ex L c)) = H (fst (absorbed c)) (snd (absorbed c)))
     \<and> (\<forall>md m. length (H md m) = md_size md)"

lemma digest_size: "getMDPtrFromDigestType t = Inr md \<Longrightarrow> getDigestSize t = Inr (md_size md)"
  by (cases t) (auto simp: getDigestSize_def lengthInBytes_def)

lemma md_size_pos: "md_size md > 0"
  by (cases md) auto

section \<open>Life cycle, for any OpenSSL\<close>

lemma Hash_update_finished:
  "finalDigestValue h \<noteq> [] \<Longrightarrow> Hash_update L c h = (Inl err_update_after_digest, h)"
  by (simp add: Hash_update_def)

lemma Hash_digest_cached:
  "finalDigestValue h \<noteq> [] \<Longrightarrow> Hash_digest L h = (Inr (finalDigestValue h), h)"
  by (simp add: Hash_digest_def)

lemma getDigestSize_pos: "getDigestSize t = Inr n \<Longrightarrow> n > 0"
  by (cases t) (auto simp: getDigestSize_def lengthInBytes_def)

lemma Hash_digest_returns:
  assumes "Hash_digest L h = (Inr d, h')"
  shows "finalDigestValue h' = d" and "d \<noteq> []"
proof -
  from assms show f: "finalDigestValue h' = d"
    by (auto simp: Hash_digest_def bindR_eq_Inr Let_def split: if_splits sum.splits prod.splits)
  from assms show "d \<noteq> []"
    by (auto simp: Hash_digest_def ossl_EVP_DigestFinal_ex_def bindR_eq_Inr Let_def
        dest!: getDigestSize_pos arg_cong [where f = length] split: if_splits sum.splits prod.splits)
qed

text \<open>
  Once \<open>digest\<close> has returned a value, the object is frozen whatever OpenSSL does: every
  later \<open>digest\<close> returns the same value and every later \<open>update\<close> throws and changes
  nothing.
\<close>

theorem Hash_frozen_after_digest:
  assumes "Hash_digest L h = (Inr d, h')"
  shows "Hash_digest L h' = (Inr d, h') \<and> Hash_update L c h' = (Inl err_update_after_digest, h')"
  using Hash_digest_returns [OF assms] Hash_digest_cached [of h'] Hash_update_finished [of h']
  by simp

section \<open>Functional correctness\<close>

lemma Hash_new_laws:
  assumes "digest_lib_laws L absorbed H" and "getMDPtrFromDigestType t = Inr md"
  obtains h where "Hash_new L t = Inr h" "absorbed (digestCtx h) = (md, [])"
    "finalDigestValue h = []" "hashDigestType h = t"
proof -
  obtain c where c: "SSL_EVP_MD_CTX_create L = Some c"
    using assms(1) by (auto simp: digest_lib_laws_def)
  let ?h = "\<lparr>digestCtx = snd (SSL_EVP_DigestInit_ex L (SSL_EVP_MD_CTX_init L c) md),
     finalDigestValue = [], hashDigestType = t\<rparr>"
  have "Hash_new L t = Inr ?h" "absorbed (digestCtx ?h) = (md, [])"
    using assms c by (auto simp: Hash_new_def ossl_simps checkS_IsOne digest_lib_laws_def)
  then show thesis by (intro that [of ?h]) simp_all
qed

lemma update_all_laws:
  assumes "digest_lib_laws L absorbed H"
  shows "absorbed (digestCtx h) = (md, m) \<Longrightarrow> finalDigestValue h = [] \<Longrightarrow> hashDigestType h = t \<Longrightarrow>
     \<exists>h'. update_all L cs h = (Inr (), h') \<and> absorbed (digestCtx h') = (md, m @ concat cs)
        \<and> finalDigestValue h' = [] \<and> hashDigestType h' = t"
proof (induction cs arbitrary: h m)
  case Nil
  then show ?case by simp
next
  case (Cons c cs)
  let ?h = "h\<lparr>digestCtx := snd (SSL_EVP_DigestUpdate L (digestCtx h) c)\<rparr>"
  have "Hash_update L c h = (Inr (), ?h)" "absorbed (digestCtx ?h) = (md, m @ c)"
    using assms Cons.prems
    by (auto simp: Hash_update_def ossl_simps checkS_IsOne digest_lib_laws_def)
  with Cons.IH [of ?h "m @ c"] Cons.prems show ?case
    by (auto simp: bindS_def)
qed

lemma Hash_digest_laws:
  assumes "digest_lib_laws L absorbed H" and "getMDPtrFromDigestType t = Inr md"
    and "absorbed (digestCtx h) = (md, m)" "finalDigestValue h = []" "hashDigestType h = t"
  shows "fst (Hash_digest L h) = Inr (H md m)"
proof -
  obtain rv out c where f: "SSL_EVP_DigestFinal_ex L (digestCtx h) = (rv, out, c)"
    by (metis surj_pair)
  have "rv = 1" "out = H md m" "length (H md m) = md_size md"
    using assms(1,3) f by (auto simp: digest_lib_laws_def dest!: spec [of _ "digestCtx h"])
  with f assms digest_size [OF assms(2)] show ?thesis
    by (simp add: Hash_digest_def ossl_simps)
qed

text \<open>
  Hashing a message chunk by chunk gives the digest of the concatenation, for every
  supported digest type, every number and size of chunks.
\<close>

theorem Hash_incremental:
  assumes "digest_lib_laws L absorbed H" and "getMDPtrFromDigestType t = Inr md"
  shows "bindR (Hash_new L t) (\<lambda>h. fst (bindS (update_all L cs) (\<lambda>_. Hash_digest L) h))
     = Inr (H md (concat cs))"
proof -
  obtain h where h: "Hash_new L t = Inr h" "absorbed (digestCtx h) = (md, [])"
    "finalDigestValue h = []" "hashDigestType h = t"
    using Hash_new_laws [OF assms] by blast
  obtain h' where h': "update_all L cs h = (Inr (), h')" "absorbed (digestCtx h') = (md, concat cs)"
    "finalDigestValue h' = []" "hashDigestType h' = t"
    using update_all_laws [OF assms(1) h(2-4), of cs] by auto
  from Hash_digest_laws [OF assms h'(2-4)] h(1) h'(1) show ?thesis
    by (simp add: bindS_def)
qed

lemma hash_oneshot_laws:
  assumes "digest_lib_laws L absorbed H" and "getMDPtrFromDigestType t = Inr md"
  shows "hash_oneshot L (Hash_new L t) m = Inr (H md m)"
proof -
  have upd: "update_all L [m] h = Hash_update L m h" for h
    by (auto simp: bindS_def split: prod.splits sum.splits)
  obtain h where h: "Hash_new L t = Inr h" "absorbed (digestCtx h) = (md, [])"
    "finalDigestValue h = []" "hashDigestType h = t"
    using Hash_new_laws [OF assms] by blast
  obtain h' where h': "Hash_update L m h = (Inr (), h')" "absorbed (digestCtx h') = (md, m)"
    "finalDigestValue h' = []" "hashDigestType h' = t"
    using update_all_laws [OF assms(1) h(2-4), of "[m]"] upd by auto
  from Hash_digest_laws [OF assms h'(2-4)] h(1) h'(1) show ?thesis
    by (simp add: hash_oneshot_def bindS_def)
qed

lemma createHash_laws:
  assumes "digest_lib_laws L absorbed H" and "getMDPtrFromDigestType t = Inr md"
  shows "createHash L t m = Inr (H md m)"
  using hash_oneshot_laws [OF assms, of m] assms(2) by (cases t) (simp_all add: sha_defs)

section \<open>A concrete instance\<close>

text \<open>
  A digest library that satisfies the laws: the context is the digest and the data, the
  \<open>hash\<close> of a message is the message cut or padded to the digest's size.
\<close>

definition ref_digest_lib :: "(EVP_MD \<times> bytes) digest_lib" where
  "ref_digest_lib =
     \<lparr>SSL_EVP_MD_CTX_create = Some (EVP_sha1, []),
      SSL_EVP_MD_CTX_init = (\<lambda>c. c),
      SSL_EVP_DigestInit_ex = (\<lambda>c md. (1, (md, []))),
      SSL_EVP_DigestUpdate = (\<lambda>c d. (1, (fst c, snd c @ d))),
      SSL_EVP_DigestFinal_ex = (\<lambda>c. (1, resize (snd c) (md_size (fst c)), c))\<rparr>"

lemma ref_digest_lib_laws: "digest_lib_laws ref_digest_lib id (\<lambda>md m. resize m (md_size md))"
  by (simp add: digest_lib_laws_def ref_digest_lib_def)

theorem Hash_incremental_witness:
  "bindR (Hash_new ref_digest_lib SHA1)
     (\<lambda>h. fst (bindS (update_all ref_digest_lib [[1, 2], [], [3]]) (\<lambda>_. Hash_digest ref_digest_lib) h))
   = Inr (resize [1, 2, 3] 20)"
  using Hash_incremental [OF ref_digest_lib_laws, of SHA1 EVP_sha1 "[[1, 2], [], [3]]"] by simp

theorem Hash_frozen_after_digest_witness:
  "Hash_digest ref_digest_lib
     \<lparr>digestCtx = (EVP_sha1, []), finalDigestValue = resize [7] 20, hashDigestType = SHA1\<rparr>
   = (Inr (resize [7] 20),
      \<lparr>digestCtx = (EVP_sha1, []), finalDigestValue = resize [7] 20, hashDigestType = SHA1\<rparr>)"
proof -
  let ?h = "\<lparr>digestCtx = (EVP_sha1, [7]), finalDigestValue = [], hashDigestType = SHA1\<rparr>"
  let ?h' = "\<lparr>digestCtx = (EVP_sha1, [7]), finalDigestValue = resize [7] 20, hashDigestType = SHA1\<rparr>"
  have "Hash_digest ref_digest_lib ?h = (Inr (resize [7] 20), ?h')"
    by (simp add: Hash_digest_def getDigestSize_def lengthInBytes_def ossl_simps ref_digest_lib_def)
  from Hash_frozen_after_digest [OF this]
  have "Hash_digest ref_digest_lib ?h' = (Inr (resize [7] 20), ?h')" by blast
  then show ?thesis
    by (simp add: Hash_digest_def resize_def)
qed

section \<open>A failing final call\<close>

text \<open>
  If OpenSSL's final call fails, \<open>digest\<close> throws, but its result vector has already
  been resized: the next \<open>digest\<close> returns the buffer (all zero bytes when OpenSSL wrote
  nothing) as if it were the digest.
\<close>

theorem Hash_digest_after_failure:
  assumes "finalDigestValue h = []" and "getDigestSize (hashDigestType h) = Inr n"
    and "SSL_EVP_DigestFinal_ex L (digestCtx h) = (rv, [], c)" and "rv \<noteq> 1"
  shows "\<exists>h'. Hash_digest L h = (Inl OpenSSLException_default, h')
     \<and> Hash_digest L h' = (Inr (replicate n 0), h')"
proof -
  have "n > 0" using assms(2) by (rule getDigestSize_pos)
  moreover have "overwrite (resize [] n) [] = replicate n 0"
    by (simp add: overwrite_def resize_def)
  ultimately show ?thesis
    using assms by (simp add: Hash_digest_def ossl_simps)
qed

theorem Hash_digest_after_failure_witness:
  "\<exists>h'. Hash_digest (ref_digest_lib\<lparr>SSL_EVP_DigestFinal_ex := \<lambda>c. (0, [], c)\<rparr>)
      \<lparr>digestCtx = (EVP_sha1, [7]), finalDigestValue = [], hashDigestType = SHA1\<rparr>
        = (Inl OpenSSLException_default, h')
     \<and> Hash_digest (ref_digest_lib\<lparr>SSL_EVP_DigestFinal_ex := \<lambda>c. (0, [], c)\<rparr>) h'
        = (Inr (replicate 20 0), h')"
  by (rule Hash_digest_after_failure [where rv = 0 and c = "(EVP_sha1, [7])"])
    (simp_all add: getDigestSize_def lengthInBytes_def)

end
