(* ===== verification/Mac_Ctx.thy ===== *)
theory Mac_Ctx
  imports Check_Call Hex_Util
begin

text \<open>
  \<open>src/src/mac.cpp\<close>: the interface \<open>MessageAuthenticationCode\<close> and its implementations
  \<open>HMAC\<close> and \<open>CMAC\<close>.  The locale \<open>mac_object\<close> is the interface's contract (an object
  is open until \<open>finish\<close> succeeds, then frozen with its result); both implementations
  satisfy it for any OpenSSL.
\<close>

section \<open>OpenSSL functions and their wrappers\<close>

text \<open>
  \<open>SSL_HMAC_Update\<close> takes the length as an \<open>int\<close>, so the pointer and the length are
  separate arguments here.  The final functions return the status, what they wrote to the
  buffer, and the length they reported.
\<close>

record 'c hmac_lib =
  SSL_HMAC_CTX_new :: "'c option"
  SSL_HMAC_Init_ex :: "'c \<Rightarrow> bytes \<Rightarrow> int \<Rightarrow> EVP_MD \<Rightarrow> int \<times> 'c"
  SSL_HMAC_Update :: "'c \<Rightarrow> bytes \<Rightarrow> int \<Rightarrow> int \<times> 'c"
  SSL_HMAC_Final :: "'c \<Rightarrow> int \<times> bytes \<times> nat \<times> 'c"
  hmac_CRYPTO_memcmp :: "bytes \<Rightarrow> bytes \<Rightarrow> nat \<Rightarrow> int"

record 'c cmac_lib =
  SSL_CMAC_CTX_new :: "'c option"
  SSL_EVP_CIPHER_key_length :: "EVP_CIPHER \<Rightarrow> int"
  SSL_EVP_CIPHER_name :: "EVP_CIPHER \<Rightarrow> string"
  SSL_CMAC_Init :: "'c \<Rightarrow> bytes \<Rightarrow> EVP_CIPHER \<Rightarrow> int \<times> 'c"
  SSL_CMAC_Update :: "'c \<Rightarrow> bytes \<Rightarrow> int \<times> 'c"
  SSL_CMAC_Final :: "'c \<Rightarrow> int \<times> bytes \<times> nat \<times> 'c"
  cmac_CRYPTO_memcmp :: "bytes \<Rightarrow> bytes \<Rightarrow> nat \<Rightarrow> int"

definition EVP_MAX_MD_SIZE :: nat where "EVP_MAX_MD_SIZE = 64"

definition ossl_HMAC_CTX_new :: "'c hmac_lib \<Rightarrow> 'c res" where
  [ossl_simps]: "ossl_HMAC_CTX_new L = OpensslCallPtr (SSL_HMAC_CTX_new L)"

definition ossl_HMAC_Init_ex :: "'c hmac_lib \<Rightarrow> bytes \<Rightarrow> EVP_MD \<Rightarrow> ('c, unit) st" where
  [ossl_simps]: "ossl_HMAC_Init_ex L key md ctx =
     checkS OpensslCallIsOne (SSL_HMAC_Init_ex L ctx key (to_int (length key)) md)"

definition ossl_HMAC_Update :: "'c hmac_lib \<Rightarrow> bytes \<Rightarrow> ('c, unit) st" where
  [ossl_simps]: "ossl_HMAC_Update L data ctx =
     checkS OpensslCallIsOne (SSL_HMAC_Update L ctx data (to_int (length data)))"

definition ossl_HMAC_Final :: "'c hmac_lib \<Rightarrow> ('c, bytes) st" where
  [ossl_simps]: "ossl_HMAC_Final L ctx =
     (let (rv, out, len, ctx') = SSL_HMAC_Final L ctx
      in (bindR (OpensslCallIsOne rv) (\<lambda>_.
            Inr (resize (overwrite (replicate EVP_MAX_MD_SIZE 0) out) len)), ctx'))"

definition ossl_CMAC_CTX_new :: "'c cmac_lib \<Rightarrow> 'c res" where
  [ossl_simps]: "ossl_CMAC_CTX_new L = OpensslCallPtr (SSL_CMAC_CTX_new L)"

definition ossl_CMAC_Init :: "'c cmac_lib \<Rightarrow> bytes \<Rightarrow> EVP_CIPHER \<Rightarrow> ('c, unit) st" where
  [ossl_simps]: "ossl_CMAC_Init L key cipher ctx =
     checkS OpensslCallIsOne (SSL_CMAC_Init L ctx key cipher)"

definition ossl_CMAC_Update :: "'c cmac_lib \<Rightarrow> bytes \<Rightarrow> ('c, unit) st" where
  [ossl_simps]: "ossl_CMAC_Update L data ctx = checkS OpensslCallIsOne (SSL_CMAC_Update L ctx data)"

definition ossl_CMAC_Final :: "'c cmac_lib \<Rightarrow> ('c, bytes) st" where
  [ossl_simps]: "ossl_CMAC_Final L ctx =
     (let (rv, out, len, ctx') = SSL_CMAC_Final L ctx
      in (bindR (OpensslCallIsOne rv) (\<lambda>_.
            Inr (resize (overwrite (replicate EVP_MAX_BLOCK_LENGTH 0) out) len)), ctx'))"

section \<open>HMAC\<close>

record 'c mac_impl =
  mac_ctx :: 'c
  mac_isFinished :: bool
  mac_result :: bytes

definition err_update_after_finish :: exn where
  "err_update_after_finish = MoCOCrWException [Str ''update() can't be called after finish()'']"

definition err_finish_twice :: exn where
  "err_finish_twice = MoCOCrWException [Str ''finish() can't be called twice.'']"

definition HMAC_new :: "'c hmac_lib \<Rightarrow> DigestTypes \<Rightarrow> bytes \<Rightarrow> 'c mac_impl res" where
  "HMAC_new L hashFunction key =
     bindR (getMDPtrFromDigestType hashFunction) (\<lambda>digestFn.
       if key = [] then Inl (MoCOCrWException [Str ''Key for HMAC is empty.''])
       else bindR (ossl_HMAC_CTX_new L) (\<lambda>ctx.
         (case ossl_HMAC_Init_ex L key digestFn ctx of
            (Inl e, _) \<Rightarrow> Inl e
          | (Inr _, ctx') \<Rightarrow> Inr \<lparr>mac_ctx = ctx', mac_isFinished = False, mac_result = []\<rparr>)))"

definition HMAC_update :: "'c hmac_lib \<Rightarrow> bytes \<Rightarrow> ('c mac_impl, unit) st" where
  "HMAC_update L message s =
     (if mac_isFinished s then (Inl err_update_after_finish, s)
      else (let (r, ctx) = ossl_HMAC_Update L message (mac_ctx s) in (r, s\<lparr>mac_ctx := ctx\<rparr>)))"

definition HMAC_finish :: "'c hmac_lib \<Rightarrow> ('c mac_impl, bytes) st" where
  "HMAC_finish L s =
     (if mac_isFinished s then (Inl err_finish_twice, s)
      else (case ossl_HMAC_Final L (mac_ctx s) of
              (Inl e, ctx) \<Rightarrow> (Inl e, s\<lparr>mac_ctx := ctx\<rparr>)
            | (Inr r, ctx) \<Rightarrow>
                (Inr r, s\<lparr>mac_ctx := ctx, mac_result := r, mac_isFinished := True\<rparr>)))"

definition HMAC_check :: "'c hmac_lib \<Rightarrow> bytes \<Rightarrow> bytes \<Rightarrow> unit res" where
  "HMAC_check L result hmacValue =
     (if length hmacValue \<noteq> length result
      then Inl (MoCOCrWException [Str ''HMAC verification failed. Length differs.''])
      else if hmac_CRYPTO_memcmp L hmacValue result (length hmacValue) \<noteq> 0
      then Inl (MoCOCrWException
             [Str (''HMAC verification failed. Calculated value: '' @ toHex result @
                   ''. Received value: '' @ toHex hmacValue)])
      else Inr ())"

definition HMAC_verify :: "'c hmac_lib \<Rightarrow> bytes \<Rightarrow> ('c mac_impl, unit) st" where
  "HMAC_verify L hmacValue s =
     (if \<not> mac_isFinished s
      then (case HMAC_finish L s of
              (Inl e, t) \<Rightarrow> (Inl e, t)
            | (Inr _, t) \<Rightarrow> (HMAC_check L (mac_result t) hmacValue, t))
      else (HMAC_check L (mac_result s) hmacValue, s))"

section \<open>CMAC\<close>

definition CMAC_new :: "'c cmac_lib \<Rightarrow> CmacCipherTypes \<Rightarrow> bytes \<Rightarrow> 'c mac_impl res" where
  "CMAC_new L cipherType key =
     bindR (getCipherPtrFromCmacCipherType cipherType) (\<lambda>cipher.
       (let expectedKeySize = (word_of_int (SSL_EVP_CIPHER_key_length L cipher) :: size_t) in
        if word_of_nat (length key) \<noteq> expectedKeySize
        then Inl (MoCOCrWException
               [Str ''Invalid key size for '', Str (SSL_EVP_CIPHER_name L cipher),
                Str '': Expected '', Num (uint expectedKeySize),
                Str '' bytes but got key with '', Num (int (length key)), Str '' bytes.''])
        else bindR (ossl_CMAC_CTX_new L) (\<lambda>ctx.
          (case ossl_CMAC_Init L key cipher ctx of
             (Inl e, _) \<Rightarrow> Inl e
           | (Inr _, ctx') \<Rightarrow> Inr \<lparr>mac_ctx = ctx', mac_isFinished = False, mac_result = []\<rparr>))))"

definition CMAC_update :: "'c cmac_lib \<Rightarrow> bytes \<Rightarrow> ('c mac_impl, unit) st" where
  "CMAC_update L message s =
     (if mac_isFinished s then (Inl err_update_after_finish, s)
      else (let (r, ctx) = ossl_CMAC_Update L message (mac_ctx s) in (r, s\<lparr>mac_ctx := ctx\<rparr>)))"

definition CMAC_finish :: "'c cmac_lib \<Rightarrow> ('c mac_impl, bytes) st" where
  "CMAC_finish L s =
     (if mac_isFinished s then (Inl err_finish_twice, s)
      else (case ossl_CMAC_Final L (mac_ctx s) of
              (Inl e, ctx) \<Rightarrow> (Inl e, s\<lparr>mac_ctx := ctx\<rparr>)
            | (Inr r, ctx) \<Rightarrow>
                (Inr r, s\<lparr>mac_ctx := ctx, mac_result := r, mac_isFinished := True\<rparr>)))"

definition CMAC_check :: "'c cmac_lib \<Rightarrow> bytes \<Rightarrow> bytes \<Rightarrow> unit res" where
  "CMAC_check L result cmacValue =
     (if length cmacValue \<noteq> length result
      then Inl (MoCOCrWException [Str ''CMAC verification failed. Length differs.''])
      else if cmac_CRYPTO_memcmp L cmacValue result (length cmacValue) \<noteq> 0
      then Inl (MoCOCrWException
             [Str (''CMAC verification failed. Calculated value: '' @ toHex result @
                   ''. Received value: '' @ toHex cmacValue)])
      else Inr ())"

definition CMAC_verify :: "'c cmac_lib \<Rightarrow> bytes \<Rightarrow> ('c mac_impl, unit) st" where
  "CMAC_verify L cmacValue s =
     (if \<not> mac_isFinished s
      then (case CMAC_finish L s of
              (Inl e, t) \<Rightarrow> (Inl e, t)
            | (Inr _, t) \<Rightarrow> (CMAC_check L (mac_result t) cmacValue, t))
      else (CMAC_check L (mac_result s) cmacValue, s))"

section \<open>The interface\<close>

locale mac_object =
  fixes upd :: "bytes \<Rightarrow> ('s, unit) st"
    and fin :: "('s, bytes) st"
    and ver :: "bytes \<Rightarrow> ('s, unit) st"
    and finished :: "'s \<Rightarrow> bool"
    and result :: "'s \<Rightarrow> bytes"
    and check :: "bytes \<Rightarrow> bytes \<Rightarrow> unit res"
  assumes upd_finished: "finished s \<Longrightarrow> upd m s = (Inl err_update_after_finish, s)"
    and upd_open: "\<not> finished s \<Longrightarrow> \<not> finished (snd (upd m s))"
    and fin_finished: "finished s \<Longrightarrow> fin s = (Inl err_finish_twice, s)"
    and fin_ok: "\<not> finished s \<Longrightarrow> fin s = (Inr r, t) \<Longrightarrow> finished t \<and> result t = r"
    and fin_error: "\<not> finished s \<Longrightarrow> fin s = (Inl e, t) \<Longrightarrow> \<not> finished t"
    and ver_finished: "finished s \<Longrightarrow> ver v s = (check (result s) v, s)"
    and ver_open: "\<not> finished s \<Longrightarrow>
          ver v s = (case fin s of (Inl e, t) \<Rightarrow> (Inl e, t) | (Inr r, t) \<Rightarrow> ver v t)"
begin

lemma fin_then:
  assumes "fin s = (Inr r, t)"
  shows "fin t = (Inl err_finish_twice, t)" "upd m t = (Inl err_update_after_finish, t)"
    "ver v t = (check r v, t)"
proof -
  have "\<not> finished s" using assms fin_finished by force
  then have "finished t" "result t = r" using fin_ok assms by blast+
  then show "fin t = (Inl err_finish_twice, t)" "upd m t = (Inl err_update_after_finish, t)"
    "ver v t = (check r v, t)"
    by (simp_all add: fin_finished upd_finished ver_finished)
qed

lemma ver_ok_iff:
  assumes "\<not> finished s" "fin s = (Inr r, t)"
  shows "ver v s = (check r v, t)"
  using assms fin_then(3) [OF assms(2)] by (simp add: ver_open)

lemma feed_open: "\<not> finished s \<Longrightarrow> \<not> finished (snd (feed upd cs s))"
proof (induction cs arbitrary: s)
  case (Cons c cs)
  obtain r t where t: "upd c s = (r, t)" by fastforce
  with upd_open [OF Cons.prems, of c] have "\<not> finished t" by simp
  with t Cons.IH [of t] show ?case
    by (cases r) (simp_all add: bindS_unfold)
qed simp

end

text \<open>
  An implementation whose library keeps its documentation (\<open>laws\<close>): the object absorbs
  the chunks that fit the library's length type, ends with the tag of what was absorbed, and
  its comparison accepts equal values only.
\<close>

locale mac_correct = mac_object upd fin ver finished result check
  for upd :: "bytes \<Rightarrow> ('s, unit) st"
    and fin :: "('s, bytes) st"
    and ver :: "bytes \<Rightarrow> ('s, unit) st"
    and finished :: "'s \<Rightarrow> bool"
    and result :: "'s \<Rightarrow> bytes"
    and check :: "bytes \<Rightarrow> bytes \<Rightarrow> unit res" +
  fixes laws :: bool
    and fits :: "bytes \<Rightarrow> bool"
    and absorbed :: "'s \<Rightarrow> 'k \<times> bytes"
    and tag :: "'k \<Rightarrow> bytes \<Rightarrow> bytes"
  assumes upd_absorbs: "laws \<Longrightarrow> \<not> finished s \<Longrightarrow> fits m \<Longrightarrow> absorbed s = (k, x) \<Longrightarrow>
          \<exists>t. upd m s = (Inr (), t) \<and> absorbed t = (k, x @ m)"
    and fin_tag: "laws \<Longrightarrow> \<not> finished s \<Longrightarrow> absorbed s = (k, x) \<Longrightarrow>
          \<exists>t. fin s = (Inr (tag k x), t)"
    and check_exact: "laws \<Longrightarrow> check r v = Inr () \<longleftrightarrow> v = r"
begin

lemma feed_absorbs:
  "laws \<Longrightarrow> \<not> finished s \<Longrightarrow> absorbed s = (k, x) \<Longrightarrow> (\<And>c. c \<in> set cs \<Longrightarrow> fits c) \<Longrightarrow>
     \<exists>t. feed upd cs s = (Inr (), t) \<and> absorbed t = (k, x @ concat cs) \<and> \<not> finished t"
proof (induction cs arbitrary: s x)
  case (Cons c cs)
  obtain t where t: "upd c s = (Inr (), t)" "absorbed t = (k, x @ c)"
    using upd_absorbs [OF Cons.prems(1,2) _ Cons.prems(3), of c] Cons.prems(4) by auto
  moreover have "\<not> finished t" using upd_open [OF Cons.prems(2), of c] t(1) by simp
  ultimately show ?case
    using Cons.IH [of t "x @ c"] Cons.prems(1,4) by (simp add: bindS_unfold)
qed simp

lemma mac_of_chunks:
  assumes "laws" "\<not> finished s" "absorbed s = (k, [])" "\<And>c. c \<in> set cs \<Longrightarrow> fits c"
  shows "fst (bindS (feed upd cs) (\<lambda>_. fin) s) = Inr (tag k (concat cs))"
    and "fst (bindS (feed upd cs) (\<lambda>_. ver v) s) = Inr () \<longleftrightarrow> v = tag k (concat cs)"
    and "fst (bindS (feed upd cs) (\<lambda>_. ver v) s) = check (tag k (concat cs)) v"
proof -
  obtain t where t: "feed upd cs s = (Inr (), t)" "absorbed t = (k, concat cs)" "\<not> finished t"
    using feed_absorbs [OF assms] by auto
  obtain u where u: "fin t = (Inr (tag k (concat cs)), u)"
    using fin_tag [OF assms(1) t(3,2)] by blast
  show "fst (bindS (feed upd cs) (\<lambda>_. fin) s) = Inr (tag k (concat cs))"
    using t(1) u by (simp add: bindS_unfold)
  show c: "fst (bindS (feed upd cs) (\<lambda>_. ver v) s) = check (tag k (concat cs)) v"
    using t(1) ver_ok_iff [OF t(3) u] by (simp add: bindS_unfold)
  show "fst (bindS (feed upd cs) (\<lambda>_. ver v) s) = Inr () \<longleftrightarrow> v = tag k (concat cs)"
    unfolding c by (rule check_exact [OF assms(1)])
qed

end

section \<open>What OpenSSL documents\<close>

definition memcmp_law :: "(bytes \<Rightarrow> bytes \<Rightarrow> nat \<Rightarrow> int) \<Rightarrow> bool" where
  "memcmp_law f \<longleftrightarrow> (\<forall>a b. length a = length b \<longrightarrow> (f a b (length a) = 0 \<longleftrightarrow> a = b))"

definition hmac_lib_laws ::
  "'c hmac_lib \<Rightarrow> ('c \<Rightarrow> (EVP_MD \<times> bytes) \<times> bytes) \<Rightarrow> (EVP_MD \<times> bytes \<Rightarrow> bytes \<Rightarrow> bytes) \<Rightarrow> bool"
where
  "hmac_lib_laws L absorbed F \<longleftrightarrow>
     SSL_HMAC_CTX_new L \<noteq> None
     \<and> (\<forall>c key n md. 0 \<le> n \<and> nat n \<le> length key \<longrightarrow>
            fst (SSL_HMAC_Init_ex L c key n md) = 1
            \<and> absorbed (snd (SSL_HMAC_Init_ex L c key n md)) = ((md, take (nat n) key), []))
     \<and> (\<forall>c d n. 0 \<le> n \<and> nat n \<le> length d \<longrightarrow>
            fst (SSL_HMAC_Update L c d n) = 1
            \<and> absorbed (snd (SSL_HMAC_Update L c d n)) =
                (fst (absorbed c), snd (absorbed c) @ take (nat n) d))
     \<and> (\<forall>c. \<exists>c'. SSL_HMAC_Final L c =
            (1, F (fst (absorbed c)) (snd (absorbed c)),
             length (F (fst (absorbed c)) (snd (absorbed c))), c'))
     \<and> (\<forall>k m. length (F k m) \<le> EVP_MAX_MD_SIZE)
     \<and> memcmp_law (hmac_CRYPTO_memcmp L)"

definition cmac_lib_laws ::
  "'c cmac_lib \<Rightarrow> ('c \<Rightarrow> (EVP_CIPHER \<times> bytes) \<times> bytes) \<Rightarrow>
     (EVP_CIPHER \<times> bytes \<Rightarrow> bytes \<Rightarrow> bytes) \<Rightarrow> bool"
where
  "cmac_lib_laws L absorbed F \<longleftrightarrow>
     SSL_CMAC_CTX_new L \<noteq> None
     \<and> (\<forall>c key cipher. int (length key) = SSL_EVP_CIPHER_key_length L cipher \<longrightarrow>
            fst (SSL_CMAC_Init L c key cipher) = 1
            \<and> absorbed (snd (SSL_CMAC_Init L c key cipher)) = ((cipher, key), []))
     \<and> (\<forall>c d. fst (SSL_CMAC_Update L c d) = 1
            \<and> absorbed (snd (SSL_CMAC_Update L c d)) = (fst (absorbed c), snd (absorbed c) @ d))
     \<and> (\<forall>c. \<exists>c'. SSL_CMAC_Final L c =
            (1, F (fst (absorbed c)) (snd (absorbed c)),
             length (F (fst (absorbed c)) (snd (absorbed c))), c'))
     \<and> (\<forall>k m. length (F k m) \<le> EVP_MAX_BLOCK_LENGTH)
     \<and> memcmp_law (cmac_CRYPTO_memcmp L)"

definition fits_int :: "bytes \<Rightarrow> bool" where
  "fits_int m \<longleftrightarrow> int (length m) \<le> INT_MAX"

definition mac_absorbed :: "('c \<Rightarrow> 'k \<times> bytes) \<Rightarrow> 'c mac_impl \<Rightarrow> 'k \<times> bytes" where
  "mac_absorbed absorbed s = absorbed (mac_ctx s)"

section \<open>HMAC and CMAC implement the interface\<close>

lemma HMAC_finish_cases:
  assumes "\<not> mac_isFinished s"
  obtains (error) e t where "HMAC_finish L s = (Inl e, t)" "\<not> mac_isFinished t"
  | (ok) r t where "HMAC_finish L s = (Inr r, t)" "mac_isFinished t" "mac_result t = r"
proof -
  obtain r c where "ossl_HMAC_Final L (mac_ctx s) = (r, c)" by fastforce
  with assms that show thesis by (cases r) (auto simp: HMAC_finish_def)
qed

lemma CMAC_finish_cases:
  assumes "\<not> mac_isFinished s"
  obtains (error) e t where "CMAC_finish L s = (Inl e, t)" "\<not> mac_isFinished t"
  | (ok) r t where "CMAC_finish L s = (Inr r, t)" "mac_isFinished t" "mac_result t = r"
proof -
  obtain r c where "ossl_CMAC_Final L (mac_ctx s) = (r, c)" by fastforce
  with assms that show thesis by (cases r) (auto simp: CMAC_finish_def)
qed

interpretation hmac: mac_object "HMAC_update L" "HMAC_finish L" "HMAC_verify L"
  mac_isFinished mac_result "HMAC_check L" for L
proof
  fix s :: "'a mac_impl" and m r t e v
  show "mac_isFinished s \<Longrightarrow> HMAC_update L m s = (Inl err_update_after_finish, s)"
    by (simp add: HMAC_update_def)
  show "\<not> mac_isFinished s \<Longrightarrow> \<not> mac_isFinished (snd (HMAC_update L m s))"
    by (simp add: HMAC_update_def split: prod.split)
  show "mac_isFinished s \<Longrightarrow> HMAC_finish L s = (Inl err_finish_twice, s)"
    by (simp add: HMAC_finish_def)
  show "mac_isFinished s \<Longrightarrow> HMAC_verify L v s = (HMAC_check L (mac_result s) v, s)"
    by (simp add: HMAC_verify_def)
  assume s: "\<not> mac_isFinished s"
  show "HMAC_finish L s = (Inr r, t) \<Longrightarrow> mac_isFinished t \<and> mac_result t = r"
    "HMAC_finish L s = (Inl e, t) \<Longrightarrow> \<not> mac_isFinished t"
    using HMAC_finish_cases [OF s, of L] by auto
  show "HMAC_verify L v s = (case HMAC_finish L s of
      (Inl e, t) \<Rightarrow> (Inl e, t) | (Inr r, t) \<Rightarrow> HMAC_verify L v t)"
    using s by (cases rule: HMAC_finish_cases [OF s, of L]) (auto simp: HMAC_verify_def)
qed

interpretation cmac: mac_object "CMAC_update L" "CMAC_finish L" "CMAC_verify L"
  mac_isFinished mac_result "CMAC_check L" for L
proof
  fix s :: "'a mac_impl" and m r t e v
  show "mac_isFinished s \<Longrightarrow> CMAC_update L m s = (Inl err_update_after_finish, s)"
    by (simp add: CMAC_update_def)
  show "\<not> mac_isFinished s \<Longrightarrow> \<not> mac_isFinished (snd (CMAC_update L m s))"
    by (simp add: CMAC_update_def split: prod.split)
  show "mac_isFinished s \<Longrightarrow> CMAC_finish L s = (Inl err_finish_twice, s)"
    by (simp add: CMAC_finish_def)
  show "mac_isFinished s \<Longrightarrow> CMAC_verify L v s = (CMAC_check L (mac_result s) v, s)"
    by (simp add: CMAC_verify_def)
  assume s: "\<not> mac_isFinished s"
  show "CMAC_finish L s = (Inr r, t) \<Longrightarrow> mac_isFinished t \<and> mac_result t = r"
    "CMAC_finish L s = (Inl e, t) \<Longrightarrow> \<not> mac_isFinished t"
    using CMAC_finish_cases [OF s, of L] by auto
  show "CMAC_verify L v s = (case CMAC_finish L s of
      (Inl e, t) \<Rightarrow> (Inl e, t) | (Inr r, t) \<Rightarrow> CMAC_verify L v t)"
    using s by (cases rule: CMAC_finish_cases [OF s, of L]) (auto simp: CMAC_verify_def)
qed

lemma HMAC_update_absorbs:
  assumes "hmac_lib_laws L absorbed F" "\<not> mac_isFinished s" "absorbed (mac_ctx s) = (k, x)"
    and "to_int (length m) = int n" "n \<le> length m"
  shows "\<exists>t. HMAC_update L m s = (Inr (), t) \<and> absorbed (mac_ctx t) = (k, x @ take n m)
     \<and> \<not> mac_isFinished t"
proof -
  have "fst (SSL_HMAC_Update L (mac_ctx s) m (int n)) = 1
     \<and> absorbed (snd (SSL_HMAC_Update L (mac_ctx s) m (int n))) = (k, x @ take n m)"
    using assms(1,3,5) by (simp add: hmac_lib_laws_def)
  with assms show ?thesis
    by (simp add: HMAC_update_def ossl_HMAC_Update_def checkS_IsOne)
qed

lemma hmac_lib_final:
  assumes "hmac_lib_laws L absorbed F"
  shows "\<exists>c'. SSL_HMAC_Final L c = (1, F (fst (absorbed c)) (snd (absorbed c)),
      length (F (fst (absorbed c)) (snd (absorbed c))), c')" "length (F k m) \<le> EVP_MAX_MD_SIZE"
  using assms unfolding hmac_lib_laws_def by blast+

lemma HMAC_finish_tag:
  assumes "hmac_lib_laws L absorbed F" "\<not> mac_isFinished s" "absorbed (mac_ctx s) = (k, x)"
  shows "\<exists>t. HMAC_finish L s = (Inr (F k x), t)"
proof -
  obtain c' where "SSL_HMAC_Final L (mac_ctx s) = (1, F k x, length (F k x), c')"
    and len: "length (F k x) \<le> EVP_MAX_MD_SIZE"
    using hmac_lib_final(1) [OF assms(1), of "mac_ctx s"]
      hmac_lib_final(2) [OF assms(1), of k x] assms(3) by auto
  with assms(2) show ?thesis
    by (simp add: HMAC_finish_def ossl_HMAC_Final_def resize_overwrite)
qed

lemma HMAC_check_exact:
  "memcmp_law (hmac_CRYPTO_memcmp L) \<Longrightarrow> HMAC_check L r v = Inr () \<longleftrightarrow> v = r"
  by (auto simp: HMAC_check_def memcmp_law_def)

lemma HMAC_new_laws:
  assumes "hmac_lib_laws L absorbed F" "getMDPtrFromDigestType t = Inr md" "key \<noteq> []" "fits_int key"
  obtains s where "HMAC_new L t key = Inr s" "\<not> mac_isFinished s"
    "absorbed (mac_ctx s) = ((md, key), [])"
proof -
  obtain c where c: "SSL_HMAC_CTX_new L = Some c"
    using assms(1) by (auto simp: hmac_lib_laws_def)
  have "to_int (length key) = int (length key)" using assms(4) by (simp add: fits_int_def to_int_small)
  moreover have "fst (SSL_HMAC_Init_ex L c key (int (length key)) md) = 1"
    "absorbed (snd (SSL_HMAC_Init_ex L c key (int (length key)) md)) = ((md, key), [])"
    using assms(1) by (simp_all add: hmac_lib_laws_def)
  ultimately show thesis
    using c assms(2,3)
    by (intro that [of "\<lparr>mac_ctx = snd (SSL_HMAC_Init_ex L c key (int (length key)) md),
        mac_isFinished = False, mac_result = []\<rparr>"])
      (simp_all add: HMAC_new_def ossl_simps checkS_IsOne)
qed

interpretation hmac: mac_correct "HMAC_update L" "HMAC_finish L" "HMAC_verify L"
  mac_isFinished mac_result "HMAC_check L" "hmac_lib_laws L absorbed F" fits_int
  "mac_absorbed absorbed" F for L absorbed F
proof
  fix s :: "'a mac_impl" and m k x r v
  assume laws: "hmac_lib_laws L absorbed F"
  show "HMAC_check L r v = Inr () \<longleftrightarrow> v = r"
    using laws by (simp add: HMAC_check_exact hmac_lib_laws_def)
  assume s: "\<not> mac_isFinished s" "mac_absorbed absorbed s = (k, x)"
  show "\<exists>t. HMAC_finish L s = (Inr (F k x), t)"
    using HMAC_finish_tag [OF laws s(1)] s(2) by (simp add: mac_absorbed_def)
  show "\<exists>t. HMAC_update L m s = (Inr (), t) \<and> mac_absorbed absorbed t = (k, x @ m)"
    if "fits_int m"
    using HMAC_update_absorbs [OF laws s(1), of k x m "length m"] s(2) that
    by (auto simp: mac_absorbed_def fits_int_def to_int_small)
qed

lemma CMAC_update_absorbs:
  assumes "cmac_lib_laws L absorbed F" "\<not> mac_isFinished s" "absorbed (mac_ctx s) = (k, x)"
  shows "\<exists>t. CMAC_update L m s = (Inr (), t) \<and> absorbed (mac_ctx t) = (k, x @ m)"
  using assms by (simp add: CMAC_update_def ossl_CMAC_Update_def checkS_IsOne cmac_lib_laws_def)

lemma cmac_lib_final:
  assumes "cmac_lib_laws L absorbed F"
  shows "\<exists>c'. SSL_CMAC_Final L c = (1, F (fst (absorbed c)) (snd (absorbed c)),
      length (F (fst (absorbed c)) (snd (absorbed c))), c')" "length (F k m) \<le> EVP_MAX_BLOCK_LENGTH"
  using assms unfolding cmac_lib_laws_def by blast+

lemma CMAC_finish_tag:
  assumes "cmac_lib_laws L absorbed F" "\<not> mac_isFinished s" "absorbed (mac_ctx s) = (k, x)"
  shows "\<exists>t. CMAC_finish L s = (Inr (F k x), t)"
proof -
  obtain c' where "SSL_CMAC_Final L (mac_ctx s) = (1, F k x, length (F k x), c')"
    and len: "length (F k x) \<le> EVP_MAX_BLOCK_LENGTH"
    using cmac_lib_final(1) [OF assms(1), of "mac_ctx s"]
      cmac_lib_final(2) [OF assms(1), of k x] assms(3) by auto
  with assms(2) show ?thesis
    by (simp add: CMAC_finish_def ossl_CMAC_Final_def resize_overwrite)
qed

lemma CMAC_check_exact:
  "memcmp_law (cmac_CRYPTO_memcmp L) \<Longrightarrow> CMAC_check L r v = Inr () \<longleftrightarrow> v = r"
  by (auto simp: CMAC_check_def memcmp_law_def)

lemma CMAC_new_laws:
  assumes "cmac_lib_laws L absorbed F" "getCipherPtrFromCmacCipherType t = Inr cipher"
    and "SSL_EVP_CIPHER_key_length L cipher = int (length key)"
  obtains s where "CMAC_new L t key = Inr s" "\<not> mac_isFinished s"
    "absorbed (mac_ctx s) = ((cipher, key), [])"
proof -
  obtain c where c: "SSL_CMAC_CTX_new L = Some c"
    using assms(1) by (auto simp: cmac_lib_laws_def)
  have "fst (SSL_CMAC_Init L c key cipher) = 1"
    "absorbed (snd (SSL_CMAC_Init L c key cipher)) = ((cipher, key), [])"
    using assms(1,3) by (simp_all add: cmac_lib_laws_def)
  then show thesis
    using c assms(2,3)
    by (intro that [of "\<lparr>mac_ctx = snd (SSL_CMAC_Init L c key cipher),
        mac_isFinished = False, mac_result = []\<rparr>"])
      (simp_all add: CMAC_new_def ossl_simps checkS_IsOne)
qed

interpretation cmac: mac_correct "CMAC_update L" "CMAC_finish L" "CMAC_verify L"
  mac_isFinished mac_result "CMAC_check L" "cmac_lib_laws L absorbed F" "\<lambda>_. True"
  "mac_absorbed absorbed" F for L absorbed F
proof
  fix s :: "'a mac_impl" and m k x r v
  assume laws: "cmac_lib_laws L absorbed F"
  show "CMAC_check L r v = Inr () \<longleftrightarrow> v = r"
    using laws by (simp add: CMAC_check_exact cmac_lib_laws_def)
  assume s: "\<not> mac_isFinished s" "mac_absorbed absorbed s = (k, x)"
  show "\<exists>t. CMAC_finish L s = (Inr (F k x), t)"
    using CMAC_finish_tag [OF laws s(1)] s(2) by (simp add: mac_absorbed_def)
  show "\<exists>t. CMAC_update L m s = (Inr (), t) \<and> mac_absorbed absorbed t = (k, x @ m)"
    using CMAC_update_absorbs [OF laws s(1)] s(2) by (simp add: mac_absorbed_def)
qed

section \<open>Properties\<close>

text \<open>
  C32: An HMAC object fed with any chunks that fit an \<open>int\<close> ends with the HMAC of their
  concatenation, and \<open>verify\<close> accepts exactly that tag.
\<close>

theorem HMAC_authenticates:
  assumes "hmac_lib_laws L absorbed F" "getMDPtrFromDigestType t = Inr md"
    and "key \<noteq> []" "fits_int key" "\<And>c. c \<in> set cs \<Longrightarrow> fits_int c"
  shows "bindR (HMAC_new L t key) (\<lambda>s. fst (bindS (feed (HMAC_update L) cs) (\<lambda>_. HMAC_finish L) s))
       = Inr (F (md, key) (concat cs))
     \<and> (bindR (HMAC_new L t key)
          (\<lambda>s. fst (bindS (feed (HMAC_update L) cs) (\<lambda>_. HMAC_verify L v) s)) = Inr ()
        \<longleftrightarrow> v = F (md, key) (concat cs))"
proof -
  obtain s where s: "HMAC_new L t key = Inr s" "\<not> mac_isFinished s"
    "mac_absorbed absorbed s = ((md, key), [])"
    using HMAC_new_laws [OF assms(1-4)] by (metis mac_absorbed_def)
  then show ?thesis
    using hmac.mac_of_chunks [OF assms(1) s(2,3)] assms(5) by simp
qed

text \<open>
  A CMAC object created with a key of the cipher's length ends with the CMAC of the
  concatenated chunks and \<open>verify\<close> accepts exactly that tag; with a key of any other
  length the constructor throws the message naming the expected and the actual length.
\<close>

theorem CMAC_authenticates:
  assumes "cmac_lib_laws L absorbed F" "getCipherPtrFromCmacCipherType t = Inr cipher"
    and "0 \<le> SSL_EVP_CIPHER_key_length L cipher" "SSL_EVP_CIPHER_key_length L cipher \<le> INT_MAX"
    and "length key < 2 ^ 64"
  shows "if int (length key) = SSL_EVP_CIPHER_key_length L cipher
     then bindR (CMAC_new L t key)
            (\<lambda>s. fst (bindS (feed (CMAC_update L) cs) (\<lambda>_. CMAC_finish L) s))
          = Inr (F (cipher, key) (concat cs))
        \<and> (bindR (CMAC_new L t key)
             (\<lambda>s. fst (bindS (feed (CMAC_update L) cs) (\<lambda>_. CMAC_verify L v) s)) = Inr ()
           \<longleftrightarrow> v = F (cipher, key) (concat cs))
     else CMAC_new L t key = Inl (MoCOCrWException
            [Str ''Invalid key size for '', Str (SSL_EVP_CIPHER_name L cipher),
             Str '': Expected '', Num (SSL_EVP_CIPHER_key_length L cipher),
             Str '' bytes but got key with '', Num (int (length key)), Str '' bytes.''])"
proof (cases "int (length key) = SSL_EVP_CIPHER_key_length L cipher")
  case True
  obtain s where s: "CMAC_new L t key = Inr s" "\<not> mac_isFinished s"
    "mac_absorbed absorbed s = ((cipher, key), [])"
    using CMAC_new_laws [OF assms(1,2) True [symmetric]] by (metis mac_absorbed_def)
  then show ?thesis
    using cmac.mac_of_chunks [OF assms(1) s(2,3)] True by simp
next
  case False
  obtain n where n: "SSL_EVP_CIPHER_key_length L cipher = int n"
    using assms(3) nonneg_int_cases by blast
  then have b: "n < 18446744073709551616" using assms(4) by (simp add: INT_MAX_def)
  then show ?thesis
    using False n assms(2,5) by (simp add: CMAC_new_def size_t_of_nat_eq_iff uint_of_nat_size_t)
qed

text \<open>
  \<open>_HMAC_Update\<close> narrows the length to an \<open>int\<close>: of a message of \<open>2 ^ 32 + k\<close>
  bytes only the first \<open>k\<close> are authenticated, so it has the tag of that prefix.
\<close>

theorem HMAC_length_narrowing:
  assumes "hmac_lib_laws L absorbed F" "getMDPtrFromDigestType t = Inr md"
    and "key \<noteq> []" "fits_int key" "length m = 4294967296 + k" "int k \<le> INT_MAX"
  shows "bindR (HMAC_new L t key) (\<lambda>s. fst (bindS (HMAC_update L m) (\<lambda>_. HMAC_finish L) s))
     = Inr (F (md, key) (take k m))"
proof -
  obtain s where s: "HMAC_new L t key = Inr s" "\<not> mac_isFinished s"
    "absorbed (mac_ctx s) = ((md, key), [])"
    using HMAC_new_laws [OF assms(1-4)] .
  have "to_int (length m) = int k"
    unfolding assms(5) using assms(6) by (rule to_int_wrap)
  then obtain u where u: "HMAC_update L m s = (Inr (), u)" "\<not> mac_isFinished u"
    "absorbed (mac_ctx u) = ((md, key), take k m)"
    using HMAC_update_absorbs [OF assms(1) s(2,3)] assms(5) by fastforce
  with HMAC_finish_tag [OF assms(1) u(2,3)] s(1) show ?thesis
    by (auto simp: bindS_unfold)
qed

section \<open>Concrete instances\<close>

text \<open>
  Libraries that keep the laws: the context is the parameters and the data, the tag the key
  followed by the data, cut or padded to the tag length.
\<close>

definition ref_memcmp :: "bytes \<Rightarrow> bytes \<Rightarrow> nat \<Rightarrow> int" where
  "ref_memcmp a b n = (if take n a = take n b then 0 else 1)"

definition ref_hmac :: "EVP_MD \<times> bytes \<Rightarrow> bytes \<Rightarrow> bytes" where
  "ref_hmac k m = resize (snd k @ m) 32"

definition ref_cmac :: "EVP_CIPHER \<times> bytes \<Rightarrow> bytes \<Rightarrow> bytes" where
  "ref_cmac k m = resize (snd k @ m) 16"

definition ref_hmac_lib :: "((EVP_MD \<times> bytes) \<times> bytes) hmac_lib" where
  "ref_hmac_lib =
     \<lparr>SSL_HMAC_CTX_new = Some ((EVP_sha1, []), []),
      SSL_HMAC_Init_ex = (\<lambda>c key n md. (1, ((md, take (nat n) key), []))),
      SSL_HMAC_Update = (\<lambda>c d n. (1, (fst c, snd c @ take (nat n) d))),
      SSL_HMAC_Final = (\<lambda>c. (1, ref_hmac (fst c) (snd c), 32, c)),
      hmac_CRYPTO_memcmp = ref_memcmp\<rparr>"

definition ref_cmac_lib :: "((EVP_CIPHER \<times> bytes) \<times> bytes) cmac_lib" where
  "ref_cmac_lib =
     \<lparr>SSL_CMAC_CTX_new = Some ((EVP_aes_128_cbc, []), []),
      SSL_EVP_CIPHER_key_length = (\<lambda>c. if c = EVP_aes_128_cbc then 16 else 32),
      SSL_EVP_CIPHER_name = (\<lambda>c. if c = EVP_aes_128_cbc then ''AES-128-CBC'' else ''AES-256-CBC''),
      SSL_CMAC_Init = (\<lambda>c key cipher. (1, ((cipher, key), []))),
      SSL_CMAC_Update = (\<lambda>c d. (1, (fst c, snd c @ d))),
      SSL_CMAC_Final = (\<lambda>c. (1, ref_cmac (fst c) (snd c), 16, c)),
      cmac_CRYPTO_memcmp = ref_memcmp\<rparr>"

lemma ref_memcmp_law: "memcmp_law ref_memcmp"
  by (simp add: memcmp_law_def ref_memcmp_def)

lemma ref_hmac_lib_laws: "hmac_lib_laws ref_hmac_lib id ref_hmac"
  by (simp add: hmac_lib_laws_def ref_hmac_lib_def ref_memcmp_law ref_hmac_def EVP_MAX_MD_SIZE_def)

lemma ref_cmac_lib_laws: "cmac_lib_laws ref_cmac_lib id ref_cmac"
  by (simp add: cmac_lib_laws_def ref_cmac_lib_def ref_memcmp_law ref_cmac_def
      EVP_MAX_BLOCK_LENGTH_def)

theorem HMAC_authenticates_witness:
  "bindR (HMAC_new ref_hmac_lib SHA256 [1, 2])
     (\<lambda>s. fst (bindS (feed (HMAC_update ref_hmac_lib) [[3], [4, 5]]) (\<lambda>_. HMAC_finish ref_hmac_lib) s))
   = Inr (resize [1, 2, 3, 4, 5] 32)"
proof -
  have "fits_int [1, 2]" "\<And>c. c \<in> set [[3], [4, 5 :: byte]] \<Longrightarrow> fits_int c"
    by (auto simp: fits_int_def INT_MAX_def)
  then show ?thesis
    using HMAC_authenticates [OF ref_hmac_lib_laws, of SHA256 EVP_sha256 "[1, 2]" "[[3], [4, 5]]"]
    by (simp add: ref_hmac_def)
qed

theorem CMAC_authenticates_witness:
  "bindR (CMAC_new ref_cmac_lib AES_CBC_128 (replicate 16 7))
     (\<lambda>s. fst (bindS (feed (CMAC_update ref_cmac_lib) [[3], [4, 5]]) (\<lambda>_. CMAC_finish ref_cmac_lib) s))
   = Inr (resize (replicate 16 7 @ [3, 4, 5]) 16)
   \<and> CMAC_new ref_cmac_lib AES_CBC_128 [7] = Inl (MoCOCrWException
       [Str ''Invalid key size for '', Str ''AES-128-CBC'', Str '': Expected '', Num 16,
        Str '' bytes but got key with '', Num 1, Str '' bytes.''])"
  using CMAC_authenticates [OF ref_cmac_lib_laws, of AES_CBC_128 EVP_aes_128_cbc
      "replicate 16 7" "[[3], [4, 5]]" "[]"]
    CMAC_authenticates [OF ref_cmac_lib_laws, of AES_CBC_128 EVP_aes_128_cbc "[7]" "[]" "[]"]
  by (simp add: ref_cmac_def ref_cmac_lib_def INT_MAX_def)

theorem HMAC_length_narrowing_witness:
  "bindR (HMAC_new ref_hmac_lib SHA256 [1])
     (\<lambda>s. fst (bindS (HMAC_update ref_hmac_lib (replicate 4294967296 0)) (\<lambda>_. HMAC_finish ref_hmac_lib) s))
   = Inr (resize [1] 32)"
proof -
  have "fits_int [1]" by (simp add: fits_int_def INT_MAX_def)
  then show ?thesis
    using HMAC_length_narrowing [OF ref_hmac_lib_laws, of SHA256 EVP_sha256 "[1]"
        "replicate 4294967296 0" 0]
    by (simp add: ref_hmac_def INT_MAX_def)
qed

end
