(* ===== verification/Aes_Cipher.thy ===== *)
theory Aes_Cipher
  imports Symmetric_Memory Hex_Util
begin

text \<open>
  \<open>src/src/symmetric_crypto.cpp\<close>: \<open>AESCipher\<close>, \<open>AuthenticatedAESCipher\<close> and
  \<open>AESCipherBuilder\<close>.  A cipher object keeps an EVP cipher context, the memory strategy
  that holds its output, and two flags that order its calls: associated data before data,
  nothing after \<open>finish\<close>.
\<close>

section \<open>OpenSSL functions and their wrappers\<close>

datatype SymmetricCipherMode = GCM | CBC | CTR
datatype SymmetricCipherKeySize = S_128 | S_256
datatype SymmetricCipherPadding = NO | PKCS
datatype Operation = Encryption | Decryption

datatype cipher_ctrl = EVP_CTRL_GCM_SET_IVLEN | EVP_CTRL_GCM_SET_TAG | EVP_CTRL_GCM_GET_TAG

text \<open>
  \<open>EVP_CipherInit_ex\<close> takes key and IV as pointers (\<open>None\<close> for a null pointer) without
  lengths.  \<open>EVP_CIPHER_CTX_ctrl\<close> takes an \<open>int\<close> argument and a buffer, and returns the
  status and what it wrote.  \<open>EVP_CipherUpdate\<close> is told whether there is an output buffer
  (there is none for associated data) and returns the status and its output.
\<close>

record 'c cipher_lib =
  SSL_EVP_CIPHER_CTX_new :: "'c option"
  SSL_EVP_CIPHER_CTX_reset :: "'c \<Rightarrow> int \<times> 'c"
  SSL_EVP_CIPHER_CTX_ctrl :: "'c \<Rightarrow> cipher_ctrl \<Rightarrow> int \<Rightarrow> bytes \<Rightarrow> int \<times> bytes \<times> 'c"
  SSL_EVP_CipherInit_ex ::
    "'c \<Rightarrow> EVP_CIPHER \<Rightarrow> bytes option \<Rightarrow> bytes option \<Rightarrow> bool \<Rightarrow> int \<times> 'c"
  SSL_EVP_CipherUpdate :: "'c \<Rightarrow> bool \<Rightarrow> bytes \<Rightarrow> int \<Rightarrow> int \<times> bytes \<times> 'c"
  SSL_EVP_CipherFinal_ex :: "'c \<Rightarrow> int \<times> bytes \<times> 'c"
  SSL_EVP_CIPHER_CTX_key_length :: "'c \<Rightarrow> int"
  SSL_EVP_CIPHER_CTX_iv_length :: "'c \<Rightarrow> int"
  SSL_EVP_CIPHER_CTX_set_padding :: "'c \<Rightarrow> int \<Rightarrow> int \<times> 'c"

definition ossl_EVP_CIPHER_CTX_new :: "'c cipher_lib \<Rightarrow> 'c res" where
  [ossl_simps]: "ossl_EVP_CIPHER_CTX_new L = OpensslCallPtr (SSL_EVP_CIPHER_CTX_new L)"

definition ossl_EVP_CIPHER_CTX_reset :: "'c cipher_lib \<Rightarrow> ('c, unit) st" where
  [ossl_simps]: "ossl_EVP_CIPHER_CTX_reset L ctx =
     checkS OpensslCallIsOne (SSL_EVP_CIPHER_CTX_reset L ctx)"

definition ossl_EVP_CIPHER_CTX_ctrl ::
  "'c cipher_lib \<Rightarrow> cipher_ctrl \<Rightarrow> int \<Rightarrow> bytes \<Rightarrow> ('c, bytes) st" where
  [ossl_simps]: "ossl_EVP_CIPHER_CTX_ctrl L type arg ptr ctx =
     (let (rv, out, ctx') = SSL_EVP_CIPHER_CTX_ctrl L ctx type arg ptr
      in (bindR (OpensslCallIsOne rv) (\<lambda>_. Inr (overwrite ptr out)), ctx'))"

definition ossl_EVP_CipherInit_ex ::
  "'c cipher_lib \<Rightarrow> EVP_CIPHER \<Rightarrow> bytes option \<Rightarrow> bytes option \<Rightarrow> bool \<Rightarrow> ('c, unit) st" where
  [ossl_simps]: "ossl_EVP_CipherInit_ex L cipher key iv enc ctx =
     checkS OpensslCallIsOne (SSL_EVP_CipherInit_ex L ctx cipher key iv enc)"

definition ossl_EVP_CipherUpdate ::
  "'c cipher_lib \<Rightarrow> bool \<Rightarrow> bytes \<Rightarrow> int \<Rightarrow> ('c, bytes) st" where
  [ossl_simps]: "ossl_EVP_CipherUpdate L outm indata inl ctx =
     (let (rv, out, ctx') = SSL_EVP_CipherUpdate L ctx outm indata inl
      in (bindR (OpensslCallIsOne rv) (\<lambda>_. Inr out), ctx'))"

definition ossl_EVP_CipherFinal_ex :: "'c cipher_lib \<Rightarrow> ('c, bytes) st" where
  [ossl_simps]: "ossl_EVP_CipherFinal_ex L ctx =
     (let (rv, out, ctx') = SSL_EVP_CipherFinal_ex L ctx
      in (bindR (OpensslCallIsOne rv) (\<lambda>_. Inr out), ctx'))"

definition ossl_EVP_CIPHER_CTX_key_length :: "'c cipher_lib \<Rightarrow> 'c \<Rightarrow> int res" where
  [ossl_simps]: "ossl_EVP_CIPHER_CTX_key_length L ctx =
     (let res = SSL_EVP_CIPHER_CTX_key_length L ctx in
      if res \<le> 0 then Inl (OpenSSLException
        [Str ''SSL_EVP_CIPHER_CTX_key_length() failed. Operation is unsupported by a given cipher.''])
      else Inr res)"

definition ossl_EVP_CIPHER_CTX_iv_length :: "'c cipher_lib \<Rightarrow> 'c \<Rightarrow> int res" where
  [ossl_simps]: "ossl_EVP_CIPHER_CTX_iv_length L ctx =
     (let res = SSL_EVP_CIPHER_CTX_iv_length L ctx in
      if 0 = res then Inl (OpenSSLException [Str ''The cipher does not use an IV.'']) else Inr res)"

definition ossl_EVP_CIPHER_CTX_set_padding :: "'c cipher_lib \<Rightarrow> int \<Rightarrow> ('c, unit) st" where
  [ossl_simps]: "ossl_EVP_CIPHER_CTX_set_padding L pad ctx =
     checkS OpensslCallIsOne (SSL_EVP_CIPHER_CTX_set_padding L ctx pad)"

section \<open>Modes and sizes\<close>

fun getSymmetricCipherKeySize :: "SymmetricCipherKeySize \<Rightarrow> nat" where
  "getSymmetricCipherKeySize S_128 = 128 div 8"
| "getSymmetricCipherKeySize S_256 = 256 div 8"

fun getDefaultIVLength :: "SymmetricCipherMode \<Rightarrow> nat" where
  "getDefaultIVLength GCM = 12"
| "getDefaultIVLength CBC = 16"
| "getDefaultIVLength CTR = 16"

fun isAuthenticatedCipherMode :: "SymmetricCipherMode \<Rightarrow> bool" where
  "isAuthenticatedCipherMode GCM = True"
| "isAuthenticatedCipherMode CTR = False"
| "isAuthenticatedCipherMode CBC = False"

fun getEVPCipherConstructorForModeAndSize ::
  "SymmetricCipherMode \<Rightarrow> SymmetricCipherKeySize \<Rightarrow> EVP_CIPHER" where
  "getEVPCipherConstructorForModeAndSize GCM S_256 = EVP_aes_256_gcm"
| "getEVPCipherConstructorForModeAndSize GCM S_128 = EVP_aes_128_gcm"
| "getEVPCipherConstructorForModeAndSize CBC S_256 = EVP_aes_256_cbc"
| "getEVPCipherConstructorForModeAndSize CBC S_128 = EVP_aes_128_cbc"
| "getEVPCipherConstructorForModeAndSize CTR S_256 = EVP_aes_256_ctr"
| "getEVPCipherConstructorForModeAndSize CTR S_128 = EVP_aes_128_ctr"

section \<open>The cipher object\<close>

text \<open>
  The requested tag length is set by the constructor of \<open>AuthenticatedAESCipher\<close> only; the
  plain \<open>AESCipher\<close> leaves it uninitialised and never reads it, since the builder creates
  plain objects for unauthenticated modes only.
\<close>

record 'c aes =
  aes_mode :: SymmetricCipherMode
  aes_iv :: bytes
  aes_authTag :: bytes
  aes_requestedAuthTagLength :: nat
  aes_operation :: Operation
  aes_ctx :: 'c
  aes_buffer :: queue_strategy
  aes_isFinished :: bool
  aes_isUpdated :: bool

definition onCtx :: "('c, 'a) st \<Rightarrow> ('c aes, 'a) st" where
  "onCtx f s = (let (r, ctx) = f (aes_ctx s) in (r, s\<lparr>aes_ctx := ctx\<rparr>))"

definition err_key_size :: "nat \<Rightarrow> int \<Rightarrow> exn" where
  "err_key_size got expected = MoCOCrWException
     [Str ''Invalid size of Key '', Num (int got), Str '' bytes. Must be '', Num expected, Str '' bytes.'']"

definition err_iv_size :: "nat \<Rightarrow> int \<Rightarrow> exn" where
  "err_iv_size got expected = MoCOCrWException
     [Str ''Invalid size of IV '', Num (int got), Str '' bytes. Must be '', Num expected, Str '' bytes.'']"

definition AES_check_key :: "'c cipher_lib \<Rightarrow> bytes \<Rightarrow> ('c, unit) st" where
  "AES_check_key L secretKey ctx =
     (bindR (ossl_EVP_CIPHER_CTX_key_length L ctx) (\<lambda>expectedKeySize.
        if word_of_nat (length secretKey) \<noteq> (word_of_int expectedKeySize :: size_t)
        then Inl (err_key_size (length secretKey) (uint (word_of_int expectedKeySize :: size_t)))
        else Inr ()), ctx)"

definition AES_check_iv :: "'c cipher_lib \<Rightarrow> SymmetricCipherMode \<Rightarrow> bytes \<Rightarrow> ('c, unit) st" where
  "AES_check_iv L mode iv ctx =
     (case mode of
        GCM \<Rightarrow>
          if length iv = 0
          then (Inl (MoCOCrWException [Str ''IV is empty, but AES-GCM does not support empty IVs.'']), ctx)
          else bindS (ossl_EVP_CIPHER_CTX_ctrl L EVP_CTRL_GCM_SET_IVLEN (to_int (length iv)) [])
                 (\<lambda>_. returnS ()) ctx
      | _ \<Rightarrow>
          (bindR (ossl_EVP_CIPHER_CTX_iv_length L ctx) (\<lambda>expectedIVSize.
             if word_of_nat (length iv) \<noteq> (word_of_int expectedIVSize :: size_t)
             then Inl (err_iv_size (length iv) (uint (word_of_int expectedIVSize :: size_t)))
             else Inr ()), ctx))"

definition AES_set_padding :: "'c cipher_lib \<Rightarrow> SymmetricCipherPadding \<Rightarrow> ('c, unit) st" where
  "AES_set_padding L padding =
     (case padding of PKCS \<Rightarrow> returnS () | NO \<Rightarrow> ossl_EVP_CIPHER_CTX_set_padding L 0)"

definition AES_setup ::
  "'c cipher_lib \<Rightarrow> SymmetricCipherMode \<Rightarrow> SymmetricCipherKeySize \<Rightarrow> SymmetricCipherPadding \<Rightarrow>
     bytes \<Rightarrow> bytes \<Rightarrow> Operation \<Rightarrow> ('c, unit) st" where
  "AES_setup L mode keySize padding secretKey iv operation =
     (let evpCipher = getEVPCipherConstructorForModeAndSize mode keySize in
      bindS (ossl_EVP_CipherInit_ex L evpCipher None None (operation = Encryption)) (\<lambda>_.
      bindS (AES_check_key L secretKey) (\<lambda>_.
      bindS (AES_check_iv L mode iv) (\<lambda>_.
      bindS (ossl_EVP_CIPHER_CTX_reset L) (\<lambda>_.
      bindS (ossl_EVP_CipherInit_ex L evpCipher (Some secretKey) (Some iv) (operation = Encryption)) (\<lambda>_.
      AES_set_padding L padding))))))"

definition AESCipher_new ::
  "'c cipher_lib \<Rightarrow> SymmetricCipherMode \<Rightarrow> SymmetricCipherKeySize \<Rightarrow> SymmetricCipherPadding \<Rightarrow>
     bytes \<Rightarrow> bytes \<Rightarrow> Operation \<Rightarrow> 'c aes res" where
  "AESCipher_new L mode keySize padding secretKey iv operation =
     bindR (ossl_EVP_CIPHER_CTX_new L) (\<lambda>ctx.
       (let (r, ctx') = AES_setup L mode keySize padding secretKey iv operation ctx
        in bindR r (\<lambda>_. Inr
             \<lparr>aes_mode = mode, aes_iv = iv, aes_authTag = [], aes_requestedAuthTagLength = 0,
              aes_operation = operation, aes_ctx = ctx', aes_buffer = queue_new,
              aes_isFinished = False, aes_isUpdated = False\<rparr>)))"

definition AuthenticatedAESCipher_new ::
  "'c cipher_lib \<Rightarrow> SymmetricCipherMode \<Rightarrow> SymmetricCipherKeySize \<Rightarrow> SymmetricCipherPadding \<Rightarrow>
     bytes \<Rightarrow> bytes \<Rightarrow> nat \<Rightarrow> Operation \<Rightarrow> 'c aes res" where
  "AuthenticatedAESCipher_new L mode keySize padding secretKey iv authTagLength operation =
     bindR (AESCipher_new L mode keySize padding secretKey iv operation) (\<lambda>s.
       Inr (s\<lparr>aes_requestedAuthTagLength := authTagLength\<rparr>))"

definition err_aes_update_finished :: exn where
  "err_aes_update_finished = MoCOCrWException
     [Str ''Further calls to update() are not allowed once finish() was called.'']"

definition err_aes_message_too_big :: exn where
  "err_aes_message_too_big = MoCOCrWException [Str ''Message is too big.'']"

definition AES_update :: "'c cipher_lib \<Rightarrow> bytes \<Rightarrow> ('c aes, unit) st" where
  "AES_update L message s =
     (if aes_isFinished s then (Inl err_aes_update_finished, s)
      else if int (length message) > INT_MAX - int EVP_MAX_BLOCK_LENGTH
      then (Inl err_aes_message_too_big, s)
      else if length message = 0 then (Inr (), s)
      else bindS (onCtx (ossl_EVP_CipherUpdate L True message (int (length message)))) (\<lambda>out.
        let processedChunk =
              resize (overwrite (replicate (length message + EVP_MAX_BLOCK_LENGTH) 0) out) (length out)
        in modifyS (\<lambda>t. (if length out > 0
             then t\<lparr>aes_buffer := queue_write processedChunk (aes_buffer t)\<rparr> else t)
             \<lparr>aes_isUpdated := True\<rparr>)) s)"

definition err_aad_updated :: exn where
  "err_aad_updated = MoCOCrWException
     [Str ''Further calls to addAssociatedData() are not allowed once update() was called.'']"

definition err_aad_finished :: exn where
  "err_aad_finished = MoCOCrWException
     [Str ''Further calls to addAssociatedData() are not allowed once finish() was called.'']"

definition AES_addAssociatedData :: "'c cipher_lib \<Rightarrow> bytes \<Rightarrow> ('c aes, unit) st" where
  "AES_addAssociatedData L associatedData s =
     (if aes_isUpdated s then (Inl err_aad_updated, s)
      else if aes_isFinished s then (Inl err_aad_finished, s)
      else bindS (onCtx (ossl_EVP_CipherUpdate L False associatedData (to_int (length associatedData))))
             (\<lambda>_. returnS ()) s)"

definition AES_read :: "nat \<Rightarrow> ('c aes, bytes) st" where
  "AES_read len s = (let (b, q) = queue_read len (aes_buffer s) in (Inr b, s\<lparr>aes_buffer := q\<rparr>))"

definition AES_readAll :: "('c aes, bytes) st" where
  "AES_readAll s = (let (b, q) = queue_readAll (aes_buffer s) in (Inr b, s\<lparr>aes_buffer := q\<rparr>))"

definition err_aes_finish_twice :: exn where
  "err_aes_finish_twice = MoCOCrWException [Str ''finish() can't be called twice.'']"

definition err_no_auth_tag :: exn where
  "err_no_auth_tag = MoCOCrWException
     [Str (''Authentication Tag must be set before calling finish() '' @
           ''for cipher which implements authenticated encryption.'')]"

definition err_auth_failed :: exn where
  "err_auth_failed = MoCOCrWException
     [Str (''Unable to decrypt authenticated ciphertext. Either ciphertext was'' @
           '' modified or wrong combination of key, iv and authTag was used.'')]"

definition auth_decryption :: "'c aes \<Rightarrow> bool" where
  "auth_decryption s \<longleftrightarrow> isAuthenticatedCipherMode (aes_mode s) \<and> aes_operation s = Decryption"

definition AES_hand_over_tag :: "'c cipher_lib \<Rightarrow> ('c aes, unit) st" where
  "AES_hand_over_tag L s =
     (if auth_decryption s then
        if length (aes_authTag s) = 0 then (Inl err_no_auth_tag, s)
        else bindS (onCtx (ossl_EVP_CIPHER_CTX_ctrl L EVP_CTRL_GCM_SET_TAG
                            (to_int (length (aes_authTag s))) (aes_authTag s))) (\<lambda>_. returnS ()) s
      else (Inr (), s))"

definition AES_final :: "'c cipher_lib \<Rightarrow> ('c aes, bytes) st" where
  "AES_final L s =
     (let (r, t) = onCtx (ossl_EVP_CipherFinal_ex L) s
      in (if auth_decryption s then catchOpenSSL r (\<lambda>_. err_auth_failed) else r, t))"

definition AES_fetch_tag :: "'c cipher_lib \<Rightarrow> ('c aes, unit) st" where
  "AES_fetch_tag L s =
     (if aes_mode s = GCM \<and> aes_operation s = Encryption then
        (let tag = resize (aes_authTag s) (aes_requestedAuthTagLength s) in
         bindS (onCtx (ossl_EVP_CIPHER_CTX_ctrl L EVP_CTRL_GCM_GET_TAG
                        (to_int (aes_requestedAuthTagLength s)) tag))
           (\<lambda>tag'. modifyS (\<lambda>t. t\<lparr>aes_authTag := tag'\<rparr>)) (s\<lparr>aes_authTag := tag\<rparr>))
      else (Inr (), s))"

definition AES_finish :: "'c cipher_lib \<Rightarrow> ('c aes, bytes) st" where
  "AES_finish L s =
     (if aes_isFinished s then (Inl err_aes_finish_twice, s)
      else bindS (AES_hand_over_tag L) (\<lambda>_.
           bindS (AES_final L) (\<lambda>out.
           bindS (AES_fetch_tag L) (\<lambda>_.
           bindS (modifyS (\<lambda>t. t\<lparr>aes_buffer := queue_write
                    (resize (overwrite (replicate EVP_MAX_BLOCK_LENGTH 0) out) (length out))
                    (aes_buffer t), aes_isFinished := True\<rparr>)) (\<lambda>_.
           AES_readAll)))) s)"

definition AES_getIV :: "'c aes \<Rightarrow> bytes" where "AES_getIV s = aes_iv s"
definition AES_getAuthTag :: "'c aes \<Rightarrow> bytes" where "AES_getAuthTag s = aes_authTag s"
definition AES_setAuthTag :: "bytes \<Rightarrow> 'c aes \<Rightarrow> 'c aes" where
  "AES_setAuthTag tag s = s\<lparr>aes_authTag := tag\<rparr>"

section \<open>The builder\<close>

definition DefaultAuthTagLength :: nat where "DefaultAuthTagLength = 16"

record AESCipherBuilder =
  b_mode :: SymmetricCipherMode
  b_keySize :: SymmetricCipherKeySize
  b_secretKey :: bytes
  b_iv :: bytes
  b_padding :: SymmetricCipherPadding
  b_authTagLength :: nat

definition AESCipherBuilder_new ::
  "SymmetricCipherMode \<Rightarrow> SymmetricCipherKeySize \<Rightarrow> bytes \<Rightarrow> AESCipherBuilder" where
  "AESCipherBuilder_new mode keySize secretKey =
     \<lparr>b_mode = mode, b_keySize = keySize, b_secretKey = secretKey, b_iv = [],
      b_padding = PKCS, b_authTagLength = DefaultAuthTagLength\<rparr>"

definition setIV :: "bytes \<Rightarrow> AESCipherBuilder \<Rightarrow> AESCipherBuilder" where
  "setIV iv b = b\<lparr>b_iv := iv\<rparr>"

definition setPadding :: "SymmetricCipherPadding \<Rightarrow> AESCipherBuilder \<Rightarrow> AESCipherBuilder" where
  "setPadding padding b = b\<lparr>b_padding := padding\<rparr>"

definition setAuthTagLength :: "nat \<Rightarrow> AESCipherBuilder \<Rightarrow> AESCipherBuilder" where
  "setAuthTagLength len b = b\<lparr>b_authTagLength := len\<rparr>"

definition builder_iv :: "(int \<Rightarrow> int \<times> bytes) \<Rightarrow> AESCipherBuilder \<Rightarrow> bytes res" where
  "builder_iv RAND b =
     (if length (b_iv b) = 0 then cryptoRandomBytes RAND (getDefaultIVLength (b_mode b))
      else Inr (b_iv b))"

definition buildEncryptor ::
  "'c cipher_lib \<Rightarrow> (int \<Rightarrow> int \<times> bytes) \<Rightarrow> AESCipherBuilder \<Rightarrow> 'c aes res" where
  "buildEncryptor L RAND b =
     (if isAuthenticatedCipherMode (b_mode b)
      then Inl (MoCOCrWException [Str (''Specified cipher supports authenticated encryption.'' @
             '' buildAuthenticatedEncryptor() should be used instead.'')])
      else bindR (builder_iv RAND b) (\<lambda>iv.
        AESCipher_new L (b_mode b) (b_keySize b) (b_padding b) (b_secretKey b) iv Encryption))"

definition buildDecryptor :: "'c cipher_lib \<Rightarrow> AESCipherBuilder \<Rightarrow> 'c aes res" where
  "buildDecryptor L b =
     (if isAuthenticatedCipherMode (b_mode b)
      then Inl (MoCOCrWException [Str (''Specified cipher supports authenticated encryption.'' @
             '' buildAuthenticatedDecryptor() should be used instead.'')])
      else AESCipher_new L (b_mode b) (b_keySize b) (b_padding b) (b_secretKey b) (b_iv b) Decryption)"

definition buildAuthenticatedEncryptor ::
  "'c cipher_lib \<Rightarrow> (int \<Rightarrow> int \<times> bytes) \<Rightarrow> AESCipherBuilder \<Rightarrow> 'c aes res" where
  "buildAuthenticatedEncryptor L RAND b =
     (if \<not> isAuthenticatedCipherMode (b_mode b)
      then Inl (MoCOCrWException [Str (''Specified cipher does not support authenticated encryption.'' @
             '' buildEncryptor() should be used instead.'')])
      else bindR (builder_iv RAND b) (\<lambda>iv.
        AuthenticatedAESCipher_new L (b_mode b) (b_keySize b) (b_padding b) (b_secretKey b) iv
          (b_authTagLength b) Encryption))"

definition buildAuthenticatedDecryptor :: "'c cipher_lib \<Rightarrow> AESCipherBuilder \<Rightarrow> 'c aes res" where
  "buildAuthenticatedDecryptor L b =
     (if \<not> isAuthenticatedCipherMode (b_mode b)
      then Inl (MoCOCrWException [Str (''Specified cipher does not support authenticated encryption.'' @
             '' buildDecryptor() should be used instead.'')])
      else if b_authTagLength b \<noteq> DefaultAuthTagLength
      then Inl (MoCOCrWException [Str (''It does not make sense to set length of the authentication tag'' @
             '' for a decryptor. This setting will be ignored and will confuse'' @
             '' reader of your code.'')])
      else AuthenticatedAESCipher_new L (b_mode b) (b_keySize b) (b_padding b) (b_secretKey b)
             (b_iv b) (b_authTagLength b) Decryption)"

end
