(* ===== verification/Aes_Stream.thy ===== *)
theory Aes_Stream
  imports Aes_Cipher
begin

text \<open>
  Correctness of the AES cipher objects: the documented behaviour of the EVP cipher functions
  as the predicate \<open>cipher_lib_laws\<close>, and on top of it that any interleaving of updates and
  reads produces the bytes of the one-shot function, that decryption inverts encryption, and
  that a wrong authentication tag is refused.
\<close>

section \<open>What OpenSSL documents\<close>

text \<open>
  What an initialised context stands for: the parameters, the data taken in and given out so
  far.  \<open>view\<close> is \<open>None\<close> on a context that has no key.
\<close>

record cview =
  cv_cipher :: EVP_CIPHER
  cv_key :: bytes
  cv_iv :: bytes
  cv_enc :: bool
  cv_pad :: bool
  cv_aad :: bytes
  cv_in :: bytes
  cv_out :: bytes
  cv_tag :: bytes

type_synonym crypt_fun = "EVP_CIPHER \<Rightarrow> bytes \<Rightarrow> bytes \<Rightarrow> bool \<Rightarrow> bytes \<Rightarrow> bytes option"
type_synonym tag_fun = "EVP_CIPHER \<Rightarrow> bytes \<Rightarrow> bytes \<Rightarrow> bytes \<Rightarrow> bytes \<Rightarrow> nat \<Rightarrow> bytes"

definition is_gcm :: "EVP_CIPHER \<Rightarrow> bool" where
  "is_gcm c \<longleftrightarrow> c = EVP_aes_128_gcm \<or> c = EVP_aes_256_gcm"

definition evp_key_len :: "EVP_CIPHER \<Rightarrow> nat" where
  "evp_key_len c = (if c \<in> {EVP_aes_128_gcm, EVP_aes_128_cbc, EVP_aes_128_ctr} then 16 else 32)"

definition evp_iv_len :: "EVP_CIPHER \<Rightarrow> nat" where
  "evp_iv_len c = (if is_gcm c then 12 else 16)"

definition crypt :: "crypt_fun \<Rightarrow> crypt_fun \<Rightarrow> cview \<Rightarrow> bytes option" where
  "crypt E D v =
     (if cv_enc v then E else D) (cv_cipher v) (cv_key v) (cv_iv v) (cv_pad v) (cv_in v)"

definition tag_of :: "tag_fun \<Rightarrow> cview \<Rightarrow> bytes \<Rightarrow> nat \<Rightarrow> bytes" where
  "tag_of T v ct n = T (cv_cipher v) (cv_key v) (cv_iv v) (cv_aad v) ct n"

definition authentic :: "tag_fun \<Rightarrow> cview \<Rightarrow> bool" where
  "authentic T v \<longleftrightarrow> (is_gcm (cv_cipher v) \<and> \<not> cv_enc v \<longrightarrow>
     cv_tag v \<noteq> [] \<and> cv_tag v = tag_of T v (cv_in v) (length (cv_tag v)))"

definition fresh_view :: "EVP_CIPHER \<Rightarrow> bytes \<Rightarrow> bytes \<Rightarrow> bool \<Rightarrow> bool \<Rightarrow> cview" where
  "fresh_view cipher key iv enc pad =
     \<lparr>cv_cipher = cipher, cv_key = key, cv_iv = iv, cv_enc = enc, cv_pad = pad,
      cv_aad = [], cv_in = [], cv_out = [], cv_tag = []\<rparr>"

text \<open>
  Initialisation with key and IV reads as many bytes as the cipher's lengths say; after a
  reset the IV length is the cipher's default again.
\<close>

definition cipher_setup_laws :: "'c cipher_lib \<Rightarrow> ('c \<Rightarrow> cview option) \<Rightarrow> bool" where
  "cipher_setup_laws L view \<longleftrightarrow>
     SSL_EVP_CIPHER_CTX_new L \<noteq> None
     \<and> (\<forall>c cipher enc. fst (SSL_EVP_CipherInit_ex L c cipher None None enc) = 1
          \<and> SSL_EVP_CIPHER_CTX_key_length L (snd (SSL_EVP_CipherInit_ex L c cipher None None enc))
              = int (evp_key_len cipher)
          \<and> SSL_EVP_CIPHER_CTX_iv_length L (snd (SSL_EVP_CipherInit_ex L c cipher None None enc))
              = int (evp_iv_len cipher))
     \<and> (\<forall>c cipher enc n p. is_gcm cipher \<and> 0 < n \<longrightarrow>
          fst (SSL_EVP_CIPHER_CTX_ctrl L (snd (SSL_EVP_CipherInit_ex L c cipher None None enc))
                 EVP_CTRL_GCM_SET_IVLEN n p) = 1)
     \<and> (\<forall>c. fst (SSL_EVP_CIPHER_CTX_reset L c) = 1)
     \<and> (\<forall>c cipher key iv enc. evp_key_len cipher \<le> length key \<and> evp_iv_len cipher \<le> length iv \<longrightarrow>
          fst (SSL_EVP_CipherInit_ex L (snd (SSL_EVP_CIPHER_CTX_reset L c)) cipher
                 (Some key) (Some iv) enc) = 1
          \<and> view (snd (SSL_EVP_CipherInit_ex L (snd (SSL_EVP_CIPHER_CTX_reset L c)) cipher
                         (Some key) (Some iv) enc))
            = Some (fresh_view cipher (take (evp_key_len cipher) key) (take (evp_iv_len cipher) iv)
                      enc True))
     \<and> (\<forall>c v n. view c = Some v \<longrightarrow> fst (SSL_EVP_CIPHER_CTX_set_padding L c n) = 1
          \<and> view (snd (SSL_EVP_CIPHER_CTX_set_padding L c n)) = Some (v\<lparr>cv_pad := (n \<noteq> 0)\<rparr>))"

text \<open>
  An update takes the data and may give out up to one block more than it took; the final call
  completes the output, or fails when the input cannot be processed (no padding and a partial
  block, a wrong padding) or is not authentic.
\<close>

definition cipher_data_laws ::
  "'c cipher_lib \<Rightarrow> ('c \<Rightarrow> cview option) \<Rightarrow> crypt_fun \<Rightarrow> crypt_fun \<Rightarrow> tag_fun \<Rightarrow> bool" where
  "cipher_data_laws L view E D T \<longleftrightarrow>
     (\<forall>c v d. view c = Some v \<and> d \<noteq> [] \<longrightarrow>
        (\<exists>out c'. SSL_EVP_CipherUpdate L c True d (int (length d)) = (1, out, c')
           \<and> length out \<le> length d + EVP_MAX_BLOCK_LENGTH
           \<and> view c' = Some (v\<lparr>cv_in := cv_in v @ d, cv_out := cv_out v @ out\<rparr>)))
     \<and> (\<forall>c v d. view c = Some v \<and> is_gcm (cv_cipher v) \<and> cv_in v = [] \<longrightarrow>
        (\<exists>out c'. SSL_EVP_CipherUpdate L c False d (int (length d)) = (1, out, c')
           \<and> view c' = Some (v\<lparr>cv_aad := cv_aad v @ d\<rparr>)))
     \<and> (\<forall>c v tag. view c = Some v \<and> is_gcm (cv_cipher v) \<and> \<not> cv_enc v
          \<and> 0 < length tag \<and> length tag \<le> 16 \<longrightarrow>
        (\<exists>out c'. SSL_EVP_CIPHER_CTX_ctrl L c EVP_CTRL_GCM_SET_TAG (int (length tag)) tag = (1, out, c')
           \<and> view c' = Some (v\<lparr>cv_tag := tag\<rparr>)))
     \<and> (\<forall>c v. view c = Some v \<longrightarrow>
        (if crypt E D v \<noteq> None \<and> authentic T v
         then \<exists>out c'. SSL_EVP_CipherFinal_ex L c = (1, out, c')
           \<and> crypt E D v = Some (cv_out v @ out) \<and> length out \<le> EVP_MAX_BLOCK_LENGTH
           \<and> view c' = Some (v\<lparr>cv_out := cv_out v @ out\<rparr>)
         else fst (SSL_EVP_CipherFinal_ex L c) \<noteq> 1))
     \<and> (\<forall>c v n p. view c = Some v \<and> is_gcm (cv_cipher v) \<and> cv_enc v
          \<and> crypt E D v = Some (cv_out v) \<and> 0 < n \<and> n \<le> 16 \<longrightarrow>
        (\<exists>c'. SSL_EVP_CIPHER_CTX_ctrl L c EVP_CTRL_GCM_GET_TAG (int n) p
             = (1, tag_of T v (cv_out v) n, c')))
     \<and> (\<forall>cipher key iv aad ct n. length (T cipher key iv aad ct n) = n)
     \<and> (\<forall>cipher key iv pad pt ct. E cipher key iv pad pt = Some ct \<longrightarrow> D cipher key iv pad ct = Some pt)"

definition cipher_lib_laws ::
  "'c cipher_lib \<Rightarrow> ('c \<Rightarrow> cview option) \<Rightarrow> crypt_fun \<Rightarrow> crypt_fun \<Rightarrow> tag_fun \<Rightarrow> bool" where
  "cipher_lib_laws L view E D T \<longleftrightarrow> cipher_setup_laws L view \<and> cipher_data_laws L view E D T"

lemma data_law_update:
  assumes "cipher_data_laws L view E D T" "view c = Some v" "d \<noteq> []"
  obtains out c' where "SSL_EVP_CipherUpdate L c True d (int (length d)) = (1, out, c')"
    "length out \<le> length d + EVP_MAX_BLOCK_LENGTH"
    "view c' = Some (v\<lparr>cv_in := cv_in v @ d, cv_out := cv_out v @ out\<rparr>)"
  using assms(1) [unfolded cipher_data_laws_def, THEN conjunct1] assms(2,3) by blast

lemma data_law_aad:
  assumes "cipher_data_laws L view E D T" "view c = Some v" "is_gcm (cv_cipher v)" "cv_in v = []"
  obtains out c' where "SSL_EVP_CipherUpdate L c False d (int (length d)) = (1, out, c')"
    "view c' = Some (v\<lparr>cv_aad := cv_aad v @ d\<rparr>)"
  using assms(1) [unfolded cipher_data_laws_def, THEN conjunct2, THEN conjunct1] assms(2-4) by blast

lemma data_law_set_tag:
  assumes "cipher_data_laws L view E D T" "view c = Some v" "is_gcm (cv_cipher v)" "\<not> cv_enc v"
    and "0 < length tag" "length tag \<le> 16"
  obtains out c' where
    "SSL_EVP_CIPHER_CTX_ctrl L c EVP_CTRL_GCM_SET_TAG (int (length tag)) tag = (1, out, c')"
    "view c' = Some (v\<lparr>cv_tag := tag\<rparr>)"
  using assms(1) [unfolded cipher_data_laws_def, THEN conjunct2, THEN conjunct2, THEN conjunct1]
    assms(2-) by blast

lemma data_law_final:
  assumes "cipher_data_laws L view E D T" "view c = Some v"
  shows "if crypt E D v \<noteq> None \<and> authentic T v
     then \<exists>out c'. SSL_EVP_CipherFinal_ex L c = (1, out, c')
       \<and> crypt E D v = Some (cv_out v @ out) \<and> length out \<le> EVP_MAX_BLOCK_LENGTH
       \<and> view c' = Some (v\<lparr>cv_out := cv_out v @ out\<rparr>)
     else fst (SSL_EVP_CipherFinal_ex L c) \<noteq> 1"
  using assms(1) [unfolded cipher_data_laws_def, THEN conjunct2, THEN conjunct2, THEN conjunct2,
      THEN conjunct1] assms(2) by blast

lemma data_law_get_tag:
  assumes "cipher_data_laws L view E D T" "view c = Some v" "is_gcm (cv_cipher v)" "cv_enc v"
    and "crypt E D v = Some (cv_out v)" "0 < n" "n \<le> 16"
  obtains c' where
    "SSL_EVP_CIPHER_CTX_ctrl L c EVP_CTRL_GCM_GET_TAG (int n) p = (1, tag_of T v (cv_out v) n, c')"
  using assms(1) [unfolded cipher_data_laws_def, THEN conjunct2, THEN conjunct2, THEN conjunct2,
      THEN conjunct2, THEN conjunct1] assms(2-) by blast

lemma data_law_math:
  assumes "cipher_data_laws L view E D T"
  shows "length (T cipher key iv aad ct n) = n"
    and "E cipher key iv pad pt = Some ct \<Longrightarrow> D cipher key iv pad ct = Some pt"
  using assms unfolding cipher_data_laws_def by simp_all

section \<open>Construction\<close>

lemma mode_lengths:
  "evp_key_len (getEVPCipherConstructorForModeAndSize mode ks) = getSymmetricCipherKeySize ks"
  "evp_iv_len (getEVPCipherConstructorForModeAndSize mode ks) = getDefaultIVLength mode"
  "is_gcm (getEVPCipherConstructorForModeAndSize mode ks) \<longleftrightarrow> mode = GCM"
  by (cases mode; cases ks; simp add: evp_key_len_def evp_iv_len_def is_gcm_def)+

definition iv_accepted :: "SymmetricCipherMode \<Rightarrow> bytes \<Rightarrow> bool" where
  "iv_accepted mode iv \<longleftrightarrow>
     (if mode = GCM then getDefaultIVLength mode \<le> length iv else length iv = getDefaultIVLength mode)
     \<and> int (length iv) \<le> INT_MAX"

lemma size_t_of_int_numeral: "(word_of_int (int n) :: size_t) = word_of_nat n"
  by simp

lemma ossl_ctrl_ok:
  "SSL_EVP_CIPHER_CTX_ctrl L c t n p = (1, out, c') \<Longrightarrow>
     ossl_EVP_CIPHER_CTX_ctrl L t n p c = (Inr (overwrite p out), c')"
  by (simp add: ossl_simps)

lemma AES_check_iv_ok:
  assumes "cipher_setup_laws L view" "iv_accepted mode iv"
    and "cipher = getEVPCipherConstructorForModeAndSize mode ks"
  shows "\<exists>c'. AES_check_iv L mode iv (snd (SSL_EVP_CipherInit_ex L c cipher None None enc)) = (Inr (), c')"
proof (cases "mode = GCM")
  case True
  let ?c = "snd (SSL_EVP_CipherInit_ex L c cipher None None enc)"
  have n: "to_int (length iv) = int (length iv)" "length iv > 0"
    using assms(2) True by (auto simp: iv_accepted_def to_int_small)
  obtain rv out c' where r: "SSL_EVP_CIPHER_CTX_ctrl L ?c EVP_CTRL_GCM_SET_IVLEN (int (length iv)) []
      = (rv, out, c')" by (metis surj_pair)
  have "is_gcm cipher" using assms(3) True mode_lengths(3) by simp
  then have "fst (SSL_EVP_CIPHER_CTX_ctrl L ?c EVP_CTRL_GCM_SET_IVLEN (int (length iv)) []) = 1"
    using assms(1) n(2) unfolding cipher_setup_laws_def by simp
  with r True n show ?thesis
    by (simp add: AES_check_iv_def bindS_unfold ossl_simps)
next
  case False
  have "SSL_EVP_CIPHER_CTX_iv_length L (snd (SSL_EVP_CipherInit_ex L c cipher None None enc))
      = int (evp_iv_len cipher)"
    using assms(1) unfolding cipher_setup_laws_def by simp
  moreover have "evp_iv_len cipher = length iv"
    using assms(2,3) False mode_lengths(2) [of mode ks] by (simp add: iv_accepted_def)
  moreover have "evp_iv_len cipher \<noteq> 0" by (simp add: evp_iv_len_def)
  ultimately show ?thesis
    using False by (cases mode) (simp_all add: AES_check_iv_def ossl_simps)
qed

lemma AES_setup_ok:
  assumes "cipher_setup_laws L view" "iv_accepted mode iv" "length key = getSymmetricCipherKeySize ks"
    and "cipher = getEVPCipherConstructorForModeAndSize mode ks"
  shows "\<exists>c'. AES_setup L mode ks padding key iv op c = (Inr (), c')
     \<and> view c' = Some (fresh_view cipher key (take (evp_iv_len cipher) iv) (op = Encryption)
                         (padding = PKCS))"
proof -
  let ?enc = "op = Encryption"
  let ?c1 = "snd (SSL_EVP_CipherInit_ex L c cipher None None ?enc)"
  have klen: "evp_key_len cipher = length key" "0 < length key"
    using assms(3,4) mode_lengths(1) by (cases ks; simp)+
  have i1: "fst (SSL_EVP_CipherInit_ex L c cipher None None ?enc) = 1"
    and kl: "SSL_EVP_CIPHER_CTX_key_length L ?c1 = int (length key)"
    using assms(1) klen(1) unfolding cipher_setup_laws_def by simp_all
  have ck: "AES_check_key L key ?c1 = (Inr (), ?c1)"
    using kl klen(2) by (simp add: AES_check_key_def ossl_simps)
  obtain c2 where ci: "AES_check_iv L mode iv ?c1 = (Inr (), c2)"
    using AES_check_iv_ok [OF assms(1,2,4)] by blast
  let ?c3 = "snd (SSL_EVP_CIPHER_CTX_reset L c2)"
  let ?c4 = "snd (SSL_EVP_CipherInit_ex L ?c3 cipher (Some key) (Some iv) ?enc)"
  let ?v = "fresh_view cipher key (take (evp_iv_len cipher) iv) ?enc True"
  have rs: "fst (SSL_EVP_CIPHER_CTX_reset L c2) = 1"
    using assms(1) unfolding cipher_setup_laws_def by simp
  have "evp_iv_len cipher \<le> length iv"
    using assms(2,4) mode_lengths(2) by (auto simp: iv_accepted_def split: if_splits)
  then have i2: "fst (SSL_EVP_CipherInit_ex L ?c3 cipher (Some key) (Some iv) ?enc) = 1"
    and v: "view ?c4 = Some ?v"
    using assms(1) klen(1) unfolding cipher_setup_laws_def by simp_all
  have "\<exists>c'. AES_set_padding L padding ?c4 = (Inr (), c') \<and> view c' = Some (?v\<lparr>cv_pad := (padding = PKCS)\<rparr>)"
  proof (cases padding)
    case NO
    have "fst (SSL_EVP_CIPHER_CTX_set_padding L ?c4 0) = 1"
      "view (snd (SSL_EVP_CIPHER_CTX_set_padding L ?c4 0)) = Some (?v\<lparr>cv_pad := False\<rparr>)"
      using assms(1) v unfolding cipher_setup_laws_def by simp_all
    with NO show ?thesis by (simp add: AES_set_padding_def ossl_simps checkS_IsOne)
  next
    case PKCS
    with v show ?thesis by (simp add: AES_set_padding_def fresh_view_def)
  qed
  then show ?thesis
    using i1 ck ci rs i2 assms(4)
    by (simp add: AES_setup_def Let_def bindS_unfold ossl_EVP_CipherInit_ex_def
        ossl_EVP_CIPHER_CTX_reset_def checkS_IsOne fresh_view_def)
qed

text \<open>A cipher object and the view of its context; \<open>got\<close> is what has been read from it.\<close>

definition aes_at :: "('c \<Rightarrow> cview option) \<Rightarrow> cview \<Rightarrow> bytes \<Rightarrow> 'c aes \<Rightarrow> bool" where
  "aes_at view v got s \<longleftrightarrow>
     view (aes_ctx s) = Some v \<and> queue_invar (aes_buffer s) \<and> \<not> aes_isFinished s
     \<and> got @ queue_contents (aes_buffer s) = cv_out v
     \<and> is_gcm (cv_cipher v) = (aes_mode s = GCM) \<and> cv_enc v = (aes_operation s = Encryption)
     \<and> (cv_in v = [] \<longrightarrow> \<not> aes_isUpdated s)"

lemma AESCipher_new_ok:
  assumes "cipher_lib_laws L view E D T" "iv_accepted mode iv" "length key = getSymmetricCipherKeySize ks"
  shows "\<exists>s. AESCipher_new L mode ks padding key iv op = Inr s
     \<and> aes_at view (fresh_view (getEVPCipherConstructorForModeAndSize mode ks) key
            (take (getDefaultIVLength mode) iv) (op = Encryption) (padding = PKCS)) [] s
     \<and> aes_authTag s = [] \<and> aes_iv s = iv"
proof -
  let ?cipher = "getEVPCipherConstructorForModeAndSize mode ks"
  have L: "cipher_setup_laws L view" using assms(1) by (simp add: cipher_lib_laws_def)
  obtain c where c: "SSL_EVP_CIPHER_CTX_new L = Some c"
    using L unfolding cipher_setup_laws_def by auto
  obtain c' where "AES_setup L mode ks padding key iv op c = (Inr (), c')"
    "view c' = Some (fresh_view ?cipher key (take (getDefaultIVLength mode) iv) (op = Encryption)
       (padding = PKCS))"
    using AES_setup_ok [OF L assms(2,3) refl] mode_lengths(2) by metis
  with c show ?thesis
    by (simp add: AESCipher_new_def ossl_simps aes_at_def qmem.invar_new qmem.contents_new
        fresh_view_def mode_lengths(3))
qed

section \<open>Streaming\<close>

datatype aes_op = Update bytes | ReadN nat | ReadRest

fun aes_run :: "'c cipher_lib \<Rightarrow> aes_op list \<Rightarrow> ('c aes, bytes) st" where
  "aes_run L [] = returnS []"
| "aes_run L (Update m # ops) = bindS (AES_update L m) (\<lambda>_. aes_run L ops)"
| "aes_run L (ReadN n # ops) =
     bindS (AES_read n) (\<lambda>x. bindS (aes_run L ops) (\<lambda>y. returnS (x @ y)))"
| "aes_run L (ReadRest # ops) =
     bindS AES_readAll (\<lambda>x. bindS (aes_run L ops) (\<lambda>y. returnS (x @ y)))"

fun fed :: "aes_op list \<Rightarrow> bytes" where
  "fed [] = []"
| "fed (Update m # ops) = m @ fed ops"
| "fed (ReadN n # ops) = fed ops"
| "fed (ReadRest # ops) = fed ops"

definition fits_update :: "aes_op \<Rightarrow> bool" where
  "fits_update op \<longleftrightarrow>
     (case op of Update m \<Rightarrow> int (length m) \<le> INT_MAX - int EVP_MAX_BLOCK_LENGTH | _ \<Rightarrow> True)"

definition aes_process :: "'c cipher_lib \<Rightarrow> aes_op list \<Rightarrow> ('c aes, bytes) st" where
  "aes_process L ops = bindS (aes_run L ops) (\<lambda>x. bindS (AES_finish L) (\<lambda>y. returnS (x @ y)))"

lemma AES_update_at:
  assumes "cipher_data_laws L view E D T" "aes_at view v got s" "fits_update (Update m)"
  shows "\<exists>t out. AES_update L m s = (Inr (), t)
     \<and> aes_at view (v\<lparr>cv_in := cv_in v @ m, cv_out := cv_out v @ out\<rparr>) got t
     \<and> aes_authTag t = aes_authTag s \<and> aes_requestedAuthTagLength t = aes_requestedAuthTagLength s"
proof (cases "m = []")
  case True
  with assms show ?thesis
    by (intro exI [of _ s] exI [of _ "[]"]) (simp add: AES_update_def aes_at_def fits_update_def)
next
  case False
  have v: "view (aes_ctx s) = Some v" "queue_invar (aes_buffer s)" "\<not> aes_isFinished s"
    "got @ queue_contents (aes_buffer s) = cv_out v"
    using assms(2) by (simp_all add: aes_at_def)
  obtain out c' where u: "SSL_EVP_CipherUpdate L (aes_ctx s) True m (int (length m)) = (1, out, c')"
    "length out \<le> length m + EVP_MAX_BLOCK_LENGTH"
    "view c' = Some (v\<lparr>cv_in := cv_in v @ m, cv_out := cv_out v @ out\<rparr>)"
    using data_law_update [OF assms(1) v(1) False] .
  let ?t = "(if out = [] then s\<lparr>aes_ctx := c'\<rparr>
     else s\<lparr>aes_ctx := c', aes_buffer := queue_write out (aes_buffer s)\<rparr>)\<lparr>aes_isUpdated := True\<rparr>"
  have "AES_update L m s = (Inr (), ?t)"
    using v(3) u(1) assms(3) False resize_overwrite [OF u(2)]
    by (simp add: AES_update_def fits_update_def onCtx_def bindS_unfold ossl_simps Let_def)
  moreover have "got @ queue_contents (aes_buffer ?t) = cv_out v @ out"
    using v(2) v(4) [symmetric] by (simp add: qmem.contents_write)
  then have "aes_at view (v\<lparr>cv_in := cv_in v @ m, cv_out := cv_out v @ out\<rparr>) got ?t"
    using assms(2) u(3) v(2,3) False by (simp add: aes_at_def qmem.invar_write)
  ultimately show ?thesis by (intro exI [of _ ?t] exI [of _ out]) simp
qed

lemma AES_read_at:
  assumes "aes_at view v got s"
  shows "\<exists>x t. AES_read n s = (Inr x, t) \<and> aes_at view v (got @ x) t
     \<and> aes_authTag t = aes_authTag s \<and> aes_requestedAuthTagLength t = aes_requestedAuthTagLength s"
proof -
  obtain x q where q: "queue_read n (aes_buffer s) = (x, q)" by fastforce
  have "queue_invar (aes_buffer s)" using assms by (simp add: aes_at_def)
  from qmem.read_spec [OF this q] q assms show ?thesis
    by (auto simp: AES_read_def aes_at_def)
qed

lemma AES_readAll_at:
  assumes "aes_at view v got s"
  shows "\<exists>x t. AES_readAll s = (Inr x, t) \<and> aes_at view v (got @ x) t
     \<and> aes_authTag t = aes_authTag s \<and> aes_requestedAuthTagLength t = aes_requestedAuthTagLength s"
proof -
  obtain x q where q: "queue_readAll (aes_buffer s) = (x, q)" by fastforce
  have "queue_invar (aes_buffer s)" using assms by (simp add: aes_at_def)
  from qmem.readAll_spec [OF this q] q assms show ?thesis
    by (auto simp: AES_readAll_def aes_at_def)
qed

lemma aes_run_at:
  assumes "cipher_data_laws L view E D T"
  shows "aes_at view v got s \<Longrightarrow> list_all fits_update ops \<Longrightarrow>
     \<exists>x t out. aes_run L ops s = (Inr x, t)
       \<and> aes_at view (v\<lparr>cv_in := cv_in v @ fed ops, cv_out := out\<rparr>) (got @ x) t
       \<and> aes_authTag t = aes_authTag s \<and> aes_requestedAuthTagLength t = aes_requestedAuthTagLength s"
proof (induction ops arbitrary: v got s)
  case Nil
  then show ?case by (intro exI [of _ "[]"] exI [of _ s] exI [of _ "cv_out v"]) simp
next
  case (Cons op ops)
  have ops: "list_all fits_update ops" using Cons.prems(2) by simp
  show ?case
  proof (cases op)
    case (Update m)
    then have "fits_update (Update m)" using Cons.prems(2) by simp
    from AES_update_at [OF assms Cons.prems(1) this] obtain t out where t:
      "AES_update L m s = (Inr (), t)"
      "aes_at view (v\<lparr>cv_in := cv_in v @ m, cv_out := cv_out v @ out\<rparr>) got t"
      "aes_authTag t = aes_authTag s" "aes_requestedAuthTagLength t = aes_requestedAuthTagLength s"
      by blast
    from Cons.IH [OF t(2) ops] t Update show ?thesis by (auto simp: bindS_unfold)
  next
    case (ReadN n)
    from AES_read_at [OF Cons.prems(1), of n] obtain x t where t: "AES_read n s = (Inr x, t)"
      "aes_at view v (got @ x) t" "aes_authTag t = aes_authTag s"
      "aes_requestedAuthTagLength t = aes_requestedAuthTagLength s" by blast
    from Cons.IH [OF t(2) ops] t ReadN show ?thesis by (fastforce simp: bindS_unfold)
  next
    case ReadRest
    from AES_readAll_at [OF Cons.prems(1)] obtain x t where t: "AES_readAll s = (Inr x, t)"
      "aes_at view v (got @ x) t" "aes_authTag t = aes_authTag s"
      "aes_requestedAuthTagLength t = aes_requestedAuthTagLength s" by blast
    from Cons.IH [OF t(2) ops] t ReadRest show ?thesis by (fastforce simp: bindS_unfold)
  qed
qed

section \<open>Finishing\<close>

lemma AES_hand_over_tag_at:
  assumes "cipher_data_laws L view E D T" "aes_at view v got s"
    and "auth_decryption s \<Longrightarrow> 0 < length (aes_authTag s) \<and> length (aes_authTag s) \<le> 16"
  shows "\<exists>t. AES_hand_over_tag L s = (Inr (), t)
     \<and> aes_at view (if auth_decryption s then v\<lparr>cv_tag := aes_authTag s\<rparr> else v) got t
     \<and> aes_authTag t = aes_authTag s \<and> aes_requestedAuthTagLength t = aes_requestedAuthTagLength s
     \<and> auth_decryption t = auth_decryption s"
proof (cases "auth_decryption s")
  case True
  let ?tag = "aes_authTag s"
  have len: "0 < length ?tag" "length ?tag \<le> 16" using assms(3) True by simp_all
  have v: "view (aes_ctx s) = Some v" using assms(2) by (simp add: aes_at_def)
  have "aes_mode s = GCM" "aes_operation s = Decryption"
    using True by (cases "aes_mode s"; simp add: auth_decryption_def)+
  then have "is_gcm (cv_cipher v)" "\<not> cv_enc v" using assms(2) by (simp_all add: aes_at_def)
  then obtain out c' where c: "SSL_EVP_CIPHER_CTX_ctrl L (aes_ctx s) EVP_CTRL_GCM_SET_TAG
      (int (length ?tag)) ?tag = (1, out, c')" "view c' = Some (v\<lparr>cv_tag := ?tag\<rparr>)"
    using data_law_set_tag [OF assms(1) v _ _ len] by blast
  have "to_int (length ?tag) = int (length ?tag)"
    using len(2) by (intro to_int_small) (simp add: INT_MAX_def)
  with c True len assms(2) show ?thesis
    by (simp add: AES_hand_over_tag_def onCtx_def bindS_unfold ossl_ctrl_ok aes_at_def auth_decryption_def)
next
  case False
  with assms(2) show ?thesis by (simp add: AES_hand_over_tag_def)
qed

lemma AES_final_ok:
  assumes "cipher_data_laws L view E D T" "aes_at view v got s" "crypt E D v \<noteq> None" "authentic T v"
  shows "\<exists>out c'. AES_final L s = (Inr out, s\<lparr>aes_ctx := c'\<rparr>) \<and> crypt E D v = Some (cv_out v @ out)
     \<and> length out \<le> EVP_MAX_BLOCK_LENGTH \<and> view c' = Some (v\<lparr>cv_out := cv_out v @ out\<rparr>)"
proof -
  have "view (aes_ctx s) = Some v" using assms(2) by (simp add: aes_at_def)
  then obtain out c' where "SSL_EVP_CipherFinal_ex L (aes_ctx s) = (1, out, c')"
    "crypt E D v = Some (cv_out v @ out)" "length out \<le> EVP_MAX_BLOCK_LENGTH"
    "view c' = Some (v\<lparr>cv_out := cv_out v @ out\<rparr>)"
    using data_law_final [OF assms(1)] assms(3,4) by metis
  then show ?thesis
    by (intro exI [of _ out] exI [of _ c']) (simp add: AES_final_def onCtx_def ossl_simps)
qed

lemma AES_final_unauthentic:
  assumes "cipher_data_laws L view E D T" "aes_at view v got s" "auth_decryption s" "\<not> authentic T v"
  shows "fst (AES_final L s) = Inl err_auth_failed"
proof -
  have "view (aes_ctx s) = Some v" using assms(2) by (simp add: aes_at_def)
  then have "fst (SSL_EVP_CipherFinal_ex L (aes_ctx s)) \<noteq> 1"
    using data_law_final [OF assms(1)] assms(4) by metis
  then show ?thesis
    using assms(3)
    by (simp add: AES_final_def onCtx_def ossl_simps case_prod_beta OpenSSLException_default_def)
qed

definition fetched_tag :: "tag_fun \<Rightarrow> cview \<Rightarrow> 'c aes \<Rightarrow> bytes" where
  "fetched_tag T v s = (if aes_mode s = GCM \<and> aes_operation s = Encryption
     then tag_of T v (cv_out v) (aes_requestedAuthTagLength s) else aes_authTag s)"

lemma AES_fetch_tag_ok:
  assumes "cipher_data_laws L view E D T" "view (aes_ctx s) = Some v"
    and "is_gcm (cv_cipher v) = (aes_mode s = GCM)" "cv_enc v = (aes_operation s = Encryption)"
    and "crypt E D v = Some (cv_out v)"
    and "aes_mode s = GCM \<and> aes_operation s = Encryption \<Longrightarrow>
           0 < aes_requestedAuthTagLength s \<and> aes_requestedAuthTagLength s \<le> 16"
  shows "\<exists>c'. AES_fetch_tag L s = (Inr (), s\<lparr>aes_ctx := c', aes_authTag := fetched_tag T v s\<rparr>)"
proof (cases "aes_mode s = GCM \<and> aes_operation s = Encryption")
  case True
  let ?n = "aes_requestedAuthTagLength s"
  let ?tag = "resize (aes_authTag s) ?n"
  have n: "0 < ?n" "?n \<le> 16" using assms(6) True by simp_all
  have t: "to_int ?n = int ?n" using n(2) by (intro to_int_small) (simp add: INT_MAX_def)
  obtain c' where c: "SSL_EVP_CIPHER_CTX_ctrl L (aes_ctx s) EVP_CTRL_GCM_GET_TAG (int ?n) ?tag
      = (1, tag_of T v (cv_out v) ?n, c')"
    using data_law_get_tag [OF assms(1,2) _ _ assms(5) n] assms(3,4) True by blast
  have "overwrite ?tag (tag_of T v (cv_out v) ?n) = tag_of T v (cv_out v) ?n"
    using data_law_math(1) [OF assms(1)] by (simp add: tag_of_def)
  with c t True show ?thesis
    by (intro exI [of _ c']) (simp add: AES_fetch_tag_def onCtx_def bindS_unfold ossl_ctrl_ok Let_def
          fetched_tag_def)
next
  case False
  then show ?thesis by (intro exI [of _ "aes_ctx s"]) (auto simp: AES_fetch_tag_def fetched_tag_def)
qed

text \<open>The conditions under which \<open>finish\<close> succeeds, and what it then returns.\<close>

definition tag_ready :: "'c aes \<Rightarrow> bool" where
  "tag_ready s \<longleftrightarrow>
     (auth_decryption s \<longrightarrow> 0 < length (aes_authTag s) \<and> length (aes_authTag s) \<le> 16)
     \<and> (aes_mode s = GCM \<and> aes_operation s = Encryption \<longrightarrow>
          0 < aes_requestedAuthTagLength s \<and> aes_requestedAuthTagLength s \<le> 16)"

definition final_view :: "'c aes \<Rightarrow> cview \<Rightarrow> cview" where
  "final_view s v = (if auth_decryption s then v\<lparr>cv_tag := aes_authTag s\<rparr> else v)"

lemma AES_finish_at:
  assumes "cipher_data_laws L view E D T" "aes_at view v got s" "tag_ready s"
    and "crypt E D v = Some r" "authentic T (final_view s v)"
  shows "\<exists>y t. AES_finish L s = (Inr y, t) \<and> got @ y = r \<and> aes_isFinished t
     \<and> (aes_mode s = GCM \<and> aes_operation s = Encryption \<longrightarrow>
          aes_authTag t = tag_of T v r (aes_requestedAuthTagLength s))"
proof -
  let ?v = "final_view s v"
  obtain t1 where t1: "AES_hand_over_tag L s = (Inr (), t1)" "aes_at view ?v got t1"
    "aes_authTag t1 = aes_authTag s" "aes_requestedAuthTagLength t1 = aes_requestedAuthTagLength s"
    "auth_decryption t1 = auth_decryption s"
    using AES_hand_over_tag_at [OF assms(1,2)] assms(3) by (auto simp: final_view_def tag_ready_def)
  have cr: "crypt E D ?v = Some r" using assms(4) by (simp add: final_view_def crypt_def split: if_splits)
  then obtain out c2 where f: "AES_final L t1 = (Inr out, t1\<lparr>aes_ctx := c2\<rparr>)"
    "r = cv_out ?v @ out" "length out \<le> EVP_MAX_BLOCK_LENGTH"
    "view c2 = Some (?v\<lparr>cv_out := cv_out ?v @ out\<rparr>)"
    using AES_final_ok [OF assms(1) t1(2) _ assms(5)] by auto
  let ?w = "?v\<lparr>cv_out := cv_out ?v @ out\<rparr>"
  let ?t2 = "t1\<lparr>aes_ctx := c2\<rparr>"
  have at: "queue_invar (aes_buffer t1)" "got @ queue_contents (aes_buffer t1) = cv_out ?v"
    "is_gcm (cv_cipher ?v) = (aes_mode t1 = GCM)" "cv_enc ?v = (aes_operation t1 = Encryption)"
    using t1(2) by (simp_all add: aes_at_def)
  have m: "(aes_mode t1 = GCM \<and> aes_operation t1 = Encryption) = (aes_mode s = GCM \<and> aes_operation s = Encryption)"
    using assms(2) at(3,4) by (simp add: aes_at_def final_view_def split: if_splits)
  have "crypt E D ?w = Some (cv_out ?w)" using cr f(2) by (simp add: crypt_def split: if_splits)
  then obtain c3 where g: "AES_fetch_tag L ?t2
      = (Inr (), ?t2\<lparr>aes_ctx := c3, aes_authTag := fetched_tag T ?w ?t2\<rparr>)"
    using AES_fetch_tag_ok [OF assms(1), of ?t2 ?w] f(4) at(3,4) m t1(4) assms(3)
    by (auto simp: tag_ready_def)
  let ?t3 = "?t2\<lparr>aes_ctx := c3, aes_authTag := fetched_tag T ?w ?t2,
      aes_buffer := queue_write out (aes_buffer t1), aes_isFinished := True\<rparr>"
  obtain y q where q: "queue_readAll (queue_write out (aes_buffer t1)) = (y, q)" by fastforce
  have "y = queue_contents (aes_buffer t1) @ out"
    using qmem.readAll_spec [OF qmem.invar_write [OF at(1)] q] at(1) by (simp add: qmem.contents_write)
  then have y: "got @ y = r" using at(2) f(2) by simp
  have "AES_finish L s = AES_readAll ?t3"
    using assms(2) t1(1) f(1) g resize_overwrite [OF f(3)]
    by (simp add: AES_finish_def bindS_unfold aes_at_def)
  then have "AES_finish L s = (Inr y, ?t3\<lparr>aes_buffer := q\<rparr>)" using q by (simp add: AES_readAll_def)
  moreover have "fetched_tag T ?w ?t2 = tag_of T v r (aes_requestedAuthTagLength s)"
    if "aes_mode s = GCM \<and> aes_operation s = Encryption"
    using f(2) m t1(4) that by (simp add: fetched_tag_def tag_of_def final_view_def)
  ultimately show ?thesis using y by (intro exI [of _ y] exI [of _ "?t3\<lparr>aes_buffer := q\<rparr>"]) simp
qed

lemma AES_finish_unauthentic:
  assumes "cipher_data_laws L view E D T" "aes_at view v got s" "tag_ready s"
    and "auth_decryption s" "\<not> authentic T (final_view s v)"
  shows "fst (AES_finish L s) = Inl err_auth_failed"
proof -
  obtain t1 where t1: "AES_hand_over_tag L s = (Inr (), t1)" "aes_at view (final_view s v) got t1"
    "auth_decryption t1"
    using AES_hand_over_tag_at [OF assms(1,2)] assms(3,4) by (auto simp: final_view_def tag_ready_def)
  have "fst (AES_final L t1) = Inl err_auth_failed"
    using AES_final_unauthentic [OF assms(1) t1(2,3) assms(5)] .
  then show ?thesis
    using assms(2) t1(1) by (cases "AES_final L t1") (simp add: AES_finish_def bindS_unfold aes_at_def)
qed

lemma aes_process_at:
  assumes "cipher_data_laws L view E D T" "aes_at view v [] s" "tag_ready s" "list_all fits_update ops"
    and "cv_in v = []" "crypt E D (v\<lparr>cv_in := fed ops\<rparr>) = Some r"
    and "authentic T (final_view s (v\<lparr>cv_in := fed ops\<rparr>))"
  shows "\<exists>t. aes_process L ops s = (Inr r, t) \<and> aes_isFinished t
     \<and> (aes_mode s = GCM \<and> aes_operation s = Encryption \<longrightarrow>
          aes_authTag t = tag_of T v r (aes_requestedAuthTagLength s))"
proof -
  obtain x t out where t: "aes_run L ops s = (Inr x, t)"
    "aes_at view (v\<lparr>cv_in := fed ops, cv_out := out\<rparr>) x t"
    "aes_authTag t = aes_authTag s" "aes_requestedAuthTagLength t = aes_requestedAuthTagLength s"
    using aes_run_at [OF assms(1,2,4)] assms(5) by auto
  let ?v = "v\<lparr>cv_in := fed ops, cv_out := out\<rparr>"
  have mo: "(aes_mode t = GCM) = (aes_mode s = GCM)" "(aes_operation t = Encryption) = (aes_operation s = Encryption)"
    using assms(2) t(2) by (simp_all add: aes_at_def)
  then have ad: "auth_decryption t = auth_decryption s"
    by (cases "aes_mode t"; cases "aes_mode s"; cases "aes_operation t"; cases "aes_operation s";
        simp add: auth_decryption_def)
  have "tag_ready t" using assms(3) mo ad t(3,4) by (simp add: tag_ready_def)
  moreover have "crypt E D ?v = Some r" using assms(6) by (simp add: crypt_def)
  moreover have "authentic T (final_view t ?v)"
    using assms(7) ad t(3)
    by (cases "auth_decryption s") (simp_all add: authentic_def final_view_def tag_of_def)
  ultimately obtain y u where u: "AES_finish L t = (Inr y, u)" "x @ y = r" "aes_isFinished u"
    "aes_mode t = GCM \<and> aes_operation t = Encryption \<longrightarrow>
       aes_authTag u = tag_of T ?v r (aes_requestedAuthTagLength t)"
    using AES_finish_at [OF assms(1) t(2)] by blast
  have "tag_of T ?v r n = tag_of T v r n" for n by (simp add: tag_of_def)
  with u t(1,4) mo show ?thesis
    by (simp add: aes_process_def bindS_unfold)
qed

section \<open>Decryption inverts encryption\<close>

lemma fed_fresh: "(fresh_view cipher key iv enc pad)\<lparr>cv_in := d\<rparr> =
    \<lparr>cv_cipher = cipher, cv_key = key, cv_iv = iv, cv_enc = enc, cv_pad = pad, cv_aad = [],
     cv_in = d, cv_out = [], cv_tag = []\<rparr>"
  by (simp add: fresh_view_def)

lemma aes_at_mode: "aes_at view v got s \<Longrightarrow> \<not> is_gcm (cv_cipher v) \<Longrightarrow>
    tag_ready s \<and> \<not> auth_decryption s"
  by (cases "aes_mode s") (auto simp: aes_at_def tag_ready_def auth_decryption_def)

lemma plain_cipher_process:
  assumes "cipher_lib_laws L view E D T" "mode \<noteq> GCM"
    and "length key = getSymmetricCipherKeySize ks" "length iv = getDefaultIVLength mode"
    and "list_all fits_update ops"
    and "(if op = Encryption then E else D) (getEVPCipherConstructorForModeAndSize mode ks) key iv
           (padding = PKCS) (fed ops) = Some r"
  shows "bindR (AESCipher_new L mode ks padding key iv op) (\<lambda>s. fst (aes_process L ops s)) = Inr r"
proof -
  let ?cipher = "getEVPCipherConstructorForModeAndSize mode ks"
  let ?v = "fresh_view ?cipher key iv (op = Encryption) (padding = PKCS)"
  have L: "cipher_data_laws L view E D T" using assms(1) by (simp add: cipher_lib_laws_def)
  have "iv_accepted mode iv"
    using assms(2,4) by (cases mode) (simp_all add: iv_accepted_def INT_MAX_def)
  then obtain s where s: "AESCipher_new L mode ks padding key iv op = Inr s" "aes_at view ?v [] s"
    using AESCipher_new_ok [OF assms(1) _ assms(3)] assms(4) by fastforce
  have nog: "\<not> is_gcm ?cipher" using assms(2) mode_lengths(3) by simp
  then have m: "tag_ready s" "\<not> auth_decryption s"
    using aes_at_mode [OF s(2)] by (simp_all add: fresh_view_def)
  have "crypt E D (?v\<lparr>cv_in := fed ops\<rparr>) = Some r"
    using assms(6) by (simp add: fed_fresh crypt_def)
  moreover have "authentic T (final_view s (?v\<lparr>cv_in := fed ops\<rparr>))"
    using nog m(2) by (simp add: authentic_def final_view_def fed_fresh)
  ultimately show ?thesis
    using aes_process_at [OF L s(2) m(1) assms(5)] s(1) by (fastforce simp: fresh_view_def)
qed

text \<open>
  C33: For CBC and CTR with a key and an IV of the right size: encrypting through any
  interleaving of updates and reads gives the ciphertext of the concatenated input, and
  decrypting that ciphertext, again in any pieces, gives the plaintext back.
\<close>

theorem AES_roundtrip:
  assumes "cipher_lib_laws L view E D T" "mode \<noteq> GCM"
    and "length key = getSymmetricCipherKeySize ks" "length iv = getDefaultIVLength mode"
    and "list_all fits_update ops" "list_all fits_update ops'"
    and "E (getEVPCipherConstructorForModeAndSize mode ks) key iv (padding = PKCS) (fed ops) = Some ct"
    and "fed ops' = ct"
  defines "b \<equiv> setPadding padding (setIV iv (AESCipherBuilder_new mode ks key))"
  shows "bindR (buildEncryptor L RAND b) (\<lambda>s. fst (aes_process L ops s)) = Inr ct
     \<and> bindR (buildDecryptor L b) (\<lambda>s. fst (aes_process L ops' s)) = Inr (fed ops)"
proof -
  let ?cipher = "getEVPCipherConstructorForModeAndSize mode ks"
  have d: "D ?cipher key iv (padding = PKCS) ct = Some (fed ops)"
    using assms(1,7) data_law_math(2) unfolding cipher_lib_laws_def by blast
  have na: "\<not> isAuthenticatedCipherMode mode" using assms(2) by (cases mode) simp_all
  have ivne: "iv \<noteq> []" using assms(4) by (cases mode) auto
  note defs = b_def setPadding_def setIV_def AESCipherBuilder_new_def
  have "buildEncryptor L RAND b = AESCipher_new L mode ks padding key iv Encryption"
    "buildDecryptor L b = AESCipher_new L mode ks padding key iv Decryption"
    using na ivne by (simp_all add: buildEncryptor_def buildDecryptor_def builder_iv_def defs)
  then show ?thesis
    using plain_cipher_process [OF assms(1-4), of ops Encryption padding ct]
      plain_cipher_process [OF assms(1-4), of ops' Decryption padding "fed ops"] assms(5-8) d
    by simp
qed

section \<open>Authenticated encryption\<close>

definition gcm_encrypt ::
  "'c cipher_lib \<Rightarrow> (int \<Rightarrow> int \<times> bytes) \<Rightarrow> AESCipherBuilder \<Rightarrow> bytes list \<Rightarrow> aes_op list \<Rightarrow>
     (bytes \<times> bytes) res" where
  "gcm_encrypt L RAND b aads ops =
     bindR (buildAuthenticatedEncryptor L RAND b) (\<lambda>s.
       case bindS (feed (AES_addAssociatedData L) aads) (\<lambda>_. aes_process L ops) s of
         (r, t) \<Rightarrow> bindR r (\<lambda>ct. Inr (ct, AES_getAuthTag t)))"

definition gcm_decrypt ::
  "'c cipher_lib \<Rightarrow> AESCipherBuilder \<Rightarrow> bytes list \<Rightarrow> bytes \<Rightarrow> aes_op list \<Rightarrow> bytes res" where
  "gcm_decrypt L b aads tag ops =
     bindR (buildAuthenticatedDecryptor L b) (\<lambda>s.
       fst (bindS (feed (AES_addAssociatedData L) aads) (\<lambda>_.
              bindS (modifyS (AES_setAuthTag tag)) (\<lambda>_. aes_process L ops)) s))"

lemma AES_addAssociatedData_at:
  assumes "cipher_data_laws L view E D T" "aes_at view v got s" "aes_mode s = GCM" "cv_in v = []"
    and "int (length d) \<le> INT_MAX"
  shows "\<exists>c'. AES_addAssociatedData L d s = (Inr (), s\<lparr>aes_ctx := c'\<rparr>)
     \<and> aes_at view (v\<lparr>cv_aad := cv_aad v @ d\<rparr>) got (s\<lparr>aes_ctx := c'\<rparr>)"
proof -
  have v: "view (aes_ctx s) = Some v" "is_gcm (cv_cipher v)" "\<not> aes_isUpdated s" "\<not> aes_isFinished s"
    using assms(2-4) by (simp_all add: aes_at_def)
  obtain out c' where "SSL_EVP_CipherUpdate L (aes_ctx s) False d (int (length d)) = (1, out, c')"
    "view c' = Some (v\<lparr>cv_aad := cv_aad v @ d\<rparr>)"
    using data_law_aad [OF assms(1) v(1,2) assms(4)] by blast
  with v assms(2) to_int_small [OF assms(5)] show ?thesis
    by (intro exI [of _ c'])
      (simp add: AES_addAssociatedData_def onCtx_def bindS_unfold ossl_simps aes_at_def)
qed

lemma feed_aad_at:
  assumes "cipher_data_laws L view E D T"
  shows "aes_at view v got s \<Longrightarrow> aes_mode s = GCM \<Longrightarrow> cv_in v = [] \<Longrightarrow>
     (\<forall>d \<in> set aads. int (length d) \<le> INT_MAX) \<Longrightarrow>
     \<exists>c'. feed (AES_addAssociatedData L) aads s = (Inr (), s\<lparr>aes_ctx := c'\<rparr>)
       \<and> aes_at view (v\<lparr>cv_aad := cv_aad v @ concat aads\<rparr>) got (s\<lparr>aes_ctx := c'\<rparr>)"
proof (induction aads arbitrary: v s)
  case Nil
  then show ?case by (intro exI [of _ "aes_ctx s"]) simp
next
  case (Cons d aads)
  then have "int (length d) \<le> INT_MAX" by simp
  from AES_addAssociatedData_at [OF assms Cons.prems(1-3) this] obtain c' where
    c: "AES_addAssociatedData L d s = (Inr (), s\<lparr>aes_ctx := c'\<rparr>)"
    "aes_at view (v\<lparr>cv_aad := cv_aad v @ d\<rparr>) got (s\<lparr>aes_ctx := c'\<rparr>)" by blast
  from Cons.IH [OF c(2)] Cons.prems(2-4) c(1) show ?case
    by (auto simp: bindS_unfold)
qed

lemma gcm_session:
  assumes "cipher_lib_laws L view E D T" "iv_accepted GCM iv" "length key = getSymmetricCipherKeySize ks"
    and "\<forall>d \<in> set aads. int (length d) \<le> INT_MAX"
  shows "\<exists>s t. AuthenticatedAESCipher_new L GCM ks padding key iv n op = Inr s
     \<and> feed (AES_addAssociatedData L) aads s = (Inr (), t)
     \<and> aes_at view ((fresh_view (getEVPCipherConstructorForModeAndSize GCM ks) key (take 12 iv)
          (op = Encryption) (padding = PKCS))\<lparr>cv_aad := concat aads\<rparr>) [] t
     \<and> aes_requestedAuthTagLength t = n \<and> aes_mode t = GCM \<and> aes_operation t = op"
proof -
  let ?v = "fresh_view (getEVPCipherConstructorForModeAndSize GCM ks) key (take 12 iv)
     (op = Encryption) (padding = PKCS)"
  have L: "cipher_data_laws L view E D T" using assms(1) by (simp add: cipher_lib_laws_def)
  obtain s0 where s0: "AESCipher_new L GCM ks padding key iv op = Inr s0" "aes_at view ?v [] s0"
    using AESCipher_new_ok [OF assms(1-3)] by fastforce
  let ?s = "s0\<lparr>aes_requestedAuthTagLength := n\<rparr>"
  have mo: "aes_mode ?s = GCM" "aes_operation ?s = op"
    using s0(1) by (auto simp: AESCipher_new_def bindR_eq_Inr Let_def case_prod_beta)
  have at: "aes_at view ?v [] ?s" using s0(2) by (simp add: aes_at_def)
  from feed_aad_at [OF L at mo(1) _ assms(4)] obtain c' where
    "feed (AES_addAssociatedData L) aads ?s = (Inr (), ?s\<lparr>aes_ctx := c'\<rparr>)"
    "aes_at view (?v\<lparr>cv_aad := concat aads\<rparr>) [] (?s\<lparr>aes_ctx := c'\<rparr>)"
    by (auto simp: fresh_view_def)
  with s0(1) mo show ?thesis
    by (intro exI [of _ ?s] exI [of _ "?s\<lparr>aes_ctx := c'\<rparr>"]) (simp add: AuthenticatedAESCipher_new_def)
qed

lemma gcm_encrypt_ok:
  assumes "cipher_lib_laws L view E D T" "iv_accepted GCM iv" "length key = getSymmetricCipherKeySize ks"
    and "\<forall>d \<in> set aads. int (length d) \<le> INT_MAX" "list_all fits_update ops" "0 < n" "n \<le> 16"
    and "E (getEVPCipherConstructorForModeAndSize GCM ks) key (take 12 iv) (padding = PKCS) (fed ops)
           = Some ct"
  shows "gcm_encrypt L RAND
       (setAuthTagLength n (setPadding padding (setIV iv (AESCipherBuilder_new GCM ks key)))) aads ops
     = Inr (ct, T (getEVPCipherConstructorForModeAndSize GCM ks) key (take 12 iv) (concat aads) ct n)"
proof -
  let ?cipher = "getEVPCipherConstructorForModeAndSize GCM ks"
  let ?v = "(fresh_view ?cipher key (take 12 iv) True (padding = PKCS))\<lparr>cv_aad := concat aads\<rparr>"
  have L: "cipher_data_laws L view E D T" using assms(1) by (simp add: cipher_lib_laws_def)
  from gcm_session [OF assms(1-4), of padding n Encryption] obtain s t where s:
    "AuthenticatedAESCipher_new L GCM ks padding key iv n Encryption = Inr s"
    "feed (AES_addAssociatedData L) aads s = (Inr (), t)" "aes_at view ?v [] t"
    "aes_requestedAuthTagLength t = n" "aes_mode t = GCM" "aes_operation t = Encryption"
    by auto
  have r: "tag_ready t" "\<not> auth_decryption t"
    using s(4-6) assms(6,7) by (simp_all add: tag_ready_def auth_decryption_def)
  have "crypt E D (?v\<lparr>cv_in := fed ops\<rparr>) = Some ct"
    using assms(8) by (simp add: crypt_def fresh_view_def)
  moreover have "authentic T (final_view t (?v\<lparr>cv_in := fed ops\<rparr>))"
    using r(2) by (simp add: authentic_def final_view_def fresh_view_def)
  ultimately obtain u where "aes_process L ops t = (Inr ct, u)"
    "aes_authTag u = T ?cipher key (take 12 iv) (concat aads) ct n"
    using aes_process_at [OF L s(3) r(1) assms(5)] s(4-6) by (auto simp: fresh_view_def tag_of_def)
  moreover have "iv \<noteq> []" using assms(2) by (auto simp: iv_accepted_def)
  ultimately show ?thesis
    using s(1,2)
    by (simp add: gcm_encrypt_def buildAuthenticatedEncryptor_def builder_iv_def setAuthTagLength_def
        setPadding_def setIV_def AESCipherBuilder_new_def bindS_unfold AES_getAuthTag_def)
qed

lemma gcm_decrypt_result:
  assumes "cipher_lib_laws L view E D T" "iv_accepted GCM iv" "length key = getSymmetricCipherKeySize ks"
    and "\<forall>d \<in> set aads. int (length d) \<le> INT_MAX" "list_all fits_update ops"
    and "0 < length tag" "length tag \<le> 16"
    and "D (getEVPCipherConstructorForModeAndSize GCM ks) key (take 12 iv) (padding = PKCS) (fed ops)
           = Some pt"
  shows "gcm_decrypt L (setPadding padding (setIV iv (AESCipherBuilder_new GCM ks key))) aads tag ops
     = (if tag = T (getEVPCipherConstructorForModeAndSize GCM ks) key (take 12 iv) (concat aads)
                   (fed ops) (length tag)
        then Inr pt else Inl err_auth_failed)"
proof -
  let ?cipher = "getEVPCipherConstructorForModeAndSize GCM ks"
  let ?v = "(fresh_view ?cipher key (take 12 iv) False (padding = PKCS))\<lparr>cv_aad := concat aads\<rparr>"
  let ?b = "setPadding padding (setIV iv (AESCipherBuilder_new GCM ks key))"
  have L: "cipher_data_laws L view E D T" using assms(1) by (simp add: cipher_lib_laws_def)
  from gcm_session [OF assms(1-4), of padding DefaultAuthTagLength Decryption] obtain s t where s:
    "AuthenticatedAESCipher_new L GCM ks padding key iv DefaultAuthTagLength Decryption = Inr s"
    "feed (AES_addAssociatedData L) aads s = (Inr (), t)" "aes_at view ?v [] t"
    "aes_mode t = GCM" "aes_operation t = Decryption"
    by auto
  let ?t = "AES_setAuthTag tag t"
  have at: "aes_at view ?v [] ?t" using s(3) by (simp add: aes_at_def AES_setAuthTag_def)
  have r: "tag_ready ?t" "auth_decryption ?t"
    using s(4,5) assms(6,7) by (simp_all add: tag_ready_def auth_decryption_def AES_setAuthTag_def)
  have run: "gcm_decrypt L ?b aads tag ops = fst (aes_process L ops ?t)"
    using s(1,2) by (simp add: gcm_decrypt_def buildAuthenticatedDecryptor_def setPadding_def setIV_def
        AESCipherBuilder_new_def bindS_unfold)
  have gcm: "is_gcm ?cipher" using mode_lengths(3) by simp
  define good where "good \<longleftrightarrow> tag = T ?cipher key (take 12 iv) (concat aads) (fed ops) (length tag)"
  show ?thesis
  proof (cases good)
    case True
    have "crypt E D (?v\<lparr>cv_in := fed ops\<rparr>) = Some pt"
      using assms(8) by (simp add: crypt_def fresh_view_def)
    moreover have "authentic T (final_view ?t (?v\<lparr>cv_in := fed ops\<rparr>))"
      using r(2) True assms(6)
      by (simp add: authentic_def final_view_def fresh_view_def tag_of_def good_def AES_setAuthTag_def)
    ultimately obtain u where "aes_process L ops ?t = (Inr pt, u)"
      using aes_process_at [OF L at r(1) assms(5)] by (auto simp: fresh_view_def)
    with run True show ?thesis by (simp add: good_def)
  next
    case False
    obtain x u out where u: "aes_run L ops ?t = (Inr x, u)"
      "aes_at view (?v\<lparr>cv_in := fed ops, cv_out := out\<rparr>) x u" "aes_authTag u = tag"
      using aes_run_at [OF L at assms(5)] by (auto simp: fresh_view_def AES_setAuthTag_def)
    have mu: "aes_mode u = GCM" "aes_operation u = Decryption"
      using u(2) gcm by (cases "aes_operation u"; simp add: aes_at_def fresh_view_def)+
    have ru: "tag_ready u" "auth_decryption u"
      using mu u(3) assms(6,7) by (simp_all add: tag_ready_def auth_decryption_def)
    have "\<not> authentic T (final_view u (?v\<lparr>cv_in := fed ops, cv_out := out\<rparr>))"
      using False ru(2) u(3) gcm
      by (simp add: authentic_def final_view_def fresh_view_def tag_of_def good_def)
    then have "fst (AES_finish L u) = Inl err_auth_failed"
      using AES_finish_unauthentic [OF L u(2) ru] by blast
    then have "fst (aes_process L ops ?t) = Inl err_auth_failed"
      using u(1) by (cases "AES_finish L u") (simp add: aes_process_def bindS_unfold)
    with run False show ?thesis by (simp add: good_def)
  qed
qed

text \<open>
  C2: AES-GCM with associated data: encryption gives the ciphertext and its tag whatever the
  interleaving of updates and reads; decryption of that ciphertext with the same associated
  data gives the plaintext back for the right tag (of any length from 1 to 16), and for every
  other tag the exception that reports a modified ciphertext.
\<close>

theorem GCM_roundtrip_and_authenticity:
  assumes "cipher_lib_laws L view E D T" "iv_accepted GCM iv" "length key = getSymmetricCipherKeySize ks"
    and "\<forall>d \<in> set aads \<union> set aads'. int (length d) \<le> INT_MAX" "concat aads' = concat aads"
    and "list_all fits_update ops" "list_all fits_update ops'" "0 < n" "n \<le> 16"
    and "E (getEVPCipherConstructorForModeAndSize GCM ks) key (take 12 iv) (padding = PKCS) (fed ops)
           = Some ct"
    and "fed ops' = ct" "0 < length tag" "length tag \<le> 16"
  defines "b \<equiv> setPadding padding (setIV iv (AESCipherBuilder_new GCM ks key))"
    and "tag_for \<equiv> T (getEVPCipherConstructorForModeAndSize GCM ks) key (take 12 iv) (concat aads) ct"
  shows "gcm_encrypt L RAND (setAuthTagLength n b) aads ops = Inr (ct, tag_for n)
     \<and> gcm_decrypt L b aads' tag ops' =
          (if tag = tag_for (length tag) then Inr (fed ops) else Inl err_auth_failed)"
proof -
  have "D (getEVPCipherConstructorForModeAndSize GCM ks) key (take 12 iv) (padding = PKCS) (fed ops')
      = Some (fed ops)"
    using assms(1,10,11) data_law_math(2) unfolding cipher_lib_laws_def by blast
  then show ?thesis
    using gcm_encrypt_ok [OF assms(1-3) _ assms(6,8-10)] assms(4,5,11)
      gcm_decrypt_result [OF assms(1-3) _ assms(7,12,13), of aads']
    by (simp add: b_def tag_for_def)
qed

text \<open>
  C40: The IV length that the constructor sets for GCM is lost in the reset before the final
  initialisation: an IV longer than 12 bytes gives the ciphertext and the tag of its first
  12 bytes, so that IVs with a common prefix collide.
\<close>

theorem GCM_iv_truncated:
  assumes "cipher_lib_laws L view E D T" "iv_accepted GCM iv" "length key = getSymmetricCipherKeySize ks"
    and "\<forall>d \<in> set aads. int (length d) \<le> INT_MAX" "list_all fits_update ops" "0 < n" "n \<le> 16"
    and "E (getEVPCipherConstructorForModeAndSize GCM ks) key (take 12 iv) (padding = PKCS) (fed ops)
           \<noteq> None"
  defines "b \<equiv> \<lambda>iv. setAuthTagLength n (setPadding padding (setIV iv (AESCipherBuilder_new GCM ks key)))"
  shows "gcm_encrypt L RAND (b iv) aads ops = gcm_encrypt L RAND (b (take 12 iv)) aads ops"
proof -
  obtain ct where ct: "E (getEVPCipherConstructorForModeAndSize GCM ks) key (take 12 iv)
      (padding = PKCS) (fed ops) = Some ct" using assms(8) by blast
  have "iv_accepted GCM (take 12 iv)" using assms(2) by (simp add: iv_accepted_def INT_MAX_def)
  then show ?thesis
    using gcm_encrypt_ok [OF assms(1-7) ct] gcm_encrypt_ok [OF assms(1) _ assms(3-7), of "take 12 iv"] ct
    by (simp add: b_def)
qed

section \<open>Life cycle, for any OpenSSL\<close>

text \<open>The contract of \<open>SymmetricCipherI\<close>: open until \<open>finish\<close> succeeds, then closed.\<close>

locale symmetric_cipher =
  fixes upd :: "bytes \<Rightarrow> ('s, unit) st"
    and fin :: "('s, bytes) st"
    and finished :: "'s \<Rightarrow> bool"
    and e_upd :: exn
    and e_fin :: exn
  assumes upd_finished: "finished s \<Longrightarrow> upd m s = (Inl e_upd, s)"
    and fin_finished: "finished s \<Longrightarrow> fin s = (Inl e_fin, s)"
    and fin_ok: "fin s = (Inr r, t) \<Longrightarrow> finished t"
begin

lemma closed_after_fin:
  assumes "fin s = (Inr r, t)"
  shows "upd m t = (Inl e_upd, t)" "fin t = (Inl e_fin, t)"
  using fin_ok [OF assms] by (simp_all add: upd_finished fin_finished)

lemma feed_closed:
  assumes "fin s = (Inr r, t)" "cs \<noteq> []"
  shows "feed upd cs t = (Inl e_upd, t)"
  using assms closed_after_fin(1) by (cases cs) (simp_all add: bindS_unfold)

end

lemma AES_finish_finished: "AES_finish L s = (Inr r, t) \<Longrightarrow> aes_isFinished t"
  by (auto simp: AES_finish_def AES_readAll_def bindS_eq_Inr Let_def case_prod_beta split: if_splits)

interpretation aes: symmetric_cipher "AES_update L" "AES_finish L" aes_isFinished
  err_aes_update_finished err_aes_finish_twice for L
  by unfold_locales (auto simp: AES_update_def AES_finish_def intro: AES_finish_finished)

text \<open>
  Once \<open>finish\<close> has succeeded the object is closed: any further data, a second
  \<open>finish\<close> and further associated data are refused and change nothing.
\<close>

theorem AES_closed_after_finish:
  assumes "AES_finish L s = (Inr r, t)" "cs \<noteq> []"
  shows "feed (AES_update L) cs t = (Inl err_aes_update_finished, t)
     \<and> AES_finish L t = (Inl err_aes_finish_twice, t)
     \<and> AES_addAssociatedData L d t
         = (Inl (if aes_isUpdated t then err_aad_updated else err_aad_finished), t)"
  using aes.feed_closed [OF assms] aes.closed_after_fin(2) [OF assms(1)] aes.fin_ok [OF assms(1)]
  by (simp add: AES_addAssociatedData_def)

section \<open>A concrete instance\<close>

text \<open>
  A library that keeps the laws: the cipher adds the first key byte to every byte, the tag is
  the IV, the associated data and the ciphertext, cut or padded to the requested length.
\<close>

definition ref_E :: crypt_fun where
  "ref_E cipher key iv pad d = Some (map (\<lambda>b. b + hd (key @ [0])) d)"

definition ref_D :: crypt_fun where
  "ref_D cipher key iv pad d = Some (map (\<lambda>b. b - hd (key @ [0])) d)"

definition ref_T :: tag_fun where
  "ref_T cipher key iv aad ct n = resize (iv @ aad @ ct) n"

definition ref_out :: "cview \<Rightarrow> bytes \<Rightarrow> bytes" where
  "ref_out v d = map (\<lambda>b. if cv_enc v then b + hd (cv_key v @ [0]) else b - hd (cv_key v @ [0])) d"

definition ref_view :: "EVP_CIPHER \<times> cview option \<Rightarrow> cview option" where
  "ref_view c = map_option (\<lambda>v. v\<lparr>cv_out := ref_out v (cv_in v)\<rparr>) (snd c)"

definition ref_cipher_lib :: "(EVP_CIPHER \<times> cview option) cipher_lib" where
  "ref_cipher_lib =
     \<lparr>SSL_EVP_CIPHER_CTX_new = Some (EVP_aes_128_gcm, None),
      SSL_EVP_CIPHER_CTX_reset = (\<lambda>c. (1, (fst c, None))),
      SSL_EVP_CIPHER_CTX_ctrl = (\<lambda>c t n p. case t of
          EVP_CTRL_GCM_SET_IVLEN \<Rightarrow> (1, [], c)
        | EVP_CTRL_GCM_SET_TAG \<Rightarrow> (1, [], (fst c, map_option (\<lambda>v. v\<lparr>cv_tag := p\<rparr>) (snd c)))
        | EVP_CTRL_GCM_GET_TAG \<Rightarrow>
            (1, (case ref_view c of None \<Rightarrow> [] | Some v \<Rightarrow> tag_of ref_T v (cv_out v) (nat n)), c)),
      SSL_EVP_CipherInit_ex = (\<lambda>c cipher key iv enc. (1, (cipher,
        case (key, iv) of
          (Some k, Some i) \<Rightarrow>
            Some (fresh_view cipher (take (evp_key_len cipher) k) (take (evp_iv_len cipher) i) enc True)
        | _ \<Rightarrow> None))),
      SSL_EVP_CipherUpdate = (\<lambda>c outm d n. (1,
        (if outm then (case snd c of None \<Rightarrow> [] | Some v \<Rightarrow> ref_out v d) else []),
        (fst c, map_option (\<lambda>v. if outm then v\<lparr>cv_in := cv_in v @ d\<rparr>
           else v\<lparr>cv_aad := cv_aad v @ d\<rparr>) (snd c)))),
      SSL_EVP_CipherFinal_ex = (\<lambda>c. case ref_view c of
          None \<Rightarrow> (0, [], c)
        | Some v \<Rightarrow> (if authentic ref_T v then 1 else 0, [], c)),
      SSL_EVP_CIPHER_CTX_key_length = (\<lambda>c. int (evp_key_len (fst c))),
      SSL_EVP_CIPHER_CTX_iv_length = (\<lambda>c. int (evp_iv_len (fst c))),
      SSL_EVP_CIPHER_CTX_set_padding = (\<lambda>c n.
        (1, (fst c, map_option (\<lambda>v. v\<lparr>cv_pad := (n \<noteq> 0)\<rparr>) (snd c))))\<rparr>"

lemma ref_crypt: "crypt ref_E ref_D v = Some (ref_out v (cv_in v))"
  by (simp add: crypt_def ref_E_def ref_D_def ref_out_def)

lemma ref_out_cong [simp]:
  "ref_out (v\<lparr>cv_in := x\<rparr>) d = ref_out v d" "ref_out (v\<lparr>cv_out := x\<rparr>) d = ref_out v d"
  "ref_out (v\<lparr>cv_aad := x\<rparr>) d = ref_out v d" "ref_out (v\<lparr>cv_tag := x\<rparr>) d = ref_out v d"
  "ref_out (v\<lparr>cv_pad := p\<rparr>) d = ref_out v d" "ref_out v [] = []"
  "ref_out v (d @ e) = ref_out v d @ ref_out v e" "length (ref_out v d) = length d"
  by (simp_all add: ref_out_def)

lemma ref_cipher_setup: "cipher_setup_laws ref_cipher_lib ref_view"
  by (auto simp: cipher_setup_laws_def ref_cipher_lib_def ref_view_def fresh_view_def)

lemma ref_cipher_data: "cipher_data_laws ref_cipher_lib ref_view ref_E ref_D ref_T"
  unfolding cipher_data_laws_def ref_crypt
  by (auto simp: ref_cipher_lib_def ref_view_def ref_T_def ref_E_def ref_D_def o_def)

lemma ref_cipher_lib_laws: "cipher_lib_laws ref_cipher_lib ref_view ref_E ref_D ref_T"
  by (simp add: cipher_lib_laws_def ref_cipher_setup ref_cipher_data)

abbreviation ref_rand :: "int \<Rightarrow> int \<times> bytes" where
  "ref_rand n \<equiv> (1, replicate (nat n) 5)"

lemma small_fits: "fits_update (ReadN n)" "fits_update ReadRest"
  "length m \<le> 1000 \<Longrightarrow> fits_update (Update m)"
  by (simp_all add: fits_update_def INT_MAX_def EVP_MAX_BLOCK_LENGTH_def)

theorem AES_roundtrip_witness:
  "bindR (buildEncryptor ref_cipher_lib ref_rand
       (setPadding PKCS (setIV (replicate 16 9) (AESCipherBuilder_new CTR S_128 (replicate 16 1)))))
     (\<lambda>s. fst (aes_process ref_cipher_lib [Update [1, 2], ReadN 1, Update [3]] s)) = Inr [2, 3, 4]
   \<and> bindR (buildDecryptor ref_cipher_lib
       (setPadding PKCS (setIV (replicate 16 9) (AESCipherBuilder_new CTR S_128 (replicate 16 1)))))
     (\<lambda>s. fst (aes_process ref_cipher_lib [Update [2], Update [3, 4], ReadRest] s)) = Inr [1, 2, 3]"
proof -
  have "ref_E (getEVPCipherConstructorForModeAndSize CTR S_128) (replicate 16 1) (replicate 16 9)
      (PKCS = PKCS) (fed [Update [1, 2], ReadN 1, Update [3]]) = Some [2, 3, 4]"
    by (simp add: ref_E_def numeral_eq_Suc)
  then show ?thesis
    using AES_roundtrip [OF ref_cipher_lib_laws, of CTR "replicate 16 1" S_128 "replicate 16 9"
        "[Update [1, 2], ReadN 1, Update [3]]" "[Update [2], Update [3, 4], ReadRest]" PKCS
        "[2, 3, 4]" ref_rand]
    by (simp add: small_fits)
qed

lemma gcm_sample_iv: "iv_accepted GCM (replicate 12 9)" "iv_accepted GCM (replicate 16 9)"
  by (simp_all add: iv_accepted_def INT_MAX_def)

theorem GCM_roundtrip_and_authenticity_witness:
  "gcm_encrypt ref_cipher_lib ref_rand (setAuthTagLength 14
      (setPadding PKCS (setIV (replicate 12 9) (AESCipherBuilder_new GCM S_256 (replicate 32 1)))))
      [[7]] [Update [1, 2], Update [3]] = Inr ([2, 3, 4], replicate 12 9 @ [7, 2])
   \<and> gcm_decrypt ref_cipher_lib
      (setPadding PKCS (setIV (replicate 12 9) (AESCipherBuilder_new GCM S_256 (replicate 32 1))))
      [[7]] [8] [Update [2, 3, 4]] = Inl err_auth_failed"
proof -
  have e: "ref_E (getEVPCipherConstructorForModeAndSize GCM S_256) (replicate 32 1)
      (take 12 (replicate 12 9)) (PKCS = PKCS) (fed [Update [1, 2], Update [3]]) = Some [2, 3, 4]"
    by (simp add: ref_E_def numeral_eq_Suc)
  have t: "ref_T cipher key (take 12 (replicate 12 9)) (concat [[7]]) [2, 3, 4] 14
      = replicate 12 9 @ [7, 2]" for cipher key
    by (simp add: ref_T_def resize_def)
  have f: "ref_T cipher key (take 12 (replicate 12 9)) (concat [[7]]) [2, 3, 4] (length [8 :: byte])
      \<noteq> [8]" for cipher key
    by (simp add: ref_T_def resize_def numeral_eq_Suc)
  show ?thesis
    using GCM_roundtrip_and_authenticity [OF ref_cipher_lib_laws gcm_sample_iv(1), of "replicate 32 1"
        S_256 "[[7]]" "[[7]]" "[Update [1, 2], Update [3]]" "[Update [2, 3, 4]]" 14 PKCS
        "[2, 3, 4]" "[8]" ref_rand] e t f [symmetric]
    by (simp add: small_fits INT_MAX_def)
qed

theorem GCM_iv_truncated_witness:
  "gcm_encrypt ref_cipher_lib ref_rand (setAuthTagLength 16
      (setPadding PKCS (setIV (replicate 16 9) (AESCipherBuilder_new GCM S_256 (replicate 32 1)))))
      [] [Update [1, 2]]
   = gcm_encrypt ref_cipher_lib ref_rand (setAuthTagLength 16
      (setPadding PKCS (setIV (replicate 12 9) (AESCipherBuilder_new GCM S_256 (replicate 32 1)))))
      [] [Update [1, 2]]"
proof -
  have "ref_E (getEVPCipherConstructorForModeAndSize GCM S_256) (replicate 32 1)
      (take 12 (replicate 16 9)) (PKCS = PKCS) (fed [Update [1, 2]]) \<noteq> None"
    by (simp add: ref_E_def)
  then show ?thesis
    using GCM_iv_truncated [OF ref_cipher_lib_laws gcm_sample_iv(2), of "replicate 32 1" S_256 "[]"
        "[Update [1, 2]]" 16 PKCS ref_rand]
    by (simp add: small_fits)
qed

theorem AES_closed_after_finish_witness:
  "let s = \<lparr>aes_mode = CTR, aes_iv = [], aes_authTag = [], aes_requestedAuthTagLength = 0,
       aes_operation = Encryption,
       aes_ctx = (EVP_aes_128_ctr, Some (fresh_view EVP_aes_128_ctr [1] [] True True)),
       aes_buffer = queue_new, aes_isFinished = False, aes_isUpdated = False\<rparr>;
     t = snd (AES_finish ref_cipher_lib s)
   in AES_finish ref_cipher_lib s = (Inr [], t)
      \<and> AES_finish ref_cipher_lib t = (Inl err_aes_finish_twice, t)"
proof -
  let ?s = "\<lparr>aes_mode = CTR, aes_iv = [], aes_authTag = [], aes_requestedAuthTagLength = 0,
       aes_operation = Encryption,
       aes_ctx = (EVP_aes_128_ctr, Some (fresh_view EVP_aes_128_ctr [1] [] True True)),
       aes_buffer = queue_new, aes_isFinished = False, aes_isUpdated = False\<rparr>"
  have "fst (AES_finish ref_cipher_lib ?s) = Inr []"
    by (simp add: AES_finish_def AES_hand_over_tag_def AES_final_def AES_fetch_tag_def AES_readAll_def
        auth_decryption_def bindS_unfold onCtx_def ossl_simps ref_cipher_lib_def ref_view_def
        authentic_def fresh_view_def is_gcm_def queue_new_def queue_write_def queue_readAll_def
        resize_def)
  then have f: "AES_finish ref_cipher_lib ?s = (Inr [], snd (AES_finish ref_cipher_lib ?s))"
    by (metis prod.collapse)
  then show ?thesis
    using AES_closed_after_finish [OF f, of "[[]]" "[]"] by (simp add: Let_def)
qed

end
