(* ===== verification/Kdf_Fun.thy ===== *)
theory Kdf_Fun
  imports Check_Call
begin

text \<open>
  \<open>src/src/kdf.cpp\<close>: the interface \<open>KeyDerivationFunction\<close> and its implementations
  \<open>PBKDF2\<close> and \<open>X963KDF\<close>.  The locale \<open>key_derivation\<close> is what the users of the
  interface (ECIES) rely on: a derived key has exactly the length that was asked for.
\<close>

section \<open>OpenSSL functions and their wrappers\<close>

text \<open>
  \<open>PKCS5_PBKDF2_HMAC\<close> takes every length and the iteration count as \<open>int\<close>; the X9.63
  function takes \<open>size_t\<close>.  Both return the status and what they wrote.
\<close>

record kdf_lib =
  SSL_PKCS5_PBKDF2_HMAC ::
    "bytes \<Rightarrow> int \<Rightarrow> bytes \<Rightarrow> int \<Rightarrow> int \<Rightarrow> EVP_MD \<Rightarrow> int \<Rightarrow> int \<times> bytes"
  SSL_ECDH_KDF_X9_63 :: "nat \<Rightarrow> bytes \<Rightarrow> bytes \<Rightarrow> EVP_MD \<Rightarrow> int \<times> bytes"

definition ossl_PKCS5_PBKDF2_HMAC ::
  "kdf_lib \<Rightarrow> bytes \<Rightarrow> bytes \<Rightarrow> int \<Rightarrow> EVP_MD \<Rightarrow> bytes \<Rightarrow> bytes res" where
  [ossl_simps]: "ossl_PKCS5_PBKDF2_HMAC L pass salt iter digest out =
     (let (rv, written) = SSL_PKCS5_PBKDF2_HMAC L pass (to_int (length pass)) salt
            (to_int (length salt)) iter digest (to_int (length out))
      in bindR (OpensslCallIsOne rv) (\<lambda>_. Inr (overwrite out written)))"

definition ossl_ECDH_KDF_X9_63 ::
  "kdf_lib \<Rightarrow> bytes \<Rightarrow> bytes \<Rightarrow> bytes \<Rightarrow> EVP_MD \<Rightarrow> bytes res" where
  [ossl_simps]: "ossl_ECDH_KDF_X9_63 L out Z sinfo md =
     (let (rv, written) = SSL_ECDH_KDF_X9_63 L (length out) Z sinfo md
      in bindR (OpensslCallIsOne rv) (\<lambda>_. Inr (overwrite out written)))"

section \<open>The two functions\<close>

record PBKDF2 =
  pbkdf2_hashFunction :: DigestTypes
  pbkdf2_iterations :: "32 word"

definition PBKDF2_new :: "DigestTypes \<Rightarrow> 32 word \<Rightarrow> PBKDF2" where
  "PBKDF2_new hashFunction iterations =
     \<lparr>pbkdf2_hashFunction = hashFunction, pbkdf2_iterations = iterations\<rparr>"

text \<open>The iteration count is an \<open>uint32_t\<close> that the wrapper's \<open>int\<close> parameter reads as signed.\<close>

definition PBKDF2_deriveKey :: "kdf_lib \<Rightarrow> PBKDF2 \<Rightarrow> bytes \<Rightarrow> nat \<Rightarrow> bytes \<Rightarrow> bytes res" where
  "PBKDF2_deriveKey L k password outputLength salt =
     bindR (getMDPtrFromDigestType (pbkdf2_hashFunction k)) (\<lambda>digestFn.
       ossl_PKCS5_PBKDF2_HMAC L password salt (sint (pbkdf2_iterations k)) digestFn
         (replicate outputLength 0))"

record X963KDF =
  x963_hashFunction :: DigestTypes

definition X963KDF_new :: "DigestTypes \<Rightarrow> X963KDF" where
  "X963KDF_new hashFunction = \<lparr>x963_hashFunction = hashFunction\<rparr>"

definition X963KDF_deriveKey :: "kdf_lib \<Rightarrow> X963KDF \<Rightarrow> bytes \<Rightarrow> nat \<Rightarrow> bytes \<Rightarrow> bytes res" where
  "X963KDF_deriveKey L k password outputLength salt =
     bindR (getMDPtrFromDigestType (x963_hashFunction k)) (\<lambda>digestFn.
       ossl_ECDH_KDF_X9_63 L (replicate outputLength 0) password salt digestFn)"

section \<open>The interface\<close>

locale key_derivation =
  fixes derive :: "bytes \<Rightarrow> nat \<Rightarrow> bytes \<Rightarrow> bytes res"
  assumes derive_length: "derive password n salt = Inr key \<Longrightarrow> length key = n"
begin

text \<open>One derived key cut into an encryption key and a MAC key.\<close>

lemma derive_two_keys:
  assumes "derive password (m + n) salt = Inr key"
  shows "length (take m key) = m" "length (drop m key) = n" "take m key @ drop m key = key"
  using derive_length [OF assms] by simp_all

end

interpretation pbkdf2: key_derivation "PBKDF2_deriveKey L k" for L k
  by unfold_locales
    (auto simp: PBKDF2_deriveKey_def ossl_simps bindR_eq_Inr case_prod_beta)

interpretation x963: key_derivation "X963KDF_deriveKey L k" for L k
  by unfold_locales
    (auto simp: X963KDF_deriveKey_def ossl_simps bindR_eq_Inr case_prod_beta)

section \<open>What OpenSSL documents\<close>

text \<open>
  With lengths that are not negative, PBKDF2 writes as many bytes as asked for, and an
  iteration count below one counts as one; X9.63 writes as many bytes as asked for.
\<close>

definition kdf_lib_laws ::
  "kdf_lib \<Rightarrow> (EVP_MD \<Rightarrow> bytes \<Rightarrow> bytes \<Rightarrow> nat \<Rightarrow> nat \<Rightarrow> bytes) \<Rightarrow>
     (EVP_MD \<Rightarrow> bytes \<Rightarrow> bytes \<Rightarrow> nat \<Rightarrow> bytes) \<Rightarrow> bool" where
  "kdf_lib_laws L PB X \<longleftrightarrow>
     (\<forall>pass salt iter md n.
        int (length pass) \<le> INT_MAX \<and> int (length salt) \<le> INT_MAX \<and> int n \<le> INT_MAX \<longrightarrow>
        SSL_PKCS5_PBKDF2_HMAC L pass (int (length pass)) salt (int (length salt)) iter md (int n)
        = (1, PB md pass salt (if iter < 1 then 1 else nat iter) n))
     \<and> (\<forall>md pass salt iter n. length (PB md pass salt iter n) = n)
     \<and> (\<forall>n Z sinfo md. SSL_ECDH_KDF_X9_63 L n Z sinfo md = (1, X md Z sinfo n))
     \<and> (\<forall>md Z sinfo n. length (X md Z sinfo n) = n)"

definition fits_int_len :: "nat \<Rightarrow> bool" where
  "fits_int_len n \<longleftrightarrow> int n \<le> INT_MAX"

lemma PBKDF2_deriveKey_laws:
  assumes "kdf_lib_laws L PB X" "getMDPtrFromDigestType t = Inr md"
    and "fits_int_len (length password)" "fits_int_len (length salt)" "fits_int_len n"
  shows "PBKDF2_deriveKey L (PBKDF2_new t iter) password n salt
     = Inr (PB md password salt (if sint iter < 1 then 1 else nat (sint iter)) n)"
proof -
  let ?iter = "if sint iter < 1 then 1 else nat (sint iter)"
  have "SSL_PKCS5_PBKDF2_HMAC L password (int (length password)) salt (int (length salt))
      (sint iter) md (int n) = (1, PB md password salt ?iter n)"
    and "length (PB md password salt ?iter n) = n"
    using assms(1,3-5) unfolding kdf_lib_laws_def fits_int_len_def by blast+
  then show ?thesis
    using assms(2-5)
    by (simp add: PBKDF2_deriveKey_def PBKDF2_new_def ossl_simps fits_int_len_def to_int_small)
qed

text \<open>
  Both key derivation functions return, for every supported digest, the key of exactly the
  requested length that the standard function gives for the password, the salt and (for
  PBKDF2, up to \<open>INT_MAX\<close>) the configured number of iterations.
\<close>

theorem KeyDerivation_derives:
  assumes "kdf_lib_laws L PB X" "getMDPtrFromDigestType t = Inr md"
    and "fits_int_len (length password)" "fits_int_len (length salt)" "fits_int_len n"
    and "1 \<le> iterations" "fits_int_len iterations"
  shows "PBKDF2_deriveKey L (PBKDF2_new t (word_of_nat iterations)) password n salt
         = Inr (PB md password salt iterations n) \<and> length (PB md password salt iterations n) = n
     \<and> X963KDF_deriveKey L (X963KDF_new t) password n salt = Inr (X md password salt n)
     \<and> length (X md password salt n) = n"
proof -
  have "sint (word_of_nat iterations :: 32 word) = int iterations"
    using to_int_small assms(7) by (simp add: to_int_def fits_int_len_def)
  moreover have x: "SSL_ECDH_KDF_X9_63 L n password salt md = (1, X md password salt n)"
    "length (X md password salt n) = n" "length (PB md password salt iterations n) = n"
    using assms(1) unfolding kdf_lib_laws_def by blast+
  moreover have "X963KDF_deriveKey L (X963KDF_new t) password n salt = Inr (X md password salt n)"
    using assms(2) x by (simp add: X963KDF_deriveKey_def X963KDF_new_def ossl_simps)
  ultimately show ?thesis
    using PBKDF2_deriveKey_laws [OF assms(1-5), of "word_of_nat iterations"] assms(6) by simp
qed

text \<open>
  An iteration count of \<open>2 ^ 31\<close> or more becomes negative on the way to OpenSSL, which
  counts it as one: the key is the one a single iteration gives.
\<close>

theorem PBKDF2_iterations_wrap:
  assumes "kdf_lib_laws L PB X" "getMDPtrFromDigestType t = Inr md"
    and "fits_int_len (length password)" "fits_int_len (length salt)" "fits_int_len n"
    and "2147483648 \<le> iterations"
  shows "PBKDF2_deriveKey L (PBKDF2_new t iterations) password n salt
     = PBKDF2_deriveKey L (PBKDF2_new t 1) password n salt"
proof -
  have "sint iterations < 0"
    using assms(6) by (intro sint32_negative) (simp add: word_le_def)
  then show ?thesis
    using PBKDF2_deriveKey_laws [OF assms(1-5), of iterations]
      PBKDF2_deriveKey_laws [OF assms(1-5), of 1] by simp
qed

section \<open>A concrete instance\<close>

definition ref_pbkdf2 :: "EVP_MD \<Rightarrow> bytes \<Rightarrow> bytes \<Rightarrow> nat \<Rightarrow> nat \<Rightarrow> bytes" where
  "ref_pbkdf2 md pass salt iter n = resize (word_of_nat iter # pass @ salt) n"

definition ref_x963 :: "EVP_MD \<Rightarrow> bytes \<Rightarrow> bytes \<Rightarrow> nat \<Rightarrow> bytes" where
  "ref_x963 md Z sinfo n = resize (Z @ sinfo) n"

definition ref_kdf_lib :: kdf_lib where
  "ref_kdf_lib =
     \<lparr>SSL_PKCS5_PBKDF2_HMAC = (\<lambda>pass passlen salt saltlen iter md n.
        (1, ref_pbkdf2 md pass salt (if iter < 1 then 1 else nat iter) (nat n))),
      SSL_ECDH_KDF_X9_63 = (\<lambda>n Z sinfo md. (1, ref_x963 md Z sinfo n))\<rparr>"

lemma ref_kdf_lib_laws: "kdf_lib_laws ref_kdf_lib ref_pbkdf2 ref_x963"
  by (simp add: kdf_lib_laws_def ref_kdf_lib_def ref_pbkdf2_def ref_x963_def)

theorem KeyDerivation_derives_witness:
  "PBKDF2_deriveKey ref_kdf_lib (PBKDF2_new SHA256 1000) [1, 2] 4 [3] = Inr [232, 1, 2, 3]"
  using KeyDerivation_derives [OF ref_kdf_lib_laws, of SHA256 EVP_sha256 "[1, 2]" "[3]" 4 1000]
  by (simp add: fits_int_len_def INT_MAX_def ref_pbkdf2_def resize_def)

theorem PBKDF2_iterations_wrap_witness:
  "PBKDF2_deriveKey ref_kdf_lib (PBKDF2_new SHA256 4000000000) [1, 2] 4 [3]
   = PBKDF2_deriveKey ref_kdf_lib (PBKDF2_new SHA256 1) [1, 2] 4 [3]"
  using PBKDF2_iterations_wrap [OF ref_kdf_lib_laws, of SHA256 EVP_sha256 "[1, 2]" "[3]" 4 4000000000]
  by (simp add: fits_int_len_def INT_MAX_def)

end
