(* ===== verification/Asym_Key.thy ===== *)
theory Asym_Key
  imports Check_Call
begin

text \<open>
  \<open>src/src/key.cpp\<close> and \<open>src/src/mococrw/key.h\<close>: asymmetric keys, their specifications,
  key generation, the octet form of elliptic curve points and key agreement.  A key is the
  OpenSSL object it wraps (the sources treat keys as immutable); a public key and a key pair
  are the same kind of value.
\<close>

section \<open>OpenSSL functions and their wrappers\<close>

text \<open>
  \<open>'k\<close>, \<open>'e\<close>, \<open>'g\<close> and \<open>'c\<close> are the types of \<open>EVP_PKEY\<close>, \<open>EC_KEY\<close>, \<open>EC_GROUP\<close>
  and \<open>EVP_PKEY_CTX\<close>.  Key generation takes what the random number generator provides as
  a number.  \<open>EVP_PKEY_type\<close> is applied to the key's id, as the only wrapper that calls it
  does.
\<close>

record ('k, 'e, 'g, 'c) pkey_lib =
  SSL_EVP_PKEY_new :: "'k option"
  SSL_EVP_PKEY_type_of_id :: "'k \<Rightarrow> int"
  SSL_EVP_PKEY_bits :: "'k \<Rightarrow> int"
  SSL_EVP_PKEY_cmp :: "'k \<Rightarrow> 'k \<Rightarrow> int"
  SSL_EVP_PKEY_CTX_new_id :: "int \<Rightarrow> 'c option"
  SSL_EVP_PKEY_CTX_new :: "'k \<Rightarrow> 'c option"
  SSL_EVP_PKEY_keygen_init :: "'c \<Rightarrow> int \<times> 'c"
  SSL_EVP_PKEY_keygen :: "nat \<Rightarrow> 'c \<Rightarrow> int \<times> 'k option"
  SSL_EVP_PKEY_CTX_set_rsa_keygen_bits :: "'c \<Rightarrow> int \<Rightarrow> int \<times> 'c"
  SSL_EVP_PKEY_paramgen_init :: "'c \<Rightarrow> int \<times> 'c"
  SSL_EVP_PKEY_paramgen :: "'c \<Rightarrow> int \<times> 'k option"
  SSL_EVP_PKEY_CTX_set_ec_paramgen_curve_nid :: "'c \<Rightarrow> int \<Rightarrow> int \<times> 'c"
  SSL_EVP_PKEY_CTX_set_ec_param_enc :: "'c \<Rightarrow> int \<Rightarrow> int \<times> 'c"
  SSL_EVP_PKEY_get0_EC_KEY :: "'k \<Rightarrow> 'e option"
  SSL_EC_KEY_get0_group :: "'e \<Rightarrow> 'g option"
  SSL_EC_GROUP_get_degree :: "'g \<Rightarrow> int"
  SSL_EC_GROUP_get_curve_name :: "'g \<Rightarrow> int"
  SSL_EC_KEY_new_by_curve_name :: "int \<Rightarrow> 'e option"
  SSL_EC_KEY_oct2key :: "'e \<Rightarrow> bytes \<Rightarrow> int \<times> 'e"
  SSL_EVP_PKEY_set1_EC_KEY :: "'k \<Rightarrow> 'e \<Rightarrow> int \<times> 'k"
  SSL_EC_KEY_key2buf :: "'e \<Rightarrow> int \<Rightarrow> bytes"
  SSL_EVP_PKEY_derive_init :: "'c \<Rightarrow> int \<times> 'c"
  SSL_EVP_PKEY_derive_set_peer :: "'c \<Rightarrow> 'k \<Rightarrow> int \<times> 'c"
  SSL_EVP_PKEY_derive_len :: "'c \<Rightarrow> int \<times> nat"
  SSL_EVP_PKEY_derive :: "'c \<Rightarrow> int \<times> bytes"

definition EVP_PKEY_RSA :: int where "EVP_PKEY_RSA = 6"
definition EVP_PKEY_EC :: int where "EVP_PKEY_EC = 408"
definition EVP_PKEY_ED25519 :: int where "EVP_PKEY_ED25519 = 1087"
definition EVP_PKEY_ED448 :: int where "EVP_PKEY_ED448 = 1088"
definition OPENSSL_EC_NAMED_CURVE :: int where "OPENSSL_EC_NAMED_CURVE = 1"

lemmas pkey_types = EVP_PKEY_RSA_def EVP_PKEY_EC_def EVP_PKEY_ED25519_def EVP_PKEY_ED448_def

type_synonym ellipticCurveNid = int

definition PRIME_256v1 :: ellipticCurveNid where "PRIME_256v1 = 415"
definition Ed448 :: ellipticCurveNid where "Ed448 = 1088"
definition Ed25519 :: ellipticCurveNid where "Ed25519 = 1087"

lemmas curve_nids = PRIME_256v1_def Ed448_def Ed25519_def

text \<open>A wrapper whose context is dropped at the end of the caller: the status decides.\<close>

definition checkC :: "(int \<Rightarrow> int res) \<Rightarrow> int \<times> 'c \<Rightarrow> 'c res" where
  "checkC chk r = bindR (chk (fst r)) (\<lambda>_. Inr (snd r))"

lemma checkC_simps [simp]:
  "checkC OpensslCallIsOne (rv, c) = (if rv = 1 then Inr c else Inl OpenSSLException_default)"
  "checkC OpensslCallIsNonNegative (rv, c) = (if rv \<ge> 0 then Inr c else Inl OpenSSLException_default)"
  by (simp_all add: checkC_def)

definition ossl_EVP_PKEY_new :: "('k, 'e, 'g, 'c) pkey_lib \<Rightarrow> 'k res" where
  [ossl_simps]: "ossl_EVP_PKEY_new P = OpensslCallPtr (SSL_EVP_PKEY_new P)"

definition ossl_EVP_PKEY_CTX_new :: "('k, 'e, 'g, 'c) pkey_lib \<Rightarrow> 'k \<Rightarrow> 'c res" where
  [ossl_simps]: "ossl_EVP_PKEY_CTX_new P pkey = OpensslCallPtr (SSL_EVP_PKEY_CTX_new P pkey)"

definition ossl_EVP_PKEY_CTX_new_id :: "('k, 'e, 'g, 'c) pkey_lib \<Rightarrow> int \<Rightarrow> 'c res" where
  [ossl_simps]: "ossl_EVP_PKEY_CTX_new_id P id' = OpensslCallPtr (SSL_EVP_PKEY_CTX_new_id P id')"

text \<open>
  \<open>_EVP_PKEY_keygen\<close> frees a key that a failed call left behind and rethrows; the key it
  returns may be a null pointer if the call reports success without one.
\<close>

definition ossl_EVP_PKEY_keygen :: "('k, 'e, 'g, 'c) pkey_lib \<Rightarrow> nat \<Rightarrow> 'c \<Rightarrow> 'k option res" where
  [ossl_simps]: "ossl_EVP_PKEY_keygen P rnd ctx = checkC OpensslCallIsOne (SSL_EVP_PKEY_keygen P rnd ctx)"

definition ossl_EVP_PKEY_keygen_init :: "('k, 'e, 'g, 'c) pkey_lib \<Rightarrow> 'c \<Rightarrow> 'c res" where
  [ossl_simps]: "ossl_EVP_PKEY_keygen_init P ctx = checkC OpensslCallIsOne (SSL_EVP_PKEY_keygen_init P ctx)"

definition ossl_EVP_PKEY_CTX_set_rsa_keygen_bits ::
  "('k, 'e, 'g, 'c) pkey_lib \<Rightarrow> int \<Rightarrow> 'c \<Rightarrow> 'c res" where
  [ossl_simps]: "ossl_EVP_PKEY_CTX_set_rsa_keygen_bits P mbits ctx =
     checkC OpensslCallIsOne (SSL_EVP_PKEY_CTX_set_rsa_keygen_bits P ctx mbits)"

definition ossl_EVP_PKEY_paramgen_init :: "('k, 'e, 'g, 'c) pkey_lib \<Rightarrow> 'c \<Rightarrow> 'c res" where
  [ossl_simps]: "ossl_EVP_PKEY_paramgen_init P ctx =
     checkC OpensslCallIsOne (SSL_EVP_PKEY_paramgen_init P ctx)"

definition ossl_EVP_PKEY_paramgen :: "('k, 'e, 'g, 'c) pkey_lib \<Rightarrow> 'c \<Rightarrow> 'k option res" where
  [ossl_simps]: "ossl_EVP_PKEY_paramgen P ctx = checkC OpensslCallIsOne (SSL_EVP_PKEY_paramgen P ctx)"

definition ossl_EVP_PKEY_CTX_set_ec_paramgen_curve_nid ::
  "('k, 'e, 'g, 'c) pkey_lib \<Rightarrow> int \<Rightarrow> 'c \<Rightarrow> 'c res" where
  [ossl_simps]: "ossl_EVP_PKEY_CTX_set_ec_paramgen_curve_nid P nid ctx =
     checkC OpensslCallIsNonNegative (SSL_EVP_PKEY_CTX_set_ec_paramgen_curve_nid P ctx nid)"

definition ossl_EVP_PKEY_CTX_set_ec_param_enc ::
  "('k, 'e, 'g, 'c) pkey_lib \<Rightarrow> int \<Rightarrow> 'c \<Rightarrow> 'c res" where
  [ossl_simps]: "ossl_EVP_PKEY_CTX_set_ec_param_enc P param_enc ctx =
     checkC OpensslCallIsNonNegative (SSL_EVP_PKEY_CTX_set_ec_param_enc P ctx param_enc)"

definition ossl_EC_KEY_get0_group :: "('k, 'e, 'g, 'c) pkey_lib \<Rightarrow> 'e \<Rightarrow> 'g res" where
  [ossl_simps]: "ossl_EC_KEY_get0_group P key = OpensslCallPtr (SSL_EC_KEY_get0_group P key)"

definition ossl_EC_GROUP_get_degree :: "('k, 'e, 'g, 'c) pkey_lib \<Rightarrow> 'g \<Rightarrow> int res" where
  [ossl_simps]: "ossl_EC_GROUP_get_degree P grp = OpensslCallIsPositive (SSL_EC_GROUP_get_degree P grp)"

definition ossl_EC_GROUP_get_curve_name :: "('k, 'e, 'g, 'c) pkey_lib \<Rightarrow> 'g \<Rightarrow> int res" where
  [ossl_simps]: "ossl_EC_GROUP_get_curve_name P grp =
     OpensslCallIsPositive (SSL_EC_GROUP_get_curve_name P grp)"

definition ossl_EVP_PKEY_type :: "('k, 'e, 'g, 'c) pkey_lib \<Rightarrow> 'k \<Rightarrow> int res" where
  [ossl_simps]: "ossl_EVP_PKEY_type P key = OpensslCallIsPositive (SSL_EVP_PKEY_type_of_id P key)"

definition ossl_EVP_PKEY_cmp :: "('k, 'e, 'g, 'c) pkey_lib \<Rightarrow> 'k \<Rightarrow> 'k \<Rightarrow> bool res" where
  "ossl_EVP_PKEY_cmp P a b =
     (let result = SSL_EVP_PKEY_cmp P a b in
      if result = 1 then Inr True
      else if result = 0 \<or> result = - 1 then Inr False
      else Inl OpenSSLException_default)"

definition ossl_EVP_PKEY_get0_EC_KEY :: "('k, 'e, 'g, 'c) pkey_lib \<Rightarrow> 'k \<Rightarrow> 'e res" where
  [ossl_simps]: "ossl_EVP_PKEY_get0_EC_KEY P pkey = OpensslCallPtr (SSL_EVP_PKEY_get0_EC_KEY P pkey)"

definition ossl_EC_KEY_oct2key :: "('k, 'e, 'g, 'c) pkey_lib \<Rightarrow> int \<Rightarrow> bytes \<Rightarrow> 'e res" where
  [ossl_simps]: "ossl_EC_KEY_oct2key P nid buf =
     bindR (OpensslCallPtr (SSL_EC_KEY_new_by_curve_name P nid)) (\<lambda>key.
       checkC OpensslCallIsOne (SSL_EC_KEY_oct2key P key buf))"

definition ossl_EVP_PKEY_set1_EC_KEY :: "('k, 'e, 'g, 'c) pkey_lib \<Rightarrow> 'k \<Rightarrow> 'e \<Rightarrow> 'k res" where
  [ossl_simps]: "ossl_EVP_PKEY_set1_EC_KEY P pkey key =
     checkC OpensslCallIsOne (SSL_EVP_PKEY_set1_EC_KEY P pkey key)"

definition ossl_EC_KEY_key2buf :: "('k, 'e, 'g, 'c) pkey_lib \<Rightarrow> 'k \<Rightarrow> int \<Rightarrow> bytes res" where
  [ossl_simps]: "ossl_EC_KEY_key2buf P evp form =
     bindR (OpensslCallPtr (SSL_EVP_PKEY_get0_EC_KEY P evp)) (\<lambda>key.
       (let buf = SSL_EC_KEY_key2buf P key form
        in bindR (OpensslCallIsPositive (int (length buf))) (\<lambda>_. Inr buf)))"

definition ossl_EVP_derive_key :: "('k, 'e, 'g, 'c) pkey_lib \<Rightarrow> 'k \<Rightarrow> 'k \<Rightarrow> bytes res" where
  "ossl_EVP_derive_key P peerkey key =
     bindR (OpensslCallPtr (SSL_EVP_PKEY_CTX_new P key)) (\<lambda>ctx.
     bindR (checkC OpensslCallIsOne (SSL_EVP_PKEY_derive_init P ctx)) (\<lambda>ctx.
     bindR (checkC OpensslCallIsOne (SSL_EVP_PKEY_derive_set_peer P ctx peerkey)) (\<lambda>ctx.
     bindR (checkC OpensslCallIsOne (SSL_EVP_PKEY_derive_len P ctx)) (\<lambda>secret_len.
     bindR (checkC OpensslCallIsOne (SSL_EVP_PKEY_derive P ctx)) (\<lambda>out.
       Inr (overwrite (replicate secret_len 0) out))))))"

section \<open>Keys and specifications\<close>

datatype KeyTypes = RSA | ECC | ECC_ED

datatype Spec = RSASpec "32 word" | ECCSpec ellipticCurveNid

datatype EllipticCurvePointConversionForm = compressed | uncompressed | hybrid

primrec form_value :: "EllipticCurvePointConversionForm \<Rightarrow> int" where
  "form_value compressed = 2"
| "form_value uncompressed = 4"
| "form_value hybrid = 6"

definition getType :: "('k, 'e, 'g, 'c) pkey_lib \<Rightarrow> 'k \<Rightarrow> KeyTypes res" where
  "getType P key =
     bindR (ossl_EVP_PKEY_type P key) (\<lambda>t.
       if t = EVP_PKEY_RSA then Inr RSA
       else if t = EVP_PKEY_EC then Inr ECC
       else if t = EVP_PKEY_ED25519 \<or> t = EVP_PKEY_ED448 then Inr ECC_ED
       else Inl (MoCOCrWException [Str ''Unknown Key Type'']))"

definition getKeySize :: "('k, 'e, 'g, 'c) pkey_lib \<Rightarrow> 'k \<Rightarrow> int" where
  "getKeySize P key = SSL_EVP_PKEY_bits P key"

definition getKeySpec :: "('k, 'e, 'g, 'c) pkey_lib \<Rightarrow> 'k \<Rightarrow> Spec res" where
  "getKeySpec P key =
     catchOpenSSL
       (bindR (getType P key) (\<lambda>t. case t of
          ECC \<Rightarrow>
            bindR (ossl_EVP_PKEY_get0_EC_KEY P key) (\<lambda>ec.
            bindR (ossl_EC_KEY_get0_group P ec) (\<lambda>grp.
            bindR (ossl_EC_GROUP_get_curve_name P grp) (\<lambda>nid. Inr (ECCSpec nid))))
        | ECC_ED \<Rightarrow> bindR (ossl_EVP_PKEY_type P key) (\<lambda>nid. Inr (ECCSpec nid))
        | RSA \<Rightarrow> Inr (RSASpec (word_of_int (getKeySize P key)))))
       MoCOCrWException"

definition publicKey_eq :: "('k, 'e, 'g, 'c) pkey_lib \<Rightarrow> 'k \<Rightarrow> 'k \<Rightarrow> bool res" where
  "publicKey_eq P a b = ossl_EVP_PKEY_cmp P a b"

text \<open>
  The bit count is an \<open>unsigned int\<close> that the wrapper takes as \<open>int\<close>.  \<open>RSASpec\<close> lets
  an \<open>OpenSSLException\<close> through, \<open>ECCSpec\<close> translates it.  A null key pointer cannot be
  told apart by the callers; it is \<open>None\<close> here.
\<close>

definition RSASpec_generate ::
  "('k, 'e, 'g, 'c) pkey_lib \<Rightarrow> nat \<Rightarrow> 32 word \<Rightarrow> 'k option res" where
  "RSASpec_generate P rnd numBits =
     bindR (ossl_EVP_PKEY_CTX_new_id P EVP_PKEY_RSA) (\<lambda>ctx.
     bindR (ossl_EVP_PKEY_keygen_init P ctx) (\<lambda>ctx.
     bindR (ossl_EVP_PKEY_CTX_set_rsa_keygen_bits P (sint numBits) ctx) (\<lambda>ctx.
     ossl_EVP_PKEY_keygen P rnd ctx)))"

definition ECCSpec_keyCtx :: "('k, 'e, 'g, 'c) pkey_lib \<Rightarrow> ellipticCurveNid \<Rightarrow> 'c res" where
  "ECCSpec_keyCtx P curveNid =
     (if curveNid \<noteq> Ed448 \<and> curveNid \<noteq> Ed25519 then
        bindR (ossl_EVP_PKEY_CTX_new_id P EVP_PKEY_EC) (\<lambda>ctx.
        bindR (ossl_EVP_PKEY_paramgen_init P ctx) (\<lambda>ctx.
        bindR (ossl_EVP_PKEY_CTX_set_ec_paramgen_curve_nid P curveNid ctx) (\<lambda>ctx.
        bindR (ossl_EVP_PKEY_CTX_set_ec_param_enc P OPENSSL_EC_NAMED_CURVE ctx) (\<lambda>ctx.
        bindR (ossl_EVP_PKEY_paramgen P ctx) (\<lambda>params.
          (case params of None \<Rightarrow> Inl OpenSSLException_default
           | Some p \<Rightarrow> ossl_EVP_PKEY_CTX_new P p))))))
      else ossl_EVP_PKEY_CTX_new_id P curveNid)"

definition ECCSpec_generate ::
  "('k, 'e, 'g, 'c) pkey_lib \<Rightarrow> nat \<Rightarrow> ellipticCurveNid \<Rightarrow> 'k option res" where
  "ECCSpec_generate P rnd curveNid =
     catchOpenSSL
       (bindR (ECCSpec_keyCtx P curveNid) (\<lambda>ctx.
        bindR (ossl_EVP_PKEY_keygen_init P ctx) (\<lambda>ctx.
        ossl_EVP_PKEY_keygen P rnd ctx)))
       MoCOCrWException"

definition generate_key :: "('k, 'e, 'g, 'c) pkey_lib \<Rightarrow> nat \<Rightarrow> Spec \<Rightarrow> 'k option res" where
  "generate_key P rnd spec =
     (case spec of RSASpec n \<Rightarrow> RSASpec_generate P rnd n | ECCSpec nid \<Rightarrow> ECCSpec_generate P rnd nid)"

definition generateRSA :: "('k, 'e, 'g, 'c) pkey_lib \<Rightarrow> nat \<Rightarrow> 'k option res" where
  "generateRSA P rnd = generate_key P rnd (RSASpec 2048)"
definition generateECC :: "('k, 'e, 'g, 'c) pkey_lib \<Rightarrow> nat \<Rightarrow> 'k option res" where
  "generateECC P rnd = generate_key P rnd (ECCSpec PRIME_256v1)"
definition generateEd448 :: "('k, 'e, 'g, 'c) pkey_lib \<Rightarrow> nat \<Rightarrow> 'k option res" where
  "generateEd448 P rnd = generate_key P rnd (ECCSpec Ed448)"
definition generateEd25519 :: "('k, 'e, 'g, 'c) pkey_lib \<Rightarrow> nat \<Rightarrow> 'k option res" where
  "generateEd25519 P rnd = generate_key P rnd (ECCSpec Ed25519)"

definition err_ed_curve :: exn where
  "err_ed_curve = MoCOCrWException
     [Str ''The given curve is not supported. Ed448 and Ed25519 are not supported'']"

definition ensureEccCurveSupported :: "ellipticCurveNid \<Rightarrow> unit res" where
  "ensureEccCurveSupported nid = (if nid = Ed448 \<or> nid = Ed25519 then Inl err_ed_curve else Inr ())"

definition fromECPoint ::
  "('k, 'e, 'g, 'c) pkey_lib \<Rightarrow> ellipticCurveNid \<Rightarrow> bytes \<Rightarrow> 'k res" where
  "fromECPoint P curve point =
     bindR (ensureEccCurveSupported curve) (\<lambda>_.
     bindR (ossl_EC_KEY_oct2key P curve point) (\<lambda>ec_key.
     bindR (ossl_EVP_PKEY_new P) (\<lambda>evp_key.
     ossl_EVP_PKEY_set1_EC_KEY P evp_key ec_key)))"

definition toECPoint ::
  "('k, 'e, 'g, 'c) pkey_lib \<Rightarrow> EllipticCurvePointConversionForm \<Rightarrow> 'k \<Rightarrow> bytes res" where
  "toECPoint P form key =
     bindR (getType P key) (\<lambda>t.
       if t \<noteq> ECC
       then Inl (MoCOCrWException [Str ''The function toECPoint can only be invoked for EC keys.''])
       else bindR (getKeySpec P key) (\<lambda>spec. case spec of
              RSASpec n \<Rightarrow> Inl (MoCOCrWException
                [Str ''Failure downcasting from AsymmetricKey::Spec to ECCSpec.''])
            | ECCSpec nid \<Rightarrow>
                bindR (ensureEccCurveSupported nid) (\<lambda>_. ossl_EC_KEY_key2buf P key (form_value form))))"

definition getECOctetLength ::
  "('k, 'e, 'g, 'c) pkey_lib \<Rightarrow> EllipticCurvePointConversionForm \<Rightarrow> 'k \<Rightarrow> nat res" where
  "getECOctetLength P form key =
     bindR (getType P key) (\<lambda>t.
       if t \<noteq> ECC
       then Inl (MoCOCrWException [Str ''The function getECOctetLength can only be invoked for EC keys.''])
       else bindR (ossl_EVP_PKEY_get0_EC_KEY P key) (\<lambda>ec.
            bindR (ossl_EC_KEY_get0_group P ec) (\<lambda>grp.
            bindR (ossl_EC_GROUP_get_degree P grp) (\<lambda>degree.
              (let field_size = word_of_int degree :: 32 word;
                   field_size_bytes = (field_size + 7) div 8
               in Inr (unat (if form = compressed then 1 + field_size_bytes
                             else 1 + 2 * field_size_bytes)))))))"

section \<open>What OpenSSL documents\<close>

text \<open>
  \<open>kspec\<close> is the kind of a key, \<open>gen\<close> the kind of key a context is set up to generate,
  \<open>curves\<close> the named curves OpenSSL knows.
\<close>

definition is_ed :: "int \<Rightarrow> bool" where
  "is_ed nid \<longleftrightarrow> nid = Ed448 \<or> nid = Ed25519"

definition ec_gen_laws ::
  "('k, 'e, 'g, 'c) pkey_lib \<Rightarrow> int set \<Rightarrow> ('k \<Rightarrow> Spec) \<Rightarrow> ('c \<Rightarrow> Spec option) \<Rightarrow> bool" where
  "ec_gen_laws P curves kspec gen \<longleftrightarrow>
     SSL_EVP_PKEY_CTX_new_id P EVP_PKEY_EC \<noteq> None
     \<and> (\<forall>c. fst (SSL_EVP_PKEY_paramgen_init P c) = 1)
     \<and> (\<forall>c nid. nid \<in> curves \<longrightarrow> fst (SSL_EVP_PKEY_CTX_set_ec_paramgen_curve_nid P c nid) = 1
          \<and> gen (snd (SSL_EVP_PKEY_CTX_set_ec_paramgen_curve_nid P c nid)) = Some (ECCSpec nid))
     \<and> (\<forall>c n. fst (SSL_EVP_PKEY_CTX_set_ec_param_enc P c n) = 1
          \<and> gen (snd (SSL_EVP_PKEY_CTX_set_ec_param_enc P c n)) = gen c)
     \<and> (\<forall>c spec. gen c = Some spec \<longrightarrow>
          (\<exists>p. SSL_EVP_PKEY_paramgen P c = (1, Some p) \<and> kspec p = spec))
     \<and> (\<forall>p. \<exists>c. SSL_EVP_PKEY_CTX_new P p = Some c \<and> gen c = Some (kspec p))
     \<and> (\<forall>nid. is_ed nid \<longrightarrow>
          (\<exists>c. SSL_EVP_PKEY_CTX_new_id P nid = Some c \<and> gen c = Some (ECCSpec nid)))"

definition key_gen_laws ::
  "('k, 'e, 'g, 'c) pkey_lib \<Rightarrow> ('k \<Rightarrow> Spec) \<Rightarrow> ('c \<Rightarrow> Spec option) \<Rightarrow> bool" where
  "key_gen_laws P kspec gen \<longleftrightarrow>
     SSL_EVP_PKEY_CTX_new_id P EVP_PKEY_RSA \<noteq> None
     \<and> (\<forall>c n. 512 \<le> n \<longrightarrow> fst (SSL_EVP_PKEY_CTX_set_rsa_keygen_bits P c n) = 1
          \<and> gen (snd (SSL_EVP_PKEY_CTX_set_rsa_keygen_bits P c n)) = Some (RSASpec (word_of_int n)))
     \<and> (\<forall>c. fst (SSL_EVP_PKEY_keygen_init P c) = 1 \<and> gen (snd (SSL_EVP_PKEY_keygen_init P c)) = gen c)
     \<and> (\<forall>rnd c spec. gen c = Some spec \<longrightarrow>
          (\<exists>k. SSL_EVP_PKEY_keygen P rnd c = (1, Some k) \<and> kspec k = spec))"

definition key_info_laws ::
  "('k, 'e, 'g, 'c) pkey_lib \<Rightarrow> int set \<Rightarrow> ('k \<Rightarrow> Spec) \<Rightarrow> bool" where
  "key_info_laws P curves kspec \<longleftrightarrow>
     (\<forall>k n. kspec k = RSASpec n \<longrightarrow>
        SSL_EVP_PKEY_type_of_id P k = EVP_PKEY_RSA \<and> SSL_EVP_PKEY_bits P k = uint n)
     \<and> (\<forall>k nid. kspec k = ECCSpec nid \<and> is_ed nid \<longrightarrow> SSL_EVP_PKEY_type_of_id P k = nid)
     \<and> (\<forall>k nid. kspec k = ECCSpec nid \<and> nid \<in> curves \<longrightarrow>
        SSL_EVP_PKEY_type_of_id P k = EVP_PKEY_EC
        \<and> (\<exists>e g. SSL_EVP_PKEY_get0_EC_KEY P k = Some e \<and> SSL_EC_KEY_get0_group P e = Some g
             \<and> SSL_EC_GROUP_get_curve_name P g = nid))
     \<and> (\<forall>nid \<in> curves. nid > 0 \<and> \<not> is_ed nid)"

section \<open>Generation\<close>

lemma checkC_IsOne: "checkC OpensslCallIsOne r =
    (if fst r = 1 then Inr (snd r) else Inl OpenSSLException_default)"
  by (cases r) simp

lemma checkC_NonNegative: "checkC OpensslCallIsNonNegative r =
    (if fst r \<ge> 0 then Inr (snd r) else Inl OpenSSLException_default)"
  by (cases r) simp

lemma ECCSpec_keyCtx_ok:
  assumes "ec_gen_laws P curves kspec gen" "nid \<in> curves \<or> is_ed nid" "\<forall>n \<in> curves. \<not> is_ed n"
  shows "\<exists>c. ECCSpec_keyCtx P nid = Inr c \<and> gen c = Some (ECCSpec nid)"
proof (cases "is_ed nid")
  case True
  then obtain c where "SSL_EVP_PKEY_CTX_new_id P nid = Some c" "gen c = Some (ECCSpec nid)"
    using assms(1) unfolding ec_gen_laws_def by blast
  with True show ?thesis by (auto simp: ECCSpec_keyCtx_def is_ed_def ossl_simps)
next
  case False
  then have nid: "nid \<in> curves" using assms(2) by blast
  obtain c0 where c0: "SSL_EVP_PKEY_CTX_new_id P EVP_PKEY_EC = Some c0"
    using assms(1) unfolding ec_gen_laws_def by blast
  let ?c1 = "snd (SSL_EVP_PKEY_paramgen_init P c0)"
  let ?c2 = "snd (SSL_EVP_PKEY_CTX_set_ec_paramgen_curve_nid P ?c1 nid)"
  let ?c3 = "snd (SSL_EVP_PKEY_CTX_set_ec_param_enc P ?c2 OPENSSL_EC_NAMED_CURVE)"
  have s: "fst (SSL_EVP_PKEY_paramgen_init P c0) = 1"
    "fst (SSL_EVP_PKEY_CTX_set_ec_paramgen_curve_nid P ?c1 nid) = 1"
    "fst (SSL_EVP_PKEY_CTX_set_ec_param_enc P ?c2 OPENSSL_EC_NAMED_CURVE) = 1"
    "gen ?c3 = Some (ECCSpec nid)"
    using assms(1) nid unfolding ec_gen_laws_def by auto
  then obtain p where p: "SSL_EVP_PKEY_paramgen P ?c3 = (1, Some p)" "kspec p = ECCSpec nid"
    using assms(1) unfolding ec_gen_laws_def by blast
  obtain c where "SSL_EVP_PKEY_CTX_new P p = Some c" "gen c = Some (kspec p)"
    using assms(1) unfolding ec_gen_laws_def by blast
  with c0 s p False show ?thesis
    by (simp add: ECCSpec_keyCtx_def is_ed_def ossl_simps checkC_IsOne checkC_NonNegative)
qed

lemma keygen_ok:
  assumes "key_gen_laws P kspec gen" "gen c = Some spec"
  shows "\<exists>k. bindR (ossl_EVP_PKEY_keygen_init P c) (ossl_EVP_PKEY_keygen P rnd) = Inr (Some k)
     \<and> kspec k = spec"
proof -
  let ?c = "snd (SSL_EVP_PKEY_keygen_init P c)"
  have "fst (SSL_EVP_PKEY_keygen_init P c) = 1" "gen ?c = Some spec"
    using assms unfolding key_gen_laws_def by auto
  moreover from this(2) obtain k where "SSL_EVP_PKEY_keygen P rnd ?c = (1, Some k)" "kspec k = spec"
    using assms(1) unfolding key_gen_laws_def by blast
  ultimately show ?thesis by (simp add: ossl_simps checkC_IsOne)
qed

lemma RSASpec_generate_ok:
  assumes "key_gen_laws P kspec gen" "512 \<le> sint n"
  shows "\<exists>k. RSASpec_generate P rnd n = Inr (Some k) \<and> kspec k = RSASpec n"
proof -
  obtain c where c: "SSL_EVP_PKEY_CTX_new_id P EVP_PKEY_RSA = Some c"
    using assms(1) unfolding key_gen_laws_def by blast
  let ?c1 = "snd (SSL_EVP_PKEY_keygen_init P c)"
  let ?c2 = "snd (SSL_EVP_PKEY_CTX_set_rsa_keygen_bits P ?c1 (sint n))"
  have s: "fst (SSL_EVP_PKEY_keygen_init P c) = 1"
    "fst (SSL_EVP_PKEY_CTX_set_rsa_keygen_bits P ?c1 (sint n)) = 1" "gen ?c2 = Some (RSASpec n)"
    using assms unfolding key_gen_laws_def by auto
  then obtain k where "SSL_EVP_PKEY_keygen P rnd ?c2 = (1, Some k)" "kspec k = RSASpec n"
    using assms(1) unfolding key_gen_laws_def by blast
  with c s show ?thesis by (simp add: RSASpec_generate_def ossl_simps checkC_IsOne)
qed

lemma getKeySpec_ok:
  assumes "key_info_laws P curves kspec"
    and "case kspec k of RSASpec n \<Rightarrow> True | ECCSpec nid \<Rightarrow> nid \<in> curves \<or> is_ed nid"
  shows "getKeySpec P k = Inr (kspec k)"
proof (cases "kspec k")
  case (RSASpec n)
  then have "SSL_EVP_PKEY_type_of_id P k = EVP_PKEY_RSA" "SSL_EVP_PKEY_bits P k = uint n"
    using assms(1) unfolding key_info_laws_def by blast+
  with RSASpec show ?thesis
    by (simp add: getKeySpec_def getType_def getKeySize_def ossl_simps pkey_types)
next
  case (ECCSpec nid)
  show ?thesis
  proof (cases "is_ed nid")
    case True
    then have "SSL_EVP_PKEY_type_of_id P k = nid"
      using assms(1) ECCSpec unfolding key_info_laws_def by blast
    with True ECCSpec show ?thesis
      by (auto simp: getKeySpec_def getType_def ossl_simps pkey_types is_ed_def curve_nids)
  next
    case False
    then have nid: "nid \<in> curves" using assms(2) ECCSpec by simp
    then obtain e g where "SSL_EVP_PKEY_type_of_id P k = EVP_PKEY_EC"
      "SSL_EVP_PKEY_get0_EC_KEY P k = Some e" "SSL_EC_KEY_get0_group P e = Some g"
      "SSL_EC_GROUP_get_curve_name P g = nid" "nid > 0"
      using assms(1) ECCSpec unfolding key_info_laws_def by blast
    with ECCSpec show ?thesis
      by (simp add: getKeySpec_def getType_def ossl_simps pkey_types)
  qed
qed

lemma generate_ok:
  assumes "ec_gen_laws P curves kspec gen" "key_gen_laws P kspec gen" "\<forall>n \<in> curves. \<not> is_ed n"
    and "case spec of RSASpec n \<Rightarrow> 512 \<le> sint n | ECCSpec nid \<Rightarrow> nid \<in> curves \<or> is_ed nid"
  shows "\<exists>k. generate_key P rnd spec = Inr (Some k) \<and> kspec k = spec"
proof (cases spec)
  case (RSASpec n)
  then show ?thesis
    using RSASpec_generate_ok [OF assms(2)] assms(4) by (simp add: generate_key_def)
next
  case (ECCSpec nid)
  obtain c where c: "ECCSpec_keyCtx P nid = Inr c" "gen c = Some (ECCSpec nid)"
    using ECCSpec_keyCtx_ok [OF assms(1) _ assms(3)] assms(4) ECCSpec by auto
  with keygen_ok [OF assms(2) c(2), of rnd] ECCSpec show ?thesis
    by (auto simp: generate_key_def ECCSpec_generate_def)
qed

text \<open>
  Generating a key from a specification (RSA from 512 bits up to \<open>INT_MAX\<close>, a named
  curve, Ed448 or Ed25519) succeeds, and the specification read back from the key is the one
  it was generated from.
\<close>

theorem generate_getKeySpec:
  assumes "ec_gen_laws P curves kspec gen" "key_gen_laws P kspec gen" "key_info_laws P curves kspec"
    and "case spec of RSASpec n \<Rightarrow> 512 \<le> sint n | ECCSpec nid \<Rightarrow> nid \<in> curves \<or> is_ed nid"
  shows "\<exists>k. generate_key P rnd spec = Inr (Some k) \<and> getKeySpec P k = Inr spec"
proof -
  have "\<forall>n \<in> curves. \<not> is_ed n" using assms(3) unfolding key_info_laws_def by blast
  then obtain k where k: "generate_key P rnd spec = Inr (Some k)" "kspec k = spec"
    using generate_ok [OF assms(1,2) _ assms(4)] by blast
  moreover have "case kspec k of RSASpec n \<Rightarrow> True | ECCSpec nid \<Rightarrow> nid \<in> curves \<or> is_ed nid"
    using assms(4) k(2) by (cases spec) simp_all
  ultimately show ?thesis using getKeySpec_ok [OF assms(3)] by metis
qed

section \<open>Errors\<close>

text \<open>
  Reading a specification and generating an elliptic curve key never let an
  \<open>OpenSSLException\<close> through, whatever OpenSSL does; Edwards curves are refused by both
  point conversions with the message that names them.
\<close>

theorem key_errors:
  "getKeySpec P k \<noteq> Inl (OpenSSLException m) \<and> ECCSpec_generate P rnd nid \<noteq> Inl (OpenSSLException m)
   \<and> (is_ed nid \<longrightarrow> fromECPoint P nid point = Inl err_ed_curve)
   \<and> (getType P k = Inr ECC_ED \<longrightarrow> toECPoint P form k = Inl (MoCOCrWException
        [Str ''The function toECPoint can only be invoked for EC keys.'']))"
  by (auto simp: getKeySpec_def ECCSpec_generate_def fromECPoint_def ensureEccCurveSupported_def
      is_ed_def toECPoint_def catchOpenSSL_never_OpenSSL [where f = "\<lambda>m. m"])

section \<open>Points in octet form\<close>

text \<open>
  \<open>ept\<close> is the curve and the public point of an \<open>EC_KEY\<close>, \<open>enc\<close> the octet form of a
  point (SEC 1), \<open>deg\<close> the field degree of a curve.
\<close>

definition ec_point_laws ::
  "('k, 'e, 'g, 'c) pkey_lib \<Rightarrow> int set \<Rightarrow> ('k \<Rightarrow> Spec) \<Rightarrow> ('e \<Rightarrow> int \<times> 'p) \<Rightarrow>
     (int \<Rightarrow> 'p \<Rightarrow> int \<Rightarrow> bytes) \<Rightarrow> (int \<Rightarrow> nat) \<Rightarrow> bool" where
  "ec_point_laws P curves kspec ept enc deg \<longleftrightarrow>
     (\<forall>nid \<in> curves. \<exists>e. SSL_EC_KEY_new_by_curve_name P nid = Some e \<and> fst (ept e) = nid)
     \<and> (\<forall>e pt form. fst (ept e) \<in> curves \<longrightarrow>
          (\<exists>e'. SSL_EC_KEY_oct2key P e (enc (fst (ept e)) pt (form_value form)) = (1, e')
             \<and> ept e' = (fst (ept e), pt)))
     \<and> (\<forall>e form. fst (ept e) \<in> curves \<longrightarrow>
          SSL_EC_KEY_key2buf P e (form_value form) = enc (fst (ept e)) (snd (ept e)) (form_value form))
     \<and> SSL_EVP_PKEY_new P \<noteq> None
     \<and> (\<forall>k e. \<exists>k'. SSL_EVP_PKEY_set1_EC_KEY P k e = (1, k') \<and> SSL_EVP_PKEY_get0_EC_KEY P k' = Some e)
     \<and> (\<forall>k e. SSL_EVP_PKEY_get0_EC_KEY P k = Some e \<longrightarrow> kspec k = ECCSpec (fst (ept e)))
     \<and> (\<forall>e g. SSL_EC_KEY_get0_group P e = Some g \<longrightarrow>
          SSL_EC_GROUP_get_degree P g = int (deg (fst (ept e))))
     \<and> (\<forall>nid \<in> curves. 0 < deg nid \<and> deg nid < 1000000)
     \<and> (\<forall>nid \<in> curves. \<forall>pt form. length (enc nid pt (form_value form)) =
          (if form = compressed then 1 + (deg nid + 7) div 8 else 1 + 2 * ((deg nid + 7) div 8)))"

lemma EC_key_info:
  assumes "key_info_laws P curves kspec" "kspec k = ECCSpec nid" "nid \<in> curves"
  obtains e g where "getType P k = Inr ECC" "getKeySpec P k = Inr (ECCSpec nid)" "\<not> is_ed nid"
    "SSL_EVP_PKEY_get0_EC_KEY P k = Some e" "SSL_EC_KEY_get0_group P e = Some g"
proof -
  obtain e g where l: "SSL_EVP_PKEY_type_of_id P k = EVP_PKEY_EC" "\<not> is_ed nid"
    "SSL_EVP_PKEY_get0_EC_KEY P k = Some e" "SSL_EC_KEY_get0_group P e = Some g"
    using assms unfolding key_info_laws_def by metis
  moreover have "getType P k = Inr ECC" using l(1) by (simp add: getType_def ossl_simps pkey_types)
  moreover have "getKeySpec P k = Inr (ECCSpec nid)"
    using getKeySpec_ok [OF assms(1), of k] assms(2,3) by simp
  ultimately show thesis by (intro that)
qed

lemma toECPoint_ok:
  assumes "key_info_laws P curves kspec" "ec_point_laws P curves kspec ept enc deg"
    and "SSL_EVP_PKEY_get0_EC_KEY P k = Some e" "fst (ept e) \<in> curves"
  shows "toECPoint P form k = Inr (enc (fst (ept e)) (snd (ept e)) (form_value form))"
proof -
  have k: "kspec k = ECCSpec (fst (ept e))"
    using assms(2,3) unfolding ec_point_laws_def by metis
  have buf: "SSL_EC_KEY_key2buf P e (form_value form)
      = enc (fst (ept e)) (snd (ept e)) (form_value form)"
    and len: "length (enc (fst (ept e)) (snd (ept e)) (form_value form)) > 0"
    using assms(2,4) unfolding ec_point_laws_def by simp_all
  have "getType P k = Inr ECC" "getKeySpec P k = Inr (ECCSpec (fst (ept e)))" "\<not> is_ed (fst (ept e))"
    using EC_key_info [OF assms(1) k assms(4)] by blast+
  then show ?thesis
    using buf len assms(3)
    by (simp add: toECPoint_def ensureEccCurveSupported_def is_ed_def ossl_simps)
qed

lemma octet_length_word:
  assumes "0 < d" "d < 1000000"
  shows "unat (if c then 1 + ((word_of_nat d + 7) div 8 :: 32 word) else 1 + 2 * ((word_of_nat d + 7) div 8))
     = (if c then 1 + (d + 7) div 8 else 1 + 2 * ((d + 7) div 8))"
proof -
  have "(word_of_nat d + 7 :: 32 word) = word_of_nat (d + 7)" by simp
  then have "unat ((word_of_nat d + 7) div 8 :: 32 word) = (d + 7) div 8"
    using assms unat_of_nat_small [of "d + 7", where 'a = 32]
    by (simp add: unat_div del: of_nat_add)
  then have w: "((word_of_nat d + 7) div 8 :: 32 word) = word_of_nat ((d + 7) div 8)"
    using assms(2) by (simp add: word_unat_eq_iff unat_of_nat_small)
  have "(d + 7) div 8 < 200000" using assms(2) by simp
  then show ?thesis
    using unat_of_nat_small [of "1 + (d + 7) div 8", where 'a = 32]
      unat_of_nat_small [of "1 + 2 * ((d + 7) div 8)", where 'a = 32]
    unfolding w by simp
qed

lemma point_decoded:
  assumes "ec_point_laws P curves kspec ept enc deg" "nid \<in> curves" "\<not> is_ed nid"
  shows "\<exists>k' e'. fromECPoint P nid (enc nid pt (form_value form)) = Inr k'
     \<and> SSL_EVP_PKEY_get0_EC_KEY P k' = Some e' \<and> ept e' = (nid, pt)"
proof -
  obtain e0 where e0: "SSL_EC_KEY_new_by_curve_name P nid = Some e0" "fst (ept e0) = nid"
    using assms(1,2) unfolding ec_point_laws_def by blast
  then obtain e1 where e1: "SSL_EC_KEY_oct2key P e0 (enc nid pt (form_value form)) = (1, e1)" "ept e1 = (nid, pt)"
    using assms(1,2) unfolding ec_point_laws_def by blast
  obtain k0 where k0: "SSL_EVP_PKEY_new P = Some k0"
    using assms(1) unfolding ec_point_laws_def by blast
  obtain k' where k': "SSL_EVP_PKEY_set1_EC_KEY P k0 e1 = (1, k')" "SSL_EVP_PKEY_get0_EC_KEY P k' = Some e1"
    using assms(1) unfolding ec_point_laws_def by blast
  have "fromECPoint P nid (enc nid pt (form_value form)) = Inr k'"
    using assms(3) e0(1) e1(1) k0 k'(1)
    by (simp add: fromECPoint_def ensureEccCurveSupported_def is_ed_def ossl_simps)
  with k'(2) e1(2) show ?thesis by blast
qed

text \<open>
  The octet form of a public key on a named curve has exactly the length
  \<open>getECOctetLength\<close> announces, for every conversion form, and a key made from it has the
  same point: all its octet forms are those of the original key.
\<close>

theorem ECPoint_roundtrip:
  assumes "key_info_laws P curves kspec" "ec_point_laws P curves kspec ept enc deg"
    and "kspec k = ECCSpec nid" "nid \<in> curves"
  shows "\<exists>buf k'. toECPoint P form k = Inr buf \<and> getECOctetLength P form k = Inr (length buf)
     \<and> fromECPoint P nid buf = Inr k' \<and> toECPoint P form' k' = toECPoint P form' k"
proof -
  obtain e g where e: "getType P k = Inr ECC" "\<not> is_ed nid"
    "SSL_EVP_PKEY_get0_EC_KEY P k = Some e" "SSL_EC_KEY_get0_group P e = Some g"
    using EC_key_info [OF assms(1,3,4)] by blast
  have nid: "fst (ept e) = nid" using assms(2,3) e(3) unfolding ec_point_laws_def by fastforce
  let ?buf = "enc nid (snd (ept e)) (form_value form)"
  have to: "toECPoint P f k = Inr (enc nid (snd (ept e)) (form_value f))" for f
    using toECPoint_ok [OF assms(1,2) e(3)] nid assms(4) by simp
  have d: "SSL_EC_GROUP_get_degree P g = int (deg nid)" "0 < deg nid" "deg nid < 1000000"
    "length ?buf = (if form = compressed then 1 + (deg nid + 7) div 8 else 1 + 2 * ((deg nid + 7) div 8))"
    using assms(2,4) e(4) nid unfolding ec_point_laws_def by auto
  have len: "getECOctetLength P form k = Inr (length ?buf)"
    using e d octet_length_word [OF d(2,3), of True] octet_length_word [OF d(2,3), of False]
    by (simp add: getECOctetLength_def ossl_simps Let_def)
  obtain k' e1 where k': "fromECPoint P nid ?buf = Inr k'" "SSL_EVP_PKEY_get0_EC_KEY P k' = Some e1"
    "ept e1 = (nid, snd (ept e))"
    using point_decoded [OF assms(2,4) e(2)] by blast
  have "toECPoint P form' k' = toECPoint P form' k"
    using toECPoint_ok [OF assms(1,2) k'(2)] k'(3) assms(4) to by simp
  with to len k'(1) show ?thesis by blast
qed

section \<open>A concrete instance\<close>

text \<open>
  A library with one named curve (P-256): a key is its specification and point (32 bytes), the
  octet forms are the form byte and the point once or twice, and key agreement multiplies.
\<close>

definition ref_enc :: "int \<Rightarrow> byte \<Rightarrow> int \<Rightarrow> bytes" where
  "ref_enc nid pt form = word_of_int form # replicate (if form = 2 then 32 else 64) pt"

definition ref_pkey_lib ::
  "(Spec \<times> byte, int \<times> byte, int, Spec option \<times> byte \<times> byte) pkey_lib" where
  "ref_pkey_lib =
     \<lparr>SSL_EVP_PKEY_new = Some (RSASpec 0, 0),
      SSL_EVP_PKEY_type_of_id = (\<lambda>k. case fst k of RSASpec n \<Rightarrow> EVP_PKEY_RSA
        | ECCSpec nid \<Rightarrow> if is_ed nid then nid else EVP_PKEY_EC),
      SSL_EVP_PKEY_bits = (\<lambda>k. case fst k of RSASpec n \<Rightarrow> uint n | ECCSpec nid \<Rightarrow> 256),
      SSL_EVP_PKEY_cmp = (\<lambda>a b. if a = b then 1 else 0),
      SSL_EVP_PKEY_CTX_new_id = (\<lambda>i. Some (if is_ed i then Some (ECCSpec i) else None, 0, 0)),
      SSL_EVP_PKEY_CTX_new = (\<lambda>k. Some (Some (fst k), snd k, 0)),
      SSL_EVP_PKEY_keygen_init = (\<lambda>c. (1, c)),
      SSL_EVP_PKEY_keygen = (\<lambda>rnd c. case fst c of None \<Rightarrow> (0, None)
        | Some s \<Rightarrow> (1, Some (s, word_of_nat rnd))),
      SSL_EVP_PKEY_CTX_set_rsa_keygen_bits = (\<lambda>c n. (1, (Some (RSASpec (word_of_int n)), 0, 0))),
      SSL_EVP_PKEY_paramgen_init = (\<lambda>c. (1, c)),
      SSL_EVP_PKEY_paramgen = (\<lambda>c. case fst c of None \<Rightarrow> (0, None) | Some s \<Rightarrow> (1, Some (s, 0))),
      SSL_EVP_PKEY_CTX_set_ec_paramgen_curve_nid = (\<lambda>c nid. (1, (Some (ECCSpec nid), 0, 0))),
      SSL_EVP_PKEY_CTX_set_ec_param_enc = (\<lambda>c n. (1, c)),
      SSL_EVP_PKEY_get0_EC_KEY = (\<lambda>k. case fst k of RSASpec n \<Rightarrow> None
        | ECCSpec nid \<Rightarrow> Some (nid, snd k)),
      SSL_EC_KEY_get0_group = (\<lambda>e. Some (fst e)),
      SSL_EC_GROUP_get_degree = (\<lambda>g. 256),
      SSL_EC_GROUP_get_curve_name = (\<lambda>g. g),
      SSL_EC_KEY_new_by_curve_name = (\<lambda>nid. Some (nid, 0)),
      SSL_EC_KEY_oct2key = (\<lambda>e b. (1, (fst e, b ! 1))),
      SSL_EVP_PKEY_set1_EC_KEY = (\<lambda>k e. (1, (ECCSpec (fst e), snd e))),
      SSL_EC_KEY_key2buf = (\<lambda>e form. ref_enc (fst e) (snd e) form),
      SSL_EVP_PKEY_derive_init = (\<lambda>c. (1, c)),
      SSL_EVP_PKEY_derive_set_peer = (\<lambda>c k. (1, (fst c, fst (snd c), snd k))),
      SSL_EVP_PKEY_derive_len = (\<lambda>c. (1, 1)),
      SSL_EVP_PKEY_derive = (\<lambda>c. (1, [fst (snd c) * snd (snd c)]))\<rparr>"

lemma form_value_eq_2: "form_value form = 2 \<longleftrightarrow> form = compressed"
  by (cases form) simp_all

lemma ref_key_laws:
  "ec_gen_laws ref_pkey_lib {PRIME_256v1} fst fst" "key_gen_laws ref_pkey_lib fst fst"
  "key_info_laws ref_pkey_lib {PRIME_256v1} fst"
  by (simp_all add: ec_gen_laws_def key_gen_laws_def key_info_laws_def ref_pkey_lib_def is_ed_def
      pkey_types curve_nids)

lemma ref_point_laws: "ec_point_laws ref_pkey_lib {PRIME_256v1} fst id ref_enc (\<lambda>_. 256)"
  by (auto simp: ec_point_laws_def ref_pkey_lib_def ref_enc_def form_value_eq_2 split: Spec.splits)

theorem generate_getKeySpec_witness:
  "\<exists>k. generate_key ref_pkey_lib 7 (RSASpec 2048) = Inr (Some k)
     \<and> getKeySpec ref_pkey_lib k = Inr (RSASpec 2048)"
  using generate_getKeySpec [OF ref_key_laws(1-3), of "RSASpec 2048" 7] by simp

theorem ECPoint_roundtrip_witness:
  "\<exists>buf k'. toECPoint ref_pkey_lib compressed (ECCSpec PRIME_256v1, 9) = Inr buf
     \<and> getECOctetLength ref_pkey_lib compressed (ECCSpec PRIME_256v1, 9) = Inr (length buf)
     \<and> fromECPoint ref_pkey_lib PRIME_256v1 buf = Inr k'
     \<and> toECPoint ref_pkey_lib hybrid k' = toECPoint ref_pkey_lib hybrid (ECCSpec PRIME_256v1, 9)"
  using ECPoint_roundtrip [OF ref_key_laws(3) ref_point_laws, of "(ECCSpec PRIME_256v1, 9)" PRIME_256v1 compressed hybrid]
  by simp

theorem key_errors_witness:
  "fromECPoint ref_pkey_lib Ed448 [1] = Inl err_ed_curve
   \<and> toECPoint ref_pkey_lib compressed (ECCSpec Ed448, 9) = Inl (MoCOCrWException
       [Str ''The function toECPoint can only be invoked for EC keys.''])"
proof -
  have "getType ref_pkey_lib (ECCSpec Ed448, 9) = Inr ECC_ED"
    by (simp add: getType_def ref_pkey_lib_def ossl_simps is_ed_def pkey_types curve_nids)
  then show ?thesis
    using key_errors [of ref_pkey_lib "(ECCSpec Ed448, 9)" "[]" 0 Ed448 "[1]" compressed]
    by (simp add: is_ed_def)
qed

end
