(* ===== verification/Ecies_Ctx.thy ===== *)
theory Ecies_Ctx
  imports Aes_Stream Mac_Ctx Kdf_Fun Hash_Ctx Asym_Key
begin

text \<open>
  \<open>src/src/ecies.cpp\<close>: the elliptic curve integrated encryption scheme.  The builder collects
  a key derivation function, factories for the MAC and the cipher and their key sizes, fills in
  defaults, and creates contexts; a context derives both keys from the shared secret and runs
  encrypt-then-MAC.
\<close>

section \<open>Interfaces called through base classes\<close>

text \<open>
  A MAC behind \<open>unique_ptr<MessageAuthenticationCode>\<close> is an \<open>HMAC\<close> or an object of another
  implementation; a cipher behind \<open>unique_ptr<SymmetricCipherI>\<close> is an \<open>AESCipher\<close> or
  another, or the null pointer that a factory of the caller may return; a key derivation
  function is an \<open>X963KDF\<close> or another.  A call through the null pointer is undefined
  behaviour and has no equation; only \<open>update\<close> of an encryption context tests for it.
\<close>

datatype ('h, 'm) mac_dyn = HmacObj "'h mac_impl" | OtherMac 'm
datatype ('a, 's) cipher_dyn = AesObj "'a aes" | OtherCipher 's | NullCipher
datatype kdf_dyn = X963Obj X963KDF | OtherKdf "bytes \<Rightarrow> nat \<Rightarrow> bytes \<Rightarrow> bytes res"

record 'm mac_ops =
  ops_mac_update :: "bytes \<Rightarrow> ('m, unit) st"
  ops_mac_finish :: "('m, bytes) st"
  ops_mac_verify :: "bytes \<Rightarrow> ('m, unit) st"

record 's cipher_ops =
  ops_cipher_update :: "bytes \<Rightarrow> ('s, unit) st"
  ops_cipher_finish :: "('s, bytes) st"

record ('h, 'm, 'a, 's) crypto_env =
  env_hmac :: "'h hmac_lib"
  env_mac :: "'m mac_ops"
  env_cipher :: "'a cipher_lib"
  env_sym :: "'s cipher_ops"
  env_kdf :: kdf_lib
  env_rand :: "int \<Rightarrow> int \<times> bytes"

definition mapS :: "('s \<Rightarrow> 't) \<Rightarrow> 'r res \<times> 's \<Rightarrow> 'r res \<times> 't" where
  "mapS f p = (fst p, f (snd p))"

lemma mapS_pair [simp]: "mapS f (r, s) = (r, f s)"
  by (simp add: mapS_def)

fun mac_update :: "('h, 'm, 'a, 's) crypto_env \<Rightarrow> bytes \<Rightarrow> (('h, 'm) mac_dyn, unit) st" where
  "mac_update E c (HmacObj s) = mapS HmacObj (HMAC_update (env_hmac E) c s)"
| "mac_update E c (OtherMac m) = mapS OtherMac (ops_mac_update (env_mac E) c m)"

fun mac_finish :: "('h, 'm, 'a, 's) crypto_env \<Rightarrow> (('h, 'm) mac_dyn, bytes) st" where
  "mac_finish E (HmacObj s) = mapS HmacObj (HMAC_finish (env_hmac E) s)"
| "mac_finish E (OtherMac m) = mapS OtherMac (ops_mac_finish (env_mac E) m)"

fun mac_verify :: "('h, 'm, 'a, 's) crypto_env \<Rightarrow> bytes \<Rightarrow> (('h, 'm) mac_dyn, unit) st" where
  "mac_verify E v (HmacObj s) = mapS HmacObj (HMAC_verify (env_hmac E) v s)"
| "mac_verify E v (OtherMac m) = mapS OtherMac (ops_mac_verify (env_mac E) v m)"

fun cipher_update :: "('h, 'm, 'a, 's) crypto_env \<Rightarrow> bytes \<Rightarrow> (('a, 's) cipher_dyn, unit) st" where
  "cipher_update E c (AesObj s) = mapS AesObj (AES_update (env_cipher E) c s)"
| "cipher_update E c (OtherCipher s) = mapS OtherCipher (ops_cipher_update (env_sym E) c s)"

fun cipher_finish :: "('h, 'm, 'a, 's) crypto_env \<Rightarrow> (('a, 's) cipher_dyn, bytes) st" where
  "cipher_finish E (AesObj s) = mapS AesObj (AES_finish (env_cipher E) s)"
| "cipher_finish E (OtherCipher s) = mapS OtherCipher (ops_cipher_finish (env_sym E) s)"

fun deriveKey :: "('h, 'm, 'a, 's) crypto_env \<Rightarrow> kdf_dyn \<Rightarrow> bytes \<Rightarrow> nat \<Rightarrow> bytes \<Rightarrow> bytes res" where
  "deriveKey E (X963Obj k) z n salt = X963KDF_deriveKey (env_kdf E) k z n salt"
| "deriveKey E (OtherKdf f) z n salt = f z n salt"

section \<open>The builder\<close>

type_synonym ('h, 'm) mac_factory = "bytes \<Rightarrow> ('h, 'm) mac_dyn res"
type_synonym ('a, 's) cipher_factory = "bytes \<Rightarrow> ('a, 's) cipher_dyn res"

text \<open>An empty \<open>std::function\<close> or \<open>shared_ptr\<close> is \<open>None\<close>; keys are null until set.\<close>

record ('h, 'm, 'a, 's, 'k) ecies_builder =
  eb_kdf :: "kdf_dyn option"
  eb_macKeySize :: nat
  eb_macFactory :: "('h, 'm) mac_factory option"
  eb_symmetricKeySize :: nat
  eb_cipherFactory :: "('a, 's) cipher_factory option"
  eb_kdfSalt :: bytes
  eb_macSalt :: bytes
  eb_pubKey :: "'k option"
  eb_ephemeralKey :: "'k option"
  eb_privKey :: "'k option"

definition ECIESCtxBuilder_new :: "('h, 'm, 'a, 's, 'k) ecies_builder" where
  "ECIESCtxBuilder_new =
     \<lparr>eb_kdf = None, eb_macKeySize = 0, eb_macFactory = None, eb_symmetricKeySize = 0,
      eb_cipherFactory = None, eb_kdfSalt = [], eb_macSalt = [], eb_pubKey = None,
      eb_ephemeralKey = None, eb_privKey = None\<rparr>"

definition setKDF :: "kdf_dyn \<Rightarrow> ('h, 'm, 'a, 's, 'k) ecies_builder \<Rightarrow> ('h, 'm, 'a, 's, 'k) ecies_builder"
  where "setKDF kdf b = b\<lparr>eb_kdf := Some kdf\<rparr>"

definition setMacKeySize :: "nat \<Rightarrow> ('h, 'm, 'a, 's, 'k) ecies_builder \<Rightarrow> ('h, 'm, 'a, 's, 'k) ecies_builder"
  where "setMacKeySize keySize b = b\<lparr>eb_macKeySize := keySize\<rparr>"

definition setMacFactoryFunction ::
  "('h, 'm) mac_factory \<Rightarrow> ('h, 'm, 'a, 's, 'k) ecies_builder \<Rightarrow> ('h, 'm, 'a, 's, 'k) ecies_builder"
  where "setMacFactoryFunction func b = b\<lparr>eb_macFactory := Some func\<rparr>"

definition setSymmetricCipherKeySize ::
  "nat \<Rightarrow> ('h, 'm, 'a, 's, 'k) ecies_builder \<Rightarrow> ('h, 'm, 'a, 's, 'k) ecies_builder"
  where "setSymmetricCipherKeySize keySize b = b\<lparr>eb_symmetricKeySize := keySize\<rparr>"

definition setSymmetricCipherFactoryFunction ::
  "('a, 's) cipher_factory \<Rightarrow> ('h, 'm, 'a, 's, 'k) ecies_builder \<Rightarrow> ('h, 'm, 'a, 's, 'k) ecies_builder"
  where "setSymmetricCipherFactoryFunction func b = b\<lparr>eb_cipherFactory := Some func\<rparr>"

definition setKDFSalt :: "bytes \<Rightarrow> ('h, 'm, 'a, 's, 'k) ecies_builder \<Rightarrow> ('h, 'm, 'a, 's, 'k) ecies_builder"
  where "setKDFSalt kdfSalt b = b\<lparr>eb_kdfSalt := kdfSalt\<rparr>"

definition setMACSalt :: "bytes \<Rightarrow> ('h, 'm, 'a, 's, 'k) ecies_builder \<Rightarrow> ('h, 'm, 'a, 's, 'k) ecies_builder"
  where "setMACSalt macSalt b = b\<lparr>eb_macSalt := macSalt\<rparr>"

definition setDefaultKdf :: "('h, 'm, 'a, 's, 'k) ecies_builder \<Rightarrow> ('h, 'm, 'a, 's, 'k) ecies_builder"
  where "setDefaultKdf b = setKDF (X963Obj (X963KDF_new SHA512)) b"

definition default_mac_factory :: "('h, 'm, 'a, 's) crypto_env \<Rightarrow> ('h, 'm) mac_factory" where
  "default_mac_factory E key = bindR (HMAC_new (env_hmac E) SHA512 key) (\<lambda>s. Inr (HmacObj s))"

definition setDefaultMac ::
  "('h, 'm, 'a, 's) crypto_env \<Rightarrow> (('h, 'm, 'a, 's, 'k) ecies_builder, unit) st" where
  "setDefaultMac E b =
     (let b' = setMacFactoryFunction (default_mac_factory E) b in
      (case getDigestSize SHA512 of
         Inl e \<Rightarrow> (Inl e, b')
       | Inr n \<Rightarrow> (Inr (), setMacKeySize n b')))"

definition default_cipher_factory ::
  "('h, 'm, 'a, 's) crypto_env \<Rightarrow> Operation \<Rightarrow> ('a, 's) cipher_factory" where
  "default_cipher_factory E mode key =
     (let b = setPadding PKCS (setIV (replicate (getDefaultIVLength CBC) 0)
                (AESCipherBuilder_new CBC S_256 key))
      in bindR (if mode = Encryption then buildEncryptor (env_cipher E) (env_rand E) b
                else buildDecryptor (env_cipher E) b) (\<lambda>s. Inr (AesObj s)))"

definition setDefaultSymmetricCipherFactoryFunction ::
  "('h, 'm, 'a, 's) crypto_env \<Rightarrow> Operation \<Rightarrow> ('h, 'm, 'a, 's, 'k) ecies_builder \<Rightarrow>
     ('h, 'm, 'a, 's, 'k) ecies_builder" where
  "setDefaultSymmetricCipherFactoryFunction E mode b =
     setSymmetricCipherKeySize (getSymmetricCipherKeySize S_256)
       (setSymmetricCipherFactoryFunction (default_cipher_factory E mode) b)"

definition err_mac_incomplete :: exn where
  "err_mac_incomplete = MoCOCrWException
     [Str (''MAC parameters are incomplete. Either the factory function or the key size is set'' @
           '', but not both!'')]"

definition err_cipher_incomplete :: exn where
  "err_cipher_incomplete = MoCOCrWException
     [Str (''Symmetric cipher parameters are incomplete. Either the factory function or the key '' @
           ''size is set, but not both!'')]"

definition checkForRequiredParameters ::
  "('h, 'm, 'a, 's) crypto_env \<Rightarrow> Operation \<Rightarrow> (('h, 'm, 'a, 's, 'k) ecies_builder, unit) st" where
  "checkForRequiredParameters E mode =
     bindS (modifyS (\<lambda>b. if eb_kdf b = None then setDefaultKdf b else b)) (\<lambda>_.
     bindS (\<lambda>b. if (eb_macFactory b \<noteq> None) \<noteq> (eb_macKeySize b \<noteq> 0)
                then (Inl err_mac_incomplete, b) else (Inr (), b)) (\<lambda>_.
     bindS (\<lambda>b. if eb_macFactory b = None \<or> eb_macKeySize b = 0
                then setDefaultMac E b else (Inr (), b)) (\<lambda>_.
     bindS (\<lambda>b. if (eb_cipherFactory b \<noteq> None) \<noteq> (eb_symmetricKeySize b \<noteq> 0)
                then (Inl err_cipher_incomplete, b) else (Inr (), b)) (\<lambda>_.
     modifyS (\<lambda>b. if eb_cipherFactory b = None \<or> eb_symmetricKeySize b = 0
                 then setDefaultSymmetricCipherFactoryFunction E mode b else b)))))"

section \<open>Contexts\<close>

record ('h, 'm, 'a, 's, 'k) ecies_ctx =
  ec_macSalt :: bytes
  ec_mac :: "('h, 'm) mac_dyn"
  ec_cipher :: "('a, 's) cipher_dyn"
  ec_macValue :: bytes
  ec_isFinished :: bool
  ec_key :: 'k
  ec_tag :: bytes
  ec_macIsSet :: bool

text \<open>
  The derived key is cut into the cipher key and the MAC key; the MAC is created first.  The
  context keeps the two objects and the MAC salt; \<open>ec_key\<close> is the ephemeral key of an
  encryption context and the private key of a decryption context.
\<close>

definition createKeysAndInstantiateMacAndSymCipher ::
  "('h, 'm, 'a, 's) crypto_env \<Rightarrow> ('h, 'm, 'a, 's, 'k) ecies_builder \<Rightarrow> bytes \<Rightarrow>
     (('h, 'm) mac_dyn \<times> ('a, 's) cipher_dyn) res" where
  "createKeysAndInstantiateMacAndSymCipher E b sharedSecret =
     bindR (deriveKey E (the (eb_kdf b)) sharedSecret (eb_macKeySize b + eb_symmetricKeySize b)
              (eb_kdfSalt b)) (\<lambda>result.
       (let key_encrypt = take (eb_symmetricKeySize b) result;
            key_mac = drop (eb_symmetricKeySize b) result
        in bindR (the (eb_macFactory b) key_mac) (\<lambda>m.
           bindR (the (eb_cipherFactory b) key_encrypt) (\<lambda>c. Inr (m, c)))))"

definition ecies_ctx_new ::
  "('h, 'm, 'a, 's) crypto_env \<Rightarrow> ('h, 'm, 'a, 's, 'k) ecies_builder \<Rightarrow> bytes \<Rightarrow> 'k \<Rightarrow>
     ('h, 'm, 'a, 's, 'k) ecies_ctx res" where
  "ecies_ctx_new E b sharedSecret key =
     bindR (createKeysAndInstantiateMacAndSymCipher E b sharedSecret) (\<lambda>(m, c).
       Inr \<lparr>ec_macSalt = eb_macSalt b, ec_mac = m, ec_cipher = c, ec_macValue = [],
            ec_isFinished = False, ec_key = key, ec_tag = [], ec_macIsSet = False\<rparr>)"

text \<open>
  The ephemeral key is generated on the recipient's curve; a null key makes the derivation
  fail, as \<open>EVP_PKEY_CTX_new\<close> does on a null pointer.
\<close>

definition createEphemeralKeyAndSharedSecret ::
  "('k, 'e, 'g, 'c) pkey_lib \<Rightarrow> nat \<Rightarrow> 'k \<Rightarrow> ('k \<times> bytes) res" where
  "createEphemeralKeyAndSharedSecret P rnd pubKey =
     bindR (getKeySpec P pubKey) (\<lambda>spec.
     bindR (generate_key P rnd spec) (\<lambda>key. case key of
         None \<Rightarrow> Inl OpenSSLException_default
       | Some k \<Rightarrow> bindR (ossl_EVP_derive_key P pubKey k) (\<lambda>secret. Inr (k, secret))))"

definition ECIESEncryptionCtx_new ::
  "('h, 'm, 'a, 's) crypto_env \<Rightarrow> ('k, 'e, 'g, 'c) pkey_lib \<Rightarrow> nat \<Rightarrow>
     ('h, 'm, 'a, 's, 'k) ecies_builder \<Rightarrow> ('h, 'm, 'a, 's, 'k) ecies_ctx res" where
  "ECIESEncryptionCtx_new E P rnd b =
     bindR (createEphemeralKeyAndSharedSecret P rnd (the (eb_pubKey b))) (\<lambda>(eph, secret).
       ecies_ctx_new E b secret eph)"

definition ECIESDecryptionCtx_new ::
  "('h, 'm, 'a, 's) crypto_env \<Rightarrow> ('k, 'e, 'g, 'c) pkey_lib \<Rightarrow>
     ('h, 'm, 'a, 's, 'k) ecies_builder \<Rightarrow> ('h, 'm, 'a, 's, 'k) ecies_ctx res" where
  "ECIESDecryptionCtx_new E P b =
     bindR (ossl_EVP_derive_key P (the (eb_ephemeralKey b)) (the (eb_privKey b))) (\<lambda>secret.
       ecies_ctx_new E b secret (the (eb_privKey b)))"

definition buildEncryptionCtx ::
  "('h, 'm, 'a, 's) crypto_env \<Rightarrow> ('k, 'e, 'g, 'c) pkey_lib \<Rightarrow> nat \<Rightarrow> 'k \<Rightarrow>
     (('h, 'm, 'a, 's, 'k) ecies_builder, ('h, 'm, 'a, 's, 'k) ecies_ctx) st" where
  "buildEncryptionCtx E P rnd bobsKey =
     bindS (modifyS (\<lambda>b. b\<lparr>eb_pubKey := Some bobsKey\<rparr>)) (\<lambda>_.
     bindS (checkForRequiredParameters E Encryption) (\<lambda>_.
     (\<lambda>b. (ECIESEncryptionCtx_new E P rnd b, b))))"

definition buildDecryptionCtx ::
  "('h, 'm, 'a, 's) crypto_env \<Rightarrow> ('k, 'e, 'g, 'c) pkey_lib \<Rightarrow> 'k \<Rightarrow> 'k \<Rightarrow>
     (('h, 'm, 'a, 's, 'k) ecies_builder, ('h, 'm, 'a, 's, 'k) ecies_ctx) st" where
  "buildDecryptionCtx E P bobsKey ephKey =
     bindS (modifyS (\<lambda>b. b\<lparr>eb_privKey := Some bobsKey\<rparr>)) (\<lambda>_.
     bindS (checkForRequiredParameters E Decryption) (\<lambda>_.
     bindS (modifyS (\<lambda>b. b\<lparr>eb_ephemeralKey := Some ephKey\<rparr>)) (\<lambda>_.
     (\<lambda>b. (ECIESDecryptionCtx_new E P b, b)))))"

definition onMac :: "(('h, 'm) mac_dyn, 'r) st \<Rightarrow> (('h, 'm, 'a, 's, 'k) ecies_ctx, 'r) st" where
  "onMac f s = (let (r, m) = f (ec_mac s) in (r, s\<lparr>ec_mac := m\<rparr>))"

definition onCipher :: "(('a, 's) cipher_dyn, 'r) st \<Rightarrow> (('h, 'm, 'a, 's, 'k) ecies_ctx, 'r) st" where
  "onCipher f s = (let (r, c) = f (ec_cipher s) in (r, s\<lparr>ec_cipher := c\<rparr>))"

definition err_ecies_finish_twice :: exn where
  "err_ecies_finish_twice = MoCOCrWException [Str ''finish() is invoked twice.'']"

definition ECIESEnc_update ::
  "('h, 'm, 'a, 's) crypto_env \<Rightarrow> bytes \<Rightarrow> (('h, 'm, 'a, 's, 'k) ecies_ctx, unit) st" where
  "ECIESEnc_update E message s =
     (if ec_cipher s = NullCipher
      then (Inl (MoCOCrWException [Str ''Encryption context is not initialized.'']), s)
      else if ec_isFinished s
      then (Inl (MoCOCrWException [Str ''update() is invoked after finish is called.'']), s)
      else onCipher (cipher_update E message) s)"

definition ECIESEnc_finish ::
  "('h, 'm, 'a, 's) crypto_env \<Rightarrow> (('h, 'm, 'a, 's, 'k) ecies_ctx, bytes) st" where
  "ECIESEnc_finish E s =
     (if ec_isFinished s then (Inl err_ecies_finish_twice, s)
      else bindS (onCipher (cipher_finish E)) (\<lambda>result.
           bindS (onMac (mac_update E result)) (\<lambda>_.
           bindS (onMac (mac_update E (ec_macSalt s))) (\<lambda>_.
           bindS (onMac (mac_finish E)) (\<lambda>macValue.
           bindS (modifyS (\<lambda>t. t\<lparr>ec_macValue := macValue, ec_isFinished := True\<rparr>)) (\<lambda>_.
           returnS result))))) s)"

definition ECIESEnc_getMAC :: "('h, 'm, 'a, 's, 'k) ecies_ctx \<Rightarrow> bytes res" where
  "ECIESEnc_getMAC s =
     (if \<not> ec_isFinished s
      then Inl (MoCOCrWException [Str ''getMAC() is invoked before finish is called.''])
      else Inr (ec_macValue s))"

definition ECIESEnc_getEphemeralKey :: "('h, 'm, 'a, 's, 'k) ecies_ctx \<Rightarrow> 'k" where
  "ECIESEnc_getEphemeralKey s = ec_key s"

definition ECIESDec_update ::
  "('h, 'm, 'a, 's) crypto_env \<Rightarrow> bytes \<Rightarrow> (('h, 'm, 'a, 's, 'k) ecies_ctx, unit) st" where
  "ECIESDec_update E message s =
     (if ec_isFinished s
      then (Inl (MoCOCrWException [Str ''update() is invoked after finish was invoked.'']), s)
      else bindS (onCipher (cipher_update E message)) (\<lambda>_. onMac (mac_update E message)) s)"

definition err_mac_not_set :: exn where
  "err_mac_not_set = MoCOCrWException [Str ''Set the MAC before invoking finish.'']"

definition ECIESDec_finish ::
  "('h, 'm, 'a, 's) crypto_env \<Rightarrow> (('h, 'm, 'a, 's, 'k) ecies_ctx, bytes) st" where
  "ECIESDec_finish E s =
     (if ec_isFinished s then (Inl err_ecies_finish_twice, s)
      else if \<not> ec_macIsSet s then (Inl err_mac_not_set, s)
      else bindS (onMac (mac_update E (ec_macSalt s))) (\<lambda>_.
           bindS (onMac (mac_finish E)) (\<lambda>_.
           bindS (onMac (mac_verify E (ec_tag s))) (\<lambda>_.
           bindS (onCipher (cipher_finish E)) (\<lambda>result.
           bindS (modifyS (\<lambda>t. t\<lparr>ec_isFinished := True\<rparr>)) (\<lambda>_.
           returnS result))))) s)"

definition ECIESDec_setMAC :: "bytes \<Rightarrow> ('h, 'm, 'a, 's, 'k) ecies_ctx \<Rightarrow> ('h, 'm, 'a, 's, 'k) ecies_ctx" where
  "ECIESDec_setMAC tag s = s\<lparr>ec_tag := tag, ec_macIsSet := True\<rparr>"

end
