(* ===== verification/Ecies_Props.thy ===== *)
theory Ecies_Props
  imports Ecies_Ctx
begin

text \<open>
  Properties of ECIES.  The locale \<open>ecies_suite\<close> states what a context needs of its MAC and
  cipher and proves once that encrypt-then-MAC works; the default suite (HMAC-SHA-512,
  AES-256-CBC with a zero IV) is an instance.  Together with key agreement this gives the round
  trip between two parties.
\<close>

section \<open>Suites\<close>

text \<open>
  \<open>mac_at key x m\<close>: the MAC object \<open>m\<close> has the key and has absorbed \<open>x\<close>;
  \<open>sym_at mode key x c\<close>: the cipher object \<open>c\<close> has the key and has taken \<open>x\<close>.
\<close>

locale ecies_suite =
  fixes E :: "('h, 'm, 'a, 's) crypto_env"
    and laws :: bool
    and macFac :: "('h, 'm) mac_factory"
    and symFac :: "Operation \<Rightarrow> ('a, 's) cipher_factory"
    and mlen :: nat
    and slen :: nat
    and fits :: "bytes \<Rightarrow> bool"
    and mac_at :: "bytes \<Rightarrow> bytes \<Rightarrow> ('h, 'm) mac_dyn \<Rightarrow> bool"
    and sym_at :: "Operation \<Rightarrow> bytes \<Rightarrow> bytes \<Rightarrow> ('a, 's) cipher_dyn \<Rightarrow> bool"
    and tagf :: "bytes \<Rightarrow> bytes \<Rightarrow> bytes"
    and symf :: "Operation \<Rightarrow> bytes \<Rightarrow> bytes \<Rightarrow> bytes option"
  assumes mac_new: "laws \<Longrightarrow> length key = mlen \<Longrightarrow> \<exists>m. macFac key = Inr m \<and> mac_at key [] m"
    and mac_upd: "laws \<Longrightarrow> mac_at key x m \<Longrightarrow> fits d \<Longrightarrow>
          \<exists>m'. mac_update E d m = (Inr (), m') \<and> mac_at key (x @ d) m'"
    and mac_fin: "laws \<Longrightarrow> mac_at key x m \<Longrightarrow>
          \<exists>m'. mac_finish E m = (Inr (tagf key x), m')
             \<and> (\<forall>v. fst (mac_verify E v m') = Inr () \<longleftrightarrow> v = tagf key x)"
    and sym_new: "laws \<Longrightarrow> length key = slen \<Longrightarrow> \<exists>c. symFac mode key = Inr c \<and> sym_at mode key [] c"
    and sym_upd: "laws \<Longrightarrow> sym_at mode key x c \<Longrightarrow> fits d \<Longrightarrow>
          \<exists>c'. cipher_update E d c = (Inr (), c') \<and> sym_at mode key (x @ d) c'"
    and sym_obj: "\<not> sym_at mode key x NullCipher"
    and sym_fin: "laws \<Longrightarrow> sym_at mode key x c \<Longrightarrow> symf mode key x = Some r \<Longrightarrow>
          \<exists>c'. cipher_finish E c = (Inr r, c')"
begin

lemma enc_feed:
  "laws \<Longrightarrow> sym_at Encryption k x (ec_cipher s) \<Longrightarrow> \<not> ec_isFinished s \<Longrightarrow>
     \<forall>d \<in> set cs. fits d \<Longrightarrow>
     \<exists>c. feed (ECIESEnc_update E) cs s = (Inr (), s\<lparr>ec_cipher := c\<rparr>)
       \<and> sym_at Encryption k (x @ concat cs) c"
proof (induction cs arbitrary: x s)
  case Nil
  then show ?case by (intro exI [of _ "ec_cipher s"]) simp
next
  case (Cons d cs)
  obtain c where c: "cipher_update E d (ec_cipher s) = (Inr (), c)"
    "sym_at Encryption k (x @ d) c"
    using sym_upd [OF Cons.prems(1,2)] Cons.prems(4) by auto
  have "ec_cipher s \<noteq> NullCipher" using Cons.prems(2) sym_obj by auto
  with Cons.IH [of "x @ d" "s\<lparr>ec_cipher := c\<rparr>"] Cons.prems c show ?case
    by (auto simp: bindS_unfold ECIESEnc_update_def onCipher_def)
qed

lemma enc_finish:
  assumes "laws" "sym_at Encryption k x (ec_cipher s)" "mac_at km [] (ec_mac s)" "\<not> ec_isFinished s"
    and "symf Encryption k x = Some ct" "fits ct" "fits (ec_macSalt s)"
  shows "\<exists>t. ECIESEnc_finish E s = (Inr ct, t)
     \<and> ECIESEnc_getMAC t = Inr (tagf km (ct @ ec_macSalt s)) \<and> ec_key t = ec_key s"
proof -
  obtain c where c: "cipher_finish E (ec_cipher s) = (Inr ct, c)"
    using sym_fin [OF assms(1,2,5)] by blast
  obtain m1 where m1: "mac_update E ct (ec_mac s) = (Inr (), m1)" "mac_at km ct m1"
    using mac_upd [OF assms(1,3,6)] by auto
  obtain m2 where m2: "mac_update E (ec_macSalt s) m1 = (Inr (), m2)" "mac_at km (ct @ ec_macSalt s) m2"
    using mac_upd [OF assms(1) m1(2) assms(7)] by blast
  obtain m3 where m3: "mac_finish E m2 = (Inr (tagf km (ct @ ec_macSalt s)), m3)"
    using mac_fin [OF assms(1) m2(2)] by blast
  show ?thesis
    using assms(4) c m1(1) m2(1) m3
    by (simp add: ECIESEnc_finish_def bindS_unfold onCipher_def onMac_def ECIESEnc_getMAC_def)
qed

lemma dec_feed:
  "laws \<Longrightarrow> sym_at Decryption k x (ec_cipher s) \<Longrightarrow> mac_at km x (ec_mac s) \<Longrightarrow> \<not> ec_isFinished s \<Longrightarrow>
     \<forall>d \<in> set cs. fits d \<Longrightarrow>
     \<exists>c m. feed (ECIESDec_update E) cs s = (Inr (), s\<lparr>ec_cipher := c, ec_mac := m\<rparr>)
       \<and> sym_at Decryption k (x @ concat cs) c \<and> mac_at km (x @ concat cs) m"
proof (induction cs arbitrary: x s)
  case Nil
  then show ?case by (intro exI [of _ "ec_cipher s"] exI [of _ "ec_mac s"]) simp
next
  case (Cons d cs)
  obtain c where c: "cipher_update E d (ec_cipher s) = (Inr (), c)"
    "sym_at Decryption k (x @ d) c"
    using sym_upd [OF Cons.prems(1,2)] Cons.prems(5) by auto
  obtain m where m: "mac_update E d (ec_mac s) = (Inr (), m)" "mac_at km (x @ d) m"
    using mac_upd [OF Cons.prems(1,3)] Cons.prems(5) by auto
  from Cons.IH [of "x @ d" "s\<lparr>ec_cipher := c, ec_mac := m\<rparr>"] Cons.prems c m show ?case
    by (auto simp: bindS_unfold ECIESDec_update_def onCipher_def onMac_def)
qed

lemma dec_finish:
  assumes "laws" "sym_at Decryption k x (ec_cipher s)" "mac_at km x (ec_mac s)" "\<not> ec_isFinished s"
    and "ec_macIsSet s" "fits (ec_macSalt s)" "symf Decryption k x = Some pt"
  shows "if ec_tag s = tagf km (x @ ec_macSalt s) then fst (ECIESDec_finish E s) = Inr pt
     else isl (fst (ECIESDec_finish E s))"
proof -
  obtain m1 where m1: "mac_update E (ec_macSalt s) (ec_mac s) = (Inr (), m1)"
    "mac_at km (x @ ec_macSalt s) m1"
    using mac_upd [OF assms(1,3,6)] by blast
  obtain m2 where m2: "mac_finish E m1 = (Inr (tagf km (x @ ec_macSalt s)), m2)"
    "\<And>v. fst (mac_verify E v m2) = Inr () \<longleftrightarrow> v = tagf km (x @ ec_macSalt s)"
    using mac_fin [OF assms(1) m1(2)] by blast
  obtain c where c: "cipher_finish E (ec_cipher s) = (Inr pt, c)"
    using sym_fin [OF assms(1,2,7)] by blast
  obtain r m3 where v: "mac_verify E (ec_tag s) m2 = (r, m3)" by fastforce
  show ?thesis
    using assms(4,5) m1(1) m2(1) m2(2) [of "ec_tag s"] c v
    by (cases r) (simp_all add: ECIESDec_finish_def bindS_unfold onCipher_def onMac_def)
qed

end

section \<open>The default suite\<close>

definition default_laws ::
  "('h, 'm, 'a, 's) crypto_env \<Rightarrow> ('h \<Rightarrow> (EVP_MD \<times> bytes) \<times> bytes) \<Rightarrow>
     (EVP_MD \<times> bytes \<Rightarrow> bytes \<Rightarrow> bytes) \<Rightarrow> ('a \<Rightarrow> cview option) \<Rightarrow> crypt_fun \<Rightarrow> crypt_fun \<Rightarrow> tag_fun \<Rightarrow> bool"
where
  "default_laws E absorbed F view Enc Dec T \<longleftrightarrow>
     hmac_lib_laws (env_hmac E) absorbed F \<and> cipher_lib_laws (env_cipher E) view Enc Dec T"

definition fits_both :: "bytes \<Rightarrow> bool" where
  "fits_both c \<longleftrightarrow> int (length c) \<le> INT_MAX - int EVP_MAX_BLOCK_LENGTH"

definition hmac_at ::
  "('h \<Rightarrow> (EVP_MD \<times> bytes) \<times> bytes) \<Rightarrow> bytes \<Rightarrow> bytes \<Rightarrow> ('h, 'm) mac_dyn \<Rightarrow> bool" where
  "hmac_at absorbed key x m \<longleftrightarrow>
     (\<exists>s. m = HmacObj s \<and> \<not> mac_isFinished s \<and> absorbed (mac_ctx s) = ((EVP_sha512, key), x))"

definition cbc_view :: "Operation \<Rightarrow> bytes \<Rightarrow> bytes \<Rightarrow> cview" where
  "cbc_view mode key x =
     (fresh_view EVP_aes_256_cbc key (replicate 16 0) (mode = Encryption) True)\<lparr>cv_in := x\<rparr>"

definition cbc_at ::
  "('a \<Rightarrow> cview option) \<Rightarrow> Operation \<Rightarrow> bytes \<Rightarrow> bytes \<Rightarrow> ('a, 's) cipher_dyn \<Rightarrow> bool" where
  "cbc_at view mode key x c \<longleftrightarrow>
     (\<exists>s out. c = AesObj s \<and> aes_at view ((cbc_view mode key x)\<lparr>cv_out := out\<rparr>) [] s)"

definition cbc_fun :: "crypt_fun \<Rightarrow> crypt_fun \<Rightarrow> Operation \<Rightarrow> bytes \<Rightarrow> bytes \<Rightarrow> bytes option" where
  "cbc_fun Enc Dec mode key x =
     (if mode = Encryption then Enc else Dec) EVP_aes_256_cbc key (replicate 16 0) True x"

lemma fits_both_int: "fits_both c \<Longrightarrow> int (length c) \<le> INT_MAX"
  by (simp add: fits_both_def)

lemma default_mac_new:
  assumes "hmac_lib_laws (env_hmac E) absorbed F" "length key = 64"
  shows "\<exists>m. default_mac_factory E key = Inr m \<and> hmac_at absorbed key [] m"
proof -
  have "key \<noteq> []" "fits_int key" using assms(2) by (auto simp: fits_int_def INT_MAX_def)
  then obtain s where "HMAC_new (env_hmac E) SHA512 key = Inr s" "\<not> mac_isFinished s"
    "absorbed (mac_ctx s) = ((EVP_sha512, key), [])"
    using HMAC_new_laws [OF assms(1), of SHA512 EVP_sha512 key] by auto
  then show ?thesis by (simp add: default_mac_factory_def hmac_at_def)
qed

lemma default_mac_upd:
  assumes "hmac_lib_laws (env_hmac E) absorbed F" "hmac_at absorbed key x m" "fits_both c"
  shows "\<exists>m'. mac_update E c m = (Inr (), m') \<and> hmac_at absorbed key (x @ c) m'"
proof -
  obtain s where s: "m = HmacObj s" "\<not> mac_isFinished s" "absorbed (mac_ctx s) = ((EVP_sha512, key), x)"
    using assms(2) by (auto simp: hmac_at_def)
  have "to_int (length c) = int (length c)" using assms(3) by (intro to_int_small fits_both_int)
  then show ?thesis
    using HMAC_update_absorbs [OF assms(1) s(2,3), of c "length c"] s(1)
    by (auto simp: hmac_at_def)
qed

lemma default_mac_fin:
  assumes "hmac_lib_laws (env_hmac E) absorbed F" "hmac_at absorbed key x m"
  shows "\<exists>m'. mac_finish E m = (Inr (F (EVP_sha512, key) x), m')
     \<and> (\<forall>v. fst (mac_verify E v m') = Inr () \<longleftrightarrow> v = F (EVP_sha512, key) x)"
proof -
  obtain s where s: "m = HmacObj s" "\<not> mac_isFinished s" "absorbed (mac_ctx s) = ((EVP_sha512, key), x)"
    using assms(2) by (auto simp: hmac_at_def)
  obtain t where t: "HMAC_finish (env_hmac E) s = (Inr (F (EVP_sha512, key) x), t)"
    using HMAC_finish_tag [OF assms(1) s(2,3)] by blast
  have "memcmp_law (hmac_CRYPTO_memcmp (env_hmac E))" using assms(1) by (simp add: hmac_lib_laws_def)
  then show ?thesis
    using s(1) t hmac.fin_then(3) [OF t] HMAC_check_exact by (auto simp: mapS_def)
qed

lemma default_sym_new:
  assumes "cipher_lib_laws (env_cipher E) view Enc Dec T" "length key = 32"
  shows "\<exists>c. default_cipher_factory E mode key = Inr c \<and> cbc_at view mode key [] c"
proof -
  have "iv_accepted CBC (replicate 16 0)" by (simp add: iv_accepted_def INT_MAX_def)
  from AESCipher_new_ok [OF assms(1) this, of key S_256 PKCS mode] assms(2) obtain s where
    s: "AESCipher_new (env_cipher E) CBC S_256 PKCS key (replicate 16 0) mode = Inr s"
    "aes_at view (fresh_view EVP_aes_256_cbc key (replicate 16 0) (mode = Encryption) True) [] s"
    by auto
  have "default_cipher_factory E mode key = Inr (AesObj s)"
    using s(1) by (cases mode) (simp_all add: default_cipher_factory_def buildEncryptor_def
        buildDecryptor_def builder_iv_def setPadding_def setIV_def AESCipherBuilder_new_def)
  moreover have "cbc_at view mode key [] (AesObj s)"
    using s(2) by (auto simp: cbc_at_def cbc_view_def fresh_view_def intro!: exI [of _ "[]"])
  ultimately show ?thesis by blast
qed

lemma default_sym_upd:
  assumes "cipher_lib_laws (env_cipher E) view Enc Dec T" "cbc_at view mode key x c" "fits_both d"
  shows "\<exists>c'. cipher_update E d c = (Inr (), c') \<and> cbc_at view mode key (x @ d) c'"
proof -
  obtain s out where s: "c = AesObj s" "aes_at view ((cbc_view mode key x)\<lparr>cv_out := out\<rparr>) [] s"
    using assms(2) by (auto simp: cbc_at_def)
  have L: "cipher_data_laws (env_cipher E) view Enc Dec T" using assms(1) by (simp add: cipher_lib_laws_def)
  have "fits_update (Update d)" using assms(3) by (simp add: fits_update_def fits_both_def)
  from AES_update_at [OF L s(2) this] s(1) show ?thesis
    by (auto simp: cbc_at_def cbc_view_def fresh_view_def)
qed

lemma default_sym_fin:
  assumes "cipher_lib_laws (env_cipher E) view Enc Dec T" "cbc_at view mode key x c"
    and "cbc_fun Enc Dec mode key x = Some r"
  shows "\<exists>c'. cipher_finish E c = (Inr r, c')"
proof -
  obtain s out where s: "c = AesObj s" "aes_at view ((cbc_view mode key x)\<lparr>cv_out := out\<rparr>) [] s"
    using assms(2) by (auto simp: cbc_at_def)
  let ?v = "(cbc_view mode key x)\<lparr>cv_out := out\<rparr>"
  have L: "cipher_data_laws (env_cipher E) view Enc Dec T" using assms(1) by (simp add: cipher_lib_laws_def)
  have m: "tag_ready s" "\<not> auth_decryption s"
    using aes_at_mode [OF s(2)] by (simp_all add: cbc_view_def fresh_view_def is_gcm_def)
  have "crypt Enc Dec ?v = Some r"
    using assms(3) by (simp add: crypt_def cbc_view_def fresh_view_def cbc_fun_def)
  moreover have "authentic T (final_view s ?v)"
    using m(2) by (simp add: authentic_def final_view_def cbc_view_def fresh_view_def is_gcm_def)
  ultimately show ?thesis
    using AES_finish_at [OF L s(2) m(1)] s(1) by fastforce
qed

lemma default_sym_obj: "\<not> cbc_at view mode key x NullCipher"
  by (simp add: cbc_at_def)

interpretation default_suite: ecies_suite E "default_laws E absorbed F view Enc Dec T"
  "default_mac_factory E" "default_cipher_factory E" 64 32 fits_both
  "hmac_at absorbed" "cbc_at view" "\<lambda>key. F (EVP_sha512, key)" "cbc_fun Enc Dec"
  for E absorbed F view Enc Dec T
  by (unfold_locales; (rule default_sym_obj)?; unfold default_laws_def; elim conjE;
      (rule default_mac_new default_mac_upd default_mac_fin default_sym_new default_sym_upd
        default_sym_fin; assumption))

section \<open>Two parties\<close>

definition ecies_encrypt ::
  "('h, 'm, 'a, 's) crypto_env \<Rightarrow> ('k, 'e, 'g, 'c) pkey_lib \<Rightarrow> nat \<Rightarrow>
     ('h, 'm, 'a, 's, 'k) ecies_builder \<Rightarrow> 'k \<Rightarrow> bytes list \<Rightarrow> (bytes \<times> bytes \<times> 'k) res" where
  "ecies_encrypt E P rnd b pub cs =
     bindR (fst (buildEncryptionCtx E P rnd pub b)) (\<lambda>s.
       case bindS (feed (ECIESEnc_update E) cs) (\<lambda>_. ECIESEnc_finish E) s of
         (r, t) \<Rightarrow> bindR r (\<lambda>ct. bindR (ECIESEnc_getMAC t) (\<lambda>tag.
           Inr (ct, tag, ECIESEnc_getEphemeralKey t))))"

definition ecies_decrypt ::
  "('h, 'm, 'a, 's) crypto_env \<Rightarrow> ('k, 'e, 'g, 'c) pkey_lib \<Rightarrow>
     ('h, 'm, 'a, 's, 'k) ecies_builder \<Rightarrow> 'k \<Rightarrow> 'k \<Rightarrow> bytes \<Rightarrow> bytes list \<Rightarrow> bytes res" where
  "ecies_decrypt E P b priv eph tag cs =
     bindR (fst (buildDecryptionCtx E P priv eph b)) (\<lambda>s.
       fst (bindS (feed (ECIESDec_update E) cs) (\<lambda>_. ECIESDec_finish E) (ECIESDec_setMAC tag s)))"

text \<open>
  Key agreement as documented: deriving on one curve with a private key gives \<open>dh\<close>, which is
  symmetric in two key pairs and needs only the public half of the peer's.
\<close>

definition ecdh_laws ::
  "('k, 'e, 'g, 'c) pkey_lib \<Rightarrow> ('k \<Rightarrow> Spec) \<Rightarrow> ('k \<Rightarrow> bool) \<Rightarrow> ('k \<Rightarrow> 'k \<Rightarrow> bytes) \<Rightarrow>
     ('k \<Rightarrow> 'k \<Rightarrow> bool) \<Rightarrow> bool" where
  "ecdh_laws P kspec has_private dh public_of \<longleftrightarrow>
     (\<forall>peer key. kspec peer = kspec key \<and> has_private key \<longrightarrow>
        (\<exists>c c' c''. SSL_EVP_PKEY_CTX_new P key = Some c \<and> SSL_EVP_PKEY_derive_init P c = (1, c')
           \<and> SSL_EVP_PKEY_derive_set_peer P c' peer = (1, c'')
           \<and> SSL_EVP_PKEY_derive_len P c'' = (1, length (dh peer key))
           \<and> SSL_EVP_PKEY_derive P c'' = (1, dh peer key)))
     \<and> (\<forall>rnd c k. SSL_EVP_PKEY_keygen P rnd c = (1, Some k) \<longrightarrow> has_private k)
     \<and> (\<forall>a b. has_private a \<and> has_private b \<longrightarrow> dh a b = dh b a)
     \<and> (\<forall>pub priv x. public_of pub priv \<longrightarrow> has_private priv \<and> kspec pub = kspec priv \<and> dh pub x = dh priv x)"

lemma derive_ok:
  assumes "ecdh_laws P kspec has_private dh public_of" "kspec peer = kspec key" "has_private key"
  shows "ossl_EVP_derive_key P peer key = Inr (dh peer key)"
proof -
  obtain c c' c'' where "SSL_EVP_PKEY_CTX_new P key = Some c" "SSL_EVP_PKEY_derive_init P c = (1, c')"
    "SSL_EVP_PKEY_derive_set_peer P c' peer = (1, c'')"
    "SSL_EVP_PKEY_derive_len P c'' = (1, length (dh peer key))"
    "SSL_EVP_PKEY_derive P c'' = (1, dh peer key)"
    using assms unfolding ecdh_laws_def by blast
  then show ?thesis by (simp add: ossl_EVP_derive_key_def)
qed

lemma generated_has_private:
  assumes "ecdh_laws P kspec has_private dh public_of" "ECCSpec_generate P rnd nid = Inr (Some k)"
  shows "has_private k"
proof -
  obtain c where "fst (SSL_EVP_PKEY_keygen P rnd c) = 1" "snd (SSL_EVP_PKEY_keygen P rnd c) = Some k"
    using assms(2)
    by (auto simp: ECCSpec_generate_def ossl_EVP_PKEY_keygen_def bindR_eq_Inr checkC_IsOne
        split: if_splits)
  then have "SSL_EVP_PKEY_keygen P rnd c = (1, Some k)" by (simp add: prod_eq_iff)
  then show ?thesis using assms(1) unfolding ecdh_laws_def by blast
qed

definition with_defaults ::
  "('h, 'm, 'a, 's) crypto_env \<Rightarrow> Operation \<Rightarrow> ('h, 'm, 'a, 's, 'k) ecies_builder \<Rightarrow>
     ('h, 'm, 'a, 's, 'k) ecies_builder" where
  "with_defaults E mode b = b\<lparr>eb_kdf := Some (X963Obj (X963KDF_new SHA512)),
     eb_macKeySize := 64, eb_macFactory := Some (default_mac_factory E),
     eb_symmetricKeySize := 32, eb_cipherFactory := Some (default_cipher_factory E mode)\<rparr>"

lemma check_defaults:
  assumes "eb_kdf b = None" "eb_macFactory b = None" "eb_macKeySize b = 0"
    and "eb_cipherFactory b = None" "eb_symmetricKeySize b = 0"
  shows "checkForRequiredParameters E mode b = (Inr (), with_defaults E mode b)"
  using assms
  by (simp add: checkForRequiredParameters_def bindS_unfold setDefaultKdf_def setKDF_def
      setDefaultMac_def setMacFactoryFunction_def setMacKeySize_def getDigestSize_def lengthInBytes_def
      setDefaultSymmetricCipherFactoryFunction_def setSymmetricCipherKeySize_def
      setSymmetricCipherFactoryFunction_def with_defaults_def)

lemma default_ctx_new:
  assumes "default_laws E absorbed F view Enc Dec T" "kdf_lib_laws (env_kdf E) PB X"
  shows "\<exists>s. ecies_ctx_new E (with_defaults E mode b) z key = Inr s
     \<and> hmac_at absorbed (drop 32 (X EVP_sha512 z (eb_kdfSalt b) 96)) [] (ec_mac s)
     \<and> cbc_at view mode (take 32 (X EVP_sha512 z (eb_kdfSalt b) 96)) [] (ec_cipher s)
     \<and> \<not> ec_isFinished s \<and> ec_macSalt s = eb_macSalt b \<and> ec_key s = key"
proof -
  let ?k = "X EVP_sha512 z (eb_kdfSalt b) 96"
  have x: "SSL_ECDH_KDF_X9_63 (env_kdf E) 96 z (eb_kdfSalt b) EVP_sha512 = (1, ?k)" "length ?k = 96"
    using assms(2) unfolding kdf_lib_laws_def by blast+
  then have d: "X963KDF_deriveKey (env_kdf E) (X963KDF_new SHA512) z 96 (eb_kdfSalt b) = Inr ?k"
    by (simp add: X963KDF_deriveKey_def X963KDF_new_def ossl_simps)
  obtain m where m: "default_mac_factory E (drop 32 ?k) = Inr m" "hmac_at absorbed (drop 32 ?k) [] m"
    using default_suite.mac_new [OF assms(1), of "drop 32 ?k"] x(2) by auto
  obtain c where c: "default_cipher_factory E mode (take 32 ?k) = Inr c" "cbc_at view mode (take 32 ?k) [] c"
    using default_suite.sym_new [OF assms(1), of "take 32 ?k" mode] x(2) by auto
  show ?thesis
    using d m c by (simp add: ecies_ctx_new_def createKeysAndInstantiateMacAndSymCipher_def with_defaults_def)
qed

definition default_builder :: "bytes \<Rightarrow> bytes \<Rightarrow> ('h, 'm, 'a, 's, 'k) ecies_builder" where
  "default_builder kdfSalt macSalt = setMACSalt macSalt (setKDFSalt kdfSalt ECIESCtxBuilder_new)"

lemma buildEncryptionCtx_default:
  "fst (buildEncryptionCtx E P rnd pub (default_builder kdfSalt macSalt)) =
     bindR (createEphemeralKeyAndSharedSecret P rnd pub) (\<lambda>(eph, z).
       ecies_ctx_new E (with_defaults E Encryption
         ((default_builder kdfSalt macSalt)\<lparr>eb_pubKey := Some pub\<rparr>)) z eph)"
  by (simp add: buildEncryptionCtx_def bindS_unfold check_defaults default_builder_def setMACSalt_def
      setKDFSalt_def ECIESCtxBuilder_new_def ECIESEncryptionCtx_new_def with_defaults_def)

lemma buildDecryptionCtx_default:
  "fst (buildDecryptionCtx E P priv eph (default_builder kdfSalt macSalt)) =
     bindR (ossl_EVP_derive_key P eph priv) (\<lambda>z.
       ecies_ctx_new E (with_defaults E Decryption
         ((default_builder kdfSalt macSalt)\<lparr>eb_privKey := Some priv, eb_ephemeralKey := Some eph\<rparr>)) z priv)"
  by (simp add: buildDecryptionCtx_def bindS_unfold check_defaults default_builder_def setMACSalt_def
      setKDFSalt_def ECIESCtxBuilder_new_def ECIESDecryptionCtx_new_def with_defaults_def)

lemma ecies_encrypt_ok:
  assumes "default_laws E absorbed F view Enc Dec T" "kdf_lib_laws (env_kdf E) PB X"
    and "createEphemeralKeyAndSharedSecret P rnd pub = Inr (eph, z)"
    and "\<forall>c \<in> set cs. fits_both c" "fits_both macSalt"
    and "cbc_fun Enc Dec Encryption (take 32 (X EVP_sha512 z kdfSalt 96)) (concat cs) = Some ct" "fits_both ct"
  shows "ecies_encrypt E P rnd (default_builder kdfSalt macSalt) pub cs
     = Inr (ct, F (EVP_sha512, drop 32 (X EVP_sha512 z kdfSalt 96)) (ct @ macSalt), eph)"
proof -
  let ?b = "(default_builder kdfSalt macSalt)\<lparr>eb_pubKey := Some pub\<rparr>"
  let ?k = "X EVP_sha512 z kdfSalt 96"
  have salts: "eb_kdfSalt ?b = kdfSalt" "eb_macSalt ?b = macSalt"
    by (simp_all add: default_builder_def setMACSalt_def setKDFSalt_def)
  from default_ctx_new [OF assms(1,2), of Encryption ?b z eph, unfolded salts] obtain s where s:
    "ecies_ctx_new E (with_defaults E Encryption ?b) z eph = Inr s"
    "hmac_at absorbed (drop 32 ?k) [] (ec_mac s)" "cbc_at view Encryption (take 32 ?k) [] (ec_cipher s)"
    "\<not> ec_isFinished s" "ec_macSalt s = macSalt" "ec_key s = eph" by blast
  obtain c where c: "feed (ECIESEnc_update E) cs s = (Inr (), s\<lparr>ec_cipher := c\<rparr>)"
    "cbc_at view Encryption (take 32 ?k) (concat cs) c"
    using default_suite.enc_feed [OF assms(1) s(3,4) assms(4)] by auto
  obtain t where "ECIESEnc_finish E (s\<lparr>ec_cipher := c\<rparr>) = (Inr ct, t)"
    "ECIESEnc_getMAC t = Inr (F (EVP_sha512, drop 32 ?k) (ct @ macSalt))" "ec_key t = eph"
    using default_suite.enc_finish [OF assms(1), of "take 32 ?k" "concat cs" "s\<lparr>ec_cipher := c\<rparr>" "drop 32 ?k" ct]
      c(2) s assms(5-7) by auto
  with s(1) c(1) assms(3) show ?thesis
    by (simp add: ecies_encrypt_def buildEncryptionCtx_default bindS_unfold ECIESEnc_getEphemeralKey_def)
qed

lemma ecies_decrypt_result:
  assumes "default_laws E absorbed F view Enc Dec T" "kdf_lib_laws (env_kdf E) PB X"
    and "ossl_EVP_derive_key P eph priv = Inr z"
    and "\<forall>c \<in> set cs. fits_both c" "fits_both macSalt"
    and "cbc_fun Enc Dec Decryption (take 32 (X EVP_sha512 z kdfSalt 96)) (concat cs) = Some pt"
  shows "if tag = F (EVP_sha512, drop 32 (X EVP_sha512 z kdfSalt 96)) (concat cs @ macSalt)
     then ecies_decrypt E P (default_builder kdfSalt macSalt) priv eph tag cs = Inr pt
     else isl (ecies_decrypt E P (default_builder kdfSalt macSalt) priv eph tag cs)"
proof -
  let ?b = "(default_builder kdfSalt macSalt)\<lparr>eb_privKey := Some priv, eb_ephemeralKey := Some eph\<rparr>"
  let ?k = "X EVP_sha512 z kdfSalt 96"
  have salts: "eb_kdfSalt ?b = kdfSalt" "eb_macSalt ?b = macSalt"
    by (simp_all add: default_builder_def setMACSalt_def setKDFSalt_def)
  from default_ctx_new [OF assms(1,2), of Decryption ?b z priv, unfolded salts] obtain s0 where s0:
    "ecies_ctx_new E (with_defaults E Decryption ?b) z priv = Inr s0"
    "hmac_at absorbed (drop 32 ?k) [] (ec_mac s0)" "cbc_at view Decryption (take 32 ?k) [] (ec_cipher s0)"
    "\<not> ec_isFinished s0" "ec_macSalt s0 = macSalt" by blast
  let ?s = "ECIESDec_setMAC tag s0"
  have s: "hmac_at absorbed (drop 32 ?k) [] (ec_mac ?s)" "cbc_at view Decryption (take 32 ?k) [] (ec_cipher ?s)"
    "\<not> ec_isFinished ?s" using s0 by (simp_all add: ECIESDec_setMAC_def)
  obtain c m where cm: "feed (ECIESDec_update E) cs ?s = (Inr (), ?s\<lparr>ec_cipher := c, ec_mac := m\<rparr>)"
    "cbc_at view Decryption (take 32 ?k) (concat cs) c" "hmac_at absorbed (drop 32 ?k) (concat cs) m"
    using default_suite.dec_feed [OF assms(1) s(2,1,3) assms(4)] by auto
  let ?t = "?s\<lparr>ec_cipher := c, ec_mac := m\<rparr>"
  have r: "ecies_decrypt E P (default_builder kdfSalt macSalt) priv eph tag cs = fst (ECIESDec_finish E ?t)"
    using s0(1) cm(1) assms(3) by (simp add: ecies_decrypt_def buildDecryptionCtx_default bindS_unfold)
  have t: "ec_tag ?t = tag" "ec_macSalt ?t = macSalt" "ec_macIsSet ?t" "\<not> ec_isFinished ?t"
    using s0(4,5) by (simp_all add: ECIESDec_setMAC_def)
  have "if ec_tag ?t = F (EVP_sha512, drop 32 ?k) (concat cs @ ec_macSalt ?t)
     then fst (ECIESDec_finish E ?t) = Inr pt else isl (fst (ECIESDec_finish E ?t))"
    by (rule default_suite.dec_finish [OF assms(1)]) (use cm(2,3) t assms(5,6) in simp_all)
  then show ?thesis unfolding r t(1,2) .
qed

lemma ecies_pair:
  fixes kdfSalt macSalt :: bytes
  assumes "default_laws E absorbed F view Enc Dec T" "kdf_lib_laws (env_kdf E) PB X"
    and "ec_gen_laws P curves kspec gen" "key_gen_laws P kspec gen" "key_info_laws P curves kspec"
    and "ecdh_laws P kspec has_private dh public_of"
    and "public_of pub priv" "kspec pub = ECCSpec nid" "nid \<in> curves"
    and "\<forall>c \<in> set cs. fits_both c" "fits_both macSalt"
    and "\<And>key. \<exists>ct. Enc EVP_aes_256_cbc key (replicate 16 0) True (concat cs) = Some ct \<and> fits_both ct"
  defines "b \<equiv> default_builder kdfSalt macSalt"
  shows "\<exists>ct tag eph. ecies_encrypt E P rnd b pub cs = Inr (ct, tag, eph) \<and> fits_both ct \<and> kspec eph = ECCSpec nid
     \<and> (\<forall>eph' cs'. kspec eph' = ECCSpec nid \<and> dh eph' priv = dh eph priv
            \<and> concat cs' = ct \<and> (\<forall>c \<in> set cs'. fits_both c) \<longrightarrow>
          ecies_decrypt E P b priv eph' tag cs' = Inr (concat cs)
          \<and> (\<forall>tag'. tag' \<noteq> tag \<longrightarrow> isl (ecies_decrypt E P b priv eph' tag' cs')))"
proof -
  have "\<forall>n \<in> curves. \<not> is_ed n" using assms(5) unfolding key_info_laws_def by blast
  then obtain eph where g: "generate_key P rnd (ECCSpec nid) = Inr (Some eph)" "kspec eph = ECCSpec nid"
    using generate_ok [OF assms(3,4), of "ECCSpec nid" rnd] assms(9) by auto
  have hp: "has_private eph" using generated_has_private [OF assms(6)] g(1) by (simp add: generate_key_def)
  have pr: "has_private priv" "kspec pub = kspec priv" "dh pub eph = dh priv eph"
    using assms(6,7) unfolding ecdh_laws_def by blast+
  let ?z = "dh pub eph"
  let ?k = "X EVP_sha512 ?z kdfSalt 96"
  have "ossl_EVP_derive_key P pub eph = Inr ?z"
    using derive_ok [OF assms(6) _ hp] assms(8) g(2) by simp
  moreover have "getKeySpec P pub = Inr (ECCSpec nid)"
    using getKeySpec_ok [OF assms(5), of pub] assms(8,9) by simp
  ultimately have eph: "createEphemeralKeyAndSharedSecret P rnd pub = Inr (eph, ?z)"
    using g(1) by (simp add: createEphemeralKeyAndSharedSecret_def)
  have "dh eph priv = ?z" using assms(6) hp pr unfolding ecdh_laws_def by metis
  then have z: "ossl_EVP_derive_key P eph' priv = Inr ?z" if "kspec eph' = ECCSpec nid" "dh eph' priv = dh eph priv" for eph'
    using derive_ok [OF assms(6) _ pr(1), of eph'] that assms(8) pr(2) by simp
  obtain ct where ct: "Enc EVP_aes_256_cbc (take 32 ?k) (replicate 16 0) True (concat cs) = Some ct"
    "fits_both ct" using assms(12) by blast
  have enc: "ecies_encrypt E P rnd b pub cs
      = Inr (ct, F (EVP_sha512, drop 32 ?k) (ct @ macSalt), eph)"
    unfolding b_def
    using ecies_encrypt_ok [OF assms(1,2) eph assms(10,11) _ ct(2)] ct(1) by (simp add: cbc_fun_def)
  have "cipher_data_laws (env_cipher E) view Enc Dec T"
    using assms(1) by (simp add: default_laws_def cipher_lib_laws_def)
  then have "cbc_fun Enc Dec Decryption (take 32 ?k) ct = Some (concat cs)"
    using data_law_math(2) ct(1) by (simp add: cbc_fun_def)
  then have dec: "if tag = F (EVP_sha512, drop 32 ?k) (ct @ macSalt)
     then ecies_decrypt E P b priv eph' tag cs' = Inr (concat cs)
     else isl (ecies_decrypt E P b priv eph' tag cs')"
    if "concat cs' = ct" "\<forall>c \<in> set cs'. fits_both c"
      "kspec eph' = ECCSpec nid" "dh eph' priv = dh eph priv" for tag cs' eph'
    unfolding b_def
    using ecies_decrypt_result [OF assms(1,2) z [OF that(3,4)] that(2) assms(11), where tag = tag and kdfSalt = kdfSalt
        and pt = "concat cs"] that(1) by simp
  let ?tag = "F (EVP_sha512, drop 32 ?k) (ct @ macSalt)"
  have "ecies_decrypt E P b priv eph' ?tag cs' = Inr (concat cs)
      \<and> (\<forall>tag'. tag' \<noteq> ?tag \<longrightarrow> isl (ecies_decrypt E P b priv eph' tag' cs'))"
    if "kspec eph' = ECCSpec nid \<and> dh eph' priv = dh eph priv \<and> concat cs' = ct \<and> (\<forall>c \<in> set cs'. fits_both c)" for eph' cs'
    using dec [of cs' eph' ?tag] dec [of cs' eph'] that by simp
  with enc ct(2) g(2) show ?thesis by blast
qed

text \<open>
  C1: With the default parameters, what one party encrypts for the public key of another, in
  any chunks, the other decrypts to the same plaintext with the private key, the ephemeral key
  and the tag, again in any chunks; with any other tag decryption throws.
\<close>

theorem ECIES_roundtrip:
  fixes kdfSalt macSalt :: bytes
  assumes "default_laws E absorbed F view Enc Dec T" "kdf_lib_laws (env_kdf E) PB X"
    and "ec_gen_laws P curves kspec gen" "key_gen_laws P kspec gen" "key_info_laws P curves kspec"
    and "ecdh_laws P kspec has_private dh public_of"
    and "public_of pub priv" "kspec pub = ECCSpec nid" "nid \<in> curves"
    and "\<forall>c \<in> set cs. fits_both c" "fits_both macSalt"
    and "\<And>key. \<exists>ct. Enc EVP_aes_256_cbc key (replicate 16 0) True (concat cs) = Some ct \<and> fits_both ct"
  defines "b \<equiv> default_builder kdfSalt macSalt"
  shows "\<exists>ct tag eph. ecies_encrypt E P rnd b pub cs = Inr (ct, tag, eph) \<and> fits_both ct
     \<and> (\<forall>cs'. concat cs' = ct \<and> (\<forall>c \<in> set cs'. fits_both c) \<longrightarrow>
          ecies_decrypt E P b priv eph tag cs' = Inr (concat cs)
          \<and> (\<forall>tag'. tag' \<noteq> tag \<longrightarrow> isl (ecies_decrypt E P b priv eph tag' cs')))"
  using ecies_pair [OF assms(1-12)] unfolding b_def by blast

section \<open>A failed verification is final\<close>

text \<open>
  C36: When the tag does not match, \<open>finish\<close> of a decryption context with an HMAC throws the
  verification error without finishing the cipher, and every later \<open>finish\<close> throws too,
  whatever tag is set by then and whatever OpenSSL does: no plaintext comes out of a context
  whose tag was wrong once.
\<close>

theorem ECIES_failed_verification_final:
  assumes "\<not> ec_isFinished s" "ec_macIsSet s" "ec_mac s = HmacObj m" "\<not> mac_isFinished m"
    and "bindS (HMAC_update (env_hmac E) (ec_macSalt s)) (\<lambda>_. HMAC_finish (env_hmac E)) m = (Inr v, m')"
    and "HMAC_check (env_hmac E) v (ec_tag s) = Inl e"
  shows "\<exists>t. ECIESDec_finish E s = (Inl e, t) \<and> ec_cipher t = ec_cipher s
     \<and> ECIESDec_finish E (ECIESDec_setMAC tag t) = (Inl err_update_after_finish, ECIESDec_setMAC tag t)"
proof -
  obtain m1 where m1: "HMAC_update (env_hmac E) (ec_macSalt s) m = (Inr (), m1)"
    "HMAC_finish (env_hmac E) m1 = (Inr v, m')"
    using assms(5) by (auto simp: bindS_eq_Inr)
  have v: "HMAC_verify (env_hmac E) (ec_tag s) m' = (Inl e, m')"
    using hmac.fin_then(3) [OF m1(2)] assms(6) by simp
  have u: "HMAC_update (env_hmac E) (ec_macSalt s) m' = (Inl err_update_after_finish, m')"
    using hmac.fin_then(2) [OF m1(2)] by simp
  show ?thesis
    using assms(1-3) m1 v u
    by (simp add: ECIESDec_finish_def ECIESDec_setMAC_def bindS_unfold onMac_def)
qed

section \<open>The builder\<close>

text \<open>
  Checking the builder's parameters succeeds exactly when the MAC factory and key size are
  both given or both missing, and the same holds for the cipher; after success every
  parameter is set.
\<close>

theorem ECIES_parameters_complete:
  "case checkForRequiredParameters E mode b of (r, b') \<Rightarrow>
     (r = Inr () \<longleftrightarrow> (eb_macFactory b = None) = (eb_macKeySize b = 0)
                  \<and> (eb_cipherFactory b = None) = (eb_symmetricKeySize b = 0))
     \<and> (if r = Inr () then eb_kdf b' \<noteq> None \<and> eb_macFactory b' \<noteq> None \<and> eb_macKeySize b' \<noteq> 0
          \<and> eb_cipherFactory b' \<noteq> None \<and> eb_symmetricKeySize b' \<noteq> 0
        else r = Inl err_mac_incomplete \<or> r = Inl err_cipher_incomplete)"
proof -
  let ?b = "if eb_kdf b = None then setDefaultKdf b else b"
  have k: "eb_kdf ?b \<noteq> None" "eb_macFactory ?b = eb_macFactory b" "eb_macKeySize ?b = eb_macKeySize b"
    "eb_cipherFactory ?b = eb_cipherFactory b" "eb_symmetricKeySize ?b = eb_symmetricKeySize b"
    by (simp_all add: setDefaultKdf_def setKDF_def)
  note defs = checkForRequiredParameters_def bindS_unfold setDefaultMac_def setMacFactoryFunction_def
    setMacKeySize_def getDigestSize_def lengthInBytes_def setSymmetricCipherKeySize_def
    setSymmetricCipherFactoryFunction_def setDefaultSymmetricCipherFactoryFunction_def
  show ?thesis
  proof (cases "(eb_macFactory b = None) = (eb_macKeySize b = 0)")
    case False
    then show ?thesis using k by (simp add: defs)
  next
    case mac: True
    show ?thesis
    proof (cases "(eb_cipherFactory b = None) = (eb_symmetricKeySize b = 0)")
      case False
      with mac show ?thesis using k by (cases "eb_macFactory b = None") (simp_all add: defs)
    next
      case True
      with mac show ?thesis using k
        by (cases "eb_macFactory b = None"; cases "eb_cipherFactory b = None") (simp_all add: defs)
    qed
  qed
qed

text \<open>
  The defaults stay in the builder.  A builder that created an encryption context with the
  default cipher has the encryptor's factory set, so that a decryption context created from it
  afterwards encrypts.
\<close>

theorem ECIES_builder_reuse:
  assumes "eb_kdf b = None" "eb_macFactory b = None" "eb_macKeySize b = 0"
    and "eb_cipherFactory b = None" "eb_symmetricKeySize b = 0"
    and "checkForRequiredParameters E Encryption b = (Inr (), b')"
  shows "checkForRequiredParameters E Decryption b' = (Inr (), b')
     \<and> eb_cipherFactory b' = Some (default_cipher_factory E Encryption)"
proof -
  have "b' = with_defaults E Encryption b" using check_defaults [OF assms(1-5)] assms(6) by simp
  then show ?thesis by (simp add: with_defaults_def checkForRequiredParameters_def bindS_unfold)
qed

section \<open>Concrete instances\<close>

definition ref_env ::
  "((EVP_MD \<times> bytes) \<times> bytes, unit, EVP_CIPHER \<times> cview option, unit) crypto_env" where
  "ref_env =
     \<lparr>env_hmac = ref_hmac_lib,
      env_mac = \<lparr>ops_mac_update = (\<lambda>_. returnS ()), ops_mac_finish = returnS [],
                 ops_mac_verify = (\<lambda>_. returnS ())\<rparr>,
      env_cipher = ref_cipher_lib,
      env_sym = \<lparr>ops_cipher_update = (\<lambda>_. returnS ()), ops_cipher_finish = returnS []\<rparr>,
      env_kdf = ref_kdf_lib,
      env_rand = (\<lambda>n. (1, replicate (nat n) 5))\<rparr>"

lemma ref_default_laws: "default_laws ref_env id ref_hmac ref_view ref_E ref_D ref_T"
  by (simp add: default_laws_def ref_env_def ref_hmac_lib_laws ref_cipher_lib_laws)

lemma ref_env_kdf: "kdf_lib_laws (env_kdf ref_env) ref_pbkdf2 ref_x963"
  by (simp add: ref_env_def ref_kdf_lib_laws)

lemma ref_ecdh_laws:
  "ecdh_laws ref_pkey_lib fst (\<lambda>_. True) (\<lambda>a b. [snd b * snd a]) (=)"
  by (auto simp: ecdh_laws_def ref_pkey_lib_def mult.commute)

theorem ECIES_roundtrip_witness:
  "\<exists>ct tag eph.
     ecies_encrypt ref_env ref_pkey_lib 3 (default_builder [] [1]) (ECCSpec PRIME_256v1, 7) [[10], [11, 12]]
       = Inr (ct, tag, eph)
     \<and> ecies_decrypt ref_env ref_pkey_lib (default_builder [] [1]) (ECCSpec PRIME_256v1, 7) eph tag [ct]
       = Inr [10, 11, 12]"
proof -
  have e: "\<exists>ct. ref_E EVP_aes_256_cbc key (replicate 16 0) True (concat [[10], [11, 12]]) = Some ct
      \<and> fits_both ct" for key
    by (simp add: ref_E_def fits_both_def INT_MAX_def EVP_MAX_BLOCK_LENGTH_def)
  have f: "\<forall>c \<in> set [[10], [11, 12 :: byte]]. fits_both c" "fits_both [1]"
    by (simp_all add: fits_both_def INT_MAX_def EVP_MAX_BLOCK_LENGTH_def)
  obtain ct tag eph where r:
    "ecies_encrypt ref_env ref_pkey_lib 3 (default_builder [] [1]) (ECCSpec PRIME_256v1, 7) [[10], [11, 12]]
       = Inr (ct, tag, eph)" "fits_both ct"
    "\<And>cs'. concat cs' = ct \<Longrightarrow> \<forall>c \<in> set cs'. fits_both c \<Longrightarrow>
       ecies_decrypt ref_env ref_pkey_lib (default_builder [] [1]) (ECCSpec PRIME_256v1, 7) eph tag cs'
       = Inr (concat [[10], [11, 12]])"
    using ECIES_roundtrip [OF ref_default_laws ref_env_kdf ref_key_laws ref_ecdh_laws refl,
        of "(ECCSpec PRIME_256v1, 7)" PRIME_256v1 "[[10], [11, 12]]" "[1]" 3 "[]", OF _ _ f e]
    by auto
  from r(3) [of "[ct]"] r(1,2) show ?thesis by auto
qed

theorem ECIES_builder_reuse_witness:
  "\<exists>b'. checkForRequiredParameters ref_env Encryption
        (ECIESCtxBuilder_new :: (_, _, _, _, unit) ecies_builder) = (Inr (), b')
     \<and> checkForRequiredParameters ref_env Decryption b' = (Inr (), b')
     \<and> eb_cipherFactory b' = Some (default_cipher_factory ref_env Encryption)"
proof -
  let ?b = "ECIESCtxBuilder_new :: (_, _, _, _, unit) ecies_builder"
  have n: "eb_kdf ?b = None" "eb_macFactory ?b = None" "eb_macKeySize ?b = 0"
    "eb_cipherFactory ?b = None" "eb_symmetricKeySize ?b = 0"
    by (simp_all add: ECIESCtxBuilder_new_def)
  have c: "checkForRequiredParameters ref_env Encryption ?b = (Inr (), with_defaults ref_env Encryption ?b)"
    by (rule check_defaults) (simp_all add: n)
  from ECIES_builder_reuse [OF n c] c show ?thesis by blast
qed

definition ref_mac :: "((EVP_MD \<times> bytes) \<times> bytes) mac_impl" where
  "ref_mac = \<lparr>mac_ctx = ((EVP_sha512, [1]), [2]), mac_isFinished = False, mac_result = []\<rparr>"

definition ref_dec_ctx ::
  "((EVP_MD \<times> bytes) \<times> bytes, unit, EVP_CIPHER \<times> cview option, unit, unit) ecies_ctx" where
  "ref_dec_ctx = \<lparr>ec_macSalt = [3], ec_mac = HmacObj ref_mac, ec_cipher = OtherCipher (),
     ec_macValue = [], ec_isFinished = False, ec_key = (), ec_tag = [9], ec_macIsSet = True\<rparr>"

theorem ECIES_failed_verification_final_witness:
  "\<exists>e t. ECIESDec_finish ref_env ref_dec_ctx = (Inl e, t)
     \<and> ECIESDec_finish ref_env (ECIESDec_setMAC (resize [1, 2, 3] 32) t)
       = (Inl err_update_after_finish, ECIESDec_setMAC (resize [1, 2, 3] 32) t)"
proof -
  have s: "\<not> ec_isFinished ref_dec_ctx" "ec_macIsSet ref_dec_ctx" "ec_mac ref_dec_ctx = HmacObj ref_mac"
    "\<not> mac_isFinished ref_mac"
    by (simp_all add: ref_dec_ctx_def ref_mac_def)
  obtain m' where m': "bindS (HMAC_update (env_hmac ref_env) (ec_macSalt ref_dec_ctx))
      (\<lambda>_. HMAC_finish (env_hmac ref_env)) ref_mac = (Inr (resize [1, 2, 3] 32), m')"
    by (simp add: bindS_unfold HMAC_update_def HMAC_finish_def ossl_simps ref_env_def ref_hmac_lib_def
        to_int_small INT_MAX_def ref_hmac_def EVP_MAX_MD_SIZE_def resize_def overwrite_def
        ref_dec_ctx_def ref_mac_def)
  obtain e where "HMAC_check (env_hmac ref_env) (resize [1, 2, 3] 32) (ec_tag ref_dec_ctx) = Inl e"
    by (simp add: HMAC_check_def ref_dec_ctx_def)
  from ECIES_failed_verification_final [OF s m' this, of "resize [1, 2, 3] 32"]
  show ?thesis by blast
qed

end
