(* ===== verification/Padding_Mode.thy ===== *)
theory Padding_Mode
  imports Asym_Key Hash_Ctx
begin

text \<open>
  \<open>src/src/padding_mode.cpp\<close>: the RSA paddings, the message sizes they admit and the way
  they configure an \<open>EVP_PKEY_CTX\<close>, with the wrappers of \<open>src/src/openssl_wrap.cpp\<close>
  that operate on such a context.
\<close>

section \<open>OpenSSL functions and their wrappers\<close>

text \<open>
  The \<open>EVP_PKEY\<close> operations on a context of type \<open>'c\<close>.  Signing and encrypting take what
  the random number generator provides as a number.  A call with a null output buffer only
  writes the size: it is the field with the suffix \<open>_len\<close>.  A block from \<open>OPENSSL_malloc\<close>
  is its (unspecified) content.
\<close>

record 'c pctx_lib =
  SSL_EVP_PKEY_sign_init :: "'c \<Rightarrow> int \<times> 'c"
  SSL_EVP_PKEY_verify_init :: "'c \<Rightarrow> int \<times> 'c"
  SSL_EVP_PKEY_encrypt_init :: "'c \<Rightarrow> int \<times> 'c"
  SSL_EVP_PKEY_decrypt_init :: "'c \<Rightarrow> int \<times> 'c"
  SSL_EVP_PKEY_CTX_set_rsa_padding :: "'c \<Rightarrow> int \<Rightarrow> int \<times> 'c"
  SSL_EVP_PKEY_CTX_set_signature_md :: "'c \<Rightarrow> EVP_MD \<Rightarrow> int \<times> 'c"
  SSL_EVP_PKEY_CTX_set_rsa_pss_saltlen :: "'c \<Rightarrow> int \<Rightarrow> int \<times> 'c"
  SSL_EVP_PKEY_CTX_set_rsa_mgf1_md :: "'c \<Rightarrow> EVP_MD \<Rightarrow> int \<times> 'c"
  SSL_EVP_PKEY_CTX_set_rsa_oaep_md :: "'c \<Rightarrow> EVP_MD \<Rightarrow> int \<times> 'c"
  SSL_EVP_PKEY_CTX_set_rsa_oaep_label :: "'c \<Rightarrow> bytes \<Rightarrow> int \<Rightarrow> int \<times> 'c"
  SSL_EVP_MD_size :: "EVP_MD \<Rightarrow> int"
  SSL_OPENSSL_malloc :: "int \<Rightarrow> bytes option"
  SSL_EVP_PKEY_sign_len :: "'c \<Rightarrow> bytes \<Rightarrow> int \<times> nat"
  SSL_EVP_PKEY_sign :: "nat \<Rightarrow> 'c \<Rightarrow> bytes \<Rightarrow> int \<times> bytes"
  SSL_EVP_PKEY_verify :: "'c \<Rightarrow> bytes \<Rightarrow> bytes \<Rightarrow> int"
  SSL_EVP_PKEY_encrypt_len :: "'c \<Rightarrow> bytes \<Rightarrow> int \<times> nat"
  SSL_EVP_PKEY_encrypt :: "nat \<Rightarrow> 'c \<Rightarrow> bytes \<Rightarrow> int \<times> bytes"
  SSL_EVP_PKEY_decrypt_len :: "'c \<Rightarrow> bytes \<Rightarrow> int \<times> nat"
  SSL_EVP_PKEY_decrypt :: "'c \<Rightarrow> bytes \<Rightarrow> int \<times> bytes"

lemma checkC_IsPositive: "checkC OpensslCallIsPositive r =
    (if fst r > 0 then Inr (snd r) else Inl OpenSSLException_default)"
  by (cases r) (simp add: checkC_def)

lemmas checkC_all = checkC_IsOne checkC_NonNegative checkC_IsPositive

definition ossl_EVP_PKEY_sign_init :: "'c pctx_lib \<Rightarrow> 'c \<Rightarrow> 'c res" where
  [ossl_simps]: "ossl_EVP_PKEY_sign_init C ctx = checkC OpensslCallIsPositive (SSL_EVP_PKEY_sign_init C ctx)"

definition ossl_EVP_PKEY_verify_init :: "'c pctx_lib \<Rightarrow> 'c \<Rightarrow> 'c res" where
  [ossl_simps]: "ossl_EVP_PKEY_verify_init C ctx =
     checkC OpensslCallIsPositive (SSL_EVP_PKEY_verify_init C ctx)"

definition ossl_EVP_PKEY_encrypt_init :: "'c pctx_lib \<Rightarrow> 'c \<Rightarrow> 'c res" where
  [ossl_simps]: "ossl_EVP_PKEY_encrypt_init C ctx =
     checkC OpensslCallIsPositive (SSL_EVP_PKEY_encrypt_init C ctx)"

definition ossl_EVP_PKEY_decrypt_init :: "'c pctx_lib \<Rightarrow> 'c \<Rightarrow> 'c res" where
  [ossl_simps]: "ossl_EVP_PKEY_decrypt_init C ctx =
     checkC OpensslCallIsPositive (SSL_EVP_PKEY_decrypt_init C ctx)"

definition ossl_EVP_PKEY_CTX_set_rsa_padding :: "'c pctx_lib \<Rightarrow> int \<Rightarrow> 'c \<Rightarrow> 'c res" where
  [ossl_simps]: "ossl_EVP_PKEY_CTX_set_rsa_padding C pad ctx =
     checkC OpensslCallIsPositive (SSL_EVP_PKEY_CTX_set_rsa_padding C ctx pad)"

definition ossl_EVP_PKEY_CTX_set_signature_md :: "'c pctx_lib \<Rightarrow> EVP_MD \<Rightarrow> 'c \<Rightarrow> 'c res" where
  [ossl_simps]: "ossl_EVP_PKEY_CTX_set_signature_md C md ctx =
     checkC OpensslCallIsPositive (SSL_EVP_PKEY_CTX_set_signature_md C ctx md)"

definition ossl_EVP_PKEY_CTX_set_rsa_pss_saltlen :: "'c pctx_lib \<Rightarrow> int \<Rightarrow> 'c \<Rightarrow> 'c res" where
  [ossl_simps]: "ossl_EVP_PKEY_CTX_set_rsa_pss_saltlen C len ctx =
     checkC OpensslCallIsPositive (SSL_EVP_PKEY_CTX_set_rsa_pss_saltlen C ctx len)"

definition ossl_EVP_PKEY_CTX_set_rsa_mgf1_md :: "'c pctx_lib \<Rightarrow> EVP_MD \<Rightarrow> 'c \<Rightarrow> 'c res" where
  [ossl_simps]: "ossl_EVP_PKEY_CTX_set_rsa_mgf1_md C md ctx =
     checkC OpensslCallIsPositive (SSL_EVP_PKEY_CTX_set_rsa_mgf1_md C ctx md)"

definition ossl_EVP_PKEY_CTX_set_rsa_oaep_md :: "'c pctx_lib \<Rightarrow> EVP_MD \<Rightarrow> 'c \<Rightarrow> 'c res" where
  [ossl_simps]: "ossl_EVP_PKEY_CTX_set_rsa_oaep_md C md ctx =
     checkC OpensslCallIsPositive (SSL_EVP_PKEY_CTX_set_rsa_oaep_md C ctx md)"

definition ossl_EVP_PKEY_CTX_set_rsa_oaep_label ::
  "'c pctx_lib \<Rightarrow> bytes \<Rightarrow> int \<Rightarrow> 'c \<Rightarrow> 'c res" where
  [ossl_simps]: "ossl_EVP_PKEY_CTX_set_rsa_oaep_label C l llen ctx =
     checkC OpensslCallIsNonNegative (SSL_EVP_PKEY_CTX_set_rsa_oaep_label C ctx l llen)"

definition ossl_EVP_MD_size :: "'c pctx_lib \<Rightarrow> EVP_MD \<Rightarrow> int" where
  [ossl_simps]: "ossl_EVP_MD_size C md = SSL_EVP_MD_size C md"

definition ossl_OPENSSL_malloc :: "'c pctx_lib \<Rightarrow> int \<Rightarrow> bytes res" where
  [ossl_simps]: "ossl_OPENSSL_malloc C num = OpensslCallPtr (SSL_OPENSSL_malloc C num)"

section \<open>Paddings\<close>

datatype RSAPaddingMode = RSA_NONE | RSA_PKCS1 | RSA_PSS | RSA_OAEP

primrec padding_value :: "RSAPaddingMode \<Rightarrow> int" where
  "padding_value RSA_NONE = 3"
| "padding_value RSA_PKCS1 = 1"
| "padding_value RSA_PSS = 6"
| "padding_value RSA_OAEP = 4"

text \<open>
  The interfaces \<open>RSAEncryptionPadding\<close>, \<open>RSASignaturePadding\<close> and
  \<open>MaskGenerationFunction\<close> with the classes that implement them; \<open>PKCSPadding\<close>
  implements the first two.  An absent mask generation function or salt length is \<open>None\<close>.
\<close>

datatype MaskGenerationFunction = MGF1 DigestTypes

datatype RSAEncryptionPadding =
    NoPadding
  | PKCSPadding
  | OAEPPadding DigestTypes MaskGenerationFunction string

datatype RSASignaturePadding =
    PKCSPadding_sig
  | PSSPadding "MaskGenerationFunction option" "int option"

definition PKCS_MAX_SIZE_OVERHEAD :: int where "PKCS_MAX_SIZE_OVERHEAD = 11"

definition OAEPPadding_new ::
  "DigestTypes \<Rightarrow> MaskGenerationFunction option \<Rightarrow> string \<Rightarrow> RSAEncryptionPadding" where
  "OAEPPadding_new hashFunction mgf label =
     OAEPPadding hashFunction (case mgf of Some g \<Rightarrow> g | None \<Rightarrow> MGF1 hashFunction) label"

section \<open>Message sizes\<close>

text \<open>
  Key sizes are \<open>int\<close>, message sizes \<open>size_t\<close>: the products with eight wrap around, the
  conversions between the two are written out.
\<close>

definition NoPadding_checkMessageSize :: "int \<Rightarrow> size_t \<Rightarrow> bool" where
  "NoPadding_checkMessageSize keySize messageSize =
     (let keySizeInBit = word_of_int keySize :: size_t in messageSize * 8 = keySizeInBit)"

definition remaining_fits :: "int \<Rightarrow> size_t \<Rightarrow> bool" where
  "remaining_fits remainingSize messageSize =
     (remainingSize > 0 \<and> messageSize * 8 \<le> word_of_int remainingSize)"

definition PKCSPadding_checkMessageSize :: "int \<Rightarrow> size_t \<Rightarrow> bool" where
  "PKCSPadding_checkMessageSize keySize messageSize =
     remaining_fits (keySize - PKCS_MAX_SIZE_OVERHEAD * 8) messageSize"

definition OAEPPadding_checkMessageSize ::
  "'c pctx_lib \<Rightarrow> DigestTypes \<Rightarrow> int \<Rightarrow> size_t \<Rightarrow> bool res" where
  "OAEPPadding_checkMessageSize C hashFunction keySize messageSize =
     bindR (getMDPtrFromDigestType hashFunction) (\<lambda>md.
       Inr (remaining_fits (keySize - (2 * ossl_EVP_MD_size C md) * 8 - 2 * 8) messageSize))"

primrec checkMessageSize ::
  "'c pctx_lib \<Rightarrow> RSAEncryptionPadding \<Rightarrow> int \<Rightarrow> size_t \<Rightarrow> bool res" where
  "checkMessageSize C NoPadding keySize n = Inr (NoPadding_checkMessageSize keySize n)"
| "checkMessageSize C PKCSPadding keySize n = Inr (PKCSPadding_checkMessageSize keySize n)"
| "checkMessageSize C (OAEPPadding h g l) keySize n = OAEPPadding_checkMessageSize C h keySize n"

section \<open>Configuring a context\<close>

primrec MGF1_prepareOpenSSLContext ::
  "'c pctx_lib \<Rightarrow> MaskGenerationFunction \<Rightarrow> 'c \<Rightarrow> 'c res" where
  "MGF1_prepareOpenSSLContext C (MGF1 hashFunction) ctx =
     bindR (getMDPtrFromDigestType hashFunction) (\<lambda>md. ossl_EVP_PKEY_CTX_set_rsa_mgf1_md C md ctx)"

definition NoPadding_prepareOpenSSLContext :: "'c pctx_lib \<Rightarrow> 'c \<Rightarrow> 'c res" where
  "NoPadding_prepareOpenSSLContext C ctx =
     ossl_EVP_PKEY_CTX_set_rsa_padding C (padding_value RSA_NONE) ctx"

definition PKCSPadding_prepareOpenSSLContext :: "'c pctx_lib \<Rightarrow> 'c \<Rightarrow> 'c res" where
  "PKCSPadding_prepareOpenSSLContext C ctx =
     ossl_EVP_PKEY_CTX_set_rsa_padding C (padding_value RSA_PKCS1) ctx"

definition PKCSPadding_prepareOpenSSLContext_sig ::
  "'c pctx_lib \<Rightarrow> DigestTypes \<Rightarrow> 'c \<Rightarrow> 'c res" where
  "PKCSPadding_prepareOpenSSLContext_sig C hashFunction ctx =
     bindR (ossl_EVP_PKEY_CTX_set_rsa_padding C (padding_value RSA_PKCS1) ctx) (\<lambda>ctx.
     bindR (getMDPtrFromDigestType hashFunction) (\<lambda>md.
       ossl_EVP_PKEY_CTX_set_signature_md C md ctx))"

text \<open>The digest size of a missing salt length comes from \<open>Hash::getDigestSize\<close>.\<close>

definition PSSPadding_prepareOpenSSLContext ::
  "'c pctx_lib \<Rightarrow> MaskGenerationFunction option \<Rightarrow> int option \<Rightarrow> DigestTypes \<Rightarrow> 'c \<Rightarrow> 'c res" where
  "PSSPadding_prepareOpenSSLContext C mgf salt hashFunction ctx =
     bindR (ossl_EVP_PKEY_CTX_set_rsa_padding C (padding_value RSA_PSS) ctx) (\<lambda>ctx.
     bindR (getMDPtrFromDigestType hashFunction) (\<lambda>md.
     bindR (ossl_EVP_PKEY_CTX_set_signature_md C md ctx) (\<lambda>ctx.
     bindR (case salt of Some n \<Rightarrow> Inr n
            | None \<Rightarrow> bindR (getDigestSize hashFunction) (\<lambda>n. Inr (to_int n))) (\<lambda>saltLength.
     bindR (ossl_EVP_PKEY_CTX_set_rsa_pss_saltlen C saltLength ctx) (\<lambda>ctx.
       (case mgf of
          Some g \<Rightarrow> MGF1_prepareOpenSSLContext C g ctx
        | None \<Rightarrow> MGF1_prepareOpenSSLContext C (MGF1 hashFunction) ctx))))))"

definition OAEPPadding_set_label :: "'c pctx_lib \<Rightarrow> string \<Rightarrow> 'c \<Rightarrow> 'c res" where
  "OAEPPadding_set_label C label ctx =
     (if label \<noteq> [] then
        bindR (ossl_OPENSSL_malloc C (to_int (length label))) (\<lambda>label_copy.
          ossl_EVP_PKEY_CTX_set_rsa_oaep_label C (overwrite label_copy (string_bytes label))
            (to_int (length label)) ctx)
      else Inr ctx)"

definition OAEPPadding_prepareOpenSSLContext ::
  "'c pctx_lib \<Rightarrow> DigestTypes \<Rightarrow> MaskGenerationFunction \<Rightarrow> string \<Rightarrow> 'c \<Rightarrow> 'c res" where
  "OAEPPadding_prepareOpenSSLContext C hashFunction mgf label ctx =
     catchOpenSSL
       (bindR (ossl_EVP_PKEY_CTX_set_rsa_padding C (padding_value RSA_OAEP) ctx) (\<lambda>ctx.
        bindR (getMDPtrFromDigestType hashFunction) (\<lambda>md.
        bindR (ossl_EVP_PKEY_CTX_set_rsa_oaep_md C md ctx) (\<lambda>ctx.
        bindR (MGF1_prepareOpenSSLContext C mgf ctx) (\<lambda>ctx.
          OAEPPadding_set_label C label ctx)))))
       MoCOCrWException"

primrec prepare_encryption :: "'c pctx_lib \<Rightarrow> RSAEncryptionPadding \<Rightarrow> 'c \<Rightarrow> 'c res" where
  "prepare_encryption C NoPadding ctx = NoPadding_prepareOpenSSLContext C ctx"
| "prepare_encryption C PKCSPadding ctx = PKCSPadding_prepareOpenSSLContext C ctx"
| "prepare_encryption C (OAEPPadding h g l) ctx = OAEPPadding_prepareOpenSSLContext C h g l ctx"

primrec prepare_signature :: "'c pctx_lib \<Rightarrow> RSASignaturePadding \<Rightarrow> DigestTypes \<Rightarrow> 'c \<Rightarrow> 'c res" where
  "prepare_signature C PKCSPadding_sig h ctx = PKCSPadding_prepareOpenSSLContext_sig C h ctx"
| "prepare_signature C (PSSPadding g s) h ctx = PSSPadding_prepareOpenSSLContext C g s h ctx"

section \<open>What OpenSSL documents\<close>

text \<open>
  A context has a key, an operation and the RSA parameters set on it so far.
\<close>

datatype pkey_op = OpNone | OpSign | OpVerify | OpEncrypt | OpDecrypt

record rsa_cfg =
  cfg_pad :: int
  cfg_md :: "EVP_MD option"
  cfg_salt :: "int option"
  cfg_mgf1 :: "EVP_MD option"
  cfg_oaep :: "EVP_MD option"
  cfg_label :: bytes

definition cfg_default :: rsa_cfg where
  "cfg_default = \<lparr>cfg_pad = 1, cfg_md = None, cfg_salt = None, cfg_mgf1 = None, cfg_oaep = None,
     cfg_label = []\<rparr>"

type_synonym 'k pview = "'k \<times> pkey_op \<times> rsa_cfg"

definition op_laws :: "'c pctx_lib \<Rightarrow> ('c \<Rightarrow> 'k pview) \<Rightarrow> bool" where
  "op_laws C view \<longleftrightarrow>
     (\<forall>c k op cfg. view c = (k, op, cfg) \<longrightarrow>
        fst (SSL_EVP_PKEY_sign_init C c) > 0
        \<and> view (snd (SSL_EVP_PKEY_sign_init C c)) = (k, OpSign, cfg_default)
        \<and> fst (SSL_EVP_PKEY_verify_init C c) > 0
        \<and> view (snd (SSL_EVP_PKEY_verify_init C c)) = (k, OpVerify, cfg_default)
        \<and> fst (SSL_EVP_PKEY_encrypt_init C c) > 0
        \<and> view (snd (SSL_EVP_PKEY_encrypt_init C c)) = (k, OpEncrypt, cfg_default)
        \<and> fst (SSL_EVP_PKEY_decrypt_init C c) > 0
        \<and> view (snd (SSL_EVP_PKEY_decrypt_init C c)) = (k, OpDecrypt, cfg_default))"

text \<open>
  The setters: a padding mode is accepted for the operations it is made for, the digest
  for signatures, the salt length (at least the special value -3) under PSS, the mask
  generation digest under PSS and OAEP, OAEP's digest and label under OAEP.
\<close>

definition setter_laws :: "'c pctx_lib \<Rightarrow> ('c \<Rightarrow> 'k pview) \<Rightarrow> bool" where
  "setter_laws C view \<longleftrightarrow>
     (\<forall>c k op cfg pad. view c = (k, op, cfg) \<and>
        (pad = 1 \<or> (pad = 3 \<or> pad = 4) \<and> op \<in> {OpEncrypt, OpDecrypt} \<or> pad = 6 \<and> op \<in> {OpSign, OpVerify}) \<longrightarrow>
        fst (SSL_EVP_PKEY_CTX_set_rsa_padding C c pad) > 0
        \<and> view (snd (SSL_EVP_PKEY_CTX_set_rsa_padding C c pad)) = (k, op, cfg\<lparr>cfg_pad := pad\<rparr>))
     \<and> (\<forall>c k op cfg md. view c = (k, op, cfg) \<and> op \<in> {OpSign, OpVerify} \<longrightarrow>
        fst (SSL_EVP_PKEY_CTX_set_signature_md C c md) > 0
        \<and> view (snd (SSL_EVP_PKEY_CTX_set_signature_md C c md)) = (k, op, cfg\<lparr>cfg_md := Some md\<rparr>))
     \<and> (\<forall>c k op cfg n. view c = (k, op, cfg) \<and> cfg_pad cfg = 6 \<and> n \<ge> - 3 \<longrightarrow>
        fst (SSL_EVP_PKEY_CTX_set_rsa_pss_saltlen C c n) > 0
        \<and> view (snd (SSL_EVP_PKEY_CTX_set_rsa_pss_saltlen C c n)) = (k, op, cfg\<lparr>cfg_salt := Some n\<rparr>))
     \<and> (\<forall>c k op cfg md. view c = (k, op, cfg) \<and> cfg_pad cfg \<in> {4, 6} \<longrightarrow>
        fst (SSL_EVP_PKEY_CTX_set_rsa_mgf1_md C c md) > 0
        \<and> view (snd (SSL_EVP_PKEY_CTX_set_rsa_mgf1_md C c md)) = (k, op, cfg\<lparr>cfg_mgf1 := Some md\<rparr>))
     \<and> (\<forall>c k op cfg md. view c = (k, op, cfg) \<and> cfg_pad cfg = 4 \<longrightarrow>
        fst (SSL_EVP_PKEY_CTX_set_rsa_oaep_md C c md) > 0
        \<and> view (snd (SSL_EVP_PKEY_CTX_set_rsa_oaep_md C c md)) = (k, op, cfg\<lparr>cfg_oaep := Some md\<rparr>))
     \<and> (\<forall>c k op cfg l n. view c = (k, op, cfg) \<and> cfg_pad cfg = 4 \<and> n = int (length l) \<longrightarrow>
        fst (SSL_EVP_PKEY_CTX_set_rsa_oaep_label C c l n) > 0
        \<and> view (snd (SSL_EVP_PKEY_CTX_set_rsa_oaep_label C c l n)) = (k, op, cfg\<lparr>cfg_label := l\<rparr>))"

definition malloc_laws :: "'c pctx_lib \<Rightarrow> bool" where
  "malloc_laws C \<longleftrightarrow> (\<forall>n > 0. \<exists>b. SSL_OPENSSL_malloc C n = Some b \<and> int (length b) = n)
     \<and> (\<forall>md. SSL_EVP_MD_size C md = int (md_size md))"

definition pctx_laws :: "'c pctx_lib \<Rightarrow> ('c \<Rightarrow> 'k pview) \<Rightarrow> bool" where
  "pctx_laws C view \<longleftrightarrow> op_laws C view \<and> setter_laws C view \<and> malloc_laws C"

lemmas op_lawsD = op_laws_def [THEN iffD1, rule_format]
lemmas setter_lawsD = setter_laws_def [THEN iffD1]
lemmas set_paddingD = setter_lawsD [THEN conjunct1, rule_format]
  and set_mdD = setter_lawsD [THEN conjunct2, THEN conjunct1, rule_format]
  and set_saltD = setter_lawsD [THEN conjunct2, THEN conjunct2, THEN conjunct1, rule_format]
  and set_mgf1D = setter_lawsD [THEN conjunct2, THEN conjunct2, THEN conjunct2, THEN conjunct1, rule_format]
  and set_oaepD = setter_lawsD [THEN conjunct2, THEN conjunct2, THEN conjunct2, THEN conjunct2,
    THEN conjunct1, rule_format]
  and set_labelD = setter_lawsD [THEN conjunct2, THEN conjunct2, THEN conjunct2, THEN conjunct2,
    THEN conjunct2, rule_format]

section \<open>The configuration each padding leaves on a context\<close>

definition md_of :: "DigestTypes \<Rightarrow> EVP_MD" where
  "md_of h = projr (getMDPtrFromDigestType h)"

lemma md_of: "h \<noteq> NONE \<Longrightarrow> getMDPtrFromDigestType h = Inr (md_of h)"
  by (cases h) (simp_all add: md_of_def)

lemma digest_size_md_of: "h \<noteq> NONE \<Longrightarrow> getDigestSize h = Inr (md_size (md_of h))"
  by (rule digest_size) (rule md_of)

lemma md_size_bound: "md_size md \<le> 64"
  by (cases md) simp_all

primrec mgf_supported :: "MaskGenerationFunction \<Rightarrow> bool" where
  "mgf_supported (MGF1 g) \<longleftrightarrow> g \<noteq> NONE"

primrec mgf_md :: "MaskGenerationFunction \<Rightarrow> EVP_MD" where
  "mgf_md (MGF1 g) = md_of g"

primrec enc_supported :: "RSAEncryptionPadding \<Rightarrow> bool" where
  "enc_supported NoPadding \<longleftrightarrow> True"
| "enc_supported PKCSPadding \<longleftrightarrow> True"
| "enc_supported (OAEPPadding h g l) \<longleftrightarrow> h \<noteq> NONE \<and> mgf_supported g \<and> int (length l) \<le> INT_MAX"

primrec enc_cfg :: "RSAEncryptionPadding \<Rightarrow> rsa_cfg" where
  "enc_cfg NoPadding = cfg_default\<lparr>cfg_pad := 3\<rparr>"
| "enc_cfg PKCSPadding = cfg_default\<lparr>cfg_pad := 1\<rparr>"
| "enc_cfg (OAEPPadding h g l) = cfg_default\<lparr>cfg_pad := 4, cfg_oaep := Some (md_of h),
     cfg_mgf1 := Some (mgf_md g), cfg_label := string_bytes l\<rparr>"

primrec sig_supported :: "RSASignaturePadding \<Rightarrow> bool" where
  "sig_supported PKCSPadding_sig \<longleftrightarrow> True"
| "sig_supported (PSSPadding g n) \<longleftrightarrow> pred_option mgf_supported g \<and> pred_option (\<lambda>n. n \<ge> - 3) n"

primrec sig_cfg :: "RSASignaturePadding \<Rightarrow> EVP_MD \<Rightarrow> rsa_cfg" where
  "sig_cfg PKCSPadding_sig md = cfg_default\<lparr>cfg_pad := 1, cfg_md := Some md\<rparr>"
| "sig_cfg (PSSPadding g n) md = cfg_default\<lparr>cfg_pad := 6, cfg_md := Some md,
     cfg_salt := Some (case n of Some i \<Rightarrow> i | None \<Rightarrow> int (md_size md)),
     cfg_mgf1 := Some (case g of Some f \<Rightarrow> mgf_md f | None \<Rightarrow> md)\<rparr>"

lemma set_padding_step:
  assumes "setter_laws C view" "view c = (k, op, cfg)"
    "pad = 1 \<or> (pad = 3 \<or> pad = 4) \<and> op \<in> {OpEncrypt, OpDecrypt} \<or> pad = 6 \<and> op \<in> {OpSign, OpVerify}"
  shows "\<exists>c'. ossl_EVP_PKEY_CTX_set_rsa_padding C pad c = Inr c' \<and> view c' = (k, op, cfg\<lparr>cfg_pad := pad\<rparr>)"
  using set_paddingD [OF assms(1), of c k op cfg pad] assms(2,3) by (simp add: ossl_simps checkC_all)

lemma set_md_step:
  assumes "setter_laws C view" "view c = (k, op, cfg)" "op \<in> {OpSign, OpVerify}"
  shows "\<exists>c'. ossl_EVP_PKEY_CTX_set_signature_md C md c = Inr c' \<and> view c' = (k, op, cfg\<lparr>cfg_md := Some md\<rparr>)"
  using set_mdD [OF assms(1), of c k op cfg md] assms(2,3) by (simp add: ossl_simps checkC_all)

lemma set_salt_step:
  assumes "setter_laws C view" "view c = (k, op, cfg)" "cfg_pad cfg = 6" "n \<ge> - 3"
  shows "\<exists>c'. ossl_EVP_PKEY_CTX_set_rsa_pss_saltlen C n c = Inr c' \<and> view c' = (k, op, cfg\<lparr>cfg_salt := Some n\<rparr>)"
  using set_saltD [OF assms(1), of c k op cfg n] assms(2-4) by (simp add: ossl_simps checkC_all)

lemma set_mgf_step:
  assumes "setter_laws C view" "view c = (k, op, cfg)" "cfg_pad cfg \<in> {4, 6}" "mgf_supported g"
  shows "\<exists>c'. MGF1_prepareOpenSSLContext C g c = Inr c' \<and> view c' = (k, op, cfg\<lparr>cfg_mgf1 := Some (mgf_md g)\<rparr>)"
  using set_mgf1D [OF assms(1), of c k op cfg "mgf_md g"] assms(2-4) md_of
  by (cases g) (simp add: ossl_simps checkC_all)

lemma set_oaep_step:
  assumes "setter_laws C view" "view c = (k, op, cfg)" "cfg_pad cfg = 4"
  shows "\<exists>c'. ossl_EVP_PKEY_CTX_set_rsa_oaep_md C md c = Inr c' \<and> view c' = (k, op, cfg\<lparr>cfg_oaep := Some md\<rparr>)"
  using set_oaepD [OF assms(1), of c k op cfg md] assms(2-3) by (simp add: ossl_simps checkC_all)

lemma set_label_step:
  assumes "setter_laws C view" "malloc_laws C" "view c = (k, op, cfg)" "cfg_pad cfg = 4"
    "int (length l) \<le> INT_MAX" "cfg_label cfg = []"
  shows "\<exists>c'. OAEPPadding_set_label C l c = Inr c' \<and> view c' = (k, op, cfg\<lparr>cfg_label := string_bytes l\<rparr>)"
proof (cases "l = []")
  case True
  then show ?thesis using assms(3,6) by (simp add: OAEPPadding_set_label_def string_bytes_def)
next
  case False
  then obtain b where b: "SSL_OPENSSL_malloc C (int (length l)) = Some b" "length b = length l"
    using assms(2) unfolding malloc_laws_def by (metis length_greater_0_conv of_nat_0_less_iff of_nat_eq_iff)
  then have "overwrite b (string_bytes l) = string_bytes l" by (simp add: string_bytes_def)
  with b False to_int_small [OF assms(5)]
    set_labelD [OF assms(1), of c k op cfg "int (length l)" "string_bytes l"] assms(3,4)
  show ?thesis by (simp add: OAEPPadding_set_label_def ossl_simps checkC_all string_bytes_def)
qed

lemma prepare_encryption_view:
  assumes "pctx_laws C view" "view c = (k, op, cfg_default)" "op \<in> {OpEncrypt, OpDecrypt}"
    and "enc_supported p"
  shows "\<exists>c'. prepare_encryption C p c = Inr c' \<and> view c' = (k, op, enc_cfg p)"
proof (cases p)
  case NoPadding
  then show ?thesis
    using set_padding_step [of C view c k op cfg_default 3] assms
    by (simp add: NoPadding_prepareOpenSSLContext_def pctx_laws_def)
next
  case PKCSPadding
  then show ?thesis
    using set_padding_step [of C view c k op cfg_default 1] assms
    by (simp add: PKCSPadding_prepareOpenSSLContext_def pctx_laws_def)
next
  case (OAEPPadding h g l)
  have laws: "setter_laws C view" "malloc_laws C" using assms(1) by (simp_all add: pctx_laws_def)
  have sup: "h \<noteq> NONE" "mgf_supported g" "int (length l) \<le> INT_MAX"
    using assms(4) OAEPPadding by simp_all
  obtain c1 where c1: "ossl_EVP_PKEY_CTX_set_rsa_padding C 4 c = Inr c1"
    "view c1 = (k, op, cfg_default\<lparr>cfg_pad := 4\<rparr>)"
    using set_padding_step [OF laws(1) assms(2), of 4] assms(3) by auto
  obtain c2 where c2: "ossl_EVP_PKEY_CTX_set_rsa_oaep_md C (md_of h) c1 = Inr c2"
    "view c2 = (k, op, cfg_default\<lparr>cfg_pad := 4, cfg_oaep := Some (md_of h)\<rparr>)"
    using set_oaep_step [OF laws(1) c1(2), of "md_of h"] by auto
  obtain c3 where c3: "MGF1_prepareOpenSSLContext C g c2 = Inr c3"
    "view c3 = (k, op, cfg_default\<lparr>cfg_pad := 4, cfg_oaep := Some (md_of h), cfg_mgf1 := Some (mgf_md g)\<rparr>)"
    using set_mgf_step [OF laws(1) c2(2) _ sup(2)] by auto
  obtain c4 where "OAEPPadding_set_label C l c3 = Inr c4" "view c4 = (k, op, enc_cfg p)"
    using set_label_step [OF laws c3(2) _ sup(3)] OAEPPadding by (auto simp: cfg_default_def)
  with c1(1) c2(1) c3(1) sup(1) OAEPPadding show ?thesis
    by (simp add: OAEPPadding_prepareOpenSSLContext_def md_of)
qed

lemma prepare_signature_view:
  assumes "pctx_laws C view" "view c = (k, op, cfg_default)" "op \<in> {OpSign, OpVerify}"
    and "sig_supported p" "h \<noteq> NONE"
  shows "\<exists>c'. prepare_signature C p h c = Inr c' \<and> view c' = (k, op, sig_cfg p (md_of h))"
proof (cases p)
  case PKCSPadding_sig
  have laws: "setter_laws C view" using assms(1) by (simp add: pctx_laws_def)
  obtain c1 where c1: "ossl_EVP_PKEY_CTX_set_rsa_padding C 1 c = Inr c1"
    "view c1 = (k, op, cfg_default\<lparr>cfg_pad := 1\<rparr>)"
    using set_padding_step [OF laws assms(2), of 1] by auto
  from set_md_step [OF laws c1(2) assms(3), of "md_of h"] c1(1) assms(5) PKCSPadding_sig
  show ?thesis by (auto simp: PKCSPadding_prepareOpenSSLContext_sig_def md_of)
next
  case (PSSPadding g n)
  have laws: "setter_laws C view" using assms(1) by (simp add: pctx_laws_def)
  define salt where "salt = (case n of Some i \<Rightarrow> i | None \<Rightarrow> int (md_size (md_of h)))"
  define f where "f = (case g of Some f \<Rightarrow> f | None \<Rightarrow> MGF1 h)"
  have sup: "salt \<ge> - 3" "mgf_supported f"
    using assms(4,5) PSSPadding by (auto simp: salt_def f_def split: option.splits)
  have salt: "(case n of Some i \<Rightarrow> Inr i | None \<Rightarrow> bindR (getDigestSize h) (\<lambda>n. Inr (to_int n)))
      = (Inr salt :: int res)"
    using digest_size_md_of [OF assms(5)] to_int_small [of "md_size (md_of h)"] md_size_bound [of "md_of h"]
    by (simp add: salt_def INT_MAX_def split: option.splits)
  have mgf: "(case g of Some f \<Rightarrow> MGF1_prepareOpenSSLContext C f x
      | None \<Rightarrow> MGF1_prepareOpenSSLContext C (MGF1 h) x) = MGF1_prepareOpenSSLContext C f x" for x
    by (simp add: f_def split: option.splits)
  obtain c1 where c1: "ossl_EVP_PKEY_CTX_set_rsa_padding C 6 c = Inr c1"
    "view c1 = (k, op, cfg_default\<lparr>cfg_pad := 6\<rparr>)"
    using set_padding_step [OF laws assms(2), of 6] assms(3) by auto
  obtain c2 where c2: "ossl_EVP_PKEY_CTX_set_signature_md C (md_of h) c1 = Inr c2"
    "view c2 = (k, op, cfg_default\<lparr>cfg_pad := 6, cfg_md := Some (md_of h)\<rparr>)"
    using set_md_step [OF laws c1(2) assms(3), of "md_of h"] by auto
  obtain c3 where c3: "ossl_EVP_PKEY_CTX_set_rsa_pss_saltlen C salt c2 = Inr c3"
    "view c3 = (k, op, cfg_default\<lparr>cfg_pad := 6, cfg_md := Some (md_of h), cfg_salt := Some salt\<rparr>)"
    using set_salt_step [OF laws c2(2) _ sup(1)] by auto
  obtain c4 where "MGF1_prepareOpenSSLContext C f c3 = Inr c4" "view c4 = (k, op, sig_cfg p (md_of h))"
    using set_mgf_step [OF laws c3(2) _ sup(2)] PSSPadding
    by (auto simp: salt_def f_def split: option.splits)
  with c1(1) c2(1) c3(1) salt mgf assms(5) PSSPadding show ?thesis
    by (simp add: PSSPadding_prepareOpenSSLContext_def md_of)
qed

section \<open>Message sizes that fit\<close>

text \<open>
  When a message of \<open>n\<close> bytes fits into one block: by the padding object, and by the
  parameters of a context as OpenSSL documents them.
\<close>

primrec overhead :: "RSAEncryptionPadding \<Rightarrow> nat" where
  "overhead NoPadding = 0"
| "overhead PKCSPadding = 11"
| "overhead (OAEPPadding h g l) = 2 * md_size (md_of h) + 2"

definition block_fits :: "RSAEncryptionPadding \<Rightarrow> nat \<Rightarrow> nat \<Rightarrow> bool" where
  "block_fits p bits n \<longleftrightarrow>
     (let modulus = (bits + 7) div 8
      in if p = NoPadding then n = modulus else n + overhead p \<le> modulus)"

definition cfg_fits :: "rsa_cfg \<Rightarrow> nat \<Rightarrow> nat \<Rightarrow> bool" where
  "cfg_fits cfg bits n \<longleftrightarrow>
     (let modulus = (bits + 7) div 8
      in if cfg_pad cfg = 3 then n = modulus
         else if cfg_pad cfg = 1 then n + 11 \<le> modulus
         else cfg_pad cfg = 4 \<and> (case cfg_oaep cfg of None \<Rightarrow> False
                | Some md \<Rightarrow> n + (2 * md_size md + 2) \<le> modulus))"

lemma cfg_fits_enc_cfg: "cfg_fits (enc_cfg p) bits n \<longleftrightarrow> block_fits p bits n"
  by (cases p) (simp_all add: cfg_fits_def block_fits_def cfg_default_def)

lemma size_t_times_8:
  assumes "int n \<le> INT_MAX"
  shows "(word_of_nat n * 8 :: size_t) = word_of_nat (8 * n)" "8 * n < 18446744073709551616"
  using assms by (simp_all add: INT_MAX_def mult.commute)

lemma remaining_fits_exact:
  assumes "int n \<le> INT_MAX" "r \<le> INT_MAX"
  shows "remaining_fits r (word_of_nat n) \<longleftrightarrow> r > 0 \<and> int (8 * n) \<le> r"
proof (cases "r > 0")
  case True
  then obtain m where m: "r = int m" by (metis nonneg_int_cases less_imp_le)
  have "m < 18446744073709551616" using assms(2) m by (simp add: INT_MAX_def)
  then have "unat (word_of_nat m :: size_t) = m" by (rule unat_of_nat_size_t)
  moreover have "unat (word_of_nat (8 * n) :: size_t) = 8 * n"
    using size_t_times_8(2) [OF assms(1)] by (rule unat_of_nat_size_t)
  ultimately show ?thesis
    using True m size_t_times_8(1) [OF assms(1)]
    by (simp add: remaining_fits_def word_le_nat_alt del: of_nat_mult)
next
  case False
  then show ?thesis by (simp add: remaining_fits_def)
qed

lemma NoPadding_exact:
  assumes "int n \<le> INT_MAX" "int bits \<le> INT_MAX"
  shows "NoPadding_checkMessageSize (int bits) (word_of_nat n) \<longleftrightarrow> 8 * n = bits"
proof -
  have "bits < 18446744073709551616" using assms(2) by (simp add: INT_MAX_def)
  from size_t_of_nat_eq_iff [OF size_t_times_8(2) [OF assms(1)] this] size_t_times_8(1) [OF assms(1)]
  show ?thesis by (simp add: NoPadding_checkMessageSize_def del: of_nat_mult)
qed

lemma checkMessageSize_value:
  assumes "malloc_laws C" "enc_supported p" "int n \<le> INT_MAX" "int bits \<le> INT_MAX"
  shows "checkMessageSize C p (int bits) (word_of_nat n) = Inr
     (if p = NoPadding then 8 * n = bits
      else 8 * overhead p < bits \<and> 8 * (n + overhead p) \<le> bits)"
proof (cases p)
  case NoPadding
  then show ?thesis using NoPadding_exact [OF assms(3,4)] by simp
next
  case PKCSPadding
  have "int bits - 88 \<le> INT_MAX" using assms(4) by simp
  from remaining_fits_exact [OF assms(3) this] PKCSPadding show ?thesis
    by (auto simp: PKCSPadding_checkMessageSize_def PKCS_MAX_SIZE_OVERHEAD_def)
next
  case (OAEPPadding h g l)
  let ?s = "int (md_size (md_of h))"
  have "int bits - 2 * ?s * 8 - 16 \<le> INT_MAX" using assms(4) by simp
  from remaining_fits_exact [OF assms(3) this] OAEPPadding assms(1,2) show ?thesis
    by (auto simp: OAEPPadding_checkMessageSize_def md_of malloc_laws_def ossl_simps)
qed

lemma checkMessageSize_block_fits:
  assumes "malloc_laws C" "enc_supported p" "int n \<le> INT_MAX" "int bits \<le> INT_MAX"
    and "checkMessageSize C p (int bits) (word_of_nat n) = Inr True"
  shows "block_fits p bits n"
  using checkMessageSize_value [OF assms(1-4)] assms(5)
  by (auto simp: block_fits_def Let_def split: if_splits)

text \<open>
  For messages and keys that fit an \<open>int\<close>, the size check of every padding has the exact
  value in bits; a message it admits fits into the modulus, and for a key whose size is a
  multiple of eight it refuses no message that fits, the empty one into an exactly filled
  modulus apart.  Without the bound on the message the product wraps: a message of
  \<open>2 ^ 61\<close> bytes passes the check of PKCS padding.
\<close>

theorem checkMessageSize_exact:
  assumes "malloc_laws C" "enc_supported p" "int n \<le> INT_MAX" "int bits \<le> INT_MAX"
  shows "(checkMessageSize C p (int bits) (word_of_nat n) = Inr True \<longrightarrow> block_fits p bits n)
    \<and> (bits mod 8 = 0 \<and> (n > 0 \<or> p = NoPadding) \<and> block_fits p bits n \<longrightarrow>
         checkMessageSize C p (int bits) (word_of_nat n) = Inr True)
    \<and> checkMessageSize C PKCSPadding 2048 (2 ^ 61) = Inr True"
proof (intro conjI impI)
  assume "checkMessageSize C p (int bits) (word_of_nat n) = Inr True"
  then show "block_fits p bits n" by (rule checkMessageSize_block_fits [OF assms])
next
  assume b: "bits mod 8 = 0 \<and> (n > 0 \<or> p = NoPadding) \<and> block_fits p bits n"
  then obtain m where m: "bits = 8 * m" by (metis dvd_def mod_0_imp_dvd)
  then have "(bits + 7) div 8 = m" by simp
  with b m show "checkMessageSize C p (int bits) (word_of_nat n) = Inr True"
    using checkMessageSize_value [OF assms] by (auto simp: block_fits_def Let_def split: if_splits)
next
  have "(2 ^ 61 * 8 :: size_t) = 0" by simp
  then show "checkMessageSize C PKCSPadding 2048 (2 ^ 61) = Inr True"
    by (simp add: PKCSPadding_checkMessageSize_def remaining_fits_def PKCS_MAX_SIZE_OVERHEAD_def)
qed

section \<open>A concrete instance\<close>

text \<open>
  A context library that satisfies the laws: a context is its view, signatures and
  ciphertexts are the data itself.
\<close>

definition ref_init :: "pkey_op \<Rightarrow> 'k pview \<Rightarrow> int \<times> 'k pview" where
  "ref_init op c = (1, (fst c, op, cfg_default))"

definition ref_set :: "(rsa_cfg \<Rightarrow> rsa_cfg) \<Rightarrow> 'k pview \<Rightarrow> int \<times> 'k pview" where
  "ref_set f c = (1, (fst c, fst (snd c), f (snd (snd c))))"

definition ref_pctx_lib :: "'k pview pctx_lib" where
  "ref_pctx_lib =
     \<lparr>SSL_EVP_PKEY_sign_init = ref_init OpSign,
      SSL_EVP_PKEY_verify_init = ref_init OpVerify,
      SSL_EVP_PKEY_encrypt_init = ref_init OpEncrypt,
      SSL_EVP_PKEY_decrypt_init = ref_init OpDecrypt,
      SSL_EVP_PKEY_CTX_set_rsa_padding = (\<lambda>c pad. ref_set (\<lambda>g. g\<lparr>cfg_pad := pad\<rparr>) c),
      SSL_EVP_PKEY_CTX_set_signature_md = (\<lambda>c md. ref_set (\<lambda>g. g\<lparr>cfg_md := Some md\<rparr>) c),
      SSL_EVP_PKEY_CTX_set_rsa_pss_saltlen = (\<lambda>c n. ref_set (\<lambda>g. g\<lparr>cfg_salt := Some n\<rparr>) c),
      SSL_EVP_PKEY_CTX_set_rsa_mgf1_md = (\<lambda>c md. ref_set (\<lambda>g. g\<lparr>cfg_mgf1 := Some md\<rparr>) c),
      SSL_EVP_PKEY_CTX_set_rsa_oaep_md = (\<lambda>c md. ref_set (\<lambda>g. g\<lparr>cfg_oaep := Some md\<rparr>) c),
      SSL_EVP_PKEY_CTX_set_rsa_oaep_label = (\<lambda>c l n. ref_set (\<lambda>g. g\<lparr>cfg_label := l\<rparr>) c),
      SSL_EVP_MD_size = (\<lambda>md. int (md_size md)),
      SSL_OPENSSL_malloc = (\<lambda>n. if n > 0 then Some (replicate (nat n) 0) else None),
      SSL_EVP_PKEY_sign_len = (\<lambda>c d. (1, max 1 (length d))),
      SSL_EVP_PKEY_sign = (\<lambda>rnd c d. (1, d)),
      SSL_EVP_PKEY_verify = (\<lambda>c sig d. if sig = d then 1 else 0),
      SSL_EVP_PKEY_encrypt_len = (\<lambda>c m. (1, max 1 (length m))),
      SSL_EVP_PKEY_encrypt = (\<lambda>rnd c m. (1, m)),
      SSL_EVP_PKEY_decrypt_len = (\<lambda>c m. (1, max 1 (length m))),
      SSL_EVP_PKEY_decrypt = (\<lambda>c m. (1, m))\<rparr>"

lemma ref_pctx_laws: "pctx_laws ref_pctx_lib (\<lambda>c. c)" "malloc_laws ref_pctx_lib"
  by (simp_all add: pctx_laws_def op_laws_def setter_laws_def malloc_laws_def ref_pctx_lib_def
      ref_init_def ref_set_def)

theorem checkMessageSize_exact_witness:
  "block_fits PKCSPadding 2048 245
   \<and> checkMessageSize (ref_pctx_lib :: nat pview pctx_lib) PKCSPadding 2048 245 = Inr True"
proof -
  have fits: "block_fits PKCSPadding 2048 245" by (simp add: block_fits_def)
  with checkMessageSize_exact [of "ref_pctx_lib :: nat pview pctx_lib" PKCSPadding 245 2048]
  show ?thesis by (simp add: INT_MAX_def ref_pctx_laws)
qed

end
