(* ===== verification/Rsa_Ctx.thy ===== *)
theory Rsa_Ctx
  imports Padding_Mode
begin

text \<open>
  The RSA part of \<open>src/src/asymmetric_crypto_ctx.cpp\<close>: encryption, decryption, signature
  and verification contexts.  A context is the key and the padding it was made with; every
  operation works on a fresh \<open>EVP_PKEY_CTX\<close> that is dropped when it returns.
\<close>

section \<open>Wrappers\<close>

text \<open>
  The sized calls: the first overload writes the size of the output only, the second fills the
  caller's buffer and returns what it wrote.
\<close>

definition ossl_EVP_PKEY_sign_len :: "'c pctx_lib \<Rightarrow> 'c \<Rightarrow> bytes \<Rightarrow> nat res" where
  [ossl_simps]: "ossl_EVP_PKEY_sign_len C ctx tbs =
     checkC OpensslCallIsPositive (SSL_EVP_PKEY_sign_len C ctx tbs)"

definition ossl_EVP_PKEY_sign :: "'c pctx_lib \<Rightarrow> nat \<Rightarrow> 'c \<Rightarrow> bytes \<Rightarrow> bytes res" where
  [ossl_simps]: "ossl_EVP_PKEY_sign C rnd ctx tbs =
     checkC OpensslCallIsPositive (SSL_EVP_PKEY_sign C rnd ctx tbs)"

definition ossl_EVP_PKEY_verify :: "'c pctx_lib \<Rightarrow> 'c \<Rightarrow> bytes \<Rightarrow> bytes \<Rightarrow> unit res" where
  [ossl_simps]: "ossl_EVP_PKEY_verify C ctx sig tbs =
     bindR (OpensslCallIsPositive (SSL_EVP_PKEY_verify C ctx sig tbs)) (\<lambda>_. Inr ())"

definition ossl_EVP_PKEY_encrypt_len :: "'c pctx_lib \<Rightarrow> 'c \<Rightarrow> bytes \<Rightarrow> nat res" where
  [ossl_simps]: "ossl_EVP_PKEY_encrypt_len C ctx m =
     checkC OpensslCallIsPositive (SSL_EVP_PKEY_encrypt_len C ctx m)"

definition ossl_EVP_PKEY_encrypt :: "'c pctx_lib \<Rightarrow> nat \<Rightarrow> 'c \<Rightarrow> bytes \<Rightarrow> bytes res" where
  [ossl_simps]: "ossl_EVP_PKEY_encrypt C rnd ctx m =
     checkC OpensslCallIsPositive (SSL_EVP_PKEY_encrypt C rnd ctx m)"

definition ossl_EVP_PKEY_decrypt_len :: "'c pctx_lib \<Rightarrow> 'c \<Rightarrow> bytes \<Rightarrow> nat res" where
  [ossl_simps]: "ossl_EVP_PKEY_decrypt_len C ctx m =
     checkC OpensslCallIsPositive (SSL_EVP_PKEY_decrypt_len C ctx m)"

definition ossl_EVP_PKEY_decrypt :: "'c pctx_lib \<Rightarrow> 'c \<Rightarrow> bytes \<Rightarrow> bytes res" where
  [ossl_simps]: "ossl_EVP_PKEY_decrypt C ctx m =
     checkC OpensslCallIsPositive (SSL_EVP_PKEY_decrypt C ctx m)"

text \<open>The vector built from the filled buffer and the size the second call wrote.\<close>

definition filled :: "bytes \<Rightarrow> bytes \<Rightarrow> bytes" where
  "filled buf out = take (length out) (overwrite buf out)"

lemma filled: "length out \<le> length buf \<Longrightarrow> filled buf out = out"
  by (simp add: filled_def take_overwrite)

definition signHelper :: "'c pctx_lib \<Rightarrow> nat \<Rightarrow> 'c \<Rightarrow> bytes \<Rightarrow> bytes res" where
  "signHelper C rnd keyCtx toBeSigned =
     bindR (ossl_EVP_PKEY_sign_len C keyCtx toBeSigned) (\<lambda>sigLen.
     bindR (ossl_OPENSSL_malloc C (to_int sigLen)) (\<lambda>buf.
     bindR (ossl_EVP_PKEY_sign C rnd keyCtx toBeSigned) (\<lambda>out. Inr (filled buf out))))"

section \<open>Contexts\<close>

record ('k, 'p) RSAImpl =
  rsa_key :: 'k
  rsa_padding :: 'p

record 'k RSASignatureImpl = "('k, RSASignaturePadding) RSAImpl" +
  rsa_hashFunction :: DigestTypes

definition err_not_rsa :: exn where
  "err_not_rsa = MoCOCrWException [Str ''Expected RSA Key for RSA operation'']"

definition RSAImpl_new :: "('k, 'e, 'g, 'c) pkey_lib \<Rightarrow> 'k \<Rightarrow> 'p \<Rightarrow> ('k, 'p) RSAImpl res" where
  "RSAImpl_new P key padding =
     bindR (getType P key) (\<lambda>t.
       if t \<noteq> RSA then Inl err_not_rsa else Inr \<lparr>rsa_key = key, rsa_padding = padding\<rparr>)"

definition RSASignatureImpl_new ::
  "('k, 'e, 'g, 'c) pkey_lib \<Rightarrow> 'k \<Rightarrow> DigestTypes \<Rightarrow> RSASignaturePadding \<Rightarrow> 'k RSASignatureImpl res" where
  "RSASignatureImpl_new P key hashFunction padding =
     bindR (RSAImpl_new P key padding) (\<lambda>b.
       Inr (RSAImpl.extend b \<lparr>rsa_hashFunction = hashFunction\<rparr>))"

section \<open>Encryption\<close>

definition err_message_size :: exn where
  "err_message_size = MoCOCrWException [Str ''Message size exceeds possible key size'']"

definition err_cannot_encrypt :: "nat \<Rightarrow> exn" where
  "err_cannot_encrypt n = MoCOCrWException
     [Str ''Message of size '', Num (int n), Str '' can't be encrypted using the given key and padding'']"

text \<open>The guards of \<open>encrypt\<close>; the one on a null context cannot fire after the checked call.\<close>

definition RSA_check_message ::
  "('k, 'e, 'g, 'c) pkey_lib \<Rightarrow> 'c pctx_lib \<Rightarrow> ('k, RSAEncryptionPadding) RSAImpl \<Rightarrow> bytes \<Rightarrow> unit res" where
  "RSA_check_message P C E message =
     (if INT_MAX < int (length message) then Inl err_message_size
      else bindR (checkMessageSize C (rsa_padding E) (getKeySize P (rsa_key E))
                    (word_of_nat (length message))) (\<lambda>fits.
             if \<not> fits then Inl (err_cannot_encrypt (length message)) else Inr ()))"

definition RSA_encrypt ::
  "('k, 'e, 'g, 'c) pkey_lib \<Rightarrow> 'c pctx_lib \<Rightarrow> nat \<Rightarrow> ('k, RSAEncryptionPadding) RSAImpl \<Rightarrow> bytes \<Rightarrow> bytes res" where
  "RSA_encrypt P C rnd E message =
     catchOpenSSL
       (bindR (ossl_EVP_PKEY_CTX_new P (rsa_key E)) (\<lambda>keyCtx.
        bindR (RSA_check_message P C E message) (\<lambda>_.
        bindR (ossl_EVP_PKEY_encrypt_init C keyCtx) (\<lambda>keyCtx.
        bindR (prepare_encryption C (rsa_padding E) keyCtx) (\<lambda>keyCtx.
        bindR (ossl_EVP_PKEY_encrypt_len C keyCtx message) (\<lambda>len.
        bindR (ossl_OPENSSL_malloc C (to_int len)) (\<lambda>buf.
        bindR (ossl_EVP_PKEY_encrypt C rnd keyCtx message) (\<lambda>out.
          Inr (filled buf out)))))))))
       MoCOCrWException"

definition RSA_decrypt ::
  "('k, 'e, 'g, 'c) pkey_lib \<Rightarrow> 'c pctx_lib \<Rightarrow> ('k, RSAEncryptionPadding) RSAImpl \<Rightarrow> bytes \<Rightarrow> bytes res" where
  "RSA_decrypt P C D message =
     catchOpenSSL
       (bindR (ossl_EVP_PKEY_CTX_new P (rsa_key D)) (\<lambda>keyCtx.
        bindR (ossl_EVP_PKEY_decrypt_init C keyCtx) (\<lambda>keyCtx.
        bindR (prepare_encryption C (rsa_padding D) keyCtx) (\<lambda>keyCtx.
        bindR (ossl_EVP_PKEY_decrypt_len C keyCtx message) (\<lambda>len.
        bindR (ossl_OPENSSL_malloc C (to_int len)) (\<lambda>buf.
        bindR (ossl_EVP_PKEY_decrypt C keyCtx message) (\<lambda>out.
          Inr (filled buf out))))))))
       MoCOCrWException"

section \<open>Signatures\<close>

definition err_digest_size :: "nat \<Rightarrow> exn" where
  "err_digest_size n = MoCOCrWException [Str ''Expected digest of size '', Num (int n)]"

definition validation_failed :: "message \<Rightarrow> exn" where
  "validation_failed m = MoCOCrWException (Str ''Signature validation failed. OpenSSL info: '' # m)"

definition check_digest :: "DigestTypes \<Rightarrow> bytes \<Rightarrow> unit res" where
  "check_digest hashFunction messageDigest =
     bindR (getDigestSize hashFunction) (\<lambda>expectedDigestSize.
       if length messageDigest \<noteq> expectedDigestSize then Inl (err_digest_size expectedDigestSize)
       else Inr ())"

definition RSA_signDigest ::
  "('k, 'e, 'g, 'c) pkey_lib \<Rightarrow> 'c pctx_lib \<Rightarrow> 'k RSASignatureImpl \<Rightarrow> nat \<Rightarrow> bytes \<Rightarrow> bytes res" where
  "RSA_signDigest P C S rnd messageDigest =
     bindR (check_digest (rsa_hashFunction S) messageDigest) (\<lambda>_.
     catchOpenSSL
       (bindR (ossl_EVP_PKEY_CTX_new P (rsa_key S)) (\<lambda>keyCtx.
        bindR (ossl_EVP_PKEY_sign_init C keyCtx) (\<lambda>keyCtx.
        bindR (prepare_signature C (rsa_padding S) (rsa_hashFunction S) keyCtx) (\<lambda>keyCtx.
          signHelper C rnd keyCtx messageDigest))))
       MoCOCrWException)"

definition RSA_signMessage ::
  "('k, 'e, 'g, 'c) pkey_lib \<Rightarrow> 'c pctx_lib \<Rightarrow> 'd digest_lib \<Rightarrow> 'k RSASignatureImpl \<Rightarrow> nat \<Rightarrow> bytes \<Rightarrow> bytes res" where
  "RSA_signMessage P C L S rnd m =
     bindR (createHash L (rsa_hashFunction S) m) (RSA_signDigest P C S rnd)"

definition RSA_verifyDigest ::
  "('k, 'e, 'g, 'c) pkey_lib \<Rightarrow> 'c pctx_lib \<Rightarrow> 'k RSASignatureImpl \<Rightarrow> bytes \<Rightarrow> bytes \<Rightarrow> unit res" where
  "RSA_verifyDigest P C V signature messageDigest =
     bindR (check_digest (rsa_hashFunction V) messageDigest) (\<lambda>_.
     catchOpenSSL
       (bindR (ossl_EVP_PKEY_CTX_new P (rsa_key V)) (\<lambda>keyCtx.
        bindR (ossl_EVP_PKEY_verify_init C keyCtx) (\<lambda>keyCtx.
        bindR (prepare_signature C (rsa_padding V) (rsa_hashFunction V) keyCtx) (\<lambda>keyCtx.
          ossl_EVP_PKEY_verify C keyCtx signature messageDigest))))
       validation_failed)"

definition RSA_verifyMessage ::
  "('k, 'e, 'g, 'c) pkey_lib \<Rightarrow> 'c pctx_lib \<Rightarrow> 'd digest_lib \<Rightarrow> 'k RSASignatureImpl \<Rightarrow> bytes \<Rightarrow> bytes \<Rightarrow> unit res" where
  "RSA_verifyMessage P C L V signature m =
     bindR (createHash L (rsa_hashFunction V) m) (RSA_verifyDigest P C V signature)"

section \<open>What OpenSSL documents\<close>

text \<open>
  \<open>pub k\<close> is the public part of a key pair, \<open>bits k\<close> the size of its modulus, and
  \<open>below k m\<close> says that \<open>m\<close>, read as a number, is below the modulus: the condition under
  which unpadded encryption is invertible.  \<open>valid\<close> is the signature relation of a public
  key and the parameters, \<open>signs\<close> the parameters and digests a key can sign.
\<close>

definition ctx_new_laws :: "('k, 'e, 'g, 'c) pkey_lib \<Rightarrow> ('c \<Rightarrow> 'k pview) \<Rightarrow> bool" where
  "ctx_new_laws P view \<longleftrightarrow> (\<forall>k. \<exists>c. SSL_EVP_PKEY_CTX_new P k = Some c \<and> fst (view c) = k)"

definition sized :: "int \<times> nat \<Rightarrow> int \<times> bytes \<Rightarrow> bool" where
  "sized r out \<longleftrightarrow> fst r > 0 \<and> 0 < snd r \<and> int (snd r) \<le> INT_MAX \<and> fst out > 0 \<and> length (snd out) \<le> snd r"

definition rsa_crypt_laws ::
  "'c pctx_lib \<Rightarrow> ('c \<Rightarrow> 'k pview) \<Rightarrow> ('k \<Rightarrow> 'k) \<Rightarrow> ('k \<Rightarrow> nat) \<Rightarrow> ('k \<Rightarrow> bytes \<Rightarrow> bool) \<Rightarrow> bool" where
  "rsa_crypt_laws C view pub bits below \<longleftrightarrow>
     (\<forall>c d k cfg m rnd. view c = (pub k, OpEncrypt, cfg) \<and> view d = (k, OpDecrypt, cfg)
        \<and> cfg_fits cfg (bits k) (length m) \<and> (cfg_pad cfg = 3 \<longrightarrow> below k m) \<longrightarrow>
        sized (SSL_EVP_PKEY_encrypt_len C c m) (SSL_EVP_PKEY_encrypt C rnd c m)
        \<and> sized (SSL_EVP_PKEY_decrypt_len C d (snd (SSL_EVP_PKEY_encrypt C rnd c m)))
            (SSL_EVP_PKEY_decrypt C d (snd (SSL_EVP_PKEY_encrypt C rnd c m)))
        \<and> snd (SSL_EVP_PKEY_decrypt C d (snd (SSL_EVP_PKEY_encrypt C rnd c m))) = m)"

definition signature_laws ::
  "'c pctx_lib \<Rightarrow> ('c \<Rightarrow> 'k pview) \<Rightarrow> ('k \<Rightarrow> 'k) \<Rightarrow> ('k \<Rightarrow> rsa_cfg \<Rightarrow> bytes \<Rightarrow> bytes \<Rightarrow> bool) \<Rightarrow>
     ('k \<Rightarrow> rsa_cfg \<Rightarrow> bytes \<Rightarrow> bool) \<Rightarrow> bool" where
  "signature_laws C view pub valid signs \<longleftrightarrow>
     (\<forall>c k cfg d rnd. view c = (k, OpSign, cfg) \<and> signs k cfg d \<longrightarrow>
        sized (SSL_EVP_PKEY_sign_len C c d) (SSL_EVP_PKEY_sign C rnd c d)
        \<and> valid (pub k) cfg d (snd (SSL_EVP_PKEY_sign C rnd c d)))
     \<and> (\<forall>c k cfg d sig. view c = (k, OpVerify, cfg) \<longrightarrow>
        (SSL_EVP_PKEY_verify C c sig d > 0 \<longleftrightarrow> valid k cfg d sig))"

lemmas rsa_cryptD = rsa_crypt_laws_def [THEN iffD1, rule_format]
  and signD = signature_laws_def [THEN iffD1, THEN conjunct1, rule_format]
  and verifyD = signature_laws_def [THEN iffD1, THEN conjunct2, rule_format]

text \<open>The pair of calls every operation ends with: ask for the size, allocate, fill.\<close>

definition two_calls :: "'c pctx_lib \<Rightarrow> int \<times> nat \<Rightarrow> int \<times> bytes \<Rightarrow> bytes res" where
  "two_calls C r out =
     bindR (checkC OpensslCallIsPositive r) (\<lambda>len.
     bindR (ossl_OPENSSL_malloc C (to_int len)) (\<lambda>buf.
     bindR (checkC OpensslCallIsPositive out) (\<lambda>out. Inr (filled buf out))))"

lemma signHelper_two_calls:
  "signHelper C rnd c d = two_calls C (SSL_EVP_PKEY_sign_len C c d) (SSL_EVP_PKEY_sign C rnd c d)"
  by (simp add: signHelper_def two_calls_def ossl_EVP_PKEY_sign_len_def ossl_EVP_PKEY_sign_def)

lemma sized_call:
  assumes "malloc_laws C" "sized r out"
  shows "two_calls C r out = Inr (snd out)"
proof -
  have s: "fst r > 0" "0 < snd r" "int (snd r) \<le> INT_MAX" "fst out > 0" "length (snd out) \<le> snd r"
    using assms(2) by (simp_all add: sized_def)
  then obtain b where "SSL_OPENSSL_malloc C (int (snd r)) = Some b" "length b = snd r"
    using assms(1) unfolding malloc_laws_def by (metis of_nat_0_less_iff of_nat_eq_iff)
  with s to_int_small [OF s(3)] show ?thesis
    by (simp add: two_calls_def checkC_all ossl_simps filled)
qed

lemma init_step:
  assumes "pctx_laws C view" "ctx_new_laws P view"
  shows "\<exists>c c'. ossl_EVP_PKEY_CTX_new P k = Inr c \<and> ossl_EVP_PKEY_sign_init C c = Inr c'
      \<and> view c' = (k, OpSign, cfg_default)"
    and "\<exists>c c'. ossl_EVP_PKEY_CTX_new P k = Inr c \<and> ossl_EVP_PKEY_verify_init C c = Inr c'
      \<and> view c' = (k, OpVerify, cfg_default)"
    and "\<exists>c c'. ossl_EVP_PKEY_CTX_new P k = Inr c \<and> ossl_EVP_PKEY_encrypt_init C c = Inr c'
      \<and> view c' = (k, OpEncrypt, cfg_default)"
    and "\<exists>c c'. ossl_EVP_PKEY_CTX_new P k = Inr c \<and> ossl_EVP_PKEY_decrypt_init C c = Inr c'
      \<and> view c' = (k, OpDecrypt, cfg_default)"
proof -
  obtain c where c: "SSL_EVP_PKEY_CTX_new P k = Some c" "fst (view c) = k"
    using assms(2) unfolding ctx_new_laws_def by blast
  then obtain op cfg where v: "view c = (k, op, cfg)" by (metis prod.collapse)
  have "op_laws C view" using assms(1) by (simp add: pctx_laws_def)
  note l = op_lawsD [OF this v]
  show "\<exists>c c'. ossl_EVP_PKEY_CTX_new P k = Inr c \<and> ossl_EVP_PKEY_sign_init C c = Inr c'
      \<and> view c' = (k, OpSign, cfg_default)"
    and "\<exists>c c'. ossl_EVP_PKEY_CTX_new P k = Inr c \<and> ossl_EVP_PKEY_verify_init C c = Inr c'
      \<and> view c' = (k, OpVerify, cfg_default)"
    and "\<exists>c c'. ossl_EVP_PKEY_CTX_new P k = Inr c \<and> ossl_EVP_PKEY_encrypt_init C c = Inr c'
      \<and> view c' = (k, OpEncrypt, cfg_default)"
    and "\<exists>c c'. ossl_EVP_PKEY_CTX_new P k = Inr c \<and> ossl_EVP_PKEY_decrypt_init C c = Inr c'
      \<and> view c' = (k, OpDecrypt, cfg_default)"
    using c(1) l by (simp_all add: ossl_simps checkC_all)
qed

section \<open>Encryption round trip\<close>

lemma RSA_encrypt_context:
  assumes "pctx_laws C view" "ctx_new_laws P view" "enc_supported (rsa_padding E)"
    and "RSA_check_message P C E m = Inr ()"
  obtains c where "view c = (rsa_key E, OpEncrypt, enc_cfg (rsa_padding E))"
    "RSA_encrypt P C rnd E m = catchOpenSSL
       (two_calls C (SSL_EVP_PKEY_encrypt_len C c m) (SSL_EVP_PKEY_encrypt C rnd c m)) MoCOCrWException"
proof -
  obtain c0 c1 where c: "ossl_EVP_PKEY_CTX_new P (rsa_key E) = Inr c0"
    "ossl_EVP_PKEY_encrypt_init C c0 = Inr c1" "view c1 = (rsa_key E, OpEncrypt, cfg_default)"
    using init_step(3) [OF assms(1,2)] by blast
  obtain c2 where c2: "prepare_encryption C (rsa_padding E) c1 = Inr c2"
    "view c2 = (rsa_key E, OpEncrypt, enc_cfg (rsa_padding E))"
    using prepare_encryption_view [OF assms(1) c(3) _ assms(3)] by auto
  show thesis
    using c(1,2) c2(1) assms(4)
    by (intro that [OF c2(2)])
      (simp add: RSA_encrypt_def two_calls_def ossl_EVP_PKEY_encrypt_len_def ossl_EVP_PKEY_encrypt_def)
qed

lemma RSA_decrypt_context:
  assumes "pctx_laws C view" "ctx_new_laws P view" "enc_supported (rsa_padding D)"
  obtains c where "view c = (rsa_key D, OpDecrypt, enc_cfg (rsa_padding D))"
    "\<And>m. RSA_decrypt P C D m = catchOpenSSL
       (two_calls C (SSL_EVP_PKEY_decrypt_len C c m) (SSL_EVP_PKEY_decrypt C c m)) MoCOCrWException"
proof -
  obtain c0 c1 where c: "ossl_EVP_PKEY_CTX_new P (rsa_key D) = Inr c0"
    "ossl_EVP_PKEY_decrypt_init C c0 = Inr c1" "view c1 = (rsa_key D, OpDecrypt, cfg_default)"
    using init_step(4) [OF assms(1,2)] by blast
  obtain c2 where c2: "prepare_encryption C (rsa_padding D) c1 = Inr c2"
    "view c2 = (rsa_key D, OpDecrypt, enc_cfg (rsa_padding D))"
    using prepare_encryption_view [OF assms(1) c(3) _ assms(3)] by auto
  show thesis
    using c(1,2) c2(1)
    by (intro that [OF c2(2)])
      (simp add: RSA_decrypt_def two_calls_def ossl_EVP_PKEY_decrypt_len_def ossl_EVP_PKEY_decrypt_def)
qed

lemma RSAImpl_new_ok:
  "SSL_EVP_PKEY_type_of_id P k = EVP_PKEY_RSA \<Longrightarrow>
     RSAImpl_new P k p = Inr \<lparr>rsa_key = k, rsa_padding = p\<rparr>"
  by (simp add: RSAImpl_new_def getType_def ossl_simps pkey_types)

lemma enc_cfg_no_padding: "cfg_pad (enc_cfg p) = 3 \<longleftrightarrow> p = NoPadding"
  by (cases p) (simp_all add: cfg_default_def)

lemma RSA_check_message_fits:
  assumes "malloc_laws C" "enc_supported (rsa_padding E)" "getKeySize P (rsa_key E) = int b"
    "int b \<le> INT_MAX" "RSA_check_message P C E m = Inr ()"
  shows "block_fits (rsa_padding E) b (length m)"
proof -
  have n: "int (length m) \<le> INT_MAX"
    and t: "checkMessageSize C (rsa_padding E) (int b) (word_of_nat (length m)) = Inr True"
    using assms(3,5) by (auto simp: RSA_check_message_def bindR_eq_Inr split: if_splits)
  from checkMessageSize_block_fits [OF assms(1,2) n assms(4) t] show ?thesis .
qed

text \<open>A pair of contexts with one padding: the private one undoes the public one.\<close>

lemma RSA_pair_roundtrip:
  assumes "pctx_laws C view" "ctx_new_laws P view" "rsa_crypt_laws C view pub bits below"
    and "getKeySize P (pub k) = int (bits k)" "int (bits k) \<le> INT_MAX"
    and "enc_supported p" "p = NoPadding \<longrightarrow> below k m"
    and "RSA_check_message P C \<lparr>rsa_key = pub k, rsa_padding = p\<rparr> m = Inr ()"
  shows "\<exists>ct. RSA_encrypt P C rnd \<lparr>rsa_key = pub k, rsa_padding = p\<rparr> m = Inr ct
     \<and> RSA_decrypt P C \<lparr>rsa_key = k, rsa_padding = p\<rparr> ct = Inr m"
proof -
  let ?E = "\<lparr>rsa_key = pub k, rsa_padding = p\<rparr>" and ?D = "\<lparr>rsa_key = k, rsa_padding = p\<rparr>"
  have ml: "malloc_laws C" using assms(1) by (simp add: pctx_laws_def)
  obtain c where c: "view c = (pub k, OpEncrypt, enc_cfg p)"
    and enc: "RSA_encrypt P C rnd ?E m = catchOpenSSL
       (two_calls C (SSL_EVP_PKEY_encrypt_len C c m) (SSL_EVP_PKEY_encrypt C rnd c m)) MoCOCrWException"
    using RSA_encrypt_context [OF assms(1,2), of ?E m rnd] assms(6,8) by auto
  obtain d where d: "view d = (k, OpDecrypt, enc_cfg p)"
    and dec: "\<And>m. RSA_decrypt P C ?D m = catchOpenSSL
       (two_calls C (SSL_EVP_PKEY_decrypt_len C d m) (SSL_EVP_PKEY_decrypt C d m)) MoCOCrWException"
    using RSA_decrypt_context [OF assms(1,2), of ?D] assms(6) by auto
  have fits: "cfg_fits (enc_cfg p) (bits k) (length m)"
    using RSA_check_message_fits [OF ml _ _ assms(5,8)] assms(4,6)
    by (simp add: cfg_fits_enc_cfg)
  have pre: "view c = (pub k, OpEncrypt, enc_cfg p) \<and> view d = (k, OpDecrypt, enc_cfg p)
      \<and> cfg_fits (enc_cfg p) (bits k) (length m) \<and> (cfg_pad (enc_cfg p) = 3 \<longrightarrow> below k m)"
    using c d fits assms(7) by (simp add: enc_cfg_no_padding)
  let ?ct = "snd (SSL_EVP_PKEY_encrypt C rnd c m)"
  have s: "sized (SSL_EVP_PKEY_encrypt_len C c m) (SSL_EVP_PKEY_encrypt C rnd c m)"
    "sized (SSL_EVP_PKEY_decrypt_len C d ?ct) (SSL_EVP_PKEY_decrypt C d ?ct)"
    "snd (SSL_EVP_PKEY_decrypt C d ?ct) = m"
    using rsa_cryptD [OF assms(3) pre, of rnd] by blast+
  have "RSA_encrypt P C rnd ?E m = Inr ?ct" "RSA_decrypt P C ?D ?ct = Inr m"
    by (simp_all only: enc dec sized_call [OF ml s(1)] sized_call [OF ml s(2)] s(3) catchOpenSSL_simps)
  then show ?thesis by blast
qed

text \<open>
  C9: What the public key context encrypts, the private key context with the same padding
  decrypts to the message, for every padding and every message the size check admits (without
  padding the message has to be below the modulus).
\<close>

theorem RSA_roundtrip:
  assumes "pctx_laws C view" "ctx_new_laws P view" "rsa_crypt_laws C view pub bits below"
    and "SSL_EVP_PKEY_type_of_id P k = EVP_PKEY_RSA" "SSL_EVP_PKEY_type_of_id P (pub k) = EVP_PKEY_RSA"
    and "getKeySize P (pub k) = int (bits k)" "int (bits k) \<le> INT_MAX"
    and "enc_supported p" "p = NoPadding \<longrightarrow> below k m"
    and "RSA_check_message P C \<lparr>rsa_key = pub k, rsa_padding = p\<rparr> m = Inr ()"
  shows "\<exists>E D ct. RSAImpl_new P (pub k) p = Inr E \<and> RSAImpl_new P k p = Inr D
     \<and> RSA_encrypt P C rnd E m = Inr ct \<and> RSA_decrypt P C D ct = Inr m"
  using RSA_pair_roundtrip [OF assms(1-3,6-10), of rnd] RSAImpl_new_ok [OF assms(4), of p]
    RSAImpl_new_ok [OF assms(5), of p] by auto

section \<open>Digest signatures\<close>

text \<open>
  The interfaces \<open>DigestSignatureCtx\<close>, \<open>MessageSignatureCtx\<close> and their verification
  counterparts: a signer and a verifier of digests of one size, from which the message
  operations are made by hashing first.
\<close>

locale digest_signature =
  fixes sgn :: "nat \<Rightarrow> bytes \<Rightarrow> bytes res"
    and ver :: "bytes \<Rightarrow> bytes \<Rightarrow> unit res"
    and laws :: bool
    and size :: nat
    and able :: "bytes \<Rightarrow> bool"
    and accepts :: "bytes \<Rightarrow> bytes \<Rightarrow> bool"
  assumes sgn_ok: "laws \<Longrightarrow> length d = size \<Longrightarrow> able d \<Longrightarrow> \<exists>s. sgn rnd d = Inr s \<and> accepts d s"
    and ver_iff: "laws \<Longrightarrow> length d = size \<Longrightarrow> ver s d = Inr () \<longleftrightarrow> accepts d s"
begin

lemma message_signature:
  assumes laws and "\<And>x. hash x = Inr (H x)" and "\<And>x. length (H x) = size" and "able (H m)"
  shows "(\<exists>s. bindR (hash m) (sgn rnd) = Inr s \<and> bindR (hash m) (ver s) = Inr ())
     \<and> (bindR (hash m') (ver s') = Inr () \<longleftrightarrow> accepts (H m') s')"
  using sgn_ok [of "H m" rnd] ver_iff [of "H m"] ver_iff [of "H m'" s'] assms by auto

end

definition rsa_sig_laws ::
  "('k, 'e, 'g, 'c) pkey_lib \<Rightarrow> 'c pctx_lib \<Rightarrow> ('c \<Rightarrow> 'k pview) \<Rightarrow> ('k \<Rightarrow> 'k) \<Rightarrow>
     ('k \<Rightarrow> rsa_cfg \<Rightarrow> bytes \<Rightarrow> bytes \<Rightarrow> bool) \<Rightarrow> ('k \<Rightarrow> rsa_cfg \<Rightarrow> bytes \<Rightarrow> bool) \<Rightarrow>
     DigestTypes \<Rightarrow> RSASignaturePadding \<Rightarrow> bool" where
  "rsa_sig_laws P C view pub valid signs h p \<longleftrightarrow>
     pctx_laws C view \<and> ctx_new_laws P view \<and> signature_laws C view pub valid signs
     \<and> sig_supported p \<and> h \<noteq> NONE"

lemma check_digest_ok:
  "h \<noteq> NONE \<Longrightarrow> check_digest h d =
     (if length d = md_size (md_of h) then Inr () else Inl (err_digest_size (md_size (md_of h))))"
  by (simp add: check_digest_def digest_size_md_of)

definition rsa_sig :: "'k \<Rightarrow> DigestTypes \<Rightarrow> RSASignaturePadding \<Rightarrow> 'k RSASignatureImpl" where
  "rsa_sig k h p = \<lparr>rsa_key = k, rsa_padding = p, rsa_hashFunction = h\<rparr>"

lemma rsa_sig_simps [simp]:
  "rsa_key (rsa_sig k h p) = k" "rsa_padding (rsa_sig k h p) = p" "rsa_hashFunction (rsa_sig k h p) = h"
  by (simp_all add: rsa_sig_def)

lemma RSA_signDigest_ok:
  assumes "rsa_sig_laws P C view pub valid signs h p" "length d = md_size (md_of h)"
    and "signs k (sig_cfg p (md_of h)) d"
  shows "\<exists>s. RSA_signDigest P C (rsa_sig k h p) rnd d = Inr s \<and> valid (pub k) (sig_cfg p (md_of h)) d s"
proof -
  have l: "pctx_laws C view" "ctx_new_laws P view" "signature_laws C view pub valid signs"
    "sig_supported p" "h \<noteq> NONE" "malloc_laws C"
    using assms(1) by (simp_all add: rsa_sig_laws_def pctx_laws_def)
  obtain c0 c1 where c: "ossl_EVP_PKEY_CTX_new P k = Inr c0" "ossl_EVP_PKEY_sign_init C c0 = Inr c1"
    "view c1 = (k, OpSign, cfg_default)" using init_step(1) [OF l(1,2)] by blast
  obtain c2 where c2: "prepare_signature C p h c1 = Inr c2" "view c2 = (k, OpSign, sig_cfg p (md_of h))"
    using prepare_signature_view [OF l(1) c(3) _ l(4,5)] by auto
  have s: "sized (SSL_EVP_PKEY_sign_len C c2 d) (SSL_EVP_PKEY_sign C rnd c2 d)"
    "valid (pub k) (sig_cfg p (md_of h)) d (snd (SSL_EVP_PKEY_sign C rnd c2 d))"
    using signD [OF l(3), of c2 k "sig_cfg p (md_of h)" d rnd] c2(2) assms(3) by blast+
  with c(1,2) c2(1) l(5) assms(2) sized_call [OF l(6) s(1)] show ?thesis
    by (simp add: RSA_signDigest_def check_digest_ok signHelper_two_calls)
qed

definition err_validation :: exn where
  "err_validation =
     MoCOCrWException (Str ''Signature validation failed. OpenSSL info: '' # generateOpenSSLErrorString)"

lemma RSA_verifyDigest_result:
  assumes "rsa_sig_laws P C view pub valid signs h p" "length d = md_size (md_of h)"
  shows "RSA_verifyDigest P C (rsa_sig k h p) s d =
     (if valid k (sig_cfg p (md_of h)) d s then Inr () else Inl err_validation)"
proof -
  have l: "pctx_laws C view" "ctx_new_laws P view" "signature_laws C view pub valid signs"
    "sig_supported p" "h \<noteq> NONE"
    using assms(1) by (simp_all add: rsa_sig_laws_def)
  obtain c0 c1 where c: "ossl_EVP_PKEY_CTX_new P k = Inr c0" "ossl_EVP_PKEY_verify_init C c0 = Inr c1"
    "view c1 = (k, OpVerify, cfg_default)" using init_step(2) [OF l(1,2)] by blast
  obtain c2 where c2: "prepare_signature C p h c1 = Inr c2" "view c2 = (k, OpVerify, sig_cfg p (md_of h))"
    using prepare_signature_view [OF l(1) c(3) _ l(4,5)] by auto
  from c(1,2) c2(1) l(5) assms(2) verifyD [OF l(3) c2(2), of s d] show ?thesis
    by (auto simp: RSA_verifyDigest_def check_digest_ok ossl_EVP_PKEY_verify_def ossl_simps
        OpenSSLException_default_def validation_failed_def err_validation_def)
qed

lemma RSA_verifyDigest_iff:
  assumes "rsa_sig_laws P C view pub valid signs h p" "length d = md_size (md_of h)"
  shows "RSA_verifyDigest P C (rsa_sig k h p) s d = Inr () \<longleftrightarrow> valid k (sig_cfg p (md_of h)) d s"
  by (simp add: RSA_verifyDigest_result [OF assms])

interpretation rsa: digest_signature "RSA_signDigest P C (rsa_sig k h p)"
  "RSA_verifyDigest P C (rsa_sig (pub k) h p)" "rsa_sig_laws P C view pub valid signs h p"
  "md_size (md_of h)" "signs k (sig_cfg p (md_of h))" "valid (pub k) (sig_cfg p (md_of h))"
  for P C k h p pub view valid signs
  by unfold_locales (rule RSA_signDigest_ok RSA_verifyDigest_iff; assumption)+

lemma RSASignatureImpl_new_ok:
  "SSL_EVP_PKEY_type_of_id P k = EVP_PKEY_RSA \<Longrightarrow> RSASignatureImpl_new P k h p = Inr (rsa_sig k h p)"
  by (simp add: RSASignatureImpl_new_def RSAImpl_new_ok RSAImpl.defs rsa_sig_def)

text \<open>
  C10: A message signed with an RSA key, under PKCS or PSS padding and any supported digest,
  is accepted by the verification context made with the public key and the same parameters;
  that context accepts exactly the signatures that are valid for the digest of the message
  under those parameters, and refuses every other one with a \<open>MoCOCrWException\<close> that says so.
\<close>

theorem RSA_signature:
  assumes "rsa_sig_laws P C view pub valid signs h p" "digest_lib_laws L absorbed H"
    and "SSL_EVP_PKEY_type_of_id P k = EVP_PKEY_RSA" "SSL_EVP_PKEY_type_of_id P (pub k) = EVP_PKEY_RSA"
    and "signs k (sig_cfg p (md_of h)) (H (md_of h) m)"
  shows "\<exists>S V s. RSASignatureImpl_new P k h p = Inr S \<and> RSASignatureImpl_new P (pub k) h p = Inr V
     \<and> RSA_signMessage P C L S rnd m = Inr s \<and> RSA_verifyMessage P C L V s m = Inr ()
     \<and> RSA_verifyMessage P C L V s' m' =
          (if valid (pub k) (sig_cfg p (md_of h)) (H (md_of h) m') s' then Inr ()
           else Inl (MoCOCrWException
             (Str ''Signature validation failed. OpenSSL info: '' # generateOpenSSLErrorString)))"
proof -
  have "h \<noteq> NONE" using assms(1) by (simp add: rsa_sig_laws_def)
  then have hash: "createHash L h x = Inr (H (md_of h) x)" for x
    using createHash_laws [OF assms(2)] md_of by blast
  have len: "length (H (md_of h) x) = md_size (md_of h)" for x
    using assms(2) by (simp add: digest_lib_laws_def)
  obtain s where "RSA_signDigest P C (rsa_sig k h p) rnd (H (md_of h) m) = Inr s"
    "RSA_verifyDigest P C (rsa_sig (pub k) h p) s (H (md_of h) m) = Inr ()"
    using rsa.message_signature [OF assms(1), of "createHash L h" "H (md_of h)" k m rnd, OF hash len assms(5),
        THEN conjunct1]
    unfolding hash bindR_simps by blast
  then show ?thesis
    by (simp add: RSASignatureImpl_new_ok [OF assms(3)] RSASignatureImpl_new_ok [OF assms(4)]
        RSA_signMessage_def RSA_verifyMessage_def hash RSA_verifyDigest_result [OF assms(1) len, of "pub k" s' m']
        err_validation_def)
qed

section \<open>Errors\<close>

lemma validation_failed_MoCOCrW: "validation_failed = (\<lambda>m. MoCOCrWException
    (Str ''Signature validation failed. OpenSSL info: '' # m))"
  by (simp add: validation_failed_def fun_eq_iff)

lemma check_digest_never_OpenSSL: "check_digest h d \<noteq> Inl (OpenSSLException m)"
  by (auto simp: check_digest_def getDigestSize_def err_digest_size_def bindR_eq_Inl
      split: option.splits if_splits)

text \<open>
  C38: The exceptions of the RSA contexts, whatever OpenSSL does.  No \<open>OpenSSLException\<close> leaves
  encryption, decryption and the operations on digests; one leaves the operations on messages
  exactly if it comes from hashing the message, which stands outside of the handlers.  A
  message that does not fit an \<open>int\<close>, or that the padding's size check refuses, is refused
  with the message of the code before OpenSSL encrypts anything, and a digest of the wrong size
  before any context is created, for signing and for verification.
\<close>

theorem RSA_errors:
  "RSA_encrypt P C rnd E m \<noteq> Inl (OpenSSLException e)
   \<and> RSA_decrypt P C D m \<noteq> Inl (OpenSSLException e)
   \<and> RSA_signDigest P C S rnd d \<noteq> Inl (OpenSSLException e)
   \<and> RSA_verifyDigest P C V s d \<noteq> Inl (OpenSSLException e)
   \<and> (RSA_signMessage P C L S rnd m = Inl (OpenSSLException e) \<longleftrightarrow>
        createHash L (rsa_hashFunction S) m = Inl (OpenSSLException e))
   \<and> (RSA_verifyMessage P C L V s m = Inl (OpenSSLException e) \<longleftrightarrow>
        createHash L (rsa_hashFunction V) m = Inl (OpenSSLException e))
   \<and> (SSL_EVP_PKEY_CTX_new P (rsa_key E) \<noteq> None \<and> INT_MAX < int (length m) \<longrightarrow>
        RSA_encrypt P C rnd E m = Inl err_message_size)
   \<and> (SSL_EVP_PKEY_CTX_new P (rsa_key E) \<noteq> None \<and> int (length m) \<le> INT_MAX
      \<and> checkMessageSize C (rsa_padding E) (getKeySize P (rsa_key E)) (word_of_nat (length m)) = Inr False \<longrightarrow>
        RSA_encrypt P C rnd E m = Inl (err_cannot_encrypt (length m)))
   \<and> (getDigestSize (rsa_hashFunction S) = Inr n \<and> length d \<noteq> n \<longrightarrow>
        RSA_signDigest P C S rnd d = Inl (err_digest_size n))
   \<and> (getDigestSize (rsa_hashFunction V) = Inr n \<and> length d \<noteq> n \<longrightarrow>
        RSA_verifyDigest P C V s d = Inl (err_digest_size n))"
proof -
  have sign: "RSA_signDigest P C S rnd d \<noteq> Inl (OpenSSLException e)" for d
    by (auto simp: RSA_signDigest_def bindR_eq_Inl check_digest_never_OpenSSL
        catchOpenSSL_never_OpenSSL [where f = "\<lambda>m. m"])
  have verify: "RSA_verifyDigest P C V s d \<noteq> Inl (OpenSSLException e)" for d
    by (auto simp: RSA_verifyDigest_def bindR_eq_Inl check_digest_never_OpenSSL
        validation_failed_MoCOCrW catchOpenSSL_never_OpenSSL)
  have crypt: "RSA_encrypt P C rnd E m \<noteq> Inl (OpenSSLException e)" "RSA_decrypt P C D m \<noteq> Inl (OpenSSLException e)"
    by (simp_all add: RSA_encrypt_def RSA_decrypt_def catchOpenSSL_never_OpenSSL [where f = "\<lambda>m. m"])
  have message: "RSA_signMessage P C L S rnd m = Inl (OpenSSLException e) \<longleftrightarrow>
        createHash L (rsa_hashFunction S) m = Inl (OpenSSLException e)"
    "RSA_verifyMessage P C L V s m = Inl (OpenSSLException e) \<longleftrightarrow>
        createHash L (rsa_hashFunction V) m = Inl (OpenSSLException e)"
    using sign verify by (auto simp: RSA_signMessage_def RSA_verifyMessage_def bindR_eq_Inl)
  show ?thesis
    by (intro conjI crypt sign verify message)
      (auto simp: RSA_encrypt_def RSA_check_message_def RSA_signDigest_def RSA_verifyDigest_def check_digest_def
        ossl_simps err_message_size_def err_cannot_encrypt_def)
qed

section \<open>A concrete instance\<close>

text \<open>
  Keys that are their type and a flag for the private part, over the reference context
  library.
\<close>

definition ref_asym_lib :: "(int \<times> bool, unit, unit, (int \<times> bool) pview) pkey_lib" where
  "ref_asym_lib =
     \<lparr>SSL_EVP_PKEY_new = None,
      SSL_EVP_PKEY_type_of_id = fst,
      SSL_EVP_PKEY_bits = (\<lambda>k. if fst k = EVP_PKEY_RSA then 2048 else 256),
      SSL_EVP_PKEY_cmp = (\<lambda>a b. if fst a = fst b then 1 else 0),
      SSL_EVP_PKEY_CTX_new_id = (\<lambda>i. None),
      SSL_EVP_PKEY_CTX_new = (\<lambda>k. Some (k, OpNone, cfg_default)),
      SSL_EVP_PKEY_keygen_init = (\<lambda>c. (0, c)),
      SSL_EVP_PKEY_keygen = (\<lambda>rnd c. (0, None)),
      SSL_EVP_PKEY_CTX_set_rsa_keygen_bits = (\<lambda>c n. (0, c)),
      SSL_EVP_PKEY_paramgen_init = (\<lambda>c. (0, c)),
      SSL_EVP_PKEY_paramgen = (\<lambda>c. (0, None)),
      SSL_EVP_PKEY_CTX_set_ec_paramgen_curve_nid = (\<lambda>c nid. (0, c)),
      SSL_EVP_PKEY_CTX_set_ec_param_enc = (\<lambda>c n. (0, c)),
      SSL_EVP_PKEY_get0_EC_KEY = (\<lambda>k. None),
      SSL_EC_KEY_get0_group = (\<lambda>e. None),
      SSL_EC_GROUP_get_degree = (\<lambda>g. 0),
      SSL_EC_GROUP_get_curve_name = (\<lambda>g. 0),
      SSL_EC_KEY_new_by_curve_name = (\<lambda>nid. None),
      SSL_EC_KEY_oct2key = (\<lambda>e b. (0, e)),
      SSL_EVP_PKEY_set1_EC_KEY = (\<lambda>k e. (0, k)),
      SSL_EC_KEY_key2buf = (\<lambda>e form. []),
      SSL_EVP_PKEY_derive_init = (\<lambda>c. (0, c)),
      SSL_EVP_PKEY_derive_set_peer = (\<lambda>c k. (0, c)),
      SSL_EVP_PKEY_derive_len = (\<lambda>c. (0, 0)),
      SSL_EVP_PKEY_derive = (\<lambda>c. (0, []))\<rparr>"

definition ref_pub :: "int \<times> bool \<Rightarrow> int \<times> bool" where
  "ref_pub k = (fst k, False)"

definition ref_rsa :: "int \<times> bool" where
  "ref_rsa = (EVP_PKEY_RSA, True)"

definition ref_signs :: "int \<times> bool \<Rightarrow> rsa_cfg \<Rightarrow> bytes \<Rightarrow> bool" where
  "ref_signs k cfg d \<longleftrightarrow> int (length d) \<le> INT_MAX"

lemma ref_ctx_new_laws: "ctx_new_laws ref_asym_lib (\<lambda>c. c)"
  by (simp add: ctx_new_laws_def ref_asym_lib_def)

lemma ref_signature_laws:
  "signature_laws ref_pctx_lib (\<lambda>c. c) ref_pub (\<lambda>k cfg d s. s = d) ref_signs"
  by (auto simp: signature_laws_def ref_pctx_lib_def sized_def ref_signs_def INT_MAX_def)

lemma ref_crypt_laws:
  "rsa_crypt_laws ref_pctx_lib (\<lambda>c. c) ref_pub (\<lambda>k. 2048) (\<lambda>k m. True)"
  by (auto simp: rsa_crypt_laws_def ref_pctx_lib_def sized_def INT_MAX_def cfg_fits_def Let_def
      split: if_splits option.splits)

lemma ref_rsa_types:
  "SSL_EVP_PKEY_type_of_id ref_asym_lib ref_rsa = EVP_PKEY_RSA"
  "SSL_EVP_PKEY_type_of_id ref_asym_lib (ref_pub ref_rsa) = EVP_PKEY_RSA"
  "getKeySize ref_asym_lib (ref_pub ref_rsa) = 2048"
  by (simp_all add: ref_asym_lib_def ref_rsa_def ref_pub_def getKeySize_def)

theorem RSA_roundtrip_witness:
  "\<exists>E D ct. RSAImpl_new ref_asym_lib (ref_pub ref_rsa) (OAEPPadding SHA256 (MGF1 SHA1) ''l'') = Inr E
     \<and> RSAImpl_new ref_asym_lib ref_rsa (OAEPPadding SHA256 (MGF1 SHA1) ''l'') = Inr D
     \<and> RSA_encrypt ref_asym_lib ref_pctx_lib 0 E [1, 2, 3] = Inr ct
     \<and> RSA_decrypt ref_asym_lib ref_pctx_lib D ct = Inr [1, 2, 3]"
proof -
  let ?p = "OAEPPadding SHA256 (MGF1 SHA1) ''l''"
  have check: "RSA_check_message ref_asym_lib ref_pctx_lib
      \<lparr>rsa_key = ref_pub ref_rsa, rsa_padding = ?p\<rparr> [1, 2, 3] = Inr ()"
    by (simp add: RSA_check_message_def ref_rsa_types OAEPPadding_checkMessageSize_def remaining_fits_def
        ref_pctx_lib_def ossl_simps INT_MAX_def)
  have bits: "getKeySize ref_asym_lib (ref_pub ref_rsa) = int 2048" "int 2048 \<le> INT_MAX"
    by (simp_all add: ref_rsa_types INT_MAX_def)
  show ?thesis
    by (rule RSA_roundtrip [OF ref_pctx_laws(1) ref_ctx_new_laws ref_crypt_laws ref_rsa_types(1,2)
          bits _ _ check]) (simp_all add: INT_MAX_def)
qed

theorem RSA_signature_witness:
  "\<exists>S V s. RSASignatureImpl_new ref_asym_lib ref_rsa SHA256 (PSSPadding None None) = Inr S
     \<and> RSASignatureImpl_new ref_asym_lib (ref_pub ref_rsa) SHA256 (PSSPadding None None) = Inr V
     \<and> RSA_signMessage ref_asym_lib ref_pctx_lib ref_digest_lib S 0 [1] = Inr s
     \<and> RSA_verifyMessage ref_asym_lib ref_pctx_lib ref_digest_lib V s [1] = Inr ()
     \<and> RSA_verifyMessage ref_asym_lib ref_pctx_lib ref_digest_lib V [9] [1] = Inl err_validation"
proof -
  have laws: "rsa_sig_laws ref_asym_lib ref_pctx_lib (\<lambda>c. c) ref_pub (\<lambda>k cfg d s. s = d) ref_signs
      SHA256 (PSSPadding None None)"
    by (simp add: rsa_sig_laws_def ref_pctx_laws ref_ctx_new_laws ref_signature_laws)
  have "md_of SHA256 = EVP_sha256" by (simp add: md_of_def)
  with RSA_signature [OF laws ref_digest_lib_laws ref_rsa_types(1,2), of "[1]" 0 "[9]" "[1]"]
  show ?thesis by (simp add: ref_signs_def INT_MAX_def err_validation_def resize_def)
qed

theorem RSA_errors_witness:
  "RSA_signDigest ref_asym_lib ref_pctx_lib (rsa_sig ref_rsa SHA1 PKCSPadding_sig) 0 [1] = Inl (err_digest_size 20)
   \<and> RSA_verifyDigest ref_asym_lib ref_pctx_lib (rsa_sig ref_rsa SHA1 PKCSPadding_sig) [2] [1]
     = Inl (err_digest_size 20)"
proof -
  have "getDigestSize SHA1 = Inr 20" by (simp add: getDigestSize_def lengthInBytes_def)
  with RSA_errors [where P = ref_asym_lib and C = ref_pctx_lib and rnd = 0 and d = "[1]" and s = "[2]" and n = 20
      and S = "rsa_sig ref_rsa SHA1 PKCSPadding_sig" and V = "rsa_sig ref_rsa SHA1 PKCSPadding_sig"
      and E = "\<lparr>rsa_key = ref_rsa, rsa_padding = PKCSPadding\<rparr>" and D = "\<lparr>rsa_key = ref_rsa, rsa_padding = PKCSPadding\<rparr>"
      and m = "[]" and e = "[]" and L = ref_digest_lib]
  show ?thesis by simp
qed

end
