(* ===== verification/Ecdsa_Ctx.thy ===== *)
theory Ecdsa_Ctx
  imports Rsa_Ctx
begin

text \<open>
  The elliptic curve part of \<open>src/src/asymmetric_crypto_ctx.cpp\<close>: ECDSA contexts with the
  two signature formats, and EdDSA contexts.
\<close>

section \<open>Big numbers and signatures of OpenSSL\<close>

text \<open>
  \<open>'b\<close> and \<open>'s\<close> are the types of \<open>BIGNUM\<close> and \<open>ECDSA_SIG\<close>.  \<open>BN_bin2bn\<close> takes the
  bytes the pointer addresses and the length it is given, \<open>i2d_ECDSA_SIG\<close> returns its
  status and the buffer it allocated.
\<close>

record ('b, 's) ecsig_lib =
  SSL_BN_bin2bn :: "bytes \<Rightarrow> int \<Rightarrow> 'b option"
  SSL_BN_bn2binpad :: "'b \<Rightarrow> int \<Rightarrow> int \<times> bytes"
  SSL_ECDSA_SIG_new :: "'s option"
  SSL_ECDSA_SIG_set0 :: "'s \<Rightarrow> 'b \<Rightarrow> 'b \<Rightarrow> int \<times> 's"
  SSL_ECDSA_SIG_get0_r :: "'s \<Rightarrow> 'b option"
  SSL_ECDSA_SIG_get0_s :: "'s \<Rightarrow> 'b option"
  SSL_i2d_ECDSA_SIG :: "'s \<Rightarrow> int \<times> bytes option"
  SSL_d2i_ECDSA_SIG :: "bytes \<Rightarrow> 's option"

definition ossl_BN_bin2bn :: "('b, 's) ecsig_lib \<Rightarrow> bytes \<Rightarrow> nat \<Rightarrow> 'b res" where
  [ossl_simps]: "ossl_BN_bin2bn B data dataLen =
     (if int dataLen > INT_MAX
      then Inl (OpenSSLException [Str ''INT_MAX is the maximum supported size for BIGNUM''])
      else OpensslCallPtr (SSL_BN_bin2bn B data (int dataLen)))"

definition ossl_BN_bn2binpad :: "('b, 's) ecsig_lib \<Rightarrow> 'b \<Rightarrow> int \<Rightarrow> bytes res" where
  [ossl_simps]: "ossl_BN_bn2binpad B bignum tolen =
     bindR (checkC OpensslCallIsPositive (SSL_BN_bn2binpad B bignum tolen)) (\<lambda>written.
       Inr (overwrite (replicate (nat tolen) 0) written))"

definition create_ECDSA_SIG :: "('b, 's) ecsig_lib \<Rightarrow> 's res" where
  [ossl_simps]: "create_ECDSA_SIG B = OpensslCallPtr (SSL_ECDSA_SIG_new B)"

definition ossl_ECDSA_SIG_set0 :: "('b, 's) ecsig_lib \<Rightarrow> 's \<Rightarrow> 'b \<Rightarrow> 'b \<Rightarrow> 's res" where
  [ossl_simps]: "ossl_ECDSA_SIG_set0 B sig r s = checkC OpensslCallIsOne (SSL_ECDSA_SIG_set0 B sig r s)"

definition ossl_ECDSA_SIG_get0_r :: "('b, 's) ecsig_lib \<Rightarrow> 's \<Rightarrow> 'b res" where
  [ossl_simps]: "ossl_ECDSA_SIG_get0_r B sig = OpensslCallPtr (SSL_ECDSA_SIG_get0_r B sig)"

definition ossl_ECDSA_SIG_get0_s :: "('b, 's) ecsig_lib \<Rightarrow> 's \<Rightarrow> 'b res" where
  [ossl_simps]: "ossl_ECDSA_SIG_get0_s B sig = OpensslCallPtr (SSL_ECDSA_SIG_get0_s B sig)"

definition ossl_i2d_ECDSA_SIG :: "('b, 's) ecsig_lib \<Rightarrow> 's \<Rightarrow> bytes res" where
  [ossl_simps]: "ossl_i2d_ECDSA_SIG B sig =
     (case SSL_i2d_ECDSA_SIG B sig of (result, outputBuffer) \<Rightarrow>
        if result \<le> 0
        then Inl (OpenSSLException [Str ''ECDSA Signature serialization to DER failed.''])
        else (case outputBuffer of
                None \<Rightarrow> Inl (OpenSSLException
                  [Str ''ECDSA Signature serialization to DER failed: Returned no data''])
              | Some b \<Rightarrow> Inr (take (nat result) b)))"

definition ossl_d2i_ECDSA_SIG :: "('b, 's) ecsig_lib \<Rightarrow> bytes \<Rightarrow> 's res" where
  [ossl_simps]: "ossl_d2i_ECDSA_SIG B signature = OpensslCallPtr (SSL_d2i_ECDSA_SIG B signature)"

section \<open>Signature formats\<close>

datatype ECSDASignatureFormat = SDA_ASN1_SEQUENCE_OF_INTS | SDA_IEEE1363

datatype ECDSASignatureFormat = ASN1_SEQUENCE_OF_INTS | IEEE1363

primrec SDAtoDSASignatureFormat :: "ECSDASignatureFormat \<Rightarrow> ECDSASignatureFormat" where
  "SDAtoDSASignatureFormat SDA_ASN1_SEQUENCE_OF_INTS = ASN1_SEQUENCE_OF_INTS"
| "SDAtoDSASignatureFormat SDA_IEEE1363 = IEEE1363"

definition Asn1ECSignatureToIEEE1363EcSignature ::
  "('b, 's) ecsig_lib \<Rightarrow> bytes \<Rightarrow> nat \<Rightarrow> bytes res" where
  "Asn1ECSignatureToIEEE1363EcSignature B signature keySizeBytes =
     bindR (ossl_d2i_ECDSA_SIG B signature) (\<lambda>ecdsa.
     bindR (ossl_ECDSA_SIG_get0_r B ecdsa) (\<lambda>r.
     bindR (ossl_ECDSA_SIG_get0_s B ecdsa) (\<lambda>s.
     bindR (ossl_BN_bn2binpad B r (to_int keySizeBytes)) (\<lambda>ieee.
     bindR (ossl_BN_bn2binpad B s (to_int keySizeBytes)) (\<lambda>s_vec.
       Inr (ieee @ s_vec))))))"

definition err_signature_size :: exn where
  "err_signature_size = MoCOCrWException [Str ''Invalid signature size.'']"

text \<open>
  The numbers come from checked calls, so the guard on null pointers that follows them in the
  source cannot fire.
\<close>

definition IEEE1363EcSignatureToAsn1ECSignature ::
  "('b, 's) ecsig_lib \<Rightarrow> bytes \<Rightarrow> nat \<Rightarrow> bytes res" where
  "IEEE1363EcSignatureToAsn1ECSignature B signature keySizeBytes =
     (if length signature \<noteq> 2 * keySizeBytes then Inl err_signature_size
      else bindR (ossl_BN_bin2bn B signature keySizeBytes) (\<lambda>r.
           bindR (ossl_BN_bin2bn B (drop keySizeBytes signature) keySizeBytes) (\<lambda>s.
           bindR (create_ECDSA_SIG B) (\<lambda>ecdsa.
           bindR (ossl_ECDSA_SIG_set0 B ecdsa r s) (\<lambda>ecdsa.
             ossl_i2d_ECDSA_SIG B ecdsa)))))"

section \<open>ECDSA contexts\<close>

record 'k ECDSAImpl =
  ec_key :: 'k
  ec_sigFormat :: ECDSASignatureFormat
  ec_hashFunction :: DigestTypes

definition err_not_ecc :: exn where
  "err_not_ecc = MoCOCrWException [Str ''Expected ECC Key for ECC signatures'']"

definition ECDSAImpl_new ::
  "('k, 'e, 'g, 'c) pkey_lib \<Rightarrow> 'k \<Rightarrow> DigestTypes \<Rightarrow> ECDSASignatureFormat \<Rightarrow> 'k ECDSAImpl res" where
  "ECDSAImpl_new P key hashFunction sigFormat =
     bindR (getType P key) (\<lambda>t. if t \<noteq> ECC then Inl err_not_ecc
       else Inr \<lparr>ec_key = key, ec_sigFormat = sigFormat, ec_hashFunction = hashFunction\<rparr>)"

text \<open>The number of bits of a key is not negative, so the division rounds down.\<close>

definition key_size_bytes :: "('k, 'e, 'g, 'c) pkey_lib \<Rightarrow> 'k \<Rightarrow> nat" where
  "key_size_bytes P key = nat ((getKeySize P key + 7) div 8)"

definition ECDSA_signAsn1 ::
  "('k, 'e, 'g, 'c) pkey_lib \<Rightarrow> 'c pctx_lib \<Rightarrow> 'k ECDSAImpl \<Rightarrow> nat \<Rightarrow> bytes \<Rightarrow> bytes res" where
  "ECDSA_signAsn1 P C S rnd messageDigest =
     bindR (check_digest (ec_hashFunction S) messageDigest) (\<lambda>_.
     catchOpenSSL
       (bindR (ossl_EVP_PKEY_CTX_new P (ec_key S)) (\<lambda>keyCtx.
        bindR (ossl_EVP_PKEY_sign_init C keyCtx) (\<lambda>keyCtx.
          signHelper C rnd keyCtx messageDigest)))
       MoCOCrWException)"

definition ECDSA_signDigest ::
  "('k, 'e, 'g, 'c) pkey_lib \<Rightarrow> 'c pctx_lib \<Rightarrow> ('b, 's) ecsig_lib \<Rightarrow> 'k ECDSAImpl \<Rightarrow> nat \<Rightarrow> bytes \<Rightarrow> bytes res" where
  "ECDSA_signDigest P C B S rnd messageDigest =
     bindR (ECDSA_signAsn1 P C S rnd messageDigest) (\<lambda>signature.
       (case ec_sigFormat S of
          ASN1_SEQUENCE_OF_INTS \<Rightarrow> Inr signature
        | IEEE1363 \<Rightarrow> Asn1ECSignatureToIEEE1363EcSignature B signature (key_size_bytes P (ec_key S))))"

definition ECDSA_signMessage ::
  "('k, 'e, 'g, 'c) pkey_lib \<Rightarrow> 'c pctx_lib \<Rightarrow> ('b, 's) ecsig_lib \<Rightarrow> 'd digest_lib \<Rightarrow>
     'k ECDSAImpl \<Rightarrow> nat \<Rightarrow> bytes \<Rightarrow> bytes res" where
  "ECDSA_signMessage P C B L S rnd m =
     bindR (createHash L (ec_hashFunction S) m) (ECDSA_signDigest P C B S rnd)"

definition ECDSA_verifyAsn1 ::
  "('k, 'e, 'g, 'c) pkey_lib \<Rightarrow> 'c pctx_lib \<Rightarrow> 'k ECDSAImpl \<Rightarrow> bytes \<Rightarrow> bytes \<Rightarrow> unit res" where
  "ECDSA_verifyAsn1 P C V signature messageDigest =
     bindR (check_digest (ec_hashFunction V) messageDigest) (\<lambda>_.
     catchOpenSSL
       (bindR (ossl_EVP_PKEY_CTX_new P (ec_key V)) (\<lambda>keyCtx.
        bindR (ossl_EVP_PKEY_verify_init C keyCtx) (\<lambda>keyCtx.
          ossl_EVP_PKEY_verify C keyCtx signature messageDigest)))
       validation_failed)"

definition ECDSA_verifyDigest ::
  "('k, 'e, 'g, 'c) pkey_lib \<Rightarrow> 'c pctx_lib \<Rightarrow> ('b, 's) ecsig_lib \<Rightarrow> 'k ECDSAImpl \<Rightarrow> bytes \<Rightarrow> bytes \<Rightarrow> unit res" where
  "ECDSA_verifyDigest P C B V signature messageDigest =
     (case ec_sigFormat V of
        IEEE1363 \<Rightarrow>
          bindR (IEEE1363EcSignatureToAsn1ECSignature B signature (key_size_bytes P (ec_key V)))
            (\<lambda>asn1Signature. ECDSA_verifyAsn1 P C V asn1Signature messageDigest)
      | ASN1_SEQUENCE_OF_INTS \<Rightarrow> ECDSA_verifyAsn1 P C V signature messageDigest)"

definition ECDSA_verifyMessage ::
  "('k, 'e, 'g, 'c) pkey_lib \<Rightarrow> 'c pctx_lib \<Rightarrow> ('b, 's) ecsig_lib \<Rightarrow> 'd digest_lib \<Rightarrow>
     'k ECDSAImpl \<Rightarrow> bytes \<Rightarrow> bytes \<Rightarrow> unit res" where
  "ECDSA_verifyMessage P C B L V signature m =
     bindR (createHash L (ec_hashFunction V) m) (ECDSA_verifyDigest P C B V signature)"

section \<open>EdDSA contexts\<close>

record ('k, 'd) eddsa_lib =
  SSL_EVP_DigestSignInit :: "'d \<Rightarrow> EVP_MD option \<Rightarrow> 'k \<Rightarrow> int \<times> 'd"
  SSL_EVP_DigestSign_len :: "'d \<Rightarrow> bytes \<Rightarrow> int \<times> nat"
  SSL_EVP_DigestSign :: "'d \<Rightarrow> bytes \<Rightarrow> int \<times> bytes"
  SSL_EVP_DigestVerifyInit :: "'d \<Rightarrow> EVP_MD option \<Rightarrow> 'k \<Rightarrow> int \<times> 'd"
  SSL_EVP_DigestVerify :: "'d \<Rightarrow> bytes \<Rightarrow> bytes \<Rightarrow> int"

definition optional_md :: "DigestTypes \<Rightarrow> EVP_MD option res" where
  "optional_md type =
     (if type \<noteq> NONE then bindR (getMDPtrFromDigestType type) (\<lambda>md. Inr (Some md)) else Inr None)"

definition ossl_EVP_DigestSignInit :: "('k, 'd) eddsa_lib \<Rightarrow> DigestTypes \<Rightarrow> 'k \<Rightarrow> 'd \<Rightarrow> 'd res" where
  "ossl_EVP_DigestSignInit X type pkey ctx =
     bindR (optional_md type) (\<lambda>md. checkC OpensslCallIsOne (SSL_EVP_DigestSignInit X ctx md pkey))"

definition ossl_EVP_DigestSign_len :: "('k, 'd) eddsa_lib \<Rightarrow> 'd \<Rightarrow> bytes \<Rightarrow> nat res" where
  [ossl_simps]: "ossl_EVP_DigestSign_len X ctx m = checkC OpensslCallIsOne (SSL_EVP_DigestSign_len X ctx m)"

definition ossl_EVP_DigestSign :: "('k, 'd) eddsa_lib \<Rightarrow> 'd \<Rightarrow> bytes \<Rightarrow> bytes res" where
  [ossl_simps]: "ossl_EVP_DigestSign X ctx m = checkC OpensslCallIsOne (SSL_EVP_DigestSign X ctx m)"

definition ossl_EVP_DigestVerifyInit :: "('k, 'd) eddsa_lib \<Rightarrow> DigestTypes \<Rightarrow> 'k \<Rightarrow> 'd \<Rightarrow> 'd res" where
  "ossl_EVP_DigestVerifyInit X type pkey ctx =
     bindR (optional_md type) (\<lambda>md. checkC OpensslCallIsOne (SSL_EVP_DigestVerifyInit X ctx md pkey))"

definition ossl_EVP_DigestVerify :: "('k, 'd) eddsa_lib \<Rightarrow> 'd \<Rightarrow> bytes \<Rightarrow> bytes \<Rightarrow> unit res" where
  [ossl_simps]: "ossl_EVP_DigestVerify X ctx sig m =
     bindR (OpensslCallIsOne (SSL_EVP_DigestVerify X ctx sig m)) (\<lambda>_. Inr ())"

record 'k EdDSAImpl =
  ed_key :: 'k

definition err_not_ed :: exn where
  "err_not_ed = MoCOCrWException [Str ''Expected Ed448 or Ed25519 Key for EdDSA signatures'']"

definition EdDSAImpl_new :: "('k, 'e, 'g, 'c) pkey_lib \<Rightarrow> 'k \<Rightarrow> 'k EdDSAImpl res" where
  "EdDSAImpl_new P key =
     bindR (getType P key) (\<lambda>t. if t \<noteq> ECC_ED then Inl err_not_ed else Inr \<lparr>ed_key = key\<rparr>)"

definition EdDSA_signMessage ::
  "'d digest_lib \<Rightarrow> ('k, 'd) eddsa_lib \<Rightarrow> 'k EdDSAImpl \<Rightarrow> bytes \<Rightarrow> bytes res" where
  "EdDSA_signMessage L X S message =
     catchOpenSSL
       (bindR (ossl_EVP_MD_CTX_create L) (\<lambda>mctx.
        bindR (ossl_EVP_DigestSignInit X NONE (ed_key S) mctx) (\<lambda>mctx.
        bindR (ossl_EVP_DigestSign_len X mctx message) (\<lambda>siglen.
        bindR (ossl_EVP_DigestSign X mctx message) (\<lambda>out.
          Inr (overwrite (resize [] siglen) out))))))
       MoCOCrWException"

definition EdDSA_verifyMessage ::
  "'d digest_lib \<Rightarrow> ('k, 'd) eddsa_lib \<Rightarrow> 'k EdDSAImpl \<Rightarrow> bytes \<Rightarrow> bytes \<Rightarrow> unit res" where
  "EdDSA_verifyMessage L X V signature message =
     catchOpenSSL
       (bindR (ossl_EVP_MD_CTX_create L) (\<lambda>mctx.
        bindR (ossl_EVP_DigestVerifyInit X NONE (ed_key V) mctx) (\<lambda>mctx.
          ossl_EVP_DigestVerify X mctx signature message)))
       validation_failed"

section \<open>Big endian numbers\<close>

fun be_nat :: "bytes \<Rightarrow> nat" where
  "be_nat bs = foldl (\<lambda>a b. a * 256 + unat b) 0 bs"

fun be_bytes :: "nat \<Rightarrow> nat \<Rightarrow> bytes" where
  "be_bytes 0 v = []"
| "be_bytes (Suc n) v = be_bytes n (v div 256) @ [word_of_nat v]"

lemma length_be_bytes [simp]: "length (be_bytes n v) = n"
  by (induction n arbitrary: v) simp_all

lemma be_nat_snoc: "be_nat (bs @ [b]) = be_nat bs * 256 + unat b"
  by simp

lemma be_nat_be_bytes: "v < 256 ^ n \<Longrightarrow> be_nat (be_bytes n v) = v"
proof (induction n arbitrary: v)
  case (Suc n)
  have "v div 256 < 256 ^ n" using Suc.prems by (simp add: less_mult_imp_div_less mult.commute)
  moreover have "unat (word_of_nat v :: byte) = v mod 256"
    by (simp add: unsigned_of_nat take_bit_eq_mod)
  ultimately show ?case
    using Suc.IH by (simp only: be_bytes.simps be_nat_snoc) simp
qed simp

lemma be_nat_bound: "be_nat bs < 256 ^ length bs"
proof (induction bs rule: rev_induct)
  case (snoc b bs)
  have "unat b < 256" using unsigned_less [of b, where 'a = nat] by simp
  with snoc show ?case by (simp only: be_nat_snoc length_append_singleton power_Suc)
qed simp

lemma byte_times_256: "x * 256 = (0 :: byte)"
proof -
  have "(256 :: byte) = 0" by simp
  then show ?thesis by (simp only: mult_zero_right)
qed

lemma be_bytes_be_nat: "be_bytes (length bs) (be_nat bs) = bs"
proof (induction bs rule: rev_induct)
  case (snoc b bs)
  have "unat b < 256" using unsigned_less [of b, where 'a = nat] by simp
  then have "(be_nat bs * 256 + unat b) div 256 = be_nat bs" by simp
  moreover have "(word_of_nat (be_nat bs * 256 + unat b) :: byte) = b"
    by (simp add: byte_times_256 del: be_nat.simps)
  ultimately show ?case
    using snoc by (simp only: be_nat_snoc length_append_singleton be_bytes.simps)
qed simp

section \<open>What OpenSSL documents about ECDSA signatures\<close>

text \<open>
  \<open>val\<close> is the value of a \<open>BIGNUM\<close>, \<open>rs\<close> the pair of numbers in an \<open>ECDSA_SIG\<close>,
  \<open>der\<close> the DER encoding of a pair.  A new \<open>ECDSA_SIG\<close> holds no numbers, and nothing is said
  of it; it holds a pair once \<open>set0\<close> has filled it, and so does one that was parsed.
\<close>

definition ecsig_holds :: "('b, 's) ecsig_lib \<Rightarrow> ('b \<Rightarrow> nat) \<Rightarrow> (nat \<times> nat \<Rightarrow> bytes) \<Rightarrow> nat \<times> nat \<Rightarrow> 's \<Rightarrow> bool" where
  "ecsig_holds B val der p sig \<longleftrightarrow>
     (\<exists>r. SSL_ECDSA_SIG_get0_r B sig = Some r \<and> val r = fst p)
     \<and> (\<exists>s. SSL_ECDSA_SIG_get0_s B sig = Some s \<and> val s = snd p)
     \<and> SSL_i2d_ECDSA_SIG B sig = (int (length (der p)), Some (der p)) \<and> der p \<noteq> []"

definition ecsig_laws ::
  "('b, 's) ecsig_lib \<Rightarrow> ('b \<Rightarrow> nat) \<Rightarrow> ('s \<Rightarrow> nat \<times> nat) \<Rightarrow> (nat \<times> nat \<Rightarrow> bytes) \<Rightarrow> bool" where
  "ecsig_laws B val rs der \<longleftrightarrow>
     (\<forall>data len. len \<le> length data \<longrightarrow>
        (\<exists>b. SSL_BN_bin2bn B data (int len) = Some b \<and> val b = be_nat (take len data)))
     \<and> (\<forall>b n. n > 0 \<and> val b < 256 ^ n \<longrightarrow> SSL_BN_bn2binpad B b (int n) = (int n, be_bytes n (val b)))
     \<and> SSL_ECDSA_SIG_new B \<noteq> None
     \<and> (\<forall>sig r s. \<exists>sig'. SSL_ECDSA_SIG_set0 B sig r s = (1, sig') \<and> rs sig' = (val r, val s)
          \<and> ecsig_holds B val der (val r, val s) sig')
     \<and> (\<forall>p. \<exists>sig. SSL_d2i_ECDSA_SIG B (der p) = Some sig \<and> rs sig = p \<and> ecsig_holds B val der p sig)"

lemmas ecsigD = ecsig_laws_def [THEN iffD1]
lemmas bin2bnD = ecsigD [THEN conjunct1, rule_format]
  and bn2binpadD = ecsigD [THEN conjunct2, THEN conjunct1, rule_format]
  and sig_newD = ecsigD [THEN conjunct2, THEN conjunct2, THEN conjunct1]
  and set0D = ecsigD [THEN conjunct2, THEN conjunct2, THEN conjunct2, THEN conjunct1, rule_format]
  and d2iD = ecsigD [THEN conjunct2, THEN conjunct2, THEN conjunct2, THEN conjunct2, rule_format]

definition halves :: "nat \<Rightarrow> bytes \<Rightarrow> nat \<times> nat" where
  "halves n sig = (be_nat (take n sig), be_nat (drop n sig))"

lemma halves_be_bytes:
  "r < 256 ^ n \<Longrightarrow> s < 256 ^ n \<Longrightarrow> halves n (be_bytes n r @ be_bytes n s) = (r, s)"
  by (simp add: halves_def be_nat_be_bytes del: be_nat.simps)

lemma be_bytes_halves:
  "length sig = 2 * n \<Longrightarrow> be_bytes n (fst (halves n sig)) @ be_bytes n (snd (halves n sig)) = sig"
  using be_bytes_be_nat [of "take n sig"] be_bytes_be_nat [of "drop n sig"]
  by (simp add: halves_def del: be_nat.simps)

lemma halves_bound:
  "length sig = 2 * n \<Longrightarrow> fst (halves n sig) < 256 ^ n \<and> snd (halves n sig) < 256 ^ n"
  using be_nat_bound [of "take n sig"] be_nat_bound [of "drop n sig"]
  by (simp add: halves_def del: be_nat.simps)

lemma Asn1_to_IEEE:
  assumes "ecsig_laws B val rs der" "0 < n" "int n \<le> INT_MAX" "r < 256 ^ n" "s < 256 ^ n"
  shows "Asn1ECSignatureToIEEE1363EcSignature B (der (r, s)) n = Inr (be_bytes n r @ be_bytes n s)"
proof -
  obtain sig where sig: "SSL_d2i_ECDSA_SIG B (der (r, s)) = Some sig" "ecsig_holds B val der (r, s) sig"
    using d2iD [OF assms(1)] by blast
  obtain br bs where b: "SSL_ECDSA_SIG_get0_r B sig = Some br" "val br = r"
    "SSL_ECDSA_SIG_get0_s B sig = Some bs" "val bs = s"
    using sig(2) by (auto simp: ecsig_holds_def)
  have "SSL_BN_bn2binpad B br (int n) = (int n, be_bytes n r)"
    "SSL_BN_bn2binpad B bs (int n) = (int n, be_bytes n s)"
    using bn2binpadD [OF assms(1)] assms(2,4,5) b by blast+
  with sig(1) b assms(2) to_int_small [OF assms(3)] show ?thesis
    by (simp add: Asn1ECSignatureToIEEE1363EcSignature_def ossl_simps checkC_all)
qed

lemma IEEE_to_Asn1:
  assumes "ecsig_laws B val rs der" "int n \<le> INT_MAX"
  shows "IEEE1363EcSignatureToAsn1ECSignature B sig n =
     (if length sig = 2 * n then Inr (der (halves n sig)) else Inl err_signature_size)"
proof (cases "length sig = 2 * n")
  case True
  obtain r where r: "SSL_BN_bin2bn B sig (int n) = Some r" "val r = be_nat (take n sig)"
    using bin2bnD [OF assms(1), of n sig] True by auto
  obtain s where s: "SSL_BN_bin2bn B (drop n sig) (int n) = Some s" "val s = be_nat (drop n sig)"
    using bin2bnD [OF assms(1), of n "drop n sig"] True by auto
  obtain e where e: "SSL_ECDSA_SIG_new B = Some e" using sig_newD [OF assms(1)] by blast
  obtain e' where e': "SSL_ECDSA_SIG_set0 B e r s = (1, e')" "ecsig_holds B val der (halves n sig) e'"
    using set0D [OF assms(1), of e r s] r(2) s(2) by (auto simp: halves_def simp del: be_nat.simps)
  have "SSL_i2d_ECDSA_SIG B e' = (int (length (der (halves n sig))), Some (der (halves n sig)))"
    "der (halves n sig) \<noteq> []"
    using e'(2) by (simp_all add: ecsig_holds_def)
  with True r(1) s(1) e e'(1) assms(2) show ?thesis
    by (simp add: IEEE1363EcSignatureToAsn1ECSignature_def ossl_simps checkC_all)
qed (simp add: IEEE1363EcSignatureToAsn1ECSignature_def)

text \<open>
  C11: The two conversions of ECDSA signatures are inverse to each other: from the raw form
  through ASN.1 back to the same bytes, and from the DER encoding of two numbers that fit the
  key size through the raw form back to the same encoding.  A raw signature that is not twice
  the key size is refused.
\<close>

theorem signature_formats_inverse:
  assumes "ecsig_laws B val rs der" "0 < n" "int n \<le> INT_MAX"
  shows "(length sig = 2 * n \<longrightarrow>
      bindR (IEEE1363EcSignatureToAsn1ECSignature B sig n)
        (\<lambda>asn1. Asn1ECSignatureToIEEE1363EcSignature B asn1 n) = Inr sig)
   \<and> (r < 256 ^ n \<and> s < 256 ^ n \<longrightarrow>
      bindR (Asn1ECSignatureToIEEE1363EcSignature B (der (r, s)) n)
        (\<lambda>ieee. IEEE1363EcSignatureToAsn1ECSignature B ieee n) = Inr (der (r, s)))
   \<and> (length sig \<noteq> 2 * n \<longrightarrow>
      IEEE1363EcSignatureToAsn1ECSignature B sig n = Inl err_signature_size)"
proof (intro conjI impI)
  assume len: "length sig = 2 * n"
  have "halves n sig = (fst (halves n sig), snd (halves n sig))" by simp
  with Asn1_to_IEEE [OF assms, of "fst (halves n sig)" "snd (halves n sig)"] halves_bound [OF len]
    be_bytes_halves [OF len] IEEE_to_Asn1 [OF assms(1,3), of sig] len
  show "bindR (IEEE1363EcSignatureToAsn1ECSignature B sig n)
      (\<lambda>asn1. Asn1ECSignatureToIEEE1363EcSignature B asn1 n) = Inr sig" by simp
next
  assume b: "r < 256 ^ n \<and> s < 256 ^ n"
  with Asn1_to_IEEE [OF assms, of r s] IEEE_to_Asn1 [OF assms(1,3), of "be_bytes n r @ be_bytes n s"]
    halves_be_bytes [of r n s]
  show "bindR (Asn1ECSignatureToIEEE1363EcSignature B (der (r, s)) n)
      (\<lambda>ieee. IEEE1363EcSignatureToAsn1ECSignature B ieee n) = Inr (der (r, s))" by simp
qed (simp add: IEEE_to_Asn1 [OF assms(1,3)])

section \<open>Signing and verifying\<close>

text \<open>A signature OpenSSL makes is the DER encoding of two numbers below the group order.\<close>

definition ecdsa_laws ::
  "('k, 'e, 'g, 'c) pkey_lib \<Rightarrow> 'c pctx_lib \<Rightarrow> ('b, 's) ecsig_lib \<Rightarrow> ('c \<Rightarrow> 'k pview) \<Rightarrow> ('k \<Rightarrow> 'k) \<Rightarrow>
     ('k \<Rightarrow> rsa_cfg \<Rightarrow> bytes \<Rightarrow> bytes \<Rightarrow> bool) \<Rightarrow> ('k \<Rightarrow> rsa_cfg \<Rightarrow> bytes \<Rightarrow> bool) \<Rightarrow>
     ('b \<Rightarrow> nat) \<Rightarrow> ('s \<Rightarrow> nat \<times> nat) \<Rightarrow> (nat \<times> nat \<Rightarrow> bytes) \<Rightarrow> 'k \<Rightarrow> DigestTypes \<Rightarrow> bool" where
  "ecdsa_laws P C B view pub valid signs val rs der k h \<longleftrightarrow>
     pctx_laws C view \<and> ctx_new_laws P view \<and> signature_laws C view pub valid signs
     \<and> ecsig_laws B val rs der \<and> h \<noteq> NONE
     \<and> key_size_bytes P k = key_size_bytes P (pub k)
     \<and> 0 < key_size_bytes P k \<and> int (key_size_bytes P k) \<le> INT_MAX
     \<and> (\<forall>c cfg d rnd. view c = (k, OpSign, cfg) \<and> signs k cfg d \<longrightarrow>
          (\<exists>r s. snd (SSL_EVP_PKEY_sign C rnd c d) = der (r, s)
             \<and> r < 256 ^ key_size_bytes P k \<and> s < 256 ^ key_size_bytes P k))"

definition ecdsa_accepts ::
  "('k \<Rightarrow> rsa_cfg \<Rightarrow> bytes \<Rightarrow> bytes \<Rightarrow> bool) \<Rightarrow> (nat \<times> nat \<Rightarrow> bytes) \<Rightarrow> nat \<Rightarrow>
     ECDSASignatureFormat \<Rightarrow> 'k \<Rightarrow> bytes \<Rightarrow> bytes \<Rightarrow> bool" where
  "ecdsa_accepts valid der n fmt pk d sig \<longleftrightarrow>
     (case fmt of
        ASN1_SEQUENCE_OF_INTS \<Rightarrow> valid pk cfg_default d sig
      | IEEE1363 \<Rightarrow> length sig = 2 * n \<and> valid pk cfg_default d (der (halves n sig)))"

definition ecdsa_ctx :: "'k \<Rightarrow> DigestTypes \<Rightarrow> ECDSASignatureFormat \<Rightarrow> 'k ECDSAImpl" where
  "ecdsa_ctx k h fmt = \<lparr>ec_key = k, ec_sigFormat = fmt, ec_hashFunction = h\<rparr>"

lemma ecdsa_ctx_simps [simp]:
  "ec_key (ecdsa_ctx k h f) = k" "ec_sigFormat (ecdsa_ctx k h f) = f" "ec_hashFunction (ecdsa_ctx k h f) = h"
  by (simp_all add: ecdsa_ctx_def)

lemma ecdsa_lawsD:
  assumes "ecdsa_laws P C B view pub valid signs val rs der k h"
  shows "pctx_laws C view" "ctx_new_laws P view" "signature_laws C view pub valid signs"
    "ecsig_laws B val rs der" "h \<noteq> NONE" "malloc_laws C"
    "key_size_bytes P k = key_size_bytes P (pub k)"
    "0 < key_size_bytes P k" "int (key_size_bytes P k) \<le> INT_MAX"
    "\<And>c cfg d rnd. view c = (k, OpSign, cfg) \<Longrightarrow> signs k cfg d \<Longrightarrow>
          \<exists>r s. snd (SSL_EVP_PKEY_sign C rnd c d) = der (r, s)
             \<and> r < 256 ^ key_size_bytes P k \<and> s < 256 ^ key_size_bytes P k"
  using assms unfolding ecdsa_laws_def pctx_laws_def by blast+

lemma ECDSA_signAsn1_ok:
  assumes "ecdsa_laws P C B view pub valid signs val rs der k h" "length d = md_size (md_of h)"
    and "signs k cfg_default d"
  shows "\<exists>r s. ECDSA_signAsn1 P C (ecdsa_ctx k h f) rnd d = Inr (der (r, s))
     \<and> r < 256 ^ key_size_bytes P k \<and> s < 256 ^ key_size_bytes P k \<and> valid (pub k) cfg_default d (der (r, s))"
proof -
  note l = ecdsa_lawsD [OF assms(1)]
  obtain c0 c where c: "ossl_EVP_PKEY_CTX_new P k = Inr c0" "ossl_EVP_PKEY_sign_init C c0 = Inr c"
    "view c = (k, OpSign, cfg_default)" using init_step(1) [OF l(1,2)] by blast
  have s: "sized (SSL_EVP_PKEY_sign_len C c d) (SSL_EVP_PKEY_sign C rnd c d)"
    "valid (pub k) cfg_default d (snd (SSL_EVP_PKEY_sign C rnd c d))"
    using signD [OF l(3), of c k cfg_default d rnd] c(3) assms(3) by blast+
  obtain r t where "snd (SSL_EVP_PKEY_sign C rnd c d) = der (r, t)"
    "r < 256 ^ key_size_bytes P k" "t < 256 ^ key_size_bytes P k"
    using l(10) [OF c(3) assms(3)] by blast
  with s(2) c(1,2) l(5) assms(2) sized_call [OF l(6) s(1)] show ?thesis
    by (auto simp: ECDSA_signAsn1_def check_digest_ok signHelper_two_calls)
qed

lemma ECDSA_verifyAsn1_iff:
  assumes "ecdsa_laws P C B view pub valid signs val rs der k' h" "length d = md_size (md_of h)"
  shows "ECDSA_verifyAsn1 P C (ecdsa_ctx k h f) sig d = Inr () \<longleftrightarrow> valid k cfg_default d sig"
proof -
  note l = ecdsa_lawsD [OF assms(1)]
  obtain c0 c where c: "ossl_EVP_PKEY_CTX_new P k = Inr c0" "ossl_EVP_PKEY_verify_init C c0 = Inr c"
    "view c = (k, OpVerify, cfg_default)" using init_step(2) [OF l(1,2)] by blast
  from c(1,2) l(5) assms(2) verifyD [OF l(3) c(3), of sig d] show ?thesis
    by (simp add: ECDSA_verifyAsn1_def check_digest_ok ossl_EVP_PKEY_verify_def)
qed

lemma ECDSA_signDigest_ok:
  assumes "ecdsa_laws P C B view pub valid signs val rs der k h" "length d = md_size (md_of h)"
    and "signs k cfg_default d"
  shows "\<exists>s. ECDSA_signDigest P C B (ecdsa_ctx k h f) rnd d = Inr s
     \<and> ecdsa_accepts valid der (key_size_bytes P k) f (pub k) d s"
proof -
  note l = ecdsa_lawsD [OF assms(1)]
  obtain r t where rt: "ECDSA_signAsn1 P C (ecdsa_ctx k h f) rnd d = Inr (der (r, t))"
    "r < 256 ^ key_size_bytes P k" "t < 256 ^ key_size_bytes P k" "valid (pub k) cfg_default d (der (r, t))"
    using ECDSA_signAsn1_ok [OF assms] by blast
  with Asn1_to_IEEE [OF l(4,8,9) rt(2,3)] halves_be_bytes [OF rt(2,3)] show ?thesis
    by (cases f) (simp_all add: ECDSA_signDigest_def ecdsa_accepts_def)
qed

lemma ECDSA_verifyDigest_iff:
  assumes "ecdsa_laws P C B view pub valid signs val rs der k h" "length d = md_size (md_of h)"
  shows "ECDSA_verifyDigest P C B (ecdsa_ctx (pub k) h f) s d = Inr () \<longleftrightarrow>
     ecdsa_accepts valid der (key_size_bytes P k) f (pub k) d s"
proof -
  note l = ecdsa_lawsD [OF assms(1)]
  show ?thesis
    using IEEE_to_Asn1 [OF l(4,9), of s] ECDSA_verifyAsn1_iff [OF assms, of "pub k" f] l(7)
    by (cases f) (auto simp: ECDSA_verifyDigest_def ecdsa_accepts_def)
qed

interpretation ecdsa: digest_signature "ECDSA_signDigest P C B (ecdsa_ctx k h f)"
  "ECDSA_verifyDigest P C B (ecdsa_ctx (pub k) h f)"
  "ecdsa_laws P C B view pub valid signs val rs der k h"
  "md_size (md_of h)" "signs k cfg_default" "ecdsa_accepts valid der (key_size_bytes P k) f (pub k)"
  for P C B k h f pub view valid signs val rs der
  by unfold_locales (rule ECDSA_signDigest_ok ECDSA_verifyDigest_iff; assumption)+

lemma ECDSAImpl_new_ok:
  "SSL_EVP_PKEY_type_of_id P k = EVP_PKEY_EC \<Longrightarrow> ECDSAImpl_new P k h f = Inr (ecdsa_ctx k h f)"
  by (simp add: ECDSAImpl_new_def getType_def ossl_simps pkey_types ecdsa_ctx_def)

text \<open>
  C12: A message signed with an elliptic curve key in either signature format is accepted by
  the verification context for the public key, the digest and the same format; in the raw
  format that context accepts exactly the signatures of twice the key size whose halves,
  encoded as ASN.1, are valid for the digest of the message.
\<close>

theorem ECDSA_signature:
  assumes "ecdsa_laws P C B view pub valid signs val rs der k h" "digest_lib_laws L absorbed H"
    and "SSL_EVP_PKEY_type_of_id P k = EVP_PKEY_EC" "SSL_EVP_PKEY_type_of_id P (pub k) = EVP_PKEY_EC"
    and "signs k cfg_default (H (md_of h) m)"
  shows "\<exists>S V s. ECDSAImpl_new P k h f = Inr S \<and> ECDSAImpl_new P (pub k) h f = Inr V
     \<and> ECDSA_signMessage P C B L S rnd m = Inr s \<and> ECDSA_verifyMessage P C B L V s m = Inr ()
     \<and> (ECDSA_verifyMessage P C B L V s' m' = Inr () \<longleftrightarrow>
          ecdsa_accepts valid der (key_size_bytes P k) f (pub k) (H (md_of h) m') s')"
proof -
  have "h \<noteq> NONE" using assms(1) by (simp add: ecdsa_laws_def)
  then have hash: "createHash L h x = Inr (H (md_of h) x)" for x
    using createHash_laws [OF assms(2)] md_of by blast
  have len: "length (H (md_of h) x) = md_size (md_of h)" for x
    using assms(2) by (simp add: digest_lib_laws_def)
  show ?thesis
    using ecdsa.message_signature [OF assms(1), of "createHash L h" "H (md_of h)" m f rnd m' s',
        OF hash len assms(5)]
    by (auto simp: ECDSAImpl_new_ok [OF assms(3)] ECDSAImpl_new_ok [OF assms(4)]
        ECDSA_signMessage_def ECDSA_verifyMessage_def)
qed

section \<open>EdDSA\<close>

definition eddsa_laws ::
  "'d digest_lib \<Rightarrow> ('k, 'd) eddsa_lib \<Rightarrow> ('d \<Rightarrow> 'k) \<Rightarrow> ('k \<Rightarrow> 'k) \<Rightarrow> ('k \<Rightarrow> bytes \<Rightarrow> bytes \<Rightarrow> bool) \<Rightarrow> bool" where
  "eddsa_laws L X dkey pub valid \<longleftrightarrow>
     SSL_EVP_MD_CTX_create L \<noteq> None
     \<and> (\<forall>c k. fst (SSL_EVP_DigestSignInit X c None k) = 1 \<and> dkey (snd (SSL_EVP_DigestSignInit X c None k)) = k)
     \<and> (\<forall>c k. fst (SSL_EVP_DigestVerifyInit X c None k) = 1 \<and> dkey (snd (SSL_EVP_DigestVerifyInit X c None k)) = k)
     \<and> (\<forall>c m. fst (SSL_EVP_DigestSign_len X c m) = 1 \<and> fst (SSL_EVP_DigestSign X c m) = 1
          \<and> snd (SSL_EVP_DigestSign_len X c m) = length (snd (SSL_EVP_DigestSign X c m))
          \<and> valid (pub (dkey c)) m (snd (SSL_EVP_DigestSign X c m)))
     \<and> (\<forall>c sig m. SSL_EVP_DigestVerify X c sig m = 1 \<longleftrightarrow> valid (dkey c) m sig)"

lemma optional_md_NONE [simp]: "optional_md NONE = Inr None"
  by (simp add: optional_md_def)

text \<open>
  A message signed with an Ed448 or Ed25519 key is accepted by the verification context
  for the public key, which accepts exactly the valid signatures; the signature has the size
  OpenSSL announced.  Neither operation lets an \<open>OpenSSLException\<close> through, and keys of
  another type are refused.
\<close>

theorem EdDSA_signature:
  assumes "eddsa_laws L X dkey pub valid" "getType P k = Inr ECC_ED" "getType P (pub k) = Inr ECC_ED"
  shows "(\<exists>S V s. EdDSAImpl_new P k = Inr S \<and> EdDSAImpl_new P (pub k) = Inr V
       \<and> EdDSA_signMessage L X S m = Inr s \<and> EdDSA_verifyMessage L X V s m = Inr ()
       \<and> (EdDSA_verifyMessage L X V s' m' = Inr () \<longleftrightarrow> valid (pub k) m' s'))
     \<and> EdDSA_verifyMessage L' X' V' s' m' \<noteq> Inl (OpenSSLException e)
     \<and> EdDSA_signMessage L' X' V' m' \<noteq> Inl (OpenSSLException e)
     \<and> (getType P k' = Inr t \<and> t \<noteq> ECC_ED \<longrightarrow> EdDSAImpl_new P k' = Inl err_not_ed)"
proof (intro conjI)
  obtain c where c: "SSL_EVP_MD_CTX_create L = Some c" using assms(1) unfolding eddsa_laws_def by blast
  let ?s = "snd (SSL_EVP_DigestSign X (snd (SSL_EVP_DigestSignInit X c None k)) m)"
  have valid: "valid (pub k) m ?s" using assms(1) unfolding eddsa_laws_def by metis
  have sgn: "EdDSA_signMessage L X \<lparr>ed_key = k\<rparr> m = Inr ?s"
    using assms(1) c
    by (simp add: eddsa_laws_def EdDSA_signMessage_def ossl_EVP_DigestSignInit_def ossl_simps checkC_all)
  have ver: "EdDSA_verifyMessage L X \<lparr>ed_key = pub k\<rparr> sig x = Inr () \<longleftrightarrow> valid (pub k) x sig" for sig x
    using assms(1) c
    by (simp add: eddsa_laws_def EdDSA_verifyMessage_def ossl_EVP_DigestVerifyInit_def ossl_simps checkC_all)
  show "\<exists>S V s. EdDSAImpl_new P k = Inr S \<and> EdDSAImpl_new P (pub k) = Inr V
       \<and> EdDSA_signMessage L X S m = Inr s \<and> EdDSA_verifyMessage L X V s m = Inr ()
       \<and> (EdDSA_verifyMessage L X V s' m' = Inr () \<longleftrightarrow> valid (pub k) m' s')"
    using sgn valid ver assms(2,3) by (simp add: EdDSAImpl_new_def)
  show "EdDSA_verifyMessage L' X' V' s' m' \<noteq> Inl (OpenSSLException e)"
    by (simp add: EdDSA_verifyMessage_def validation_failed_MoCOCrW catchOpenSSL_never_OpenSSL)
  show "EdDSA_signMessage L' X' V' m' \<noteq> Inl (OpenSSLException e)"
    by (simp add: EdDSA_signMessage_def catchOpenSSL_never_OpenSSL [where f = "\<lambda>m. m"])
qed (simp add: EdDSAImpl_new_def)

section \<open>Errors of ECDSA contexts\<close>

text \<open>
  In the ASN.1 format no \<open>OpenSSLException\<close> leaves an ECDSA context.  In the raw format
  the conversion runs outside the translation of exceptions: when the first number of the
  signature does not fit the key size, signing throws the \<open>OpenSSLException\<close> itself, not the
  documented \<open>MoCOCrWException\<close>.
\<close>

theorem ECDSA_errors:
  "(ec_sigFormat S = ASN1_SEQUENCE_OF_INTS \<longrightarrow>
      ECDSA_signDigest P C B S rnd d \<noteq> Inl (OpenSSLException e)
      \<and> ECDSA_verifyDigest P C B S sig d \<noteq> Inl (OpenSSLException e))
   \<and> (ec_sigFormat S = IEEE1363 \<and> ECDSA_signAsn1 P C S rnd d = Inr asn1
      \<and> SSL_d2i_ECDSA_SIG B asn1 = Some x \<and> SSL_ECDSA_SIG_get0_r B x = Some r
      \<and> SSL_ECDSA_SIG_get0_s B x = Some s
      \<and> fst (SSL_BN_bn2binpad B r (to_int (key_size_bytes P (ec_key S)))) = - 1 \<longrightarrow>
      ECDSA_signDigest P C B S rnd d = Inl OpenSSLException_default)"
  by (auto simp: ECDSA_signDigest_def ECDSA_verifyDigest_def ECDSA_signAsn1_def ECDSA_verifyAsn1_def
      bindR_eq_Inl check_digest_never_OpenSSL validation_failed_MoCOCrW catchOpenSSL_never_OpenSSL
      catchOpenSSL_never_OpenSSL [where f = "\<lambda>m. m"] Asn1ECSignatureToIEEE1363EcSignature_def
      ossl_simps checkC_all)

section \<open>A concrete instance\<close>

text \<open>
  Numbers as \<open>BIGNUM\<close>s and pairs as signatures, encoded as two raw numbers of the same
  length; the valid signature of a digest is the pair of its first byte and zero.
\<close>

definition ref_width :: "nat \<times> nat \<Rightarrow> nat" where
  "ref_width p = max 32 (fst p + snd p + 1)"

definition ref_der :: "nat \<times> nat \<Rightarrow> bytes" where
  "ref_der p = be_bytes (ref_width p) (fst p) @ be_bytes (ref_width p) (snd p)"

definition ref_ecsig_lib :: "(nat, nat \<times> nat) ecsig_lib" where
  "ref_ecsig_lib =
     \<lparr>SSL_BN_bin2bn = (\<lambda>data n. Some (be_nat (take (nat n) data))),
      SSL_BN_bn2binpad = (\<lambda>b n. if b < 256 ^ nat n then (n, be_bytes (nat n) b) else (- 1, [])),
      SSL_ECDSA_SIG_new = Some (0, 0),
      SSL_ECDSA_SIG_set0 = (\<lambda>sig r s. (1, (r, s))),
      SSL_ECDSA_SIG_get0_r = (\<lambda>sig. Some (fst sig)),
      SSL_ECDSA_SIG_get0_s = (\<lambda>sig. Some (snd sig)),
      SSL_i2d_ECDSA_SIG = (\<lambda>sig. (int (length (ref_der sig)), Some (ref_der sig))),
      SSL_d2i_ECDSA_SIG = (\<lambda>b. Some (halves (length b div 2) b))\<rparr>"

lemma less_power_256: "x < n \<Longrightarrow> x < 256 ^ n"
proof -
  assume "x < n"
  also have "n < 2 ^ n" by (rule less_exp)
  also have "(2 :: nat) ^ n \<le> 256 ^ n" by (rule power_mono) simp_all
  finally show "x < 256 ^ n" .
qed

lemma ref_width_bound: "fst p < ref_width p" "snd p < ref_width p"
  by (simp_all add: ref_width_def)

lemma ref_der_halves: "halves (ref_width p) (ref_der p) = p"
  using halves_be_bytes [OF ref_width_bound [THEN less_power_256], of p] by (simp add: ref_der_def)

lemma ref_der_length: "length (ref_der p) = 2 * ref_width p" "ref_der p \<noteq> []"
proof -
  show l: "length (ref_der p) = 2 * ref_width p" by (simp add: ref_der_def)
  then show "ref_der p \<noteq> []" by (auto simp: ref_width_def)
qed

lemma ref_ecsig_laws: "ecsig_laws ref_ecsig_lib id id ref_der"
  unfolding ecsig_laws_def ecsig_holds_def ref_ecsig_lib_def
  by (simp add: ref_der_halves ref_der_length del: be_nat.simps)

definition first_byte :: "bytes \<Rightarrow> nat" where
  "first_byte d = (case d of [] \<Rightarrow> 0 | b # bs \<Rightarrow> unat b)"

definition ref_ec_ctx_lib :: "(int \<times> bool) pview pctx_lib" where
  "ref_ec_ctx_lib = ref_pctx_lib
     \<lparr>SSL_EVP_PKEY_sign_len := \<lambda>c d. (1, 512),
      SSL_EVP_PKEY_sign := \<lambda>rnd c d. (1, ref_der (first_byte d, 0)),
      SSL_EVP_PKEY_verify := \<lambda>c sig d. if sig = ref_der (first_byte d, 0) then 1 else 0\<rparr>"

definition ref_ec :: "int \<times> bool" where
  "ref_ec = (EVP_PKEY_EC, True)"

lemma first_byte_bound: "first_byte d < 256"
proof (cases d)
  case (Cons b bs)
  then show ?thesis using unsigned_less [of b, where 'a = nat] by (simp add: first_byte_def)
qed (simp add: first_byte_def)

lemma ref_ec_ctx_laws: "pctx_laws ref_ec_ctx_lib (\<lambda>c. c)"
  by (simp add: pctx_laws_def op_laws_def setter_laws_def malloc_laws_def ref_ec_ctx_lib_def
      ref_pctx_lib_def ref_init_def ref_set_def)

lemma ref_ec_signature_laws: "signature_laws ref_ec_ctx_lib (\<lambda>c. c) ref_pub
    (\<lambda>k cfg d s. s = ref_der (first_byte d, 0)) ref_signs"
proof -
  have "ref_width (first_byte d, 0) \<le> 256" for d
    using first_byte_bound [of d] by (simp add: ref_width_def)
  then show ?thesis
    by (auto simp: signature_laws_def ref_ec_ctx_lib_def sized_def INT_MAX_def ref_der_length)
qed

lemma ref_ec_key_size: "key_size_bytes ref_asym_lib ref_ec = 32"
  "key_size_bytes ref_asym_lib (ref_pub ref_ec) = 32"
  by (simp_all add: key_size_bytes_def getKeySize_def ref_asym_lib_def ref_ec_def ref_pub_def pkey_types)

lemma ref_ecdsa_laws: "ecdsa_laws ref_asym_lib ref_ec_ctx_lib ref_ecsig_lib (\<lambda>c. c) ref_pub
    (\<lambda>k cfg d s. s = ref_der (first_byte d, 0)) ref_signs id id ref_der ref_ec SHA256"
proof -
  have "\<exists>r s. snd (SSL_EVP_PKEY_sign ref_ec_ctx_lib rnd c d) = ref_der (r, s)
      \<and> r < 256 ^ 32 \<and> s < 256 ^ 32" for rnd c d
    using first_byte_bound [of d]
    by (intro exI [of _ "first_byte d"] exI [of _ 0]) (simp add: ref_ec_ctx_lib_def)
  then show ?thesis
    by (simp add: ecdsa_laws_def ref_ec_ctx_laws ref_ctx_new_laws ref_ec_signature_laws ref_ecsig_laws
        ref_ec_key_size INT_MAX_def)
qed

theorem ECDSA_signature_witness:
  "\<exists>S V s. ECDSAImpl_new ref_asym_lib ref_ec SHA256 IEEE1363 = Inr S
     \<and> ECDSAImpl_new ref_asym_lib (ref_pub ref_ec) SHA256 IEEE1363 = Inr V
     \<and> ECDSA_signMessage ref_asym_lib ref_ec_ctx_lib ref_ecsig_lib ref_digest_lib S 0 [7] = Inr s
     \<and> ECDSA_verifyMessage ref_asym_lib ref_ec_ctx_lib ref_ecsig_lib ref_digest_lib V s [7] = Inr ()
     \<and> ECDSA_verifyMessage ref_asym_lib ref_ec_ctx_lib ref_ecsig_lib ref_digest_lib V [1] [7] \<noteq> Inr ()"
proof -
  have types: "SSL_EVP_PKEY_type_of_id ref_asym_lib ref_ec = EVP_PKEY_EC"
    "SSL_EVP_PKEY_type_of_id ref_asym_lib (ref_pub ref_ec) = EVP_PKEY_EC"
    by (simp_all add: ref_asym_lib_def ref_ec_def ref_pub_def)
  have "ref_signs ref_ec cfg_default (resize [7] (md_size (md_of SHA256)))"
    by (simp add: ref_signs_def INT_MAX_def md_of_def)
  from ECDSA_signature [OF ref_ecdsa_laws ref_digest_lib_laws types this, of IEEE1363 0 "[1]" "[7]"]
  show ?thesis by (simp add: ecdsa_accepts_def ref_ec_key_size)
qed

theorem signature_formats_inverse_witness:
  "bindR (IEEE1363EcSignatureToAsn1ECSignature ref_ecsig_lib [0, 1, 2, 3] 2)
     (\<lambda>asn1. Asn1ECSignatureToIEEE1363EcSignature ref_ecsig_lib asn1 2) = Inr [0, 1, 2, 3]
   \<and> IEEE1363EcSignatureToAsn1ECSignature ref_ecsig_lib [0, 1, 2] 2 = Inl err_signature_size"
  using signature_formats_inverse [OF ref_ecsig_laws, of 2 "[0, 1, 2, 3]" 0 0]
    signature_formats_inverse [OF ref_ecsig_laws, of 2 "[0, 1, 2]" 0 0]
  by (simp add: INT_MAX_def)

definition ref_eddsa_lib :: "(int \<times> bool, int \<times> bool) eddsa_lib" where
  "ref_eddsa_lib =
     \<lparr>SSL_EVP_DigestSignInit = (\<lambda>d md k. (1, k)),
      SSL_EVP_DigestSign_len = (\<lambda>d m. (1, 64)),
      SSL_EVP_DigestSign = (\<lambda>d m. (1, resize m 64)),
      SSL_EVP_DigestVerifyInit = (\<lambda>d md k. (1, k)),
      SSL_EVP_DigestVerify = (\<lambda>d sig m. if sig = resize m 64 then 1 else 0)\<rparr>"

definition ref_ed_digest_lib :: "(int \<times> bool) digest_lib" where
  "ref_ed_digest_lib =
     \<lparr>SSL_EVP_MD_CTX_create = Some (0, False), SSL_EVP_MD_CTX_init = (\<lambda>c. c),
      SSL_EVP_DigestInit_ex = (\<lambda>c md. (0, c)), SSL_EVP_DigestUpdate = (\<lambda>c d. (0, c)),
      SSL_EVP_DigestFinal_ex = (\<lambda>c. (0, [], c))\<rparr>"

lemma ref_eddsa_laws:
  "eddsa_laws ref_ed_digest_lib ref_eddsa_lib id ref_pub (\<lambda>k m sig. sig = resize m 64)"
  by (simp add: eddsa_laws_def ref_eddsa_lib_def ref_ed_digest_lib_def)

theorem EdDSA_signature_witness:
  "\<exists>S V s. EdDSAImpl_new ref_asym_lib (EVP_PKEY_ED25519, True) = Inr S
     \<and> EdDSAImpl_new ref_asym_lib (EVP_PKEY_ED25519, False) = Inr V
     \<and> EdDSA_signMessage ref_ed_digest_lib ref_eddsa_lib S [5] = Inr s
     \<and> EdDSA_verifyMessage ref_ed_digest_lib ref_eddsa_lib V s [5] = Inr ()
     \<and> (EdDSA_verifyMessage ref_ed_digest_lib ref_eddsa_lib V [] [6] = Inr () \<longleftrightarrow>
          [] = resize [6 :: byte] 64)"
proof -
  have "getType ref_asym_lib (EVP_PKEY_ED25519, b) = Inr ECC_ED" for b
    by (simp add: getType_def ref_asym_lib_def ossl_simps pkey_types)
  with EdDSA_signature [OF ref_eddsa_laws, of ref_asym_lib "(EVP_PKEY_ED25519, True)" "[5]" "[]" "[6]"
      ref_ed_digest_lib ref_eddsa_lib "\<lparr>ed_key = (0, True)\<rparr>" "[]" ref_ec ECC]
  show ?thesis by (simp add: ref_pub_def)
qed

text \<open>A library whose \<open>BN_bn2binpad\<close> reports that the number does not fit.\<close>

theorem ECDSA_errors_witness:
  "ECDSA_signDigest ref_asym_lib ref_ec_ctx_lib
     (ref_ecsig_lib\<lparr>SSL_BN_bn2binpad := \<lambda>b n. (- 1, [])\<rparr>) (ecdsa_ctx ref_ec SHA256 IEEE1363) 0
     (replicate 32 7) = Inl OpenSSLException_default"
proof -
  have "ref_signs ref_ec cfg_default (replicate 32 7)" by (simp add: ref_signs_def INT_MAX_def)
  then obtain r s where "ECDSA_signAsn1 ref_asym_lib ref_ec_ctx_lib (ecdsa_ctx ref_ec SHA256 IEEE1363) 0
      (replicate 32 7) = Inr (ref_der (r, s))"
    using ECDSA_signAsn1_ok [OF ref_ecdsa_laws, of "replicate 32 7" IEEE1363 0]
    by (auto simp: md_of_def)
  then show ?thesis
    using ECDSA_errors [of "ecdsa_ctx ref_ec SHA256 IEEE1363" ref_asym_lib ref_ec_ctx_lib
        "ref_ecsig_lib\<lparr>SSL_BN_bn2binpad := \<lambda>b n. (- 1, [])\<rparr>" 0 "replicate 32 7" "[]" "[]"
        "ref_der (r, s)" "(r, s)" r s]
    by (simp add: ref_ecsig_lib_def ref_der_length ref_der_halves)
qed

end
