(* ===== verification/Asn1_Time.thy ===== *)
theory Asn1_Time
  imports Check_Call
begin

text \<open>
  \<open>src/src/asn1time.cpp\<close> and the conversions of \<open>ASN1_TIME\<close> in
  \<open>src/src/openssl_wrap.cpp\<close>: construction, comparison and arithmetic of times, and the
  conversion to and from \<open>time_t\<close> and \<open>system_clock::time_point\<close>.  An \<open>Asn1Time\<close> is the
  OpenSSL object it holds, of type \<open>'t\<close>.
\<close>

section \<open>OpenSSL functions and their wrappers\<close>

record 't time_lib =
  SSL_ASN1_TIME_diff :: "'t \<Rightarrow> 't \<Rightarrow> int \<times> int \<times> int"
  SSL_ASN1_TIME_set :: "int \<Rightarrow> 't option"
  SSL_ASN1_TIME_new :: "'t option"
  SSL_ASN1_STRING_dup :: "'t \<Rightarrow> 't option"
  SSL_ASN1_TIME_set_string :: "'t \<Rightarrow> string \<Rightarrow> int \<times> 't"
  SSL_ASN1_TIME_adj :: "int \<Rightarrow> int \<Rightarrow> int \<Rightarrow> 't option"

definition ossl_ASN1_TIME_diff :: "'t time_lib \<Rightarrow> 't \<Rightarrow> 't \<Rightarrow> (int \<times> int) res" where
  "ossl_ASN1_TIME_diff T from to =
     (let (rv, pday, psec) = SSL_ASN1_TIME_diff T from to
      in bindR (OpensslCallIsOne rv) (\<lambda>_.
           if pday < 0 \<and> psec > 0 \<or> pday > 0 \<and> psec < 0
           then Inl (OpenSSLException [Str ''OpenSSL violates API convention''])
           else Inr (pday, psec)))"

definition ossl_ASN1_TIME_from_time_t :: "'t time_lib \<Rightarrow> int \<Rightarrow> 't res" where
  [ossl_simps]: "ossl_ASN1_TIME_from_time_t T t = OpensslCallPtr (SSL_ASN1_TIME_set T t)"

definition ossl_ASN1_TIME_new :: "'t time_lib \<Rightarrow> 't res" where
  [ossl_simps]: "ossl_ASN1_TIME_new T = OpensslCallPtr (SSL_ASN1_TIME_new T)"

definition ossl_ASN1_TIME_copy :: "'t time_lib \<Rightarrow> 't \<Rightarrow> 't res" where
  "ossl_ASN1_TIME_copy T t =
     (case SSL_ASN1_STRING_dup T t of None \<Rightarrow> Inl OpenSSLException_default | Some s \<Rightarrow> Inr s)"

definition ossl_ASN1_TIME_set_string :: "'t time_lib \<Rightarrow> 't \<Rightarrow> string \<Rightarrow> 't res" where
  "ossl_ASN1_TIME_set_string T s str =
     bindR (OpensslCallIsPositive (fst (SSL_ASN1_TIME_set_string T s str)))
       (\<lambda>_. Inr (snd (SSL_ASN1_TIME_set_string T s str)))"

definition ossl_ASN1_TIME_adj :: "'t time_lib \<Rightarrow> int \<Rightarrow> int \<Rightarrow> int \<Rightarrow> 't res" where
  [ossl_simps]: "ossl_ASN1_TIME_adj T t days seconds = OpensslCallPtr (SSL_ASN1_TIME_adj T t days seconds)"

section \<open>Conversions to C++ time types\<close>

text \<open>
  \<open>int32\<close> and \<open>int64\<close> are the values of expressions of type \<open>int\<close> and of 64 bit types: a
  narrowing conversion wraps, and so do overflows, which C++ leaves undefined, on the targets.
\<close>

definition int32 :: "int \<Rightarrow> int" where "int32 x = sint (word_of_int x :: 32 word)"
definition int64 :: "int \<Rightarrow> int" where "int64 x = sint (word_of_int x :: 64 word)"

lemma int32_id [simp]: "- 2147483648 \<le> x \<Longrightarrow> x \<le> 2147483647 \<Longrightarrow> int32 x = x"
  by (simp add: int32_def signed_of_int signed_take_bit_int_eq_self)

lemma int64_id [simp]: "- 9223372036854775808 \<le> x \<Longrightarrow> x \<le> 9223372036854775807 \<Longrightarrow> int64 x = x"
  by (simp add: int64_def signed_of_int signed_take_bit_int_eq_self)

lemma int64_wraps: "int64 9223372036854775808 = - 9223372036854775808"
  by (simp add: int64_def)

definition secondsDiffToEpoch :: "'t time_lib \<Rightarrow> 't \<Rightarrow> int res" where
  "secondsDiffToEpoch T time =
     bindR (ossl_ASN1_TIME_from_time_t T 0) (\<lambda>epoch.
     bindR (ossl_ASN1_TIME_diff T epoch time) (\<lambda>(days, seconds).
       Inr (int64 (int64 (24 * 60 * 60 * days) + seconds))))"

datatype ComparisonResult = Lesser | Greater | Equal

definition minAsn1TimeAsTimeT :: int where "minAsn1TimeAsTimeT = - 62167219200"
definition maxAsn1TimeAsTimeT :: int where "maxAsn1TimeAsTimeT = 253402300799"

definition compare_time :: "'t time_lib \<Rightarrow> 't \<Rightarrow> int \<Rightarrow> ComparisonResult res" where
  "compare_time T asn1Time timeT =
     (if timeT > maxAsn1TimeAsTimeT then Inr Lesser
      else if timeT < minAsn1TimeAsTimeT then Inr Greater
      else bindR (ossl_ASN1_TIME_from_time_t T timeT) (\<lambda>timeTAsAsn1.
           bindR (ossl_ASN1_TIME_diff T asn1Time timeTAsAsn1) (\<lambda>(days, seconds).
             if days < 0 \<or> seconds < 0 then Inr Greater
             else if days > 0 \<or> seconds > 0 then Inr Lesser
             else Inr Equal)))"

definition err_too_small :: exn where
  "err_too_small = OpenSSLException [Str ''ASN1_TIME is too small for new range'']"
definition err_too_big :: exn where
  "err_too_big = OpenSSLException [Str ''ASN1_TIME is too big for new range'']"

definition checkAsn1TimeFitsIntoLimits :: "'t time_lib \<Rightarrow> 't \<Rightarrow> int \<Rightarrow> int \<Rightarrow> unit res" where
  "checkAsn1TimeFitsIntoLimits T time minValue maxValue =
     bindR (compare_time T time minValue) (\<lambda>c1. if c1 = Lesser then Inl err_too_small
     else bindR (compare_time T time maxValue) (\<lambda>c2. if c2 = Greater then Inl err_too_big
     else Inr ()))"

text \<open>
  A \<open>time_point\<close> of the system clock counts nanoseconds in 64 bits; \<open>to_time_t\<close> truncates
  towards zero.
\<close>

definition to_time_t :: "int \<Rightarrow> int" where
  "to_time_t tp = sgn tp * (\<bar>tp\<bar> div 1000000000)"

definition asn1TimeToTimePoint :: "'t time_lib \<Rightarrow> 't \<Rightarrow> int res" where
  "asn1TimeToTimePoint T time =
     (let maxTimePointAsTimeT = to_time_t LONG_MAX; minTimePointAsTimeT = to_time_t LONG_MIN
      in bindR (checkAsn1TimeFitsIntoLimits T time minTimePointAsTimeT maxTimePointAsTimeT) (\<lambda>_.
         bindR (secondsDiffToEpoch T time) (\<lambda>s. Inr (int64 (1000000000 * s)))))"

definition asn1TimeToTimeT :: "'t time_lib \<Rightarrow> 't \<Rightarrow> int res" where
  "asn1TimeToTimeT T time =
     bindR (checkAsn1TimeFitsIntoLimits T time LONG_MIN LONG_MAX) (\<lambda>_. secondsDiffToEpoch T time)"

section \<open>Asn1Time\<close>

definition Asn1Time_copy :: "'t time_lib \<Rightarrow> 't \<Rightarrow> 't res" where
  "Asn1Time_copy T t = ossl_ASN1_TIME_copy T t"

text \<open>The string is handed over as a C string, up to its first null character.\<close>

definition Asn1Time_fromString :: "'t time_lib \<Rightarrow> string \<Rightarrow> 't res" where
  "Asn1Time_fromString T asn1TimeStr =
     bindR (ossl_ASN1_TIME_new T) (\<lambda>t. ossl_ASN1_TIME_set_string T t (c_str asn1TimeStr))"

definition Asn1Time_fromTimePoint :: "'t time_lib \<Rightarrow> int \<Rightarrow> 't res" where
  "Asn1Time_fromTimePoint T tp = ossl_ASN1_TIME_from_time_t T (to_time_t tp)"

definition Asn1Time_fromTimeT :: "'t time_lib \<Rightarrow> int \<Rightarrow> 't res" where
  "Asn1Time_fromTimeT T tt = ossl_ASN1_TIME_from_time_t T tt"

definition Asn1Time_now :: "'t time_lib \<Rightarrow> int \<Rightarrow> 't res" where
  "Asn1Time_now T clock = Asn1Time_fromTimePoint T clock"

definition Asn1Time_min :: "'t time_lib \<Rightarrow> 't res" where
  "Asn1Time_min T = Asn1Time_fromString T ''00000101000000Z''"

definition Asn1Time_max :: "'t time_lib \<Rightarrow> 't res" where
  "Asn1Time_max T = Asn1Time_fromString T ''99991231235959Z''"

definition Asn1Time_toTimePoint :: "'t time_lib \<Rightarrow> 't \<Rightarrow> int res" where
  "Asn1Time_toTimePoint T t = asn1TimeToTimePoint T t"

definition Asn1Time_toTimeT :: "'t time_lib \<Rightarrow> 't \<Rightarrow> int res" where
  "Asn1Time_toTimeT T t = asn1TimeToTimeT T t"

text \<open>
  \<open>duration_cast\<close> truncates towards zero; the day count is an \<open>int\<close>, the duration a 64 bit
  count of seconds.
\<close>

definition SECS :: int where "SECS = 24 * 60 * 60"

definition trunc_days :: "int \<Rightarrow> int" where
  "trunc_days d = sgn d * (\<bar>d\<bar> div SECS)"

definition err_duration :: exn where
  "err_duration = MoCOCrWException [Str ''Duration is too large for Asn1Time differences'']"
definition err_day_overflow :: exn where
  "err_day_overflow = MoCOCrWException [Str ''Duration would overflow Asn1Time'']"

definition Asn1Time_plus :: "'t time_lib \<Rightarrow> 't \<Rightarrow> int \<Rightarrow> 't res" where
  "Asn1Time_plus T time d =
     bindR (Asn1Time_fromTimeT T 0) (\<lambda>asn1Epoch.
     bindR (ossl_ASN1_TIME_diff T asn1Epoch time) (\<lambda>(days, seconds).
       if int64 (INT_MAX * SECS) < d \<or> int64 (INT_MIN * SECS) > d then Inl err_duration
       else let durationDays = int32 (trunc_days d);
                durationSeconds = int64 (d - int64 (durationDays * SECS));
                seconds' = int32 (seconds + int32 durationSeconds)
            in if days > 0 \<and> durationDays > int32 (INT_MAX - days)
                  \<or> days < 0 \<and> durationDays < int32 (INT_MIN - days)
               then Inl err_day_overflow
               else catchOpenSSL (ossl_ASN1_TIME_adj T 0 (int32 (days + durationDays)) seconds')
                      (\<lambda>m. MoCOCrWException (Str ''Addition leaves Asn1Time range: '' # m))))"

text \<open>
  The negation of a duration is computed in 64 bits; at the smallest one C++ leaves it
  undefined, the targets wrap.
\<close>

definition neg64 :: "int \<Rightarrow> int" where
  "neg64 d = int64 (- d)"

definition Asn1Time_minus_duration :: "'t time_lib \<Rightarrow> 't \<Rightarrow> int \<Rightarrow> 't res" where
  "Asn1Time_minus_duration T time d = Asn1Time_plus T time (neg64 d)"

text \<open>The number of hours is a product of \<open>int\<close>s.\<close>

definition Asn1Time_minus :: "'t time_lib \<Rightarrow> 't \<Rightarrow> 't \<Rightarrow> int res" where
  "Asn1Time_minus T time other =
     bindR (ossl_ASN1_TIME_diff T other time) (\<lambda>(days, seconds).
       Inr (int64 (int64 (3600 * int32 (24 * days)) + seconds)))"

definition Asn1Time_eq :: "'t time_lib \<Rightarrow> 't \<Rightarrow> 't \<Rightarrow> bool res" where
  "Asn1Time_eq T a b = bindR (Asn1Time_minus T a b) (\<lambda>d. Inr (d = 0))"
definition Asn1Time_neq :: "'t time_lib \<Rightarrow> 't \<Rightarrow> 't \<Rightarrow> bool res" where
  "Asn1Time_neq T a b = bindR (Asn1Time_eq T a b) (\<lambda>r. Inr (\<not> r))"
definition Asn1Time_less :: "'t time_lib \<Rightarrow> 't \<Rightarrow> 't \<Rightarrow> bool res" where
  "Asn1Time_less T a b = bindR (Asn1Time_minus T a b) (\<lambda>d. Inr (d < 0))"
definition Asn1Time_less_eq :: "'t time_lib \<Rightarrow> 't \<Rightarrow> 't \<Rightarrow> bool res" where
  "Asn1Time_less_eq T a b = bindR (Asn1Time_minus T a b) (\<lambda>d. Inr (d \<le> 0))"
definition Asn1Time_greater :: "'t time_lib \<Rightarrow> 't \<Rightarrow> 't \<Rightarrow> bool res" where
  "Asn1Time_greater T a b = bindR (Asn1Time_less_eq T a b) (\<lambda>r. Inr (\<not> r))"
definition Asn1Time_greater_eq :: "'t time_lib \<Rightarrow> 't \<Rightarrow> 't \<Rightarrow> bool res" where
  "Asn1Time_greater_eq T a b = bindR (Asn1Time_less T a b) (\<lambda>r. Inr (\<not> r))"

lemmas asn1_cmp_defs = Asn1Time_eq_def Asn1Time_neq_def Asn1Time_less_def Asn1Time_less_eq_def
  Asn1Time_greater_def Asn1Time_greater_eq_def

section \<open>What OpenSSL documents\<close>

text \<open>
  \<open>secs t\<close> is the time in seconds since the epoch.  Every \<open>ASN1_TIME\<close> lies in the years 0
  to 9999; the difference of two is split into days and seconds of the same sign;
  \<open>ASN1_TIME_adj\<close> with an offset of \<open>int\<close>s succeeds for results in the years 1900 to 9999
  only.
\<close>

definition YEAR_1900 :: int where "YEAR_1900 = - 2208988800"

definition time_laws :: "'t time_lib \<Rightarrow> ('t \<Rightarrow> int) \<Rightarrow> bool" where
  "time_laws T secs \<longleftrightarrow>
     (\<forall>t. minAsn1TimeAsTimeT \<le> secs t \<and> secs t \<le> maxAsn1TimeAsTimeT)
     \<and> (\<forall>a b. SSL_ASN1_TIME_diff T a b =
          (1, trunc_days (secs b - secs a), secs b - secs a - trunc_days (secs b - secs a) * SECS))
     \<and> (\<forall>t. minAsn1TimeAsTimeT \<le> t \<and> t \<le> maxAsn1TimeAsTimeT \<longrightarrow>
          (\<exists>a. SSL_ASN1_TIME_set T t = Some a \<and> secs a = t))
     \<and> (\<forall>days s. INT_MIN \<le> days \<and> days \<le> INT_MAX \<and> INT_MIN \<le> s \<and> s \<le> INT_MAX \<longrightarrow> (case SSL_ASN1_TIME_adj T 0 days s of
          Some a \<Rightarrow> secs a = days * SECS + s \<and> YEAR_1900 \<le> secs a
        | None \<Rightarrow> \<not> (YEAR_1900 \<le> days * SECS + s \<and> days * SECS + s \<le> maxAsn1TimeAsTimeT)))"

lemmas asn1_consts = minAsn1TimeAsTimeT_def maxAsn1TimeAsTimeT_def YEAR_1900_def SECS_def
lemmas time_lawsD = time_laws_def [THEN iffD1]
lemmas secs_range = time_lawsD [THEN conjunct1, rule_format]
  and time_diffD = time_lawsD [THEN conjunct2, THEN conjunct1, rule_format]
  and time_setD = time_lawsD [THEN conjunct2, THEN conjunct2, THEN conjunct1, rule_format]
  and time_adjD = time_lawsD [THEN conjunct2, THEN conjunct2, THEN conjunct2, rule_format]

section \<open>Days and seconds\<close>

lemma trunc_days_split:
  "0 \<le> d \<Longrightarrow> trunc_days d = d div SECS" "d < 0 \<Longrightarrow> trunc_days d = - (- d div SECS)"
  by (cases "d = 0"; simp add: trunc_days_def sgn_if)+

lemma SECS_mod: "0 \<le> x mod SECS" "x mod SECS < SECS"
  by (simp_all add: SECS_def)

lemma trunc_days_rest_eq:
  "0 \<le> d \<Longrightarrow> d - trunc_days d * SECS = d mod SECS"
  "d < 0 \<Longrightarrow> d - trunc_days d * SECS = - ((- d) mod SECS)"
proof -
  show "0 \<le> d \<Longrightarrow> d - trunc_days d * SECS = d mod SECS"
    by (simp add: trunc_days_split minus_div_mult_eq_mod)
  have e: "(- d) div SECS * SECS + (- d) mod SECS = - d" by (rule div_mult_mod_eq)
  assume "d < 0"
  then have "d - trunc_days d * SECS = d + (- d) div SECS * SECS" by (simp add: trunc_days_split)
  also have "\<dots> = - ((- d) mod SECS)" using e by linarith
  finally show "d - trunc_days d * SECS = - ((- d) mod SECS)" .
qed

lemma trunc_days_rest:
  "\<bar>d - trunc_days d * SECS\<bar> < SECS" "d \<ge> 0 \<Longrightarrow> trunc_days d \<ge> 0 \<and> d - trunc_days d * SECS \<ge> 0"
  "d < 0 \<Longrightarrow> trunc_days d \<le> 0 \<and> d - trunc_days d * SECS \<le> 0"
proof -
  show "\<bar>d - trunc_days d * SECS\<bar> < SECS"
    using SECS_mod [of d] SECS_mod [of "- d"]
    by (cases "d < 0") (simp_all only: trunc_days_rest_eq not_less abs_minus_cancel abs_of_nonneg)
  show "d \<ge> 0 \<Longrightarrow> trunc_days d \<ge> 0 \<and> d - trunc_days d * SECS \<ge> 0"
    using SECS_mod(1) [of d] trunc_days_rest_eq(1) [of d]
    by (simp add: trunc_days_split SECS_def pos_imp_zdiv_nonneg_iff)
  show "d < 0 \<Longrightarrow> trunc_days d \<le> 0 \<and> d - trunc_days d * SECS \<le> 0"
    using SECS_mod(1) [of "- d"] trunc_days_rest_eq(2) [of d]
    by (simp add: trunc_days_split SECS_def pos_imp_zdiv_nonneg_iff)
qed

lemma trunc_days_sign:
  "trunc_days d < 0 \<or> d - trunc_days d * SECS < 0 \<longleftrightarrow> d < 0"
  "trunc_days d > 0 \<or> d - trunc_days d * SECS > 0 \<longleftrightarrow> d > 0"
proof -
  have z: "trunc_days d = 0 \<Longrightarrow> d - trunc_days d * SECS = d" "d = 0 \<Longrightarrow> trunc_days d = 0"
    by (simp_all add: trunc_days_def)
  show "trunc_days d < 0 \<or> d - trunc_days d * SECS < 0 \<longleftrightarrow> d < 0"
    using trunc_days_rest(2,3) [of d] z by linarith
  show "trunc_days d > 0 \<or> d - trunc_days d * SECS > 0 \<longleftrightarrow> d > 0"
    using trunc_days_rest(2,3) [of d] z by linarith
qed

lemma trunc_days_bound: "\<bar>d\<bar> \<le> n * SECS \<Longrightarrow> \<bar>trunc_days d\<bar> \<le> n"
proof -
  assume "\<bar>d\<bar> \<le> n * SECS"
  then have "\<bar>d\<bar> div SECS \<le> n * SECS div SECS" by (rule zdiv_mono1) (simp add: SECS_def)
  then have "\<bar>d\<bar> div SECS \<le> n" by (simp add: SECS_def)
  moreover have "0 \<le> \<bar>d\<bar> div SECS" by (simp add: SECS_def pos_imp_zdiv_nonneg_iff)
  ultimately show ?thesis by (cases "0 \<le> d") (simp_all add: trunc_days_split)
qed

section \<open>Differences and comparisons\<close>

lemma diff_ok:
  assumes "time_laws T secs"
  shows "ossl_ASN1_TIME_diff T a b =
    Inr (trunc_days (secs b - secs a), secs b - secs a - trunc_days (secs b - secs a) * SECS)"
  using trunc_days_rest(2,3) [of "secs b - secs a"]
  by (cases "secs b - secs a < 0") (simp_all add: ossl_ASN1_TIME_diff_def time_diffD [OF assms])

lemma epoch_ok:
  assumes "time_laws T secs"
  obtains e where "SSL_ASN1_TIME_set T 0 = Some e" "secs e = 0"
  using time_setD [OF assms, of 0] by (auto simp: asn1_consts)

lemma secondsDiffToEpoch_ok: "time_laws T secs \<Longrightarrow> secondsDiffToEpoch T t = Inr (secs t)"
proof -
  assume laws: "time_laws T secs"
  obtain e where "SSL_ASN1_TIME_set T 0 = Some e" "secs e = 0" using epoch_ok [OF laws] by blast
  moreover have "- 4000000 \<le> trunc_days (secs t) \<and> trunc_days (secs t) \<le> 4000000"
    using trunc_days_bound [of "secs t" 4000000] secs_range [OF laws, of t] by (auto simp: asn1_consts abs_le_iff)
  ultimately show ?thesis
    using secs_range [OF laws, of t]
    by (simp add: secondsDiffToEpoch_def diff_ok [OF laws] ossl_simps SECS_def asn1_consts)
qed

definition cmp_int :: "int \<Rightarrow> int \<Rightarrow> ComparisonResult" where
  "cmp_int a b = (if a < b then Lesser else if a > b then Greater else Equal)"

lemma compare_ok:
  assumes "time_laws T secs"
  shows "compare_time T a t = Inr (cmp_int (secs a) t)"
proof -
  have r: "minAsn1TimeAsTimeT \<le> secs a" "secs a \<le> maxAsn1TimeAsTimeT"
    using secs_range [OF assms, of a] by simp_all
  consider "t > maxAsn1TimeAsTimeT" | "t < minAsn1TimeAsTimeT"
    | b where "minAsn1TimeAsTimeT \<le> t" "t \<le> maxAsn1TimeAsTimeT" "SSL_ASN1_TIME_set T t = Some b" "secs b = t"
    using time_setD [OF assms, of t] by force
  then show ?thesis
  proof cases
    case 3
    then show ?thesis
      using trunc_days_sign [of "t - secs a"]
      by (auto simp: compare_time_def cmp_int_def ossl_simps diff_ok [OF assms])
  qed (use r in \<open>auto simp: compare_time_def cmp_int_def asn1_consts\<close>)
qed

lemma minus_ok:
  assumes "time_laws T secs"
  shows "Asn1Time_minus T a b = Inr (secs a - secs b)"
proof -
  let ?d = "secs a - secs b" let ?n = "trunc_days ?d"
  have "\<bar>?d\<bar> \<le> 4000000 * SECS"
    using secs_range [OF assms, of a] secs_range [OF assms, of b] by (auto simp: asn1_consts abs_le_iff)
  then have "\<bar>?n\<bar> \<le> 4000000" by (rule trunc_days_bound)
  then have n: "- 4000000 \<le> ?n" "?n \<le> 4000000" by linarith+
  moreover have "- 400000000000 \<le> ?d" "?d \<le> 400000000000"
    using secs_range [OF assms, of a] secs_range [OF assms, of b] by (auto simp: asn1_consts)
  ultimately show ?thesis by (simp add: Asn1Time_minus_def diff_ok [OF assms] SECS_def)
qed

text \<open>
  All six comparisons of \<open>Asn1Time\<close> return, and they are those of the times in seconds
  since the epoch: a total order that identifies exactly the equal times.  The difference of
  two times is exact, without overflow of the day and hour counts.
\<close>

theorem Asn1Time_order:
  assumes "time_laws T secs"
  shows "Asn1Time_minus T a b = Inr (secs a - secs b)
     \<and> Asn1Time_eq T a b = Inr (secs a = secs b) \<and> Asn1Time_neq T a b = Inr (secs a \<noteq> secs b)
     \<and> Asn1Time_less T a b = Inr (secs a < secs b) \<and> Asn1Time_less_eq T a b = Inr (secs a \<le> secs b)
     \<and> Asn1Time_greater T a b = Inr (secs a > secs b) \<and> Asn1Time_greater_eq T a b = Inr (secs a \<ge> secs b)"
  by (auto simp: asn1_cmp_defs minus_ok [OF assms])

section \<open>Arithmetic\<close>

definition err_leaves_range :: exn where
  "err_leaves_range =
     MoCOCrWException (Str ''Addition leaves Asn1Time range: '' # generateOpenSSLErrorString)"

lemma adj_ok:
  assumes "time_laws T secs" "days * SECS + s = x" "INT_MIN \<le> days" "days \<le> INT_MAX" "INT_MIN \<le> s" "s \<le> INT_MAX"
  shows "if YEAR_1900 \<le> x \<and> x \<le> maxAsn1TimeAsTimeT
     then \<exists>t. SSL_ASN1_TIME_adj T 0 days s = Some t \<and> secs t = x
     else SSL_ASN1_TIME_adj T 0 days s = None"
proof (cases "SSL_ASN1_TIME_adj T 0 days s")
  case None
  then show ?thesis using time_adjD [OF assms(1), of days s] assms(2-) by simp
next
  case (Some t)
  then show ?thesis
    using time_adjD [OF assms(1), of days s] assms(2-) secs_range [OF assms(1), of t] by simp
qed

lemma day_second_sum:
  "(trunc_days a + trunc_days d) * SECS + (a - trunc_days a * SECS + (d - trunc_days d * SECS)) = a + d"
  by (simp add: algebra_simps)

text \<open>The guards of the addition: with them every intermediate result has its exact value.\<close>

lemma duration_days:
  assumes "\<not> (INT_MAX * SECS < d \<or> INT_MIN * SECS > d)"
  shows "INT_MIN \<le> trunc_days d" "trunc_days d \<le> INT_MAX"
proof -
  have "trunc_days d \<le> INT_MAX \<and> INT_MIN \<le> trunc_days d"
  proof (cases "0 \<le> d")
    case True
    then have "\<bar>d\<bar> \<le> INT_MAX * SECS" using assms by simp
    then have "\<bar>trunc_days d\<bar> \<le> INT_MAX" by (rule trunc_days_bound)
    then show ?thesis by (simp add: int_limits abs_le_iff)
  next
    case False
    then have "\<bar>d\<bar> \<le> - INT_MIN * SECS" using assms by simp
    then have "\<bar>trunc_days d\<bar> \<le> - INT_MIN" by (rule trunc_days_bound)
    then show ?thesis using trunc_days_rest(3) [of d] False by (simp add: int_limits abs_le_iff)
  qed
  then show "INT_MIN \<le> trunc_days d" "trunc_days d \<le> INT_MAX" by simp_all
qed

lemma plus_value:
  assumes "time_laws T secs"
  shows "Asn1Time_plus T a d =
    (if INT_MAX * SECS < d \<or> INT_MIN * SECS > d then Inl err_duration
     else if trunc_days (secs a) + trunc_days d > INT_MAX \<or> trunc_days (secs a) + trunc_days d < INT_MIN
     then Inl err_day_overflow
     else if YEAR_1900 \<le> secs a + d \<and> secs a + d \<le> maxAsn1TimeAsTimeT
     then Inr (the (SSL_ASN1_TIME_adj T 0 (trunc_days (secs a) + trunc_days d)
        (secs a - trunc_days (secs a) * SECS + (d - trunc_days d * SECS))))
     else Inl err_leaves_range)"
proof (cases "INT_MAX * SECS < d \<or> INT_MIN * SECS > d")
  case True
  obtain e where "SSL_ASN1_TIME_set T 0 = Some e" using epoch_ok [OF assms(1)] by blast
  with True show ?thesis
    by (auto simp: Asn1Time_plus_def Asn1Time_fromTimeT_def ossl_simps diff_ok [OF assms] int_limits SECS_def)
next
  case False
  obtain e where e: "SSL_ASN1_TIME_set T 0 = Some e" "secs e = 0" using epoch_ok [OF assms(1)] by blast
  let ?n = "trunc_days (secs a)" let ?s = "secs a - ?n * SECS" let ?k = "trunc_days d" let ?r = "d - ?k * SECS"
  have "\<bar>secs a\<bar> \<le> 4000000 * SECS" using secs_range [OF assms(1), of a] by (auto simp: asn1_consts abs_le_iff)
  then have "\<bar>?n\<bar> \<le> 4000000" by (rule trunc_days_bound)
  then have n: "- 4000000 \<le> ?n" "?n \<le> 4000000" by linarith+
  have k: "- 2147483648 \<le> ?k" "?k \<le> 2147483647" using duration_days [OF False] by (simp_all add: int_limits)
  have s: "- 86400 < ?s" "?s < 86400" and r: "- 86400 < ?r" "?r < 86400"
    using trunc_days_rest(1) [of "secs a"] trunc_days_rest(1) [of d] by (simp_all add: SECS_def abs_less_iff)
  have "Asn1Time_plus T a d =
     (if ?n > 0 \<and> ?k > INT_MAX - ?n \<or> ?n < 0 \<and> ?k < INT_MIN - ?n then Inl err_day_overflow
      else catchOpenSSL (ossl_ASN1_TIME_adj T 0 (int32 (?n + ?k)) (?s + ?r))
        (\<lambda>m. MoCOCrWException (Str ''Addition leaves Asn1Time range: '' # m)))"
    using e False n k s r
    by (simp add: Asn1Time_plus_def Asn1Time_fromTimeT_def ossl_ASN1_TIME_from_time_t_def
        diff_ok [OF assms(1)] Let_def int_limits SECS_def cong: conj_cong)
  moreover have "(?n > 0 \<and> ?k > INT_MAX - ?n \<or> ?n < 0 \<and> ?k < INT_MIN - ?n) \<longleftrightarrow> ?n + ?k > INT_MAX \<or> ?n + ?k < INT_MIN"
    using k n unfolding int_limits by linarith
  moreover have "if YEAR_1900 \<le> secs a + d \<and> secs a + d \<le> maxAsn1TimeAsTimeT
     then \<exists>t. SSL_ASN1_TIME_adj T 0 (?n + ?k) (?s + ?r) = Some t \<and> secs t = secs a + d
     else SSL_ASN1_TIME_adj T 0 (?n + ?k) (?s + ?r) = None"
    if "\<not> (?n + ?k > INT_MAX \<or> ?n + ?k < INT_MIN)"
    by (rule adj_ok [OF assms day_second_sum]) (use that s r in \<open>simp_all add: int_limits\<close>)
  ultimately show ?thesis
    using False by (auto simp: int_limits ossl_simps OpenSSLException_default_def err_leaves_range_def split: if_splits)
qed

lemma plus_secs:
  assumes "time_laws T secs" "YEAR_1900 \<le> secs a + d" "secs a + d \<le> maxAsn1TimeAsTimeT"
  shows "\<exists>t. Asn1Time_plus T a d = Inr t \<and> secs t = secs a + d"
proof -
  let ?n = "trunc_days (secs a)" let ?s = "secs a - ?n * SECS" let ?k = "trunc_days d" let ?r = "d - ?k * SECS"
  have a: "\<bar>secs a\<bar> \<le> 4000000 * SECS" and d: "\<bar>d\<bar> \<le> 8000000 * SECS"
    using assms(2,3) secs_range [OF assms(1), of a] by (auto simp: asn1_consts abs_le_iff)
  have n: "- 4000000 \<le> ?n" "?n \<le> 4000000" and k: "- 8000000 \<le> ?k" "?k \<le> 8000000"
    using trunc_days_bound [OF a] trunc_days_bound [OF d] by linarith+
  have "- 86400 < ?s" "?s < 86400" "- 86400 < ?r" "?r < 86400"
    using trunc_days_rest(1) [of "secs a"] trunc_days_rest(1) [of d] by (simp_all add: SECS_def abs_less_iff)
  then have "\<exists>t. SSL_ASN1_TIME_adj T 0 (?n + ?k) (?s + ?r) = Some t \<and> secs t = secs a + d"
    using adj_ok [OF assms(1) day_second_sum, of "secs a" d] n k assms(2,3) by (simp add: int_limits)
  moreover have "\<not> (INT_MAX * SECS < d \<or> INT_MIN * SECS > d)"
    using d by (auto simp: int_limits SECS_def abs_le_iff)
  ultimately show ?thesis
    using n k assms(2,3) by (auto simp: plus_value [OF assms(1)] int_limits)
qed

lemma plus_ok:
  assumes "time_laws T secs"
  shows "if YEAR_1900 \<le> secs a + d \<and> secs a + d \<le> maxAsn1TimeAsTimeT
     then \<exists>t. Asn1Time_plus T a d = Inr t \<and> secs t = secs a + d
     else \<exists>m. Asn1Time_plus T a d = Inl (MoCOCrWException m)"
proof (cases "YEAR_1900 \<le> secs a + d \<and> secs a + d \<le> maxAsn1TimeAsTimeT")
  case True
  then show ?thesis using plus_secs [OF assms, of a d] by simp
next
  case False
  then show ?thesis
    by (auto simp: plus_value [OF assms] err_duration_def err_day_overflow_def err_leaves_range_def)
qed

text \<open>
  C29: Adding a duration gives exactly the time that many seconds later, whenever that time lies
  in the years 1900 to 9999.  Otherwise it throws, and each of the three reasons has its own
  message: a number of days that is not an \<open>int\<close>, an overflow of the sum of days, and a time
  out of range.  With the arithmetic of \<open>int\<close> and 64 bit integers of the code, which wraps,
  this holds for every time and every 64 bit duration.  Subtracting a duration adds its
  negative, and the smallest duration, which has none, is refused.
\<close>

theorem Asn1Time_plus_exact:
  assumes "time_laws T secs"
  shows "(YEAR_1900 \<le> secs a + d \<and> secs a + d \<le> maxAsn1TimeAsTimeT \<longrightarrow>
        (\<exists>t. Asn1Time_plus T a d = Inr t \<and> secs t = secs a + d))
    \<and> (\<not> (YEAR_1900 \<le> secs a + d \<and> secs a + d \<le> maxAsn1TimeAsTimeT) \<longrightarrow> Asn1Time_plus T a d =
        Inl (if d < INT_MIN * SECS \<or> INT_MAX * SECS < d then err_duration
             else if trunc_days (secs a) + trunc_days d < INT_MIN \<or> INT_MAX < trunc_days (secs a) + trunc_days d
             then err_day_overflow else err_leaves_range))
    \<and> (LONG_MIN < d \<and> d \<le> LONG_MAX \<longrightarrow> Asn1Time_minus_duration T a d = Asn1Time_plus T a (- d))
    \<and> Asn1Time_minus_duration T a LONG_MIN = Inl err_duration"
proof (intro conjI impI)
  show "Asn1Time_minus_duration T a LONG_MIN = Inl err_duration"
    by (simp add: Asn1Time_minus_duration_def neg64_def plus_value [OF assms] int_limits int64_wraps SECS_def)
qed (use plus_secs [OF assms, of a d] in \<open>auto simp: Asn1Time_minus_duration_def neg64_def plus_value [OF assms] int_limits\<close>)

text \<open>
  The difference of two times added to the earlier operand gives back the first one if that
  is not before 1900; for a time before 1900 the addition throws, although the difference is
  documented to be guaranteed to lead back.
\<close>

theorem Asn1Time_difference_leads_back:
  assumes "time_laws T secs"
  shows "\<exists>d. Asn1Time_minus T a b = Inr d
     \<and> (YEAR_1900 \<le> secs a \<longrightarrow> (\<exists>t. Asn1Time_plus T b d = Inr t \<and> Asn1Time_eq T t a = Inr True))
     \<and> (secs a < YEAR_1900 \<longrightarrow> (\<exists>m. Asn1Time_plus T b d = Inl (MoCOCrWException m)))"
  using plus_ok [OF assms, of b "secs a - secs b"] secs_range [OF assms, of a]
  by (auto simp: minus_ok [OF assms] Asn1Time_eq_def split: if_splits)

section \<open>Conversions\<close>

lemma limits_ok:
  assumes "time_laws T secs"
  shows "checkAsn1TimeFitsIntoLimits T t lo hi =
     (if secs t < lo then Inl err_too_small else if secs t > hi then Inl err_too_big else Inr ())"
  by (simp add: checkAsn1TimeFitsIntoLimits_def compare_ok [OF assms] cmp_int_def)

lemma time_point_limits: "to_time_t LONG_MAX = 9223372036" "to_time_t LONG_MIN = - 9223372036"
  by (simp_all add: to_time_t_def int_limits)

lemma to_time_t_range:
  "LONG_MIN \<le> tp \<Longrightarrow> tp \<le> LONG_MAX \<Longrightarrow> - 9223372036 \<le> to_time_t tp \<and> to_time_t tp \<le> 9223372036"
proof -
  assume "LONG_MIN \<le> tp" "tp \<le> LONG_MAX"
  then have "\<bar>tp\<bar> \<le> 9223372036854775808" by (auto simp: int_limits abs_le_iff)
  then have "\<bar>tp\<bar> div 1000000000 \<le> 9223372036" by linarith
  moreover have "0 \<le> \<bar>tp\<bar> div 1000000000" by (simp add: pos_imp_zdiv_nonneg_iff)
  ultimately show ?thesis by (auto simp: to_time_t_def sgn_if)
qed

lemma toTimePoint_ok:
  assumes "time_laws T secs"
  shows "Asn1Time_toTimePoint T a =
     (if secs a < - 9223372036 then Inl err_too_small
      else if secs a > 9223372036 then Inl err_too_big else Inr (1000000000 * secs a))"
  by (simp add: Asn1Time_toTimePoint_def asn1TimeToTimePoint_def limits_ok [OF assms]
      time_point_limits secondsDiffToEpoch_ok [OF assms] not_less)

lemma toTimeT_ok: "time_laws T secs \<Longrightarrow> Asn1Time_toTimeT T a = Inr (secs a)"
  using secs_range [of T secs a]
  by (simp add: Asn1Time_toTimeT_def asn1TimeToTimeT_def limits_ok [where secs = secs]
      secondsDiffToEpoch_ok asn1_consts int_limits)

text \<open>
  Every time converts to \<open>time_t\<close> without an exception, and back.  The conversion to a
  \<open>time_point\<close> succeeds exactly for the times its nanoseconds can represent, without
  overflow, and throws the exception for the side that is left otherwise; a \<open>time_point\<close>
  converted to \<open>Asn1Time\<close> and back is truncated to whole seconds.
\<close>

theorem Asn1Time_conversions:
  assumes "time_laws T secs"
  shows "Asn1Time_toTimeT T a = Inr (secs a)
    \<and> (minAsn1TimeAsTimeT \<le> tt \<and> tt \<le> maxAsn1TimeAsTimeT \<longrightarrow>
        bindR (Asn1Time_fromTimeT T tt) (Asn1Time_toTimeT T) = Inr tt)
    \<and> Asn1Time_toTimePoint T a =
        (if secs a < - 9223372036 then Inl err_too_small
         else if secs a > 9223372036 then Inl err_too_big else Inr (1000000000 * secs a))
    \<and> (\<bar>secs a\<bar> \<le> 9223372036 \<longrightarrow> LONG_MIN \<le> 1000000000 * secs a \<and> 1000000000 * secs a \<le> LONG_MAX)
    \<and> (LONG_MIN \<le> tp \<and> tp \<le> LONG_MAX \<longrightarrow>
        bindR (Asn1Time_fromTimePoint T tp) (Asn1Time_toTimePoint T) = Inr (1000000000 * to_time_t tp))"
proof (intro conjI impI)
  show "Asn1Time_toTimeT T a = Inr (secs a)" by (rule toTimeT_ok [OF assms])
next
  assume "minAsn1TimeAsTimeT \<le> tt \<and> tt \<le> maxAsn1TimeAsTimeT"
  then obtain b where "SSL_ASN1_TIME_set T tt = Some b" "secs b = tt" using time_setD [OF assms] by blast
  then show "bindR (Asn1Time_fromTimeT T tt) (Asn1Time_toTimeT T) = Inr tt"
    by (simp add: Asn1Time_fromTimeT_def ossl_simps toTimeT_ok [OF assms])
next
  assume "LONG_MIN \<le> tp \<and> tp \<le> LONG_MAX"
  then have r: "- 9223372036 \<le> to_time_t tp" "to_time_t tp \<le> 9223372036"
    using to_time_t_range by blast+
  then obtain b where "SSL_ASN1_TIME_set T (to_time_t tp) = Some b" "secs b = to_time_t tp"
    using time_setD [OF assms, of "to_time_t tp"] by (auto simp: asn1_consts)
  with r show "bindR (Asn1Time_fromTimePoint T tp) (Asn1Time_toTimePoint T) = Inr (1000000000 * to_time_t tp)"
    by (simp add: Asn1Time_fromTimePoint_def ossl_simps toTimePoint_ok [OF assms])
qed (auto simp: toTimePoint_ok [OF assms] int_limits abs_le_iff)

section \<open>A concrete instance\<close>

definition clamp :: "int \<Rightarrow> int" where
  "clamp t = max minAsn1TimeAsTimeT (min maxAsn1TimeAsTimeT t)"

definition ref_time_lib :: "int time_lib" where
  "ref_time_lib =
     \<lparr>SSL_ASN1_TIME_diff = (\<lambda>a b. let d = clamp b - clamp a in (1, trunc_days d, d - trunc_days d * SECS)),
      SSL_ASN1_TIME_set = Some,
      SSL_ASN1_TIME_new = Some 0,
      SSL_ASN1_STRING_dup = Some,
      SSL_ASN1_TIME_set_string = (\<lambda>t s. (0, t)),
      SSL_ASN1_TIME_adj = (\<lambda>t days s. let x = t + days * SECS + s in
        if YEAR_1900 \<le> x \<and> x \<le> maxAsn1TimeAsTimeT then Some x else None)\<rparr>"

lemma ref_time_laws: "time_laws ref_time_lib clamp"
  by (auto simp: time_laws_def ref_time_lib_def clamp_def Let_def asn1_consts)

theorem Asn1Time_order_witness:
  "Asn1Time_less ref_time_lib 5 7 = Inr True \<and> Asn1Time_minus ref_time_lib 5 7 = Inr (- 2)"
  using Asn1Time_order [OF ref_time_laws, of 5 7] by (simp add: clamp_def asn1_consts)

theorem Asn1Time_plus_exact_witness:
  "(\<exists>t. Asn1Time_plus ref_time_lib 5 (- 100000) = Inr t \<and> clamp t = - 99995)
   \<and> Asn1Time_plus ref_time_lib 5 253402300799 = Inl err_leaves_range
   \<and> Asn1Time_plus ref_time_lib 5 371085174374400 = Inl err_duration
   \<and> Asn1Time_plus ref_time_lib 86405 185542587100800 = Inl err_day_overflow"
  using Asn1Time_plus_exact [OF ref_time_laws, of 5 "- 100000"]
    Asn1Time_plus_exact [OF ref_time_laws, of 5 253402300799]
    Asn1Time_plus_exact [OF ref_time_laws, of 5 371085174374400]
    Asn1Time_plus_exact [OF ref_time_laws, of 86405 185542587100800]
  by (simp add: clamp_def asn1_consts int_limits trunc_days_def)

theorem Asn1Time_difference_leads_back_witness:
  "\<exists>d. Asn1Time_minus ref_time_lib (- 3000000000) 0 = Inr d
     \<and> (\<exists>m. Asn1Time_plus ref_time_lib 0 d = Inl (MoCOCrWException m))"
  using Asn1Time_difference_leads_back [OF ref_time_laws, of "- 3000000000" 0]
  by (simp add: clamp_def asn1_consts)

theorem Asn1Time_conversions_witness:
  "Asn1Time_toTimeT ref_time_lib 10000000000 = Inr 10000000000
   \<and> Asn1Time_toTimePoint ref_time_lib 10000000000 = Inl err_too_big
   \<and> bindR (Asn1Time_fromTimePoint ref_time_lib 1999999999) (Asn1Time_toTimePoint ref_time_lib)
       = Inr 1000000000"
  using Asn1Time_conversions [OF ref_time_laws, of 10000000000 0 1999999999]
  by (simp add: clamp_def asn1_consts int_limits to_time_t_def)

end
