(* ===== verification/Bio_Object.thy ===== *)
theory Bio_Object
  imports Check_Call
begin

text \<open>
  \<open>src/src/bio.cpp\<close>: memory and file BIOs, through which all PEM and DER input and output
  of the library goes, over the BIO functions of OpenSSL (the record \<open>bio_lib\<close>).
\<close>

section \<open>OpenSSL functions and their wrappers\<close>

text \<open>
  A BIO is a value of type \<open>'b\<close>.  \<open>BIO_gets\<close> and \<open>BIO_read\<close> get the size of the buffer
  and return their status and the bytes they wrote to it.
\<close>

datatype BIO_METHOD = BIO_METHOD_mem

record 'b bio_lib =
  SSL_BIO_new :: "BIO_METHOD \<Rightarrow> 'b option"
  SSL_BIO_new_file :: "string \<Rightarrow> string \<Rightarrow> 'b option"
  SSL_BIO_gets :: "'b \<Rightarrow> nat \<Rightarrow> int \<times> bytes \<times> 'b"
  SSL_BIO_puts :: "'b \<Rightarrow> string \<Rightarrow> int \<times> 'b"
  SSL_BIO_write :: "'b \<Rightarrow> bytes \<Rightarrow> int \<times> 'b"
  SSL_BIO_read :: "'b \<Rightarrow> int \<Rightarrow> int \<times> bytes \<times> 'b"

definition ossl_BIO_s_mem :: BIO_METHOD where
  [ossl_simps]: "ossl_BIO_s_mem = BIO_METHOD_mem"

definition ossl_BIO_new :: "'b bio_lib \<Rightarrow> BIO_METHOD \<Rightarrow> 'b res" where
  [ossl_simps]: "ossl_BIO_new B method = OpensslCallPtr (SSL_BIO_new B method)"

definition ossl_BIO_new_file :: "'b bio_lib \<Rightarrow> string \<Rightarrow> string \<Rightarrow> 'b res" where
  [ossl_simps]: "ossl_BIO_new_file B filename mode = OpensslCallPtr (SSL_BIO_new_file B filename mode)"

definition ossl_BIO_gets :: "'b bio_lib \<Rightarrow> 'b \<Rightarrow> bytes \<Rightarrow> (int \<times> bytes) res \<times> 'b" where
  "ossl_BIO_gets B bio buf =
     (case SSL_BIO_gets B bio (length buf) of (rv, out, bio') \<Rightarrow>
        (if rv = - 2 then Inl (OpenSSLException [Str ''Method 'gets' not implemented for this BIO''])
         else Inr (rv, overwrite buf out), bio'))"

definition ossl_BIO_puts :: "'b bio_lib \<Rightarrow> string \<Rightarrow> ('b, int) st" where
  "ossl_BIO_puts B buf bio =
     (case SSL_BIO_puts B bio (c_str buf) of (rv, bio') \<Rightarrow>
        (if rv = - 2 then Inl (OpenSSLException [Str ''Method 'puts' not implemented for this BIO''])
         else Inr rv, bio'))"

definition ossl_BIO_write :: "'b bio_lib \<Rightarrow> bytes \<Rightarrow> ('b, int) st" where
  "ossl_BIO_write B data bio =
     (if int (length data) > INT_MAX
      then (Inl (OpenSSLException [Str ''BIO_write cannot be called with so much data'']), bio)
      else (case SSL_BIO_write B bio data of (rv, bio') \<Rightarrow>
        (if rv = - 2 then Inl (OpenSSLException [Str ''Method 'write' not implemented for this BIO''])
         else Inr rv, bio')))"

definition ossl_BIO_read :: "'b bio_lib \<Rightarrow> 'b \<Rightarrow> bytes \<Rightarrow> nat \<Rightarrow> (int \<times> bytes) res \<times> 'b" where
  "ossl_BIO_read B bio buf numBytes =
     (if int numBytes > INT_MAX
      then (Inl (OpenSSLException [Str ''BIO_read cannot be called with so much data'']), bio)
      else (case SSL_BIO_read B bio (int numBytes) of (rv, out, bio') \<Rightarrow>
        (let buf' = overwrite (resize buf numBytes) out in
         if rv = - 2 then Inl (OpenSSLException [Str ''Method 'read' not implemented for this BIO''])
         else if rv > 0 then Inr (rv, resize buf' (nat rv))
         else Inr (rv, resize buf' 0), bio')))"

section \<open>BioObject\<close>

datatype BioTypes = MEM | FILE

primrec bioMethodFromType :: "BioTypes \<Rightarrow> BIO_METHOD res" where
  "bioMethodFromType MEM = Inr ossl_BIO_s_mem"
| "bioMethodFromType FILE = Inl (RuntimeError [Str ''Unsupported type: '', Num 1])"

definition BioObject_new :: "'b bio_lib \<Rightarrow> BioTypes \<Rightarrow> 'b res" where
  "BioObject_new B type = bindR (bioMethodFromType type) (ossl_BIO_new B)"

text \<open>The number of characters written is ignored here, and checked by the overload for bytes.\<close>

definition BioObject_write_string :: "'b bio_lib \<Rightarrow> string \<Rightarrow> ('b, unit) st" where
  "BioObject_write_string B buf = bindS (ossl_BIO_puts B buf) (\<lambda>_. returnS ())"

definition err_short_write :: "int \<Rightarrow> exn" where
  "err_short_write n = RuntimeError
     [Str ''Could not write all data. Reason unknown (OpenSSL reported a count of '', Num n, Str '')'']"

definition BioObject_write :: "'b bio_lib \<Rightarrow> bytes \<Rightarrow> ('b, unit) st" where
  "BioObject_write B buf = bindS (ossl_BIO_write B buf) (\<lambda>written.
     if written < 0 \<or> nat written < length buf then throwS (err_short_write written) else returnS ())"

definition err_corrupted :: exn where
  "err_corrupted = RuntimeError
     [Str ''OpenSSL corrupted the memory. Your best option now is to terminate.'']"

definition err_read :: "int \<Rightarrow> exn" where
  "err_read n = RuntimeError
     [Str ''Could not read the string. Reason unknown (OpenSSL reported a count of '', Num n, Str '')'']"

definition BUFFSIZE :: nat where "BUFFSIZE = 2048"

text \<open>
  The reading loops end when OpenSSL reports that nothing is left; \<open>None\<close> is a loop that does
  not end.
\<close>

partial_function (option) flushToString_loop ::
  "'b bio_lib \<Rightarrow> bytes \<Rightarrow> string \<Rightarrow> 'b \<Rightarrow> (string res \<times> 'b) option" where
  "flushToString_loop B buffer ostream bio =
     (case ossl_BIO_gets B bio buffer of (r, bio') \<Rightarrow>
        (case r of
           Inl e \<Rightarrow> Some (Inl e, bio')
         | Inr cb \<Rightarrow>
             (let count = fst cb; buffer' = snd cb in
              if count < 0 then Some (Inl (err_read count), bio')
              else if count > int BUFFSIZE then Some (Inl err_corrupted, bio')
              else let ostream' = ostream @ bytes_string (take (nat count) buffer')
                   in if count > 0 then flushToString_loop B buffer' ostream' bio'
                      else Some (Inr ostream', bio'))))"

definition flushToString :: "'b bio_lib \<Rightarrow> 'b \<Rightarrow> (string res \<times> 'b) option" where
  "flushToString B bio = flushToString_loop B (replicate BUFFSIZE 0) [] bio"

partial_function (option) flushToVector_loop ::
  "'b bio_lib \<Rightarrow> bytes \<Rightarrow> bytes \<Rightarrow> 'b \<Rightarrow> (bytes res \<times> 'b) option" where
  "flushToVector_loop B tmpBuffer outputBuffer bio =
     (case ossl_BIO_read B bio tmpBuffer BUFFSIZE of (r, bio') \<Rightarrow>
        (case r of
           Inl e \<Rightarrow> Some (Inl e, bio')
         | Inr cb \<Rightarrow>
             (let count = fst cb; tmpBuffer' = snd cb in
              if count < 0 then Some (Inr outputBuffer, bio')
              else if nat count > BUFFSIZE then Some (Inl err_corrupted, bio')
              else let outputBuffer' = outputBuffer @ tmpBuffer'
                   in if count > 0 then flushToVector_loop B tmpBuffer' outputBuffer' bio'
                      else Some (Inr outputBuffer', bio'))))"

definition flushToVector :: "'b bio_lib \<Rightarrow> 'b \<Rightarrow> (bytes res \<times> 'b) option" where
  "flushToVector B bio = flushToVector_loop B [] [] bio"

section \<open>Files\<close>

datatype FileMode = READ | WRITE
datatype FileType = TEXT | BINARY

definition FileBio_mode :: "FileMode \<Rightarrow> FileType \<Rightarrow> string" where
  "FileBio_mode mode type =
     (let modeStr = (case mode of READ \<Rightarrow> ''r'' | WRITE \<Rightarrow> ''w'')
      in if type = BINARY then modeStr @ ''b'' else modeStr)"

definition FileBio_new :: "'b bio_lib \<Rightarrow> string \<Rightarrow> FileMode \<Rightarrow> FileType \<Rightarrow> 'b res" where
  "FileBio_new B filename mode type = ossl_BIO_new_file B (c_str filename) (FileBio_mode mode type)"

section \<open>Objects written to and read from a memory BIO\<close>

text \<open>
  The shape of all output functions of the library (\<open>toPEM\<close>, \<open>toString\<close>): a memory BIO, one
  checked OpenSSL call that prints to it, \<open>flushToString\<close>; and of the input functions: a
  memory BIO, \<open>write\<close>, one checked call that parses from it.
\<close>

definition bio_printed :: "'b bio_lib \<Rightarrow> ('b \<Rightarrow> 'b res) \<Rightarrow> string res option" where
  "bio_printed B print =
     (case bindR (BioObject_new B MEM) print of
        Inl e \<Rightarrow> Some (Inl e)
      | Inr bio \<Rightarrow> map_option fst (flushToString B bio))"

definition bio_parsed :: "'b bio_lib \<Rightarrow> string \<Rightarrow> ('b \<Rightarrow> 'a res) \<Rightarrow> 'a res" where
  "bio_parsed B input parse =
     bindR (BioObject_new B MEM) (\<lambda>bio.
       (case BioObject_write_string B input bio of
          (Inl e, _) \<Rightarrow> Inl e
        | (Inr _, bio') \<Rightarrow> parse bio'))"

text \<open>The same for DER: \<open>flushToVector\<close>, and \<open>write\<close> of bytes.\<close>

definition bio_printed_bytes :: "'b bio_lib \<Rightarrow> ('b \<Rightarrow> 'b res) \<Rightarrow> bytes res option" where
  "bio_printed_bytes B print =
     (case bindR (BioObject_new B MEM) print of
        Inl e \<Rightarrow> Some (Inl e)
      | Inr bio \<Rightarrow> map_option fst (flushToVector B bio))"

definition bio_parsed_bytes :: "'b bio_lib \<Rightarrow> bytes \<Rightarrow> ('b \<Rightarrow> 'a res) \<Rightarrow> 'a res" where
  "bio_parsed_bytes B input parse =
     bindR (BioObject_new B MEM) (\<lambda>bio.
       (case BioObject_write B input bio of
          (Inl e, _) \<Rightarrow> Inl e
        | (Inr _, bio') \<Rightarrow> parse bio'))"

section \<open>What OpenSSL documents\<close>

text \<open>
  A memory BIO holds a sequence of bytes.  Writing appends; \<open>BIO_gets\<close> takes a non-empty
  part of at most one byte less than the buffer, \<open>BIO_read\<close> as much as fits.
\<close>

definition bio_laws :: "'b bio_lib \<Rightarrow> ('b \<Rightarrow> bytes) \<Rightarrow> bool" where
  "bio_laws B content \<longleftrightarrow>
     (\<exists>b. SSL_BIO_new B BIO_METHOD_mem = Some b \<and> content b = [])
     \<and> (\<forall>b n. n > 1 \<longrightarrow> (\<exists>k out b'. SSL_BIO_gets B b n = (int k, out, b') \<and> length out \<le> n
          \<and> k < n \<and> k \<le> length (content b) \<and> (k = 0 \<longleftrightarrow> content b = [])
          \<and> take k out = take k (content b) \<and> k \<le> length out \<and> content b' = drop k (content b)))
     \<and> (\<forall>b s. \<exists>b'. SSL_BIO_puts B b s = (int (length s), b') \<and> content b' = content b @ string_bytes s)
     \<and> (\<forall>b d. \<exists>b'. SSL_BIO_write B b d = (int (length d), b') \<and> content b' = content b @ d)
     \<and> (\<forall>b n. n > 0 \<longrightarrow> (if content b = [] then \<exists>b' out. SSL_BIO_read B b (int n) = (- 1, out, b')
          else \<exists>b'. SSL_BIO_read B b (int n) = (int (length (take n (content b))), take n (content b), b')
             \<and> content b' = drop n (content b)))"

lemmas bio_lawsD = bio_laws_def [THEN iffD1]
lemmas bio_newD = bio_lawsD [THEN conjunct1]
  and bio_getsD = bio_lawsD [THEN conjunct2, THEN conjunct1, rule_format]
  and bio_putsD = bio_lawsD [THEN conjunct2, THEN conjunct2, THEN conjunct1, rule_format]
  and bio_writeD = bio_lawsD [THEN conjunct2, THEN conjunct2, THEN conjunct2, THEN conjunct1, rule_format]
  and bio_readD = bio_lawsD [THEN conjunct2, THEN conjunct2, THEN conjunct2, THEN conjunct2, rule_format]

section \<open>Reading everything\<close>

lemma take_overwrite_prefix:
  "k \<le> length out \<Longrightarrow> length out \<le> length buf \<Longrightarrow> take k (overwrite buf out) = take k out"
  by (simp add: overwrite_def)

lemma flushToString_loop_ok:
  assumes "bio_laws B content"
  shows "length buf = BUFFSIZE \<Longrightarrow>
     \<exists>b'. flushToString_loop B buf acc b = Some (Inr (acc @ bytes_string (content b)), b')"
proof (induction "length (content b)" arbitrary: b buf acc rule: less_induct)
  case less
  obtain k out b' where g: "SSL_BIO_gets B b BUFFSIZE = (int k, out, b')" "length out \<le> BUFFSIZE"
    "k < BUFFSIZE" "k \<le> length (content b)" "k = 0 \<longleftrightarrow> content b = []"
    "take k out = take k (content b)" "k \<le> length out" "content b' = drop k (content b)"
    using bio_getsD [OF assms, of BUFFSIZE b] by (auto simp: BUFFSIZE_def)
  have gets: "ossl_BIO_gets B b buf = (Inr (int k, overwrite buf out), b')"
    using g(1) less.prems by (simp add: ossl_BIO_gets_def)
  have read: "take k (overwrite buf out) = take k (content b)"
    using take_overwrite_prefix [of k out buf] g(2,6,7) less.prems by simp
  show ?case
  proof (cases "k = 0")
    case True
    then show ?thesis
      using gets g(5) by (subst flushToString_loop.simps) (simp add: Let_def bytes_string_def)
  next
    case False
    let ?acc = "acc @ bytes_string (take k (content b))"
    have "length (content b') < length (content b)" using False g(4,8) by simp
    then obtain c where c: "flushToString_loop B (overwrite buf out) ?acc b'
        = Some (Inr (?acc @ bytes_string (content b')), c)"
      using less.hyps [of b' "overwrite buf out" ?acc] less.prems by auto
    have "flushToString_loop B buf acc b = flushToString_loop B (overwrite buf out) ?acc b'"
      using gets read False g(3) by (subst flushToString_loop.simps) (simp add: Let_def)
    moreover have "?acc @ bytes_string (content b') = acc @ bytes_string (content b)"
      using g(8) by (simp add: bytes_string_def flip: map_append)
    ultimately show ?thesis using c by simp
  qed
qed

lemma flushToVector_loop_ok:
  assumes "bio_laws B content"
  shows "\<exists>b'. flushToVector_loop B buf acc b = Some (Inr (acc @ content b), b')"
proof (induction "length (content b)" arbitrary: b buf acc rule: less_induct)
  case less
  have n: "BUFFSIZE > 0" "int BUFFSIZE \<le> INT_MAX" by (simp_all add: BUFFSIZE_def INT_MAX_def)
  show ?case
  proof (cases "content b = []")
    case True
    then obtain b' out where "SSL_BIO_read B b (int BUFFSIZE) = (- 1, out, b')"
      using bio_readD [OF assms n(1), of b] by auto
    then show ?thesis
      using True n by (subst flushToVector_loop.simps) (simp add: ossl_BIO_read_def Let_def)
  next
    case False
    let ?t = "take BUFFSIZE (content b)"
    obtain b' where b': "SSL_BIO_read B b (int BUFFSIZE) = (int (length ?t), ?t, b')"
      "content b' = drop BUFFSIZE (content b)"
      using bio_readD [OF assms n(1), of b] False by auto
    have pos: "length ?t > 0" "length ?t \<le> BUFFSIZE" using False n by simp_all
    have "resize (overwrite (resize buf BUFFSIZE) ?t) (length ?t) = ?t"
      using pos(2) take_overwrite [of ?t "resize buf BUFFSIZE"] by (simp add: resize_prefix del: length_take)
    then have read: "ossl_BIO_read B b buf BUFFSIZE = (Inr (int (length ?t), ?t), b')"
      using b'(1) n pos by (simp add: ossl_BIO_read_def Let_def)
    have "length (content b') < length (content b)" using False b'(2) n by simp
    then obtain c where c: "flushToVector_loop B ?t (acc @ ?t) b' = Some (Inr ((acc @ ?t) @ content b'), c)"
      using less.hyps [of b' ?t "acc @ ?t"] by auto
    have "flushToVector_loop B buf acc b = flushToVector_loop B ?t (acc @ ?t) b'"
      using read pos by (subst flushToVector_loop.simps) (simp add: Let_def)
    with c b'(2) show ?thesis by simp
  qed
qed

lemma flushToString_ok:
  "bio_laws B content \<Longrightarrow> \<exists>b'. flushToString B b = Some (Inr (bytes_string (content b)), b')"
  using flushToString_loop_ok [of B content "replicate BUFFSIZE 0" "[]" b] by (simp add: flushToString_def)

lemma flushToVector_ok:
  "bio_laws B content \<Longrightarrow> \<exists>b'. flushToVector B b = Some (Inr (content b), b')"
  using flushToVector_loop_ok [of B content "[]" "[]" b] by (simp add: flushToVector_def)

lemma BioObject_new_ok:
  assumes "bio_laws B content"
  obtains b where "BioObject_new B MEM = Inr b" "content b = []"
  using bio_newD [OF assms] by (auto simp: BioObject_new_def ossl_simps)

lemma write_string_ok:
  assumes "bio_laws B content"
  obtains b' where "BioObject_write_string B s b = (Inr (), b')" "content b' = content b @ string_bytes (c_str s)"
proof -
  obtain b' where b: "SSL_BIO_puts B b (c_str s) = (int (length (c_str s)), b')"
    "content b' = content b @ string_bytes (c_str s)"
    using bio_putsD [OF assms] by blast
  then have "BioObject_write_string B s b = (Inr (), b')"
    by (simp add: BioObject_write_string_def ossl_BIO_puts_def bindS_def)
  then show thesis using b(2) by (rule that)
qed

lemma write_ok:
  assumes "bio_laws B content" "int (length d) \<le> INT_MAX"
  obtains b' where "BioObject_write B d b = (Inr (), b')" "content b' = content b @ d"
proof -
  obtain b' where b: "SSL_BIO_write B b d = (int (length d), b')" "content b' = content b @ d"
    using bio_writeD [OF assms(1)] by blast
  then have "BioObject_write B d b = (Inr (), b')"
    using assms(2) by (simp add: BioObject_write_def ossl_BIO_write_def bindS_def)
  then show thesis using b(2) by (rule that)
qed

lemma feed_write_ok:
  assumes "bio_laws B content"
  shows "(\<forall>d \<in> set ds. int (length d) \<le> INT_MAX) \<Longrightarrow>
      \<exists>b'. feed (BioObject_write B) ds b = (Inr (), b') \<and> content b' = content b @ concat ds"
proof (induction ds arbitrary: b)
  case (Cons d ds)
  obtain b1 where b1: "BioObject_write B d b = (Inr (), b1)" "content b1 = content b @ d"
    using write_ok [OF assms] Cons.prems by auto
  with Cons.IH [of b1] Cons.prems show ?case by (auto simp: bindS_def)
qed simp

lemma bio_printed_ok:
  assumes "bio_laws B content" "\<And>b. content b = [] \<Longrightarrow> \<exists>b'. print b = Inr b' \<and> content b' = x"
  shows "bio_printed B print = Some (Inr (bytes_string x))"
proof -
  obtain b where b: "BioObject_new B MEM = Inr b" "content b = []" using BioObject_new_ok [OF assms(1)] by blast
  then obtain b' where "print b = Inr b'" "content b' = x" using assms(2) by blast
  with b flushToString_ok [OF assms(1), of b'] show ?thesis by (auto simp: bio_printed_def)
qed

lemma bio_parsed_ok:
  assumes "bio_laws B content"
  shows "\<exists>b. content b = string_bytes (c_str s) \<and> bio_parsed B s parse = parse b"
proof -
  obtain b where b: "BioObject_new B MEM = Inr b" "content b = []" using BioObject_new_ok [OF assms] by blast
  obtain b' where "BioObject_write_string B s b = (Inr (), b')" "content b' = string_bytes (c_str s)"
    using write_string_ok [OF assms, of s b] b(2) by auto
  with b show ?thesis by (auto simp: bio_parsed_def)
qed

lemma bio_printed_bytes_ok:
  assumes "bio_laws B content" "\<And>b. content b = [] \<Longrightarrow> \<exists>b'. print b = Inr b' \<and> content b' = x"
  shows "bio_printed_bytes B print = Some (Inr x)"
proof -
  obtain b where b: "BioObject_new B MEM = Inr b" "content b = []" using BioObject_new_ok [OF assms(1)] by blast
  then obtain b' where "print b = Inr b'" "content b' = x" using assms(2) by blast
  with b flushToVector_ok [OF assms(1), of b'] show ?thesis by (auto simp: bio_printed_bytes_def)
qed

lemma bio_parsed_bytes_ok:
  assumes "bio_laws B content" "int (length d) \<le> INT_MAX"
  shows "\<exists>b. content b = d \<and> bio_parsed_bytes B d parse = parse b"
proof -
  obtain b where b: "BioObject_new B MEM = Inr b" "content b = []" using BioObject_new_ok [OF assms(1)] by blast
  obtain b' where "BioObject_write B d b = (Inr (), b')" "content b' = d"
    using write_ok [OF assms, of b] b(2) by auto
  with b show ?thesis by (auto simp: bio_parsed_bytes_def)
qed

text \<open>
  C35: Reading a memory BIO ends and returns exactly what was written to it, in any number of
  writes and whatever the sizes: as bytes, and as a string for a string without null
  characters.  A string with a null character is silently cut there.
\<close>

theorem BioObject_roundtrip:
  assumes "bio_laws B content" "BioObject_new B MEM = Inr b0" "content b0 = []"
    and "\<forall>d \<in> set ds. int (length d) \<le> INT_MAX"
  shows "(\<exists>b b'. feed (BioObject_write B) ds b0 = (Inr (), b)
          \<and> flushToVector B b = Some (Inr (concat ds), b'))
     \<and> (\<exists>b b'. BioObject_write_string B s b0 = (Inr (), b) \<and> flushToString B b = Some (Inr (c_str s), b'))
     \<and> (CHR 0x00 \<notin> set s \<longrightarrow> c_str s = s) \<and> c_str (s @ CHR 0x00 # t) = c_str s"
proof (intro conjI)
  obtain b where "feed (BioObject_write B) ds b0 = (Inr (), b)" "content b = concat ds"
    using feed_write_ok [OF assms(1,4), of b0] assms(3) by auto
  then show "\<exists>b b'. feed (BioObject_write B) ds b0 = (Inr (), b) \<and> flushToVector B b = Some (Inr (concat ds), b')"
    using flushToVector_ok [OF assms(1), of b] by auto
  obtain b where "BioObject_write_string B s b0 = (Inr (), b)" "content b = string_bytes (c_str s)"
    using write_string_ok [OF assms(1), of s b0] assms(3) by auto
  then show "\<exists>b b'. BioObject_write_string B s b0 = (Inr (), b) \<and> flushToString B b = Some (Inr (c_str s), b')"
    using flushToString_ok [OF assms(1), of b] by auto
qed (simp_all add: c_str_id c_str_cut)

section \<open>A concrete instance\<close>

text \<open>A memory BIO as its content.\<close>

definition ref_bio_lib :: "bytes bio_lib" where
  "ref_bio_lib =
     \<lparr>SSL_BIO_new = (\<lambda>m. Some []),
      SSL_BIO_new_file = (\<lambda>f m. None),
      SSL_BIO_gets = (\<lambda>b n. (int (length (take (n - 1) b)), take (n - 1) b @ [0], drop (n - 1) b)),
      SSL_BIO_puts = (\<lambda>b s. (int (length s), b @ string_bytes s)),
      SSL_BIO_write = (\<lambda>b d. (int (length d), b @ d)),
      SSL_BIO_read = (\<lambda>b n. if b = [] then (- 1, [], b)
        else (int (length (take (nat n) b)), take (nat n) b, drop (nat n) b))\<rparr>"

lemma ref_bio_laws: "bio_laws ref_bio_lib id"
  unfolding bio_laws_def
proof (intro conjI allI impI)
  fix b :: bytes and n :: nat assume "1 < n"
  then show "\<exists>k out b'. SSL_BIO_gets ref_bio_lib b n = (int k, out, b') \<and> length out \<le> n
      \<and> k < n \<and> k \<le> length (id b) \<and> (k = 0 \<longleftrightarrow> id b = [])
      \<and> take k out = take k (id b) \<and> k \<le> length out \<and> id b' = drop k (id b)"
    by (intro exI [of _ "length (take (n - 1) b)"]) (auto simp: ref_bio_lib_def min_def)
qed (simp_all add: ref_bio_lib_def)

theorem BioObject_roundtrip_witness:
  "(\<exists>b b'. feed (BioObject_write ref_bio_lib) [[1, 2], [0], []] [] = (Inr (), b)
      \<and> flushToVector ref_bio_lib b = Some (Inr [1, 2, 0], b'))
   \<and> (\<exists>b b'. BioObject_write_string ref_bio_lib ''ab'' [] = (Inr (), b)
      \<and> flushToString ref_bio_lib b = Some (Inr ''ab'', b'))"
proof -
  have "BioObject_new ref_bio_lib MEM = Inr []" by (simp add: BioObject_new_def ref_bio_lib_def ossl_simps)
  from BioObject_roundtrip [OF ref_bio_laws this, of "[[1, 2], [0], []]" "''ab''" "[]"]
  show ?thesis by (simp add: INT_MAX_def c_str_id)
qed

end
