(* ===== verification/Distinguished_Name.thy ===== *)
theory Distinguished_Name
  imports Bio_Object
begin

text \<open>
  \<open>src/src/distinguished_name.cpp\<close> with its header: distinguished names, their builders,
  equality, and the conversion to and from OpenSSL's \<open>X509_NAME\<close>.
\<close>

section \<open>Attributes and builders\<close>

datatype ASN1_NID =
    CommonName | CountryName | LocalityName | StateOrProvinceName | OrganizationalUnitName
  | OrganizationName | Pkcs9EmailAddress | SerialNumber | GivenName | UserId | Title

primrec nid_value :: "ASN1_NID \<Rightarrow> int" where
  "nid_value CommonName = 13"
| "nid_value CountryName = 14"
| "nid_value LocalityName = 15"
| "nid_value StateOrProvinceName = 16"
| "nid_value OrganizationalUnitName = 18"
| "nid_value OrganizationName = 17"
| "nid_value Pkcs9EmailAddress = 48"
| "nid_value SerialNumber = 105"
| "nid_value GivenName = 99"
| "nid_value UserId = 458"
| "nid_value Title = 106"

type_synonym Attribute = "ASN1_NID \<times> string"

record DistinguishedName =
  attributes :: "Attribute list"
  customAttributeOrderFlag :: bool

definition Builder_new :: DistinguishedName where
  "Builder_new = \<lparr>attributes = [], customAttributeOrderFlag = False\<rparr>"

definition CustomOrderBuilder_new :: DistinguishedName where
  "CustomOrderBuilder_new = Builder_new\<lparr>customAttributeOrderFlag := True\<rparr>"

definition emplace_back :: "ASN1_NID \<Rightarrow> string \<Rightarrow> DistinguishedName \<Rightarrow> DistinguishedName" where
  "emplace_back i s dn = dn\<lparr>attributes := attributes dn @ [(i, s)]\<rparr>"

definition set_commonName :: "string \<Rightarrow> DistinguishedName \<Rightarrow> DistinguishedName res" where
  "set_commonName s dn = Inr (emplace_back CommonName s dn)"

definition err_country :: exn where
  "err_country = RuntimeError [Str ''The country name must not exceed two characters'']"

definition set_countryName :: "string \<Rightarrow> DistinguishedName \<Rightarrow> DistinguishedName res" where
  "set_countryName s dn =
     (if length s > 2 then Inl err_country else Inr (emplace_back CountryName s dn))"

definition set_localityName :: "string \<Rightarrow> DistinguishedName \<Rightarrow> DistinguishedName res" where
  "set_localityName s dn = Inr (emplace_back LocalityName s dn)"
definition set_stateOrProvinceName :: "string \<Rightarrow> DistinguishedName \<Rightarrow> DistinguishedName res" where
  "set_stateOrProvinceName s dn = Inr (emplace_back StateOrProvinceName s dn)"
definition set_organizationalUnitName :: "string \<Rightarrow> DistinguishedName \<Rightarrow> DistinguishedName res" where
  "set_organizationalUnitName s dn = Inr (emplace_back OrganizationalUnitName s dn)"
definition set_organizationName :: "string \<Rightarrow> DistinguishedName \<Rightarrow> DistinguishedName res" where
  "set_organizationName s dn = Inr (emplace_back OrganizationName s dn)"
definition set_pkcs9EmailAddress :: "string \<Rightarrow> DistinguishedName \<Rightarrow> DistinguishedName res" where
  "set_pkcs9EmailAddress s dn = Inr (emplace_back Pkcs9EmailAddress s dn)"
definition set_serialNumber :: "string \<Rightarrow> DistinguishedName \<Rightarrow> DistinguishedName res" where
  "set_serialNumber s dn = Inr (emplace_back SerialNumber s dn)"
definition set_givenName :: "string \<Rightarrow> DistinguishedName \<Rightarrow> DistinguishedName res" where
  "set_givenName s dn = Inr (emplace_back GivenName s dn)"
definition set_userId :: "string \<Rightarrow> DistinguishedName \<Rightarrow> DistinguishedName res" where
  "set_userId s dn = Inr (emplace_back UserId s dn)"
definition set_title :: "string \<Rightarrow> DistinguishedName \<Rightarrow> DistinguishedName res" where
  "set_title s dn = Inr (emplace_back Title s dn)"

lemmas setter_defs = set_commonName_def set_localityName_def set_stateOrProvinceName_def
  set_organizationalUnitName_def set_organizationName_def set_pkcs9EmailAddress_def
  set_serialNumber_def set_givenName_def set_userId_def set_title_def

section \<open>Lookup and equality\<close>

text \<open>The search runs over the reversed vector: the last attribute with the id is found.\<close>

definition getAttributeByNID :: "DistinguishedName \<Rightarrow> ASN1_NID \<Rightarrow> Attribute option" where
  "getAttributeByNID dn i = find (\<lambda>attribute. fst attribute = i) (rev (attributes dn))"

definition getAttributeByNIDAsString :: "DistinguishedName \<Rightarrow> ASN1_NID \<Rightarrow> string" where
  "getAttributeByNIDAsString dn i =
     (case getAttributeByNID dn i of Some a \<Rightarrow> snd a | None \<Rightarrow> [])"

definition createTuple :: "DistinguishedName \<Rightarrow> string list" where
  "createTuple dn = map (getAttributeByNIDAsString dn)
     [CommonName, CountryName, LocalityName, StateOrProvinceName, OrganizationalUnitName,
      OrganizationName, Pkcs9EmailAddress, SerialNumber, UserId, GivenName, Title]"

definition DN_eq :: "DistinguishedName \<Rightarrow> DistinguishedName \<Rightarrow> bool" where
  "DN_eq a b =
     (if customAttributeOrderFlag a \<and> customAttributeOrderFlag b
      then list_all2 (\<lambda>l r. fst l = fst r \<and> snd l = snd r) (attributes a) (attributes b)
      else createTuple a = createTuple b)"

section \<open>X509\_NAME\<close>

record ('n, 'e, 'd, 'b) name_lib =
  SSL_X509_NAME_new :: "'n option"
  SSL_X509_NAME_add_entry_by_NID :: "'n \<Rightarrow> int \<Rightarrow> int \<Rightarrow> bytes \<Rightarrow> int \<times> 'n"
  SSL_X509_NAME_get_index_by_NID :: "'n \<Rightarrow> int \<Rightarrow> int \<Rightarrow> int"
  SSL_X509_NAME_get_entry :: "'n \<Rightarrow> int \<Rightarrow> 'e option"
  SSL_X509_NAME_ENTRY_get_data :: "'e \<Rightarrow> 'd option"
  SSL_ASN1_STRING_print_ex :: "'b \<Rightarrow> 'd \<Rightarrow> int \<times> 'b"

definition ossl_X509_NAME_new :: "('n, 'e, 'd, 'b) name_lib \<Rightarrow> 'n res" where
  [ossl_simps]: "ossl_X509_NAME_new N = OpensslCallPtr (SSL_X509_NAME_new N)"

definition MBSTRING_ASC :: int where "MBSTRING_ASC = 4097"

definition ossl_X509_NAME_add_entry_by_NID ::
  "('n, 'e, 'd, 'b) name_lib \<Rightarrow> ASN1_NID \<Rightarrow> bytes \<Rightarrow> ('n, unit) st" where
  "ossl_X509_NAME_add_entry_by_NID N nid bs name =
     checkS OpensslCallIsOne (SSL_X509_NAME_add_entry_by_NID N name (nid_value nid) MBSTRING_ASC bs)"

text \<open>The loop ends when OpenSSL returns -1; \<open>None\<close> is a loop that does not end.\<close>

partial_function (option) index_loop ::
  "('n, 'e, 'd, 'b) name_lib \<Rightarrow> 'n \<Rightarrow> ASN1_NID \<Rightarrow> int \<Rightarrow> int list \<Rightarrow> int list option" where
  "index_loop N name nid rv result =
     (if rv \<noteq> - 1
      then index_loop N name nid (SSL_X509_NAME_get_index_by_NID N name (nid_value nid) rv) (result @ [rv])
      else Some result)"

definition ossl_X509_NAME_get_index_by_NID ::
  "('n, 'e, 'd, 'b) name_lib \<Rightarrow> 'n \<Rightarrow> ASN1_NID \<Rightarrow> int list option" where
  "ossl_X509_NAME_get_index_by_NID N name nid =
     index_loop N name nid (SSL_X509_NAME_get_index_by_NID N name (nid_value nid) (- 1)) []"

definition ossl_X509_NAME_get_entry :: "('n, 'e, 'd, 'b) name_lib \<Rightarrow> 'n \<Rightarrow> int \<Rightarrow> 'e res" where
  [ossl_simps]: "ossl_X509_NAME_get_entry N name loc = OpensslCallPtr (SSL_X509_NAME_get_entry N name loc)"

definition ossl_ASN1_STRING_print_ex :: "('n, 'e, 'd, 'b) name_lib \<Rightarrow> 'd \<Rightarrow> 'b \<Rightarrow> 'b res" where
  "ossl_ASN1_STRING_print_ex N str out =
     bindR (OpensslCallIsNonNegative (fst (SSL_ASN1_STRING_print_ex N out str)))
       (\<lambda>_. Inr (snd (SSL_ASN1_STRING_print_ex N out str)))"

definition ossl_X509_NAME_ENTRY_get_data ::
  "('n, 'e, 'd, 'b) name_lib \<Rightarrow> 'b bio_lib \<Rightarrow> 'e \<Rightarrow> string res option" where
  "ossl_X509_NAME_ENTRY_get_data N B entry =
     (case OpensslCallPtr (SSL_X509_NAME_ENTRY_get_data N entry) of
        Inl e \<Rightarrow> Some (Inl e)
      | Inr data \<Rightarrow> bio_printed B (ossl_ASN1_STRING_print_ex N data))"

text \<open>
  \<open>_addString\<close>; the callers own the name, so the guard on a null pointer cannot fire.
\<close>

definition addString :: "('n, 'e, 'd, 'b) name_lib \<Rightarrow> Attribute option \<Rightarrow> ('n, unit) st" where
  "addString N attribute =
     (case attribute of
        None \<Rightarrow> returnS ()
      | Some (i, name) \<Rightarrow>
          if name = [] then returnS () else ossl_X509_NAME_add_entry_by_NID N i (string_bytes name))"

fun addStrings :: "('n, 'e, 'd, 'b) name_lib \<Rightarrow> Attribute option list \<Rightarrow> ('n, unit) st" where
  "addStrings N [] = returnS ()"
| "addStrings N (a # as) = bindS (addString N a) (\<lambda>_. addStrings N as)"

definition default_order :: "ASN1_NID list" where
  "default_order = [CommonName, CountryName, LocalityName, StateOrProvinceName, OrganizationalUnitName,
     OrganizationName, Pkcs9EmailAddress, SerialNumber, GivenName, UserId, Title]"

definition populateX509Name :: "('n, 'e, 'd, 'b) name_lib \<Rightarrow> DistinguishedName \<Rightarrow> ('n, unit) st" where
  "populateX509Name N dn =
     (if customAttributeOrderFlag dn then addStrings N (map Some (attributes dn))
      else addStrings N (map (getAttributeByNID dn) default_order))"

definition getEntryByNIDAsString ::
  "('n, 'e, 'd, 'b) name_lib \<Rightarrow> 'b bio_lib \<Rightarrow> 'n \<Rightarrow> ASN1_NID \<Rightarrow> string res option" where
  "getEntryByNIDAsString N B x509 nid =
     (case ossl_X509_NAME_get_index_by_NID N x509 nid of
        None \<Rightarrow> None
      | Some [] \<Rightarrow> Some (Inr [])
      | Some (i # is) \<Rightarrow>
          (case ossl_X509_NAME_get_entry N x509 i of
             Inl e \<Rightarrow> Some (Inl e)
           | Inr entry \<Rightarrow> ossl_X509_NAME_ENTRY_get_data N B entry))"

text \<open>One builder call of \<open>fromX509Name\<close>: fetch the entry, hand it to the setter.\<close>

definition fetch ::
  "('n, 'e, 'd, 'b) name_lib \<Rightarrow> 'b bio_lib \<Rightarrow> 'n \<Rightarrow> ASN1_NID \<Rightarrow>
     (string \<Rightarrow> DistinguishedName \<Rightarrow> DistinguishedName res) \<Rightarrow>
     DistinguishedName res option \<Rightarrow> DistinguishedName res option" where
  "fetch N B x509 nid setter builder =
     (case builder of
        None \<Rightarrow> None
      | Some (Inl e) \<Rightarrow> Some (Inl e)
      | Some (Inr dn) \<Rightarrow> map_option (\<lambda>r. bindR r (\<lambda>s. setter s dn)) (getEntryByNIDAsString N B x509 nid))"

definition fromX509Name ::
  "('n, 'e, 'd, 'b) name_lib \<Rightarrow> 'b bio_lib \<Rightarrow> 'n \<Rightarrow> DistinguishedName res option" where
  "fromX509Name N B x509 =
     (let f = fetch N B x509 in
      f Title set_title
     (f UserId set_userId
     (f GivenName set_givenName
     (f SerialNumber set_serialNumber
     (f Pkcs9EmailAddress set_pkcs9EmailAddress
     (f OrganizationName set_organizationName
     (f OrganizationalUnitName set_organizationalUnitName
     (f StateOrProvinceName set_stateOrProvinceName
     (f LocalityName set_localityName
     (f CountryName set_countryName
     (f CommonName set_commonName (Some (Inr Builder_new)))))))))))))"

section \<open>Invariant of the builders\<close>

definition DN_wf :: "DistinguishedName \<Rightarrow> bool" where
  "DN_wf dn \<longleftrightarrow> list_all (\<lambda>a. fst a = CountryName \<longrightarrow> length (snd a) \<le> 2) (attributes dn)"

inductive built :: "DistinguishedName \<Rightarrow> bool" where
  built_new: "built Builder_new"
| built_custom: "built CustomOrderBuilder_new"
| built_step: "built dn \<Longrightarrow> setter \<in> {set_commonName, set_countryName, set_localityName,
      set_stateOrProvinceName, set_organizationalUnitName, set_organizationName,
      set_pkcs9EmailAddress, set_serialNumber, set_givenName, set_userId, set_title} \<Longrightarrow>
    setter s dn = Inr dn' \<Longrightarrow> built dn'"

inductive_cases built_stepE: "built dn"

lemma built_wf: "built dn \<Longrightarrow> DN_wf dn"
proof (induction rule: built.induct)
  case (built_step dn setter s dn')
  then show ?case
    by (auto simp: setter_defs set_countryName_def emplace_back_def DN_wf_def split: if_splits)
qed (simp_all add: DN_wf_def Builder_new_def CustomOrderBuilder_new_def)

section \<open>Equality\<close>

lemma DN_eq_refl: "DN_eq a a"
  by (simp add: DN_eq_def list_all2_refl)

lemma DN_eq_sym: "DN_eq a b \<Longrightarrow> DN_eq b a"
  by (auto simp: DN_eq_def list_all2_conv_all_nth split: if_splits)

lemma DN_eq_custom:
  "customAttributeOrderFlag a \<Longrightarrow> customAttributeOrderFlag b \<Longrightarrow> DN_eq a b \<longleftrightarrow> attributes a = attributes b"
  by (auto simp: DN_eq_def list_eq_iff_nth_eq list_all2_conv_all_nth prod_eq_iff)

lemma DN_eq_default:
  "\<not> (customAttributeOrderFlag a \<and> customAttributeOrderFlag b) \<Longrightarrow>
     DN_eq a b \<longleftrightarrow> (\<forall>i. getAttributeByNIDAsString a i = getAttributeByNIDAsString b i)"
proof -
  assume n: "\<not> (customAttributeOrderFlag a \<and> customAttributeOrderFlag b)"
  have "createTuple a = createTuple b \<longleftrightarrow>
      (\<forall>i. getAttributeByNIDAsString a i = getAttributeByNIDAsString b i)"
  proof
    assume "createTuple a = createTuple b"
    then show "\<forall>i. getAttributeByNIDAsString a i = getAttributeByNIDAsString b i"
      unfolding createTuple_def by (intro allI, case_tac i) simp_all
  qed (simp add: createTuple_def)
  with n show ?thesis by (auto simp: DN_eq_def)
qed

text \<open>
  Equality of distinguished names is reflexive and symmetric; two names in default order
  are equal exactly if all their attributes are; two names in custom order exactly if the
  attributes are equal in order.  It is not transitive: a name in default order equals two
  custom ordered names that differ in their order.
\<close>

theorem DN_equality:
  "DN_eq a a \<and> (DN_eq a b \<longleftrightarrow> DN_eq b a)
   \<and> (\<not> customAttributeOrderFlag a \<longrightarrow>
        (DN_eq a b \<longleftrightarrow> (\<forall>i. getAttributeByNIDAsString a i = getAttributeByNIDAsString b i)))
   \<and> (customAttributeOrderFlag a \<and> customAttributeOrderFlag b \<longrightarrow>
        (DN_eq a b \<longleftrightarrow> attributes a = attributes b))
   \<and> (\<exists>x y z. DN_eq x y \<and> DN_eq y z \<and> \<not> DN_eq x z)"
proof (intro conjI impI)
  let ?x = "\<lparr>attributes = [(CommonName, ''a''), (Title, ''b'')], customAttributeOrderFlag = True\<rparr>"
  let ?y = "\<lparr>attributes = [(CommonName, ''a''), (Title, ''b'')], customAttributeOrderFlag = False\<rparr>"
  let ?z = "\<lparr>attributes = [(Title, ''b''), (CommonName, ''a'')], customAttributeOrderFlag = True\<rparr>"
  have "DN_eq ?x ?y" "DN_eq ?y ?z" "\<not> DN_eq ?x ?z"
    by (simp_all add: DN_eq_def createTuple_def getAttributeByNIDAsString_def getAttributeByNID_def)
  then show "\<exists>x y z. DN_eq x y \<and> DN_eq y z \<and> \<not> DN_eq x z" by blast
qed (use DN_eq_refl DN_eq_sym DN_eq_custom DN_eq_default in blast)+

section \<open>What OpenSSL documents\<close>

text \<open>
  \<open>entries\<close> are the attribute ids and data of a name, in order; \<open>good\<close> the values OpenSSL
  admits for an attribute.
\<close>

definition name_laws ::
  "('n, 'e, 'd, 'b) name_lib \<Rightarrow> ('b \<Rightarrow> bytes) \<Rightarrow> ('n \<Rightarrow> (int \<times> bytes) list) \<Rightarrow> (int \<Rightarrow> bytes \<Rightarrow> bool) \<Rightarrow> bool" where
  "name_laws N content entries good \<longleftrightarrow>
     (\<forall>n v bs. good v bs \<longrightarrow> (\<exists>n'. SSL_X509_NAME_add_entry_by_NID N n v MBSTRING_ASC bs = (1, n')
        \<and> entries n' = entries n @ [(v, bs)]))
     \<and> (\<forall>n v last. last \<ge> - 1 \<longrightarrow>
        (let r = SSL_X509_NAME_get_index_by_NID N n v last; es = entries n in
         if \<exists>j < length es. last < int j \<and> fst (es ! j) = v
         then (\<exists>j. r = int j \<and> j < length es \<and> last < int j \<and> fst (es ! j) = v
                 \<and> (\<forall>i < j. last < int i \<longrightarrow> fst (es ! i) \<noteq> v))
         else r = - 1))
     \<and> (\<forall>n i. i < length (entries n) \<longrightarrow>
        (\<exists>e d. SSL_X509_NAME_get_entry N n (int i) = Some e \<and> SSL_X509_NAME_ENTRY_get_data N e = Some d
           \<and> (\<forall>b. \<exists>rv b'. SSL_ASN1_STRING_print_ex N b d = (rv, b') \<and> rv \<ge> 0
                \<and> content b' = content b @ snd (entries n ! i))))
     \<and> (\<exists>n. SSL_X509_NAME_new N = Some n \<and> entries n = [])"

lemmas name_lawsD = name_laws_def [THEN iffD1]
lemmas add_entryD = name_lawsD [THEN conjunct1, rule_format]
  and get_indexD = name_lawsD [THEN conjunct2, THEN conjunct1, rule_format]
  and get_entryD = name_lawsD [THEN conjunct2, THEN conjunct2, THEN conjunct1, rule_format]
  and name_newD = name_lawsD [THEN conjunct2, THEN conjunct2, THEN conjunct2]

section \<open>Reading a name\<close>

lemma map_of_first:
  "j < length es \<Longrightarrow> fst (es ! j) = v \<Longrightarrow> \<forall>i < j. fst (es ! i) \<noteq> v \<Longrightarrow> map_of es v = Some (snd (es ! j))"
proof (induction es arbitrary: j)
  case (Cons e es)
  show ?case
  proof (cases j)
    case 0
    with Cons.prems show ?thesis by (cases e) simp
  next
    case (Suc k)
    have "fst e \<noteq> v" using Cons.prems(3) Suc by (metis nth_Cons_0 zero_less_Suc)
    moreover have "\<forall>i < k. fst (es ! i) \<noteq> v" using Cons.prems(3) Suc by auto
    ultimately show ?thesis using Cons.IH [of k] Cons.prems Suc by (cases e) simp
  qed
qed simp

lemma index_loop_ends:
  assumes "name_laws N content entries good"
  shows "j < length (entries n) \<Longrightarrow> \<exists>xs. index_loop N n nid (int j) acc = Some (acc @ int j # xs)"
proof (induction "length (entries n) - j" arbitrary: j acc rule: less_induct)
  case less
  let ?r = "SSL_X509_NAME_get_index_by_NID N n (nid_value nid) (int j)"
  have step: "index_loop N n nid (int j) acc = index_loop N n nid ?r (acc @ [int j])"
    by (subst index_loop.simps) simp
  consider "?r = - 1" | k where "?r = int k" "j < k" "k < length (entries n)"
    using get_indexD [OF assms, of "int j" n "nid_value nid"] by (auto simp: Let_def split: if_splits)
  then show ?case
  proof cases
    case 1
    then show ?thesis using step index_loop.simps [of N n nid "- 1"] by simp
  next
    case 2
    then have "length (entries n) - k < length (entries n) - j" by simp
    then show ?thesis using less.hyps [of k "acc @ [int j]"] 2 step by auto
  qed
qed

lemma getEntry_ok:
  assumes "name_laws N content entries good" "bio_laws B content"
  shows "getEntryByNIDAsString N B n nid =
     Some (Inr (case map_of (entries n) (nid_value nid) of None \<Rightarrow> [] | Some bs \<Rightarrow> bytes_string bs))"
proof -
  let ?r = "SSL_X509_NAME_get_index_by_NID N n (nid_value nid) (- 1)" and ?es = "entries n"
  have m: "- 1 < int i" for i by simp
  have idx: "if \<exists>j < length ?es. fst (?es ! j) = nid_value nid
      then (\<exists>j. ?r = int j \<and> j < length ?es \<and> fst (?es ! j) = nid_value nid
              \<and> (\<forall>i < j. fst (?es ! i) \<noteq> nid_value nid))
      else ?r = - 1"
    using get_indexD [OF assms(1), of "- 1" n "nid_value nid"] by (simp add: Let_def m cong: if_cong)
  show ?thesis
  proof (cases "\<exists>j < length ?es. fst (?es ! j) = nid_value nid")
    case False
    then have "map_of ?es (nid_value nid) = None"
      by (force simp: map_of_eq_None_iff in_set_conv_nth)
    with False idx show ?thesis
      by (simp add: getEntryByNIDAsString_def ossl_X509_NAME_get_index_by_NID_def index_loop.simps)
  next
    case True
    then obtain j where j: "?r = int j" "j < length ?es" "map_of ?es (nid_value nid) = Some (snd (?es ! j))"
      using idx map_of_first [of _ ?es] by auto
    obtain xs where xs: "ossl_X509_NAME_get_index_by_NID N n nid = Some (int j # xs)"
      using index_loop_ends [OF assms(1) j(2), of nid "[]"] j(1)
      by (auto simp: ossl_X509_NAME_get_index_by_NID_def)
    obtain e d where e: "SSL_X509_NAME_get_entry N n (int j) = Some e" "SSL_X509_NAME_ENTRY_get_data N e = Some d"
      and print: "\<And>b. \<exists>rv b'. SSL_ASN1_STRING_print_ex N b d = (rv, b') \<and> rv \<ge> 0
        \<and> content b' = content b @ snd (?es ! j)"
      using get_entryD [OF assms(1) j(2)] by blast
    have "bio_printed B (ossl_ASN1_STRING_print_ex N d) = Some (Inr (bytes_string (snd (?es ! j))))"
    proof (rule bio_printed_ok [OF assms(2)])
      fix b assume "content b = []"
      then show "\<exists>b'. ossl_ASN1_STRING_print_ex N d b = Inr b' \<and> content b' = snd (?es ! j)"
        using print [of b] by (auto simp: ossl_ASN1_STRING_print_ex_def)
    qed
    with xs e j(3) show ?thesis
      by (simp add: getEntryByNIDAsString_def ossl_simps ossl_X509_NAME_ENTRY_get_data_def)
  qed
qed

section \<open>Writing a name\<close>

fun entries_of :: "Attribute option list \<Rightarrow> (int \<times> bytes) list" where
  "entries_of [] = []"
| "entries_of (None # as) = entries_of as"
| "entries_of (Some (i, s) # as) = (if s = [] then [] else [(nid_value i, string_bytes s)]) @ entries_of as"

lemma addStrings_ok:
  assumes "name_laws N content entries good"
  shows "\<forall>(v, bs) \<in> set (entries_of as). good v bs \<Longrightarrow>
     \<exists>n'. addStrings N as n = (Inr (), n') \<and> entries n' = entries n @ entries_of as"
proof (induction as arbitrary: n rule: entries_of.induct)
  case (3 i s as)
  show ?case
  proof (cases "s = []")
    case True
    then show ?thesis using 3 by (simp add: addString_def bindS_def)
  next
    case False
    then obtain n1 where n1: "SSL_X509_NAME_add_entry_by_NID N n (nid_value i) MBSTRING_ASC (string_bytes s) = (1, n1)"
      "entries n1 = entries n @ [(nid_value i, string_bytes s)]"
      using add_entryD [OF assms, of "nid_value i" "string_bytes s" n] "3.prems" by auto
    then have "addString N (Some (i, s)) n = (Inr (), n1)"
      using False by (simp add: addString_def ossl_X509_NAME_add_entry_by_NID_def)
    with "3.IH" [of n1] "3.prems" n1(2) False show ?thesis by (auto simp: bindS_def)
  qed
qed (simp_all add: addString_def bindS_def)

lemma nid_value_inject [simp]: "nid_value i = nid_value j \<longleftrightarrow> i = j"
  by (cases i; cases j) simp_all

definition entry_string :: "(int \<times> bytes) list \<Rightarrow> ASN1_NID \<Rightarrow> string" where
  "entry_string es i = (case map_of es (nid_value i) of None \<Rightarrow> [] | Some bs \<Rightarrow> bytes_string bs)"

lemma find_map_of: "find (\<lambda>a. fst a = i) xs = map_option (Pair i) (map_of xs i)"
  by (induction xs) auto

lemma map_of_rev_distinct: "distinct (map fst xs) \<Longrightarrow> map_of (rev xs) i = map_of xs i"
proof (induction xs)
  case (Cons x xs)
  have "map_of (rev xs) (fst x) = None" using Cons.prems by (simp add: map_of_eq_None_iff)
  with Cons show ?case by (cases x) (auto simp: map_add_def split: option.splits)
qed simp

lemma getAttribute_string:
  "getAttributeByNIDAsString dn i = (case map_of (rev (attributes dn)) i of None \<Rightarrow> [] | Some s \<Rightarrow> s)"
  by (simp add: getAttributeByNIDAsString_def getAttributeByNID_def find_map_of split: option.splits)

lemma getAttribute_id: "getAttributeByNID dn i = Some (j, s) \<Longrightarrow> j = i"
  by (auto simp: getAttributeByNID_def find_map_of)

lemma getAttribute_mem: "getAttributeByNID dn i = Some a \<Longrightarrow> a \<in> set (attributes dn)"
  by (auto simp: getAttributeByNID_def find_map_of dest!: map_of_SomeD)

lemma entries_of_mem: "(v, bs) \<in> set (entries_of as) \<Longrightarrow>
    \<exists>i s. Some (i, s) \<in> set as \<and> s \<noteq> [] \<and> v = nid_value i \<and> bs = string_bytes s"
  by (induction as rule: entries_of.induct) (auto split: if_splits)

lemma populated_good:
  assumes "\<forall>(i, s) \<in> set (attributes dn). s \<noteq> [] \<longrightarrow> good (nid_value i) (string_bytes s)"
    and "as = map Some (attributes dn) \<or> as = map (getAttributeByNID dn) L"
  shows "\<forall>(v, bs) \<in> set (entries_of as). good v bs"
proof clarify
  fix v bs assume "(v, bs) \<in> set (entries_of as)"
  then obtain i s where s: "Some (i, s) \<in> set as" "s \<noteq> []" "v = nid_value i" "bs = string_bytes s"
    using entries_of_mem by blast
  then have "(i, s) \<in> set (attributes dn)" using assms(2) getAttribute_mem by fastforce
  then show "good v bs" using assms(1) s by auto
qed

lemma entry_string_default:
  "entry_string (entries_of (map (getAttributeByNID dn) L)) i =
     (if i \<in> set L then getAttributeByNIDAsString dn i else [])"
proof (induction L)
  case (Cons j L)
  show ?case
  proof (cases "getAttributeByNID dn j")
    case None
    then show ?thesis using Cons by (auto simp: entry_string_def getAttributeByNIDAsString_def)
  next
    case (Some a)
    moreover have "fst a = j" using Some getAttribute_id by (metis prod.collapse)
    ultimately show ?thesis
      using Cons by (cases a) (auto simp: entry_string_def getAttributeByNIDAsString_def split: if_splits)
  qed
qed (simp add: entry_string_def)

lemma entry_string_custom:
  "entry_string (entries_of (map Some xs)) i =
     (case find (\<lambda>a. fst a = i \<and> snd a \<noteq> []) xs of None \<Rightarrow> [] | Some a \<Rightarrow> snd a)"
  by (induction xs) (auto simp: entry_string_def)

lemma find_distinct:
  "distinct (map fst xs) \<Longrightarrow> (case find (\<lambda>a. fst a = i \<and> snd a \<noteq> []) xs of None \<Rightarrow> [] | Some a \<Rightarrow> snd a)
     = (case map_of xs i of None \<Rightarrow> [] | Some s \<Rightarrow> s)"
proof (induction xs)
  case (Cons x xs)
  have "map_of xs (fst x) = None" using Cons.prems by (simp add: map_of_eq_None_iff)
  moreover from this have "find (\<lambda>a. fst a = fst x \<and> snd a \<noteq> []) xs = None"
    by (auto simp: find_None_iff map_of_eq_None_iff image_iff)
  ultimately show ?case using Cons by (cases x) auto
qed simp

section \<open>Round trip\<close>

lemma fromX509Name_ok:
  assumes "name_laws N content entries good" "bio_laws B content"
    and "length (entry_string (entries n) CountryName) \<le> 2"
  shows "fromX509Name N B n = Some (Inr \<lparr>attributes = map (\<lambda>i. (i, entry_string (entries n) i)) default_order,
     customAttributeOrderFlag = False\<rparr>)"
proof -
  have "getEntryByNIDAsString N B n i = Some (Inr (entry_string (entries n) i))" for i
    using getEntry_ok [OF assms(1,2)] by (simp add: entry_string_def)
  with assms(3) show ?thesis
    by (simp add: fromX509Name_def fetch_def setter_defs set_countryName_def emplace_back_def
        Builder_new_def default_order_def)
qed

text \<open>What is written, and what any name with these entries is read as.\<close>

definition written :: "DistinguishedName \<Rightarrow> Attribute option list" where
  "written dn = (if customAttributeOrderFlag dn then map Some (attributes dn)
     else map (getAttributeByNID dn) default_order)"

text \<open>
  The value an attribute has after a name was written and read: the last one given in default
  order, the first one that is not empty in custom order, where all are written.
\<close>

definition read_value :: "DistinguishedName \<Rightarrow> ASN1_NID \<Rightarrow> string" where
  "read_value dn i =
     (if customAttributeOrderFlag dn
      then (case find (\<lambda>a. fst a = i \<and> snd a \<noteq> []) (attributes dn) of None \<Rightarrow> [] | Some a \<Rightarrow> snd a)
      else getAttributeByNIDAsString dn i)"

lemma entry_string_written: "entry_string (entries_of (written dn)) i = read_value dn i"
proof -
  have "i \<in> set default_order" by (cases i) (simp_all add: default_order_def)
  then show ?thesis by (simp add: written_def read_value_def entry_string_custom entry_string_default)
qed

lemma read_value_same:
  "\<not> customAttributeOrderFlag dn \<or> distinct (map fst (attributes dn)) \<Longrightarrow>
     read_value dn i = getAttributeByNIDAsString dn i"
  by (auto simp: read_value_def find_distinct getAttribute_string map_of_rev_distinct)

lemma find_mem: "find P xs = Some x \<Longrightarrow> x \<in> set xs \<and> P x"
  by (auto simp: find_Some_iff)

lemma read_value_mem: "read_value dn i = [] \<or> (\<exists>s. (i, s) \<in> set (attributes dn) \<and> read_value dn i = s)"
proof (cases "customAttributeOrderFlag dn")
  case True
  then show ?thesis
    by (cases "find (\<lambda>a. fst a = i \<and> snd a \<noteq> []) (attributes dn)") (auto simp: read_value_def dest!: find_mem)
next
  case False
  then show ?thesis
    by (auto simp: read_value_def getAttribute_string split: option.splits dest!: map_of_SomeD)
qed

lemma populate_ok:
  assumes "name_laws N content entries good" "entries n = []"
    and "\<forall>(i, s) \<in> set (attributes dn). s \<noteq> [] \<longrightarrow> good (nid_value i) (string_bytes s)"
  shows "\<exists>n'. populateX509Name N dn n = (Inr (), n') \<and> entries n' = entries_of (written dn)"
proof -
  have "\<forall>(v, bs) \<in> set (entries_of (written dn)). good v bs"
    using populated_good [OF assms(3), of "written dn" default_order] by (simp add: written_def)
  then obtain n' where "addStrings N (written dn) n = (Inr (), n')" "entries n' = entries_of (written dn)"
    using addStrings_ok [OF assms(1), of "written dn" n] assms(2) by auto
  then show ?thesis by (auto simp: populateX509Name_def written_def)
qed

lemma populated_reads:
  assumes "name_laws N content entries good" "bio_laws B content" "built dn"
    and "entries n = entries_of (written dn)"
  shows "\<exists>dn'. fromX509Name N B n = Some (Inr dn') \<and> (\<forall>i. getAttributeByNIDAsString dn' i = read_value dn i)
     \<and> (\<not> customAttributeOrderFlag dn \<or> distinct (map fst (attributes dn)) \<longrightarrow> DN_eq dn dn')"
proof -
  have "length (read_value dn CountryName) \<le> 2"
    using built_wf [OF assms(3)] read_value_mem [of dn CountryName] by (auto simp: DN_wf_def list_all_iff)
  then have read: "fromX509Name N B n = Some (Inr \<lparr>attributes =
      map (\<lambda>i. (i, read_value dn i)) default_order, customAttributeOrderFlag = False\<rparr>)"
    (is "_ = Some (Inr ?dn')")
    using fromX509Name_ok [OF assms(1,2), of n] assms(4) by (simp add: entry_string_written)
  have val: "getAttributeByNIDAsString ?dn' i = read_value dn i" for i
    by (cases i) (simp_all add: getAttribute_string default_order_def)
  moreover have "DN_eq dn ?dn'" if "\<not> customAttributeOrderFlag dn \<or> distinct (map fst (attributes dn))"
    using val read_value_same [OF that] DN_eq_default [of dn ?dn'] by auto
  ultimately show ?thesis using read by blast
qed

text \<open>
  C30: A distinguished name made by the builders, written to an empty \<open>X509_NAME\<close> and read
  back, is equal to the original: in default order always, in custom order if no attribute is
  given twice, provided OpenSSL admits the values.
\<close>

theorem DN_roundtrip:
  assumes "name_laws N content entries good" "bio_laws B content" "entries n = []" "built dn"
    and "\<not> customAttributeOrderFlag dn \<or> distinct (map fst (attributes dn))"
    and "\<forall>(i, s) \<in> set (attributes dn). s \<noteq> [] \<longrightarrow> good (nid_value i) (string_bytes s)"
  shows "\<exists>n' dn'. populateX509Name N dn n = (Inr (), n') \<and> fromX509Name N B n' = Some (Inr dn') \<and> DN_eq dn dn'"
  using populate_ok [OF assms(1,3,6)] populated_reads [OF assms(1,2,4)] assms(5) by blast

text \<open>
  In custom order an attribute may be given twice; then both are written, reading back
  finds the first and the lookup in the original the last, so the two names are not equal.
\<close>

definition twice :: DistinguishedName where
  "twice = \<lparr>attributes = [(CommonName, ''a''), (CommonName, ''b'')], customAttributeOrderFlag = True\<rparr>"

theorem DN_duplicate_attribute:
  assumes "name_laws N content entries good" "bio_laws B content" "entries n = []"
    and "good 13 (string_bytes ''a'')" "good 13 (string_bytes ''b'')"
  shows "built twice \<and> (\<exists>n' dn'. populateX509Name N twice n = (Inr (), n')
     \<and> fromX509Name N B n' = Some (Inr dn') \<and> \<not> DN_eq twice dn')"
proof
  have "built (emplace_back CommonName ''b'' (emplace_back CommonName ''a'' CustomOrderBuilder_new))"
    by (rule built_step [OF built_step [OF built_custom], of set_commonName "''a''" _ set_commonName "''b''"])
      (simp_all add: set_commonName_def)
  then show "built twice" by (simp add: emplace_back_def CustomOrderBuilder_new_def Builder_new_def twice_def)
  let ?as = "map Some (attributes twice)"
  have "\<forall>(v, bs) \<in> set (entries_of ?as). good v bs" using assms(4,5) by (simp add: twice_def)
  then obtain n' where n': "addStrings N ?as n = (Inr (), n')" "entries n' = entries_of ?as"
    using addStrings_ok [OF assms(1), of ?as n] assms(3) by auto
  have es: "entry_string (entries n') i = (if i = CommonName then ''a'' else [])" for i
    by (cases i) (simp_all add: n'(2) twice_def entry_string_def)
  let ?dn' = "\<lparr>attributes = map (\<lambda>i. (i, entry_string (entries n') i)) default_order,
     customAttributeOrderFlag = False\<rparr>"
  have "fromX509Name N B n' = Some (Inr ?dn')"
    using fromX509Name_ok [OF assms(1,2), of n'] es [of CountryName] by simp
  moreover have "getAttributeByNIDAsString twice CommonName \<noteq> getAttributeByNIDAsString ?dn' CommonName"
    by (simp add: getAttribute_string default_order_def es) (simp add: twice_def)
  then have "\<not> DN_eq twice ?dn'" using DN_eq_default [of twice ?dn'] by auto
  moreover have "populateX509Name N twice n = (Inr (), n')"
    using n'(1) by (simp add: populateX509Name_def twice_def)
  ultimately show "\<exists>n' dn'. populateX509Name N twice n = (Inr (), n')
     \<and> fromX509Name N B n' = Some (Inr dn') \<and> \<not> DN_eq twice dn'" by blast
qed

section \<open>A concrete instance\<close>

text \<open>A name is its list of entries.\<close>

definition ref_name_lib :: "((int \<times> bytes) list, bytes, bytes, bytes) name_lib" where
  "ref_name_lib =
     \<lparr>SSL_X509_NAME_new = Some [],
      SSL_X509_NAME_add_entry_by_NID = (\<lambda>n v t bs. (1, n @ [(v, bs)])),
      SSL_X509_NAME_get_index_by_NID = (\<lambda>n v last.
        (case filter (\<lambda>j. last < int j \<and> fst (n ! j) = v) [0..<length n] of [] \<Rightarrow> - 1 | j # _ \<Rightarrow> int j)),
      SSL_X509_NAME_get_entry = (\<lambda>n i. if nat i < length n then Some (snd (n ! nat i)) else None),
      SSL_X509_NAME_ENTRY_get_data = Some,
      SSL_ASN1_STRING_print_ex = (\<lambda>b d. (int (length d), b @ d))\<rparr>"

lemma first_index:
  assumes "filter P [0..<m] = j # js"
  shows "j < m" "P j" "\<forall>i < j. \<not> P i"
proof -
  obtain us vs where u: "[0..<m] = us @ j # vs" "\<forall>x \<in> set us. \<not> P x" "P j"
    using assms by (auto simp: filter_eq_Cons_iff)
  have len: "length us < m" using arg_cong [OF u(1), of length] by simp
  then have j: "j = length us" using arg_cong [OF u(1), of "\<lambda>xs. xs ! length us"] by (simp add: nth_append)
  have "us = [0..<length us]"
    using arg_cong [OF u(1), of "take (length us)"] len by (simp add: take_upt)
  then have "set us = {0..<j}" using j by (metis set_upt)
  then show "j < m" "P j" "\<forall>i < j. \<not> P i" using j len u(2,3) by auto
qed

lemma ref_name_laws: "name_laws ref_name_lib id id (\<lambda>v bs. True)"
  unfolding name_laws_def
proof (intro conjI allI impI)
  fix n :: "(int \<times> bytes) list" and v last :: int
  define P where "P = (\<lambda>j. last < int j \<and> fst (n ! j) = v)"
  have r: "SSL_X509_NAME_get_index_by_NID ref_name_lib n v last =
      (case filter P [0..<length n] of [] \<Rightarrow> - 1 | j # _ \<Rightarrow> int j)"
    by (simp add: ref_name_lib_def P_def)
  show "let r = SSL_X509_NAME_get_index_by_NID ref_name_lib n v last; es = id n in
         if \<exists>j < length es. last < int j \<and> fst (es ! j) = v
         then (\<exists>j. r = int j \<and> j < length es \<and> last < int j \<and> fst (es ! j) = v
                 \<and> (\<forall>i < j. last < int i \<longrightarrow> fst (es ! i) \<noteq> v))
         else r = - 1"
  proof (cases "filter P [0..<length n]")
    case Nil
    then have "\<forall>j < length n. \<not> P j" by (auto simp: filter_empty_conv)
    with Nil r show ?thesis by (auto simp: P_def Let_def)
  next
    case (Cons j js)
    with r have "SSL_X509_NAME_get_index_by_NID ref_name_lib n v last = int j" by simp
    moreover have "j < length n" "last < int j" "fst (n ! j) = v" "\<forall>i < j. last < int i \<longrightarrow> fst (n ! i) \<noteq> v"
      using first_index [OF Cons] by (simp_all add: P_def)
    ultimately show ?thesis by (auto simp: Let_def)
  qed
qed (simp_all add: ref_name_lib_def)

definition ref_dn :: DistinguishedName where
  "ref_dn = emplace_back CommonName ''x'' (emplace_back Title ''t'' CustomOrderBuilder_new)"

lemma ref_dn_built: "built ref_dn"
  unfolding ref_dn_def
  by (rule built_step [OF built_step [OF built_custom], of set_title "''t''" _ set_commonName "''x''"])
    (simp_all add: set_commonName_def set_title_def)

theorem DN_roundtrip_witness:
  "\<exists>n' dn'. populateX509Name ref_name_lib ref_dn [] = (Inr (), n')
     \<and> fromX509Name ref_name_lib ref_bio_lib n' = Some (Inr dn') \<and> DN_eq ref_dn dn'"
  by (rule DN_roundtrip [OF ref_name_laws ref_bio_laws _ ref_dn_built])
    (simp_all add: ref_dn_def emplace_back_def CustomOrderBuilder_new_def Builder_new_def)

theorem DN_duplicate_attribute_witness:
  "\<exists>n' dn'. populateX509Name ref_name_lib twice [] = (Inr (), n')
     \<and> fromX509Name ref_name_lib ref_bio_lib n' = Some (Inr dn') \<and> \<not> DN_eq twice dn'"
  using DN_duplicate_attribute [OF ref_name_laws ref_bio_laws, of "[]"] by simp

theorem DN_equality_witness:
  "DN_eq ref_dn ref_dn \<and> \<not> DN_eq Builder_new ref_dn"
proof -
  have "getAttributeByNIDAsString Builder_new Title \<noteq> getAttributeByNIDAsString ref_dn Title"
    "\<not> customAttributeOrderFlag Builder_new"
    by (simp_all add: getAttribute_string Builder_new_def ref_dn_def emplace_back_def CustomOrderBuilder_new_def)
  then show ?thesis using DN_equality [of ref_dn ref_dn] DN_equality [of Builder_new ref_dn] by blast
qed

end
