(* ===== verification/Decimal_Text.thy ===== *)
theory Decimal_Text
  imports Moc_Prelude
begin

text \<open>
  Numbers and lists in text: the decimal digits that \<open>boost::format\<close> and \<open>BN_bn2dec\<close>
  print, the big endian bytes of a number, and splitting at a separator.
\<close>

section \<open>Decimal digits\<close>

definition dec_digit :: "nat \<Rightarrow> char" where
  "dec_digit d = char_of (48 + d)"

definition dec_val :: "char \<Rightarrow> nat" where
  "dec_val c = of_char c - 48"

fun show_nat :: "nat \<Rightarrow> string" where
  "show_nat n = (if n < 10 then [dec_digit n] else show_nat (n div 10) @ [dec_digit (n mod 10)])"

declare show_nat.simps [simp del]

definition show_int :: "int \<Rightarrow> string" where
  "show_int i = (if i < 0 then CHR ''-'' # show_nat (nat (- i)) else show_nat (nat i))"

definition read_nat :: "string \<Rightarrow> nat" where
  "read_nat s = foldl (\<lambda>a c. 10 * a + dec_val c) 0 s"

definition read_int :: "string \<Rightarrow> int" where
  "read_int s = (case s of c # cs \<Rightarrow> if c = CHR ''-'' then - int (read_nat cs) else int (read_nat s) | [] \<Rightarrow> 0)"

lemma dec_val_digit [simp]: "d < 10 \<Longrightarrow> dec_val (dec_digit d) = d"
  by (simp add: dec_val_def dec_digit_def)

lemma dec_digit_char: "d < 10 \<Longrightarrow> of_char (dec_digit d) = (48 + d :: nat)"
  by (simp add: dec_digit_def)

lemma set_show_nat: "c \<in> set (show_nat n) \<Longrightarrow> 48 \<le> (of_char c :: nat) \<and> (of_char c :: nat) < 58"
proof (induction n rule: show_nat.induct)
  case (1 n)
  then show ?case
    by (subst (asm) show_nat.simps) (auto simp: dec_digit_char split: if_splits)
qed

lemma show_nat_not_Nil [simp]: "show_nat n \<noteq> []"
  by (subst show_nat.simps) simp

lemma read_show_nat [simp]: "read_nat (show_nat n) = n"
proof (induction n rule: show_nat.induct)
  case (1 n)
  then show ?case by (subst show_nat.simps) (simp add: read_nat_def)
qed

lemma read_show_int [simp]: "read_int (show_int i) = i"
proof (cases "i < 0")
  case False
  obtain c cs where c: "show_nat (nat i) = c # cs" by (cases "show_nat (nat i)") simp_all
  then have "c \<noteq> CHR ''-''" using set_show_nat [of c "nat i"] by auto
  with c False read_show_nat [of "nat i"] show ?thesis by (simp add: read_int_def show_int_def)
qed (simp add: read_int_def show_int_def)

lemma set_show_int: "c \<in> set (show_int i) \<Longrightarrow> c = CHR ''-'' \<or> 48 \<le> (of_char c :: nat) \<and> (of_char c :: nat) < 58"
  using set_show_nat by (auto simp: show_int_def split: if_splits)

lemma show_int_inject: "show_int i = show_int j \<longleftrightarrow> i = j"
  by (metis read_show_int)

section \<open>Big endian bytes\<close>

text \<open>The bytes of a positive number without leading zeros; zero has none.\<close>

fun be_bytes :: "nat \<Rightarrow> bytes" where
  "be_bytes n = (if n = 0 then [] else be_bytes (n div 256) @ [word_of_nat (n mod 256)])"

declare be_bytes.simps [simp del]

definition be_value :: "bytes \<Rightarrow> nat" where
  "be_value bs = foldl (\<lambda>a b. 256 * a + unat b) 0 bs"

lemma be_bytes_0 [simp]: "be_bytes 0 = []"
  by (simp add: be_bytes.simps)

lemma be_bytes_Nil_iff [simp]: "be_bytes n = [] \<longleftrightarrow> n = 0"
  by (simp add: be_bytes.simps [of n])

lemma be_value_bytes [simp]: "be_value (be_bytes n) = n"
proof (induction n rule: be_bytes.induct)
  case (1 n)
  have "unat (word_of_nat (n mod 256) :: byte) = n mod 256" by (rule unat_of_nat_small) simp
  with 1 show ?case by (subst be_bytes.simps) (simp add: be_value_def)
qed

lemma be_bytes_no_leading_zero: "n > 0 \<Longrightarrow> hd (be_bytes n) \<noteq> 0"
proof (induction n rule: be_bytes.induct)
  case (1 n)
  show ?case
  proof (cases "n div 256 = 0")
    case True
    then have "n < 256" by (simp add: div_eq_0_iff)
    then have "unat (word_of_nat n :: byte) = n" by (intro unat_of_nat_small) simp
    with "1.prems" True \<open>n < 256\<close> show ?thesis by (subst be_bytes.simps) auto
  next
    case False
    with 1 show ?thesis by (subst be_bytes.simps) (simp add: hd_append)
  qed
qed

section \<open>Separated lists\<close>

fun sep_fields :: "char \<Rightarrow> string \<Rightarrow> string list" where
  "sep_fields sep [] = [[]]"
| "sep_fields sep (c # cs) =
     (if c = sep then [] # sep_fields sep cs
      else case sep_fields sep cs of f # fs \<Rightarrow> (c # f) # fs | [] \<Rightarrow> [[c]])"

lemma sep_fields_not_Nil [simp]: "sep_fields sep s \<noteq> []"
  by (induction s) (auto split: list.splits)

lemma sep_fields_sep: "sep \<notin> set xs \<Longrightarrow> sep_fields sep (xs @ sep # ys) = xs # sep_fields sep ys"
  by (induction xs) auto

lemma sep_fields_single: "sep \<notin> set xs \<Longrightarrow> sep_fields sep xs = [xs]"
  by (induction xs) auto

lemma sep_fields_join:
  "sep \<notin> set x \<Longrightarrow> \<forall>n \<in> set ns. sep \<notin> set n \<Longrightarrow>
     sep_fields sep (x @ concat (map (\<lambda>n. sep # n) ns)) = x # ns"
  by (induction ns arbitrary: x) (simp_all add: sep_fields_single sep_fields_sep)

definition trim :: "string \<Rightarrow> string" where
  "trim s = rev (dropWhile (\<lambda>c. c = CHR '' '') (rev (dropWhile (\<lambda>c. c = CHR '' '') s)))"

lemma dropWhile_id: "(\<And>x. x \<in> set xs \<Longrightarrow> \<not> P x) \<Longrightarrow> dropWhile P xs = xs"
  by (cases xs) auto

lemma trim_id: "CHR '' '' \<notin> set s \<Longrightarrow> trim s = s"
proof -
  assume a: "CHR '' '' \<notin> set s"
  have "dropWhile (\<lambda>c. c = CHR '' '') s = s" by (rule dropWhile_id) (use a in auto)
  moreover have "dropWhile (\<lambda>c. c = CHR '' '') (rev s) = rev s" by (rule dropWhile_id) (use a in auto)
  ultimately show ?thesis by (simp add: trim_def)
qed

end
