(* ===== verification/Asn1_Integer.thy ===== *)
theory Asn1_Integer
  imports Check_Call Decimal_Text
begin

text \<open>
  The conversions of \<open>ASN1_INTEGER\<close> in \<open>src/src/openssl_wrap.cpp\<close>, which serial numbers of
  certificates go through: to 64 bits, to decimal text and to big endian bytes.
\<close>

section \<open>OpenSSL functions\<close>

text \<open>
  \<open>'i\<close> and \<open>'n\<close> are the types of \<open>ASN1_INTEGER\<close> and \<open>BIGNUM\<close>.  \<open>BN_bn2bin\<close> returns its
  status and the bytes it writes.
\<close>

record ('i, 'n) int_lib =
  SSL_ASN1_INTEGER_new :: "'i option"
  SSL_ASN1_INTEGER_set :: "'i \<Rightarrow> int \<Rightarrow> int \<times> 'i"
  SSL_ASN1_INTEGER_cmp :: "'i \<Rightarrow> 'i \<Rightarrow> int"
  SSL_ASN1_INTEGER_get :: "'i \<Rightarrow> int"
  SSL_ASN1_INTEGER_to_BN :: "'i \<Rightarrow> 'n option"
  SSL_BN_bn2dec :: "'n \<Rightarrow> string option"
  SSL_BN_num_bytes :: "'n \<Rightarrow> int"
  SSL_BN_bn2bin :: "'n \<Rightarrow> int \<times> bytes"

definition create_ASN1_INTEGER :: "('i, 'n) int_lib \<Rightarrow> 'i res" where
  "create_ASN1_INTEGER I = OpensslCallPtr (SSL_ASN1_INTEGER_new I)"

section \<open>Conversions\<close>

definition err_number_range :: exn where
  "err_number_range = OpenSSLException [Str ''Number is out of the accepted range.'']"

text \<open>The result is cast to \<open>uint64_t\<close>.\<close>

definition Asn1IntegerToInt64 :: "('i, 'n) int_lib \<Rightarrow> 'i \<Rightarrow> 64 word res" where
  "Asn1IntegerToInt64 I number =
     bindR (create_ASN1_INTEGER I) (\<lambda>maxLong.
     bindR (create_ASN1_INTEGER I) (\<lambda>zero.
     bindR (OpensslCallIsOne (fst (SSL_ASN1_INTEGER_set I zero 0))) (\<lambda>_.
     bindR (OpensslCallIsOne (fst (SSL_ASN1_INTEGER_set I maxLong LONG_MAX))) (\<lambda>_.
       if SSL_ASN1_INTEGER_cmp I number (snd (SSL_ASN1_INTEGER_set I maxLong LONG_MAX)) > 0
          \<or> SSL_ASN1_INTEGER_cmp I number (snd (SSL_ASN1_INTEGER_set I zero 0)) < 0
       then Inl err_number_range
       else Inr (word_of_int (SSL_ASN1_INTEGER_get I number))))))"

definition Asn1IntegerToString :: "('i, 'n) int_lib \<Rightarrow> 'i \<Rightarrow> string res" where
  "Asn1IntegerToString I number =
     bindR (OpensslCallPtr (SSL_ASN1_INTEGER_to_BN I number)) (\<lambda>bnNumber.
     bindR (OpensslCallPtr (SSL_BN_bn2dec I bnNumber)) (\<lambda>strNumber. Inr (c_str strNumber)))"

definition Asn1IntegerToBinary :: "('i, 'n) int_lib \<Rightarrow> 'i \<Rightarrow> bytes res" where
  "Asn1IntegerToBinary I number =
     bindR (OpensslCallPtr (SSL_ASN1_INTEGER_to_BN I number)) (\<lambda>bnNumber.
     bindR (OpensslCallIsPositive (SSL_BN_num_bytes I bnNumber)) (\<lambda>n.
       (let serialNumber = replicate (nat n) 0
        in bindR (OpensslCallIsPositive (fst (SSL_BN_bn2bin I bnNumber))) (\<lambda>size.
             Inr (resize (overwrite serialNumber (snd (SSL_BN_bn2bin I bnNumber))) (nat size))))))"

section \<open>What OpenSSL documents\<close>

text \<open>
  \<open>ival\<close> is the value of an integer, \<open>bval\<close> of a big number; \<open>BN_num_bytes\<close> and
  \<open>BN_bn2bin\<close> are about the absolute value, zero has no bytes.
\<close>

definition int_laws :: "('i, 'n) int_lib \<Rightarrow> ('i \<Rightarrow> int) \<Rightarrow> ('n \<Rightarrow> int) \<Rightarrow> bool" where
  "int_laws I ival bval \<longleftrightarrow>
     SSL_ASN1_INTEGER_new I \<noteq> None
     \<and> (\<forall>i v. LONG_MIN \<le> v \<and> v \<le> LONG_MAX \<longrightarrow>
          fst (SSL_ASN1_INTEGER_set I i v) = 1 \<and> ival (snd (SSL_ASN1_INTEGER_set I i v)) = v)
     \<and> (\<forall>a b. (SSL_ASN1_INTEGER_cmp I a b > 0 \<longleftrightarrow> ival a > ival b)
          \<and> (SSL_ASN1_INTEGER_cmp I a b < 0 \<longleftrightarrow> ival a < ival b))
     \<and> (\<forall>i. LONG_MIN \<le> ival i \<and> ival i \<le> LONG_MAX \<longrightarrow> SSL_ASN1_INTEGER_get I i = ival i)
     \<and> (\<forall>i. \<exists>n. SSL_ASN1_INTEGER_to_BN I i = Some n \<and> bval n = ival i)
     \<and> (\<forall>n. SSL_BN_bn2dec I n = Some (show_int (bval n)))
     \<and> (\<forall>n. SSL_BN_num_bytes I n = int (length (be_bytes (nat \<bar>bval n\<bar>)))
          \<and> SSL_BN_bn2bin I n = (int (length (be_bytes (nat \<bar>bval n\<bar>))), be_bytes (nat \<bar>bval n\<bar>)))"

lemmas int_lawsD = int_laws_def [THEN iffD1]
lemmas int_newD = int_lawsD [THEN conjunct1]
  and int_setD = int_lawsD [THEN conjunct2, THEN conjunct1, rule_format]
  and int_cmpD = int_lawsD [THEN conjunct2, THEN conjunct2, THEN conjunct1, rule_format]
  and int_getD = int_lawsD [THEN conjunct2, THEN conjunct2, THEN conjunct2, THEN conjunct1, rule_format]
  and int_BND = int_lawsD [THEN conjunct2, THEN conjunct2, THEN conjunct2, THEN conjunct2,
    THEN conjunct1, rule_format]
  and bn_decD = int_lawsD [THEN conjunct2, THEN conjunct2, THEN conjunct2, THEN conjunct2,
    THEN conjunct2, THEN conjunct1, rule_format]
  and bn_binD = int_lawsD [THEN conjunct2, THEN conjunct2, THEN conjunct2, THEN conjunct2,
    THEN conjunct2, THEN conjunct2, rule_format]

lemma ToInt64_ok:
  assumes "int_laws I ival bval"
  shows "Asn1IntegerToInt64 I i =
     (if 0 \<le> ival i \<and> ival i \<le> LONG_MAX then Inr (word_of_int (ival i)) else Inl err_number_range)"
proof -
  obtain z where z: "SSL_ASN1_INTEGER_new I = Some z" using int_newD [OF assms] by blast
  have s: "fst (SSL_ASN1_INTEGER_set I z 0) = 1" "ival (snd (SSL_ASN1_INTEGER_set I z 0)) = 0"
    "fst (SSL_ASN1_INTEGER_set I z LONG_MAX) = 1" "ival (snd (SSL_ASN1_INTEGER_set I z LONG_MAX)) = LONG_MAX"
    using int_setD [OF assms, of 0 z] int_setD [OF assms, of LONG_MAX z] by (simp_all add: int_limits)
  have "0 \<le> ival i \<Longrightarrow> ival i \<le> LONG_MAX \<Longrightarrow> SSL_ASN1_INTEGER_get I i = ival i"
    using int_getD [OF assms, of i] by (simp add: int_limits)
  then show ?thesis
    using z s int_cmpD [OF assms, of i "snd (SSL_ASN1_INTEGER_set I z LONG_MAX)"]
      int_cmpD [OF assms, of i "snd (SSL_ASN1_INTEGER_set I z 0)"]
    by (auto simp: Asn1IntegerToInt64_def create_ASN1_INTEGER_def)
qed

lemma show_int_no_null: "CHR 0x00 \<notin> set (show_int i)"
  using set_show_int [of "CHR 0x00" i] by auto

lemma ToString_ok:
  "int_laws I ival bval \<Longrightarrow> Asn1IntegerToString I i = Inr (show_int (ival i))"
  using int_BND [of I ival bval i] bn_decD [of I ival bval]
  by (auto simp: Asn1IntegerToString_def c_str_id show_int_no_null)

lemma ToBinary_ok:
  assumes "int_laws I ival bval"
  shows "Asn1IntegerToBinary I i =
     (if ival i = 0 then Inl OpenSSLException_default else Inr (be_bytes (nat \<bar>ival i\<bar>)))"
proof -
  obtain n where n: "SSL_ASN1_INTEGER_to_BN I i = Some n" "bval n = ival i" using int_BND [OF assms] by blast
  with bn_binD [OF assms, of n] show ?thesis
    by (auto simp: Asn1IntegerToBinary_def Let_def resize_prefix)
qed

section \<open>A concrete instance\<close>

definition ref_int_lib :: "(int, int) int_lib" where
  "ref_int_lib =
     \<lparr>SSL_ASN1_INTEGER_new = Some 0,
      SSL_ASN1_INTEGER_set = (\<lambda>i v. (1, v)),
      SSL_ASN1_INTEGER_cmp = (\<lambda>a b. sgn (a - b)),
      SSL_ASN1_INTEGER_get = (\<lambda>i. i),
      SSL_ASN1_INTEGER_to_BN = Some,
      SSL_BN_bn2dec = (\<lambda>n. Some (show_int n)),
      SSL_BN_num_bytes = (\<lambda>n. int (length (be_bytes (nat \<bar>n\<bar>)))),
      SSL_BN_bn2bin = (\<lambda>n. (int (length (be_bytes (nat \<bar>n\<bar>))), be_bytes (nat \<bar>n\<bar>)))\<rparr>"

lemma ref_int_laws: "int_laws ref_int_lib id id"
  by (auto simp: int_laws_def ref_int_lib_def sgn_if)

end
