(* ===== verification/Pem_Object.thy ===== *)
theory Pem_Object
  imports Bio_Object Asym_Key Pem_Format
begin

text \<open>
  What the input and output of certificates, requests, revocation lists and keys have in
  common: objects that OpenSSL prints to and reads from a BIO as PEM and DER, and chains of
  PEM elements.  The shape of \<open>toPEM\<close> and \<open>fromPEM\<close> is the interface \<open>pem_object\<close>, which
  the components with that shape implement.
\<close>

section \<open>Objects and BIOs\<close>

text \<open>
  The functions that read and write an object (a certificate, a request, a revocation list)
  from and to a BIO.
\<close>

record ('o, 'b) object_io =
  SSL_PEM_read_bio :: "'b \<Rightarrow> 'o option"
  SSL_PEM_write_bio :: "'b \<Rightarrow> 'o \<Rightarrow> int \<times> 'b"
  SSL_d2i_bio :: "'b \<Rightarrow> 'o option"
  SSL_i2d_bio :: "'b \<Rightarrow> 'o \<Rightarrow> int \<times> 'b"

fun mapR :: "('a \<Rightarrow> 'b res) \<Rightarrow> 'a list \<Rightarrow> 'b list res" where
  "mapR f [] = Inr []"
| "mapR f (x # xs) = bindR (f x) (\<lambda>y. bindR (mapR f xs) (\<lambda>ys. Inr (y # ys)))"

section \<open>What OpenSSL documents\<close>

text \<open>
  OpenSSL prints an object as the begin marker, its body (lines of base64), and the end marker,
  and reads that form back, whatever follows the line with the end marker; its DER form is a
  string of bytes it reads back.  \<open>good\<close> are the complete objects.
\<close>

definition after_marker :: "string \<Rightarrow> bool" where
  "after_marker post \<longleftrightarrow> (post = [] \<or> hd post = nl) \<and> CHR 0x00 \<notin> set post"

definition pem_laws ::
  "('o, 'b) object_io \<Rightarrow> ('b \<Rightarrow> bytes) \<Rightarrow> string \<Rightarrow> string \<Rightarrow> ('o \<Rightarrow> bool) \<Rightarrow> ('o \<Rightarrow> string) \<Rightarrow> bool" where
  "pem_laws J content beginMarker endMarker good bd \<longleftrightarrow>
     (\<forall>x. good x \<longrightarrow> CHR 0x00 \<notin> set (bd x)) \<and> CHR 0x00 \<notin> set beginMarker \<and> CHR 0x00 \<notin> set endMarker
     \<and> (\<forall>b x. good x \<and> content b = [] \<longrightarrow> (\<exists>b'. SSL_PEM_write_bio J b x = (1, b')
          \<and> content b' = string_bytes (canonical beginMarker endMarker (bd x) @ [nl])))
     \<and> (\<forall>b x post. good x \<and> after_marker post
          \<and> content b = string_bytes (canonical beginMarker endMarker (bd x) @ post) \<longrightarrow>
          SSL_PEM_read_bio J b = Some x)"

definition der_laws ::
  "('o, 'b) object_io \<Rightarrow> ('b \<Rightarrow> bytes) \<Rightarrow> ('o \<Rightarrow> bool) \<Rightarrow> ('o \<Rightarrow> bytes) \<Rightarrow> bool" where
  "der_laws J content good der \<longleftrightarrow>
     (\<forall>b x. good x \<and> content b = [] \<longrightarrow> (\<exists>b'. SSL_i2d_bio J b x = (1, b') \<and> content b' = der x))
     \<and> (\<forall>b x. good x \<and> content b = der x \<longrightarrow> SSL_d2i_bio J b = Some x)"

lemma der_printed:
  assumes "bio_laws B content" "der_laws J content good der" "good x"
  shows "bio_printed_bytes B (\<lambda>b. checkC OpensslCallIsOne (SSL_i2d_bio J b x)) = Some (Inr (der x))"
proof (rule bio_printed_bytes_ok [OF assms(1)])
  fix b assume "content b = []"
  then obtain b' where "SSL_i2d_bio J b x = (1, b')" "content b' = der x"
    using assms(2,3) unfolding der_laws_def by blast
  then show "\<exists>b'. checkC OpensslCallIsOne (SSL_i2d_bio J b x) = Inr b' \<and> content b' = der x" by simp
qed

lemma der_parsed:
  assumes "bio_laws B content" "der_laws J content good der" "good x" "int (length (der x)) \<le> INT_MAX"
  shows "bio_parsed_bytes B (der x) (\<lambda>b. OpensslCallPtr (SSL_d2i_bio J b)) = Inr x"
proof -
  obtain b where "content b = der x"
    "bio_parsed_bytes B (der x) (\<lambda>b. OpensslCallPtr (SSL_d2i_bio J b)) = OpensslCallPtr (SSL_d2i_bio J b)"
    using bio_parsed_bytes_ok [OF assms(1,4)] by blast
  moreover from this have "SSL_d2i_bio J b = Some x" using assms(2,3) unfolding der_laws_def by blast
  ultimately show ?thesis by simp
qed

section \<open>The interface\<close>

locale pem_object =
  fixes fromPEM :: "'b bio_lib \<Rightarrow> ('o, 'b) object_io \<Rightarrow> string \<Rightarrow> 'o res"
    and toPEM :: "'b bio_lib \<Rightarrow> ('o, 'b) object_io \<Rightarrow> 'o \<Rightarrow> string res option"
  assumes fromPEM_reads: "fromPEM B J pem = bio_parsed B pem (\<lambda>b. OpensslCallPtr (SSL_PEM_read_bio J b))"
    and toPEM_prints: "toPEM B J x = bio_printed B (\<lambda>b. checkC OpensslCallIsOne (SSL_PEM_write_bio J b x))"
begin

lemma fromPEM_canonical:
  assumes "bio_laws B content" "pem_laws J content bm em good bd" "good x" "after_marker post"
  shows "fromPEM B J (canonical bm em (bd x) @ post) = Inr x"
proof -
  let ?t = "canonical bm em (bd x) @ post"
  obtain b where b: "content b = string_bytes (c_str ?t)"
      "fromPEM B J ?t = OpensslCallPtr (SSL_PEM_read_bio J b)"
    using bio_parsed_ok [OF assms(1)] unfolding fromPEM_reads by blast
  have "c_str ?t = ?t"
    using assms(2-4) by (intro c_str_id) (auto simp: pem_laws_def canonical_def after_marker_def)
  with b(1) have "content b = string_bytes ?t" by (simp only:)
  with assms(2-4) have "SSL_PEM_read_bio J b = Some x" unfolding pem_laws_def by blast
  with b(2) show ?thesis by simp
qed

lemma toPEM_canonical:
  assumes "bio_laws B content" "pem_laws J content bm em good bd" "good x"
  shows "toPEM B J x = Some (Inr (canonical bm em (bd x) @ [nl]))"
proof -
  have "toPEM B J x = Some (Inr (bytes_string (string_bytes (canonical bm em (bd x) @ [nl]))))"
    unfolding toPEM_prints
  proof (rule bio_printed_ok [OF assms(1)])
    fix b assume "content b = []"
    then obtain b' where "SSL_PEM_write_bio J b x = (1, b')"
      "content b' = string_bytes (canonical bm em (bd x) @ [nl])"
      using assms(2,3) unfolding pem_laws_def by blast
    then show "\<exists>b'. checkC OpensslCallIsOne (SSL_PEM_write_bio J b x) = Inr b'
        \<and> content b' = string_bytes (canonical bm em (bd x) @ [nl])" by simp
  qed
  then show ?thesis by (simp only: bytes_string_bytes)
qed

text \<open>What is printed is read back as the same object.\<close>

lemma pem_roundtrip:
  assumes "bio_laws B content" "pem_laws J content bm em good bd" "good x"
  shows "\<exists>pem. toPEM B J x = Some (Inr pem) \<and> fromPEM B J pem = Inr x"
  using toPEM_canonical [OF assms] fromPEM_canonical [OF assms, of "[nl]"] by (simp add: after_marker_def)

text \<open>A chain of elements is split and read element by element.\<close>

lemma chain_loads:
  assumes "bio_laws B content" "pem_laws J content bm em good bd" "wf_markers bm em"
    and "list_all (wf_item em) its" "is_ws t" "list_all2 (\<lambda>it x. good x \<and> body it = bd x) its xs"
  shows "bindR (splitPEMChain (concat (map (render_item bm em) its) @ t) bm em) (mapR (fromPEM B J)) = Inr xs"
proof -
  have "mapR (fromPEM B J) (map (\<lambda>it. canonical bm em (body it)) its) = Inr xs"
    using assms(6)
  proof (induction rule: list_all2_induct)
    case (Cons it its x xs)
    then have "fromPEM B J (canonical bm em (body it)) = Inr x"
      using fromPEM_canonical [OF assms(1,2), of x "[]"] by (simp add: after_marker_def)
    with Cons.IH show ?case by simp
  qed simp
  then show ?thesis by (simp add: splitPEMChain_items [OF assms(3-5)])
qed

end

section \<open>A concrete instance\<close>

text \<open>
  Objects are strings of letters: the PEM body and the DER form are the string itself.
\<close>

definition ref_good :: "string \<Rightarrow> bool" where
  "ref_good x \<longleftrightarrow> list_all (\<lambda>c. c \<in> set ''ABab01+/='') x"

definition ref_object_io :: "string \<Rightarrow> string \<Rightarrow> (string, bytes) object_io" where
  "ref_object_io bm em =
     \<lparr>SSL_PEM_read_bio = (\<lambda>b. Some (takeWhile (\<lambda>c. c \<noteq> nl) (drop (length bm + 1) (bytes_string b)))),
      SSL_PEM_write_bio = (\<lambda>b x. (1, b @ string_bytes (canonical bm em x @ [nl]))),
      SSL_d2i_bio = (\<lambda>b. Some (bytes_string b)),
      SSL_i2d_bio = (\<lambda>b x. (1, b @ string_bytes x))\<rparr>"

lemma ref_good_plain: "ref_good x \<Longrightarrow> nl \<notin> set x \<and> CHR 0x00 \<notin> set x"
proof -
  assume "ref_good x"
  then have "\<forall>c \<in> set x. c \<in> set ''ABab01+/=''" by (simp only: ref_good_def list_all_iff)
  moreover have "nl \<notin> set ''ABab01+/=''" "CHR 0x00 \<notin> set ''ABab01+/=''" by simp_all
  ultimately show ?thesis by blast
qed

lemma ref_pem_laws:
  assumes "CHR 0x00 \<notin> set bm" "CHR 0x00 \<notin> set em"
  shows "pem_laws (ref_object_io bm em) id bm em ref_good id"
proof -
  have "takeWhile (\<lambda>c. c \<noteq> nl) (x @ nl # ys) = x" if "ref_good x" for x ys
    using ref_good_plain [OF that] by (induction x) auto
  then show ?thesis
    using assms ref_good_plain by (simp add: pem_laws_def ref_object_io_def canonical_def)
qed

lemma ref_der_laws: "der_laws (ref_object_io bm em) id ref_good string_bytes"
  by (simp add: der_laws_def ref_object_io_def)

end
