(* ===== verification/X509_Cert.thy ===== *)
theory X509_Cert
  imports Asn1_Integer Asn1_Time Distinguished_Name Pem_Object Pem_Reformat
begin

unbundle bit_operations_syntax

text \<open>
  \<open>src/src/x509.cpp\<close> with \<open>src/src/mococrw/x509.h\<close> and \<open>stack_utils.h\<close>: certificates, their
  attributes, PEM and DER input and output, and verification in a \<open>VerificationContext\<close>,
  over the X509 functions of OpenSSL.  A certificate is the OpenSSL object it holds.
\<close>

section \<open>Times as text\<close>

text \<open>\<open>Asn1Time::toString\<close>, over the printing function for ASN.1 strings.\<close>

definition Asn1Time_toString :: "'b bio_lib \<Rightarrow> ('n, 'e, 't, 'b) name_lib \<Rightarrow> 't \<Rightarrow> string res option" where
  "Asn1Time_toString B N t = bio_printed B (ossl_ASN1_STRING_print_ex N t)"

lemma Asn1Time_string_roundtrip:
  assumes "bio_laws B content"
    and "\<And>b. \<exists>rv b'. SSL_ASN1_STRING_print_ex N b t = (rv, b') \<and> rv \<ge> 0 \<and> content b' = content b @ string_bytes (txt t)"
    and "CHR 0x00 \<notin> set (txt t)" "SSL_ASN1_TIME_new T = Some u" "SSL_ASN1_TIME_set_string T u (txt t) = (1, t)"
  shows "\<exists>s. Asn1Time_toString B N t = Some (Inr s) \<and> Asn1Time_fromString T s = Inr t"
proof -
  have "bio_printed B (ossl_ASN1_STRING_print_ex N t) = Some (Inr (bytes_string (string_bytes (txt t))))"
  proof (rule bio_printed_ok [OF assms(1)])
    fix b assume "content b = []"
    then show "\<exists>b'. ossl_ASN1_STRING_print_ex N t b = Inr b' \<and> content b' = string_bytes (txt t)"
      using assms(2) [of b] by (auto simp: ossl_ASN1_STRING_print_ex_def)
  qed
  then show ?thesis
    using assms(3-5) by (simp add: Asn1Time_toString_def Asn1Time_fromString_def ossl_ASN1_TIME_new_def
        ossl_ASN1_TIME_set_string_def c_str_id)
qed

section \<open>OpenSSL functions and their wrappers\<close>

text \<open>
  \<open>'x\<close>, \<open>'n\<close>, \<open>'k\<close>, \<open>'t\<close> and \<open>'i\<close> are the types of \<open>X509\<close>, \<open>X509_NAME\<close>, \<open>EVP_PKEY\<close>,
  \<open>ASN1_TIME\<close> and \<open>ASN1_INTEGER\<close>.  OpenSSL copies names, times and integers it is given.
\<close>

record ('x, 'n, 'k, 't, 'i) cert_lib =
  SSL_X509_new :: "'x option"
  SSL_X509_get_subject_name :: "'x \<Rightarrow> 'n option"
  SSL_X509_get_issuer_name :: "'x \<Rightarrow> 'n option"
  SSL_X509_get_pubkey :: "'x \<Rightarrow> 'k option"
  SSL_X509_get_notBefore :: "'x \<Rightarrow> 't option"
  SSL_X509_get_notAfter :: "'x \<Rightarrow> 't option"
  SSL_X509_get_serialNumber :: "'x \<Rightarrow> 'i option"
  SSL_X509_check_ca :: "'x \<Rightarrow> int"
  SSL_X509_set_subject_name :: "'x \<Rightarrow> 'n \<Rightarrow> int \<times> 'x"
  SSL_X509_set_issuer_name :: "'x \<Rightarrow> 'n \<Rightarrow> int \<times> 'x"
  SSL_X509_set_pubkey :: "'x \<Rightarrow> 'k \<Rightarrow> int \<times> 'x"
  SSL_X509_set_notBefore :: "'x \<Rightarrow> 't \<Rightarrow> int \<times> 'x"
  SSL_X509_set_notAfter :: "'x \<Rightarrow> 't \<Rightarrow> int \<times> 'x"
  SSL_X509_set_serialNumber :: "'x \<Rightarrow> 'i \<Rightarrow> int \<times> 'x"
  SSL_X509_set_version :: "'x \<Rightarrow> int \<Rightarrow> int \<times> 'x"
  SSL_X509_sign :: "'x \<Rightarrow> 'k \<Rightarrow> EVP_MD \<Rightarrow> int \<times> 'x"

definition create_X509 :: "('x, 'n, 'k, 't, 'i) cert_lib \<Rightarrow> 'x res" where
  [ossl_simps]: "create_X509 L = OpensslCallPtr (SSL_X509_new L)"

definition ossl_X509_get_subject_name :: "('x, 'n, 'k, 't, 'i) cert_lib \<Rightarrow> 'x \<Rightarrow> 'n res" where
  [ossl_simps]: "ossl_X509_get_subject_name L x = OpensslCallPtr (SSL_X509_get_subject_name L x)"

definition ossl_X509_get_issuer_name :: "('x, 'n, 'k, 't, 'i) cert_lib \<Rightarrow> 'x \<Rightarrow> 'n res" where
  [ossl_simps]: "ossl_X509_get_issuer_name L x = OpensslCallPtr (SSL_X509_get_issuer_name L x)"

definition ossl_X509_get_pubkey :: "('x, 'n, 'k, 't, 'i) cert_lib \<Rightarrow> 'x \<Rightarrow> 'k res" where
  [ossl_simps]: "ossl_X509_get_pubkey L x = OpensslCallPtr (SSL_X509_get_pubkey L x)"

definition ossl_X509_check_ca :: "('x, 'n, 'k, 't, 'i) cert_lib \<Rightarrow> 'x \<Rightarrow> bool" where
  "ossl_X509_check_ca L x = (SSL_X509_check_ca L x \<noteq> 0)"

definition ossl_X509_get_notBefore_ASN1 :: "('x, 'n, 'k, 't, 'i) cert_lib \<Rightarrow> 'x \<Rightarrow> 't res" where
  [ossl_simps]: "ossl_X509_get_notBefore_ASN1 L x = OpensslCallPtr (SSL_X509_get_notBefore L x)"

definition ossl_X509_get_notAfter_ASN1 :: "('x, 'n, 'k, 't, 'i) cert_lib \<Rightarrow> 'x \<Rightarrow> 't res" where
  [ossl_simps]: "ossl_X509_get_notAfter_ASN1 L x = OpensslCallPtr (SSL_X509_get_notAfter L x)"

definition ossl_X509_get_notBefore ::
  "('x, 'n, 'k, 't, 'i) cert_lib \<Rightarrow> 't time_lib \<Rightarrow> 'x \<Rightarrow> int res" where
  "ossl_X509_get_notBefore L T x = bindR (ossl_X509_get_notBefore_ASN1 L x) (asn1TimeToTimePoint T)"

definition ossl_X509_get_notAfter ::
  "('x, 'n, 'k, 't, 'i) cert_lib \<Rightarrow> 't time_lib \<Rightarrow> 'x \<Rightarrow> int res" where
  "ossl_X509_get_notAfter L T x = bindR (ossl_X509_get_notAfter_ASN1 L x) (asn1TimeToTimePoint T)"

definition ossl_X509_get_serialNumber ::
  "('x, 'n, 'k, 't, 'i) cert_lib \<Rightarrow> ('i, 'bn) int_lib \<Rightarrow> 'x \<Rightarrow> 64 word res" where
  "ossl_X509_get_serialNumber L I x =
     bindR (OpensslCallPtr (SSL_X509_get_serialNumber L x)) (Asn1IntegerToInt64 I)"

definition ossl_X509_get_serialNumber_dec ::
  "('x, 'n, 'k, 't, 'i) cert_lib \<Rightarrow> ('i, 'bn) int_lib \<Rightarrow> 'x \<Rightarrow> string res" where
  "ossl_X509_get_serialNumber_dec L I x =
     bindR (OpensslCallPtr (SSL_X509_get_serialNumber L x)) (Asn1IntegerToString I)"

definition ossl_X509_get_serialNumber_bin ::
  "('x, 'n, 'k, 't, 'i) cert_lib \<Rightarrow> ('i, 'bn) int_lib \<Rightarrow> 'x \<Rightarrow> bytes res" where
  "ossl_X509_get_serialNumber_bin L I x =
     bindR (OpensslCallPtr (SSL_X509_get_serialNumber L x)) (Asn1IntegerToBinary I)"

definition ossl_X509_set_subject_name ::
  "('x, 'n, 'k, 't, 'i) cert_lib \<Rightarrow> 'n \<Rightarrow> ('x, unit) st" where
  [ossl_simps]: "ossl_X509_set_subject_name L n x = checkS OpensslCallIsOne (SSL_X509_set_subject_name L x n)"

definition ossl_X509_set_issuer_name ::
  "('x, 'n, 'k, 't, 'i) cert_lib \<Rightarrow> 'n \<Rightarrow> ('x, unit) st" where
  [ossl_simps]: "ossl_X509_set_issuer_name L n x = checkS OpensslCallIsOne (SSL_X509_set_issuer_name L x n)"

definition ossl_X509_set_pubkey :: "('x, 'n, 'k, 't, 'i) cert_lib \<Rightarrow> 'k \<Rightarrow> ('x, unit) st" where
  [ossl_simps]: "ossl_X509_set_pubkey L k x = checkS OpensslCallIsOne (SSL_X509_set_pubkey L x k)"

definition ossl_X509_set_notBefore_ASN1 ::
  "('x, 'n, 'k, 't, 'i) cert_lib \<Rightarrow> 't \<Rightarrow> ('x, unit) st" where
  [ossl_simps]: "ossl_X509_set_notBefore_ASN1 L t x = checkS OpensslCallIsOne (SSL_X509_set_notBefore L x t)"

definition ossl_X509_set_notAfter_ASN1 ::
  "('x, 'n, 'k, 't, 'i) cert_lib \<Rightarrow> 't \<Rightarrow> ('x, unit) st" where
  [ossl_simps]: "ossl_X509_set_notAfter_ASN1 L t x = checkS OpensslCallIsOne (SSL_X509_set_notAfter L x t)"

definition ossl_X509_set_notBefore ::
  "('x, 'n, 'k, 't, 'i) cert_lib \<Rightarrow> 't time_lib \<Rightarrow> int \<Rightarrow> ('x, unit) st" where
  "ossl_X509_set_notBefore L T tp =
     bindS (liftS (ossl_ASN1_TIME_from_time_t T (to_time_t tp))) (ossl_X509_set_notBefore_ASN1 L)"

definition ossl_X509_set_notAfter ::
  "('x, 'n, 'k, 't, 'i) cert_lib \<Rightarrow> 't time_lib \<Rightarrow> int \<Rightarrow> ('x, unit) st" where
  "ossl_X509_set_notAfter L T tp =
     bindS (liftS (ossl_ASN1_TIME_from_time_t T (to_time_t tp))) (ossl_X509_set_notAfter_ASN1 L)"

definition err_serial_range :: exn where
  "err_serial_range = OpenSSLException [Str ''Serial number is out of the accepted range.'']"

definition ossl_X509_set_serialNumber ::
  "('x, 'n, 'k, 't, 'i) cert_lib \<Rightarrow> ('i, 'bn) int_lib \<Rightarrow> 64 word \<Rightarrow> ('x, unit) st" where
  "ossl_X509_set_serialNumber L I serial x =
     (if uint serial > LONG_MAX then (Inl err_serial_range, x)
      else bindS (liftS (create_ASN1_INTEGER I)) (\<lambda>asn1Serial.
           bindS (liftS (OpensslCallIsPositive (fst (SSL_ASN1_INTEGER_set I asn1Serial (uint serial))))) (\<lambda>_ x.
             checkS OpensslCallIsPositive
               (SSL_X509_set_serialNumber L x (snd (SSL_ASN1_INTEGER_set I asn1Serial (uint serial)))))) x)"

text \<open>The status of \<open>X509_set_version\<close> is ignored by its callers.\<close>

definition X509_set_version :: "('x, 'n, 'k, 't, 'i) cert_lib \<Rightarrow> int \<Rightarrow> ('x, unit) st" where
  "X509_set_version L v x = (Inr (), snd (SSL_X509_set_version L x v))"

definition ossl_X509_sign ::
  "('x, 'n, 'k, 't, 'i) cert_lib \<Rightarrow> 'k \<Rightarrow> DigestTypes \<Rightarrow> ('x, unit) st" where
  "ossl_X509_sign L pkey type =
     bindS (liftS (getMDPtrFromDigestType type)) (\<lambda>dt x. checkS OpensslCallIsPositive (SSL_X509_sign L x pkey dt))"

section \<open>Input and output\<close>

definition ossl_PEM_read_bio_X509 :: "('x, 'b) object_io \<Rightarrow> 'b \<Rightarrow> 'x res" where
  [ossl_simps]: "ossl_PEM_read_bio_X509 J bio = OpensslCallPtr (SSL_PEM_read_bio J bio)"

definition ossl_PEM_write_bio_X509 :: "('x, 'b) object_io \<Rightarrow> 'x \<Rightarrow> 'b \<Rightarrow> 'b res" where
  [ossl_simps]: "ossl_PEM_write_bio_X509 J x bio = checkC OpensslCallIsOne (SSL_PEM_write_bio J bio x)"

definition ossl_d2i_X509_bio :: "('x, 'b) object_io \<Rightarrow> 'b \<Rightarrow> 'x res" where
  [ossl_simps]: "ossl_d2i_X509_bio J bio = OpensslCallPtr (SSL_d2i_bio J bio)"

definition ossl_i2d_X509_bio :: "('x, 'b) object_io \<Rightarrow> 'x \<Rightarrow> 'b \<Rightarrow> 'b res" where
  [ossl_simps]: "ossl_i2d_X509_bio J x bio = checkC OpensslCallIsOne (SSL_i2d_bio J bio x)"

definition X509_fromPEM :: "'b bio_lib \<Rightarrow> ('x, 'b) object_io \<Rightarrow> string \<Rightarrow> 'x res" where
  "X509_fromPEM B J pem =
     bindR (reformatPEMCertificate pem) (\<lambda>formattedPem. bio_parsed B formattedPem (ossl_PEM_read_bio_X509 J))"

text \<open>
  \<open>fromPEMFile\<close> reads the file with an \<open>ifstream\<close> (\<open>None\<close> if it cannot be opened, else its
  content and whether closing it failed) and falls back to a file BIO.
\<close>

definition X509_fromPEMFile ::
  "'b bio_lib \<Rightarrow> ('x, 'b) object_io \<Rightarrow> (string \<Rightarrow> (string \<times> bool) option) \<Rightarrow> string \<Rightarrow> 'x res" where
  "X509_fromPEMFile B J ifstream filename =
     (let fallback = bindR (FileBio_new B filename READ TEXT) (ossl_PEM_read_bio_X509 J)
      in case ifstream filename of
           None \<Rightarrow> fallback
         | Some (buffer, fail) \<Rightarrow> if \<not> fail then X509_fromPEM B J buffer else fallback)"

definition X509_fromDER :: "'b bio_lib \<Rightarrow> ('x, 'b) object_io \<Rightarrow> bytes \<Rightarrow> 'x res" where
  "X509_fromDER B J derData = bio_parsed_bytes B derData (ossl_d2i_X509_bio J)"

definition X509_fromDERFile :: "'b bio_lib \<Rightarrow> ('x, 'b) object_io \<Rightarrow> string \<Rightarrow> 'x res" where
  "X509_fromDERFile B J filename =
     bindR (FileBio_new B filename READ BINARY) (ossl_d2i_X509_bio J)"

definition X509_toPEM :: "'b bio_lib \<Rightarrow> ('x, 'b) object_io \<Rightarrow> 'x \<Rightarrow> string res option" where
  "X509_toPEM B J x = bio_printed B (ossl_PEM_write_bio_X509 J x)"

definition X509_toDER :: "'b bio_lib \<Rightarrow> ('x, 'b) object_io \<Rightarrow> 'x \<Rightarrow> bytes res option" where
  "X509_toDER B J x = bio_printed_bytes B (ossl_i2d_X509_bio J x)"

definition loadPEMChain :: "'b bio_lib \<Rightarrow> ('x, 'b) object_io \<Rightarrow> string \<Rightarrow> 'x list res" where
  "loadPEMChain B J pemChain =
     bindR (splitPEMChain pemChain BEGIN_CERT END_CERT) (mapR (X509_fromPEM B J))"

section \<open>Attributes\<close>

definition getSubjectDistinguishedName ::
  "('x, 'n, 'k, 't, 'i) cert_lib \<Rightarrow> ('n, 'e, 'd, 'b) name_lib \<Rightarrow> 'b bio_lib \<Rightarrow> 'x \<Rightarrow>
     DistinguishedName res option" where
  "getSubjectDistinguishedName L N B x =
     (case ossl_X509_get_subject_name L x of Inl e \<Rightarrow> Some (Inl e) | Inr n \<Rightarrow> fromX509Name N B n)"

definition getIssuerDistinguishedName ::
  "('x, 'n, 'k, 't, 'i) cert_lib \<Rightarrow> ('n, 'e, 'd, 'b) name_lib \<Rightarrow> 'b bio_lib \<Rightarrow> 'x \<Rightarrow>
     DistinguishedName res option" where
  "getIssuerDistinguishedName L N B x =
     (case ossl_X509_get_issuer_name L x of Inl e \<Rightarrow> Some (Inl e) | Inr n \<Rightarrow> fromX509Name N B n)"

definition X509_getPublicKey :: "('x, 'n, 'k, 't, 'i) cert_lib \<Rightarrow> 'x \<Rightarrow> 'k res" where
  "X509_getPublicKey L x = ossl_X509_get_pubkey L x"

definition isCA :: "('x, 'n, 'k, 't, 'i) cert_lib \<Rightarrow> 'x \<Rightarrow> bool" where
  "isCA L x = ossl_X509_check_ca L x"

definition getNotBefore :: "('x, 'n, 'k, 't, 'i) cert_lib \<Rightarrow> 't time_lib \<Rightarrow> 'x \<Rightarrow> int res" where
  "getNotBefore L T x = ossl_X509_get_notBefore L T x"
definition getNotAfter :: "('x, 'n, 'k, 't, 'i) cert_lib \<Rightarrow> 't time_lib \<Rightarrow> 'x \<Rightarrow> int res" where
  "getNotAfter L T x = ossl_X509_get_notAfter L T x"
definition getNotBeforeAsn1 :: "('x, 'n, 'k, 't, 'i) cert_lib \<Rightarrow> 't time_lib \<Rightarrow> 'x \<Rightarrow> 't res" where
  "getNotBeforeAsn1 L T x = bindR (ossl_X509_get_notBefore_ASN1 L x) (Asn1Time_copy T)"
definition getNotAfterAsn1 :: "('x, 'n, 'k, 't, 'i) cert_lib \<Rightarrow> 't time_lib \<Rightarrow> 'x \<Rightarrow> 't res" where
  "getNotAfterAsn1 L T x = bindR (ossl_X509_get_notAfter_ASN1 L x) (Asn1Time_copy T)"

definition getSerialNumber ::
  "('x, 'n, 'k, 't, 'i) cert_lib \<Rightarrow> ('i, 'bn) int_lib \<Rightarrow> 'x \<Rightarrow> 64 word res" where
  "getSerialNumber L I x = ossl_X509_get_serialNumber L I x"
definition getSerialNumberDecimal ::
  "('x, 'n, 'k, 't, 'i) cert_lib \<Rightarrow> ('i, 'bn) int_lib \<Rightarrow> 'x \<Rightarrow> string res" where
  "getSerialNumberDecimal L I x = ossl_X509_get_serialNumber_dec L I x"
definition getSerialNumberBinary ::
  "('x, 'n, 'k, 't, 'i) cert_lib \<Rightarrow> ('i, 'bn) int_lib \<Rightarrow> 'x \<Rightarrow> bytes res" where
  "getSerialNumberBinary L I x = ossl_X509_get_serialNumber_bin L I x"

section \<open>What OpenSSL documents\<close>

text \<open>
  \<open>view\<close> is what a certificate says: the entries of its names, its public key, its validity
  in seconds, serial number, version, extensions in order, and the key and digest it was
  signed with.  Every setter changes the one field it is for; the getters return it.
  \<open>pub\<close> is the public part of a key, \<open>signs\<close> the keys and digests that can sign.
\<close>

record ('k, 'e) cert_view =
  cv_subject :: "(int \<times> bytes) list"
  cv_issuer :: "(int \<times> bytes) list"
  cv_pubkey :: 'k
  cv_notBefore :: int
  cv_notAfter :: int
  cv_serial :: int
  cv_version :: int
  cv_extensions :: "'e list"
  cv_signature :: "('k \<times> EVP_MD) option"

definition cert_set_laws ::
  "('x, 'n, 'k, 't, 'i) cert_lib \<Rightarrow> ('x \<Rightarrow> ('k, 'e) cert_view) \<Rightarrow> ('n \<Rightarrow> (int \<times> bytes) list) \<Rightarrow>
     ('k \<Rightarrow> 'k) \<Rightarrow> ('t \<Rightarrow> int) \<Rightarrow> ('i \<Rightarrow> int) \<Rightarrow> ('k \<Rightarrow> EVP_MD \<Rightarrow> bool) \<Rightarrow> bool" where
  "cert_set_laws L view entries pub secs ival signs \<longleftrightarrow>
     (\<forall>x n. \<exists>y. SSL_X509_set_subject_name L x n = (1, y) \<and> view y = (view x)\<lparr>cv_subject := entries n\<rparr>)
     \<and> (\<forall>x n. \<exists>y. SSL_X509_set_issuer_name L x n = (1, y) \<and> view y = (view x)\<lparr>cv_issuer := entries n\<rparr>)
     \<and> (\<forall>x k. \<exists>y. SSL_X509_set_pubkey L x k = (1, y) \<and> view y = (view x)\<lparr>cv_pubkey := pub k\<rparr>)
     \<and> (\<forall>x t. \<exists>y. SSL_X509_set_notBefore L x t = (1, y) \<and> view y = (view x)\<lparr>cv_notBefore := secs t\<rparr>)
     \<and> (\<forall>x t. \<exists>y. SSL_X509_set_notAfter L x t = (1, y) \<and> view y = (view x)\<lparr>cv_notAfter := secs t\<rparr>)
     \<and> (\<forall>x i. \<exists>y. SSL_X509_set_serialNumber L x i = (1, y) \<and> view y = (view x)\<lparr>cv_serial := ival i\<rparr>)
     \<and> (\<forall>x v. \<exists>rv y. SSL_X509_set_version L x v = (rv, y) \<and> view y = (view x)\<lparr>cv_version := v\<rparr>)
     \<and> (\<forall>x k md. signs k md \<longrightarrow>
          (\<exists>n y. SSL_X509_sign L x k md = (n, y) \<and> n > 0 \<and> view y = (view x)\<lparr>cv_signature := Some (k, md)\<rparr>))"

definition cert_get_laws ::
  "('x, 'n, 'k, 't, 'i) cert_lib \<Rightarrow> ('x \<Rightarrow> ('k, 'e) cert_view) \<Rightarrow> ('n \<Rightarrow> (int \<times> bytes) list) \<Rightarrow>
     ('t \<Rightarrow> int) \<Rightarrow> ('i \<Rightarrow> int) \<Rightarrow> bool" where
  "cert_get_laws L view entries secs ival \<longleftrightarrow>
     SSL_X509_new L \<noteq> None
     \<and> (\<forall>x. \<exists>n. SSL_X509_get_subject_name L x = Some n \<and> entries n = cv_subject (view x))
     \<and> (\<forall>x. \<exists>n. SSL_X509_get_issuer_name L x = Some n \<and> entries n = cv_issuer (view x))
     \<and> (\<forall>x. SSL_X509_get_pubkey L x = Some (cv_pubkey (view x)))
     \<and> (\<forall>x. \<exists>t. SSL_X509_get_notBefore L x = Some t \<and> secs t = cv_notBefore (view x))
     \<and> (\<forall>x. \<exists>t. SSL_X509_get_notAfter L x = Some t \<and> secs t = cv_notAfter (view x))
     \<and> (\<forall>x. \<exists>i. SSL_X509_get_serialNumber L x = Some i \<and> ival i = cv_serial (view x))"

lemmas cert_setD = cert_set_laws_def [THEN iffD1]
lemmas set_subjectD = cert_setD [THEN conjunct1, rule_format]
  and set_issuerD = cert_setD [THEN conjunct2, THEN conjunct1, rule_format]
  and set_pubkeyD = cert_setD [THEN conjunct2, THEN conjunct2, THEN conjunct1, rule_format]
  and set_notBeforeD = cert_setD [THEN conjunct2, THEN conjunct2, THEN conjunct2, THEN conjunct1, rule_format]
  and set_notAfterD = cert_setD [THEN conjunct2, THEN conjunct2, THEN conjunct2, THEN conjunct2,
    THEN conjunct1, rule_format]
  and set_serialD = cert_setD [THEN conjunct2, THEN conjunct2, THEN conjunct2, THEN conjunct2,
    THEN conjunct2, THEN conjunct1, rule_format]
  and set_versionD = cert_setD [THEN conjunct2, THEN conjunct2, THEN conjunct2, THEN conjunct2,
    THEN conjunct2, THEN conjunct2, THEN conjunct1, rule_format]
  and signD = cert_setD [THEN conjunct2, THEN conjunct2, THEN conjunct2, THEN conjunct2,
    THEN conjunct2, THEN conjunct2, THEN conjunct2, rule_format]

lemmas cert_getD = cert_get_laws_def [THEN iffD1]
lemmas x509_newD = cert_getD [THEN conjunct1]
  and get_subjectD = cert_getD [THEN conjunct2, THEN conjunct1, rule_format]
  and get_issuerD = cert_getD [THEN conjunct2, THEN conjunct2, THEN conjunct1, rule_format]
  and get_pubkeyD = cert_getD [THEN conjunct2, THEN conjunct2, THEN conjunct2, THEN conjunct1, rule_format]
  and get_notBeforeD = cert_getD [THEN conjunct2, THEN conjunct2, THEN conjunct2, THEN conjunct2,
    THEN conjunct1, rule_format]
  and get_notAfterD = cert_getD [THEN conjunct2, THEN conjunct2, THEN conjunct2, THEN conjunct2,
    THEN conjunct2, THEN conjunct1, rule_format]
  and get_serialD = cert_getD [THEN conjunct2, THEN conjunct2, THEN conjunct2, THEN conjunct2,
    THEN conjunct2, THEN conjunct2, rule_format]

section \<open>Serial numbers\<close>

lemma set_serial_ok:
  assumes "cert_set_laws L view entries pub secs ival signs" "int_laws I ival bval" "uint s \<le> LONG_MAX"
  shows "\<exists>y. ossl_X509_set_serialNumber L I s x = (Inr (), y) \<and> view y = (view x)\<lparr>cv_serial := uint s\<rparr>"
proof -
  obtain z where z: "SSL_ASN1_INTEGER_new I = Some z" using int_newD [OF assms(2)] by blast
  have v: "fst (SSL_ASN1_INTEGER_set I z (uint s)) = 1" "ival (snd (SSL_ASN1_INTEGER_set I z (uint s))) = uint s"
    using int_setD [OF assms(2), of "uint s" z] assms(3) uint_ge_0 [of s]
    by (auto simp: LONG_MIN_def intro: order_trans)
  obtain y where "SSL_X509_set_serialNumber L x (snd (SSL_ASN1_INTEGER_set I z (uint s))) = (1, y)"
    "view y = (view x)\<lparr>cv_serial := uint s\<rparr>"
    using set_serialD [OF assms(1), of x "snd (SSL_ASN1_INTEGER_set I z (uint s))"] v(2) by auto
  with z v assms(3) show ?thesis
    by (auto simp: ossl_X509_set_serialNumber_def create_ASN1_INTEGER_def bindS_def)
qed

lemma get_serial_ok:
  assumes "cert_get_laws L view entries secs ival" "int_laws I ival bval"
  shows "getSerialNumber L I x = (if 0 \<le> cv_serial (view x) \<and> cv_serial (view x) \<le> LONG_MAX
       then Inr (word_of_int (cv_serial (view x))) else Inl err_number_range)"
    "getSerialNumberDecimal L I x = Inr (show_int (cv_serial (view x)))"
    "getSerialNumberBinary L I x = (if cv_serial (view x) = 0 then Inl OpenSSLException_default
       else Inr (be_bytes (nat \<bar>cv_serial (view x)\<bar>)))"
proof -
  obtain i where i: "SSL_X509_get_serialNumber L x = Some i" "ival i = cv_serial (view x)"
    using get_serialD [OF assms(1)] by blast
  then show "getSerialNumber L I x = (if 0 \<le> cv_serial (view x) \<and> cv_serial (view x) \<le> LONG_MAX
       then Inr (word_of_int (cv_serial (view x))) else Inl err_number_range)"
    "getSerialNumberDecimal L I x = Inr (show_int (cv_serial (view x)))"
    "getSerialNumberBinary L I x = (if cv_serial (view x) = 0 then Inl OpenSSLException_default
       else Inr (be_bytes (nat \<bar>cv_serial (view x)\<bar>)))"
    using ToInt64_ok [OF assms(2), of i] ToString_ok [OF assms(2), of i] ToBinary_ok [OF assms(2), of i]
    by (simp_all add: getSerialNumber_def getSerialNumberDecimal_def getSerialNumberBinary_def
        ossl_X509_get_serialNumber_def ossl_X509_get_serialNumber_dec_def ossl_X509_get_serialNumber_bin_def)
qed

text \<open>
  C25: A serial number up to \<open>LONG_MAX\<close> that is written to a certificate is read back unchanged in
  all three forms, as an integer, as decimal text and as big endian bytes without a leading
  zero; a larger one is refused before the certificate is touched.  The serial number 0 has no
  binary form: reading it throws.
\<close>

theorem X509_serial_roundtrip:
  assumes "cert_set_laws L view entries pub secs ival signs" "cert_get_laws L view entries secs ival"
    and "int_laws I ival bval"
  shows "(uint s > LONG_MAX \<longrightarrow> ossl_X509_set_serialNumber L I s x = (Inl err_serial_range, x))
    \<and> (uint s \<le> LONG_MAX \<longrightarrow> (\<exists>y. ossl_X509_set_serialNumber L I s x = (Inr (), y)
         \<and> getSerialNumber L I y = Inr s
         \<and> (\<exists>d. getSerialNumberDecimal L I y = Inr d \<and> read_int d = uint s)
         \<and> (if s = 0 then getSerialNumberBinary L I y = Inl OpenSSLException_default
            else \<exists>b. getSerialNumberBinary L I y = Inr b \<and> be_value b = unat s \<and> hd b \<noteq> 0)))"
proof (intro conjI impI)
  show "uint s > LONG_MAX \<Longrightarrow> ossl_X509_set_serialNumber L I s x = (Inl err_serial_range, x)"
    by (simp add: ossl_X509_set_serialNumber_def)
  assume s: "uint s \<le> LONG_MAX"
  obtain y where y: "ossl_X509_set_serialNumber L I s x = (Inr (), y)" "cv_serial (view y) = uint s"
    using set_serial_ok [OF assms(1,3) s, of x] by auto
  have n: "nat (uint s) = unat s" by simp
  have "be_value (be_bytes (nat (uint s))) = unat s" by (simp only: n be_value_bytes)
  moreover have "s \<noteq> 0 \<Longrightarrow> hd (be_bytes (nat (uint s))) \<noteq> 0"
    unfolding n by (rule be_bytes_no_leading_zero) (simp only: unat_gt_0 not_False_eq_True)
  ultimately show "\<exists>y. ossl_X509_set_serialNumber L I s x = (Inr (), y) \<and> getSerialNumber L I y = Inr s
     \<and> (\<exists>d. getSerialNumberDecimal L I y = Inr d \<and> read_int d = uint s)
     \<and> (if s = 0 then getSerialNumberBinary L I y = Inl OpenSSLException_default
        else \<exists>b. getSerialNumberBinary L I y = Inr b \<and> be_value b = unat s \<and> hd b \<noteq> 0)"
    using y s get_serial_ok [OF assms(2,3), of y] by (auto simp: uint_0_iff)
qed

section \<open>PEM and DER\<close>

text \<open>
  OpenSSL prints a certificate as the begin marker, its base64 characters in lines of 64, and
  the end marker; it reads that form back, whatever follows the line with the end marker.  Its
  DER form is a string of bytes it reads back.  \<open>good\<close> are the complete, signed certificates.
\<close>

definition base64_text :: "string \<Rightarrow> bool" where
  "base64_text s \<longleftrightarrow> (\<forall>c \<in> set s. \<not> isspace c \<and> c \<noteq> CHR ''-'' \<and> c \<noteq> CHR 0x00)"

definition cert_pem_laws ::
  "('x, 'b) object_io \<Rightarrow> ('b \<Rightarrow> bytes) \<Rightarrow> ('x \<Rightarrow> bool) \<Rightarrow> ('x \<Rightarrow> string) \<Rightarrow> bool" where
  "cert_pem_laws J content good b64 \<longleftrightarrow>
     (\<forall>x. good x \<longrightarrow> base64_text (b64 x))
     \<and> (\<forall>b x. good x \<and> content b = [] \<longrightarrow> (\<exists>b'. SSL_PEM_write_bio J b x = (1, b')
          \<and> content b' = string_bytes (cert_text [] ([nl] @ split64 (b64 x)) [nl])))
     \<and> (\<forall>b x post. good x \<and> after_marker post
          \<and> content b = string_bytes (cert_text [] ([nl] @ split64 (b64 x)) post) \<longrightarrow> SSL_PEM_read_bio J b = Some x)"

lemma layout_plain:
  assumes "filter (\<lambda>c. \<not> isspace c) layout = s" "base64_text s"
  shows "CHR ''-'' \<notin> set layout" "CHR 0x00 \<notin> set layout"
proof -
  have ns: "\<not> isspace (CHR ''-'')" "\<not> isspace (CHR 0x00)" by (simp_all add: isspace_def)
  have "\<forall>c \<in> set (filter (\<lambda>c. \<not> isspace c) layout). c \<noteq> CHR ''-'' \<and> c \<noteq> CHR 0x00"
    using assms(2) unfolding assms(1) base64_text_def by blast
  then show "CHR ''-'' \<notin> set layout" "CHR 0x00 \<notin> set layout"
    using ns by auto
qed

lemma no_null_cert_text:
  "base64_text s \<Longrightarrow> CHR 0x00 \<notin> set post \<Longrightarrow> CHR 0x00 \<notin> set (cert_text [] ([nl] @ split64 s) post)"
  using set_split64 [of s] by (auto simp: cert_text_def BEGIN_CERT_def END_CERT_def base64_text_def)

lemma wf_cert_layout: "CHR ''-'' \<notin> set layout \<Longrightarrow> wf_cert_text [] layout"
  using str_find_at [of BEGIN_CERT "[]"] by (simp add: wf_cert_text_def str_find_def BEGIN_CERT_def)

lemma X509_fromPEM_layout:
  assumes "bio_laws B content" "cert_pem_laws J content good b64" "good x"
    and "filter (\<lambda>c. \<not> isspace c) layout = b64 x" "after_marker post"
    and "length (cert_text [] layout post) < 2 ^ 63"
  shows "X509_fromPEM B J (cert_text [] layout post) = Inr x"
proof -
  let ?t = "cert_text [] ([nl] @ split64 (b64 x)) post"
  have b64: "base64_text (b64 x)" using assms(2,3) by (simp add: cert_pem_laws_def)
  have "wf_cert_text [] layout" using wf_cert_layout layout_plain(1) [OF assms(4) b64] by blast
  then have "reformatPEMCertificate (cert_text [] layout post) = Inr ?t"
    using reformat_wf [OF _ assms(6)] assms(4) by simp
  moreover obtain b where b: "content b = string_bytes (c_str ?t)"
      "bio_parsed B ?t (ossl_PEM_read_bio_X509 J) = ossl_PEM_read_bio_X509 J b"
    using bio_parsed_ok [OF assms(1)] by blast
  moreover have "c_str ?t = ?t"
    using no_null_cert_text [OF b64] assms(5) by (intro c_str_id) (simp add: after_marker_def)
  moreover have "content b = string_bytes ?t \<Longrightarrow> SSL_PEM_read_bio J b = Some x"
    using assms(2,3,5) unfolding cert_pem_laws_def by blast
  ultimately show ?thesis by (simp add: X509_fromPEM_def ossl_simps)
qed

lemma X509_toPEM_ok:
  assumes "bio_laws B content" "cert_pem_laws J content good b64" "good x"
  shows "X509_toPEM B J x = Some (Inr (cert_text [] ([nl] @ split64 (b64 x)) [nl]))"
proof -
  have "bio_printed B (ossl_PEM_write_bio_X509 J x)
      = Some (Inr (bytes_string (string_bytes (cert_text [] ([nl] @ split64 (b64 x)) [nl]))))"
  proof (rule bio_printed_ok [OF assms(1)])
    fix b assume "content b = []"
    then obtain b' where "SSL_PEM_write_bio J b x = (1, b')"
      "content b' = string_bytes (cert_text [] ([nl] @ split64 (b64 x)) [nl])"
      using assms(2,3) unfolding cert_pem_laws_def by blast
    then show "\<exists>b'. ossl_PEM_write_bio_X509 J x b = Inr b'
        \<and> content b' = string_bytes (cert_text [] ([nl] @ split64 (b64 x)) [nl])"
      by (simp add: ossl_simps)
  qed
  then show ?thesis by (simp add: X509_toPEM_def)
qed

lemma X509_pem_again:
  assumes "bio_laws B content" "cert_pem_laws J content good b64" "good x"
    and "length (cert_text [] ([nl] @ split64 (b64 x)) [nl]) < 2 ^ 63"
  shows "\<exists>pem. X509_toPEM B J x = Some (Inr pem) \<and> X509_fromPEM B J pem = Inr x"
proof -
  have "base64_text (b64 x)" using assms(2,3) by (simp add: cert_pem_laws_def)
  then have "filter (\<lambda>c. \<not> isspace c) (b64 x) = b64 x" by (simp add: base64_text_def)
  then have f: "filter (\<lambda>c. \<not> isspace c) ([nl] @ split64 (b64 x)) = b64 x"
    by (simp add: isspace_nl filter_split64)
  have "after_marker [nl]" by (simp add: after_marker_def)
  then have "X509_fromPEM B J (cert_text [] ([nl] @ split64 (b64 x)) [nl]) = Inr x"
    using X509_fromPEM_layout [OF assms(1-3) f _ assms(4)] by blast
  with X509_toPEM_ok [OF assms(1-3)] show ?thesis by blast
qed

text \<open>
  C22: A certificate survives the way through PEM and through DER.  Moreover, reading PEM does not
  depend on how the base64 characters are laid out: any line lengths, a single line, carriage
  returns or blanks, and any text after the end marker give the same certificate.
\<close>

theorem X509_PEM_DER_roundtrip:
  assumes "bio_laws B content" "cert_pem_laws J content good b64" "der_laws J content good der" "good x"
    and "filter (\<lambda>c. \<not> isspace c) layout = b64 x" "after_marker post"
    and "length (cert_text [] layout post) < 2 ^ 63" "length (cert_text [] ([nl] @ split64 (b64 x)) [nl]) < 2 ^ 63"
    and "int (length (der x)) \<le> INT_MAX"
  shows "X509_fromPEM B J (cert_text [] layout post) = Inr x
    \<and> (\<exists>pem. X509_toPEM B J x = Some (Inr pem) \<and> X509_fromPEM B J pem = Inr x)
    \<and> (\<exists>d. X509_toDER B J x = Some (Inr d) \<and> X509_fromDER B J d = Inr x)"
proof (intro conjI)
  show "X509_fromPEM B J (cert_text [] layout post) = Inr x" by (rule X509_fromPEM_layout [OF assms(1,2,4-7)])
  show "\<exists>pem. X509_toPEM B J x = Some (Inr pem) \<and> X509_fromPEM B J pem = Inr x"
    by (rule X509_pem_again [OF assms(1,2,4,8)])
  show "\<exists>d. X509_toDER B J x = Some (Inr d) \<and> X509_fromDER B J d = Inr x"
    using der_printed [OF assms(1,3,4)] der_parsed [OF assms(1,3,4,9)]
    by (simp add: X509_toDER_def X509_fromDER_def ossl_simps [abs_def])
qed

text \<open>
  C23: A chain of certificates, each with its base64 characters in any layout and any white space
  around the markers, loads as exactly those certificates in order.
\<close>

theorem loadPEMChain_loads:
  assumes "bio_laws B content" "cert_pem_laws J content good b64"
    and "list_all (wf_item END_CERT) its" "is_ws t"
    and "list_all2 (\<lambda>it x. good x \<and> filter (\<lambda>c. \<not> isspace c) (body it) = b64 x
           \<and> length (cert_text [] ([nl] @ body it) []) < 2 ^ 63) its xs"
  shows "loadPEMChain B J (concat (map (render_item BEGIN_CERT END_CERT) its) @ t) = Inr xs"
proof -
  have "wf_markers BEGIN_CERT END_CERT" by (simp add: wf_markers_def BEGIN_CERT_def END_CERT_def ws_def)
  note split = splitPEMChain_items [OF this assms(3,4)]
  have post: "after_marker []" by (simp add: after_marker_def)
  have elem: "X509_fromPEM B J (canonical BEGIN_CERT END_CERT bd) = Inr x"
    if "good x" "filter (\<lambda>c. \<not> isspace c) bd = b64 x" "length (cert_text [] ([nl] @ bd) []) < 2 ^ 63" for bd x
  proof -
    have "filter (\<lambda>c. \<not> isspace c) ([nl] @ bd) = b64 x" using that(2) by (simp add: isspace_nl)
    from X509_fromPEM_layout [OF assms(1,2) that(1) this post that(3)]
    show ?thesis by (simp add: cert_text_def canonical_def)
  qed
  have "mapR (X509_fromPEM B J) (map (\<lambda>it. canonical BEGIN_CERT END_CERT (body it)) its) = Inr xs"
    using assms(5)
  proof (induction rule: list_all2_induct)
    case (Cons it its x xs)
    then have "X509_fromPEM B J (canonical BEGIN_CERT END_CERT (body it)) = Inr x" by (intro elem) simp_all
    with Cons.IH show ?case by simp
  qed simp
  with split show ?thesis by (simp add: loadPEMChain_def)
qed

section \<open>Concrete instances\<close>

text \<open>A certificate as its view; the times of the reference library are clamped to their range.\<close>

type_synonym 'k ref_cert = "('k, int \<times> string) cert_view"

definition ref_view :: "'k ref_cert \<Rightarrow> 'k ref_cert" where
  "ref_view x = x\<lparr>cv_notBefore := clamp (cv_notBefore x), cv_notAfter := clamp (cv_notAfter x)\<rparr>"

definition ref_empty_cert :: "'k \<Rightarrow> 'k ref_cert" where
  "ref_empty_cert k = \<lparr>cv_subject = [], cv_issuer = [], cv_pubkey = k, cv_notBefore = 0, cv_notAfter = 0,
     cv_serial = 0, cv_version = 0, cv_extensions = [], cv_signature = None\<rparr>"

definition ref_cert_lib_for :: "'k \<Rightarrow> ('k \<Rightarrow> 'k) \<Rightarrow> ('k ref_cert, (int \<times> bytes) list, 'k, int, int) cert_lib" where
  "ref_cert_lib_for k0 pub =
     \<lparr>SSL_X509_new = Some (ref_empty_cert k0),
      SSL_X509_get_subject_name = (\<lambda>x. Some (cv_subject x)),
      SSL_X509_get_issuer_name = (\<lambda>x. Some (cv_issuer x)),
      SSL_X509_get_pubkey = (\<lambda>x. Some (cv_pubkey x)),
      SSL_X509_get_notBefore = (\<lambda>x. Some (cv_notBefore x)),
      SSL_X509_get_notAfter = (\<lambda>x. Some (cv_notAfter x)),
      SSL_X509_get_serialNumber = (\<lambda>x. Some (cv_serial x)),
      SSL_X509_check_ca = (\<lambda>x. if (87, ''critical,CA:TRUE,pathlen:0'') \<in> set (cv_extensions x) then 1 else 0),
      SSL_X509_set_subject_name = (\<lambda>x n. (1, x\<lparr>cv_subject := n\<rparr>)),
      SSL_X509_set_issuer_name = (\<lambda>x n. (1, x\<lparr>cv_issuer := n\<rparr>)),
      SSL_X509_set_pubkey = (\<lambda>x k. (1, x\<lparr>cv_pubkey := pub k\<rparr>)),
      SSL_X509_set_notBefore = (\<lambda>x t. (1, x\<lparr>cv_notBefore := t\<rparr>)),
      SSL_X509_set_notAfter = (\<lambda>x t. (1, x\<lparr>cv_notAfter := t\<rparr>)),
      SSL_X509_set_serialNumber = (\<lambda>x i. (1, x\<lparr>cv_serial := i\<rparr>)),
      SSL_X509_set_version = (\<lambda>x v. (1, x\<lparr>cv_version := v\<rparr>)),
      SSL_X509_sign = (\<lambda>x k md. (256, x\<lparr>cv_signature := Some (k, md)\<rparr>))\<rparr>"

lemma ref_cert_laws_for:
  "cert_set_laws (ref_cert_lib_for k0 pub) ref_view id pub clamp id (\<lambda>k md. True)"
  "cert_get_laws (ref_cert_lib_for k0 pub) ref_view id clamp id"
  by (simp_all add: cert_set_laws_def cert_get_laws_def ref_cert_lib_for_def ref_view_def)

definition ref_cert_lib :: "(nat ref_cert, (int \<times> bytes) list, nat, int, int) cert_lib" where
  "ref_cert_lib = ref_cert_lib_for 0 id"

lemma ref_cert_set_laws: "cert_set_laws ref_cert_lib ref_view id id clamp id (\<lambda>k md. True)"
  unfolding ref_cert_lib_def by (rule ref_cert_laws_for)

lemma ref_cert_get_laws: "cert_get_laws ref_cert_lib ref_view id clamp id"
  unfolding ref_cert_lib_def by (rule ref_cert_laws_for)

theorem X509_serial_roundtrip_witness:
  "\<exists>y. ossl_X509_set_serialNumber ref_cert_lib ref_int_lib 300 (ref_empty_cert 7) = (Inr (), y)
     \<and> getSerialNumber ref_cert_lib ref_int_lib y = Inr 300"
  using X509_serial_roundtrip [OF ref_cert_set_laws ref_cert_get_laws ref_int_laws, of 300 "ref_empty_cert 7"]
  by (auto simp: LONG_MAX_def)

text \<open>A certificate as its base64 characters.\<close>

definition ref_cert_io :: "(string, bytes) object_io" where
  "ref_cert_io =
     \<lparr>SSL_PEM_read_bio = (\<lambda>b. Some (filter (\<lambda>c. \<not> isspace c)
        (takeWhile (\<lambda>c. c \<noteq> CHR ''-'') (drop 27 (bytes_string b))))),
      SSL_PEM_write_bio = (\<lambda>b x. (1, b @ string_bytes (cert_text [] ([nl] @ split64 x) [nl]))),
      SSL_d2i_bio = (\<lambda>b. Some (bytes_string b)),
      SSL_i2d_bio = (\<lambda>b x. (1, b @ string_bytes x))\<rparr>"

lemma ref_cert_reads:
  assumes "base64_text x"
  shows "filter (\<lambda>c. \<not> isspace c) (takeWhile (\<lambda>c. c \<noteq> CHR ''-'')
     (drop 27 (cert_text [] (nl # split64 x) post))) = x"
proof -
  have "CHR ''-'' \<notin> set ([nl] @ split64 x @ [nl])"
    using set_split64 [of x] assms by (auto simp: base64_text_def)
  then have "takeWhile (\<lambda>c. c \<noteq> CHR ''-'') (([nl] @ split64 x @ [nl]) @ END_CERT @ post) = [nl] @ split64 x @ [nl]"
    by (subst takeWhile_append2) (auto simp: END_CERT_def)
  moreover have "filter (\<lambda>c. \<not> isspace c) x = x" using assms by (simp add: base64_text_def)
  ultimately show ?thesis by (simp add: cert_text_def markers isspace_nl filter_split64)
qed

lemma ref_cert_pem_laws: "cert_pem_laws ref_cert_io id base64_text id"
  by (auto simp: cert_pem_laws_def ref_cert_io_def ref_cert_reads)

lemma ref_cert_der_laws: "der_laws ref_cert_io id base64_text string_bytes"
  by (simp add: der_laws_def ref_cert_io_def)

lemma ref_base64: "base64_text ''AB''" "base64_text ''ABCD''"
  by (simp_all add: base64_text_def isspace_def)

theorem X509_PEM_DER_roundtrip_witness:
  "X509_fromPEM ref_bio_lib ref_cert_io (cert_text [] [nl, CHR ''A'', CHR '' '', CHR ''B''] []) = Inr ''AB''"
proof -
  have f: "filter (\<lambda>c. \<not> isspace c) [nl, CHR ''A'', CHR '' '', CHR ''B''] = id ''AB''" by (simp add: isspace_def)
  have p: "after_marker []" by (simp add: after_marker_def)
  have len: "length (cert_text [] [nl, CHR ''A'', CHR '' '', CHR ''B''] []) < 2 ^ 63"
    "length (cert_text [] ([nl] @ split64 (id ''AB'')) [nl]) < 2 ^ 63"
    "int (length (string_bytes ''AB'')) \<le> INT_MAX"
    by (simp_all add: cert_text_def markers split64.simps INT_MAX_def)
  show ?thesis
    by (rule X509_PEM_DER_roundtrip [of ref_bio_lib id ref_cert_io base64_text id string_bytes "''AB''",
          THEN conjunct1])
      (rule ref_bio_laws ref_cert_pem_laws ref_cert_der_laws ref_base64(1) f p len)+
qed

definition ref_chain :: "pem_item list" where
  "ref_chain = [\<lparr>lead = [], gap = [nl], body = ''AB'', trail = [nl]\<rparr>,
                \<lparr>lead = '' '', gap = [], body = [CHR ''A'', CHR ''B'', nl, CHR ''C'', CHR ''D''], trail = []\<rparr>]"

theorem loadPEMChain_loads_witness:
  "loadPEMChain ref_bio_lib ref_cert_io (concat (map (render_item BEGIN_CERT END_CERT) ref_chain) @ [nl])
     = Inr [''AB'', ''ABCD'']"
proof (rule loadPEMChain_loads [OF ref_bio_laws ref_cert_pem_laws])
  show "list_all (wf_item END_CERT) ref_chain"
    by (simp add: ref_chain_def wf_item_def is_ws_def ws_def END_CERT_def)
  show "is_ws [nl]" by (simp add: is_ws_def ws_def)
  show "list_all2 (\<lambda>it x. base64_text x \<and> filter (\<lambda>c. \<not> isspace c) (body it) = id x
      \<and> length (cert_text [] ([nl] @ body it) []) < 2 ^ 63) ref_chain [''AB'', ''ABCD'']"
    using ref_base64 by (simp add: ref_chain_def isspace_def cert_text_def markers)
qed

end
