(* ===== verification/X509_Crl.thy ===== *)
theory X509_Crl
  imports X509_Cert
begin

text \<open>
  \<open>src/src/crl.cpp\<close>: certificate revocation lists, their issuer and validity, verification with
  the issuer's certificate, input and output, and chains of lists.
\<close>

section \<open>OpenSSL functions and their wrappers\<close>

record ('r, 'n, 'k, 't) crl_lib =
  SSL_X509_CRL_get_issuer :: "'r \<Rightarrow> 'n option"
  SSL_X509_CRL_get_lastUpdate :: "'r \<Rightarrow> 't option"
  SSL_X509_CRL_get_nextUpdate :: "'r \<Rightarrow> 't option"
  SSL_X509_CRL_verify :: "'r \<Rightarrow> 'k \<Rightarrow> int"

definition ossl_X509_CRL_get_issuer :: "('r, 'n, 'k, 't) crl_lib \<Rightarrow> 'r \<Rightarrow> 'n res" where
  [ossl_simps]: "ossl_X509_CRL_get_issuer C crl = OpensslCallPtr (SSL_X509_CRL_get_issuer C crl)"

definition ossl_X509_CRL_get_lastUpdate :: "('r, 'n, 'k, 't) crl_lib \<Rightarrow> 'r \<Rightarrow> 't res" where
  [ossl_simps]: "ossl_X509_CRL_get_lastUpdate C crl = OpensslCallPtr (SSL_X509_CRL_get_lastUpdate C crl)"

definition ossl_X509_CRL_get_nextUpdate :: "('r, 'n, 'k, 't) crl_lib \<Rightarrow> 'r \<Rightarrow> 't res" where
  [ossl_simps]: "ossl_X509_CRL_get_nextUpdate C crl = OpensslCallPtr (SSL_X509_CRL_get_nextUpdate C crl)"

definition ossl_X509_CRL_verify :: "('r, 'n, 'k, 't) crl_lib \<Rightarrow> 'r \<Rightarrow> 'k \<Rightarrow> unit res" where
  [ossl_simps]: "ossl_X509_CRL_verify C crl key =
     bindR (OpensslCallIsOne (SSL_X509_CRL_verify C crl key)) (\<lambda>_. Inr ())"

section \<open>CertificateRevocationList\<close>

definition Crl_getIssuerName ::
  "('r, 'n, 'k, 't) crl_lib \<Rightarrow> ('n, 'e, 'd, 'b) name_lib \<Rightarrow> 'b bio_lib \<Rightarrow> 'r \<Rightarrow> DistinguishedName res option" where
  "Crl_getIssuerName C N B crl =
     (case ossl_X509_CRL_get_issuer C crl of Inl e \<Rightarrow> Some (Inl e) | Inr n \<Rightarrow> fromX509Name N B n)"

definition getLastUpdateAsn1 :: "('r, 'n, 'k, 't) crl_lib \<Rightarrow> 't time_lib \<Rightarrow> 'r \<Rightarrow> 't res" where
  "getLastUpdateAsn1 C T crl = bindR (ossl_X509_CRL_get_lastUpdate C crl) (Asn1Time_copy T)"

definition getNextUpdateAsn1 :: "('r, 'n, 'k, 't) crl_lib \<Rightarrow> 't time_lib \<Rightarrow> 'r \<Rightarrow> 't res" where
  "getNextUpdateAsn1 C T crl = bindR (ossl_X509_CRL_get_nextUpdate C crl) (Asn1Time_copy T)"

definition err_crl_issuer :: exn where
  "err_crl_issuer = MoCOCrWException [Str ''CRL issuer name doesn't match the provided certificate'']"

definition Crl_verify ::
  "('r, 'n, 'k, 't) crl_lib \<Rightarrow> ('x, 'n, 'k, 't, 'i) cert_lib \<Rightarrow> ('n, 'e, 'd, 'b) name_lib \<Rightarrow> 'b bio_lib \<Rightarrow>
     'x \<Rightarrow> 'r \<Rightarrow> unit res option" where
  "Crl_verify C L N B signer crl =
     (case Crl_getIssuerName C N B crl of
        None \<Rightarrow> None
      | Some (Inl e) \<Rightarrow> Some (Inl e)
      | Some (Inr issuer) \<Rightarrow>
     (case getSubjectDistinguishedName L N B signer of
        None \<Rightarrow> None
      | Some (Inl e) \<Rightarrow> Some (Inl e)
      | Some (Inr subject) \<Rightarrow>
          if \<not> DN_eq issuer subject then Some (Inl err_crl_issuer)
          else Some (bindR (X509_getPublicKey L signer) (\<lambda>publicKey.
                 catchOpenSSL (ossl_X509_CRL_verify C crl publicKey)
                   (\<lambda>m. MoCOCrWException (Str ''Error while verifying CRL signature: '' # m))))))"

section \<open>Input and output\<close>

definition ossl_PEM_write_bio_X509_CRL :: "('r, 'b) object_io \<Rightarrow> 'r \<Rightarrow> 'b \<Rightarrow> 'b res" where
  [ossl_simps]: "ossl_PEM_write_bio_X509_CRL J crl bio = checkC OpensslCallIsOne (SSL_PEM_write_bio J bio crl)"
definition ossl_PEM_read_bio_X509_CRL :: "('r, 'b) object_io \<Rightarrow> 'b \<Rightarrow> 'r res" where
  [ossl_simps]: "ossl_PEM_read_bio_X509_CRL J bio = OpensslCallPtr (SSL_PEM_read_bio J bio)"
definition ossl_d2i_X509_CRL_bio :: "('r, 'b) object_io \<Rightarrow> 'b \<Rightarrow> 'r res" where
  [ossl_simps]: "ossl_d2i_X509_CRL_bio J bio = OpensslCallPtr (SSL_d2i_bio J bio)"

definition Crl_toPEM :: "'b bio_lib \<Rightarrow> ('r, 'b) object_io \<Rightarrow> 'r \<Rightarrow> string res option" where
  "Crl_toPEM B J crl = bio_printed B (ossl_PEM_write_bio_X509_CRL J crl)"
definition Crl_fromDER :: "'b bio_lib \<Rightarrow> ('r, 'b) object_io \<Rightarrow> bytes \<Rightarrow> 'r res" where
  "Crl_fromDER B J derData = bio_parsed_bytes B derData (ossl_d2i_X509_CRL_bio J)"
definition Crl_fromDERFile :: "'b bio_lib \<Rightarrow> ('r, 'b) object_io \<Rightarrow> string \<Rightarrow> 'r res" where
  "Crl_fromDERFile B J filename = bindR (FileBio_new B filename READ BINARY) (ossl_d2i_X509_CRL_bio J)"
definition Crl_fromPEM :: "'b bio_lib \<Rightarrow> ('r, 'b) object_io \<Rightarrow> string \<Rightarrow> 'r res" where
  "Crl_fromPEM B J pem = bio_parsed B pem (ossl_PEM_read_bio_X509_CRL J)"

text \<open>Unlike the other classes, PEM files are opened as binary files here.\<close>

definition Crl_fromPEMFile :: "'b bio_lib \<Rightarrow> ('r, 'b) object_io \<Rightarrow> string \<Rightarrow> 'r res" where
  "Crl_fromPEMFile B J filename = bindR (FileBio_new B filename READ BINARY) (ossl_PEM_read_bio_X509_CRL J)"

definition BEGIN_CRL :: string where "BEGIN_CRL = ''-----BEGIN X509 CRL-----''"
definition END_CRL :: string where "END_CRL = ''-----END X509 CRL-----''"

definition loadCrlPEMChain :: "'b bio_lib \<Rightarrow> ('r, 'b) object_io \<Rightarrow> string \<Rightarrow> 'r list res" where
  "loadCrlPEMChain B J pemChain =
     bindR (splitPEMChain pemChain BEGIN_CRL END_CRL) (mapR (Crl_fromPEM B J))"

interpretation crl: pem_object Crl_fromPEM Crl_toPEM
  by unfold_locales (simp_all add: Crl_fromPEM_def Crl_toPEM_def ossl_simps [abs_def])

section \<open>Verification\<close>

text \<open>
  \<open>issuer_of\<close> are the entries of a list's issuer, \<open>signed_by\<close> says with which public keys its
  signature verifies.
\<close>

definition crl_laws ::
  "('r, 'n, 'k, 't) crl_lib \<Rightarrow> ('n \<Rightarrow> (int \<times> bytes) list) \<Rightarrow> ('r \<Rightarrow> (int \<times> bytes) list) \<Rightarrow> ('r \<Rightarrow> 'k \<Rightarrow> bool) \<Rightarrow> bool" where
  "crl_laws C entries issuer_of signed_by \<longleftrightarrow>
     (\<forall>r. \<exists>n. SSL_X509_CRL_get_issuer C r = Some n \<and> entries n = issuer_of r)
     \<and> (\<forall>r k. SSL_X509_CRL_verify C r k = 1 \<longleftrightarrow> signed_by r k)"

lemma DN_eq_read:
  "DN_eq \<lparr>attributes = map (\<lambda>i. (i, entry_string es i)) default_order, customAttributeOrderFlag = False\<rparr>
         \<lparr>attributes = map (\<lambda>i. (i, entry_string fs i)) default_order, customAttributeOrderFlag = False\<rparr>
     \<longleftrightarrow> (\<forall>i. entry_string es i = entry_string fs i)" (is "DN_eq ?a ?b \<longleftrightarrow> _")
proof -
  have "getAttributeByNIDAsString \<lparr>attributes = map (\<lambda>i. (i, entry_string gs i)) default_order,
      customAttributeOrderFlag = False\<rparr> i = entry_string gs i" for gs i
    by (cases i) (simp_all add: getAttribute_string default_order_def)
  then show ?thesis using DN_eq_default [of ?a ?b] by simp
qed

text \<open>
  C24: Verifying a revocation list ends, and accepts it exactly if the signer's subject has the same
  attributes as the list's issuer and the signature is by the signer's key.  A name that
  differs is reported as such, whatever the signature, and a wrong signature by its own
  error; both are \<open>MoCOCrWException\<close>s.
\<close>

theorem CRL_verify_exact:
  assumes "crl_laws C entries issuer_of signed_by" "cert_get_laws L view entries secs ival"
    and "name_laws N content entries good" "bio_laws B content"
    and "length (entry_string (issuer_of r) CountryName) \<le> 2"
    and "length (entry_string (cv_subject (view x)) CountryName) \<le> 2"
  shows "Crl_verify C L N B x r = Some
     (if \<not> (\<forall>i. entry_string (issuer_of r) i = entry_string (cv_subject (view x)) i) then Inl err_crl_issuer
      else if signed_by r (cv_pubkey (view x)) then Inr ()
      else Inl (MoCOCrWException (Str ''Error while verifying CRL signature: '' # generateOpenSSLErrorString)))"
proof -
  obtain n where n: "SSL_X509_CRL_get_issuer C r = Some n" "entries n = issuer_of r"
    using assms(1) unfolding crl_laws_def by blast
  obtain m where m: "SSL_X509_get_subject_name L x = Some m" "entries m = cv_subject (view x)"
    using get_subjectD [OF assms(2)] by blast
  have a: "Crl_getIssuerName C N B r = Some (Inr \<lparr>attributes = map (\<lambda>i. (i, entry_string (issuer_of r) i)) default_order,
     customAttributeOrderFlag = False\<rparr>)"
    using fromX509Name_ok [OF assms(3,4), of n] n assms(5) by (simp add: Crl_getIssuerName_def ossl_simps)
  have b: "getSubjectDistinguishedName L N B x = Some (Inr \<lparr>attributes =
      map (\<lambda>i. (i, entry_string (cv_subject (view x)) i)) default_order, customAttributeOrderFlag = False\<rparr>)"
    using fromX509Name_ok [OF assms(3,4), of m] m assms(6) by (simp add: getSubjectDistinguishedName_def ossl_simps)
  have "SSL_X509_CRL_verify C r (cv_pubkey (view x)) = 1 \<longleftrightarrow> signed_by r (cv_pubkey (view x))"
    using assms(1) by (simp add: crl_laws_def)
  then show ?thesis
    using a b DN_eq_read [of "issuer_of r" "cv_subject (view x)"] get_pubkeyD [OF assms(2), of x]
    by (simp add: Crl_verify_def X509_getPublicKey_def ossl_simps OpenSSLException_default_def)
qed

text \<open>
  A chain of revocation lists as OpenSSL prints them, with any white space around the markers,
  loads as exactly those lists in order; and a single list survives the way through PEM.
\<close>

theorem loadCrlPEMChain_loads:
  assumes "bio_laws B content" "pem_laws J content BEGIN_CRL END_CRL good bd"
    and "list_all (wf_item END_CRL) its" "is_ws t" "list_all2 (\<lambda>it x. good x \<and> body it = bd x) its xs"
  shows "loadCrlPEMChain B J (concat (map (render_item BEGIN_CRL END_CRL) its) @ t) = Inr xs
    \<and> (\<forall>x \<in> set xs. \<exists>pem. Crl_toPEM B J x = Some (Inr pem) \<and> Crl_fromPEM B J pem = Inr x)"
proof
  have "wf_markers BEGIN_CRL END_CRL" by (simp add: wf_markers_def BEGIN_CRL_def END_CRL_def ws_def)
  from crl.chain_loads [OF assms(1,2) this assms(3-5)]
  show "loadCrlPEMChain B J (concat (map (render_item BEGIN_CRL END_CRL) its) @ t) = Inr xs"
    by (simp add: loadCrlPEMChain_def)
  have "good x" if "x \<in> set xs" for x using assms(5) that by (auto simp: list_all2_conv_all_nth in_set_conv_nth)
  then show "\<forall>x \<in> set xs. \<exists>pem. Crl_toPEM B J x = Some (Inr pem) \<and> Crl_fromPEM B J pem = Inr x"
    using crl.pem_roundtrip [OF assms(1,2)] by blast
qed

section \<open>Concrete instances\<close>

text \<open>A list as the entries of its issuer and the key it was signed with.\<close>

definition ref_crl_lib :: "((int \<times> bytes) list \<times> nat, (int \<times> bytes) list, nat, int) crl_lib" where
  "ref_crl_lib =
     \<lparr>SSL_X509_CRL_get_issuer = (\<lambda>r. Some (fst r)),
      SSL_X509_CRL_get_lastUpdate = (\<lambda>r. Some 0),
      SSL_X509_CRL_get_nextUpdate = (\<lambda>r. Some 1),
      SSL_X509_CRL_verify = (\<lambda>r k. if snd r = k then 1 else 0)\<rparr>"

lemma ref_crl_laws: "crl_laws ref_crl_lib id fst (\<lambda>r k. snd r = k)"
  by (simp add: crl_laws_def ref_crl_lib_def)

definition ref_signer :: "nat ref_cert" where
  "ref_signer = (ref_empty_cert 4)\<lparr>cv_subject := [(13, [65])]\<rparr>"

theorem CRL_verify_exact_witness:
  "Crl_verify ref_crl_lib ref_cert_lib ref_name_lib ref_bio_lib ref_signer ([(13, [65])], 4) = Some (Inr ())
   \<and> Crl_verify ref_crl_lib ref_cert_lib ref_name_lib ref_bio_lib ref_signer ([(13, [66])], 4) = Some (Inl err_crl_issuer)"
proof -
  have s: "cv_subject (ref_view ref_signer) = [(13, [65])]" "cv_pubkey (ref_view ref_signer) = 4"
    by (simp_all add: ref_view_def ref_signer_def ref_empty_cert_def)
  have d: "entry_string [(13, [66])] CommonName \<noteq> entry_string [(13, [65])] CommonName"
    by (simp add: entry_string_def bytes_string_def)
  have c: "length (entry_string [(13, bs)] CountryName) \<le> 2" for bs by (simp add: entry_string_def)
  show ?thesis
    using CRL_verify_exact [OF ref_crl_laws ref_cert_get_laws ref_name_laws ref_bio_laws, of "([(13, [65])], 4)" ref_signer]
      CRL_verify_exact [OF ref_crl_laws ref_cert_get_laws ref_name_laws ref_bio_laws, of "([(13, [66])], 4)" ref_signer]
      s c d by auto
qed

definition ref_crl_chain :: "pem_item list" where
  "ref_crl_chain = [\<lparr>lead = '' '', gap = [nl], body = ''AB'', trail = [nl]\<rparr>,
                    \<lparr>lead = [], gap = [], body = ''ba'', trail = '' ''\<rparr>]"

theorem loadCrlPEMChain_loads_witness:
  "loadCrlPEMChain ref_bio_lib (ref_object_io BEGIN_CRL END_CRL)
     (concat (map (render_item BEGIN_CRL END_CRL) ref_crl_chain) @ [nl]) = Inr [''AB'', ''ba'']"
proof -
  have p: "pem_laws (ref_object_io BEGIN_CRL END_CRL) id BEGIN_CRL END_CRL ref_good id"
    by (rule ref_pem_laws) (simp_all add: BEGIN_CRL_def END_CRL_def)
  have w: "list_all (wf_item END_CRL) ref_crl_chain"
    by (simp add: ref_crl_chain_def wf_item_def is_ws_def ws_def END_CRL_def)
  have t: "is_ws [nl]" by (simp add: is_ws_def ws_def)
  have "list_all2 (\<lambda>it x. ref_good x \<and> body it = id x) ref_crl_chain [''AB'', ''ba'']"
    by (simp add: ref_crl_chain_def ref_good_def)
  from loadCrlPEMChain_loads [OF ref_bio_laws p w t this] show ?thesis by blast
qed

end
