(* ===== verification/X509_Extension.thy ===== *)
theory X509_Extension
  imports Check_Call Decimal_Text
begin

text \<open>
  The X.509 v3 extensions a certificate can be signed with: \<open>extension.h\<close>, \<open>key_usage.h\<close>,
  \<open>basic_constraints.h\<close> and \<open>subject_key_identifier.h\<close> under \<open>src/src/mococrw\<close>.  Each class
  describes itself by a configuration string, from which OpenSSL builds the extension.
\<close>

section \<open>Extension identifiers\<close>

datatype X509Extension_NID = BasicConstraints | KeyUsage | SubjectKeyIdentifier

primrec ext_nid_value :: "X509Extension_NID \<Rightarrow> int" where
  "ext_nid_value BasicConstraints = 87"
| "ext_nid_value KeyUsage = 83"
| "ext_nid_value SubjectKeyIdentifier = 82"

lemma ext_nid_value_inject [simp]: "ext_nid_value a = ext_nid_value b \<longleftrightarrow> a = b"
  by (cases a; cases b) simp_all

text \<open>The identifiers are ordered as the integers they stand for: the order of \<open>std::map\<close>.\<close>

instantiation X509Extension_NID :: linorder
begin

definition less_eq_X509Extension_NID :: "X509Extension_NID \<Rightarrow> X509Extension_NID \<Rightarrow> bool" where
  "less_eq_X509Extension_NID a b \<longleftrightarrow> ext_nid_value a \<le> ext_nid_value b"

definition less_X509Extension_NID :: "X509Extension_NID \<Rightarrow> X509Extension_NID \<Rightarrow> bool" where
  "less_X509Extension_NID a b \<longleftrightarrow> ext_nid_value a < ext_nid_value b"

instance
  by standard (auto simp: less_eq_X509Extension_NID_def less_X509Extension_NID_def)

end

lemmas nid_order = less_eq_X509Extension_NID_def less_X509Extension_NID_def

section \<open>Key usage\<close>

record KeyUsageExtension =
  decipherOnly :: bool
  encipherOnly :: bool
  cRLSign :: bool
  keyCertSign :: bool
  keyAgreement :: bool
  dataEncipherment :: bool
  keyEncipherment :: bool
  nonRepudiation :: bool
  digitalSignature :: bool

definition KeyUsage_Builder_new :: KeyUsageExtension where
  "KeyUsage_Builder_new =
     \<lparr>decipherOnly = False, encipherOnly = False, cRLSign = False, keyCertSign = False,
      keyAgreement = False, dataEncipherment = False, keyEncipherment = False,
      nonRepudiation = False, digitalSignature = False\<rparr>"

definition set_decipherOnly :: "KeyUsageExtension \<Rightarrow> KeyUsageExtension" where
  "set_decipherOnly ku = ku\<lparr>decipherOnly := True\<rparr>"
definition set_encipherOnly :: "KeyUsageExtension \<Rightarrow> KeyUsageExtension" where
  "set_encipherOnly ku = ku\<lparr>encipherOnly := True\<rparr>"
definition set_cRLSign :: "KeyUsageExtension \<Rightarrow> KeyUsageExtension" where
  "set_cRLSign ku = ku\<lparr>cRLSign := True\<rparr>"
definition set_keyCertSign :: "KeyUsageExtension \<Rightarrow> KeyUsageExtension" where
  "set_keyCertSign ku = ku\<lparr>keyCertSign := True\<rparr>"
definition set_keyAgreement :: "KeyUsageExtension \<Rightarrow> KeyUsageExtension" where
  "set_keyAgreement ku = ku\<lparr>keyAgreement := True\<rparr>"
definition set_dataEncipherment :: "KeyUsageExtension \<Rightarrow> KeyUsageExtension" where
  "set_dataEncipherment ku = ku\<lparr>dataEncipherment := True\<rparr>"
definition set_keyEncipherment :: "KeyUsageExtension \<Rightarrow> KeyUsageExtension" where
  "set_keyEncipherment ku = ku\<lparr>keyEncipherment := True\<rparr>"
definition set_nonRepudiation :: "KeyUsageExtension \<Rightarrow> KeyUsageExtension" where
  "set_nonRepudiation ku = ku\<lparr>nonRepudiation := True\<rparr>"
definition set_digitalSignature :: "KeyUsageExtension \<Rightarrow> KeyUsageExtension" where
  "set_digitalSignature ku = ku\<lparr>digitalSignature := True\<rparr>"

definition KeyUsage_eq :: "KeyUsageExtension \<Rightarrow> KeyUsageExtension \<Rightarrow> bool" where
  "KeyUsage_eq a b \<longleftrightarrow>
     decipherOnly a = decipherOnly b \<and> encipherOnly a = encipherOnly b \<and> cRLSign a = cRLSign b
     \<and> keyCertSign a = keyCertSign b \<and> keyAgreement a = keyAgreement b
     \<and> dataEncipherment a = dataEncipherment b \<and> keyEncipherment a = keyEncipherment b
     \<and> nonRepudiation a = nonRepudiation b \<and> digitalSignature a = digitalSignature b"

definition KeyUsage_getConfigurationString :: "KeyUsageExtension \<Rightarrow> string" where
  "KeyUsage_getConfigurationString ku =
     (let s = ''critical'';
          s = (if decipherOnly ku then s @ '',decipherOnly'' else s);
          s = (if encipherOnly ku then s @ '',encipherOnly'' else s);
          s = (if cRLSign ku then s @ '',cRLSign'' else s);
          s = (if keyCertSign ku then s @ '',keyCertSign'' else s);
          s = (if keyAgreement ku then s @ '',keyAgreement'' else s);
          s = (if dataEncipherment ku then s @ '',dataEncipherment'' else s);
          s = (if keyEncipherment ku then s @ '',keyEncipherment'' else s);
          s = (if nonRepudiation ku then s @ '',nonRepudiation'' else s);
          s = (if digitalSignature ku then s @ '',digitalSignature'' else s)
      in s)"

section \<open>Basic constraints\<close>

record BasicConstraintsExtension =
  bc_ca :: bool
  bc_pathlength :: int

definition BasicConstraints_new :: "bool \<Rightarrow> int \<Rightarrow> BasicConstraintsExtension" where
  "BasicConstraints_new ca pathlength = \<lparr>bc_ca = ca, bc_pathlength = pathlength\<rparr>"

definition BasicConstraints_default :: BasicConstraintsExtension where
  "BasicConstraints_default = \<lparr>bc_ca = False, bc_pathlength = 0\<rparr>"

definition BasicConstraints_eq :: "BasicConstraintsExtension \<Rightarrow> BasicConstraintsExtension \<Rightarrow> bool" where
  "BasicConstraints_eq a b \<longleftrightarrow> bc_ca a = bc_ca b \<and> bc_pathlength a = bc_pathlength b"

definition BasicConstraints_getConfigurationString :: "BasicConstraintsExtension \<Rightarrow> string" where
  "BasicConstraints_getConfigurationString bc =
     (if bc_ca bc then ''critical,CA:TRUE,pathlen:'' @ show_int (bc_pathlength bc)
      else ''critical, CA:FALSE'')"

section \<open>Extensions\<close>

text \<open>\<open>ExtensionBase\<close> with the classes that implement it.\<close>

datatype ExtensionBase =
    KeyUsageExt KeyUsageExtension
  | BasicConstraintsExt BasicConstraintsExtension
  | SubjectKeyIdentifierExt

primrec getNid :: "ExtensionBase \<Rightarrow> X509Extension_NID" where
  "getNid (KeyUsageExt ku) = KeyUsage"
| "getNid (BasicConstraintsExt bc) = BasicConstraints"
| "getNid SubjectKeyIdentifierExt = SubjectKeyIdentifier"

primrec getConfigurationString :: "ExtensionBase \<Rightarrow> string" where
  "getConfigurationString (KeyUsageExt ku) = KeyUsage_getConfigurationString ku"
| "getConfigurationString (BasicConstraintsExt bc) = BasicConstraints_getConfigurationString bc"
| "getConfigurationString SubjectKeyIdentifierExt = ''hash''"

text \<open>
  \<open>X509V3_CTX\<close> points to the issuer, here none, and to the certificate the extension is for.
  \<open>_X509V3_set_ctx_nodb\<close> and \<open>_X509V3_set_ctx\<close> set all its fields.
\<close>

record 'x X509V3_CTX =
  v3_issuer_cert :: "'x option"
  v3_subject_cert :: 'x

definition ossl_X509V3_set_ctx :: "'x option \<Rightarrow> 'x \<Rightarrow> 'x X509V3_CTX" where
  "ossl_X509V3_set_ctx issuer subject = \<lparr>v3_issuer_cert = issuer, v3_subject_cert = subject\<rparr>"

record ('x, 'e) ext_lib =
  SSL_X509V3_EXT_conf_nid :: "'x X509V3_CTX \<Rightarrow> int \<Rightarrow> string \<Rightarrow> 'e option"
  SSL_X509_add_ext :: "'x \<Rightarrow> 'e \<Rightarrow> int \<Rightarrow> int \<times> 'x"

definition ossl_X509V3_EXT_conf_nid ::
  "('x, 'e) ext_lib \<Rightarrow> int \<Rightarrow> 'x X509V3_CTX \<Rightarrow> string \<Rightarrow> 'e res" where
  "ossl_X509V3_EXT_conf_nid V ext_nid ctx val =
     OpensslCallPtr (SSL_X509V3_EXT_conf_nid V ctx ext_nid (c_str val))"

text \<open>Location -1 adds after the last extension.\<close>

definition ossl_X509_add_ext :: "('x, 'e) ext_lib \<Rightarrow> 'e \<Rightarrow> ('x, unit) st" where
  "ossl_X509_add_ext V ex x = checkS OpensslCallIsOne (SSL_X509_add_ext V x ex (- 1))"

definition buildExtension :: "('x, 'e) ext_lib \<Rightarrow> ExtensionBase \<Rightarrow> 'x X509V3_CTX \<Rightarrow> 'e res" where
  "buildExtension V ext context =
     ossl_X509V3_EXT_conf_nid V (ext_nid_value (getNid ext)) context (getConfigurationString ext)"

section \<open>What a configuration string says\<close>

text \<open>
  The format OpenSSL documents for extension values: items separated by commas, white space
  around them ignored, each a name or a name and a value separated by a colon; the item
  \<open>critical\<close> comes first.  \<open>ext_of_config\<close> reads the three kinds back.
\<close>

definition item :: "string \<Rightarrow> string \<times> string list" where
  "item s = (case sep_fields (CHR '':'') (trim s) of n # vs \<Rightarrow> (n, vs) | [] \<Rightarrow> ([], []))"

definition items :: "string \<Rightarrow> (string \<times> string list) list" where
  "items s = map item (sep_fields (CHR '','') s)"

definition key_usage_of :: "string set \<Rightarrow> KeyUsageExtension" where
  "key_usage_of ns =
     \<lparr>decipherOnly = ''decipherOnly'' \<in> ns, encipherOnly = ''encipherOnly'' \<in> ns,
      cRLSign = ''cRLSign'' \<in> ns, keyCertSign = ''keyCertSign'' \<in> ns,
      keyAgreement = ''keyAgreement'' \<in> ns, dataEncipherment = ''dataEncipherment'' \<in> ns,
      keyEncipherment = ''keyEncipherment'' \<in> ns, nonRepudiation = ''nonRepudiation'' \<in> ns,
      digitalSignature = ''digitalSignature'' \<in> ns\<rparr>"

definition ext_of_config :: "X509Extension_NID \<Rightarrow> string \<Rightarrow> ExtensionBase option" where
  "ext_of_config nid s =
     (case nid of
        SubjectKeyIdentifier \<Rightarrow> if items s = [(''hash'', [])] then Some SubjectKeyIdentifierExt else None
      | KeyUsage \<Rightarrow> if hd (items s) = (''critical'', [])
                    then Some (KeyUsageExt (key_usage_of (fst ` set (tl (items s))))) else None
      | BasicConstraints \<Rightarrow>
          if hd (items s) \<noteq> (''critical'', []) then None else
          (case map_of (tl (items s)) ''CA'' of
             Some [v] \<Rightarrow>
               if v = ''TRUE'' then
                 (case map_of (tl (items s)) ''pathlen'' of
                    Some [n] \<Rightarrow> Some (BasicConstraintsExt (BasicConstraints_new True (read_int n)))
                  | _ \<Rightarrow> None)
               else if v = ''FALSE'' then Some (BasicConstraintsExt BasicConstraints_default) else None
           | _ \<Rightarrow> None))"

definition usage_names :: "KeyUsageExtension \<Rightarrow> string list" where
  "usage_names ku =
     (if decipherOnly ku then [''decipherOnly''] else []) @
     (if encipherOnly ku then [''encipherOnly''] else []) @
     (if cRLSign ku then [''cRLSign''] else []) @
     (if keyCertSign ku then [''keyCertSign''] else []) @
     (if keyAgreement ku then [''keyAgreement''] else []) @
     (if dataEncipherment ku then [''dataEncipherment''] else []) @
     (if keyEncipherment ku then [''keyEncipherment''] else []) @
     (if nonRepudiation ku then [''nonRepudiation''] else []) @
     (if digitalSignature ku then [''digitalSignature''] else [])"

lemma key_usage_config:
  "KeyUsage_getConfigurationString ku = ''critical'' @ concat (map (\<lambda>n. CHR '','' # n) (usage_names ku))"
  by (simp add: KeyUsage_getConfigurationString_def usage_names_def Let_def)

lemma plain_item:
  "CHR '':'' \<notin> set n \<Longrightarrow> CHR '' '' \<notin> set n \<Longrightarrow> item n = (n, [])"
  by (simp add: item_def trim_id sep_fields_single)

lemma set_usage_names:
  "n \<in> set (usage_names ku) \<Longrightarrow> CHR '','' \<notin> set n \<and> CHR '':'' \<notin> set n \<and> CHR '' '' \<notin> set n"
  by (auto simp: usage_names_def split: if_splits)

lemma items_key_usage:
  "items (KeyUsage_getConfigurationString ku) = (''critical'', []) # map (\<lambda>n. (n, [])) (usage_names ku)"
proof -
  have "sep_fields (CHR '','') (KeyUsage_getConfigurationString ku) = ''critical'' # usage_names ku"
    unfolding key_usage_config by (rule sep_fields_join) (use set_usage_names in auto)
  then show ?thesis using set_usage_names [of _ ku] by (simp add: items_def plain_item)
qed

lemma key_usage_of_names: "key_usage_of (set (usage_names ku)) = ku"
  by (cases ku) (simp add: key_usage_of_def usage_names_def)

lemma show_int_plain: "CHR '','' \<notin> set (show_int i)" "CHR '':'' \<notin> set (show_int i)" "CHR '' '' \<notin> set (show_int i)"
  using set_show_int [of _ i] by fastforce+

lemma items_basic_constraints:
  "bc_ca bc \<Longrightarrow> items (BasicConstraints_getConfigurationString bc) =
     [(''critical'', []), (''CA'', [''TRUE'']), (''pathlen'', [show_int (bc_pathlength bc)])]"
proof -
  assume "bc_ca bc"
  moreover have "sep_fields (CHR '','') (''critical'' @ CHR '','' # ''CA:TRUE'' @ CHR '','' # ''pathlen:'' @ show_int i)
      = [''critical'', ''CA:TRUE'', ''pathlen:'' @ show_int i]" for i
    using sep_fields_join [of "CHR '',''" "''critical''" "[''CA:TRUE'', ''pathlen:'' @ show_int i]"]
    by (simp add: show_int_plain del: sep_fields.simps)
  moreover have "item (''pathlen'' @ CHR '':'' # show_int i) = (''pathlen'', [show_int i])" for i
    using sep_fields_sep [of "CHR '':''" "''pathlen''" "show_int i"]
    by (simp add: item_def trim_id show_int_plain sep_fields_single del: sep_fields.simps)
  ultimately show ?thesis
    by (simp add: items_def BasicConstraints_getConfigurationString_def item_def trim_id)
qed

text \<open>
  C27: The configuration string handed to OpenSSL says exactly what the extension object says: a
  reader of OpenSSL's format recovers the extension from it, all nine usages, the CA flag and
  the path length; only the path length of an end entity, which has no meaning, is dropped.
  Extensions with the same identifier and string are therefore the same.
\<close>

theorem extension_config_faithful:
  "ext_of_config (getNid e) (getConfigurationString e) =
     Some (case e of BasicConstraintsExt bc \<Rightarrow> BasicConstraintsExt (if bc_ca bc then bc else BasicConstraints_default)
           | _ \<Rightarrow> e)"
proof (cases e)
  case (KeyUsageExt ku)
  then show ?thesis
    by (simp add: ext_of_config_def items_key_usage image_image key_usage_of_names)
next
  case (BasicConstraintsExt bc)
  show ?thesis
  proof (cases "bc_ca bc")
    case True
    then show ?thesis
      using BasicConstraintsExt
      by (cases bc) (simp add: ext_of_config_def items_basic_constraints BasicConstraints_new_def)
  next
    case False
    have "items ''critical, CA:FALSE'' = [(''critical'', []), (''CA'', [''FALSE''])]"
      by (simp add: items_def item_def trim_def)
    with False BasicConstraintsExt show ?thesis
      by (simp add: ext_of_config_def BasicConstraints_getConfigurationString_def)
  qed
next
  case SubjectKeyIdentifierExt
  have "items ''hash'' = [(''hash'', [])]" by (simp add: items_def item_def trim_def)
  with SubjectKeyIdentifierExt show ?thesis by (simp add: ext_of_config_def)
qed

lemma config_no_null: "CHR 0x00 \<notin> set (getConfigurationString e)"
proof (cases e)
  case (KeyUsageExt ku)
  then show ?thesis by (simp add: KeyUsage_getConfigurationString_def Let_def)
next
  case (BasicConstraintsExt bc)
  have "CHR 0x00 \<notin> set (show_int i)" for i using set_show_int [of "CHR 0x00" i] by auto
  with BasicConstraintsExt show ?thesis by (simp add: BasicConstraints_getConfigurationString_def)
qed simp

end
