(* ===== verification/Sign_Params.thy ===== *)
theory Sign_Params
  imports X509_Extension Asn1_Time
begin

text \<open>
  \<open>src/src/mococrw/sign_params.h\<close>: the parameters a certificate is signed with and their
  builder.  The extensions are kept in a \<open>std::map\<close>; the part of that container the code
  relies on is the interface \<open>ordered_map\<close>, implemented by sorted association lists.
\<close>

section \<open>Ordered maps\<close>

text \<open>
  \<open>std::map\<close>: assignment through \<open>operator[]\<close> adds a key or replaces its value, \<open>find\<close>
  looks a key up, iteration visits the keys in increasing order, each once.
\<close>

locale ordered_map =
  fixes empty :: 'm
    and assign :: "'k :: linorder \<Rightarrow> 'v \<Rightarrow> 'm \<Rightarrow> 'm"
    and lookup :: "'m \<Rightarrow> 'k \<Rightarrow> 'v option"
    and entries :: "'m \<Rightarrow> ('k \<times> 'v) list"
    and invar :: "'m \<Rightarrow> bool"
  assumes lookup_empty: "lookup empty k = None"
    and lookup_assign: "invar m \<Longrightarrow> lookup (assign k v m) k' = (if k' = k then Some v else lookup m k')"
    and entries_sorted: "invar m \<Longrightarrow> sorted_wrt (<) (map fst (entries m))"
    and entries_lookup: "invar m \<Longrightarrow> (k, v) \<in> set (entries m) \<longleftrightarrow> lookup m k = Some v"
    and invar_empty: "invar empty"
    and invar_assign: "invar m \<Longrightarrow> invar (assign k v m)"
begin

lemma invar_assigns: "invar m \<Longrightarrow> invar (foldl (\<lambda>m (k, v). assign k v m) m kvs)"
  by (induction kvs arbitrary: m) (auto simp: invar_assign)

text \<open>After any sequence of assignments a key has the value assigned to it last.\<close>

lemma lookup_assigns:
  "invar m \<Longrightarrow> lookup (foldl (\<lambda>m (k, v). assign k v m) m kvs) k =
     (case map_of (rev kvs) k of Some v \<Rightarrow> Some v | None \<Rightarrow> lookup m k)"
proof (induction kvs arbitrary: m)
  case (Cons kv kvs)
  obtain a b where kv: "kv = (a, b)" by (cases kv)
  show ?case
    using Cons.IH [of "assign a b m"] Cons.prems kv
    by (auto simp: invar_assign lookup_assign map_add_def split: option.splits)
qed simp

text \<open>Two maps with the same lookup iterate in the same way.\<close>

lemma entries_unique:
  assumes "invar m" "invar m'" "lookup m = lookup m'"
  shows "entries m = entries m'"
proof -
  have s: "set (entries m) = set (entries m')" using assms entries_lookup by auto
  have d: "sorted (map fst (entries m))" "distinct (map fst (entries m))"
    "sorted (map fst (entries m'))" "distinct (map fst (entries m'))"
    using entries_sorted [OF assms(1)] entries_sorted [OF assms(2)] by (auto simp: strict_sorted_iff)
  then have "inj_on fst (set (entries m) \<union> set (entries m'))" using s by (simp add: distinct_map)
  with d s show ?thesis by (intro map_sorted_distinct_set_unique [of fst])
qed

end

fun map_assign :: "'k :: linorder \<Rightarrow> 'v \<Rightarrow> ('k \<times> 'v) list \<Rightarrow> ('k \<times> 'v) list" where
  "map_assign k v [] = [(k, v)]"
| "map_assign k v ((k', v') # m) =
     (if k < k' then (k, v) # (k', v') # m
      else if k = k' then (k, v) # m
      else (k', v') # map_assign k v m)"

lemma fst_map_assign: "fst ` set (map_assign k v m) = insert k (fst ` set m)"
  by (induction k v m rule: map_assign.induct) auto

lemma map_of_assign: "map_of (map_assign k v m) k' = (if k' = k then Some v else map_of m k')"
  by (induction k v m rule: map_assign.induct) auto

lemma sorted_map_assign:
  "sorted_wrt (<) (map fst m) \<Longrightarrow> sorted_wrt (<) (map fst (map_assign k v m))"
proof (induction k v m rule: map_assign.induct)
  case (2 k v k' v' m)
  then show ?case using fst_map_assign [of k v m] by (auto simp: image_iff)
qed simp

interpretation ext_map: ordered_map "[]" map_assign map_of "\<lambda>m. m" "\<lambda>m. sorted_wrt (<) (map fst m)"
proof unfold_locales
  fix m :: "('a \<times> 'b) list" and k v assume "sorted_wrt (<) (map fst m)"
  then have "distinct (map fst m)" by (simp add: strict_sorted_iff)
  then show "(k, v) \<in> set m \<longleftrightarrow> map_of m k = Some v" by simp
qed (simp_all add: map_of_assign sorted_map_assign)

section \<open>CertificateSigningParameters\<close>

record 't CertificateSigningParameters =
  sp_notBefore :: "'t option"
  sp_certificateValidity :: int
  sp_digestType :: DigestTypes
  sp_extensions :: "(X509Extension_NID \<times> ExtensionBase) list"

text \<open>The default start is one second before the current time, which the clock provides.\<close>

definition notBeforeAsn1 :: "'t time_lib \<Rightarrow> int \<Rightarrow> 't CertificateSigningParameters \<Rightarrow> 't res" where
  "notBeforeAsn1 T clock sp =
     (case sp_notBefore sp of
        Some t \<Rightarrow> Inr t
      | None \<Rightarrow> bindR (Asn1Time_now T clock) (\<lambda>now. Asn1Time_minus_duration T now 1))"

definition err_no_extension :: exn where
  "err_no_extension = MoCOCrWException [Str ''Extension type was not added to CertificateSigningParameters'']"

definition sp_extension :: "'t CertificateSigningParameters \<Rightarrow> X509Extension_NID \<Rightarrow> ExtensionBase res" where
  "sp_extension sp nid =
     (case map_of (sp_extensions sp) nid of None \<Rightarrow> Inl err_no_extension | Some e \<Rightarrow> Inr e)"

text \<open>
  \<open>extension<BasicConstraintsExtension>()\<close>: the cast gives a null pointer for an object of
  another class.
\<close>

definition extension_BasicConstraints ::
  "'t CertificateSigningParameters \<Rightarrow> BasicConstraintsExtension option res" where
  "extension_BasicConstraints sp =
     bindR (sp_extension sp BasicConstraints) (\<lambda>e.
       Inr (case e of BasicConstraintsExt bc \<Rightarrow> Some bc | _ \<Rightarrow> None))"

text \<open>
  The builder's object starts without extensions and start time; its validity and digest are
  not initialised and therefore arguments here.
\<close>

definition SignParams_Builder_new :: "int \<Rightarrow> DigestTypes \<Rightarrow> 't CertificateSigningParameters" where
  "SignParams_Builder_new validity digest =
     \<lparr>sp_notBefore = None, sp_certificateValidity = validity, sp_digestType = digest, sp_extensions = []\<rparr>"

definition set_certificateValidity ::
  "int \<Rightarrow> 't CertificateSigningParameters \<Rightarrow> 't CertificateSigningParameters" where
  "set_certificateValidity v sp = sp\<lparr>sp_certificateValidity := v\<rparr>"
definition set_notBeforeAsn1 ::
  "'t \<Rightarrow> 't CertificateSigningParameters \<Rightarrow> 't CertificateSigningParameters" where
  "set_notBeforeAsn1 t sp = sp\<lparr>sp_notBefore := Some t\<rparr>"
definition set_digestType ::
  "DigestTypes \<Rightarrow> 't CertificateSigningParameters \<Rightarrow> 't CertificateSigningParameters" where
  "set_digestType d sp = sp\<lparr>sp_digestType := d\<rparr>"
definition addExtension ::
  "ExtensionBase \<Rightarrow> 't CertificateSigningParameters \<Rightarrow> 't CertificateSigningParameters" where
  "addExtension e sp = sp\<lparr>sp_extensions := map_assign (getNid e) e (sp_extensions sp)\<rparr>"

section \<open>Parameters made by the builder\<close>

inductive sp_built :: "'t CertificateSigningParameters \<Rightarrow> bool" where
  sp_new: "sp_built (SignParams_Builder_new v d)"
| sp_validity: "sp_built sp \<Longrightarrow> sp_built (set_certificateValidity v sp)"
| sp_start: "sp_built sp \<Longrightarrow> sp_built (set_notBeforeAsn1 t sp)"
| sp_digest: "sp_built sp \<Longrightarrow> sp_built (set_digestType d sp)"
| sp_add: "sp_built sp \<Longrightarrow> sp_built (addExtension e sp)"

text \<open>What every object of the builder satisfies: sorted, and every key is its extension's.\<close>

definition sp_wf :: "'t CertificateSigningParameters \<Rightarrow> bool" where
  "sp_wf sp \<longleftrightarrow> sorted_wrt (<) (map fst (sp_extensions sp)) \<and> (\<forall>(i, e) \<in> set (sp_extensions sp). i = getNid e)"

lemma sp_wf_addExtension: "sp_wf sp \<Longrightarrow> sp_wf (addExtension e sp)"
  unfolding sp_wf_def
proof (intro conjI ballI)
  assume a: "sorted_wrt (<) (map fst (sp_extensions sp)) \<and> (\<forall>(i, e) \<in> set (sp_extensions sp). i = getNid e)"
  then show s: "sorted_wrt (<) (map fst (sp_extensions (addExtension e sp)))"
    by (simp add: addExtension_def ext_map.invar_assign)
  fix x assume x: "x \<in> set (sp_extensions (addExtension e sp))"
  obtain i f where xf: "x = (i, f)" by (cases x)
  have "map_of (sp_extensions (addExtension e sp)) i = Some f"
    using x xf ext_map.entries_lookup [OF s, of i f] by simp
  then have "i = getNid e \<and> f = e \<or> (i, f) \<in> set (sp_extensions sp)"
    by (auto simp: addExtension_def map_of_assign split: if_splits dest: map_of_SomeD)
  with a xf show "case x of (i, e) \<Rightarrow> i = getNid e" by auto
qed

lemma sp_built_wf: "sp_built sp \<Longrightarrow> sp_wf sp"
proof (induction rule: sp_built.induct)
  case (sp_add sp e)
  then show ?case by (simp add: sp_wf_addExtension)
qed (simp_all add: sp_wf_def SignParams_Builder_new_def set_certificateValidity_def set_notBeforeAsn1_def
    set_digestType_def)

lemma foldl_addExtension:
  "sp_extensions (foldl (\<lambda>sp e. addExtension e sp) sp es) =
     foldl (\<lambda>m (k, v). map_assign k v m) (sp_extensions sp) (map (\<lambda>e. (getNid e, e)) es)"
  by (induction es arbitrary: sp) (simp_all add: addExtension_def)

lemma built_extension_found:
  "sp_built sp \<Longrightarrow> sp_extension sp nid = Inr e \<Longrightarrow> getNid e = nid"
  using sp_built_wf [of sp] by (auto simp: sp_extension_def sp_wf_def split: option.splits dest!: map_of_SomeD)

text \<open>
  C28: Whatever is done with the builder, the extensions are unique per kind and in the order of
  their identifiers; after adding a list of extensions, asking for a kind returns the one
  added last, or throws if there is none; and the cast to the class of the kind never gives a
  null pointer.
\<close>

theorem SignParams_extensions:
  fixes sp :: "'t CertificateSigningParameters" and es :: "ExtensionBase list"
  assumes "sp_built sp"
  defines "sp' \<equiv> foldl (\<lambda>sp e. addExtension e sp) sp es"
  shows "sorted_wrt (<) (map fst (sp_extensions sp'))
    \<and> (\<forall>(i, e) \<in> set (sp_extensions sp'). getNid e = i)
    \<and> sp_extension sp' nid = (case map_of (rev (map (\<lambda>e. (getNid e, e)) es)) nid of
         Some e \<Rightarrow> Inr e | None \<Rightarrow> sp_extension sp nid)
    \<and> extension_BasicConstraints sp' \<noteq> Inr None"
proof -
  have built: "sp_built (foldl (\<lambda>sp e. addExtension e sp) sp es)"
    using assms(1) by (induction es arbitrary: sp) (simp_all add: sp_built.sp_add)
  have wf: "sp_wf sp" "sp_wf sp'" using sp_built_wf assms(1) built by (auto simp: sp'_def)
  have l: "map_of (sp_extensions sp') nid = (case map_of (rev (map (\<lambda>e. (getNid e, e)) es)) nid of
      Some e \<Rightarrow> Some e | None \<Rightarrow> map_of (sp_extensions sp) nid)"
    using wf(1) unfolding sp'_def foldl_addExtension sp_wf_def by (subst ext_map.lookup_assigns) simp_all
  have "extension_BasicConstraints sp' \<noteq> Inr None"
    using built_extension_found [OF built, of BasicConstraints]
    by (auto simp: extension_BasicConstraints_def sp'_def bindR_eq_Inr split: ExtensionBase.splits)
  then show ?thesis
    using wf(2) l by (auto simp: sp_wf_def sp_extension_def split: option.splits)
qed

theorem SignParams_extensions_witness:
  "\<exists>sp :: int CertificateSigningParameters.
     sp = foldl (\<lambda>sp e. addExtension e sp) (SignParams_Builder_new 0 SHA256)
            [BasicConstraintsExt BasicConstraints_default, SubjectKeyIdentifierExt,
             BasicConstraintsExt (BasicConstraints_new True 1)]
     \<and> map fst (sp_extensions sp) = [SubjectKeyIdentifier, BasicConstraints]
     \<and> sp_extension sp BasicConstraints = Inr (BasicConstraintsExt (BasicConstraints_new True 1))
     \<and> sp_extension sp KeyUsage = Inl err_no_extension"
  using SignParams_extensions [OF sp_new, of 0 SHA256 "[BasicConstraintsExt BasicConstraints_default,
      SubjectKeyIdentifierExt, BasicConstraintsExt (BasicConstraints_new True 1)]" BasicConstraints]
  by (simp add: addExtension_def SignParams_Builder_new_def sp_extension_def nid_order)

section \<open>Comparison\<close>

text \<open>
  \<open>operator==\<close> compares the members in the order of \<open>_makeTuple\<close> and stops at the first
  difference; comparing the start times may throw.  The extensions are held by shared
  pointers and compared by address: \<open>p\<close> gives the address of the object held under a key.
\<close>

definition optional_eq :: "'t time_lib \<Rightarrow> 't option \<Rightarrow> 't option \<Rightarrow> bool res" where
  "optional_eq T x y =
     (case (x, y) of
        (Some a, Some b) \<Rightarrow> Asn1Time_eq T a b
      | (None, None) \<Rightarrow> Inr True
      | _ \<Rightarrow> Inr False)"

type_synonym 't shared_params = "'t CertificateSigningParameters \<times> (X509Extension_NID \<Rightarrow> nat)"

definition pointer_map :: "'t shared_params \<Rightarrow> (X509Extension_NID \<times> nat) list" where
  "pointer_map x = map (\<lambda>(nid, e). (nid, snd x nid)) (sp_extensions (fst x))"

definition SignParams_eq :: "'t time_lib \<Rightarrow> 't shared_params \<Rightarrow> 't shared_params \<Rightarrow> bool res" where
  "SignParams_eq T x y =
     (if sp_certificateValidity (fst x) \<noteq> sp_certificateValidity (fst y) then Inr False
      else bindR (optional_eq T (sp_notBefore (fst x)) (sp_notBefore (fst y))) (\<lambda>starts_alike.
        if \<not> starts_alike then Inr False
        else if sp_digestType (fst x) \<noteq> sp_digestType (fst y) then Inr False
        else Inr (pointer_map x = pointer_map y)))"

definition SignParams_neq :: "'t time_lib \<Rightarrow> 't shared_params \<Rightarrow> 't shared_params \<Rightarrow> bool res" where
  "SignParams_neq T x y = bindR (SignParams_eq T x y) (\<lambda>b. Inr (\<not> b))"

text \<open>
  The two overloads of \<open>addExtension\<close>: the one that takes an extension by value allocates a
  copy, at an address \<open>a\<close> no other object has; the other keeps the caller's object.
\<close>

definition addExtension_at :: "nat \<Rightarrow> ExtensionBase \<Rightarrow> 't shared_params \<Rightarrow> 't shared_params" where
  "addExtension_at a e x = (addExtension e (fst x), (snd x)(getNid e := a))"

lemma optional_eq_ok:
  "time_laws T secs \<Longrightarrow> optional_eq T x y = Inr (map_option secs x = map_option secs y)"
  by (auto simp: optional_eq_def Asn1Time_eq_def minus_ok split: option.splits)

lemma map_of_tagged:
  "map_of (map (\<lambda>(k, e). (k, f k)) m) k = (if k \<in> fst ` set m then Some (f k) else None)"
  by (induction m) auto

lemma pointer_map_same:
  fixes x y :: "'t shared_params"
  assumes "pointer_map x = pointer_map y"
  shows "map fst (sp_extensions (fst x)) = map fst (sp_extensions (fst y))
    \<and> (\<forall>nid \<in> fst ` set (sp_extensions (fst x)). snd x nid = snd y nid)"
proof -
  have f: "map fst (pointer_map z) = map fst (sp_extensions (fst z))" for z :: "'t shared_params"
    by (simp add: pointer_map_def comp_def case_prod_beta)
  have m: "map_of (pointer_map z) nid = (if nid \<in> fst ` set (sp_extensions (fst z)) then Some (snd z nid) else None)"
    for z :: "'t shared_params" and nid
    unfolding pointer_map_def by (rule map_of_tagged)
  show ?thesis
  proof (intro conjI ballI)
    show k: "map fst (sp_extensions (fst x)) = map fst (sp_extensions (fst y))" using f [of x] f [of y] assms by simp
    fix nid assume n: "nid \<in> fst ` set (sp_extensions (fst x))"
    then have "nid \<in> fst ` set (sp_extensions (fst y))" using k by (metis set_map)
    then show "snd x nid = snd y nid" using m [of x nid] m [of y nid] n assms by simp
  qed
qed

text \<open>
  The comparison always returns.  Parameters compare equal to their own copies, and equal
  parameters agree on validity, start, digest and the objects held for the same kinds; but
  parameters that were given the same extension by value never compare equal.
\<close>

lemma SignParams_comparison:
  assumes "time_laws T secs"
  shows "SignParams_eq T x x = Inr True"
    and "\<exists>b. SignParams_eq T x y = Inr b \<and> SignParams_neq T x y = Inr (\<not> b)"
    and "SignParams_eq T x y = Inr True \<Longrightarrow>
      sp_certificateValidity (fst x) = sp_certificateValidity (fst y)
      \<and> map_option secs (sp_notBefore (fst x)) = map_option secs (sp_notBefore (fst y))
      \<and> sp_digestType (fst x) = sp_digestType (fst y)
      \<and> map fst (sp_extensions (fst x)) = map fst (sp_extensions (fst y))
      \<and> (\<forall>nid \<in> fst ` set (sp_extensions (fst x)). snd x nid = snd y nid)"
    and "a \<noteq> b \<Longrightarrow> SignParams_eq T (addExtension_at a e x) (addExtension_at b e y) = Inr False"
proof -
  show "SignParams_eq T x x = Inr True"
    by (simp add: SignParams_eq_def optional_eq_ok [OF assms])
  show "\<exists>b. SignParams_eq T x y = Inr b \<and> SignParams_neq T x y = Inr (\<not> b)"
    by (cases "SignParams_eq T x y")
      (simp_all add: SignParams_neq_def, simp add: SignParams_eq_def optional_eq_ok [OF assms] split: if_splits)
  show "SignParams_eq T x y = Inr True \<Longrightarrow>
      sp_certificateValidity (fst x) = sp_certificateValidity (fst y)
      \<and> map_option secs (sp_notBefore (fst x)) = map_option secs (sp_notBefore (fst y))
      \<and> sp_digestType (fst x) = sp_digestType (fst y)
      \<and> map fst (sp_extensions (fst x)) = map fst (sp_extensions (fst y))
      \<and> (\<forall>nid \<in> fst ` set (sp_extensions (fst x)). snd x nid = snd y nid)"
    using pointer_map_same [of x y]
    by (simp add: SignParams_eq_def optional_eq_ok [OF assms] split: if_splits)
  assume ab: "a \<noteq> b"
  have "pointer_map (addExtension_at a e x) \<noteq> pointer_map (addExtension_at b e y)"
    using pointer_map_same [of "addExtension_at a e x" "addExtension_at b e y"] ab
    by (auto simp: addExtension_at_def addExtension_def fst_map_assign)
  then show "SignParams_eq T (addExtension_at a e x) (addExtension_at b e y) = Inr False"
    by (simp add: SignParams_eq_def optional_eq_ok [OF assms])
qed

end
