(* ===== verification/X509_Verify.thy ===== *)
theory X509_Verify
  imports X509_Cert
begin

unbundle bit_operations_syntax

text \<open>
  Verification of certificates: \<open>X509Certificate::VerificationContext\<close> of
  \<open>src/src/mococrw/x509.h\<close> and \<open>X509Certificate::verify\<close> of \<open>src/src/x509.cpp\<close>, with
  \<open>buildStackFromContainer\<close> of \<open>stack_utils.h\<close>.
\<close>

section \<open>OpenSSL functions and their wrappers\<close>

text \<open>
  \<open>'x\<close>, \<open>'r\<close>, \<open>'s\<close>, \<open>'v\<close> are the types of \<open>X509\<close>, \<open>X509_CRL\<close>, \<open>X509_STORE\<close> and
  \<open>X509_STORE_CTX\<close>, \<open>'a\<close> and \<open>'c\<close> those of the stacks of certificates and CRLs.  The
  parameters \<open>get0_param\<close> returns belong to the context: setting their flags changes it.
\<close>

record ('x, 'r, 's, 'v, 'a, 'c) verify_lib =
  SSL_X509_STORE_new :: "'s option"
  SSL_X509_STORE_add_cert :: "'s \<Rightarrow> 'x \<Rightarrow> int \<times> 's"
  SSL_sk_X509_new_null :: "'a option"
  SSL_sk_X509_push :: "'a \<Rightarrow> 'x \<Rightarrow> int \<times> 'a"
  SSL_sk_X509_CRL_new_null :: "'c option"
  SSL_sk_X509_CRL_push :: "'c \<Rightarrow> 'r \<Rightarrow> int \<times> 'c"
  SSL_X509_STORE_CTX_new :: "'v option"
  SSL_X509_STORE_CTX_init :: "'v \<Rightarrow> 's \<Rightarrow> 'x \<Rightarrow> 'a \<Rightarrow> int \<times> 'v"
  SSL_X509_STORE_CTX_get0_param :: "'v \<Rightarrow> unit option"
  SSL_X509_VERIFY_PARAM_set_flags :: "'v \<Rightarrow> 64 word \<Rightarrow> int \<times> 'v"
  SSL_X509_STORE_CTX_set_time :: "'v \<Rightarrow> int \<Rightarrow> int \<Rightarrow> 'v"
  SSL_X509_STORE_CTX_set0_crls :: "'v \<Rightarrow> 'c \<Rightarrow> 'v"
  SSL_X509_verify_cert :: "'v \<Rightarrow> int \<times> 'v"
  SSL_X509_STORE_CTX_get_error :: "'v \<Rightarrow> int"
  SSL_X509_verify_cert_error_string :: "int \<Rightarrow> string"

definition PARTIAL_CHAIN :: "64 word" where "PARTIAL_CHAIN = 0x80000"
definition CRL_CHECK_ALL :: "64 word" where "CRL_CHECK_ALL = 0x8"
definition CRL_CHECK :: "64 word" where "CRL_CHECK = 0x4"
definition USE_CHECK_TIME :: "64 word" where "USE_CHECK_TIME = 0x2"

lemmas flag_defs = PARTIAL_CHAIN_def CRL_CHECK_ALL_def CRL_CHECK_def USE_CHECK_TIME_def

definition create_X509_STORE :: "('x, 'r, 's, 'v, 'a, 'c) verify_lib \<Rightarrow> 's res" where
  [ossl_simps]: "create_X509_STORE V = OpensslCallPtr (SSL_X509_STORE_new V)"

definition create_STACK_X509 :: "('x, 'r, 's, 'v, 'a, 'c) verify_lib \<Rightarrow> 'a res" where
  [ossl_simps]: "create_STACK_X509 V = OpensslCallPtr (SSL_sk_X509_new_null V)"

definition create_STACK_X509_CRL :: "('x, 'r, 's, 'v, 'a, 'c) verify_lib \<Rightarrow> 'c res" where
  [ossl_simps]: "create_STACK_X509_CRL V = OpensslCallPtr (SSL_sk_X509_CRL_new_null V)"

definition create_X509_STORE_CTX :: "('x, 'r, 's, 'v, 'a, 'c) verify_lib \<Rightarrow> 'v res" where
  [ossl_simps]: "create_X509_STORE_CTX V = OpensslCallPtr (SSL_X509_STORE_CTX_new V)"

definition ossl_X509_STORE_add_cert :: "('x, 'r, 's, 'v, 'a, 'c) verify_lib \<Rightarrow> 's \<Rightarrow> 'x \<Rightarrow> 's res" where
  [ossl_simps]: "ossl_X509_STORE_add_cert V store cert = checkC OpensslCallIsOne (SSL_X509_STORE_add_cert V store cert)"

definition addObjectToStack_X509 :: "('x, 'r, 's, 'v, 'a, 'c) verify_lib \<Rightarrow> 'a \<Rightarrow> 'x \<Rightarrow> 'a res" where
  [ossl_simps]: "addObjectToStack_X509 V stack obj = checkC OpensslCallIsPositive (SSL_sk_X509_push V stack obj)"

definition addObjectToStack_X509_CRL :: "('x, 'r, 's, 'v, 'a, 'c) verify_lib \<Rightarrow> 'c \<Rightarrow> 'r \<Rightarrow> 'c res" where
  [ossl_simps]: "addObjectToStack_X509_CRL V stack obj =
     checkC OpensslCallIsPositive (SSL_sk_X509_CRL_push V stack obj)"

definition ossl_X509_STORE_CTX_init ::
  "('x, 'r, 's, 'v, 'a, 'c) verify_lib \<Rightarrow> 'v \<Rightarrow> 's \<Rightarrow> 'x \<Rightarrow> 'a \<Rightarrow> 'v res" where
  [ossl_simps]: "ossl_X509_STORE_CTX_init V ctx store x509 chain =
     checkC OpensslCallIsOne (SSL_X509_STORE_CTX_init V ctx store x509 chain)"

definition ossl_X509_STORE_CTX_get0_param :: "('x, 'r, 's, 'v, 'a, 'c) verify_lib \<Rightarrow> 'v \<Rightarrow> unit res" where
  [ossl_simps]: "ossl_X509_STORE_CTX_get0_param V ctx = OpensslCallPtr (SSL_X509_STORE_CTX_get0_param V ctx)"

definition ossl_X509_VERIFY_PARAM_set_flags ::
  "('x, 'r, 's, 'v, 'a, 'c) verify_lib \<Rightarrow> 'v \<Rightarrow> 64 word \<Rightarrow> 'v res" where
  [ossl_simps]: "ossl_X509_VERIFY_PARAM_set_flags V param flags =
     checkC OpensslCallIsOne (SSL_X509_VERIFY_PARAM_set_flags V param flags)"

definition ossl_X509_STORE_CTX_set_time ::
  "('x, 'r, 's, 'v, 'a, 'c) verify_lib \<Rightarrow> 'v \<Rightarrow> int \<Rightarrow> 'v" where
  [ossl_simps]: "ossl_X509_STORE_CTX_set_time V ctx time = SSL_X509_STORE_CTX_set_time V ctx 0 time"

definition ossl_X509_STORE_CTX_set0_crls ::
  "('x, 'r, 's, 'v, 'a, 'c) verify_lib \<Rightarrow> 'v \<Rightarrow> 'c \<Rightarrow> 'v" where
  [ossl_simps]: "ossl_X509_STORE_CTX_set0_crls V ctx crls = SSL_X509_STORE_CTX_set0_crls V ctx crls"

definition ossl_X509_verify_cert :: "('x, 'r, 's, 'v, 'a, 'c) verify_lib \<Rightarrow> 'v \<Rightarrow> unit res" where
  "ossl_X509_verify_cert V ctx =
     (let (result, ctx') = SSL_X509_verify_cert V ctx
      in if result \<noteq> 1
         then Inl (OpenSSLException
                [Str (c_str (SSL_X509_verify_cert_error_string V (SSL_X509_STORE_CTX_get_error V ctx')))])
         else Inr ())"

fun addAll :: "('a \<Rightarrow> 'x \<Rightarrow> 'a res) \<Rightarrow> 'x list \<Rightarrow> 'a \<Rightarrow> 'a res" where
  "addAll add [] s = Inr s"
| "addAll add (x # xs) s = bindR (add s x) (addAll add xs)"

definition buildStackFromContainer :: "'a res \<Rightarrow> ('a \<Rightarrow> 'x \<Rightarrow> 'a res) \<Rightarrow> 'x list \<Rightarrow> 'a res" where
  "buildStackFromContainer create add cnt = bindR create (addAll add cnt)"

section \<open>VerificationContext\<close>

record ('x, 'r) VerificationContext =
  trustedCerts :: "'x list"
  intermediateCerts :: "'x list"
  crls :: "'r list"
  enforceSelfSigned :: bool
  enforceCrlForWholeChain :: bool
  verificationCheckTime :: "int option"

definition VerificationContext_new :: "('x, 'r) VerificationContext" where
  "VerificationContext_new = \<lparr>trustedCerts = [], intermediateCerts = [], crls = [],
     enforceSelfSigned = False, enforceCrlForWholeChain = False, verificationCheckTime = None\<rparr>"

definition addTrustedCertificates ::
  "'x list \<Rightarrow> ('x, 'r) VerificationContext \<Rightarrow> ('x, 'r) VerificationContext" where
  "addTrustedCertificates xs ctx = ctx\<lparr>trustedCerts := trustedCerts ctx @ xs\<rparr>"
definition addTrustedCertificate ::
  "'x \<Rightarrow> ('x, 'r) VerificationContext \<Rightarrow> ('x, 'r) VerificationContext" where
  "addTrustedCertificate x ctx = ctx\<lparr>trustedCerts := trustedCerts ctx @ [x]\<rparr>"
definition addIntermediateCertificates ::
  "'x list \<Rightarrow> ('x, 'r) VerificationContext \<Rightarrow> ('x, 'r) VerificationContext" where
  "addIntermediateCertificates xs ctx = ctx\<lparr>intermediateCerts := intermediateCerts ctx @ xs\<rparr>"
definition addIntermediateCertificate ::
  "'x \<Rightarrow> ('x, 'r) VerificationContext \<Rightarrow> ('x, 'r) VerificationContext" where
  "addIntermediateCertificate x ctx = ctx\<lparr>intermediateCerts := intermediateCerts ctx @ [x]\<rparr>"
definition addCertificateRevocationLists ::
  "'r list \<Rightarrow> ('x, 'r) VerificationContext \<Rightarrow> ('x, 'r) VerificationContext" where
  "addCertificateRevocationLists rs ctx = ctx\<lparr>crls := crls ctx @ rs\<rparr>"
definition addCertificateRevocationList ::
  "'r \<Rightarrow> ('x, 'r) VerificationContext \<Rightarrow> ('x, 'r) VerificationContext" where
  "addCertificateRevocationList r ctx = ctx\<lparr>crls := crls ctx @ [r]\<rparr>"
definition enforceSelfSignedRootCertificate ::
  "('x, 'r) VerificationContext \<Rightarrow> ('x, 'r) VerificationContext" where
  "enforceSelfSignedRootCertificate ctx = ctx\<lparr>enforceSelfSigned := True\<rparr>"
definition enforceCrlsForAllCAs ::
  "('x, 'r) VerificationContext \<Rightarrow> ('x, 'r) VerificationContext" where
  "enforceCrlsForAllCAs ctx = ctx\<lparr>enforceCrlForWholeChain := True\<rparr>"

definition setVerificationCheckTime ::
  "'t time_lib \<Rightarrow> 't \<Rightarrow> (('x, 'r) VerificationContext, unit) st" where
  "setVerificationCheckTime T checkTime =
     bindS (liftS (catchOpenSSL (Asn1Time_toTimeT T checkTime) MoCOCrWException)) (\<lambda>t.
       modifyS (\<lambda>ctx. ctx\<lparr>verificationCheckTime := Some t\<rparr>))"

definition err_crl_self_signed :: exn where
  "err_crl_self_signed = MoCOCrWException
     [Str ''OpenSSL doesn't support CRL check for all CAs when the trustedcertificate isn't self signed'']"
definition err_crl_missing :: exn where
  "err_crl_missing = MoCOCrWException
     [Str ''CRL check for all certificates requested, but no CRLs present'']"

definition validityCheck :: "('x, 'r) VerificationContext \<Rightarrow> unit res" where
  "validityCheck ctx =
     (if enforceCrlForWholeChain ctx \<and> \<not> enforceSelfSigned ctx then Inl err_crl_self_signed
      else if enforceCrlForWholeChain ctx \<and> crls ctx = [] then Inl err_crl_missing
      else Inr ())"

section \<open>verify\<close>

definition verify_flags :: "('x, 'r) VerificationContext \<Rightarrow> 64 word" where
  "verify_flags ctx =
     (let flags = 0;
          flags = (if \<not> enforceSelfSigned ctx then flags OR PARTIAL_CHAIN else flags);
          flags = (if crls ctx \<noteq> [] \<or> enforceCrlForWholeChain ctx then flags OR CRL_CHECK else flags);
          flags = (if enforceCrlForWholeChain ctx then flags OR CRL_CHECK_ALL else flags);
          flags = (if verificationCheckTime ctx \<noteq> None then flags OR USE_CHECK_TIME else flags)
      in flags)"

definition X509_verify ::
  "('x, 'r, 's, 'v, 'a, 'c) verify_lib \<Rightarrow> ('x, 'r) VerificationContext \<Rightarrow> 'x \<Rightarrow> unit res" where
  "X509_verify V ctx x =
     bindR (validityCheck ctx) (\<lambda>_.
     bindR (create_X509_STORE V) (\<lambda>caStore.
     bindR (addAll (ossl_X509_STORE_add_cert V) (trustedCerts ctx) caStore) (\<lambda>caStore.
     bindR (buildStackFromContainer (create_STACK_X509 V) (addObjectToStack_X509 V) (intermediateCerts ctx))
       (\<lambda>intermediateStack.
     bindR (create_X509_STORE_CTX V) (\<lambda>verifyCtx.
     bindR (ossl_X509_STORE_CTX_init V verifyCtx caStore x intermediateStack) (\<lambda>verifyCtx.
     bindR (ossl_X509_STORE_CTX_get0_param V verifyCtx) (\<lambda>_.
       let verifyCtx = (case verificationCheckTime ctx of
             None \<Rightarrow> verifyCtx | Some t \<Rightarrow> ossl_X509_STORE_CTX_set_time V verifyCtx t) in
     bindR (ossl_X509_VERIFY_PARAM_set_flags V verifyCtx (verify_flags ctx)) (\<lambda>verifyCtx.
     bindR (if crls ctx \<noteq> []
            then bindR (buildStackFromContainer (create_STACK_X509_CRL V) (addObjectToStack_X509_CRL V) (crls ctx))
                   (\<lambda>crlStack. Inr (ossl_X509_STORE_CTX_set0_crls V verifyCtx crlStack))
            else Inr verifyCtx) (\<lambda>verifyCtx.
       catchOpenSSL (ossl_X509_verify_cert V verifyCtx) MoCOCrWException)))))))))"

definition X509_verify_stores ::
  "('x, 'r, 's, 'v, 'a, 'c) verify_lib \<Rightarrow> 'x list \<Rightarrow> 'x list \<Rightarrow> 'x \<Rightarrow> unit res" where
  "X509_verify_stores V trustStore intermediateCAs x =
     X509_verify V
       (addIntermediateCertificates intermediateCAs (addTrustedCertificates trustStore VerificationContext_new)) x"

section \<open>What OpenSSL documents\<close>

text \<open>
  A verification context is described by the trusted certificates, the certificate in
  question, the untrusted ones, the flags, the time to check for and the CRLs.  It starts with
  default flags, further flags are added, setting a time also sets the flag for it.
  \<open>accept\<close> is the verdict of \<open>X509_verify_cert\<close>, a function of that description.
\<close>

record ('x, 'r) verify_view =
  vv_trusted :: "'x list"
  vv_target :: 'x
  vv_untrusted :: "'x list"
  vv_flags :: "64 word"
  vv_time :: "int option"
  vv_crls :: "'r list"

definition verify_setup_laws ::
  "('x, 'r, 's, 'v, 'a, 'c) verify_lib \<Rightarrow> ('s \<Rightarrow> 'x list) \<Rightarrow> ('a \<Rightarrow> 'x list) \<Rightarrow> ('c \<Rightarrow> 'r list) \<Rightarrow> bool" where
  "verify_setup_laws V sc ac cc \<longleftrightarrow>
     (\<exists>s. SSL_X509_STORE_new V = Some s \<and> sc s = [])
     \<and> (\<forall>s x. \<exists>s'. SSL_X509_STORE_add_cert V s x = (1, s') \<and> sc s' = sc s @ [x])
     \<and> (\<exists>a. SSL_sk_X509_new_null V = Some a \<and> ac a = [])
     \<and> (\<forall>a x. \<exists>n a'. SSL_sk_X509_push V a x = (n, a') \<and> n > 0 \<and> ac a' = ac a @ [x])
     \<and> (\<exists>c. SSL_sk_X509_CRL_new_null V = Some c \<and> cc c = [])
     \<and> (\<forall>c r. \<exists>n c'. SSL_sk_X509_CRL_push V c r = (n, c') \<and> n > 0 \<and> cc c' = cc c @ [r])"

definition verify_laws ::
  "('x, 'r, 's, 'v, 'a, 'c) verify_lib \<Rightarrow> ('s \<Rightarrow> 'x list) \<Rightarrow> ('a \<Rightarrow> 'x list) \<Rightarrow> ('c \<Rightarrow> 'r list) \<Rightarrow>
     ('v \<Rightarrow> ('x, 'r) verify_view) \<Rightarrow> 64 word \<Rightarrow> (('x, 'r) verify_view \<Rightarrow> bool) \<Rightarrow> bool" where
  "verify_laws V sc ac cc vv f0 accept \<longleftrightarrow>
     verify_setup_laws V sc ac cc
     \<and> SSL_X509_STORE_CTX_new V \<noteq> None
     \<and> (\<forall>v s x a. \<exists>v'. SSL_X509_STORE_CTX_init V v s x a = (1, v')
          \<and> vv v' = \<lparr>vv_trusted = sc s, vv_target = x, vv_untrusted = ac a, vv_flags = f0,
                      vv_time = None, vv_crls = []\<rparr>)
     \<and> (\<forall>v. SSL_X509_STORE_CTX_get0_param V v \<noteq> None)
     \<and> (\<forall>v f. \<exists>v'. SSL_X509_VERIFY_PARAM_set_flags V v f = (1, v')
          \<and> vv v' = (vv v)\<lparr>vv_flags := vv_flags (vv v) OR f\<rparr>)
     \<and> (\<forall>v t. vv (SSL_X509_STORE_CTX_set_time V v 0 t) =
          (vv v)\<lparr>vv_flags := vv_flags (vv v) OR USE_CHECK_TIME, vv_time := Some t\<rparr>)
     \<and> (\<forall>v c. vv (SSL_X509_STORE_CTX_set0_crls V v c) = (vv v)\<lparr>vv_crls := cc c\<rparr>)
     \<and> (\<forall>v. fst (SSL_X509_verify_cert V v) = 1 \<longleftrightarrow> accept (vv v))"

lemmas vsetupD = verify_setup_laws_def [THEN iffD1]
lemmas store_newD = vsetupD [THEN conjunct1]
  and store_addD = vsetupD [THEN conjunct2, THEN conjunct1, rule_format]
  and stack_newD = vsetupD [THEN conjunct2, THEN conjunct2, THEN conjunct1]
  and stack_pushD = vsetupD [THEN conjunct2, THEN conjunct2, THEN conjunct2, THEN conjunct1, rule_format]
  and crl_stack_newD = vsetupD [THEN conjunct2, THEN conjunct2, THEN conjunct2, THEN conjunct2, THEN conjunct1]
  and crl_stack_pushD = vsetupD [THEN conjunct2, THEN conjunct2, THEN conjunct2, THEN conjunct2,
    THEN conjunct2, rule_format]
lemmas vlawsD = verify_laws_def [THEN iffD1]
lemmas v_setupD = vlawsD [THEN conjunct1]
  and v_newD = vlawsD [THEN conjunct2, THEN conjunct1]
  and v_initD = vlawsD [THEN conjunct2, THEN conjunct2, THEN conjunct1, rule_format]
  and v_paramD = vlawsD [THEN conjunct2, THEN conjunct2, THEN conjunct2, THEN conjunct1, rule_format]
  and v_flagsD = vlawsD [THEN conjunct2, THEN conjunct2, THEN conjunct2, THEN conjunct2,
    THEN conjunct1, rule_format]
  and v_timeD = vlawsD [THEN conjunct2, THEN conjunct2, THEN conjunct2, THEN conjunct2,
    THEN conjunct2, THEN conjunct1, rule_format]
  and v_crlsD = vlawsD [THEN conjunct2, THEN conjunct2, THEN conjunct2, THEN conjunct2,
    THEN conjunct2, THEN conjunct2, THEN conjunct1, rule_format]
  and v_certD = vlawsD [THEN conjunct2, THEN conjunct2, THEN conjunct2, THEN conjunct2,
    THEN conjunct2, THEN conjunct2, THEN conjunct2, rule_format]

section \<open>The verdict\<close>

definition verify_request ::
  "64 word \<Rightarrow> ('x, 'r) VerificationContext \<Rightarrow> 'x \<Rightarrow> ('x, 'r) verify_view" where
  "verify_request f0 ctx x = \<lparr>vv_trusted = trustedCerts ctx, vv_target = x,
     vv_untrusted = intermediateCerts ctx, vv_flags = f0 OR verify_flags ctx,
     vv_time = verificationCheckTime ctx, vv_crls = crls ctx\<rparr>"

lemma addAll_ok:
  assumes "\<And>s x. \<exists>s'. add s x = Inr s' \<and> c s' = c s @ [x]"
  shows "\<exists>s'. addAll add xs s = Inr s' \<and> c s' = c s @ xs"
proof (induction xs arbitrary: s)
  case (Cons x xs)
  obtain s1 where s1: "add s x = Inr s1" "c s1 = c s @ [x]" using assms by blast
  with Cons.IH [of s1] show ?case by auto
qed simp

lemma addAll_empty:
  assumes "\<exists>s. new = Some s \<and> c s = []" "\<And>s x. \<exists>s'. add s x = Inr s' \<and> c s' = c s @ [x]"
  shows "\<exists>s'. bindR (OpensslCallPtr new) (addAll add xs) = Inr s' \<and> c s' = xs"
proof -
  obtain s where s: "new = Some s" "c s = []" using assms(1) by blast
  obtain s' where "addAll add xs s = Inr s'" "c s' = c s @ xs" using addAll_ok [of add c, OF assms(2)] by blast
  with s show ?thesis by simp
qed

lemma verify_flags_bits:
  "verify_flags ctx AND PARTIAL_CHAIN \<noteq> 0 \<longleftrightarrow> \<not> enforceSelfSigned ctx"
  "verify_flags ctx AND CRL_CHECK \<noteq> 0 \<longleftrightarrow> crls ctx \<noteq> [] \<or> enforceCrlForWholeChain ctx"
  "verify_flags ctx AND CRL_CHECK_ALL \<noteq> 0 \<longleftrightarrow> enforceCrlForWholeChain ctx"
  "verify_flags ctx AND USE_CHECK_TIME \<noteq> 0 \<longleftrightarrow> verificationCheckTime ctx \<noteq> None"
  by (simp_all add: verify_flags_def flag_defs Let_def)

lemma verify_flags_time:
  "verificationCheckTime ctx \<noteq> None \<Longrightarrow> (f OR USE_CHECK_TIME) OR verify_flags ctx = f OR verify_flags ctx"
  by (simp add: verify_flags_def Let_def or.assoc or.left_commute or.commute)

lemma checkC_positive [simp]:
  "checkC OpensslCallIsPositive (rv, c) = (if rv > 0 then Inr c else Inl OpenSSLException_default)"
  by (simp add: checkC_def)

lemma stacks_ok:
  assumes "verify_setup_laws V sc ac cc"
  shows "\<exists>s. bindR (create_X509_STORE V) (addAll (ossl_X509_STORE_add_cert V) xs) = Inr s \<and> sc s = xs"
    "\<exists>a. buildStackFromContainer (create_STACK_X509 V) (addObjectToStack_X509 V) xs = Inr a \<and> ac a = xs"
    "\<exists>c. buildStackFromContainer (create_STACK_X509_CRL V) (addObjectToStack_X509_CRL V) rs = Inr c \<and> cc c = rs"
proof -
  have a: "\<exists>s'. ossl_X509_STORE_add_cert V s x = Inr s' \<and> sc s' = sc s @ [x]" for s x
    using store_addD [OF assms, of s x] by (auto simp: ossl_simps)
  show "\<exists>s. bindR (create_X509_STORE V) (addAll (ossl_X509_STORE_add_cert V) xs) = Inr s \<and> sc s = xs"
    unfolding create_X509_STORE_def by (rule addAll_empty [OF store_newD [OF assms] a])
  have b: "\<exists>s'. addObjectToStack_X509 V s x = Inr s' \<and> ac s' = ac s @ [x]" for s x
    using stack_pushD [OF assms, of s x] by (auto simp: ossl_simps)
  show "\<exists>a. buildStackFromContainer (create_STACK_X509 V) (addObjectToStack_X509 V) xs = Inr a \<and> ac a = xs"
    unfolding create_STACK_X509_def buildStackFromContainer_def by (rule addAll_empty [OF stack_newD [OF assms] b])
  have c: "\<exists>s'. addObjectToStack_X509_CRL V s x = Inr s' \<and> cc s' = cc s @ [x]" for s x
    using crl_stack_pushD [OF assms, of s x] by (auto simp: ossl_simps)
  show "\<exists>c. buildStackFromContainer (create_STACK_X509_CRL V) (addObjectToStack_X509_CRL V) rs = Inr c \<and> cc c = rs"
    unfolding create_STACK_X509_CRL_def buildStackFromContainer_def
    by (rule addAll_empty [OF crl_stack_newD [OF assms] c])
qed

text \<open>All calls before the last one succeed and describe the context's request to OpenSSL.\<close>

lemma X509_verify_reaches:
  assumes "verify_laws V sc ac cc vv f0 accept" "validityCheck ctx = Inr ()"
  shows "\<exists>v. vv v = verify_request f0 ctx x
     \<and> X509_verify V ctx x = catchOpenSSL (ossl_X509_verify_cert V v) MoCOCrWException"
proof -
  note su = v_setupD [OF assms(1)]
  obtain s0 s where s: "create_X509_STORE V = Inr s0"
      "addAll (ossl_X509_STORE_add_cert V) (trustedCerts ctx) s0 = Inr s" "sc s = trustedCerts ctx"
    using stacks_ok(1) [OF su, of "trustedCerts ctx"] by (auto simp: bindR_eq_Inr)
  obtain a where a: "buildStackFromContainer (create_STACK_X509 V) (addObjectToStack_X509 V)
      (intermediateCerts ctx) = Inr a" "ac a = intermediateCerts ctx"
    using stacks_ok(2) [OF su] by blast
  obtain c where c: "buildStackFromContainer (create_STACK_X509_CRL V) (addObjectToStack_X509_CRL V)
      (crls ctx) = Inr c" "cc c = crls ctx"
    using stacks_ok(3) [OF su] by blast
  obtain v0 where v0: "SSL_X509_STORE_CTX_new V = Some v0" using v_newD [OF assms(1)] by blast
  obtain v1 where v1: "SSL_X509_STORE_CTX_init V v0 s x a = (1, v1)"
    "vv v1 = \<lparr>vv_trusted = trustedCerts ctx, vv_target = x, vv_untrusted = intermediateCerts ctx,
       vv_flags = f0, vv_time = None, vv_crls = []\<rparr>"
    using v_initD [OF assms(1), of v0 s x a] s(3) a(2) by auto
  define v2 where "v2 = (case verificationCheckTime ctx of None \<Rightarrow> v1
     | Some t \<Rightarrow> ossl_X509_STORE_CTX_set_time V v1 t)"
  obtain v3 where v3: "SSL_X509_VERIFY_PARAM_set_flags V v2 (verify_flags ctx) = (1, v3)"
    "vv v3 = (vv v2)\<lparr>vv_flags := vv_flags (vv v2) OR verify_flags ctx\<rparr>"
    using v_flagsD [OF assms(1), of v2 "verify_flags ctx"] by blast
  have vv3: "vv v3 = (verify_request f0 ctx x)\<lparr>vv_crls := []\<rparr>"
    using v3(2) v1(2) v_timeD [OF assms(1), of v1]
    by (auto simp: v2_def verify_request_def ossl_simps verify_flags_time split: option.splits)
  define v4 where "v4 = (if crls ctx \<noteq> [] then ossl_X509_STORE_CTX_set0_crls V v3 c else v3)"
  have "vv v4 = verify_request f0 ctx x"
    using vv3 v_crlsD [OF assms(1), of v3 c] c(2) by (auto simp: v4_def ossl_simps verify_request_def)
  moreover have "X509_verify V ctx x = catchOpenSSL (ossl_X509_verify_cert V v4) MoCOCrWException"
    using assms(2) s(1,2) a(1) c(1) v0 v1(1) v3(1) v_paramD [OF assms(1), of v1]
    by (auto simp: X509_verify_def create_X509_STORE_CTX_def ossl_X509_STORE_CTX_init_def Let_def
        ossl_X509_STORE_CTX_get0_param_def ossl_X509_VERIFY_PARAM_set_flags_def v4_def v2_def)
  ultimately show ?thesis by blast
qed

lemma X509_verify_verdict:
  assumes "verify_laws V sc ac cc vv f0 accept" "validityCheck ctx = Inr ()"
  shows "accept (verify_request f0 ctx x) \<Longrightarrow> X509_verify V ctx x = Inr ()"
    "\<not> accept (verify_request f0 ctx x) \<Longrightarrow> \<exists>m. X509_verify V ctx x = Inl (MoCOCrWException m)"
proof -
  obtain v where v: "vv v = verify_request f0 ctx x"
    "X509_verify V ctx x = catchOpenSSL (ossl_X509_verify_cert V v) MoCOCrWException"
    using X509_verify_reaches [OF assms] by blast
  have "fst (SSL_X509_verify_cert V v) = 1 \<longleftrightarrow> accept (verify_request f0 ctx x)"
    using v_certD [OF assms(1), of v] v(1) by simp
  with v(2) show "accept (verify_request f0 ctx x) \<Longrightarrow> X509_verify V ctx x = Inr ()"
    "\<not> accept (verify_request f0 ctx x) \<Longrightarrow> \<exists>m. X509_verify V ctx x = Inl (MoCOCrWException m)"
    by (simp_all add: ossl_X509_verify_cert_def case_prod_beta)
qed

text \<open>
  C6: Verification in a context: an inconsistent context is refused with its own error; otherwise
  the certificate is accepted exactly if OpenSSL accepts the request made of the context's
  trusted and intermediate certificates, CRLs, check time and flags, and refused with a
  \<open>MoCOCrWException\<close>.  The flags ask for a partial chain unless a self signed root is enforced,
  for CRL checks if there is a CRL or they are enforced for the whole chain, and for the
  given time.
\<close>

theorem X509_verify_exact:
  assumes "verify_laws V sc ac cc vv f0 accept"
  shows "(enforceCrlForWholeChain ctx \<and> (\<not> enforceSelfSigned ctx \<or> crls ctx = []) \<longrightarrow>
       (\<exists>e \<in> {err_crl_self_signed, err_crl_missing}. X509_verify V ctx x = Inl e))
    \<and> (\<not> (enforceCrlForWholeChain ctx \<and> (\<not> enforceSelfSigned ctx \<or> crls ctx = [])) \<longrightarrow>
        (if accept (verify_request f0 ctx x) then X509_verify V ctx x = Inr ()
         else \<exists>m. X509_verify V ctx x = Inl (MoCOCrWException m)))
    \<and> (verify_flags ctx AND PARTIAL_CHAIN \<noteq> 0 \<longleftrightarrow> \<not> enforceSelfSigned ctx)
    \<and> (verify_flags ctx AND CRL_CHECK \<noteq> 0 \<longleftrightarrow> crls ctx \<noteq> [] \<or> enforceCrlForWholeChain ctx)
    \<and> (verify_flags ctx AND CRL_CHECK_ALL \<noteq> 0 \<longleftrightarrow> enforceCrlForWholeChain ctx)
    \<and> (verify_flags ctx AND USE_CHECK_TIME \<noteq> 0 \<longleftrightarrow> verificationCheckTime ctx \<noteq> None)"
  using X509_verify_verdict [OF assms, of ctx x] verify_flags_bits [of ctx]
  by (auto simp: validityCheck_def X509_verify_def)

section \<open>A concrete instance\<close>

text \<open>
  Certificates are pairs of issuer and name; a certificate is accepted if it or its issuer is
  trusted and no CRL, a list of names, has its name.
\<close>

definition ref_accept :: "(string \<times> string, string list) verify_view \<Rightarrow> bool" where
  "ref_accept v \<longleftrightarrow> list_ex (\<lambda>r. snd r = fst (vv_target v)) (vv_trusted v)
     \<and> list_all (\<lambda>c. snd (vv_target v) \<notin> set c) (vv_crls v)"

definition ref_verify_lib_for ::
  "(('x, 'r) verify_view \<Rightarrow> bool) \<Rightarrow> 'x \<Rightarrow>
     ('x, 'r, 'x list, ('x, 'r) verify_view, 'x list, 'r list) verify_lib" where
  "ref_verify_lib_for accept x0 =
     \<lparr>SSL_X509_STORE_new = Some [],
      SSL_X509_STORE_add_cert = (\<lambda>s x. (1, s @ [x])),
      SSL_sk_X509_new_null = Some [],
      SSL_sk_X509_push = (\<lambda>a x. (int (length a) + 1, a @ [x])),
      SSL_sk_X509_CRL_new_null = Some [],
      SSL_sk_X509_CRL_push = (\<lambda>a x. (int (length a) + 1, a @ [x])),
      SSL_X509_STORE_CTX_new = Some \<lparr>vv_trusted = [], vv_target = x0, vv_untrusted = [], vv_flags = 0,
        vv_time = None, vv_crls = []\<rparr>,
      SSL_X509_STORE_CTX_init = (\<lambda>v s x a. (1, \<lparr>vv_trusted = s, vv_target = x, vv_untrusted = a,
        vv_flags = 0x8000, vv_time = None, vv_crls = []\<rparr>)),
      SSL_X509_STORE_CTX_get0_param = (\<lambda>v. Some ()),
      SSL_X509_VERIFY_PARAM_set_flags = (\<lambda>v f. (1, v\<lparr>vv_flags := vv_flags v OR f\<rparr>)),
      SSL_X509_STORE_CTX_set_time = (\<lambda>v _ t. v\<lparr>vv_flags := vv_flags v OR USE_CHECK_TIME, vv_time := Some t\<rparr>),
      SSL_X509_STORE_CTX_set0_crls = (\<lambda>v c. v\<lparr>vv_crls := c\<rparr>),
      SSL_X509_verify_cert = (\<lambda>v. (if accept v then 1 else 0, v)),
      SSL_X509_STORE_CTX_get_error = (\<lambda>v. 20),
      SSL_X509_verify_cert_error_string = (\<lambda>e. ''unable to get local issuer certificate'')\<rparr>"

lemma ref_verify_laws_for: "verify_laws (ref_verify_lib_for accept x0) id id id id 0x8000 accept"
  by (auto simp: verify_laws_def verify_setup_laws_def ref_verify_lib_for_def)

definition ref_verify_lib ::
  "(string \<times> string, string list, (string \<times> string) list, (string \<times> string, string list) verify_view,
    (string \<times> string) list, string list list) verify_lib" where
  "ref_verify_lib = ref_verify_lib_for ref_accept ([], [])"

lemma ref_verify_laws: "verify_laws ref_verify_lib id id id id 0x8000 ref_accept"
  unfolding ref_verify_lib_def by (rule ref_verify_laws_for)

definition ref_verify_ctx :: "(string \<times> string, string list) VerificationContext" where
  "ref_verify_ctx = addCertificateRevocationList [''bad'']
     (addTrustedCertificate (''root'', ''root'') VerificationContext_new)"

theorem X509_verify_exact_witness:
  "X509_verify ref_verify_lib ref_verify_ctx (''root'', ''leaf'') = Inr ()
   \<and> (\<exists>m. X509_verify ref_verify_lib ref_verify_ctx (''root'', ''bad'') = Inl (MoCOCrWException m))
   \<and> X509_verify ref_verify_lib (enforceCrlsForAllCAs ref_verify_ctx) (''root'', ''leaf'') \<noteq> Inr ()"
  using X509_verify_exact [OF ref_verify_laws, of ref_verify_ctx "(''root'', ''leaf'')"]
    X509_verify_exact [OF ref_verify_laws, of ref_verify_ctx "(''root'', ''bad'')"]
    X509_verify_exact [OF ref_verify_laws, of "enforceCrlsForAllCAs ref_verify_ctx" "(''root'', ''leaf'')"]
  by (auto simp: ref_verify_ctx_def ref_accept_def verify_request_def enforceCrlsForAllCAs_def
      addCertificateRevocationList_def addTrustedCertificate_def VerificationContext_new_def)

end
