(* ===== verification/X509_Csr.thy ===== *)
theory X509_Csr
  imports X509_Cert Ecdsa_Ctx
begin

unbundle bit_operations_syntax

text \<open>
  \<open>src/src/csr.cpp\<close>: certificate signing requests, made and signed for a name and a key pair,
  verified, read and written.  A request is the OpenSSL object it holds.
\<close>

section \<open>OpenSSL functions and their wrappers\<close>

text \<open>\<open>'q\<close> and \<open>'d\<close> are the types of \<open>X509_REQ\<close> and \<open>EVP_MD_CTX\<close>.\<close>

record ('q, 'n, 'k, 'd) req_lib =
  SSL_X509_REQ_new :: "'q option"
  SSL_X509_REQ_set_version :: "'q \<Rightarrow> int \<Rightarrow> int \<times> 'q"
  SSL_X509_REQ_set_subject_name :: "'q \<Rightarrow> 'n \<Rightarrow> int \<times> 'q"
  SSL_X509_REQ_set_pubkey :: "'q \<Rightarrow> 'k \<Rightarrow> int \<times> 'q"
  SSL_X509_REQ_get_subject_name :: "'q \<Rightarrow> 'n option"
  SSL_X509_REQ_get_pubkey :: "'q \<Rightarrow> 'k option"
  SSL_X509_REQ_verify :: "'q \<Rightarrow> 'k \<Rightarrow> int"
  SSL_X509_REQ_sign_ctx :: "'q \<Rightarrow> 'd \<Rightarrow> int \<times> 'q"

definition ossl_X509_REQ_new :: "('q, 'n, 'k, 'd) req_lib \<Rightarrow> 'q res" where
  [ossl_simps]: "ossl_X509_REQ_new R = OpensslCallPtr (SSL_X509_REQ_new R)"

definition ossl_X509_REQ_set_version :: "('q, 'n, 'k, 'd) req_lib \<Rightarrow> int \<Rightarrow> 'q \<Rightarrow> 'q res" where
  [ossl_simps]: "ossl_X509_REQ_set_version R v req = checkC OpensslCallIsOne (SSL_X509_REQ_set_version R req v)"

definition ossl_X509_REQ_set_subject_name :: "('q, 'n, 'k, 'd) req_lib \<Rightarrow> 'n \<Rightarrow> 'q \<Rightarrow> 'q res" where
  [ossl_simps]: "ossl_X509_REQ_set_subject_name R name req =
     checkC OpensslCallIsOne (SSL_X509_REQ_set_subject_name R req name)"

definition ossl_X509_REQ_set_pubkey :: "('q, 'n, 'k, 'd) req_lib \<Rightarrow> 'k \<Rightarrow> 'q \<Rightarrow> 'q res" where
  [ossl_simps]: "ossl_X509_REQ_set_pubkey R pkey req = checkC OpensslCallIsOne (SSL_X509_REQ_set_pubkey R req pkey)"

definition ossl_X509_REQ_get_subject_name :: "('q, 'n, 'k, 'd) req_lib \<Rightarrow> 'q \<Rightarrow> 'n res" where
  [ossl_simps]: "ossl_X509_REQ_get_subject_name R req = OpensslCallPtr (SSL_X509_REQ_get_subject_name R req)"

definition ossl_X509_REQ_get_public_key :: "('q, 'n, 'k, 'd) req_lib \<Rightarrow> 'q \<Rightarrow> 'k res" where
  [ossl_simps]: "ossl_X509_REQ_get_public_key R req = OpensslCallPtr (SSL_X509_REQ_get_pubkey R req)"

definition ossl_X509_REQ_verify :: "('q, 'n, 'k, 'd) req_lib \<Rightarrow> 'q \<Rightarrow> 'k \<Rightarrow> unit res" where
  [ossl_simps]: "ossl_X509_REQ_verify R req key =
     bindR (OpensslCallIsOne (SSL_X509_REQ_verify R req key)) (\<lambda>_. Inr ())"

definition ossl_X509_REQ_sign_ctx :: "('q, 'n, 'k, 'd) req_lib \<Rightarrow> 'd \<Rightarrow> 'q \<Rightarrow> 'q res" where
  [ossl_simps]: "ossl_X509_REQ_sign_ctx R ctx req = checkC OpensslCallIsPositive (SSL_X509_REQ_sign_ctx R req ctx)"

section \<open>CertificateSigningRequest\<close>

text \<open>For keys on Edwards curves the digest is left to the signature scheme.\<close>

definition Csr_new ::
  "('q, 'n, 'k, 'd) req_lib \<Rightarrow> ('n, 'e, 'f, 'b) name_lib \<Rightarrow> ('k, 'ec, 'g, 'c) pkey_lib \<Rightarrow>
     'd digest_lib \<Rightarrow> ('k, 'd) eddsa_lib \<Rightarrow> DistinguishedName \<Rightarrow> 'k \<Rightarrow> DigestTypes \<Rightarrow> 'q res" where
  "Csr_new R N P M X dn keypair digestFunction =
     bindR (ossl_X509_REQ_new R) (\<lambda>req.
     bindR (ossl_X509_REQ_set_version R 0 req) (\<lambda>req.
     bindR (ossl_X509_NAME_new N) (\<lambda>subject.
       (case populateX509Name N dn subject of
          (Inl e, _) \<Rightarrow> Inl e
        | (Inr _, subject) \<Rightarrow>
     bindR (ossl_X509_REQ_set_subject_name R subject req) (\<lambda>req.
     bindR (ossl_X509_REQ_set_pubkey R keypair req) (\<lambda>req.
     bindR (ossl_EVP_MD_CTX_create M) (\<lambda>mctx.
     bindR (getType P keypair) (\<lambda>type.
       (let digestType = (if type = ECC_ED then NONE else digestFunction) in
     bindR (ossl_EVP_DigestSignInit X digestType keypair mctx) (\<lambda>mctx.
       ossl_X509_REQ_sign_ctx R mctx req))))))))))"

definition Csr_new_default ::
  "('q, 'n, 'k, 'd) req_lib \<Rightarrow> ('n, 'e, 'f, 'b) name_lib \<Rightarrow> ('k, 'ec, 'g, 'c) pkey_lib \<Rightarrow>
     'd digest_lib \<Rightarrow> ('k, 'd) eddsa_lib \<Rightarrow> DistinguishedName \<Rightarrow> 'k \<Rightarrow> 'q res" where
  "Csr_new_default R N P M X dn keypair = Csr_new R N P M X dn keypair SHA256"

definition Csr_getPublicKey :: "('q, 'n, 'k, 'd) req_lib \<Rightarrow> 'q \<Rightarrow> 'k res" where
  "Csr_getPublicKey R req = ossl_X509_REQ_get_public_key R req"

definition Csr_verify :: "('q, 'n, 'k, 'd) req_lib \<Rightarrow> 'q \<Rightarrow> unit res" where
  "Csr_verify R req =
     bindR (ossl_X509_REQ_get_public_key R req) (\<lambda>pubkey.
       catchOpenSSL (ossl_X509_REQ_verify R req pubkey) MoCOCrWException)"

definition Csr_getSubjectName ::
  "('q, 'n, 'k, 'd) req_lib \<Rightarrow> ('n, 'e, 'f, 'b) name_lib \<Rightarrow> 'b bio_lib \<Rightarrow> 'q \<Rightarrow>
     DistinguishedName res option" where
  "Csr_getSubjectName R N B req =
     (case ossl_X509_REQ_get_subject_name R req of Inl e \<Rightarrow> Some (Inl e) | Inr n \<Rightarrow> fromX509Name N B n)"

section \<open>Input and output\<close>

definition ossl_PEM_write_bio_X509_REQ :: "('q, 'b) object_io \<Rightarrow> 'q \<Rightarrow> 'b \<Rightarrow> 'b res" where
  [ossl_simps]: "ossl_PEM_write_bio_X509_REQ J req bio = checkC OpensslCallIsOne (SSL_PEM_write_bio J bio req)"
definition ossl_PEM_read_bio_X509_REQ :: "('q, 'b) object_io \<Rightarrow> 'b \<Rightarrow> 'q res" where
  [ossl_simps]: "ossl_PEM_read_bio_X509_REQ J bio = OpensslCallPtr (SSL_PEM_read_bio J bio)"
definition ossl_d2i_X509_REQ_bio :: "('q, 'b) object_io \<Rightarrow> 'b \<Rightarrow> 'q res" where
  [ossl_simps]: "ossl_d2i_X509_REQ_bio J bio = OpensslCallPtr (SSL_d2i_bio J bio)"
definition ossl_i2d_X509_REQ_bio :: "('q, 'b) object_io \<Rightarrow> 'q \<Rightarrow> 'b \<Rightarrow> 'b res" where
  [ossl_simps]: "ossl_i2d_X509_REQ_bio J req bio = checkC OpensslCallIsOne (SSL_i2d_bio J bio req)"

definition Csr_toPEM :: "'b bio_lib \<Rightarrow> ('q, 'b) object_io \<Rightarrow> 'q \<Rightarrow> string res option" where
  "Csr_toPEM B J req = bio_printed B (ossl_PEM_write_bio_X509_REQ J req)"
definition Csr_toPem :: "'b bio_lib \<Rightarrow> ('q, 'b) object_io \<Rightarrow> 'q \<Rightarrow> string res option" where
  "Csr_toPem B J req = Csr_toPEM B J req"
definition Csr_toDER :: "'b bio_lib \<Rightarrow> ('q, 'b) object_io \<Rightarrow> 'q \<Rightarrow> bytes res option" where
  "Csr_toDER B J req = bio_printed_bytes B (ossl_i2d_X509_REQ_bio J req)"
definition Csr_fromPEM :: "'b bio_lib \<Rightarrow> ('q, 'b) object_io \<Rightarrow> string \<Rightarrow> 'q res" where
  "Csr_fromPEM B J pem = bio_parsed B pem (ossl_PEM_read_bio_X509_REQ J)"
definition Csr_fromPEMFile :: "'b bio_lib \<Rightarrow> ('q, 'b) object_io \<Rightarrow> string \<Rightarrow> 'q res" where
  "Csr_fromPEMFile B J filename = bindR (FileBio_new B filename READ TEXT) (ossl_PEM_read_bio_X509_REQ J)"
definition Csr_fromDER :: "'b bio_lib \<Rightarrow> ('q, 'b) object_io \<Rightarrow> bytes \<Rightarrow> 'q res" where
  "Csr_fromDER B J derData = bio_parsed_bytes B derData (ossl_d2i_X509_REQ_bio J)"
definition Csr_fromDERFile :: "'b bio_lib \<Rightarrow> ('q, 'b) object_io \<Rightarrow> string \<Rightarrow> 'q res" where
  "Csr_fromDERFile B J filename = bindR (FileBio_new B filename READ BINARY) (ossl_d2i_X509_REQ_bio J)"

interpretation csr: pem_object Csr_fromPEM Csr_toPEM
  by unfold_locales (simp_all add: Csr_fromPEM_def Csr_toPEM_def ossl_simps [abs_def])

section \<open>What OpenSSL documents\<close>

text \<open>
  \<open>rv_signed\<close> is the key and digest a request was signed with; a signing context is set up for
  a key and a digest, none exactly for the keys on Edwards curves.  A request verifies with
  the public part of the key it was signed with and no other.
\<close>

record 'k req_view =
  rv_subject :: "(int \<times> bytes) list"
  rv_pubkey :: 'k
  rv_signed :: "('k \<times> EVP_MD option) option"

definition req_laws ::
  "('q, 'n, 'k, 'd) req_lib \<Rightarrow> ('q \<Rightarrow> 'k req_view) \<Rightarrow> ('n \<Rightarrow> (int \<times> bytes) list) \<Rightarrow> ('k \<Rightarrow> 'k) \<Rightarrow>
     ('d \<Rightarrow> 'k \<times> EVP_MD option) \<Rightarrow> bool" where
  "req_laws R rview entries pub dsig \<longleftrightarrow>
     SSL_X509_REQ_new R \<noteq> None
     \<and> (\<forall>q v. \<exists>q'. SSL_X509_REQ_set_version R q v = (1, q') \<and> rview q' = rview q)
     \<and> (\<forall>q n. \<exists>q'. SSL_X509_REQ_set_subject_name R q n = (1, q') \<and> rview q' = (rview q)\<lparr>rv_subject := entries n\<rparr>)
     \<and> (\<forall>q k. \<exists>q'. SSL_X509_REQ_set_pubkey R q k = (1, q') \<and> rview q' = (rview q)\<lparr>rv_pubkey := pub k\<rparr>)
     \<and> (\<forall>q d. \<exists>n q'. SSL_X509_REQ_sign_ctx R q d = (n, q') \<and> n > 0 \<and> rview q' = (rview q)\<lparr>rv_signed := Some (dsig d)\<rparr>)
     \<and> (\<forall>q. \<exists>n. SSL_X509_REQ_get_subject_name R q = Some n \<and> entries n = rv_subject (rview q))
     \<and> (\<forall>q. SSL_X509_REQ_get_pubkey R q = Some (rv_pubkey (rview q)))
     \<and> (\<forall>q k. SSL_X509_REQ_verify R q k = 1 \<longleftrightarrow> (\<exists>k' md. rv_signed (rview q) = Some (k', md) \<and> pub k' = k))"

definition sign_ctx_laws ::
  "('k, 'ec, 'g, 'c) pkey_lib \<Rightarrow> 'd digest_lib \<Rightarrow> ('k, 'd) eddsa_lib \<Rightarrow> ('k \<Rightarrow> KeyTypes) \<Rightarrow>
     ('d \<Rightarrow> 'k \<times> EVP_MD option) \<Rightarrow> bool" where
  "sign_ctx_laws P M X kind dsig \<longleftrightarrow>
     (\<forall>k. SSL_EVP_PKEY_type_of_id P k \<in> (case kind k of RSA \<Rightarrow> {EVP_PKEY_RSA} | ECC \<Rightarrow> {EVP_PKEY_EC}
        | ECC_ED \<Rightarrow> {EVP_PKEY_ED25519, EVP_PKEY_ED448}))
     \<and> SSL_EVP_MD_CTX_create M \<noteq> None
     \<and> (\<forall>d md k. (kind k = ECC_ED \<longleftrightarrow> md = None) \<longrightarrow>
          (\<exists>d'. SSL_EVP_DigestSignInit X d md k = (1, d') \<and> dsig d' = (k, md)))"

lemmas reqD = req_laws_def [THEN iffD1]
lemmas req_newD = reqD [THEN conjunct1]
  and req_versionD = reqD [THEN conjunct2, THEN conjunct1, rule_format]
  and req_set_subjectD = reqD [THEN conjunct2, THEN conjunct2, THEN conjunct1, rule_format]
  and req_set_pubkeyD = reqD [THEN conjunct2, THEN conjunct2, THEN conjunct2, THEN conjunct1, rule_format]
  and req_signD = reqD [THEN conjunct2, THEN conjunct2, THEN conjunct2, THEN conjunct2,
    THEN conjunct1, rule_format]
  and req_subjectD = reqD [THEN conjunct2, THEN conjunct2, THEN conjunct2, THEN conjunct2,
    THEN conjunct2, THEN conjunct1, rule_format]
  and req_pubkeyD = reqD [THEN conjunct2, THEN conjunct2, THEN conjunct2, THEN conjunct2,
    THEN conjunct2, THEN conjunct2, THEN conjunct1, rule_format]
  and req_verifyD = reqD [THEN conjunct2, THEN conjunct2, THEN conjunct2, THEN conjunct2,
    THEN conjunct2, THEN conjunct2, THEN conjunct2, rule_format]

lemma getType_kind:
  "sign_ctx_laws P M X kind dsig \<Longrightarrow> getType P k = Inr (kind k)"
proof -
  assume "sign_ctx_laws P M X kind dsig"
  then have "SSL_EVP_PKEY_type_of_id P k \<in> (case kind k of RSA \<Rightarrow> {EVP_PKEY_RSA} | ECC \<Rightarrow> {EVP_PKEY_EC}
      | ECC_ED \<Rightarrow> {EVP_PKEY_ED25519, EVP_PKEY_ED448})" by (simp add: sign_ctx_laws_def)
  then show ?thesis by (cases "kind k") (auto simp: getType_def ossl_simps pkey_types)
qed

lemma sign_init_ok:
  assumes "sign_ctx_laws P M X kind dsig" "t \<noteq> NONE"
  shows "\<exists>d0 d md. ossl_EVP_MD_CTX_create M = Inr d0
     \<and> ossl_EVP_DigestSignInit X (if kind k = ECC_ED then NONE else t) k d0 = Inr d \<and> dsig d = (k, md)"
proof -
  obtain d0 where d0: "SSL_EVP_MD_CTX_create M = Some d0" using assms(1) by (auto simp: sign_ctx_laws_def)
  obtain md where md: "optional_md (if kind k = ECC_ED then NONE else t) = Inr md" "kind k = ECC_ED \<longleftrightarrow> md = None"
  proof (cases "kind k = ECC_ED")
    case True
    then show thesis using that [of None] by (simp add: optional_md_def)
  next
    case False
    obtain m where "getMDPtrFromDigestType t = Inr m" using assms(2) by (cases t) auto
    then show thesis using that [of "Some m"] False assms(2) by (simp add: optional_md_def)
  qed
  then obtain d where "SSL_EVP_DigestSignInit X d0 md k = (1, d)" "dsig d = (k, md)"
    using assms(1) unfolding sign_ctx_laws_def by blast
  with d0 md(1) show ?thesis by (auto simp: ossl_EVP_MD_CTX_create_def ossl_EVP_DigestSignInit_def)
qed

section \<open>A request says what it was made for\<close>

lemma Csr_new_ok:
  assumes "req_laws R rview entries pub dsig" "sign_ctx_laws P M X kind dsig"
    and "name_laws N content entries good" "t \<noteq> NONE"
    and "\<forall>(i, s) \<in> set (attributes dn). s \<noteq> [] \<longrightarrow> good (nid_value i) (string_bytes s)"
  shows "\<exists>q md. Csr_new R N P M X dn k t = Inr q
     \<and> rview q = \<lparr>rv_subject = entries_of (written dn), rv_pubkey = pub k, rv_signed = Some (k, md)\<rparr>"
proof -
  obtain q0 where q0: "SSL_X509_REQ_new R = Some q0" using req_newD [OF assms(1)] by blast
  obtain q1 where q1: "SSL_X509_REQ_set_version R q0 0 = (1, q1)" using req_versionD [OF assms(1)] by blast
  obtain n0 where n0: "SSL_X509_NAME_new N = Some n0" "entries n0 = []" using name_newD [OF assms(3)] by blast
  obtain n1 where n1: "populateX509Name N dn n0 = (Inr (), n1)" "entries n1 = entries_of (written dn)"
    using populate_ok [OF assms(3) n0(2) assms(5)] by blast
  obtain q2 where q2: "SSL_X509_REQ_set_subject_name R q1 n1 = (1, q2)"
    "rview q2 = (rview q1)\<lparr>rv_subject := entries n1\<rparr>" using req_set_subjectD [OF assms(1)] by blast
  obtain q3 where q3: "SSL_X509_REQ_set_pubkey R q2 k = (1, q3)"
    "rview q3 = (rview q2)\<lparr>rv_pubkey := pub k\<rparr>" using req_set_pubkeyD [OF assms(1)] by blast
  obtain d0 d md where d: "ossl_EVP_MD_CTX_create M = Inr d0"
    "ossl_EVP_DigestSignInit X (if kind k = ECC_ED then NONE else t) k d0 = Inr d" "dsig d = (k, md)"
    using sign_init_ok [OF assms(2,4)] by blast
  obtain n q4 where q4: "SSL_X509_REQ_sign_ctx R q3 d = (n, q4)" "n > 0"
    "rview q4 = (rview q3)\<lparr>rv_signed := Some (dsig d)\<rparr>" using req_signD [OF assms(1)] by blast
  have "Csr_new R N P M X dn k t = Inr q4"
    using q0 q1 n0(1) n1(1) q2(1) q3(1) d(1,2) q4(1,2) getType_kind [OF assms(2), of k]
    by (simp add: Csr_new_def ossl_X509_REQ_new_def ossl_X509_REQ_set_version_def ossl_X509_NAME_new_def
        ossl_X509_REQ_set_subject_name_def ossl_X509_REQ_set_pubkey_def ossl_X509_REQ_sign_ctx_def
        checkC_def Let_def)
  moreover have "rview q4 = \<lparr>rv_subject = entries_of (written dn), rv_pubkey = pub k, rv_signed = Some (k, md)\<rparr>"
    using q2(2) q3(2) q4(3) n1(2) d(3) by (cases "rview q1") simp
  ultimately show ?thesis by blast
qed

lemma Csr_read_ok:
  assumes "req_laws R rview entries pub dsig"
  shows "Csr_getPublicKey R q = Inr (rv_pubkey (rview q))"
    "Csr_verify R q = (if \<exists>k' md. rv_signed (rview q) = Some (k', md) \<and> pub k' = rv_pubkey (rview q) then Inr ()
       else Inl (MoCOCrWException generateOpenSSLErrorString))"
    "\<exists>n. ossl_X509_REQ_get_subject_name R q = Inr n \<and> entries n = rv_subject (rview q)"
  using req_pubkeyD [OF assms, of q] req_verifyD [OF assms, of q "rv_pubkey (rview q)"] req_subjectD [OF assms, of q]
  by (auto simp: Csr_getPublicKey_def Csr_verify_def ossl_simps OpenSSLException_default_def)

lemma Csr_PEM_DER_roundtrip:
  assumes "bio_laws B content" "pem_laws J content bm em complete bd" "der_laws J content complete der"
    and "complete q" "int (length (der q)) \<le> INT_MAX"
  shows "\<exists>pem. Csr_toPEM B J q = Some (Inr pem) \<and> Csr_fromPEM B J pem = Inr q"
    "\<exists>d. Csr_toDER B J q = Some (Inr d) \<and> Csr_fromDER B J d = Inr q"
  using csr.pem_roundtrip [OF assms(1,2,4)] der_printed [OF assms(1,3,4)] der_parsed [OF assms(1,3-5)]
  by (simp_all add: Csr_toDER_def Csr_fromDER_def ossl_simps [abs_def])

text \<open>
  C21: A request made for a name of the builders, with values OpenSSL admits, and a key pair of
  any kind, with any digest, verifies and carries the public key of the pair.  The subject read
  back has, for each attribute, the last value given if the name is in default order and the
  first one that is not empty if it is in custom order; so it is equal to the given name in
  default order, and in custom order if no attribute is given twice.  A request whose signature
  is not by the key it carries is refused with a \<open>MoCOCrWException\<close>.
\<close>

theorem CSR_states_name_and_key:
  assumes "req_laws R rview entries pub dsig" "sign_ctx_laws P M X kind dsig"
    and "name_laws N content entries good" "bio_laws B content" "t \<noteq> NONE" "built dn"
    and "\<forall>(i, s) \<in> set (attributes dn). s \<noteq> [] \<longrightarrow> good (nid_value i) (string_bytes s)"
  shows "(\<exists>q. Csr_new R N P M X dn k t = Inr q \<and> Csr_verify R q = Inr () \<and> Csr_getPublicKey R q = Inr (pub k)
       \<and> (\<exists>dn'. Csr_getSubjectName R N B q = Some (Inr dn')
            \<and> (\<forall>i. getAttributeByNIDAsString dn' i = read_value dn i)
            \<and> (\<not> customAttributeOrderFlag dn \<or> distinct (map fst (attributes dn)) \<longrightarrow> DN_eq dn dn')))
     \<and> (rv_signed (rview q') = Some (k', md) \<and> pub k' \<noteq> rv_pubkey (rview q') \<longrightarrow>
          Csr_verify R q' = Inl (MoCOCrWException generateOpenSSLErrorString))"
proof -
  obtain q md where q: "Csr_new R N P M X dn k t = Inr q"
    "rview q = \<lparr>rv_subject = entries_of (written dn), rv_pubkey = pub k, rv_signed = Some (k, md)\<rparr>"
    using Csr_new_ok [OF assms(1-3,5,7)] by blast
  obtain n where n: "ossl_X509_REQ_get_subject_name R q = Inr n" "entries n = entries_of (written dn)"
    using Csr_read_ok(3) [OF assms(1), of q] q(2) by auto
  have "Csr_getSubjectName R N B q = fromX509Name N B n" using n(1) by (simp add: Csr_getSubjectName_def)
  moreover have "Csr_verify R q = Inr ()" "Csr_getPublicKey R q = Inr (pub k)"
    using Csr_read_ok(1,2) [OF assms(1), of q] q(2) by auto
  ultimately show ?thesis
    using q(1) Csr_read_ok(2) [OF assms(1), of q'] populated_reads [OF assms(3,4,6) n(2)] by auto
qed

section \<open>A concrete instance\<close>

text \<open>
  A request as its view, a signing context as its key and digest.  The public part of a key
  has its lowest bit cleared.
\<close>

type_synonym ref_key = "Spec \<times> byte"

definition ref_public_part :: "ref_key \<Rightarrow> ref_key" where
  "ref_public_part k = (fst k, snd k AND 254)"

definition ref_kind :: "ref_key \<Rightarrow> KeyTypes" where
  "ref_kind k = (case fst k of RSASpec n \<Rightarrow> RSA | ECCSpec nid \<Rightarrow> if is_ed nid then ECC_ED else ECC)"

definition ref_req_lib ::
  "(ref_key req_view, (int \<times> bytes) list, ref_key, ref_key \<times> EVP_MD option) req_lib" where
  "ref_req_lib =
     \<lparr>SSL_X509_REQ_new = Some \<lparr>rv_subject = [], rv_pubkey = (RSASpec 0, 0), rv_signed = None\<rparr>,
      SSL_X509_REQ_set_version = (\<lambda>q v. (1, q)),
      SSL_X509_REQ_set_subject_name = (\<lambda>q n. (1, q\<lparr>rv_subject := n\<rparr>)),
      SSL_X509_REQ_set_pubkey = (\<lambda>q k. (1, q\<lparr>rv_pubkey := ref_public_part k\<rparr>)),
      SSL_X509_REQ_get_subject_name = (\<lambda>q. Some (rv_subject q)),
      SSL_X509_REQ_get_pubkey = (\<lambda>q. Some (rv_pubkey q)),
      SSL_X509_REQ_verify = (\<lambda>q k. case rv_signed q of Some (k', md) \<Rightarrow> if ref_public_part k' = k then 1 else 0 | None \<Rightarrow> 0),
      SSL_X509_REQ_sign_ctx = (\<lambda>q d. (64, q\<lparr>rv_signed := Some d\<rparr>))\<rparr>"

definition ref_sign_lib :: "(ref_key, ref_key \<times> EVP_MD option) eddsa_lib" where
  "ref_sign_lib =
     \<lparr>SSL_EVP_DigestSignInit = (\<lambda>d md k. if (ref_kind k = ECC_ED) = (md = None) then (1, (k, md)) else (0, d)),
      SSL_EVP_DigestSign_len = (\<lambda>d m. (1, 64)),
      SSL_EVP_DigestSign = (\<lambda>d m. (1, resize m 64)),
      SSL_EVP_DigestVerifyInit = (\<lambda>d md k. (1, (k, md))),
      SSL_EVP_DigestVerify = (\<lambda>d s m. if s = resize m 64 then 1 else 0)\<rparr>"

definition ref_sign_digest_lib :: "(ref_key \<times> EVP_MD option) digest_lib" where
  "ref_sign_digest_lib =
     \<lparr>SSL_EVP_MD_CTX_create = Some ((RSASpec 0, 0), None), SSL_EVP_MD_CTX_init = (\<lambda>c. c),
      SSL_EVP_DigestInit_ex = (\<lambda>c md. (1, c)), SSL_EVP_DigestUpdate = (\<lambda>c m. (1, c)),
      SSL_EVP_DigestFinal_ex = (\<lambda>c. (1, [], c))\<rparr>"

lemma ref_req_laws: "req_laws ref_req_lib id id ref_public_part id"
  by (auto simp: req_laws_def ref_req_lib_def split: option.splits)

lemma ref_sign_ctx_laws: "sign_ctx_laws ref_pkey_lib ref_sign_digest_lib ref_sign_lib ref_kind id"
  by (auto simp: sign_ctx_laws_def ref_pkey_lib_def ref_sign_digest_lib_def ref_sign_lib_def ref_kind_def
      is_ed_def curve_nids pkey_types split: Spec.splits)

theorem CSR_states_name_and_key_witness:
  "\<exists>q dn'. Csr_new ref_req_lib ref_name_lib ref_pkey_lib ref_sign_digest_lib ref_sign_lib ref_dn (ECCSpec Ed25519, 7) SHA256 = Inr q
     \<and> Csr_verify ref_req_lib q = Inr () \<and> Csr_getPublicKey ref_req_lib q = Inr (ECCSpec Ed25519, 6)
     \<and> Csr_getSubjectName ref_req_lib ref_name_lib ref_bio_lib q = Some (Inr dn') \<and> DN_eq ref_dn dn'"
proof -
  have d: "distinct (map fst (attributes ref_dn))"
    by (simp add: ref_dn_def emplace_back_def CustomOrderBuilder_new_def Builder_new_def)
  have "ref_public_part (ECCSpec Ed25519, 7) = (ECCSpec Ed25519, 6)" by (simp add: ref_public_part_def)
  with d CSR_states_name_and_key [OF ref_req_laws ref_sign_ctx_laws ref_name_laws ref_bio_laws _ ref_dn_built,
      of SHA256 "(ECCSpec Ed25519, 7)", THEN conjunct1]
  show ?thesis by auto
qed

end
