(* ===== verification/Cert_Authority.thy ===== *)
theory Cert_Authority
  imports Sign_Params X509_Verify X509_Csr
begin

unbundle bit_operations_syntax

text \<open>
  \<open>src/src/ca.cpp\<close>: the certificate authority.  It makes root certificates, issues
  certificates for signing requests and numbers them.  The state of a
  \<open>CertificateAuthority\<close> changes in one place, the serial number counter; a sequence of
  requests is a sequence of steps of that state.
\<close>

section \<open>CertificateAuthority\<close>

text \<open>The parts of OpenSSL the authority uses.\<close>

record ('x, 'n, 'k, 't, 'i, 'bn, 'q, 'd, 'r, 's, 'v, 'a, 'c, 'e) ca_lib =
  ca_cert :: "('x, 'n, 'k, 't, 'i) cert_lib"
  ca_int :: "('i, 'bn) int_lib"
  ca_time :: "'t time_lib"
  ca_ext :: "('x, 'e) ext_lib"
  ca_req :: "('q, 'n, 'k, 'd) req_lib"
  ca_verify :: "('x, 'r, 's, 'v, 'a, 'c) verify_lib"

record ('x, 'k, 't) CertificateAuthority =
  defaultSignParams :: "'t CertificateSigningParameters"
  nextSerialNumber :: "64 word"
  rootCert :: 'x
  privateKey :: 'k

definition certificateVersion :: int where "certificateVersion = 2"

definition err_ca_key :: exn where
  "err_ca_key = MoCOCrWException [Str ''Tried to initialize CA but private key didn't match certificate'']"

definition CA_new ::
  "('x, 'n, 'k, 't, 'i) cert_lib \<Rightarrow> ('k, 'ec, 'g, 'p) pkey_lib \<Rightarrow> 't CertificateSigningParameters \<Rightarrow>
     64 word \<Rightarrow> 'x \<Rightarrow> 'k \<Rightarrow> ('x, 'k, 't) CertificateAuthority res" where
  "CA_new L P defaultParams serial rootCertificate key =
     bindR (X509_getPublicKey L rootCertificate) (\<lambda>pk.
     bindR (publicKey_eq P key pk) (\<lambda>eq.
       if \<not> eq then Inl err_ca_key
       else Inr \<lparr>defaultSignParams = defaultParams, nextSerialNumber = serial,
                 rootCert = rootCertificate, privateKey = key\<rparr>))"

text \<open>An object a function makes for itself: an exception destroys it.\<close>

definition execS :: "('s, unit) st \<Rightarrow> 's \<Rightarrow> 's res" where
  "execS m s = (case m s of (Inl e, _) \<Rightarrow> Inl e | (Inr _, t) \<Rightarrow> Inr t)"

text \<open>The context of the extensions refers to the certificate under construction.\<close>

fun addExtensions :: "('x, 'e) ext_lib \<Rightarrow> (X509Extension_NID \<times> ExtensionBase) list \<Rightarrow> ('x, unit) st" where
  "addExtensions E [] cert = (Inr (), cert)"
| "addExtensions E (it # its) cert =
     bindS (liftS (buildExtension E (snd it) (ossl_X509V3_set_ctx None cert))) (\<lambda>extension.
     bindS (ossl_X509_add_ext E extension) (\<lambda>_. addExtensions E its)) cert"

definition signCertificate ::
  "('x, 'n, 'k, 't, 'i, 'bn, 'q, 'd, 'r, 's, 'v, 'a, 'c, 'e) ca_lib \<Rightarrow> int \<Rightarrow> 'k \<Rightarrow>
     't CertificateSigningParameters \<Rightarrow> ('x, unit) st" where
  "signCertificate C clock key signParams =
     bindS (liftS (notBeforeAsn1 (ca_time C) clock signParams)) (\<lambda>notBefore.
     bindS (liftS (Asn1Time_plus (ca_time C) notBefore (sp_certificateValidity signParams))) (\<lambda>notAfter.
     bindS (ossl_X509_set_notBefore_ASN1 (ca_cert C) notBefore) (\<lambda>_.
     bindS (ossl_X509_set_notAfter_ASN1 (ca_cert C) notAfter) (\<lambda>_.
     bindS (addExtensions (ca_ext C) (sp_extensions signParams)) (\<lambda>_.
       ossl_X509_sign (ca_cert C) key (sp_digestType signParams))))))"

definition err_ca_no_constraints :: exn where
  "err_ca_no_constraints = MoCOCrWException
     [Str ''Signing parameters for a CA must include X509v3 basic extension'']"
definition err_ca_not_ca :: exn where
  "err_ca_not_ca = MoCOCrWException [Str ''Signing parameters are not set for CA certificates'']"

definition createRootCertificate ::
  "('x, 'n, 'k, 't, 'i, 'bn, 'q, 'd, 'r, 's, 'v, 'a, 'c, 'e) ca_lib \<Rightarrow> ('n, 'ne, 'f, 'b) name_lib \<Rightarrow> int \<Rightarrow>
     'k \<Rightarrow> DistinguishedName \<Rightarrow> 64 word \<Rightarrow> 't CertificateSigningParameters \<Rightarrow> 'x res" where
  "createRootCertificate C N clock key dn serialNumber signParams =
     bindR (extension_BasicConstraints signParams) (\<lambda>basicConstraints.
       case basicConstraints of
         None \<Rightarrow> Inl err_ca_no_constraints
       | Some bc \<Rightarrow>
     if \<not> bc_ca bc then Inl err_ca_not_ca
     else bindR (create_X509 (ca_cert C)) (\<lambda>cert.
          bindR (ossl_X509_NAME_new N) (\<lambda>name.
          bindR (execS (populateX509Name N dn) name) (\<lambda>internalName.
            execS
             (bindS (ossl_X509_set_issuer_name (ca_cert C) internalName) (\<lambda>_.
              bindS (ossl_X509_set_subject_name (ca_cert C) internalName) (\<lambda>_.
              bindS (ossl_X509_set_pubkey (ca_cert C) key) (\<lambda>_.
              bindS (ossl_X509_set_serialNumber (ca_cert C) (ca_int C) serialNumber) (\<lambda>_.
              bindS (X509_set_version (ca_cert C) certificateVersion) (\<lambda>_.
                signCertificate C clock key signParams)))))) cert))))"

section \<open>Signing requests\<close>

definition newCertificate ::
  "('x, 'n, 'k, 't, 'i, 'bn, 'q, 'd, 'r, 's, 'v, 'a, 'c, 'e) ca_lib \<Rightarrow> int \<Rightarrow>
     ('x, 'k, 't) CertificateAuthority \<Rightarrow> 'q \<Rightarrow> 't CertificateSigningParameters \<Rightarrow> 'x res" where
  "newCertificate C clock ca csr signParams =
     bindR (ossl_X509_REQ_get_subject_name (ca_req C) csr) (\<lambda>subjectName.
     bindR (Csr_getPublicKey (ca_req C) csr) (\<lambda>publicKey.
     bindR (create_X509 (ca_cert C)) (\<lambda>cert.
       execS
        (bindS (ossl_X509_set_subject_name (ca_cert C) subjectName) (\<lambda>_.
         bindS (ossl_X509_set_pubkey (ca_cert C) publicKey) (\<lambda>_.
         bindS (liftS (ossl_X509_get_subject_name (ca_cert C) (rootCert ca))) (\<lambda>rootCertName.
         bindS (ossl_X509_set_issuer_name (ca_cert C) rootCertName) (\<lambda>_.
         bindS (ossl_X509_set_serialNumber (ca_cert C) (ca_int C) (nextSerialNumber ca)) (\<lambda>_.
         bindS (X509_set_version (ca_cert C) certificateVersion) (\<lambda>_.
           signCertificate C clock (privateKey ca) signParams))))))) cert)))"

definition err_ca_before :: exn where
  "err_ca_before = MoCOCrWException
     [Str ''CSR: Issued certificate can not be valid before issuing certificate (CA's cert)'']"
definition err_ca_after :: exn where
  "err_ca_after = MoCOCrWException
     [Str ''CSR: Certificate's validity period should not exceed the validity bounds of the issuing certificate (CA's cert).'']"

definition ca_context :: "'x \<Rightarrow> ('x, 'r) VerificationContext" where
  "ca_context root = addIntermediateCertificates [] (addTrustedCertificates [root] VerificationContext_new)"

text \<open>The checks in the \<open>try\<close> block.\<close>

definition checkIssued ::
  "('x, 'n, 'k, 't, 'i, 'bn, 'q, 'd, 'r, 's, 'v, 'a, 'c, 'e) ca_lib \<Rightarrow> 'x \<Rightarrow> 'x \<Rightarrow> unit res" where
  "checkIssued C root cert =
     (let L = ca_cert C; T = ca_time C in
      bindR (getNotBeforeAsn1 L T root) (\<lambda>rootNotBefore.
      bindR (getNotBeforeAsn1 L T cert) (\<lambda>notBefore.
      bindR (Asn1Time_greater T rootNotBefore notBefore) (\<lambda>before.
        if before then Inl err_ca_before
        else
      bindR (getNotAfterAsn1 L T root) (\<lambda>rootNotAfter.
      bindR (getNotAfterAsn1 L T cert) (\<lambda>notAfter.
      bindR (Asn1Time_less T rootNotAfter notAfter) (\<lambda>after.
        if after then Inl err_ca_after
        else
      bindR (getNotBeforeAsn1 L T cert) (\<lambda>notBefore.
      bindR (execS (setVerificationCheckTime T notBefore) (ca_context root)) (\<lambda>ctx.
      bindR (X509_verify (ca_verify C) ctx cert) (\<lambda>_.
      bindR (getNotAfterAsn1 L T cert) (\<lambda>notAfter.
      bindR (Asn1Time_minus_duration T notAfter 1) (\<lambda>last.
      bindR (execS (setVerificationCheckTime T last) ctx) (\<lambda>ctx.
        X509_verify (ca_verify C) ctx cert)))))))))))))"

definition catchMoCOCrW :: "'a res \<Rightarrow> (message \<Rightarrow> exn) \<Rightarrow> 'a res" where
  "catchMoCOCrW r h = (case r of Inl (MoCOCrWException m) \<Rightarrow> Inl (h m) | _ \<Rightarrow> r)"

definition err_ca_invalid :: "message \<Rightarrow> exn" where
  "err_ca_invalid m = MoCOCrWException
     (Str ''Certificate creation failed: the generated certificate is invalid: '' # m)"

definition signCSR_with ::
  "('x, 'n, 'k, 't, 'i, 'bn, 'q, 'd, 'r, 's, 'v, 'a, 'c, 'e) ca_lib \<Rightarrow> int \<Rightarrow> 'q \<Rightarrow>
     't CertificateSigningParameters \<Rightarrow> (('x, 'k, 't) CertificateAuthority, 'x) st" where
  "signCSR_with C clock csr signParams ca =
     (case newCertificate C clock ca csr signParams of
        Inl e \<Rightarrow> (Inl e, ca)
      | Inr cert \<Rightarrow>
     (case catchMoCOCrW (checkIssued C (rootCert ca) cert) err_ca_invalid of
        Inl e \<Rightarrow> (Inl e, ca)
      | Inr _ \<Rightarrow> (Inr cert, ca\<lparr>nextSerialNumber := nextSerialNumber ca + 1\<rparr>)))"

definition signCSR ::
  "('x, 'n, 'k, 't, 'i, 'bn, 'q, 'd, 'r, 's, 'v, 'a, 'c, 'e) ca_lib \<Rightarrow> int \<Rightarrow> 'q \<Rightarrow>
     (('x, 'k, 't) CertificateAuthority, 'x) st" where
  "signCSR C clock csr ca = signCSR_with C clock csr (defaultSignParams ca) ca"

definition getRootCertificate :: "('x, 'k, 't) CertificateAuthority \<Rightarrow> 'x" where
  "getRootCertificate ca = rootCert ca"
definition getSignParams :: "('x, 'k, 't) CertificateAuthority \<Rightarrow> 't CertificateSigningParameters" where
  "getSignParams ca = defaultSignParams ca"
definition getNextSerialNumber :: "('x, 'k, 't) CertificateAuthority \<Rightarrow> 64 word" where
  "getNextSerialNumber ca = nextSerialNumber ca"

section \<open>Issued certificates are checked, whatever OpenSSL does\<close>

lemma execS_Inr: "execS m s = Inr t \<longleftrightarrow> m s = (Inr (), t)"
  by (auto simp: execS_def split: prod.splits sum.splits)

lemma catchMoCOCrW_Inr [simp]: "catchMoCOCrW r h = Inr x \<longleftrightarrow> r = Inr x"
  by (auto simp: catchMoCOCrW_def split: sum.splits exn.splits)

lemma catchMoCOCrW_simps [simp]:
  "catchMoCOCrW (Inl (MoCOCrWException m)) h = Inl (h m)" "catchMoCOCrW (Inr x) h = Inr x"
  by (simp_all add: catchMoCOCrW_def)

lemma signCSR_result:
  "signCSR C clock csr ca = (Inr x, ca') \<longleftrightarrow>
     newCertificate C clock ca csr (defaultSignParams ca) = Inr x \<and> checkIssued C (rootCert ca) x = Inr ()
     \<and> ca' = ca\<lparr>nextSerialNumber := nextSerialNumber ca + 1\<rparr>"
  "signCSR C clock csr ca = (Inl e, ca') \<Longrightarrow> ca' = ca"
  by (auto simp: signCSR_def signCSR_with_def split: sum.splits)

lemma setVerificationCheckTime_result:
  "execS (setVerificationCheckTime T t) ctx = Inr ctx' \<longleftrightarrow>
     (\<exists>s. Asn1Time_toTimeT T t = Inr s \<and> ctx' = ctx\<lparr>verificationCheckTime := Some s\<rparr>)"
  by (auto simp: execS_Inr setVerificationCheckTime_def bindS_eq_Inr)

lemma newCertificate_serial:
  "newCertificate C clock ca csr sp = Inr x \<Longrightarrow> uint (nextSerialNumber ca) \<le> LONG_MAX"
  by (rule ccontr)
    (auto simp: newCertificate_def bindR_eq_Inr execS_Inr bindS_eq_Inr ossl_X509_set_serialNumber_def)

text \<open>
  C5: For any behaviour of OpenSSL: a request that ends in an exception leaves the authority as it
  was.  A certificate is only issued if it starts no earlier and ends no later than the root
  certificate, the verification against the root alone succeeded at both ends of its validity
  and its serial number was at most \<open>LONG_MAX\<close>; then the counter, and nothing else of
  the authority, is incremented.
\<close>

theorem CA_issues_only_verified:
  assumes "signCSR C clock csr ca = (r, ca')"
  shows "case r of
      Inl e \<Rightarrow> ca' = ca
    | Inr x \<Rightarrow> ca' = ca\<lparr>nextSerialNumber := nextSerialNumber ca + 1\<rparr> \<and> uint (nextSerialNumber ca) \<le> LONG_MAX
        \<and> (\<exists>rb ra b a last tb ta.
             getNotBeforeAsn1 (ca_cert C) (ca_time C) (rootCert ca) = Inr rb
           \<and> getNotAfterAsn1 (ca_cert C) (ca_time C) (rootCert ca) = Inr ra
           \<and> getNotBeforeAsn1 (ca_cert C) (ca_time C) x = Inr b \<and> getNotAfterAsn1 (ca_cert C) (ca_time C) x = Inr a
           \<and> Asn1Time_greater (ca_time C) rb b = Inr False \<and> Asn1Time_less (ca_time C) ra a = Inr False
           \<and> Asn1Time_toTimeT (ca_time C) b = Inr tb
           \<and> X509_verify (ca_verify C) ((ca_context (rootCert ca))\<lparr>verificationCheckTime := Some tb\<rparr>) x = Inr ()
           \<and> Asn1Time_minus_duration (ca_time C) a 1 = Inr last \<and> Asn1Time_toTimeT (ca_time C) last = Inr ta
           \<and> X509_verify (ca_verify C) ((ca_context (rootCert ca))\<lparr>verificationCheckTime := Some ta\<rparr>) x = Inr ())"
proof (cases r)
  case (Inr x)
  with assms have "newCertificate C clock ca csr (defaultSignParams ca) = Inr x" "checkIssued C (rootCert ca) x = Inr ()"
    "ca' = ca\<lparr>nextSerialNumber := nextSerialNumber ca + 1\<rparr>"
    using signCSR_result(1) by metis+
  with Inr newCertificate_serial show ?thesis
    by (fastforce simp: checkIssued_def Let_def bindR_eq_Inr setVerificationCheckTime_result split: if_splits)
qed (use assms signCSR_result(2) in auto)

section \<open>What OpenSSL documents\<close>

text \<open>
  \<open>mk\<close> is the extension OpenSSL makes for a certificate's public key from an identifier and a
  \<open>valid\<close> configuration string.  A new certificate has no extensions; a copy of a time is the
  same time; signing, even if it fails, does not touch the serial number; the public part of a
  public key is itself.
\<close>

definition ext_laws ::
  "('x, 'e) ext_lib \<Rightarrow> ('x \<Rightarrow> ('k, 'e) cert_view) \<Rightarrow> ('k \<Rightarrow> int \<Rightarrow> string \<Rightarrow> 'e) \<Rightarrow> (int \<Rightarrow> string \<Rightarrow> bool) \<Rightarrow> bool" where
  "ext_laws E view mk valid \<longleftrightarrow>
     (\<forall>ctx nid conf. valid nid conf \<longrightarrow>
        SSL_X509V3_EXT_conf_nid E ctx nid conf = Some (mk (cv_pubkey (view (v3_subject_cert ctx))) nid conf))
     \<and> (\<forall>x e. \<exists>y. SSL_X509_add_ext E x e (- 1) = (1, y)
          \<and> view y = (view x)\<lparr>cv_extensions := cv_extensions (view x) @ [e]\<rparr>)"

text \<open>
  The verdict on a certificate against one trusted certificate with another subject, without
  CRLs: it must name the trusted one as its issuer and be signed with its key, both must be
  valid at the time, from \<open>notBefore\<close> to before \<open>notAfter\<close>, and the trusted certificate must
  permit it: be a CA, allow the path length and so on.
\<close>

definition valid_at :: "int \<Rightarrow> ('k, 'e) cert_view \<Rightarrow> bool" where
  "valid_at t v \<longleftrightarrow> cv_notBefore v \<le> t \<and> t < cv_notAfter v"

definition issued_by :: "('k \<Rightarrow> 'k) \<Rightarrow> ('k, 'e) cert_view \<Rightarrow> ('k, 'e) cert_view \<Rightarrow> bool" where
  "issued_by pub r v \<longleftrightarrow> cv_issuer v = cv_subject r
     \<and> (case cv_signature v of None \<Rightarrow> False | Some (k, md) \<Rightarrow> pub k = cv_pubkey r)"

definition single_root_law ::
  "('x \<Rightarrow> ('k, 'e) cert_view) \<Rightarrow> ('k \<Rightarrow> 'k) \<Rightarrow> (('k, 'e) cert_view \<Rightarrow> ('k, 'e) cert_view \<Rightarrow> bool) \<Rightarrow>
     64 word \<Rightarrow> (('x, 'r) verify_view \<Rightarrow> bool) \<Rightarrow> bool" where
  "single_root_law view pub permits f0 accept \<longleftrightarrow>
     (\<forall>root x t. cv_subject (view x) \<noteq> cv_subject (view root) \<longrightarrow>
        (accept \<lparr>vv_trusted = [root], vv_target = x, vv_untrusted = [],
                 vv_flags = f0 OR (PARTIAL_CHAIN OR USE_CHECK_TIME), vv_time = Some t, vv_crls = []\<rparr>
         \<longleftrightarrow> issued_by pub (view root) (view x) \<and> permits (view root) (view x)
             \<and> valid_at t (view root) \<and> valid_at t (view x)))"

definition ca_make_laws ::
  "('x, 'n, 'k, 't, 'i, 'bn, 'q, 'd, 'r, 's, 'v, 'a, 'c, 'e) ca_lib \<Rightarrow> ('x \<Rightarrow> ('k, 'e) cert_view) \<Rightarrow>
     ('n \<Rightarrow> (int \<times> bytes) list) \<Rightarrow> ('k \<Rightarrow> 'k) \<Rightarrow> ('t \<Rightarrow> int) \<Rightarrow> ('i \<Rightarrow> int) \<Rightarrow> ('bn \<Rightarrow> int) \<Rightarrow>
     ('k \<Rightarrow> EVP_MD \<Rightarrow> bool) \<Rightarrow> ('k \<Rightarrow> int \<Rightarrow> string \<Rightarrow> 'e) \<Rightarrow> (int \<Rightarrow> string \<Rightarrow> bool) \<Rightarrow> bool" where
  "ca_make_laws C view entries pub secs ival bval signs mk valid \<longleftrightarrow>
     cert_set_laws (ca_cert C) view entries pub secs ival signs
     \<and> cert_get_laws (ca_cert C) view entries secs ival
     \<and> int_laws (ca_int C) ival bval
     \<and> time_laws (ca_time C) secs
     \<and> ext_laws (ca_ext C) view mk valid
     \<and> (\<forall>x. SSL_X509_new (ca_cert C) = Some x \<longrightarrow> cv_extensions (view x) = [])
     \<and> (\<forall>t. \<exists>u. SSL_ASN1_STRING_dup (ca_time C) t = Some u \<and> secs u = secs t)
     \<and> (\<forall>x k md. cv_serial (view (snd (SSL_X509_sign (ca_cert C) x k md))) = cv_serial (view x))
     \<and> (\<forall>k. pub (pub k) = pub k)"

lemmas ca_makeD = ca_make_laws_def [THEN iffD1]
lemmas ca_setD = ca_makeD [THEN conjunct1]
  and ca_getD = ca_makeD [THEN conjunct2, THEN conjunct1]
  and ca_intD = ca_makeD [THEN conjunct2, THEN conjunct2, THEN conjunct1]
  and ca_timeD = ca_makeD [THEN conjunct2, THEN conjunct2, THEN conjunct2, THEN conjunct1]
  and ca_extD = ca_makeD [THEN conjunct2, THEN conjunct2, THEN conjunct2, THEN conjunct2, THEN conjunct1]
  and ca_freshD = ca_makeD [THEN conjunct2, THEN conjunct2, THEN conjunct2, THEN conjunct2,
    THEN conjunct2, THEN conjunct1, rule_format]
  and ca_dupD = ca_makeD [THEN conjunct2, THEN conjunct2, THEN conjunct2, THEN conjunct2,
    THEN conjunct2, THEN conjunct2, THEN conjunct1, rule_format]
  and ca_signD = ca_makeD [THEN conjunct2, THEN conjunct2, THEN conjunct2, THEN conjunct2,
    THEN conjunct2, THEN conjunct2, THEN conjunct2, THEN conjunct1, rule_format]
  and ca_pubD = ca_makeD [THEN conjunct2, THEN conjunct2, THEN conjunct2, THEN conjunct2,
    THEN conjunct2, THEN conjunct2, THEN conjunct2, THEN conjunct2, rule_format]

section \<open>Updates of a certificate under construction\<close>

text \<open>\<open>updates view m f\<close>: the operation always succeeds and changes what the object says by \<open>f\<close>.\<close>

definition updates :: "('x \<Rightarrow> 'w) \<Rightarrow> ('x, unit) st \<Rightarrow> ('w \<Rightarrow> 'w) \<Rightarrow> bool" where
  "updates view m f \<longleftrightarrow> (\<forall>x. \<exists>y. m x = (Inr (), y) \<and> view y = f (view x))"

lemma updates_bind:
  "updates view m f \<Longrightarrow> updates view m' g \<Longrightarrow> updates view (bindS m (\<lambda>_. m')) (\<lambda>v. g (f v))"
  unfolding updates_def bindS_def by (metis (no_types, lifting) case_prod_conv old.sum.simps(6))

lemma updates_lift: "r = Inr a \<Longrightarrow> updates view (m a) f \<Longrightarrow> updates view (bindS (liftS r) m) f"
  by (simp add: updates_def bindS_def)

lemma updates_exec: "updates view m f \<Longrightarrow> \<exists>y. execS m x = Inr y \<and> view y = f (view x)"
  unfolding updates_def execS_Inr by blast

lemma updates_call:
  assumes "\<And>x. \<exists>y. g x = (1, y) \<and> view y = f (view x)" "\<And>x. m x = checkS OpensslCallIsOne (g x)"
  shows "updates view m f"
  unfolding updates_def
proof
  fix x
  obtain y where "g x = (1, y)" "view y = f (view x)" using assms(1) by blast
  with assms(2) show "\<exists>y. m x = (Inr (), y) \<and> view y = f (view x)" by simp
qed

lemma updates_setters:
  assumes "cert_set_laws L view entries pub secs ival signs"
  shows "updates view (ossl_X509_set_subject_name L n) (\<lambda>v. v\<lparr>cv_subject := entries n\<rparr>)"
    "updates view (ossl_X509_set_issuer_name L n) (\<lambda>v. v\<lparr>cv_issuer := entries n\<rparr>)"
    "updates view (ossl_X509_set_pubkey L k) (\<lambda>v. v\<lparr>cv_pubkey := pub k\<rparr>)"
    "updates view (ossl_X509_set_notBefore_ASN1 L t) (\<lambda>v. v\<lparr>cv_notBefore := secs t\<rparr>)"
    "updates view (ossl_X509_set_notAfter_ASN1 L t) (\<lambda>v. v\<lparr>cv_notAfter := secs t\<rparr>)"
  by (rule updates_call, (rule set_subjectD [OF assms] set_issuerD [OF assms] set_pubkeyD [OF assms]
        set_notBeforeD [OF assms] set_notAfterD [OF assms]), simp add: ossl_simps)+

lemma updates_version:
  assumes "cert_set_laws L view entries pub secs ival signs"
  shows "updates view (X509_set_version L i) (\<lambda>v. v\<lparr>cv_version := i\<rparr>)"
  unfolding updates_def X509_set_version_def
proof
  fix x
  obtain rv y where "SSL_X509_set_version L x i = (rv, y)" "view y = (view x)\<lparr>cv_version := i\<rparr>"
    using set_versionD [OF assms] by blast
  then show "\<exists>y. (Inr (), snd (SSL_X509_set_version L x i)) = (Inr (), y) \<and> view y = (view x)\<lparr>cv_version := i\<rparr>"
    by simp
qed

lemma updates_serial:
  assumes "cert_set_laws L view entries pub secs ival signs" "int_laws I ival bval" "uint s \<le> LONG_MAX"
  shows "updates view (ossl_X509_set_serialNumber L I s) (\<lambda>v. v\<lparr>cv_serial := uint s\<rparr>)"
  using set_serial_ok [OF assms] by (simp add: updates_def)

lemma updates_sign:
  assumes "cert_set_laws L view entries pub secs ival signs" "getMDPtrFromDigestType d = Inr md" "signs k md"
  shows "updates view (ossl_X509_sign L k d) (\<lambda>v. v\<lparr>cv_signature := Some (k, md)\<rparr>)"
  unfolding updates_def
proof
  fix x
  obtain n y where "SSL_X509_sign L x k md = (n, y)" "n > 0" "view y = (view x)\<lparr>cv_signature := Some (k, md)\<rparr>"
    using X509_Cert.signD [OF assms(1,3)] by blast
  with assms(2) show "\<exists>y. ossl_X509_sign L k d x = (Inr (), y) \<and> view y = (view x)\<lparr>cv_signature := Some (k, md)\<rparr>"
    by (simp add: ossl_X509_sign_def bindS_def)
qed

lemma updates_extensions:
  assumes "ext_laws E view mk valid"
    and "\<forall>(i, e) \<in> set its. valid (ext_nid_value (getNid e)) (getConfigurationString e)"
  shows "updates view (addExtensions E its)
     (\<lambda>v. v\<lparr>cv_extensions := cv_extensions v @
        map (\<lambda>(i, e). mk (cv_pubkey v) (ext_nid_value (getNid e)) (getConfigurationString e)) its\<rparr>)"
  unfolding updates_def
proof
  fix x
  show "\<exists>y. addExtensions E its x = (Inr (), y) \<and> view y = (view x)\<lparr>cv_extensions := cv_extensions (view x) @
      map (\<lambda>(i, e). mk (cv_pubkey (view x)) (ext_nid_value (getNid e)) (getConfigurationString e)) its\<rparr>"
    using assms(2)
  proof (induction its arbitrary: x)
    case (Cons it its)
    obtain i e where it: "it = (i, e)" by (cases it)
    let ?ex = "mk (cv_pubkey (view x)) (ext_nid_value (getNid e)) (getConfigurationString e)"
    have "valid (ext_nid_value (getNid e)) (getConfigurationString e)" using Cons.prems it by simp
    then have b: "buildExtension E e (ossl_X509V3_set_ctx None x) = Inr ?ex"
      using assms(1)
      by (simp add: ext_laws_def buildExtension_def ossl_X509V3_EXT_conf_nid_def c_str_id [OF config_no_null]
          ossl_X509V3_set_ctx_def)
    obtain y where y: "SSL_X509_add_ext E x ?ex (- 1) = (1, y)"
        "view y = (view x)\<lparr>cv_extensions := cv_extensions (view x) @ [?ex]\<rparr>"
      using assms(1) unfolding ext_laws_def by blast
    obtain z where z: "addExtensions E its y = (Inr (), z)" "view z = (view y)\<lparr>cv_extensions := cv_extensions (view y) @
        map (\<lambda>(i, e). mk (cv_pubkey (view y)) (ext_nid_value (getNid e)) (getConfigurationString e)) its\<rparr>"
      using Cons by auto
    have "addExtensions E (it # its) x = (Inr (), z)"
      using b y(1) z(1) it by (simp add: bindS_def ossl_X509_add_ext_def)
    with z(2) y(2) it show ?case by simp
  qed simp
qed

text \<open>What the signing parameters require: a start and an end that exist, a usable digest, valid extensions.\<close>

definition signable ::
  "'t time_lib \<Rightarrow> ('t \<Rightarrow> int) \<Rightarrow> ('k \<Rightarrow> EVP_MD \<Rightarrow> bool) \<Rightarrow> (int \<Rightarrow> string \<Rightarrow> bool) \<Rightarrow> int \<Rightarrow> 'k \<Rightarrow>
     't CertificateSigningParameters \<Rightarrow> int \<Rightarrow> EVP_MD \<Rightarrow> bool" where
  "signable T secs signs valid clock k sp start md \<longleftrightarrow>
     (\<exists>t. notBeforeAsn1 T clock sp = Inr t \<and> secs t = start)
     \<and> YEAR_1900 < start + sp_certificateValidity sp \<and> start + sp_certificateValidity sp \<le> maxAsn1TimeAsTimeT
     \<and> getMDPtrFromDigestType (sp_digestType sp) = Inr md \<and> signs k md
     \<and> (\<forall>(i, e) \<in> set (sp_extensions sp). valid (ext_nid_value (getNid e)) (getConfigurationString e))"

definition ext_list ::
  "('k \<Rightarrow> int \<Rightarrow> string \<Rightarrow> 'e) \<Rightarrow> 'k \<Rightarrow> 't CertificateSigningParameters \<Rightarrow> 'e list" where
  "ext_list mk k sp = map (\<lambda>(i, e). mk k (ext_nid_value (getNid e)) (getConfigurationString e)) (sp_extensions sp)"

lemma updates_signCertificate:
  assumes "ca_make_laws C view entries pub secs ival bval signs mk valid"
    and "signable (ca_time C) secs signs valid clock k sp start md"
  shows "updates view (signCertificate C clock k sp)
     (\<lambda>v. v\<lparr>cv_notBefore := start, cv_notAfter := start + sp_certificateValidity sp,
        cv_extensions := cv_extensions v @ ext_list mk (cv_pubkey v) sp, cv_signature := Some (k, md)\<rparr>)"
proof -
  note set = ca_setD [OF assms(1)]
  obtain t where t: "notBeforeAsn1 (ca_time C) clock sp = Inr t" "secs t = start"
    using assms(2) unfolding signable_def by blast
  obtain u where u: "Asn1Time_plus (ca_time C) t (sp_certificateValidity sp) = Inr u"
      "secs u = start + sp_certificateValidity sp"
    using plus_ok [OF ca_timeD [OF assms(1)], of t "sp_certificateValidity sp"] assms(2) t(2)
    by (auto simp: signable_def split: if_splits)
  have s: "getMDPtrFromDigestType (sp_digestType sp) = Inr md" "signs k md"
    "\<forall>(i, e) \<in> set (sp_extensions sp). valid (ext_nid_value (getNid e)) (getConfigurationString e)"
    using assms(2) unfolding signable_def by blast+
  note ups = updates_bind [OF updates_setters(4) [OF set, of t] updates_bind [OF updates_setters(5) [OF set, of u]
      updates_bind [OF updates_extensions [OF ca_extD [OF assms(1)] s(3)] updates_sign [OF set s(1,2)]]]]
  show ?thesis
    unfolding signCertificate_def
    by (rule updates_lift [OF t(1)], rule updates_lift [OF u(1)])
      (use ups in \<open>simp add: ext_list_def t(2) u(2)\<close>)
qed

section \<open>Which requests are granted\<close>

lemma newCertificate_ok:
  assumes laws: "ca_make_laws C view entries pub secs ival bval signs mk valid" "req_laws (ca_req C) rview entries pub' dsig"
    and "signable (ca_time C) secs signs valid clock (privateKey ca) sp start md"
    and "uint (nextSerialNumber ca) \<le> LONG_MAX"
  shows "\<exists>x. newCertificate C clock ca csr sp = Inr x \<and> view x =
     \<lparr>cv_subject = rv_subject (rview csr), cv_issuer = cv_subject (view (rootCert ca)),
      cv_pubkey = pub (rv_pubkey (rview csr)), cv_notBefore = start,
      cv_notAfter = start + sp_certificateValidity sp, cv_serial = uint (nextSerialNumber ca), cv_version = 2,
      cv_extensions = ext_list mk (pub (rv_pubkey (rview csr))) sp, cv_signature = Some (privateKey ca, md)\<rparr>"
proof -
  note set = ca_setD [OF laws(1)]
  obtain n where n: "ossl_X509_REQ_get_subject_name (ca_req C) csr = Inr n" "entries n = rv_subject (rview csr)"
    using Csr_read_ok(3) [OF laws(2)] by blast
  obtain r where r: "SSL_X509_get_subject_name (ca_cert C) (rootCert ca) = Some r"
      "entries r = cv_subject (view (rootCert ca))"
    using get_subjectD [OF ca_getD [OF laws(1)]] by blast
  then have r1: "ossl_X509_get_subject_name (ca_cert C) (rootCert ca) = Inr r" by (simp add: ossl_simps)
  obtain x0 where x0: "SSL_X509_new (ca_cert C) = Some x0" using x509_newD [OF ca_getD [OF laws(1)]] by blast
  have iss: "updates view (bindS (liftS (ossl_X509_get_subject_name (ca_cert C) (rootCert ca)))
        (\<lambda>rn. bindS (ossl_X509_set_issuer_name (ca_cert C) rn) (\<lambda>_. m))) (\<lambda>v. f (v\<lparr>cv_issuer := entries r\<rparr>))"
    if "updates view m f" for m f
    by (rule updates_lift [OF r1]) (rule updates_bind [OF updates_setters(2) [OF set] that])
  note ups = updates_bind [OF updates_setters(1) [OF set, of n] updates_bind [OF updates_setters(3) [OF set,
      of "rv_pubkey (rview csr)"] iss [OF updates_bind [OF updates_serial [OF set ca_intD [OF laws(1)] assms(4)]
      updates_bind [OF updates_version [OF set, of certificateVersion] updates_signCertificate [OF laws(1) assms(3)]]]]]]
  from updates_exec [OF ups, where x = x0] show ?thesis
    using x0 n ca_freshD [OF laws(1) x0] r(2) Csr_read_ok(1) [OF laws(2), of csr]
    by (cases "view x0") (auto simp: newCertificate_def create_X509_def certificateVersion_def)
qed

lemma validity_times:
  assumes "ca_make_laws C view entries pub secs ival bval signs mk valid"
  shows "\<exists>t. getNotBeforeAsn1 (ca_cert C) (ca_time C) x = Inr t \<and> secs t = cv_notBefore (view x)"
    "\<exists>t. getNotAfterAsn1 (ca_cert C) (ca_time C) x = Inr t \<and> secs t = cv_notAfter (view x)"
proof -
  have dup: "\<exists>u. Asn1Time_copy (ca_time C) t = Inr u \<and> secs u = secs t" for t
    using ca_dupD [OF assms, of t] by (auto simp: Asn1Time_copy_def ossl_ASN1_TIME_copy_def)
  show "\<exists>t. getNotBeforeAsn1 (ca_cert C) (ca_time C) x = Inr t \<and> secs t = cv_notBefore (view x)"
    using get_notBeforeD [OF ca_getD [OF assms], of x] dup by (fastforce simp: getNotBeforeAsn1_def ossl_simps)
  show "\<exists>t. getNotAfterAsn1 (ca_cert C) (ca_time C) x = Inr t \<and> secs t = cv_notAfter (view x)"
    using get_notAfterD [OF ca_getD [OF assms], of x] dup by (fastforce simp: getNotAfterAsn1_def ossl_simps)
qed

lemma ca_context_request:
  "verify_request f0 ((ca_context root)\<lparr>verificationCheckTime := Some t\<rparr>) x =
     \<lparr>vv_trusted = [root], vv_target = x, vv_untrusted = [],
      vv_flags = f0 OR (PARTIAL_CHAIN OR USE_CHECK_TIME), vv_time = Some t, vv_crls = []\<rparr>"
  "validityCheck ((ca_context root)\<lparr>verificationCheckTime := Some t\<rparr>) = Inr ()"
  by (simp_all add: verify_request_def verify_flags_def ca_context_def addIntermediateCertificates_def
      addTrustedCertificates_def VerificationContext_new_def validityCheck_def)

lemma verify_single_root:
  assumes "verify_laws V sc ac cc vv f0 accept" "single_root_law view pub permits f0 accept"
    and "cv_subject (view x) \<noteq> cv_subject (view root)" "issued_by pub (view root) (view x)"
    and "ctx = (ca_context root)\<lparr>verificationCheckTime := Some t\<rparr>"
  shows "if permits (view root) (view x) \<and> valid_at t (view root) \<and> valid_at t (view x)
     then X509_verify V ctx x = Inr () else \<exists>m. X509_verify V ctx x = Inl (MoCOCrWException m)"
proof -
  have "accept (verify_request f0 ctx x) \<longleftrightarrow>
      permits (view root) (view x) \<and> valid_at t (view root) \<and> valid_at t (view x)"
    using assms(2-4) by (simp add: single_root_law_def assms(5) ca_context_request)
  then show ?thesis
    using X509_verify_verdict [OF assms(1), of ctx x] ca_context_request(2) [where root = root and t = t] assms(5)
    by auto
qed

lemma checkIssued_ok:
  assumes "ca_make_laws C view entries pub secs ival bval signs mk valid"
    and "verify_laws (ca_verify C) sc ac cc vv f0 accept" "single_root_law view pub permits f0 accept"
    and "cv_subject (view x) \<noteq> cv_subject (view root)" "issued_by pub (view root) (view x)"
    and "YEAR_1900 < cv_notAfter (view x)"
  shows "if cv_notBefore (view root) \<le> cv_notBefore (view x) \<and> cv_notAfter (view x) \<le> cv_notAfter (view root)
       \<and> cv_notBefore (view x) < cv_notAfter (view x) \<and> permits (view root) (view x)
     then checkIssued C root x = Inr () else \<exists>m. checkIssued C root x = Inl (MoCOCrWException m)"
proof -
  note tl = ca_timeD [OF assms(1)]
  obtain rb ra b a where t:
    "getNotBeforeAsn1 (ca_cert C) (ca_time C) root = Inr rb" "secs rb = cv_notBefore (view root)"
    "getNotAfterAsn1 (ca_cert C) (ca_time C) root = Inr ra" "secs ra = cv_notAfter (view root)"
    "getNotBeforeAsn1 (ca_cert C) (ca_time C) x = Inr b" "secs b = cv_notBefore (view x)"
    "getNotAfterAsn1 (ca_cert C) (ca_time C) x = Inr a" "secs a = cv_notAfter (view x)"
    using validity_times [OF assms(1)] by metis
  have r: "secs a \<le> maxAsn1TimeAsTimeT" using secs_range [OF tl] by blast
  have "YEAR_1900 \<le> secs a + - 1 \<and> secs a + - 1 \<le> maxAsn1TimeAsTimeT" using r t(8) assms(6) by simp
  then obtain l where "Asn1Time_plus (ca_time C) a (- 1) = Inr l" "secs l = secs a - 1"
    using plus_ok [OF tl, of a "- 1"] by (auto split: if_splits)
  then have l: "Asn1Time_minus_duration (ca_time C) a 1 = Inr l" "secs l = cv_notAfter (view x) - 1"
    using t(8) by (simp_all add: Asn1Time_minus_duration_def neg64_def int_limits)
  have ctx: "execS (setVerificationCheckTime (ca_time C) u) c = Inr (c\<lparr>verificationCheckTime := Some (secs u)\<rparr>)" for u c
    using toTimeT_ok [OF tl] by (simp add: setVerificationCheckTime_result)
  have v: "if permits (view root) (view x) \<and> valid_at s (view root) \<and> valid_at s (view x)
      then X509_verify (ca_verify C) ((ca_context root)\<lparr>verificationCheckTime := Some s\<rparr>) x = Inr ()
      else \<exists>m. X509_verify (ca_verify C) ((ca_context root)\<lparr>verificationCheckTime := Some s\<rparr>) x = Inl (MoCOCrWException m)" for s
    by (rule verify_single_root [OF assms(2-5) refl])
  have c: "checkIssued C root x =
      (if cv_notBefore (view root) > cv_notBefore (view x) then Inl err_ca_before
       else if cv_notAfter (view root) < cv_notAfter (view x) then Inl err_ca_after
       else bindR (X509_verify (ca_verify C) ((ca_context root)\<lparr>verificationCheckTime := Some (cv_notBefore (view x))\<rparr>) x)
         (\<lambda>_. X509_verify (ca_verify C) ((ca_context root)\<lparr>verificationCheckTime := Some (cv_notAfter (view x) - 1)\<rparr>) x))"
    using t l by (simp add: ctx checkIssued_def asn1_cmp_defs minus_ok [OF tl] Let_def)
  show ?thesis
    unfolding c using v [of "cv_notBefore (view x)"] v [of "cv_notAfter (view x) - 1"]
    by (auto simp: valid_at_def err_ca_before_def err_ca_after_def split: if_splits)
qed

text \<open>The laws of everything the authority uses.\<close>

definition ca_laws ::
  "('x, 'n, 'k, 't, 'i, 'bn, 'q, 'd, 'r, 's, 'v, 'a, 'c, 'e) ca_lib \<Rightarrow> ('x \<Rightarrow> ('k, 'e) cert_view) \<Rightarrow>
     ('n \<Rightarrow> (int \<times> bytes) list) \<Rightarrow> ('k \<Rightarrow> 'k) \<Rightarrow> ('t \<Rightarrow> int) \<Rightarrow> ('i \<Rightarrow> int) \<Rightarrow> ('bn \<Rightarrow> int) \<Rightarrow>
     ('k \<Rightarrow> EVP_MD \<Rightarrow> bool) \<Rightarrow> ('k \<Rightarrow> int \<Rightarrow> string \<Rightarrow> 'e) \<Rightarrow> (int \<Rightarrow> string \<Rightarrow> bool) \<Rightarrow>
     ('q \<Rightarrow> 'k req_view) \<Rightarrow> ('d \<Rightarrow> 'k \<times> EVP_MD option) \<Rightarrow> ('s \<Rightarrow> 'x list) \<Rightarrow> ('a \<Rightarrow> 'x list) \<Rightarrow> ('c \<Rightarrow> 'r list) \<Rightarrow>
     ('v \<Rightarrow> ('x, 'r) verify_view) \<Rightarrow> 64 word \<Rightarrow> (('x, 'r) verify_view \<Rightarrow> bool) \<Rightarrow>
     (('k, 'e) cert_view \<Rightarrow> ('k, 'e) cert_view \<Rightarrow> bool) \<Rightarrow> bool" where
  "ca_laws C view entries pub secs ival bval signs mk valid rview dsig sc ac cc vv f0 accept permits \<longleftrightarrow>
     ca_make_laws C view entries pub secs ival bval signs mk valid
     \<and> req_laws (ca_req C) rview entries pub dsig
     \<and> verify_laws (ca_verify C) sc ac cc vv f0 accept
     \<and> single_root_law view pub permits f0 accept"

lemmas ca_lawsD = ca_laws_def [THEN iffD1]
lemmas ca_laws_makeD = ca_lawsD [THEN conjunct1]
  and ca_laws_reqD = ca_lawsD [THEN conjunct2, THEN conjunct1]
  and ca_laws_verifyD = ca_lawsD [THEN conjunct2, THEN conjunct2, THEN conjunct1]
  and ca_laws_rootD = ca_lawsD [THEN conjunct2, THEN conjunct2, THEN conjunct2]

text \<open>What a certificate for a request says: its name and key, the authority's name, number and signature.\<close>

definition granted ::
  "('x \<Rightarrow> ('k, 'e) cert_view) \<Rightarrow> ('q \<Rightarrow> 'k req_view) \<Rightarrow> ('k \<Rightarrow> 'k) \<Rightarrow> ('k \<Rightarrow> int \<Rightarrow> string \<Rightarrow> 'e) \<Rightarrow> int \<Rightarrow> EVP_MD \<Rightarrow>
     ('x, 'k, 't) CertificateAuthority \<Rightarrow> 'q \<Rightarrow> ('k, 'e) cert_view" where
  "granted view rview pub mk start md ca csr =
     \<lparr>cv_subject = rv_subject (rview csr), cv_issuer = cv_subject (view (rootCert ca)),
      cv_pubkey = pub (rv_pubkey (rview csr)), cv_notBefore = start,
      cv_notAfter = start + sp_certificateValidity (defaultSignParams ca),
      cv_serial = uint (nextSerialNumber ca), cv_version = 2,
      cv_extensions = ext_list mk (pub (rv_pubkey (rview csr))) (defaultSignParams ca),
      cv_signature = Some (privateKey ca, md)\<rparr>"

definition acceptable ::
  "('x \<Rightarrow> ('k, 'e) cert_view) \<Rightarrow> (('k, 'e) cert_view \<Rightarrow> ('k, 'e) cert_view \<Rightarrow> bool) \<Rightarrow>
     ('x, 'k, 't) CertificateAuthority \<Rightarrow> ('k, 'e) cert_view \<Rightarrow> bool" where
  "acceptable view permits ca v \<longleftrightarrow>
     cv_notBefore (view (rootCert ca)) \<le> cv_notBefore v \<and> cv_notAfter v \<le> cv_notAfter (view (rootCert ca))
     \<and> cv_notBefore v < cv_notAfter v \<and> permits (view (rootCert ca)) v"

lemma signCSR_ok:
  assumes "ca_laws C view entries pub secs ival bval signs mk valid rview dsig sc ac cc vv f0 accept permits"
    and "pub (privateKey ca) = cv_pubkey (view (rootCert ca))"
    and "signable (ca_time C) secs signs valid clock (privateKey ca) (defaultSignParams ca) start md"
    and "uint (nextSerialNumber ca) \<le> LONG_MAX" "rv_subject (rview csr) \<noteq> cv_subject (view (rootCert ca))"
  shows "if acceptable view permits ca (granted view rview pub mk start md ca csr)
     then \<exists>x. signCSR C clock csr ca = (Inr x, ca\<lparr>nextSerialNumber := nextSerialNumber ca + 1\<rparr>)
            \<and> view x = granted view rview pub mk start md ca csr
     else \<exists>m. signCSR C clock csr ca = (Inl (err_ca_invalid m), ca)"
proof -
  obtain x where x: "newCertificate C clock ca csr (defaultSignParams ca) = Inr x"
      "view x = granted view rview pub mk start md ca csr"
    using newCertificate_ok [OF ca_laws_makeD [OF assms(1)] ca_laws_reqD [OF assms(1)] assms(3,4)]
    by (auto simp: granted_def)
  have "issued_by pub (view (rootCert ca)) (view x)" "cv_subject (view x) \<noteq> cv_subject (view (rootCert ca))"
    "YEAR_1900 < cv_notAfter (view x)"
    using x(2) assms(2,3,5) by (auto simp: issued_by_def granted_def signable_def)
  with checkIssued_ok [OF ca_laws_makeD ca_laws_verifyD ca_laws_rootD, OF assms(1) assms(1) assms(1), of x "rootCert ca"]
  have "if acceptable view permits ca (view x) then checkIssued C (rootCert ca) x = Inr ()
      else \<exists>m. checkIssued C (rootCert ca) x = Inl (MoCOCrWException m)"
    by (simp add: acceptable_def)
  with x show ?thesis by (auto simp: signCSR_def signCSR_with_def split: if_splits)
qed

text \<open>
  C4: With a key that belongs to the root certificate, and parameters and a serial number that can
  be used, a request of another subject is decided exactly: if the validity lies in the
  root's, is not empty and the root certificate permits the new one, the certificate
  is issued with the name and key of the request, the authority's name, counter, extensions in
  order and signature, version 3, and the counter advances; otherwise the request is refused
  with a \<open>MoCOCrWException\<close> and nothing changes.
\<close>

theorem CA_decides_exactly:
  assumes "ca_laws C view entries pub secs ival bval signs mk valid rview dsig sc ac cc vv f0 accept permits"
    and "pub (privateKey ca) = cv_pubkey (view (rootCert ca))"
    and "signable (ca_time C) secs signs valid clock (privateKey ca) (defaultSignParams ca) start md"
    and "uint (nextSerialNumber ca) \<le> LONG_MAX" "rv_subject (rview csr) \<noteq> cv_subject (view (rootCert ca))"
  shows "if acceptable view permits ca (granted view rview pub mk start md ca csr)
     then \<exists>x. signCSR C clock csr ca = (Inr x, ca\<lparr>nextSerialNumber := nextSerialNumber ca + 1\<rparr>)
            \<and> view x = granted view rview pub mk start md ca csr
     else \<exists>m. signCSR C clock csr ca = (Inl (err_ca_invalid m), ca)"
  by (rule signCSR_ok [OF assms])

section \<open>Root certificates\<close>

lemma CA_new_ok:
  assumes "cert_get_laws L view entries secs ival"
    and "\<forall>a b. SSL_EVP_PKEY_cmp P a (pub b) \<in> (if pub a = pub b then {1} else {0, - 1})"
    and "cv_pubkey (view x) = pub k"
  shows "CA_new L P params s x k' = (if pub k' = pub k then
      Inr \<lparr>defaultSignParams = params, nextSerialNumber = s, rootCert = x, privateKey = k'\<rparr> else Inl err_ca_key)"
proof -
  have "X509_getPublicKey L x = Inr (pub k)"
    using get_pubkeyD [OF assms(1), of x] assms(3) by (simp add: X509_getPublicKey_def ossl_simps)
  then show ?thesis
    using assms(2) [rule_format, of k' k]
    by (auto simp: CA_new_def publicKey_eq_def ossl_EVP_PKEY_cmp_def Let_def split: if_splits)
qed

lemma root_certificate_ok:
  assumes "ca_make_laws C view entries pub secs ival bval signs mk valid" "name_laws N content entries good"
    and "signable (ca_time C) secs signs valid clock k sp start md" "uint serial \<le> LONG_MAX"
    and "\<forall>(i, s) \<in> set (attributes dn). s \<noteq> [] \<longrightarrow> good (nid_value i) (string_bytes s)"
    and "\<forall>a b. SSL_EVP_PKEY_cmp P a (pub b) \<in> (if pub a = pub b then {1} else {0, - 1})"
  shows "case extension_BasicConstraints sp of
      Inl e \<Rightarrow> createRootCertificate C N clock k dn serial sp = Inl e
    | Inr None \<Rightarrow> createRootCertificate C N clock k dn serial sp = Inl err_ca_no_constraints
    | Inr (Some bc) \<Rightarrow>
        if \<not> bc_ca bc then createRootCertificate C N clock k dn serial sp = Inl err_ca_not_ca
        else \<exists>x. createRootCertificate C N clock k dn serial sp = Inr x
          \<and> view x = \<lparr>cv_subject = entries_of (written dn), cv_issuer = entries_of (written dn), cv_pubkey = pub k,
               cv_notBefore = start, cv_notAfter = start + sp_certificateValidity sp, cv_serial = uint serial,
               cv_version = 2, cv_extensions = ext_list mk (pub k) sp, cv_signature = Some (k, md)\<rparr>
          \<and> CA_new (ca_cert C) P params s x k =
               Inr \<lparr>defaultSignParams = params, nextSerialNumber = s, rootCert = x, privateKey = k\<rparr>
          \<and> (pub k' \<noteq> pub k \<longrightarrow> CA_new (ca_cert C) P params s x k' = Inl err_ca_key)"
proof -
  note set = ca_setD [OF assms(1)] and get = ca_getD [OF assms(1)]
  obtain x0 where x0: "SSL_X509_new (ca_cert C) = Some x0" using x509_newD [OF get] by blast
  obtain n0 where n0: "SSL_X509_NAME_new N = Some n0" "entries n0 = []" using name_newD [OF assms(2)] by blast
  obtain n where n: "populateX509Name N dn n0 = (Inr (), n)" "entries n = entries_of (written dn)"
    using populate_ok [OF assms(2) n0(2) assms(5)] by blast
  note ups = updates_bind [OF updates_setters(2) [OF set, of n] updates_bind [OF updates_setters(1) [OF set, of n]
      updates_bind [OF updates_setters(3) [OF set, of k] updates_bind [OF updates_serial [OF set ca_intD [OF assms(1)]
      assms(4)] updates_bind [OF updates_version [OF set, of certificateVersion] updates_signCertificate [OF assms(1,3)]]]]]]
  obtain x where x: "extension_BasicConstraints sp = Inr (Some bc) \<Longrightarrow> bc_ca bc \<Longrightarrow>
      createRootCertificate C N clock k dn serial sp = Inr x" "view x =
      \<lparr>cv_subject = entries_of (written dn), cv_issuer = entries_of (written dn), cv_pubkey = pub k,
       cv_notBefore = start, cv_notAfter = start + sp_certificateValidity sp, cv_serial = uint serial,
       cv_version = 2, cv_extensions = ext_list mk (pub k) sp, cv_signature = Some (k, md)\<rparr>" for bc
    using updates_exec [OF ups, where x = x0] x0 n0(1) n ca_freshD [OF assms(1) x0]
    by (cases "view x0")
      (auto simp: createRootCertificate_def create_X509_def certificateVersion_def ossl_X509_NAME_new_def execS_def)
  have "CA_new (ca_cert C) P params s x k'' = (if pub k'' = pub k then
      Inr \<lparr>defaultSignParams = params, nextSerialNumber = s, rootCert = x, privateKey = k''\<rparr> else Inl err_ca_key)" for k''
    by (rule CA_new_ok [OF get assms(6)]) (simp add: x(2))
  with x show ?thesis
    by (auto simp: createRootCertificate_def split: sum.splits option.splits)
qed

text \<open>
  C20: \<open>createRootCertificate\<close> refuses parameters without basic constraints or not for a CA;
  with usable ones it makes a certificate whose subject and issuer are the given name, whose
  public key is that of the given key, signed with that key.  A \<open>CertificateAuthority\<close> with
  this certificate and key can be constructed, one with a key that does not match is refused.
\<close>

theorem CA_root_certificate:
  assumes "ca_make_laws C view entries pub secs ival bval signs mk valid" "name_laws N content entries good"
    and "signable (ca_time C) secs signs valid clock k sp start md" "uint serial \<le> LONG_MAX"
    and "\<forall>(i, s) \<in> set (attributes dn). s \<noteq> [] \<longrightarrow> good (nid_value i) (string_bytes s)"
    and "\<forall>a b. SSL_EVP_PKEY_cmp P a (pub b) \<in> (if pub a = pub b then {1} else {0, - 1})"
  shows "case extension_BasicConstraints sp of
      Inl e \<Rightarrow> createRootCertificate C N clock k dn serial sp = Inl e
    | Inr None \<Rightarrow> createRootCertificate C N clock k dn serial sp = Inl err_ca_no_constraints
    | Inr (Some bc) \<Rightarrow>
        if \<not> bc_ca bc then createRootCertificate C N clock k dn serial sp = Inl err_ca_not_ca
        else \<exists>x. createRootCertificate C N clock k dn serial sp = Inr x
          \<and> view x = \<lparr>cv_subject = entries_of (written dn), cv_issuer = entries_of (written dn), cv_pubkey = pub k,
               cv_notBefore = start, cv_notAfter = start + sp_certificateValidity sp, cv_serial = uint serial,
               cv_version = 2, cv_extensions = ext_list mk (pub k) sp, cv_signature = Some (k, md)\<rparr>
          \<and> CA_new (ca_cert C) P params s x k =
               Inr \<lparr>defaultSignParams = params, nextSerialNumber = s, rootCert = x, privateKey = k\<rparr>
          \<and> (pub k' \<noteq> pub k \<longrightarrow> CA_new (ca_cert C) P params s x k' = Inl err_ca_key)"
  by (rule root_certificate_ok [OF assms])

section \<open>Serial numbers of a sequence of requests\<close>

text \<open>\<open>keeps view g m\<close>: where the operation succeeds, \<open>g\<close> of what the object says is as before.\<close>

definition keeps :: "('x \<Rightarrow> 'w) \<Rightarrow> ('w \<Rightarrow> 'z) \<Rightarrow> ('x, unit) st \<Rightarrow> bool" where
  "keeps view g m \<longleftrightarrow> (\<forall>x y. m x = (Inr (), y) \<longrightarrow> g (view y) = g (view x))"

lemma keeps_updates: "updates view m f \<Longrightarrow> (\<And>v. g (f v) = g v) \<Longrightarrow> keeps view g m"
  unfolding updates_def keeps_def by (metis prod.inject)

lemma keeps_bind: "keeps view g m \<Longrightarrow> keeps view g m' \<Longrightarrow> keeps view g (bindS m (\<lambda>_. m'))"
  unfolding keeps_def bindS_eq_Inr by (metis old.unit.exhaust)

lemma keeps_lift: "(\<And>a. keeps view g (m a)) \<Longrightarrow> keeps view g (bindS (liftS r) m)"
  unfolding keeps_def bindS_eq_Inr by (auto simp: liftS_def)

lemma keeps_extensions:
  assumes "ext_laws E view mk valid"
  shows "keeps view cv_serial (addExtensions E its)"
proof (induction its)
  case (Cons it its)
  have a: "keeps view cv_serial (ossl_X509_add_ext E e)" for e
  proof (rule keeps_updates [OF updates_call])
    show "\<exists>y. SSL_X509_add_ext E x e (- 1) = (1, y) \<and> view y = (view x)\<lparr>cv_extensions := cv_extensions (view x) @ [e]\<rparr>" for x
      using assms unfolding ext_laws_def by blast
  qed (simp_all add: ossl_X509_add_ext_def)
  show ?case
    unfolding keeps_def
  proof (intro allI impI)
    fix x y assume "addExtensions E (it # its) x = (Inr (), y)"
    then obtain e where "bindS (ossl_X509_add_ext E e) (\<lambda>_. addExtensions E its) x = (Inr (), y)"
      by (auto simp: bindS_eq_Inr)
    with keeps_bind [OF a Cons.IH] show "cv_serial (view y) = cv_serial (view x)" unfolding keeps_def by blast
  qed
qed (simp add: keeps_def)

lemma keeps_signCertificate:
  assumes "ca_make_laws C view entries pub secs ival bval signs mk valid"
  shows "keeps view cv_serial (signCertificate C clock k sp)"
proof -
  note set = ca_setD [OF assms]
  have "keeps view cv_serial (ossl_X509_sign (ca_cert C) k d)" for d
    unfolding ossl_X509_sign_def
    by (rule keeps_lift) (use ca_signD [OF assms] in \<open>auto simp: keeps_def checkS_def\<close>)
  then show ?thesis
    unfolding signCertificate_def
    by (intro keeps_lift keeps_bind keeps_extensions [OF ca_extD [OF assms]]
        keeps_updates [OF updates_setters(4) [OF set]] keeps_updates [OF updates_setters(5) [OF set]]) simp_all
qed

lemma newCertificate_states_serial:
  assumes "ca_make_laws C view entries pub secs ival bval signs mk valid"
    and "newCertificate C clock ca csr sp = Inr x"
  shows "cv_serial (view x) = uint (nextSerialNumber ca)"
proof -
  note set = ca_setD [OF assms(1)]
  have s: "uint (nextSerialNumber ca) \<le> LONG_MAX" by (rule newCertificate_serial [OF assms(2)])
  obtain y z where y: "ossl_X509_set_serialNumber (ca_cert C) (ca_int C) (nextSerialNumber ca) y = (Inr (), z)"
      "bindS (X509_set_version (ca_cert C) certificateVersion)
         (\<lambda>_. signCertificate C clock (privateKey ca) sp) z = (Inr (), x)"
    using assms(2) by (auto simp: newCertificate_def bindR_eq_Inr execS_Inr bindS_eq_Inr)
  have "keeps view cv_serial (X509_set_version (ca_cert C) certificateVersion)"
    by (rule keeps_updates [OF updates_version [OF set]]) simp
  then have "cv_serial (view x) = cv_serial (view z)"
    using y(2) keeps_bind [OF _ keeps_signCertificate [OF assms(1)]] unfolding keeps_def by blast
  moreover obtain z' where "ossl_X509_set_serialNumber (ca_cert C) (ca_int C) (nextSerialNumber ca) y = (Inr (), z')"
      "view z' = (view y)\<lparr>cv_serial := uint (nextSerialNumber ca)\<rparr>"
    using updates_serial [OF set ca_intD [OF assms(1)] s] unfolding updates_def by blast
  ultimately show ?thesis using y(1) by simp
qed

lemma newCertificate_exhausted:
  assumes laws: "ca_make_laws C view entries pub secs ival bval signs mk valid" "req_laws (ca_req C) rview entries pub' dsig"
    and "uint (nextSerialNumber ca) > LONG_MAX"
  shows "newCertificate C clock ca csr sp = Inl err_serial_range"
proof -
  note set = ca_setD [OF laws(1)]
  obtain n where n: "ossl_X509_REQ_get_subject_name (ca_req C) csr = Inr n"
    using Csr_read_ok(3) [OF laws(2)] by blast
  obtain r where r: "SSL_X509_get_subject_name (ca_cert C) (rootCert ca) = Some r"
    using get_subjectD [OF ca_getD [OF laws(1)]] by blast
  obtain x0 where x0: "SSL_X509_new (ca_cert C) = Some x0" using x509_newD [OF ca_getD [OF laws(1)]] by blast
  obtain x1 where x1: "ossl_X509_set_subject_name (ca_cert C) n x0 = (Inr (), x1)"
    using updates_setters(1) [OF set, of n] unfolding updates_def by blast
  obtain x2 where x2: "ossl_X509_set_pubkey (ca_cert C) (rv_pubkey (rview csr)) x1 = (Inr (), x2)"
    using updates_setters(3) [OF set] unfolding updates_def by blast
  obtain x3 where x3: "ossl_X509_set_issuer_name (ca_cert C) r x2 = (Inr (), x3)"
    using updates_setters(2) [OF set] unfolding updates_def by blast
  show ?thesis
    using n r x0 x1 x2 x3 assms(3) Csr_read_ok(1) [OF laws(2), of csr]
    by (simp add: newCertificate_def create_X509_def ossl_X509_get_subject_name_def execS_def bindS_def
        ossl_X509_set_serialNumber_def)
qed

text \<open>
  The states an authority gets to by requests, granted or refused at whatever time, with the
  certificates it has issued on the way.
\<close>

inductive ca_run ::
  "('x, 'n, 'k, 't, 'i, 'bn, 'q, 'd, 'r, 's, 'v, 'a, 'c, 'e) ca_lib \<Rightarrow> ('x, 'k, 't) CertificateAuthority \<Rightarrow>
     ('x, 'k, 't) CertificateAuthority \<Rightarrow> 'x list \<Rightarrow> bool" for C ca0 where
  run_start: "ca_run C ca0 ca0 []"
| run_issue: "ca_run C ca0 ca xs \<Longrightarrow> signCSR C clock csr ca = (Inr x, ca') \<Longrightarrow> ca_run C ca0 ca' (xs @ [x])"
| run_refuse: "ca_run C ca0 ca xs \<Longrightarrow> signCSR C clock csr ca = (Inl e, ca') \<Longrightarrow> ca_run C ca0 ca' xs"

lemma uint_plus_of_nat:
  "uint (w :: 64 word) + int n \<le> LONG_MAX + 1 \<Longrightarrow> uint (w + word_of_nat n) = uint w + int n"
proof -
  assume a: "uint w + int n \<le> LONG_MAX + 1"
  then have "int n < 18446744073709551616" using uint_ge_0 [of w] unfolding LONG_MAX_def by linarith
  then have "n mod 18446744073709551616 = n" by simp
  with a show ?thesis by (simp add: uint_word_ariths LONG_MAX_def unsigned_of_nat take_bit_eq_mod mod_simps)
qed

lemma ca_run_state:
  assumes "ca_run C ca0 ca xs"
  shows "ca = ca0\<lparr>nextSerialNumber := nextSerialNumber ca0 + word_of_nat (length xs)\<rparr>
     \<and> (xs \<noteq> [] \<longrightarrow> uint (nextSerialNumber ca0) + int (length xs) \<le> LONG_MAX + 1)"
  using assms
proof (induction rule: ca_run.induct)
  case (run_issue ca xs clock csr x ca')
  then have ca: "ca = ca0\<lparr>nextSerialNumber := nextSerialNumber ca0 + word_of_nat (length xs)\<rparr>" by blast
  have n: "newCertificate C clock ca csr (defaultSignParams ca) = Inr x"
    "ca' = ca\<lparr>nextSerialNumber := nextSerialNumber ca + 1\<rparr>"
    using run_issue.hyps(2) by (simp_all add: signCSR_result(1))
  have "uint (nextSerialNumber ca) = uint (nextSerialNumber ca0) + int (length xs)"
    using run_issue.IH ca uint_plus_of_nat [of "nextSerialNumber ca0" "length xs"] by (cases "xs = []") auto
  with newCertificate_serial [OF n(1)] show ?case using ca n(2) by (simp add: add.commute add.left_commute)
next
  case (run_refuse ca xs clock csr e ca')
  then show ?case using signCSR_result(2) [OF run_refuse.hyps(2)] by simp
qed simp

lemma ca_run_next:
  assumes "ca_run C ca0 ca xs" "xs \<noteq> [] \<or> uint (nextSerialNumber ca0) \<le> LONG_MAX"
  shows "uint (nextSerialNumber ca) = uint (nextSerialNumber ca0) + int (length xs)"
  using ca_run_state [OF assms(1)] uint_plus_of_nat [of "nextSerialNumber ca0" "length xs"] assms(2)
  by (cases "xs = []") auto

lemma ca_run_serials:
  assumes "ca_make_laws C view entries pub secs ival bval signs mk valid" "ca_run C ca0 ca xs"
  shows "map (\<lambda>x. cv_serial (view x)) xs = map (\<lambda>i. uint (nextSerialNumber ca0) + int i) [0..<length xs]"
  using assms(2)
proof (induction rule: ca_run.induct)
  case (run_issue ca xs clock csr x ca')
  have n: "newCertificate C clock ca csr (defaultSignParams ca) = Inr x"
    using run_issue.hyps(2) by (simp add: signCSR_result(1))
  have "uint (nextSerialNumber ca) = uint (nextSerialNumber ca0) + int (length xs)"
    using ca_run_next [OF run_issue.hyps(1)] ca_run_state [OF run_issue.hyps(1)] newCertificate_serial [OF n]
    by (cases "xs = []") auto
  with newCertificate_states_serial [OF assms(1) n] run_issue.IH show ?case by simp
qed simp_all

text \<open>
  C3: Whatever requests an authority is given, granted or refused, in whatever order and at
  whatever time: no two certificates it issues have the same serial number; the numbers are consecutive
  from the initial counter and readable from the certificates, none exceeds \<open>LONG_MAX\<close>, and
  the counter does not wrap around.  Root certificate, key and parameters never change.
\<close>

theorem CA_serials_unique:
  assumes "ca_make_laws C view entries pub secs ival bval signs mk valid" "ca_run C ca0 ca xs"
  shows "distinct (map (\<lambda>x. cv_serial (view x)) xs)
    \<and> (\<forall>i < length xs. getSerialNumber (ca_cert C) (ca_int C) (xs ! i) = Inr (nextSerialNumber ca0 + word_of_nat i)
         \<and> uint (nextSerialNumber ca0) + int i \<le> LONG_MAX)
    \<and> (xs \<noteq> [] \<longrightarrow> uint (nextSerialNumber ca) = uint (nextSerialNumber ca0) + int (length xs))
    \<and> rootCert ca = rootCert ca0 \<and> privateKey ca = privateKey ca0 \<and> defaultSignParams ca = defaultSignParams ca0"
proof -
  note st = ca_run_state [OF assms(2)] and ser = ca_run_serials [OF assms]
  have "distinct (map (\<lambda>i. uint (nextSerialNumber ca0) + int i) [0..<length xs])"
    by (simp add: distinct_map inj_on_def)
  moreover have "getSerialNumber (ca_cert C) (ca_int C) (xs ! i) = Inr (nextSerialNumber ca0 + word_of_nat i)
      \<and> uint (nextSerialNumber ca0) + int i \<le> LONG_MAX" if i: "i < length xs" for i
  proof -
    have "cv_serial (view (xs ! i)) = uint (nextSerialNumber ca0) + int i"
      using arg_cong [OF ser, of "\<lambda>l. l ! i"] i by simp
    moreover have "uint (nextSerialNumber ca0) + int i \<le> LONG_MAX" using st i by (cases "xs = []") auto
    ultimately show ?thesis
      using get_serial_ok(1) [OF ca_getD [OF assms(1)] ca_intD [OF assms(1)], of "xs ! i"] by simp
  qed
  ultimately show ?thesis
    using ser st ca_run_next [OF assms(2)] by simp
qed

text \<open>
  C19: Availability, after any sequence of requests.  As long as the initial counter plus the
  number of certificates issued is at most \<open>LONG_MAX\<close>, an acceptable request of a properly set
  up authority, with another subject than its own, is granted with the next number; refused
  requests cost nothing.  Beyond, every request whatsoever, at any time, is refused as its
  serial number is out of range, and leaves the authority as it is.
\<close>

theorem CA_keeps_issuing:
  assumes "ca_laws C view entries pub secs ival bval signs mk valid rview dsig sc ac cc vv f0 accept permits"
    and "ca_run C ca0 ca xs" "uint (nextSerialNumber ca0) \<le> LONG_MAX"
  shows "if uint (nextSerialNumber ca0) + int (length xs) \<le> LONG_MAX
     then pub (privateKey ca0) = cv_pubkey (view (rootCert ca0))
        \<and> signable (ca_time C) secs signs valid clock (privateKey ca0) (defaultSignParams ca0) start md
        \<and> rv_subject (rview csr) \<noteq> cv_subject (view (rootCert ca0))
        \<and> acceptable view permits ca (granted view rview pub mk start md ca csr) \<longrightarrow>
          (\<exists>x ca'. signCSR C clock csr ca = (Inr x, ca') \<and> ca_run C ca0 ca' (xs @ [x])
            \<and> view x = granted view rview pub mk start md ca csr
            \<and> cv_serial (view x) = uint (nextSerialNumber ca0) + int (length xs))
     else signCSR C clock csr ca = (Inl err_serial_range, ca)"
proof -
  note st = ca_run_state [OF assms(2)]
  have nxt: "uint (nextSerialNumber ca) = uint (nextSerialNumber ca0) + int (length xs)"
    using ca_run_next [OF assms(2)] assms(3) by blast
  have same: "rootCert ca = rootCert ca0" "privateKey ca = privateKey ca0" "defaultSignParams ca = defaultSignParams ca0"
    using st by simp_all
  show ?thesis
  proof (cases "uint (nextSerialNumber ca0) + int (length xs) \<le> LONG_MAX")
    case True
    have "\<exists>x ca'. signCSR C clock csr ca = (Inr x, ca') \<and> ca_run C ca0 ca' (xs @ [x])
            \<and> view x = granted view rview pub mk start md ca csr
            \<and> cv_serial (view x) = uint (nextSerialNumber ca0) + int (length xs)"
      if ready: "pub (privateKey ca0) = cv_pubkey (view (rootCert ca0))"
        "signable (ca_time C) secs signs valid clock (privateKey ca0) (defaultSignParams ca0) start md"
        "rv_subject (rview csr) \<noteq> cv_subject (view (rootCert ca0))"
        "acceptable view permits ca (granted view rview pub mk start md ca csr)"
    proof -
      obtain x where x: "signCSR C clock csr ca = (Inr x, ca\<lparr>nextSerialNumber := nextSerialNumber ca + 1\<rparr>)"
          "view x = granted view rview pub mk start md ca csr"
        using signCSR_ok [OF assms(1), of ca clock start md csr] ready True nxt same by auto
      with nxt show ?thesis using run_issue [OF assms(2) x(1)] by (auto simp: granted_def)
    qed
    with True show ?thesis by simp
  next
    case False
    then have "newCertificate C clock ca csr (defaultSignParams ca) = Inl err_serial_range"
      using newCertificate_exhausted [OF ca_laws_makeD [OF assms(1)] ca_laws_reqD [OF assms(1)]] nxt by simp
    with False show ?thesis by (simp add: signCSR_def signCSR_with_def)
  qed
qed

section \<open>A concrete instance\<close>

text \<open>
  Certificates and requests as their views; an authority for an elliptic curve key.  The root
  permits other certificates if it has the extension of a CA.
\<close>

definition ref_ca_key :: ref_key where "ref_ca_key = (ECCSpec PRIME_256v1, 7)"

definition ref_permits :: "ref_key ref_cert \<Rightarrow> ref_key ref_cert \<Rightarrow> bool" where
  "ref_permits r v \<longleftrightarrow> (87, ''critical,CA:TRUE,pathlen:0'') \<in> set (cv_extensions r)"

definition ref_chain_accept ::
  "(ref_key ref_cert \<Rightarrow> ref_key ref_cert \<Rightarrow> bool) \<Rightarrow> (ref_key ref_cert, nat) verify_view \<Rightarrow> bool" where
  "ref_chain_accept permits w = (case (vv_trusted w, vv_time w) of
     ([root], Some t) \<Rightarrow> issued_by ref_public_part (ref_view root) (ref_view (vv_target w))
       \<and> permits (ref_view root) (ref_view (vv_target w))
       \<and> valid_at t (ref_view root) \<and> valid_at t (ref_view (vv_target w))
   | _ \<Rightarrow> False)"

definition ref_ext_lib :: "(ref_key ref_cert, int \<times> string) ext_lib" where
  "ref_ext_lib =
     \<lparr>SSL_X509V3_EXT_conf_nid = (\<lambda>ctx nid conf. Some (nid, conf)),
      SSL_X509_add_ext = (\<lambda>x e i. (1, x\<lparr>cv_extensions := cv_extensions x @ [e]\<rparr>))\<rparr>"

definition ref_ca_lib_for where
  "ref_ca_lib_for permits =
     \<lparr>ca_cert = ref_cert_lib_for (RSASpec 0, 0) ref_public_part, ca_int = ref_int_lib, ca_time = ref_time_lib,
      ca_ext = ref_ext_lib, ca_req = ref_req_lib,
      ca_verify = ref_verify_lib_for (ref_chain_accept permits) (ref_empty_cert (RSASpec 0, 0))\<rparr>"

definition ref_ca_lib where "ref_ca_lib = ref_ca_lib_for ref_permits"

lemma ref_ca_make_laws_for:
  "ca_make_laws (ref_ca_lib_for permits) ref_view id ref_public_part clamp id id (\<lambda>k md. True) (\<lambda>k nid conf. (nid, conf)) (\<lambda>nid conf. True)"
proof -
  have "ext_laws ref_ext_lib ref_view (\<lambda>k nid conf. (nid, conf)) (\<lambda>nid conf. True)"
    by (simp add: ext_laws_def ref_ext_lib_def ref_view_def)
  moreover have "ref_public_part (ref_public_part k) = ref_public_part k" for k
    by (simp add: ref_public_part_def and.assoc)
  ultimately show ?thesis
    using ref_cert_laws_for [of "(RSASpec 0, 0)" ref_public_part] ref_int_laws ref_time_laws
    by (simp add: ca_make_laws_def ref_ca_lib_for_def ref_cert_lib_for_def ref_empty_cert_def ref_view_def ref_time_lib_def)
qed

lemma ref_ca_laws_for:
  "ca_laws (ref_ca_lib_for permits) ref_view id ref_public_part clamp id id (\<lambda>k md. True) (\<lambda>k nid conf. (nid, conf)) (\<lambda>nid conf. True)
     id id id id id id 0x8000 (ref_chain_accept permits) permits"
proof -
  have "single_root_law ref_view ref_public_part permits 0x8000 (ref_chain_accept permits)"
    by (simp add: single_root_law_def ref_chain_accept_def)
  then show ?thesis
    using ref_ca_make_laws_for [of permits] ref_req_laws ref_verify_laws_for [of "ref_chain_accept permits"]
    by (simp add: ca_laws_def ref_ca_lib_for_def)
qed

lemmas ref_ca_make_laws = ref_ca_make_laws_for [of ref_permits, folded ref_ca_lib_def]
  and ref_ca_laws = ref_ca_laws_for [of ref_permits, folded ref_ca_lib_def]

definition ref_sign_params :: "int CertificateSigningParameters" where
  "ref_sign_params = addExtension (BasicConstraintsExt (BasicConstraints_new True 0))
     (set_notBeforeAsn1 1000 (SignParams_Builder_new 500 SHA256))"

definition ref_root :: "ref_key ref_cert" where
  "ref_root = \<lparr>cv_subject = [(13, [67, 65])], cv_issuer = [(13, [67, 65])], cv_pubkey = (ECCSpec PRIME_256v1, 6),
     cv_notBefore = 0, cv_notAfter = 100000, cv_serial = 1, cv_version = 2,
     cv_extensions = [(87, ''critical,CA:TRUE,pathlen:0'')], cv_signature = Some (ref_ca_key, EVP_sha256)\<rparr>"

definition ref_ca :: "64 word \<Rightarrow> (ref_key ref_cert, ref_key, int) CertificateAuthority" where
  "ref_ca s = \<lparr>defaultSignParams = ref_sign_params, nextSerialNumber = s, rootCert = ref_root, privateKey = ref_ca_key\<rparr>"

definition ref_csr :: "ref_key req_view" where
  "ref_csr = \<lparr>rv_subject = [(13, [65])], rv_pubkey = (RSASpec 2048, 8), rv_signed = None\<rparr>"

lemma ref_ca_ready:
  "ref_public_part (privateKey (ref_ca s)) = cv_pubkey (ref_view (rootCert (ref_ca s)))"
  "signable (ca_time ref_ca_lib) clamp (\<lambda>k md. True) (\<lambda>nid conf. True) clock (privateKey (ref_ca s))
     (defaultSignParams (ref_ca s)) 1000 EVP_sha256"
  "rv_subject (id ref_csr) \<noteq> cv_subject (ref_view (rootCert (ref_ca s)))"
  "acceptable ref_view ref_permits (ref_ca s) (granted ref_view id ref_public_part (\<lambda>k nid conf. (nid, conf)) 1000 EVP_sha256 (ref_ca s) ref_csr)"
  by (simp_all add: ref_ca_def ref_ca_key_def ref_root_def ref_view_def ref_public_part_def ref_csr_def signable_def
      ref_sign_params_def addExtension_def set_notBeforeAsn1_def SignParams_Builder_new_def notBeforeAsn1_def
      clamp_def asn1_consts acceptable_def granted_def ref_permits_def ref_ca_lib_def ref_ca_lib_for_def)

lemma ref_ca_grants:
  "\<exists>x. signCSR ref_ca_lib 0 ref_csr (ref_ca 7) = (Inr x, ref_ca 8)"
  using signCSR_ok [OF ref_ca_laws ref_ca_ready(1,2), of 7 ref_csr 0] ref_ca_ready(3,4) [of 7]
  by (auto simp: ref_ca_def LONG_MAX_def)

theorem CA_issues_only_verified_witness:
  "\<exists>x b. signCSR ref_ca_lib 0 ref_csr (ref_ca 7) = (Inr x, ref_ca 8)
     \<and> X509_verify (ca_verify ref_ca_lib) ((ca_context ref_root)\<lparr>verificationCheckTime := Some b\<rparr>) x = Inr ()"
proof -
  obtain x where x: "signCSR ref_ca_lib 0 ref_csr (ref_ca 7) = (Inr x, ref_ca 8)" using ref_ca_grants by blast
  with CA_issues_only_verified [OF x] show ?thesis by (auto simp: ref_ca_def)
qed

theorem CA_decides_exactly_witness:
  "\<exists>x. signCSR ref_ca_lib 0 ref_csr (ref_ca 7) = (Inr x, (ref_ca 7)\<lparr>nextSerialNumber := 8\<rparr>)
     \<and> cv_serial (ref_view x) = 7 \<and> cv_subject (ref_view x) = [(13, [65])] \<and> cv_notAfter (ref_view x) = 1500"
  using CA_decides_exactly [OF ref_ca_laws ref_ca_ready(1,2), of 7 ref_csr 0] ref_ca_ready(3,4) [of 7]
  by (auto simp: ref_ca_def LONG_MAX_def granted_def ref_csr_def ref_sign_params_def addExtension_def
      set_notBeforeAsn1_def SignParams_Builder_new_def)

theorem CA_serials_unique_witness:
  "\<exists>x. ca_run ref_ca_lib (ref_ca 7) (ref_ca 8) [x] \<and> getSerialNumber (ca_cert ref_ca_lib) (ca_int ref_ca_lib) x = Inr 7"
proof -
  obtain x where x: "signCSR ref_ca_lib 0 ref_csr (ref_ca 7) = (Inr x, ref_ca 8)" using ref_ca_grants by blast
  from run_issue [OF run_start x] have "ca_run ref_ca_lib (ref_ca 7) (ref_ca 8) [x]" by simp
  with CA_serials_unique [OF ref_ca_make_laws this] show ?thesis by (auto simp: ref_ca_def)
qed

theorem CA_keeps_issuing_witness:
  "\<exists>x ca'. signCSR ref_ca_lib 0 ref_csr (ref_ca 7) = (Inr x, ca') \<and> cv_serial (ref_view x) = 7"
  using CA_keeps_issuing [OF ref_ca_laws run_start, of "ref_ca 7" 0 1000 EVP_sha256 ref_csr]
    ref_ca_ready(1) [of 7] ref_ca_ready(2) [of 0 7] ref_ca_ready(3,4) [of 7]
  by (auto simp: ref_ca_def LONG_MAX_def)

definition ref_cmp_lib where
  "ref_cmp_lib = ref_pkey_lib\<lparr>SSL_EVP_PKEY_cmp := (\<lambda>a b. if ref_public_part a = ref_public_part b then 1 else 0)\<rparr>"

theorem CA_root_certificate_witness:
  "\<exists>x ca. createRootCertificate ref_ca_lib ref_name_lib 0 ref_ca_key ref_dn 1 ref_sign_params = Inr x
     \<and> cv_subject (ref_view x) = entries_of (written ref_dn)
     \<and> CA_new (ca_cert ref_ca_lib) ref_cmp_lib ref_sign_params 2 x ref_ca_key = Inr ca"
proof -
  have s: "signable (ca_time ref_ca_lib) clamp (\<lambda>k md. True) (\<lambda>nid conf. True) 0 ref_ca_key ref_sign_params 1000 EVP_sha256"
    using ref_ca_ready(2) [of 0 7] by (simp add: ref_ca_def)
  have c: "\<forall>a b. SSL_EVP_PKEY_cmp ref_cmp_lib a (ref_public_part b)
      \<in> (if ref_public_part a = ref_public_part b then {1} else {0, - 1})"
    using ca_pubD [OF ref_ca_make_laws] by (auto simp: ref_cmp_lib_def)
  have b: "extension_BasicConstraints ref_sign_params = Inr (Some (BasicConstraints_new True 0))"
    "bc_ca (BasicConstraints_new True 0)"
    by (simp_all add: extension_BasicConstraints_def sp_extension_def ref_sign_params_def addExtension_def
        set_notBeforeAsn1_def SignParams_Builder_new_def BasicConstraints_new_def)
  have l: "uint (1 :: 64 word) \<le> LONG_MAX" by (simp add: LONG_MAX_def)
  have g: "\<forall>(i, s) \<in> set (attributes ref_dn). s \<noteq> [] \<longrightarrow> True" by auto
  show ?thesis
    using CA_root_certificate [OF ref_ca_make_laws ref_name_laws s l g c, of ref_sign_params 2 ref_ca_key] b by auto
qed

end
