(* ===== verification/Key_Pem.thy ===== *)
theory Key_Pem
  imports Pem_Object
begin

text \<open>
  Keys outside the process: \<open>publicKeyToPem\<close>, \<open>readPublicKeyFromPEM\<close>, \<open>privateKeyToPem\<close> and
  \<open>readPrivateKeyFromPEM\<close> of \<open>src/src/key.cpp\<close>, and keys on a hardware security module,
  \<open>src/src/hsm.cpp\<close>, with their wrappers of \<open>openssl_wrap.cpp\<close>.
\<close>

section \<open>Public keys\<close>

definition ossl_PEM_write_bio_PUBKEY :: "('k, 'b) object_io \<Rightarrow> 'k \<Rightarrow> 'b \<Rightarrow> 'b res" where
  [ossl_simps]: "ossl_PEM_write_bio_PUBKEY J x bp = checkC OpensslCallIsOne (SSL_PEM_write_bio J bp x)"

definition ossl_PEM_read_bio_PUBKEY :: "('k, 'b) object_io \<Rightarrow> 'b \<Rightarrow> 'k res" where
  [ossl_simps]: "ossl_PEM_read_bio_PUBKEY J bio = OpensslCallPtr (SSL_PEM_read_bio J bio)"

definition publicKeyToPem :: "'b bio_lib \<Rightarrow> ('k, 'b) object_io \<Rightarrow> 'k \<Rightarrow> string res option" where
  "publicKeyToPem B J key = bio_printed B (ossl_PEM_write_bio_PUBKEY J key)"

definition readPublicKeyFromPEM :: "'b bio_lib \<Rightarrow> ('k, 'b) object_io \<Rightarrow> string \<Rightarrow> 'k res" where
  "readPublicKeyFromPEM B J pem = bio_parsed B pem (ossl_PEM_read_bio_PUBKEY J)"

interpretation pubkey: pem_object readPublicKeyFromPEM publicKeyToPem
  by unfold_locales (simp_all add: readPublicKeyFromPEM_def publicKeyToPem_def ossl_simps [abs_def])

section \<open>Private keys\<close>

text \<open>
  The writer is given the characters of the password and their number as an \<open>int\<close>, and
  encrypts if there is a cipher; the reader is given a C string, which the callback OpenSSL
  falls back to uses as the password.
\<close>

record ('k, 'b) private_io =
  SSL_PEM_write_bio_PKCS8PrivateKey :: "'b \<Rightarrow> 'k \<Rightarrow> EVP_CIPHER option \<Rightarrow> string \<Rightarrow> int \<Rightarrow> int \<times> 'b"
  SSL_PEM_read_bio_PrivateKey :: "'b \<Rightarrow> string \<Rightarrow> 'k option"

definition ossl_PEM_write_bio_PKCS8PrivateKey ::
  "('k, 'b) private_io \<Rightarrow> 'k \<Rightarrow> EVP_CIPHER option \<Rightarrow> string \<Rightarrow> 'b \<Rightarrow> 'b res" where
  [ossl_simps]: "ossl_PEM_write_bio_PKCS8PrivateKey K pkey cipher pwd out =
     checkC OpensslCallIsOne (SSL_PEM_write_bio_PKCS8PrivateKey K out pkey cipher pwd (to_int (length pwd)))"

definition ossl_PEM_read_bio_PrivateKey :: "('k, 'b) private_io \<Rightarrow> string \<Rightarrow> 'b \<Rightarrow> 'k res" where
  [ossl_simps]: "ossl_PEM_read_bio_PrivateKey K pwd bio =
     OpensslCallPtr (SSL_PEM_read_bio_PrivateKey K bio (c_str pwd))"

definition privateKeyToPem :: "'b bio_lib \<Rightarrow> ('k, 'b) private_io \<Rightarrow> string \<Rightarrow> 'k \<Rightarrow> string res option" where
  "privateKeyToPem B K pwd key =
     (let pkey_cipher = (if length pwd > 0 then Some EVP_aes_256_cbc else None)
      in bio_printed B (ossl_PEM_write_bio_PKCS8PrivateKey K key pkey_cipher pwd))"

definition readPrivateKeyFromPEM :: "'b bio_lib \<Rightarrow> ('k, 'b) private_io \<Rightarrow> string \<Rightarrow> string \<Rightarrow> 'k res" where
  "readPrivateKeyFromPEM B K pem password =
     bio_parsed B pem (ossl_PEM_read_bio_PrivateKey K (c_str password))"

section \<open>Hardware security modules\<close>

record ('h, 'k) engine_lib =
  SSL_ENGINE_by_id :: "string \<Rightarrow> 'h option"
  SSL_ENGINE_ctrl_cmd_string :: "'h \<Rightarrow> string \<Rightarrow> string \<Rightarrow> int \<Rightarrow> int \<times> 'h"
  SSL_ENGINE_init :: "'h \<Rightarrow> int \<times> 'h"
  SSL_ENGINE_finish :: "'h \<Rightarrow> int \<times> 'h"
  SSL_ENGINE_load_private_key :: "'h \<Rightarrow> string \<Rightarrow> 'k option"
  SSL_ENGINE_load_public_key :: "'h \<Rightarrow> string \<Rightarrow> 'k option"

definition ossl_ENGINE_by_id :: "('h, 'k) engine_lib \<Rightarrow> string \<Rightarrow> 'h res" where
  [ossl_simps]: "ossl_ENGINE_by_id G engineId = OpensslCallPtr (SSL_ENGINE_by_id G (c_str engineId))"

definition ossl_ENGINE_init :: "('h, 'k) engine_lib \<Rightarrow> 'h \<Rightarrow> 'h res" where
  [ossl_simps]: "ossl_ENGINE_init G e = checkC OpensslCallIsOne (SSL_ENGINE_init G e)"

definition ossl_ENGINE_ctrl_cmd_string :: "('h, 'k) engine_lib \<Rightarrow> string \<Rightarrow> string \<Rightarrow> 'h \<Rightarrow> 'h res" where
  [ossl_simps]: "ossl_ENGINE_ctrl_cmd_string G cmdName cmdArg e =
     checkC OpensslCallIsOne (SSL_ENGINE_ctrl_cmd_string G e (c_str cmdName) (c_str cmdArg) 0)"

definition ossl_ENGINE_load_private_key :: "('h, 'k) engine_lib \<Rightarrow> 'h \<Rightarrow> string \<Rightarrow> 'k res" where
  [ossl_simps]: "ossl_ENGINE_load_private_key G e keyId = OpensslCallPtr (SSL_ENGINE_load_private_key G e (c_str keyId))"

definition ossl_ENGINE_load_public_key :: "('h, 'k) engine_lib \<Rightarrow> 'h \<Rightarrow> string \<Rightarrow> 'k res" where
  [ossl_simps]: "ossl_ENGINE_load_public_key G e keyId = OpensslCallPtr (SSL_ENGINE_load_public_key G e (c_str keyId))"

definition ossl_ENGINE_finish :: "('h, 'k) engine_lib \<Rightarrow> ('h, unit) st" where
  [ossl_simps]: "ossl_ENGINE_finish G e = checkS OpensslCallIsOne (SSL_ENGINE_finish G e)"

record 'h HsmEngine =
  hsm_id :: string
  hsm_modulePath :: string
  hsm_pin :: string
  hsm_engine :: 'h

definition HsmEngine_new :: "('h, 'k) engine_lib \<Rightarrow> string \<Rightarrow> string \<Rightarrow> string \<Rightarrow> 'h HsmEngine res" where
  "HsmEngine_new G engineId modulePath pin =
     bindR (ossl_ENGINE_by_id G engineId) (\<lambda>engine.
     bindR (ossl_ENGINE_ctrl_cmd_string G ''MODULE_PATH'' modulePath engine) (\<lambda>engine.
     bindR (ossl_ENGINE_ctrl_cmd_string G ''PIN'' pin engine) (\<lambda>engine.
     bindR (ossl_ENGINE_init G engine) (\<lambda>engine.
       Inr \<lparr>hsm_id = engineId, hsm_modulePath = modulePath, hsm_pin = pin, hsm_engine = engine\<rparr>))))"

text \<open>The destructor: an exception in it ends the program.\<close>

definition HsmEngine_delete :: "('h, 'k) engine_lib \<Rightarrow> 'h HsmEngine \<Rightarrow> unit res" where
  "HsmEngine_delete G hsm = fst (ossl_ENGINE_finish G (hsm_engine hsm))"

definition loadPublicKey :: "('h, 'k) engine_lib \<Rightarrow> 'h HsmEngine \<Rightarrow> string \<Rightarrow> 'k res" where
  "loadPublicKey G hsm keyID = ossl_ENGINE_load_public_key G (hsm_engine hsm) keyID"
definition loadPrivateKey :: "('h, 'k) engine_lib \<Rightarrow> 'h HsmEngine \<Rightarrow> string \<Rightarrow> 'k res" where
  "loadPrivateKey G hsm keyID = ossl_ENGINE_load_private_key G (hsm_engine hsm) keyID"

definition readPublicKeyFromHSM :: "('h, 'k) engine_lib \<Rightarrow> 'h HsmEngine \<Rightarrow> string \<Rightarrow> 'k res" where
  "readPublicKeyFromHSM G hsm keyID = loadPublicKey G hsm keyID"
definition readPrivateKeyFromHSM :: "('h, 'k) engine_lib \<Rightarrow> 'h HsmEngine \<Rightarrow> string \<Rightarrow> 'k res" where
  "readPrivateKeyFromHSM G hsm keyID = loadPrivateKey G hsm keyID"

section \<open>What OpenSSL documents\<close>

text \<open>
  \<open>text k p\<close> is the PEM form of a key, encrypted with the password if there is one.  The
  plain form is read with any password, the encrypted one with its own only; the fallback
  callback has room for 1024 characters.
\<close>

definition private_laws ::
  "('k, 'b) private_io \<Rightarrow> ('b \<Rightarrow> bytes) \<Rightarrow> ('k \<Rightarrow> bool) \<Rightarrow> ('k \<Rightarrow> string option \<Rightarrow> string) \<Rightarrow> bool" where
  "private_laws K content good pemtext \<longleftrightarrow>
     (\<forall>k p. good k \<longrightarrow> CHR 0x00 \<notin> set (pemtext k p))
     \<and> (\<forall>b k s n. good k \<and> content b = [] \<longrightarrow> (\<exists>b'. SSL_PEM_write_bio_PKCS8PrivateKey K b k None s n = (1, b')
          \<and> content b' = string_bytes (pemtext k None)))
     \<and> (\<forall>b k c s. good k \<and> content b = [] \<and> int (length s) \<le> INT_MAX \<longrightarrow>
          (\<exists>b'. SSL_PEM_write_bio_PKCS8PrivateKey K b k (Some c) s (int (length s)) = (1, b')
             \<and> content b' = string_bytes (pemtext k (Some s))))
     \<and> (\<forall>b k u. good k \<and> content b = string_bytes (pemtext k None) \<longrightarrow> SSL_PEM_read_bio_PrivateKey K b u = Some k)
     \<and> (\<forall>b k p u. good k \<and> length p \<le> 1024 \<and> length u \<le> 1024 \<and> content b = string_bytes (pemtext k (Some p)) \<longrightarrow>
          SSL_PEM_read_bio_PrivateKey K b u = (if u = p then Some k else None))"

lemmas privD = private_laws_def [THEN iffD1]
lemmas priv_nulD = privD [THEN conjunct1, rule_format]
  and priv_plainD = privD [THEN conjunct2, THEN conjunct1, rule_format]
  and priv_encD = privD [THEN conjunct2, THEN conjunct2, THEN conjunct1, rule_format]
  and priv_read_plainD = privD [THEN conjunct2, THEN conjunct2, THEN conjunct2, THEN conjunct1, rule_format]
  and priv_read_encD = privD [THEN conjunct2, THEN conjunct2, THEN conjunct2, THEN conjunct2, rule_format]

lemma length_c_str: "length (c_str s) \<le> length s"
  by (simp add: c_str_def length_takeWhile_le)

lemma c_str_idem [simp]: "c_str (c_str s) = c_str s"
  by (simp add: c_str_def)

lemma c_str_changes: "c_str s = s \<longleftrightarrow> CHR 0x00 \<notin> set s"
  by (auto simp: c_str_def takeWhile_eq_all_conv)

definition stored :: "string \<Rightarrow> string option" where
  "stored pwd = (if pwd = [] then None else Some pwd)"

lemma privateKeyToPem_ok:
  assumes "bio_laws B content" "private_laws K content good pemtext" "good k" "int (length pwd) \<le> INT_MAX"
  shows "privateKeyToPem B K pwd k = Some (Inr (pemtext k (stored pwd)))"
proof -
  have "bio_printed B (ossl_PEM_write_bio_PKCS8PrivateKey K k (if length pwd > 0 then Some EVP_aes_256_cbc else None) pwd)
      = Some (Inr (bytes_string (string_bytes (pemtext k (stored pwd)))))"
  proof (rule bio_printed_ok [OF assms(1)])
    fix b assume b: "content b = []"
    have "\<exists>b'. SSL_PEM_write_bio_PKCS8PrivateKey K b k (if length pwd > 0 then Some EVP_aes_256_cbc else None) pwd
        (to_int (length pwd)) = (1, b') \<and> content b' = string_bytes (pemtext k (stored pwd))"
    proof (cases "pwd = []")
      case True
      then show ?thesis using priv_plainD [OF assms(2)] assms(3) b by (simp add: stored_def)
    next
      case False
      then show ?thesis
        using priv_encD [OF assms(2), of k b pwd EVP_aes_256_cbc] assms(3,4) b
        by (simp add: stored_def to_int_small)
    qed
    then show "\<exists>b'. ossl_PEM_write_bio_PKCS8PrivateKey K k (if length pwd > 0 then Some EVP_aes_256_cbc else None) pwd b
        = Inr b' \<and> content b' = string_bytes (pemtext k (stored pwd))"
      by (auto simp: ossl_PEM_write_bio_PKCS8PrivateKey_def)
  qed
  then show ?thesis by (simp add: privateKeyToPem_def Let_def)
qed

lemma readPrivateKey_ok:
  assumes "bio_laws B content" "private_laws K content good pemtext" "good k" "length pwd \<le> 1024" "length u \<le> 1024"
  shows "readPrivateKeyFromPEM B K (pemtext k (stored pwd)) u =
     (if pwd = [] \<or> c_str u = pwd then Inr k else Inl OpenSSLException_default)"
proof -
  have t: "c_str (pemtext k (stored pwd)) = pemtext k (stored pwd)"
    using priv_nulD [OF assms(2,3)] by (rule c_str_id)
  obtain b where b: "content b = string_bytes (pemtext k (stored pwd))"
      "readPrivateKeyFromPEM B K (pemtext k (stored pwd)) u = ossl_PEM_read_bio_PrivateKey K (c_str u) b"
    using bio_parsed_ok [OF assms(1), of "pemtext k (stored pwd)"] t unfolding readPrivateKeyFromPEM_def by metis
  have "length (c_str u) \<le> 1024" using length_c_str [of u] assms(5) by simp
  then have "SSL_PEM_read_bio_PrivateKey K b (c_str u) = (if pwd = [] \<or> c_str u = pwd then Some k else None)"
    using priv_read_plainD [OF assms(2), of k b] priv_read_encD [OF assms(2), of k pwd "c_str u" b] assms(3,4) b(1)
    by (auto simp: stored_def split: if_splits)
  with b(2) show ?thesis by (auto simp: ossl_PEM_read_bio_PrivateKey_def)
qed

text \<open>
  C26: Public keys survive the way through PEM.  A private key written without a password is read
  with any; written with one it is read with exactly that one - provided it has no null
  character.  A password with a null character encrypts the key, but neither it nor any other
  string reads the key back: the reader cuts passwords at the first null character.
\<close>

theorem key_PEM_roundtrip:
  assumes "bio_laws B content" "pem_laws J content bm em pgood bd" "pgood p"
    and "private_laws K content good pemtext" "good k" "length pwd \<le> 1024" "length u \<le> 1024"
  shows "(\<exists>pem. publicKeyToPem B J p = Some (Inr pem) \<and> readPublicKeyFromPEM B J pem = Inr p)
    \<and> (\<exists>pem. privateKeyToPem B K pwd k = Some (Inr pem)
         \<and> (pwd = [] \<longrightarrow> readPrivateKeyFromPEM B K pem u = Inr k)
         \<and> (CHR 0x00 \<notin> set pwd \<longrightarrow> readPrivateKeyFromPEM B K pem pwd = Inr k)
         \<and> (pwd \<noteq> [] \<and> c_str u \<noteq> pwd \<longrightarrow> readPrivateKeyFromPEM B K pem u = Inl OpenSSLException_default)
         \<and> (CHR 0x00 \<in> set pwd \<longrightarrow> readPrivateKeyFromPEM B K pem pwd = Inl OpenSSLException_default
              \<and> readPrivateKeyFromPEM B K pem u = Inl OpenSSLException_default))"
proof -
  have w: "privateKeyToPem B K pwd k = Some (Inr (pemtext k (stored pwd)))"
    using privateKeyToPem_ok [OF assms(1,4,5)] assms(6) by (simp add: INT_MAX_def)
  have n: "CHR 0x00 \<in> set pwd \<Longrightarrow> c_str s \<noteq> pwd" for s
    using c_str_changes [of pwd] by (metis c_str_idem)
  show ?thesis
    using pubkey.pem_roundtrip [OF assms(1-3)] w readPrivateKey_ok [OF assms(1,4-7)]
      readPrivateKey_ok [OF assms(1,4-6,6)] n c_str_id [of pwd] by auto
qed

section \<open>Concrete instances\<close>

text \<open>Keys are numbers; the PEM form shows the key in unary and the password's characters in two letters each.\<close>

definition ref_letters :: "string \<Rightarrow> string" where
  "ref_letters s = concat (map (\<lambda>c. [char_of (65 + (of_char c :: nat) div 16), char_of (65 + (of_char c :: nat) mod 16)]) s)"

fun ref_unletters :: "string \<Rightarrow> string" where
  "ref_unletters (a # b # r) = char_of (16 * ((of_char a :: nat) - 65) + (of_char b - 65)) # ref_unletters r"
| "ref_unletters _ = []"

definition ref_private_text :: "nat \<Rightarrow> string option \<Rightarrow> string" where
  "ref_private_text k p = replicate k (CHR ''k'') @ (case p of None \<Rightarrow> [] | Some s \<Rightarrow> CHR ''Z'' # ref_letters s)"

definition ref_private_io :: "(nat, bytes) private_io" where
  "ref_private_io =
     \<lparr>SSL_PEM_write_bio_PKCS8PrivateKey = (\<lambda>b k c s n. (1, b @ string_bytes (ref_private_text k
        (case c of None \<Rightarrow> None | Some _ \<Rightarrow> Some (take (nat n) s))))),
      SSL_PEM_read_bio_PrivateKey = (\<lambda>b u.
        let t = bytes_string b; k = length (takeWhile (\<lambda>c. c = CHR ''k'') t) in
        case drop k t of [] \<Rightarrow> Some k | z # r \<Rightarrow> if ref_unletters r = u then Some k else None)\<rparr>"

lemma of_char_letter: "of_char (char_of (65 + (of_char (c :: char) :: nat) div 16)) = 65 + (of_char c :: nat) div 16"
  "of_char (char_of (65 + (of_char (c :: char) :: nat) mod 16)) = 65 + (of_char c :: nat) mod 16"
proof -
  have "(of_char c :: nat) < 256" by simp
  then have "65 + (of_char c :: nat) div 16 < 256" "65 + (of_char c :: nat) mod 16 < 256" by linarith+
  then show "of_char (char_of (65 + (of_char c :: nat) div 16)) = 65 + (of_char c :: nat) div 16"
    "of_char (char_of (65 + (of_char c :: nat) mod 16)) = 65 + (of_char c :: nat) mod 16" by simp_all
qed

lemma ref_unletters_letters: "ref_unletters (ref_letters s) = s"
proof (induction s)
  case (Cons c s)
  have "(of_char c :: nat) < 256" by simp
  then have "65 + (of_char c :: nat) div 16 < 256" by linarith
  then have "(65 + (of_char c :: nat) div 16) mod 256 = 65 + (of_char c :: nat) div 16" by (rule mod_less)
  with Cons show ?case by (simp add: ref_letters_def)
qed (simp add: ref_letters_def)

lemma ref_letters_null: "CHR 0x00 \<notin> set (ref_letters s)"
proof
  assume "CHR 0x00 \<in> set (ref_letters s)"
  then obtain c where "CHR 0x00 = char_of (65 + (of_char (c :: char) :: nat) div 16)
      \<or> CHR 0x00 = char_of (65 + (of_char c :: nat) mod 16)" by (auto simp: ref_letters_def)
  then have "(of_char (CHR 0x00) :: nat) \<ge> 65" using of_char_letter [of c] by (metis le_add1)
  then show False by simp
qed

lemma ref_private_laws: "private_laws ref_private_io id (\<lambda>k. True) ref_private_text"
proof -
  have t: "takeWhile (\<lambda>c. c = CHR ''k'') (replicate k (CHR ''k'') @ r) = replicate k (CHR ''k'') @ takeWhile (\<lambda>c. c = CHR ''k'') r" for k r
    by (induction k) simp_all
  show ?thesis
    by (simp add: private_laws_def ref_private_io_def ref_letters_null ref_private_text_def t ref_unletters_letters Let_def eq_commute
        split: option.splits)
qed

theorem key_PEM_roundtrip_witness:
  "\<exists>pem. privateKeyToPem ref_bio_lib ref_private_io [CHR ''p'', CHR 0x00] 5 = Some (Inr pem)
     \<and> readPrivateKeyFromPEM ref_bio_lib ref_private_io pem [CHR ''p'', CHR 0x00] = Inl OpenSSLException_default"
proof -
  have l: "pem_laws (ref_object_io ''B'' ''E'') id ''B'' ''E'' ref_good id" "ref_good ''A''"
    by (rule ref_pem_laws; simp) (simp add: ref_good_def)
  show ?thesis
    using key_PEM_roundtrip [OF ref_bio_laws l ref_private_laws TrueI, of "[CHR ''p'', CHR 0x00]" "[]"] by auto
qed

section \<open>Loading keys from a module\<close>

text \<open>
  Module path and PIN are set before the engine is initialised, in this order; a constructed
  object holds an initialised engine, which all keys are loaded from.
\<close>

lemma HsmEngine_new_order:
  "HsmEngine_new G engineId modulePath pin = Inr hsm \<longleftrightarrow>
     (\<exists>e0 e1 e2 e3. SSL_ENGINE_by_id G (c_str engineId) = Some e0
        \<and> SSL_ENGINE_ctrl_cmd_string G e0 ''MODULE_PATH'' (c_str modulePath) 0 = (1, e1)
        \<and> SSL_ENGINE_ctrl_cmd_string G e1 ''PIN'' (c_str pin) 0 = (1, e2) \<and> SSL_ENGINE_init G e2 = (1, e3)
        \<and> hsm = \<lparr>hsm_id = engineId, hsm_modulePath = modulePath, hsm_pin = pin, hsm_engine = e3\<rparr>)"
proof -
  have c: "c_str ''MODULE_PATH'' = ''MODULE_PATH''" "c_str ''PIN'' = ''PIN''" by (simp_all add: c_str_def)
  have p: "OpensslCallPtr q = Inr x \<longleftrightarrow> q = Some x" for q x by (cases q) simp_all
  have k: "checkC OpensslCallIsOne r = Inr x \<longleftrightarrow> r = (1, x)" for r x by (cases r) (auto simp: checkC_def)
  show ?thesis by (auto simp: HsmEngine_new_def ossl_simps bindR_eq_Inr c p k)
qed

end
