(* ===== verification/Public_Ctx.thy ===== *)
theory Public_Ctx
  imports X509_Cert Ecdsa_Ctx Ecies_Ctx
begin

text \<open>
  The public context classes of \<open>src/src/asymmetric_crypto_ctx.cpp\<close>.  Each holds an
  implementation object and forwards its operations to it; copying a context copies that
  object, a value here.  What the classes add are the constructors: default signature formats,
  the older names of the formats, and contexts made from a certificate.
\<close>

section \<open>Constructors\<close>

definition RSAEncryptionPrivateKeyCtx_new ::
  "('k, 'e, 'g, 'c) pkey_lib \<Rightarrow> 'k \<Rightarrow> RSAEncryptionPadding \<Rightarrow> ('k, RSAEncryptionPadding) RSAImpl res" where
  "RSAEncryptionPrivateKeyCtx_new P key padding = RSAImpl_new P key padding"

definition RSAEncryptionPublicKeyCtx_new ::
  "('k, 'e, 'g, 'c) pkey_lib \<Rightarrow> 'k \<Rightarrow> RSAEncryptionPadding \<Rightarrow> ('k, RSAEncryptionPadding) RSAImpl res" where
  "RSAEncryptionPublicKeyCtx_new P key padding = RSAImpl_new P key padding"

definition RSAEncryptionPublicKeyCtx_cert ::
  "('x, 'n, 'k, 't, 'i) cert_lib \<Rightarrow> ('k, 'e, 'g, 'c) pkey_lib \<Rightarrow> 'x \<Rightarrow> RSAEncryptionPadding \<Rightarrow>
     ('k, RSAEncryptionPadding) RSAImpl res" where
  "RSAEncryptionPublicKeyCtx_cert L P cert padding =
     bindR (X509_getPublicKey L cert) (\<lambda>key. RSAEncryptionPublicKeyCtx_new P key padding)"

definition RSASignaturePrivateKeyCtx_new ::
  "('k, 'e, 'g, 'c) pkey_lib \<Rightarrow> 'k \<Rightarrow> DigestTypes \<Rightarrow> RSASignaturePadding \<Rightarrow> 'k RSASignatureImpl res" where
  "RSASignaturePrivateKeyCtx_new P key hashFunction padding = RSASignatureImpl_new P key hashFunction padding"

definition RSASignaturePublicKeyCtx_new ::
  "('k, 'e, 'g, 'c) pkey_lib \<Rightarrow> 'k \<Rightarrow> DigestTypes \<Rightarrow> RSASignaturePadding \<Rightarrow> 'k RSASignatureImpl res" where
  "RSASignaturePublicKeyCtx_new P key hashFunction padding = RSASignatureImpl_new P key hashFunction padding"

definition RSASignaturePublicKeyCtx_cert ::
  "('x, 'n, 'k, 't, 'i) cert_lib \<Rightarrow> ('k, 'e, 'g, 'c) pkey_lib \<Rightarrow> 'x \<Rightarrow> DigestTypes \<Rightarrow> RSASignaturePadding \<Rightarrow>
     'k RSASignatureImpl res" where
  "RSASignaturePublicKeyCtx_cert L P cert hashFunction padding =
     bindR (X509_getPublicKey L cert) (\<lambda>key. RSASignaturePublicKeyCtx_new P key hashFunction padding)"

definition ECDSASignaturePrivateKeyCtx_default ::
  "('k, 'e, 'g, 'c) pkey_lib \<Rightarrow> 'k \<Rightarrow> DigestTypes \<Rightarrow> 'k ECDSAImpl res" where
  "ECDSASignaturePrivateKeyCtx_default P key hashFunction = ECDSAImpl_new P key hashFunction ASN1_SEQUENCE_OF_INTS"

definition ECDSASignaturePrivateKeyCtx_new ::
  "('k, 'e, 'g, 'c) pkey_lib \<Rightarrow> 'k \<Rightarrow> DigestTypes \<Rightarrow> ECDSASignatureFormat \<Rightarrow> 'k ECDSAImpl res" where
  "ECDSASignaturePrivateKeyCtx_new P key hashFunction sigFormat = ECDSAImpl_new P key hashFunction sigFormat"

definition ECDSASignaturePublicKeyCtx_new ::
  "('k, 'e, 'g, 'c) pkey_lib \<Rightarrow> 'k \<Rightarrow> DigestTypes \<Rightarrow> ECDSASignatureFormat \<Rightarrow> 'k ECDSAImpl res" where
  "ECDSASignaturePublicKeyCtx_new P key hashFunction format = ECDSAImpl_new P key hashFunction format"

definition ECDSASignaturePublicKeyCtx_SDA ::
  "('k, 'e, 'g, 'c) pkey_lib \<Rightarrow> 'k \<Rightarrow> DigestTypes \<Rightarrow> ECSDASignatureFormat \<Rightarrow> 'k ECDSAImpl res" where
  "ECDSASignaturePublicKeyCtx_SDA P key hashFunction format =
     ECDSAImpl_new P key hashFunction (SDAtoDSASignatureFormat format)"

definition ECDSASignaturePublicKeyCtx_default ::
  "('k, 'e, 'g, 'c) pkey_lib \<Rightarrow> 'k \<Rightarrow> DigestTypes \<Rightarrow> 'k ECDSAImpl res" where
  "ECDSASignaturePublicKeyCtx_default P key hashFunction =
     ECDSASignaturePublicKeyCtx_new P key hashFunction ASN1_SEQUENCE_OF_INTS"

definition ECDSASignaturePublicKeyCtx_cert_default ::
  "('x, 'n, 'k, 't, 'i) cert_lib \<Rightarrow> ('k, 'e, 'g, 'c) pkey_lib \<Rightarrow> 'x \<Rightarrow> DigestTypes \<Rightarrow> 'k ECDSAImpl res" where
  "ECDSASignaturePublicKeyCtx_cert_default L P cert hashFunction =
     bindR (X509_getPublicKey L cert) (\<lambda>key. ECDSASignaturePublicKeyCtx_default P key hashFunction)"

definition ECDSASignaturePublicKeyCtx_cert_SDA ::
  "('x, 'n, 'k, 't, 'i) cert_lib \<Rightarrow> ('k, 'e, 'g, 'c) pkey_lib \<Rightarrow> 'x \<Rightarrow> DigestTypes \<Rightarrow> ECSDASignatureFormat \<Rightarrow>
     'k ECDSAImpl res" where
  "ECDSASignaturePublicKeyCtx_cert_SDA L P cert hashFunction format =
     bindR (X509_getPublicKey L cert) (\<lambda>key.
       ECDSASignaturePublicKeyCtx_new P key hashFunction (SDAtoDSASignatureFormat format))"

definition ECDSASignaturePublicKeyCtx_cert ::
  "('x, 'n, 'k, 't, 'i) cert_lib \<Rightarrow> ('k, 'e, 'g, 'c) pkey_lib \<Rightarrow> 'x \<Rightarrow> DigestTypes \<Rightarrow> ECDSASignatureFormat \<Rightarrow>
     'k ECDSAImpl res" where
  "ECDSASignaturePublicKeyCtx_cert L P cert hashFunction format =
     bindR (X509_getPublicKey L cert) (\<lambda>key. ECDSASignaturePublicKeyCtx_new P key hashFunction format)"

definition EdDSASignaturePrivateKeyCtx_new :: "('k, 'e, 'g, 'c) pkey_lib \<Rightarrow> 'k \<Rightarrow> 'k EdDSAImpl res" where
  "EdDSASignaturePrivateKeyCtx_new P key = EdDSAImpl_new P key"

definition EdDSASignaturePublicKeyCtx_new :: "('k, 'e, 'g, 'c) pkey_lib \<Rightarrow> 'k \<Rightarrow> 'k EdDSAImpl res" where
  "EdDSASignaturePublicKeyCtx_new P key = EdDSAImpl_new P key"

definition EdDSASignaturePublicKeyCtx_cert ::
  "('x, 'n, 'k, 't, 'i) cert_lib \<Rightarrow> ('k, 'e, 'g, 'c) pkey_lib \<Rightarrow> 'x \<Rightarrow> 'k EdDSAImpl res" where
  "EdDSASignaturePublicKeyCtx_cert L P cert =
     bindR (X509_getPublicKey L cert) (EdDSASignaturePublicKeyCtx_new P)"

text \<open>ECIES for the owner of a certificate; an exception leaves the builder as it is.\<close>

definition buildEncryptionCtx_cert ::
  "('x, 'n, 'k, 't, 'i) cert_lib \<Rightarrow> ('h, 'm, 'a, 's) crypto_env \<Rightarrow> ('k, 'e, 'g, 'c) pkey_lib \<Rightarrow> nat \<Rightarrow> 'x \<Rightarrow>
     (('h, 'm, 'a, 's, 'k) ecies_builder, ('h, 'm, 'a, 's, 'k) ecies_ctx) st" where
  "buildEncryptionCtx_cert L E P rnd bobsCert =
     bindS (liftS (X509_getPublicKey L bobsCert)) (buildEncryptionCtx E P rnd)"

lemmas public_ctx_defs = RSAEncryptionPrivateKeyCtx_new_def RSAEncryptionPublicKeyCtx_new_def
  RSAEncryptionPublicKeyCtx_cert_def RSASignaturePrivateKeyCtx_new_def RSASignaturePublicKeyCtx_new_def
  RSASignaturePublicKeyCtx_cert_def ECDSASignaturePrivateKeyCtx_default_def ECDSASignaturePrivateKeyCtx_new_def
  ECDSASignaturePublicKeyCtx_new_def ECDSASignaturePublicKeyCtx_SDA_def ECDSASignaturePublicKeyCtx_default_def
  ECDSASignaturePublicKeyCtx_cert_default_def ECDSASignaturePublicKeyCtx_cert_SDA_def
  ECDSASignaturePublicKeyCtx_cert_def EdDSASignaturePrivateKeyCtx_new_def EdDSASignaturePublicKeyCtx_new_def
  EdDSASignaturePublicKeyCtx_cert_def

section \<open>Contexts made from certificates\<close>

lemma cert_public_key:
  "cert_get_laws L view entries secs ival \<Longrightarrow> X509_getPublicKey L x = Inr (cv_pubkey (view x))"
  using get_pubkeyD [of L view entries secs ival x] by (simp add: X509_getPublicKey_def ossl_simps)

lemma buildEncryptionCtx_cert_key:
  "cert_get_laws L view entries secs ival \<Longrightarrow>
     buildEncryptionCtx_cert L E P rnd x b = buildEncryptionCtx E P rnd (cv_pubkey (view x)) b"
  by (simp add: buildEncryptionCtx_cert_def bindS_def cert_public_key)

text \<open>A pair of contexts over the same key: what one signs, the other accepts.\<close>

lemma digest_of:
  assumes "digest_lib_laws D absorbed H" "h \<noteq> NONE"
  shows "createHash D h y = Inr (H (md_of h) y)" "length (H (md_of h) y) = md_size (md_of h)"
  using createHash_laws [OF assms(1)] md_of assms by (auto simp: digest_lib_laws_def)

lemma RSA_pair_signs:
  assumes "rsa_sig_laws P C pv pub valid signs h p" "digest_lib_laws D absorbed H"
    and "signs k (sig_cfg p (md_of h)) (H (md_of h) m)"
  shows "\<exists>s. RSA_signMessage P C D (rsa_sig k h p) rnd m = Inr s
     \<and> RSA_verifyMessage P C D (rsa_sig (pub k) h p) s m = Inr ()"
proof -
  have "h \<noteq> NONE" using assms(1) by (simp add: rsa_sig_laws_def)
  note hs = digest_of [OF assms(2) this]
  have "\<exists>s. bindR (createHash D h m) (RSA_signDigest P C (rsa_sig k h p) rnd) = Inr s
      \<and> bindR (createHash D h m) (RSA_verifyDigest P C (rsa_sig (pub k) h p) s) = Inr ()"
    by (rule rsa.message_signature [of P C pv pub valid signs h p "createHash D h" "H (md_of h)", THEN conjunct1])
      (use assms hs in blast)+
  then show ?thesis by (simp add: RSA_signMessage_def RSA_verifyMessage_def)
qed

lemma ECDSA_pair_signs:
  assumes "ecdsa_laws P C B pv pub valid signs val rs der k h" "digest_lib_laws D absorbed H"
    and "signs k cfg_default (H (md_of h) m)"
  shows "\<exists>s. ECDSA_signMessage P C B D (ecdsa_ctx k h g) rnd m = Inr s
     \<and> ECDSA_verifyMessage P C B D (ecdsa_ctx (pub k) h g) s m = Inr ()"
proof -
  have "h \<noteq> NONE" using assms(1) by (simp add: ecdsa_laws_def)
  note hs = digest_of [OF assms(2) this]
  have "\<exists>s. bindR (createHash D h m) (ECDSA_signDigest P C B (ecdsa_ctx k h g) rnd) = Inr s
      \<and> bindR (createHash D h m) (ECDSA_verifyDigest P C B (ecdsa_ctx (pub k) h g) s) = Inr ()"
    by (rule ecdsa.message_signature [of P C B pv pub valid signs val rs der k h "createHash D h" "H (md_of h)",
          THEN conjunct1]) (use assms hs in blast)+
  then show ?thesis by (simp add: ECDSA_signMessage_def ECDSA_verifyMessage_def)
qed

text \<open>
  C13: A message signed with the private key that belongs to a certificate is accepted by the
  verification context made from the certificate: for RSA with any padding and digest, for
  elliptic curves in the default format, in a given format and in the format given by its
  older name, and for Edwards curves.
\<close>

theorem certificate_verifies_signatures:
  assumes "cert_get_laws L view entries secs ival" "cv_pubkey (view x) = pub k"
  shows "(rsa_sig_laws P C pv pub valid signs h p \<and> digest_lib_laws D absorbed H
       \<and> SSL_EVP_PKEY_type_of_id P k = EVP_PKEY_RSA \<and> SSL_EVP_PKEY_type_of_id P (pub k) = EVP_PKEY_RSA
       \<and> signs k (sig_cfg p (md_of h)) (H (md_of h) m) \<longrightarrow>
       (\<exists>S V s. RSASignaturePrivateKeyCtx_new P k h p = Inr S \<and> RSASignaturePublicKeyCtx_cert L P x h p = Inr V
          \<and> RSA_signMessage P C D S rnd m = Inr s \<and> RSA_verifyMessage P C D V s m = Inr ()))
    \<and> (ecdsa_laws P C B pv pub valid signs val rs der k h \<and> digest_lib_laws D absorbed H
       \<and> SSL_EVP_PKEY_type_of_id P k = EVP_PKEY_EC \<and> SSL_EVP_PKEY_type_of_id P (pub k) = EVP_PKEY_EC
       \<and> signs k cfg_default (H (md_of h) m) \<longrightarrow>
       (\<exists>S V s. ECDSASignaturePrivateKeyCtx_new P k h f = Inr S \<and> ECDSASignaturePublicKeyCtx_cert L P x h f = Inr V
          \<and> ECDSA_signMessage P C B D S rnd m = Inr s \<and> ECDSA_verifyMessage P C B D V s m = Inr ()
          \<and> (f = SDAtoDSASignatureFormat f' \<longrightarrow> ECDSASignaturePublicKeyCtx_cert_SDA L P x h f' = Inr V))
       \<and> (\<exists>S V s. ECDSASignaturePrivateKeyCtx_default P k h = Inr S
          \<and> ECDSASignaturePublicKeyCtx_cert_default L P x h = Inr V
          \<and> ECDSA_signMessage P C B D S rnd m = Inr s \<and> ECDSA_verifyMessage P C B D V s m = Inr ()))
    \<and> (eddsa_laws E X dkey pub edvalid \<and> getType P k = Inr ECC_ED \<and> getType P (pub k) = Inr ECC_ED \<longrightarrow>
       (\<exists>S V s. EdDSASignaturePrivateKeyCtx_new P k = Inr S \<and> EdDSASignaturePublicKeyCtx_cert L P x = Inr V
          \<and> EdDSA_signMessage E X S m = Inr s \<and> EdDSA_verifyMessage E X V s m = Inr ()))"
    (is "?rsa \<and> ?ec \<and> ?ed")
proof (intro conjI)
  note key = cert_public_key [OF assms(1), of x, unfolded assms(2)]
  note signs = RSA_pair_signs [of P C pv pub valid signs h p D absorbed H k m rnd]
    ECDSA_pair_signs [of P C B pv pub valid signs val rs der k h D absorbed H m _ rnd]
  show ?rsa
    using signs(1) key by (auto simp: public_ctx_defs RSASignatureImpl_new_ok)
  show ?ec
    using signs(2) key by (auto simp: public_ctx_defs ECDSAImpl_new_ok)
  show ?ed
    using EdDSA_signature [of E X dkey pub edvalid P k m "[]" "[]", THEN conjunct1] key by (auto simp: public_ctx_defs)
qed

text \<open>The certificate is a key and a number; its key is the public part of an elliptic curve key.\<close>

definition ref_key_cert :: "(int \<times> bool) ref_cert" where
  "ref_key_cert = ref_empty_cert (ref_pub ref_ec)"

theorem certificate_verifies_signatures_witness:
  "\<exists>S V s. ECDSASignaturePrivateKeyCtx_default ref_asym_lib ref_ec SHA256 = Inr S
     \<and> ECDSASignaturePublicKeyCtx_cert_default (ref_cert_lib_for ref_ec ref_pub) ref_asym_lib ref_key_cert SHA256 = Inr V
     \<and> ECDSA_signMessage ref_asym_lib ref_ec_ctx_lib ref_ecsig_lib ref_digest_lib S 0 [7] = Inr s
     \<and> ECDSA_verifyMessage ref_asym_lib ref_ec_ctx_lib ref_ecsig_lib ref_digest_lib V s [7] = Inr ()"
proof -
  have types: "SSL_EVP_PKEY_type_of_id ref_asym_lib ref_ec = EVP_PKEY_EC"
    "SSL_EVP_PKEY_type_of_id ref_asym_lib (ref_pub ref_ec) = EVP_PKEY_EC"
    by (simp_all add: ref_asym_lib_def ref_ec_def ref_pub_def)
  have s: "ref_signs ref_ec cfg_default (resize [7] (md_size (md_of SHA256)))"
    by (simp add: ref_signs_def INT_MAX_def md_of_def)
  have k: "cv_pubkey (X509_Cert.ref_view ref_key_cert) = ref_pub ref_ec"
    by (simp add: ref_key_cert_def X509_Cert.ref_view_def ref_empty_cert_def)
  show ?thesis
    using certificate_verifies_signatures [OF ref_cert_laws_for(2) [of ref_ec ref_pub], of ref_key_cert ref_pub ref_ec, OF k, THEN conjunct2, THEN conjunct1, rule_format,
        OF conjI [OF ref_ecdsa_laws conjI [OF ref_digest_lib_laws conjI [OF types(1) conjI [OF types(2) s]]]],
        THEN conjunct2] .
qed

end
