(* ===== verification/Io_Utils.thy ===== *)
theory Io_Utils
  imports X509_Crl Key_Pem
begin

text \<open>
  \<open>src/src/mococrw/private/IOUtils.h\<close>: certificates, revocation lists and keys in files.
  The file system has regular files only; a file stream passes its name on as a C string and
  does not translate the bytes.
\<close>

section \<open>Files\<close>

text \<open>
  The content of the files that can be read, which names can be opened for writing and how
  many bytes a file may take.
\<close>

record file_system =
  fs_content :: "string \<rightharpoonup> bytes"
  fs_writable :: "string \<Rightarrow> bool"
  fs_room :: "string \<Rightarrow> nat"

definition err_load_file :: "string \<Rightarrow> exn" where
  "err_load_file filename = RuntimeError [Str ''Cannot load key/certificate from file '', Str filename]"

definition bytesFromFile :: "file_system \<Rightarrow> string \<Rightarrow> bytes res" where
  "bytesFromFile fs filename =
     (case fs_content fs (c_str filename) of
        None \<Rightarrow> Inl (err_load_file filename)
      | Some content \<Rightarrow>
          (let size = length content;
               buffer = resize [] size
           in Inr (overwrite buffer (take size content))))"

definition openSSLObjectFromFile :: "(string \<Rightarrow> 'a res) \<Rightarrow> file_system \<Rightarrow> string \<Rightarrow> 'a res" where
  "openSSLObjectFromFile f fs filename =
     bindR (bytesFromFile fs filename) (\<lambda>buffer. f (bytes_string buffer))"

definition loadCertFromFile :: "'b bio_lib \<Rightarrow> ('x, 'b) object_io \<Rightarrow> file_system \<Rightarrow> string \<Rightarrow> 'x res" where
  "loadCertFromFile B J fs filename = openSSLObjectFromFile (X509_fromPEM B J) fs filename"

definition loadCertFromDERFile :: "'b bio_lib \<Rightarrow> ('x, 'b) object_io \<Rightarrow> file_system \<Rightarrow> string \<Rightarrow> 'x res" where
  "loadCertFromDERFile B J fs filename = bindR (bytesFromFile fs filename) (\<lambda>buffer. X509_fromDER B J buffer)"

definition loadCrlFromFile :: "'b bio_lib \<Rightarrow> ('r, 'b) object_io \<Rightarrow> file_system \<Rightarrow> string \<Rightarrow> 'r res" where
  "loadCrlFromFile B J fs filename = openSSLObjectFromFile (Crl_fromPEM B J) fs filename"

definition loadPubkeyFromFile :: "'b bio_lib \<Rightarrow> ('k, 'b) object_io \<Rightarrow> file_system \<Rightarrow> string \<Rightarrow> 'k res" where
  "loadPubkeyFromFile B J fs filename = openSSLObjectFromFile (readPublicKeyFromPEM B J) fs filename"

definition loadCrlFromDERFile :: "'b bio_lib \<Rightarrow> ('r, 'b) object_io \<Rightarrow> file_system \<Rightarrow> string \<Rightarrow> 'r res" where
  "loadCrlFromDERFile B J fs filename = bindR (bytesFromFile fs filename) (\<lambda>buffer. Crl_fromDER B J buffer)"

definition loadPrivkeyFromFile ::
  "'b bio_lib \<Rightarrow> ('k, 'b) private_io \<Rightarrow> file_system \<Rightarrow> string \<Rightarrow> string \<Rightarrow> 'k res" where
  "loadPrivkeyFromFile B K fs filename password =
     openSSLObjectFromFile (\<lambda>pem. readPrivateKeyFromPEM B K pem password) fs filename"

text \<open>
  Opening an \<open>ofstream\<close> empties the file; the insertion writes as much of the text as the
  file takes, and neither it nor \<open>close\<close> is asked for an error.
\<close>

definition err_open_write :: "string \<Rightarrow> exn" where
  "err_open_write filename = RuntimeError [Str ''Cannot open file for writing PEM.'', Str filename]"

definition writePemToFile :: "string \<Rightarrow> string \<Rightarrow> (file_system, unit) st" where
  "writePemToFile pem filename fs =
     (let path = c_str filename
      in if \<not> fs_writable fs path then (Inl (err_open_write filename), fs)
         else (Inr (), fs\<lparr>fs_content := (fs_content fs)(path \<mapsto> take (fs_room fs path) (string_bytes pem))\<rparr>))"

section \<open>What is saved is loaded again\<close>

lemma bytesFromFile_content:
  "bytesFromFile fs filename =
     (case fs_content fs (c_str filename) of None \<Rightarrow> Inl (err_load_file filename) | Some content \<Rightarrow> Inr content)"
  by (simp add: bytesFromFile_def Let_def split: option.split)

lemma writePemToFile_other:
  "c_str g \<noteq> c_str filename \<Longrightarrow> bytesFromFile (snd (writePemToFile pem filename fs)) g = bytesFromFile fs g"
  by (simp add: bytesFromFile_content writePemToFile_def Let_def)

lemma file_written:
  assumes "fs_writable fs (c_str filename)" "length pem \<le> fs_room fs (c_str filename)"
  shows "fst (writePemToFile pem filename fs) = Inr ()
    \<and> openSSLObjectFromFile f (snd (writePemToFile pem filename fs)) filename = f pem"
  using assms by (simp add: writePemToFile_def openSSLObjectFromFile_def bytesFromFile_content Let_def)

lemma missing_file:
  assumes "fs_content fs (c_str filename) = None"
  shows "openSSLObjectFromFile f fs filename = Inl (err_load_file filename)"
  using assms by (simp add: openSSLObjectFromFile_def bytesFromFile_content)

text \<open>
  C18: A certificate, a revocation list and a key pair written to a file as PEM are loaded as the
  same objects, if the file can be opened and holds the text; the private key a private
  key with the password it was written with, and with no other.  Every other file is untouched, and a
  file that cannot be opened is reported and leaves all files as they were.
\<close>

theorem saved_objects_load:
  fixes fs :: file_system
  assumes "bio_laws B content" "cert_pem_laws J content good enc" "good x"
    and "length (cert_text [] ([nl] @ split64 (enc x)) [nl]) < 2 ^ 63"
    and "pem_laws R content bm em rgood rb" "rgood r"
    and "pem_laws Q content pbm pem_end pgood pb" "pgood p"
    and "private_laws K content kgood pemtext" "kgood k" "length pwd \<le> 1024" "length u \<le> 1024"
  defines "stored_at \<equiv> \<lambda>pem file. fs_writable fs (c_str file) \<and> length pem \<le> fs_room fs (c_str file)"
  shows "(\<exists>pem. X509_toPEM B J x = Some (Inr pem)
       \<and> (stored_at pem f \<longrightarrow> loadCertFromFile B J (snd (writePemToFile pem f fs)) f = Inr x))
    \<and> (\<exists>pem. Crl_toPEM B R r = Some (Inr pem)
       \<and> (stored_at pem f \<longrightarrow> loadCrlFromFile B R (snd (writePemToFile pem f fs)) f = Inr r))
    \<and> (\<exists>pem. publicKeyToPem B Q p = Some (Inr pem)
       \<and> (stored_at pem f \<longrightarrow> loadPubkeyFromFile B Q (snd (writePemToFile pem f fs)) f = Inr p))
    \<and> (\<exists>pem. privateKeyToPem B K pwd k = Some (Inr pem)
       \<and> (stored_at pem f \<longrightarrow> loadPrivkeyFromFile B K (snd (writePemToFile pem f fs)) f u =
            (if pwd = [] \<or> c_str u = pwd then Inr k else Inl OpenSSLException_default)))
    \<and> (\<forall>pem g. c_str g \<noteq> c_str f \<longrightarrow> bytesFromFile (snd (writePemToFile pem f fs)) g = bytesFromFile fs g)
    \<and> (\<not> fs_writable fs (c_str f) \<longrightarrow> (\<forall>pem. writePemToFile pem f fs = (Inl (err_open_write f), fs)))"
proof -
  have st: "loadCertFromFile B J (snd (writePemToFile pem f fs)) f = X509_fromPEM B J pem"
    "loadCrlFromFile B R (snd (writePemToFile pem f fs)) f = Crl_fromPEM B R pem"
    "loadPubkeyFromFile B Q (snd (writePemToFile pem f fs)) f = readPublicKeyFromPEM B Q pem"
    "loadPrivkeyFromFile B K (snd (writePemToFile pem f fs)) f u = readPrivateKeyFromPEM B K pem u"
    if "stored_at pem f" for pem
    using that unfolding stored_at_def
    by (simp_all add: file_written loadCertFromFile_def loadCrlFromFile_def loadPubkeyFromFile_def
        loadPrivkeyFromFile_def)
  have w: "privateKeyToPem B K pwd k = Some (Inr (pemtext k (stored pwd)))"
    using privateKeyToPem_ok [OF assms(1,9,10)] assms(11) by (simp add: INT_MAX_def)
  show ?thesis
  proof (intro conjI)
    show "\<exists>pem. X509_toPEM B J x = Some (Inr pem)
        \<and> (stored_at pem f \<longrightarrow> loadCertFromFile B J (snd (writePemToFile pem f fs)) f = Inr x)"
      using X509_pem_again [OF assms(1-4)] st(1) by metis
    show "\<exists>pem. Crl_toPEM B R r = Some (Inr pem)
        \<and> (stored_at pem f \<longrightarrow> loadCrlFromFile B R (snd (writePemToFile pem f fs)) f = Inr r)"
      using crl.pem_roundtrip [OF assms(1,5,6)] st(2) by metis
    show "\<exists>pem. publicKeyToPem B Q p = Some (Inr pem)
        \<and> (stored_at pem f \<longrightarrow> loadPubkeyFromFile B Q (snd (writePemToFile pem f fs)) f = Inr p)"
      using pubkey.pem_roundtrip [OF assms(1,7,8)] st(3) by metis
    show "\<exists>pem. privateKeyToPem B K pwd k = Some (Inr pem)
        \<and> (stored_at pem f \<longrightarrow> loadPrivkeyFromFile B K (snd (writePemToFile pem f fs)) f u =
            (if pwd = [] \<or> c_str u = pwd then Inr k else Inl OpenSSLException_default))"
      using w st(4) readPrivateKey_ok [OF assms(1,9-12)] by simp
    show "\<forall>pem g. c_str g \<noteq> c_str f \<longrightarrow>
        bytesFromFile (snd (writePemToFile pem f fs)) g = bytesFromFile fs g"
      by (simp add: writePemToFile_other)
    show "\<not> fs_writable fs (c_str f) \<longrightarrow> (\<forall>pem. writePemToFile pem f fs = (Inl (err_open_write f), fs))"
      by (simp add: writePemToFile_def)
  qed
qed

definition ref_fs :: file_system where
  "ref_fs = \<lparr>fs_content = Map.empty, fs_writable = \<lambda>_. True, fs_room = \<lambda>_. 4096\<rparr>"

theorem saved_objects_load_witness:
  "loadCertFromFile ref_bio_lib ref_cert_io
     (snd (writePemToFile (cert_text [] ([nl] @ split64 (id ''AB'')) [nl]) ''a.pem'' ref_fs)) ''a.pem'' = Inr ''AB''"
proof -
  have len: "length (cert_text [] ([nl] @ split64 (id ''AB'')) [nl]) < 2 ^ 63"
    "length (cert_text [] ([nl] @ split64 (id ''AB'')) [nl]) \<le> 4096"
    by (simp_all add: cert_text_def markers split64.simps)
  have l: "pem_laws (ref_object_io ''B'' ''E'') id ''B'' ''E'' ref_good id" "ref_good ''A''"
    by (rule ref_pem_laws; simp) (simp add: ref_good_def)
  have "\<exists>pem. X509_toPEM ref_bio_lib ref_cert_io ''AB'' = Some (Inr pem)
      \<and> (fs_writable ref_fs (c_str ''a.pem'') \<and> length pem \<le> fs_room ref_fs (c_str ''a.pem'')
         \<longrightarrow> loadCertFromFile ref_bio_lib ref_cert_io (snd (writePemToFile pem ''a.pem'' ref_fs)) ''a.pem'' = Inr ''AB'')"
    by (rule saved_objects_load [where B = ref_bio_lib and content = id and J = ref_cert_io and good = base64_text
          and enc = id and x = "''AB''" and R = "ref_object_io ''B'' ''E''" and bm = "''B''" and em = "''E''"
          and rgood = ref_good and rb = id and r = "''A''" and Q = "ref_object_io ''B'' ''E''" and pbm = "''B''"
          and pem_end = "''E''" and pgood = ref_good and pb = id and p = "''A''" and K = ref_private_io
          and k = 5 and pwd = "[]" and u = "[]" and fs = ref_fs and f = "''a.pem''", THEN conjunct1,
          OF ref_bio_laws ref_cert_pem_laws ref_base64(1) len(1) l l ref_private_laws TrueI]) simp_all
  then show ?thesis
    using X509_toPEM_ok [OF ref_bio_laws ref_cert_pem_laws ref_base64(1)] len(2) by (simp add: ref_fs_def)
qed

end
