(* ===== verification/Object_Ownership.thy ===== *)
theory Object_Ownership
  imports Check_Call
begin

text \<open>
  The classes of the library keep their data in an object of a nested class \<open>Impl\<close> behind a
  \<open>std::unique_ptr\<close>.  This theory has the memory those pointers live in: construction, copying,
  assignment, moving, destruction and calls, with what is undefined in C++, the use of a null
  pointer and the deletion of memory that is not allocated, as \<open>None\<close>.  The classes
  themselves are in \<open>Object_Classes\<close>.
\<close>

section \<open>Memory\<close>

text \<open>
  \<open>os_heap\<close> has the \<open>Impl\<close> objects, \<open>os_objs\<close> the objects of the class that exist, each with
  its pointer, \<open>None\<close> for the null pointer.  \<open>os_next\<close> is the address of the next allocation.
\<close>

record 'i ostate =
  os_heap :: "nat \<Rightarrow> 'i option"
  os_objs :: "nat \<Rightarrow> nat option option"
  os_next :: nat

definition os_empty :: "'i ostate" where
  "os_empty = \<lparr>os_heap = (\<lambda>_. None), os_objs = (\<lambda>_. None), os_next = 0\<rparr>"

definition make_unique :: "'i \<Rightarrow> 'i ostate \<Rightarrow> nat \<times> 'i ostate" where
  "make_unique v s = (os_next s, s\<lparr>os_heap := (os_heap s)(os_next s \<mapsto> v), os_next := os_next s + 1\<rparr>)"

definition delete_ptr :: "nat option \<Rightarrow> 'i ostate \<Rightarrow> 'i ostate option" where
  "delete_ptr p s =
     (case p of
        None \<Rightarrow> Some s
      | Some a \<Rightarrow> (case os_heap s a of
          None \<Rightarrow> None
        | Some _ \<Rightarrow> Some (s\<lparr>os_heap := (os_heap s)(a := None)\<rparr>)))"

definition deref :: "nat option \<Rightarrow> 'i ostate \<Rightarrow> 'i option" where
  "deref p s = (case p of None \<Rightarrow> None | Some a \<Rightarrow> os_heap s a)"

definition set_ptr :: "nat \<Rightarrow> nat option \<Rightarrow> 'i ostate \<Rightarrow> 'i ostate" where
  "set_ptr ob p s = s\<lparr>os_objs := (os_objs s)(ob \<mapsto> p)\<rparr>"

text \<open>\<open>unique_ptr::reset\<close>, which an assignment ends with: the old object goes last.\<close>

definition reset_ptr :: "nat \<Rightarrow> nat option \<Rightarrow> 'i ostate \<Rightarrow> 'i ostate option" where
  "reset_ptr ob p s =
     (case os_objs s ob of None \<Rightarrow> None | Some old \<Rightarrow> delete_ptr old (set_ptr ob p s))"

section \<open>Operations of a class\<close>

text \<open>
  A constructor with the result of the \<open>Impl\<close> constructor: an exception leaves no object
  behind.  A new object may not be at the place of an existing one.
\<close>

definition obj_construct :: "nat \<Rightarrow> 'i res \<Rightarrow> 'i ostate \<Rightarrow> (unit res \<times> 'i ostate) option" where
  "obj_construct ob r s =
     (if os_objs s ob \<noteq> None then None
      else (case r of
          Inl e \<Rightarrow> Some (Inl e, s)
        | Inr v \<Rightarrow> (let (a, t) = make_unique v s in Some (Inr (), set_ptr ob (Some a) t))))"

definition obj_copy :: "nat \<Rightarrow> nat \<Rightarrow> 'i ostate \<Rightarrow> 'i ostate option" where
  "obj_copy ob other s =
     (if os_objs s ob \<noteq> None then None
      else Option.bind (os_objs s other) (\<lambda>q. Option.bind (deref q s) (\<lambda>v.
             let (a, t) = make_unique v s in Some (set_ptr ob (Some a) t))))"

definition obj_assign :: "nat \<Rightarrow> nat \<Rightarrow> 'i ostate \<Rightarrow> 'i ostate option" where
  "obj_assign ob other s =
     Option.bind (os_objs s other) (\<lambda>q. Option.bind (deref q s) (\<lambda>v.
       let (a, t) = make_unique v s in reset_ptr ob (Some a) t))"

text \<open>Moving releases the other object's pointer first, which also settles moving to oneself.\<close>

definition obj_move :: "nat \<Rightarrow> nat \<Rightarrow> 'i ostate \<Rightarrow> 'i ostate option" where
  "obj_move ob other s =
     (if os_objs s ob \<noteq> None then None
      else Option.bind (os_objs s other) (\<lambda>q. Some (set_ptr ob q (set_ptr other None s))))"

definition obj_move_assign :: "nat \<Rightarrow> nat \<Rightarrow> 'i ostate \<Rightarrow> 'i ostate option" where
  "obj_move_assign ob other s =
     Option.bind (os_objs s other) (\<lambda>q. reset_ptr ob q (set_ptr other None s))"

definition obj_destroy :: "nat \<Rightarrow> 'i ostate \<Rightarrow> 'i ostate option" where
  "obj_destroy ob s =
     Option.bind (os_objs s ob) (\<lambda>q. Option.bind (delete_ptr q s) (\<lambda>t.
       Some (t\<lparr>os_objs := (os_objs t)(ob := None)\<rparr>)))"

text \<open>A member function that calls one of the \<open>Impl\<close> object.\<close>

definition obj_call :: "('i, 'r) st \<Rightarrow> nat \<Rightarrow> 'i ostate \<Rightarrow> ('r res \<times> 'i ostate) option" where
  "obj_call f ob s =
     Option.bind (os_objs s ob) (\<lambda>q. Option.bind q (\<lambda>a. Option.bind (os_heap s a) (\<lambda>v.
       let (r, w) = f v in Some (r, s\<lparr>os_heap := (os_heap s)(a \<mapsto> w)\<rparr>))))"

section \<open>Ownership\<close>

text \<open>
  What holds between any two operations: the pointers of the existing objects are exactly the
  allocated addresses, and no two objects have the same.
\<close>

definition owned :: "'i ostate \<Rightarrow> bool" where
  "owned s \<longleftrightarrow>
     (\<forall>a. os_heap s a \<noteq> None \<longleftrightarrow> (\<exists>ob. os_objs s ob = Some (Some a)))
     \<and> (\<forall>ob ob' a. os_objs s ob = Some (Some a) \<and> os_objs s ob' = Some (Some a) \<longrightarrow> ob = ob')
     \<and> (\<forall>a. os_heap s a \<noteq> None \<longrightarrow> a < os_next s)"

lemma ownedI:
  assumes "\<And>a. os_heap s a \<noteq> None \<Longrightarrow> \<exists>ob. os_objs s ob = Some (Some a)"
    and "\<And>ob a. os_objs s ob = Some (Some a) \<Longrightarrow> os_heap s a \<noteq> None"
    and "\<And>ob ob' a. os_objs s ob = Some (Some a) \<Longrightarrow> os_objs s ob' = Some (Some a) \<Longrightarrow> ob = ob'"
    and "\<And>a. os_heap s a \<noteq> None \<Longrightarrow> a < os_next s"
  shows "owned s"
  using assms unfolding owned_def by blast

lemmas owned_conj = owned_def [THEN iffD1]
lemmas owned_points = owned_conj [THEN conjunct1, rule_format]
  and owned_unique = owned_conj [THEN conjunct2, THEN conjunct1, rule_format]
  and owned_next = owned_conj [THEN conjunct2, THEN conjunct2, rule_format]

lemma owned_value:
  assumes "owned s" "os_objs s ob = Some (Some a)"
  obtains v where "os_heap s a = Some v"
  using assms owned_points [of s a] by blast

lemma owned_fresh:
  assumes "owned s"
  shows "os_heap s (os_next s) = None" "os_objs s ob \<noteq> Some (Some (os_next s))"
proof -
  show "os_heap s (os_next s) = None" using owned_next [OF assms, of "os_next s"] by blast
  then show "os_objs s ob \<noteq> Some (Some (os_next s))" using owned_points [OF assms, of "os_next s"] by blast
qed

lemma owned_empty: "owned os_empty"
  by (simp add: owned_def os_empty_def)

text \<open>Unfolding an operation that is defined.\<close>

lemmas obj_defs = obj_construct_def obj_copy_def obj_assign_def obj_move_def obj_move_assign_def obj_destroy_def
  obj_call_def make_unique_def delete_ptr_def deref_def set_ptr_def reset_ptr_def

text \<open>
  The elementary changes: a new object with a pointer to fresh memory, a pointer handed on,
  the last pointer to an address given up.
\<close>

lemma owned_new:
  assumes "owned s" "os_objs s ob = None \<or> os_objs s ob = Some None"
  shows "owned (set_ptr ob (Some (os_next s)) (snd (make_unique v s)))"
proof (rule ownedI)
  fix a assume "os_heap (set_ptr ob (Some (os_next s)) (snd (make_unique v s))) a \<noteq> None"
  then have "a = os_next s \<or> os_heap s a \<noteq> None" by (auto simp: set_ptr_def make_unique_def split: if_splits)
  then show "\<exists>ob'. os_objs (set_ptr ob (Some (os_next s)) (snd (make_unique v s))) ob' = Some (Some a)"
  proof
    assume "os_heap s a \<noteq> None"
    then obtain ob' where "os_objs s ob' = Some (Some a)" using owned_points [OF assms(1)] by blast
    with assms(2) show ?thesis by (intro exI [of _ ob']) (auto simp: set_ptr_def make_unique_def)
  qed (auto simp: set_ptr_def make_unique_def)
next
  fix ob' a assume "os_objs (set_ptr ob (Some (os_next s)) (snd (make_unique v s))) ob' = Some (Some a)"
  then show "os_heap (set_ptr ob (Some (os_next s)) (snd (make_unique v s))) a \<noteq> None"
    using owned_points [OF assms(1), of a] by (auto simp: set_ptr_def make_unique_def split: if_splits)
next
  fix ob1 ob2 a
  assume "os_objs (set_ptr ob (Some (os_next s)) (snd (make_unique v s))) ob1 = Some (Some a)"
    "os_objs (set_ptr ob (Some (os_next s)) (snd (make_unique v s))) ob2 = Some (Some a)"
  then show "ob1 = ob2"
    using owned_unique [OF assms(1), of ob1 a ob2] owned_fresh(2) [OF assms(1)]
    by (auto simp: set_ptr_def make_unique_def split: if_splits)
next
  fix a assume "os_heap (set_ptr ob (Some (os_next s)) (snd (make_unique v s))) a \<noteq> None"
  then show "a < os_next (set_ptr ob (Some (os_next s)) (snd (make_unique v s)))"
    using owned_next [OF assms(1), of a] by (auto simp: set_ptr_def make_unique_def split: if_splits)
qed

lemma owned_moved:
  assumes "owned s" "os_objs s other = Some q" "ob = other \<or> os_objs s ob = None \<or> os_objs s ob = Some None"
  shows "owned (set_ptr ob q (set_ptr other None s))"
proof (rule ownedI)
  let ?t = "set_ptr ob q (set_ptr other None s)"
  have p: "os_objs ?t x = (if x = ob then Some q else if x = other then Some None else os_objs s x)"
    "os_heap ?t = os_heap s" "os_next ?t = os_next s" for x
    by (simp_all add: set_ptr_def)
  show "\<exists>x. os_objs ?t x = Some (Some a)" if h: "os_heap ?t a \<noteq> None" for a
  proof -
    obtain x where "os_objs s x = Some (Some a)" using owned_points [OF assms(1), of a] h p(2) by auto
    with assms(2,3) show ?thesis by (intro exI [of _ "if x = other then ob else x"]) (auto simp: p)
  qed
  show "os_heap ?t a \<noteq> None" if "os_objs ?t x = Some (Some a)" for x a
    using that owned_points [OF assms(1), of a] assms(2) by (auto simp: p split: if_splits)
  have c: "x = ob \<and> q = Some a \<or> x \<noteq> other \<and> os_objs s x = Some (Some a)" if "os_objs ?t x = Some (Some a)" for x a
    using that by (simp add: p split: if_splits)
  show "x = y" if "os_objs ?t x = Some (Some a)" "os_objs ?t y = Some (Some a)" for x y a
    using c [OF that(1)] c [OF that(2)] owned_unique [OF assms(1)] assms(2) by metis
  show "a < os_next ?t" if "os_heap ?t a \<noteq> None" for a
    using that owned_next [OF assms(1), of a] by (simp add: p)
qed

lemma owned_given_up:
  assumes "owned s" "os_objs s ob = Some (Some a)" "p = None \<or> p = Some None"
  shows "owned (s\<lparr>os_heap := (os_heap s)(a := None), os_objs := (os_objs s)(ob := p)\<rparr>)"
proof (rule ownedI)
  let ?t = "s\<lparr>os_heap := (os_heap s)(a := None), os_objs := (os_objs s)(ob := p)\<rparr>"
  fix b assume b: "os_heap ?t b \<noteq> None"
  then have "b \<noteq> a" "os_heap s b \<noteq> None" by (auto split: if_splits)
  then obtain ob' where "os_objs s ob' = Some (Some b)" using owned_points [OF assms(1)] by blast
  with \<open>b \<noteq> a\<close> assms(2) show "\<exists>ob'. os_objs ?t ob' = Some (Some b)" by (intro exI [of _ ob']) auto
next
  fix ob' b assume "os_objs (s\<lparr>os_heap := (os_heap s)(a := None), os_objs := (os_objs s)(ob := p)\<rparr>) ob' = Some (Some b)"
  then have "ob' \<noteq> ob" "os_objs s ob' = Some (Some b)" using assms(3) by (auto split: if_splits)
  then show "os_heap (s\<lparr>os_heap := (os_heap s)(a := None), os_objs := (os_objs s)(ob := p)\<rparr>) b \<noteq> None"
    using owned_points [OF assms(1), of b] owned_unique [OF assms(1), of ob' b ob] assms(2) by auto
next
  fix ob1 ob2 b
  assume "os_objs (s\<lparr>os_heap := (os_heap s)(a := None), os_objs := (os_objs s)(ob := p)\<rparr>) ob1 = Some (Some b)"
    "os_objs (s\<lparr>os_heap := (os_heap s)(a := None), os_objs := (os_objs s)(ob := p)\<rparr>) ob2 = Some (Some b)"
  then show "ob1 = ob2" using owned_unique [OF assms(1), of ob1 b ob2] assms(3) by (auto split: if_splits)
next
  fix b assume "os_heap (s\<lparr>os_heap := (os_heap s)(a := None), os_objs := (os_objs s)(ob := p)\<rparr>) b \<noteq> None"
  then show "b < os_next (s\<lparr>os_heap := (os_heap s)(a := None), os_objs := (os_objs s)(ob := p)\<rparr>)"
    using owned_next [OF assms(1), of b] by (auto split: if_splits)
qed

text \<open>The operations keep ownership in order.\<close>

lemma owned_construct: "owned s \<Longrightarrow> obj_construct ob r s = Some (x, t) \<Longrightarrow> owned t"
  using owned_new [of s ob] by (auto simp: obj_construct_def make_unique_def split: if_splits sum.splits)

lemma owned_copy: "owned s \<Longrightarrow> obj_copy ob other s = Some t \<Longrightarrow> owned t"
  using owned_new [of s ob]
  by (auto simp: obj_copy_def make_unique_def bind_eq_Some_conv split: if_splits)

lemma owned_destroy:
  assumes "owned s" "obj_destroy ob s = Some t"
  shows "owned t"
proof -
  obtain q where q: "os_objs s ob = Some q" using assms(2) by (auto simp: obj_destroy_def bind_eq_Some_conv)
  show ?thesis
  proof (cases q)
    case None
    then have "t = s\<lparr>os_objs := (os_objs s)(ob := None)\<rparr>"
      using assms(2) q by (simp add: obj_destroy_def delete_ptr_def)
    then have "os_objs t x = Some (Some a) \<longleftrightarrow> os_objs s x = Some (Some a)" "os_heap t = os_heap s" "os_next t = os_next s"
      for x a using q None by auto
    with assms(1) show ?thesis unfolding owned_def by simp
  next
    case (Some a)
    then have "t = s\<lparr>os_heap := (os_heap s)(a := None), os_objs := (os_objs s)(ob := None)\<rparr>"
      using assms(2) q by (auto simp: obj_destroy_def delete_ptr_def bind_eq_Some_conv split: option.splits)
    with owned_given_up [OF assms(1), of ob a None] q Some show ?thesis by simp
  qed
qed

text \<open>An assignment is: give up the old pointer, take the new one.\<close>

lemma reset_ptr_cases:
  assumes "reset_ptr ob p s = Some t"
  obtains "os_objs s ob = Some None" "t = set_ptr ob p s"
    | a where "os_objs s ob = Some (Some a)" "os_heap s a \<noteq> None"
        "t = set_ptr ob p (s\<lparr>os_heap := (os_heap s)(a := None), os_objs := (os_objs s)(ob := Some None)\<rparr>)"
  using assms by (auto simp: reset_ptr_def delete_ptr_def set_ptr_def split: option.splits)

lemma owned_assign:
  assumes "owned s" "obj_assign ob other s = Some t"
  shows "owned t"
proof -
  obtain v where r: "reset_ptr ob (Some (os_next s)) (snd (make_unique v s)) = Some t"
    using assms(2) by (auto simp: obj_assign_def make_unique_def bind_eq_Some_conv)
  then show ?thesis
  proof (cases rule: reset_ptr_cases)
    case 1
    then show ?thesis using owned_new [OF assms(1), of ob v] by (simp add: make_unique_def)
  next
    case (2 a)
    let ?s = "s\<lparr>os_heap := (os_heap s)(a := None), os_objs := (os_objs s)(ob := Some None)\<rparr>"
    have ob: "os_objs s ob = Some (Some a)" using 2(1) by (simp add: make_unique_def)
    then have "a \<noteq> os_next s" using owned_fresh(2) [OF assms(1), of ob] by auto
    then have "t = set_ptr ob (Some (os_next ?s)) (snd (make_unique v ?s))"
      using 2(3) by (simp add: make_unique_def set_ptr_def fun_upd_twist)
    moreover have "owned ?s" using owned_given_up [OF assms(1) ob] by simp
    ultimately show ?thesis using owned_new [of ?s ob v] by simp
  qed
qed

lemma owned_move: "owned s \<Longrightarrow> obj_move ob other s = Some t \<Longrightarrow> owned t"
  using owned_moved [of s other _ ob] by (auto simp: obj_move_def bind_eq_Some_conv split: if_splits)

lemma owned_move_assign:
  assumes "owned s" "obj_move_assign ob other s = Some t"
  shows "owned t"
proof -
  obtain q where q: "os_objs s other = Some q" and r: "reset_ptr ob q (set_ptr other None s) = Some t"
    using assms(2) by (auto simp: obj_move_assign_def bind_eq_Some_conv)
  from r show ?thesis
  proof (cases rule: reset_ptr_cases)
    case 1
    then have "ob = other \<or> os_objs s ob = None \<or> os_objs s ob = Some None"
      by (auto simp: set_ptr_def split: if_splits)
    with owned_moved [OF assms(1) q, of ob] 1(2) show ?thesis by simp
  next
    case (2 a)
    then have ob: "ob \<noteq> other" "os_objs s ob = Some (Some a)" by (auto simp: set_ptr_def split: if_splits)
    let ?s = "s\<lparr>os_heap := (os_heap s)(a := None), os_objs := (os_objs s)(ob := Some None)\<rparr>"
    have "owned ?s" using owned_given_up [OF assms(1) ob(2)] by simp
    moreover have "t = set_ptr ob q (set_ptr other None ?s)"
      using 2(3) ob(1) by (simp add: set_ptr_def fun_upd_twist)
    ultimately show ?thesis using owned_moved [of ?s other q ob] q ob(1) by simp
  qed
qed

lemma call_cases:
  assumes "obj_call f ob s = Some (x, t)"
  obtains a v w where "os_objs s ob = Some (Some a)" "os_heap s a = Some v" "f v = (x, w)"
    "t = s\<lparr>os_heap := (os_heap s)(a \<mapsto> w)\<rparr>"
  using assms by (auto simp: obj_call_def bind_eq_Some_conv case_prod_beta prod_eq_iff)

lemma owned_call:
  assumes "owned s" "obj_call f ob s = Some (x, t)"
  shows "owned t"
  using assms(2)
proof (cases rule: call_cases)
  case (1 a v w)
  then have "os_heap t b \<noteq> None \<longleftrightarrow> os_heap s b \<noteq> None" "os_objs t = os_objs s" "os_next t = os_next s" for b
    by auto
  with assms(1) show ?thesis unfolding owned_def by simp
qed

section \<open>Objects as values\<close>

text \<open>
  What a program sees: which objects exist and the value of each, \<open>None\<close> after a move.  On
  these values the operations have no pointers.
\<close>

definition objects :: "'i ostate \<Rightarrow> nat \<Rightarrow> 'i option option" where
  "objects s ob = (case os_objs s ob of None \<Rightarrow> None | Some q \<Rightarrow> Some (deref q s))"

type_synonym 'i obj_values = "nat \<Rightarrow> 'i option option"

definition val_construct :: "nat \<Rightarrow> 'i res \<Rightarrow> 'i obj_values \<Rightarrow> (unit res \<times> 'i obj_values) option" where
  "val_construct ob r m =
     (if m ob \<noteq> None then None
      else Some (case r of Inl e \<Rightarrow> (Inl e, m) | Inr v \<Rightarrow> (Inr (), m(ob \<mapsto> Some v))))"

definition val_copy :: "nat \<Rightarrow> nat \<Rightarrow> 'i obj_values \<Rightarrow> 'i obj_values option" where
  "val_copy ob other m =
     (if m ob \<noteq> None then None
      else case m other of Some (Some v) \<Rightarrow> Some (m(ob \<mapsto> Some v)) | _ \<Rightarrow> None)"

definition val_assign :: "nat \<Rightarrow> nat \<Rightarrow> 'i obj_values \<Rightarrow> 'i obj_values option" where
  "val_assign ob other m =
     (if m ob = None then None
      else case m other of Some (Some v) \<Rightarrow> Some (m(ob \<mapsto> Some v)) | _ \<Rightarrow> None)"

definition val_move :: "nat \<Rightarrow> nat \<Rightarrow> 'i obj_values \<Rightarrow> 'i obj_values option" where
  "val_move ob other m =
     (if m ob \<noteq> None then None
      else case m other of None \<Rightarrow> None | Some x \<Rightarrow> Some (m(other \<mapsto> None, ob \<mapsto> x)))"

definition val_move_assign :: "nat \<Rightarrow> nat \<Rightarrow> 'i obj_values \<Rightarrow> 'i obj_values option" where
  "val_move_assign ob other m =
     (if m ob = None then None
      else case m other of None \<Rightarrow> None | Some x \<Rightarrow> Some (m(other \<mapsto> None, ob \<mapsto> x)))"

definition val_destroy :: "nat \<Rightarrow> 'i obj_values \<Rightarrow> 'i obj_values option" where
  "val_destroy ob m = (if m ob = None then None else Some (m(ob := None)))"

definition val_call :: "('i, 'r) st \<Rightarrow> nat \<Rightarrow> 'i obj_values \<Rightarrow> ('r res \<times> 'i obj_values) option" where
  "val_call f ob m =
     (case m ob of Some (Some v) \<Rightarrow> (let (r, w) = f v in Some (r, m(ob \<mapsto> Some w))) | _ \<Rightarrow> None)"

lemma objects_simps:
  "objects s ob = None \<longleftrightarrow> os_objs s ob = None"
  "owned s \<Longrightarrow> objects s ob = Some None \<longleftrightarrow> os_objs s ob = Some None"
  "os_objs s ob = Some q \<Longrightarrow> objects s ob = Some (deref q s)"
  "os_objs s ob = None \<Longrightarrow> objects s ob = None"
  using owned_points [of s] by (auto simp: objects_def deref_def split: option.splits)

lemma objects_new:
  assumes "owned s"
  shows "objects (set_ptr ob (Some (os_next s)) (snd (make_unique v s))) = (objects s)(ob \<mapsto> Some v)"
proof
  fix x
  show "objects (set_ptr ob (Some (os_next s)) (snd (make_unique v s))) x = ((objects s)(ob \<mapsto> Some v)) x"
    using owned_fresh(2) [OF assms, of x]
    by (auto simp: objects_def set_ptr_def make_unique_def deref_def split: option.splits)
qed

lemma objects_set_ptr: "objects (set_ptr ob q s) = (objects s)(ob \<mapsto> deref q s)"
  by (auto simp: fun_eq_iff objects_def set_ptr_def deref_def split: option.splits)

lemma deref_None [simp]: "deref None s = None"
  by (simp add: deref_def)

lemma deref_set_ptr [simp]: "deref q (set_ptr ob p s) = deref q s"
  by (simp add: deref_def set_ptr_def split: option.split)

text \<open>Giving up an address does not change the value of any other object.\<close>

lemma objects_given_up:
  assumes "owned s" "os_objs s ob = Some (Some a)"
  shows "objects (s\<lparr>os_heap := (os_heap s)(a := None), os_objs := (os_objs s)(ob := Some None)\<rparr>) = (objects s)(ob \<mapsto> None)"
proof
  fix x
  show "objects (s\<lparr>os_heap := (os_heap s)(a := None), os_objs := (os_objs s)(ob := Some None)\<rparr>) x =
      ((objects s)(ob \<mapsto> None)) x"
  proof (cases "x = ob")
    case False
    then have "os_objs s x \<noteq> Some (Some a)" using owned_unique [OF assms(1), of x a ob] assms(2) by blast
    with False show ?thesis by (auto simp: objects_def deref_def split: option.split)
  qed (simp add: objects_def deref_def)
qed

text \<open>Each operation is defined exactly if it is on values, and then gives the same values.\<close>

lemma construct_value:
  "owned s \<Longrightarrow> map_option (map_prod id objects) (obj_construct ob r s) = val_construct ob r (objects s)"
  using objects_new [of s ob]
  by (auto simp: obj_construct_def val_construct_def objects_simps make_unique_def split: sum.splits)

lemma copy_value: "owned s \<Longrightarrow> map_option objects (obj_copy ob other s) = val_copy ob other (objects s)"
  using objects_new [of s ob]
  by (auto simp: obj_copy_def val_copy_def make_unique_def objects_def deref_def split: option.splits)

lemma reset_value:
  assumes "\<forall>a. os_objs s ob = Some (Some a) \<longrightarrow> os_heap s a \<noteq> None \<and> p \<noteq> Some a \<and> (\<forall>x. os_objs s x = Some (Some a) \<longrightarrow> x = ob)"
  shows "map_option objects (reset_ptr ob p s) =
     (if os_objs s ob = None then None else Some ((objects s)(ob \<mapsto> deref p s)))"
proof -
  consider "os_objs s ob = None" | "os_objs s ob = Some None" | a where "os_objs s ob = Some (Some a)" by (metis option.exhaust)
  then show ?thesis
  proof cases
    case (3 a)
    then obtain v where v: "os_heap s a = Some v" "p \<noteq> Some a" "\<And>x. os_objs s x = Some (Some a) \<Longrightarrow> x = ob"
      using assms by blast
    have "objects ((set_ptr ob p s)\<lparr>os_heap := (os_heap s)(a := None)\<rparr>) x = ((objects s)(ob \<mapsto> deref p s)) x" for x
      using v(2) v(3) [of x] by (auto simp: objects_def deref_def set_ptr_def split: option.split)
    then have "objects ((set_ptr ob p s)\<lparr>os_heap := (os_heap s)(a := None)\<rparr>) = (objects s)(ob \<mapsto> deref p s)" by (rule ext)
    with 3 v(1) show ?thesis by (simp add: reset_ptr_def delete_ptr_def set_ptr_def)
  qed (simp_all add: reset_ptr_def delete_ptr_def objects_set_ptr)
qed

lemma assign_value:
  assumes "owned s"
  shows "map_option objects (obj_assign ob other s) = val_assign ob other (objects s)"
proof (cases "objects s other")
  case (Some w)
  then obtain q where q: "os_objs s other = Some q" "deref q s = w" by (auto simp: objects_def split: option.splits)
  show ?thesis
  proof (cases w)
    case None
    with q Some show ?thesis by (simp add: obj_assign_def val_assign_def)
  next
    case (Some v)
    let ?t = "snd (make_unique v s)"
    have t: "os_objs ?t = os_objs s" "os_heap ?t = (os_heap s)(os_next s \<mapsto> v)" by (simp_all add: make_unique_def)
    have "objects ?t = objects s"
      using owned_fresh(2) [OF assms] by (auto simp: fun_eq_iff objects_def deref_def t split: option.split)
    moreover have "map_option objects (reset_ptr ob (Some (os_next s)) ?t) =
        (if os_objs ?t ob = None then None else Some ((objects ?t)(ob \<mapsto> deref (Some (os_next s)) ?t)))"
      using owned_fresh(2) [OF assms, of ob] owned_points [OF assms] owned_unique [OF assms]
      by (intro reset_value) (auto simp: t)
    ultimately show ?thesis
      using q Some \<open>objects s other = Some w\<close>
      by (simp add: obj_assign_def val_assign_def objects_simps(1) make_unique_def deref_def)
  qed
qed (auto simp: obj_assign_def val_assign_def objects_simps(1,4))

lemma move_value: "owned s \<Longrightarrow> map_option objects (obj_move ob other s) = val_move ob other (objects s)"
  by (cases "os_objs s other") (auto simp: obj_move_def val_move_def objects_simps objects_set_ptr)

lemma move_assign_value:
  assumes "owned s"
  shows "map_option objects (obj_move_assign ob other s) = val_move_assign ob other (objects s)"
proof (cases "os_objs s other")
  case (Some q)
  have "map_option objects (reset_ptr ob q (set_ptr other None s)) =
      (if os_objs (set_ptr other None s) ob = None then None
       else Some ((objects (set_ptr other None s))(ob \<mapsto> deref q (set_ptr other None s))))"
    using owned_points [OF assms] owned_unique [OF assms] Some
    by (intro reset_value) (auto simp: set_ptr_def split: if_splits)
  with Some show ?thesis
    by (auto simp: obj_move_assign_def val_move_assign_def objects_simps objects_set_ptr)
      (auto simp: set_ptr_def deref_def split: if_splits)
qed (auto simp: obj_move_assign_def val_move_assign_def objects_simps(1,4))

lemma destroy_value:
  assumes "owned s"
  shows "map_option objects (obj_destroy ob s) = val_destroy ob (objects s)"
proof -
  consider "os_objs s ob = None" | "os_objs s ob = Some None" | a where "os_objs s ob = Some (Some a)" by (metis option.exhaust)
  then show ?thesis
  proof cases
    case 2
    then show ?thesis
      by (simp add: obj_destroy_def val_destroy_def delete_ptr_def objects_simps)
        (auto simp: fun_eq_iff objects_def deref_def split: option.split)
  next
    case (3 a)
    obtain v where "os_heap s a = Some v" using owned_value [OF assms 3] by blast
    moreover have "objects (s\<lparr>os_heap := (os_heap s)(a := None), os_objs := (os_objs s)(ob := None)\<rparr>) x = ((objects s)(ob := None)) x" for x
      using owned_unique [OF assms, of x a ob] 3 by (cases "x = ob") (auto simp: objects_def deref_def split: option.split)
    ultimately show ?thesis using 3 by (simp add: obj_destroy_def val_destroy_def delete_ptr_def objects_simps fun_eq_iff)
  qed (simp add: obj_destroy_def val_destroy_def objects_simps)
qed

lemma call_value:
  assumes "owned s"
  shows "map_option (map_prod id objects) (obj_call f ob s) = val_call f ob (objects s)"
proof -
  consider "os_objs s ob = None" | "os_objs s ob = Some None" | a where "os_objs s ob = Some (Some a)" by (metis option.exhaust)
  then show ?thesis
  proof cases
    case (3 a)
    obtain v where v: "os_heap s a = Some v" using owned_value [OF assms 3] by blast
    moreover have "objects (s\<lparr>os_heap := (os_heap s)(a \<mapsto> w)\<rparr>) x = ((objects s)(ob \<mapsto> Some w)) x" for x w
      using owned_unique [OF assms, of x a ob] 3 by (cases "x = ob") (auto simp: objects_def deref_def split: option.split)
    moreover have "objects s ob = Some (Some v)" using 3 v by (simp add: objects_def deref_def)
    ultimately show ?thesis using 3 by (simp add: obj_call_def val_call_def fun_eq_iff case_prod_beta)
  qed (simp_all add: obj_call_def val_call_def objects_simps deref_def)
qed

lemmas object_values = construct_value copy_value assign_value move_value move_assign_value destroy_value call_value

section \<open>Programs\<close>

text \<open>
  Any sequence of operations on the objects of a class, from the empty memory on.  What a call
  returns does not matter for the memory; it is some bytes here.
\<close>

inductive obj_run :: "'i ostate \<Rightarrow> bool" where
  run_empty: "obj_run os_empty"
| run_construct: "obj_run s \<Longrightarrow> obj_construct ob r s = Some (x, t) \<Longrightarrow> obj_run t"
| run_copy: "obj_run s \<Longrightarrow> obj_copy ob other s = Some t \<Longrightarrow> obj_run t"
| run_assign: "obj_run s \<Longrightarrow> obj_assign ob other s = Some t \<Longrightarrow> obj_run t"
| run_move: "obj_run s \<Longrightarrow> obj_move ob other s = Some t \<Longrightarrow> obj_run t"
| run_move_assign: "obj_run s \<Longrightarrow> obj_move_assign ob other s = Some t \<Longrightarrow> obj_run t"
| run_destroy: "obj_run s \<Longrightarrow> obj_destroy ob s = Some t \<Longrightarrow> obj_run t"
| run_call: "obj_run s \<Longrightarrow> obj_call (f :: ('i, bytes) st) ob s = Some (y, t) \<Longrightarrow> obj_run t"

lemma obj_run_owned: "obj_run s \<Longrightarrow> owned s"
proof (induction rule: obj_run.induct)
  case run_empty
  show ?case by (rule owned_empty)
qed (blast intro: owned_construct owned_copy owned_assign owned_move owned_move_assign owned_destroy owned_call)+

text \<open>
  C14: Whatever a program does with the objects of a class, no memory leaks and none is freed twice:
  the \<open>Impl\<close> objects are in one-to-one correspondence with the objects that have not been
  moved from, destruction and move assignment are always defined for objects that exist, and
  when all objects are destroyed nothing is left.
\<close>

theorem objects_own_impls:
  assumes "obj_run s"
  shows "(\<forall>a. os_heap s a \<noteq> None \<longrightarrow> (\<exists>!ob. os_objs s ob = Some (Some a)))
    \<and> (\<forall>ob a. os_objs s ob = Some (Some a) \<longrightarrow> os_heap s a \<noteq> None)
    \<and> (os_objs s ob \<noteq> None \<longrightarrow> obj_destroy ob s \<noteq> None)
    \<and> (os_objs s ob \<noteq> None \<and> os_objs s other \<noteq> None \<longrightarrow> obj_move_assign ob other s \<noteq> None)
    \<and> ((\<forall>ob. os_objs s ob = None) \<longrightarrow> (\<forall>a. os_heap s a = None))"
proof -
  note o = obj_run_owned [OF assms]
  have "obj_destroy ob s \<noteq> None" if "os_objs s ob \<noteq> None"
    using destroy_value [OF o, of ob] that by (auto simp: val_destroy_def objects_simps(1) split: if_splits)
  moreover have "obj_move_assign ob other s \<noteq> None" if "os_objs s ob \<noteq> None" "os_objs s other \<noteq> None"
    using move_assign_value [OF o, of ob other] that objects_simps(1) [of s]
    by (auto simp: val_move_assign_def split: if_splits option.splits)
  moreover have "\<exists>!ob. os_objs s ob = Some (Some a)" if "os_heap s a \<noteq> None" for a
  proof -
    obtain x where "os_objs s x = Some (Some a)" using owned_points [OF o, of a] \<open>os_heap s a \<noteq> None\<close> by blast
    then show ?thesis using owned_unique [OF o] by blast
  qed
  moreover have "os_heap s a \<noteq> None" if "os_objs s x = Some (Some a)" for x a
    using owned_points [OF o, of a] that by blast
  moreover have "os_heap s a = None" if "\<forall>x. os_objs s x = None" for a
    using owned_points [OF o, of a] that by (metis option.distinct(1))
  ultimately show ?thesis by blast
qed

text \<open>
  C15: At any point of any program, every operation has the effect it has on plain values: copies
  and assignments give independent objects with the same value, a move takes the value along,
  assigning or moving an object to itself changes nothing.  Each is undefined exactly where
  the value operation is: copying from, and calls on, an object that was moved from.
\<close>

theorem objects_refine_values:
  assumes "obj_run s"
  shows "map_option (map_prod id objects) (obj_construct ob r s) = val_construct ob r (objects s)
    \<and> map_option objects (obj_copy ob other s) = val_copy ob other (objects s)
    \<and> map_option objects (obj_assign ob other s) = val_assign ob other (objects s)
    \<and> map_option objects (obj_move ob other s) = val_move ob other (objects s)
    \<and> map_option objects (obj_move_assign ob other s) = val_move_assign ob other (objects s)
    \<and> map_option objects (obj_destroy ob s) = val_destroy ob (objects s)
    \<and> map_option (map_prod id objects) (obj_call f ob s) = val_call f ob (objects s)"
  using object_values [OF obj_run_owned [OF assms]] by simp

text \<open>An object that was moved to another place.\<close>

definition ref_objects :: "nat ostate" where
  "ref_objects = the (obj_move 1 0 (snd (the (obj_construct 0 (Inr 5) os_empty))))"

lemma ref_objects_run: "obj_run ref_objects"
proof -
  let ?s = "snd (the (obj_construct 0 (Inr (5 :: nat)) os_empty))"
  have "obj_construct 0 (Inr 5) os_empty = Some (Inr (), ?s)" by (simp add: obj_defs os_empty_def)
  then have "obj_run ?s" by (rule run_construct [OF run_empty])
  moreover have "obj_move 1 0 ?s = Some ref_objects" by (simp add: ref_objects_def obj_defs os_empty_def)
  ultimately show ?thesis by (rule run_move)
qed

theorem objects_own_impls_witness:
  "obj_destroy 0 ref_objects \<noteq> None \<and> obj_move_assign 0 1 ref_objects \<noteq> None"
  using objects_own_impls [OF ref_objects_run, of 0 1]
  by (simp add: ref_objects_def obj_defs os_empty_def)

theorem objects_refine_values_witness:
  "map_option objects (obj_copy 2 1 ref_objects) = Some ((objects ref_objects)(2 \<mapsto> Some 5))
   \<and> obj_copy 2 0 ref_objects = None"
proof -
  have v: "objects ref_objects 0 = Some None" "objects ref_objects 1 = Some (Some 5)" "objects ref_objects 2 = None"
    by (simp_all add: ref_objects_def objects_def obj_defs os_empty_def)
  show ?thesis
    using objects_refine_values [OF ref_objects_run, of 2 "Inr 0" 1 "\<lambda>v. (Inr (), v)"]
      objects_refine_values [OF ref_objects_run, of 2 "Inr 0" 0 "\<lambda>v. (Inr (), v)"] v
    by (simp add: val_copy_def)
qed

section \<open>Classes\<close>

text \<open>
  What a class promises of its copy operations, and of its move operations: ownership is kept
  and they act on the objects as on values.
\<close>

locale copyable_class =
  fixes copy :: "nat \<Rightarrow> nat \<Rightarrow> 'i ostate \<Rightarrow> 'i ostate option"
    and assign :: "nat \<Rightarrow> nat \<Rightarrow> 'i ostate \<Rightarrow> 'i ostate option"
  assumes copy_owned: "owned s \<Longrightarrow> copy ob other s = Some t \<Longrightarrow> owned t"
    and copy_refines: "owned s \<Longrightarrow> map_option objects (copy ob other s) = val_copy ob other (objects s)"
    and assign_owned: "owned s \<Longrightarrow> assign ob other s = Some t \<Longrightarrow> owned t"
    and assign_refines: "owned s \<Longrightarrow> map_option objects (assign ob other s) = val_assign ob other (objects s)"
begin

text \<open>A copy has the value of the original, and what is done to the copy does not change the original.\<close>

lemma copy_independent:
  assumes "owned s" "copy ob other s = Some t" "obj_call f ob t = Some (r, u)"
  shows "objects t ob = objects s other \<and> objects t other = objects s other \<and> objects u other = objects s other"
proof -
  have "val_copy ob other (objects s) = Some (objects t)" using copy_refines [OF assms(1)] assms(2) by (metis option.map(2))
  then obtain v where c: "objects s ob = None" "objects s other = Some (Some v)" "objects t = (objects s)(ob \<mapsto> Some v)"
    by (auto simp: val_copy_def split: if_splits option.splits)
  have "map_option (map_prod id objects) (obj_call f ob t) = val_call f ob (objects t)"
    by (rule call_value) (rule copy_owned [OF assms(1,2)])
  then have "val_call f ob (objects t) = Some (r, objects u)" using assms(3) by simp
  then have "objects u = (objects t)(ob \<mapsto> Some (snd (f v)))"
    using c(3) by (auto simp: val_call_def case_prod_beta)
  with c show ?thesis by auto
qed

lemma assign_self: "owned s \<Longrightarrow> assign ob ob s = Some t \<Longrightarrow> objects t = objects s"
  using assign_refines [of s ob ob]
  by (auto simp: val_assign_def split: if_splits option.splits)

end

locale movable_class =
  fixes move :: "nat \<Rightarrow> nat \<Rightarrow> 'i ostate \<Rightarrow> 'i ostate option"
    and move_assign :: "nat \<Rightarrow> nat \<Rightarrow> 'i ostate \<Rightarrow> 'i ostate option"
  assumes move_owned: "owned s \<Longrightarrow> move ob other s = Some t \<Longrightarrow> owned t"
    and move_refines: "owned s \<Longrightarrow> map_option objects (move ob other s) = val_move ob other (objects s)"
    and move_assign_owned: "owned s \<Longrightarrow> move_assign ob other s = Some t \<Longrightarrow> owned t"
    and move_assign_refines:
      "owned s \<Longrightarrow> map_option objects (move_assign ob other s) = val_move_assign ob other (objects s)"
begin

text \<open>After a move the new object has the value, and a call on the old one is undefined.\<close>

lemma moved_from:
  assumes "owned s" "move ob other s = Some t"
  shows "objects t ob = objects s other \<and> objects t other = Some None \<and> obj_call f other t = None"
proof -
  have "val_move ob other (objects s) = Some (objects t)" using move_refines [OF assms(1)] assms(2) by (metis option.map(2))
  then obtain w where m: "objects s ob = None" "objects s other = Some w" "objects t = (objects s)(other \<mapsto> None, ob \<mapsto> w)"
    by (auto simp: val_move_def split: if_splits option.splits)
  have "map_option (map_prod id objects) (obj_call f other t) = val_call f other (objects t)"
    by (rule call_value) (rule move_owned [OF assms])
  moreover have "ob \<noteq> other" using m(1,2) by auto
  ultimately show ?thesis using m by (simp add: val_call_def)
qed

end

locale value_class = copyable_class copy assign + movable_class move move_assign
  for copy assign move move_assign :: "nat \<Rightarrow> nat \<Rightarrow> 'i ostate \<Rightarrow> 'i ostate option"

text \<open>The operations of this theory keep the promises, and so does every class that uses them.\<close>

lemma copyable_same: "c = obj_copy \<Longrightarrow> a = obj_assign \<Longrightarrow> copyable_class c a"
  by (hypsubst, unfold_locales) (erule owned_copy copy_value owned_assign assign_value, assumption?)+

lemma movable_same: "m = obj_move \<Longrightarrow> a = obj_move_assign \<Longrightarrow> movable_class m a"
  by (hypsubst, unfold_locales) (erule owned_move move_value owned_move_assign move_assign_value, assumption?)+

end
