(* ===== verification/Object_Classes.thy ===== *)
theory Object_Classes
  imports Object_Ownership Public_Ctx Ecies_Ctx
begin

text \<open>
  The public classes over the memory of \<open>Object_Ownership\<close>: copy and move operations and the
  member functions, each of which calls the function of the same name of the \<open>Impl\<close> object.
  The parts of OpenSSL a function uses are arguments; \<open>ob\<close> is the object, the last argument
  the memory.
\<close>

section \<open>Contexts for asymmetric keys\<close>

definition RSAEncryptionPrivateKeyCtx_copy ::
  "nat \<Rightarrow> nat \<Rightarrow> ('k, RSAEncryptionPadding) RSAImpl ostate \<Rightarrow> ('k, RSAEncryptionPadding) RSAImpl ostate option" where
  "RSAEncryptionPrivateKeyCtx_copy ob other s = obj_copy ob other s"

definition RSAEncryptionPrivateKeyCtx_assign ::
  "nat \<Rightarrow> nat \<Rightarrow> ('k, RSAEncryptionPadding) RSAImpl ostate \<Rightarrow> ('k, RSAEncryptionPadding) RSAImpl ostate option" where
  "RSAEncryptionPrivateKeyCtx_assign ob other s = obj_assign ob other s"

definition RSAEncryptionPrivateKeyCtx_decrypt ::
  "('k, 'e, 'g, 'c) pkey_lib \<Rightarrow> 'c pctx_lib \<Rightarrow> bytes \<Rightarrow> nat \<Rightarrow> ('k, RSAEncryptionPadding) RSAImpl ostate \<Rightarrow> (bytes res \<times> ('k, RSAEncryptionPadding) RSAImpl ostate) option" where
  "RSAEncryptionPrivateKeyCtx_decrypt P C m =
     obj_call (\<lambda>impl. (RSA_decrypt P C impl m, impl))"

definition RSAEncryptionPublicKeyCtx_copy ::
  "nat \<Rightarrow> nat \<Rightarrow> ('k, RSAEncryptionPadding) RSAImpl ostate \<Rightarrow> ('k, RSAEncryptionPadding) RSAImpl ostate option" where
  "RSAEncryptionPublicKeyCtx_copy ob other s = obj_copy ob other s"

definition RSAEncryptionPublicKeyCtx_assign ::
  "nat \<Rightarrow> nat \<Rightarrow> ('k, RSAEncryptionPadding) RSAImpl ostate \<Rightarrow> ('k, RSAEncryptionPadding) RSAImpl ostate option" where
  "RSAEncryptionPublicKeyCtx_assign ob other s = obj_assign ob other s"

definition RSAEncryptionPublicKeyCtx_encrypt ::
  "('k, 'e, 'g, 'c) pkey_lib \<Rightarrow> 'c pctx_lib \<Rightarrow> nat \<Rightarrow> bytes \<Rightarrow> nat \<Rightarrow> ('k, RSAEncryptionPadding) RSAImpl ostate \<Rightarrow> (bytes res \<times> ('k, RSAEncryptionPadding) RSAImpl ostate) option" where
  "RSAEncryptionPublicKeyCtx_encrypt P C rnd m =
     obj_call (\<lambda>impl. (RSA_encrypt P C rnd impl m, impl))"

definition RSASignaturePrivateKeyCtx_copy ::
  "nat \<Rightarrow> nat \<Rightarrow> 'k RSASignatureImpl ostate \<Rightarrow> 'k RSASignatureImpl ostate option" where
  "RSASignaturePrivateKeyCtx_copy ob other s = obj_copy ob other s"

definition RSASignaturePrivateKeyCtx_assign ::
  "nat \<Rightarrow> nat \<Rightarrow> 'k RSASignatureImpl ostate \<Rightarrow> 'k RSASignatureImpl ostate option" where
  "RSASignaturePrivateKeyCtx_assign ob other s = obj_assign ob other s"

definition RSASignaturePrivateKeyCtx_signDigest ::
  "('k, 'e, 'g, 'c) pkey_lib \<Rightarrow> 'c pctx_lib \<Rightarrow> nat \<Rightarrow> bytes \<Rightarrow> nat \<Rightarrow> 'k RSASignatureImpl ostate \<Rightarrow> (bytes res \<times> 'k RSASignatureImpl ostate) option" where
  "RSASignaturePrivateKeyCtx_signDigest P C rnd dg =
     obj_call (\<lambda>impl. (RSA_signDigest P C impl rnd dg, impl))"

definition RSASignaturePrivateKeyCtx_signMessage ::
  "('k, 'e, 'g, 'c) pkey_lib \<Rightarrow> 'c pctx_lib \<Rightarrow> 'd digest_lib \<Rightarrow> nat \<Rightarrow> bytes \<Rightarrow> nat \<Rightarrow> 'k RSASignatureImpl ostate \<Rightarrow> (bytes res \<times> 'k RSASignatureImpl ostate) option" where
  "RSASignaturePrivateKeyCtx_signMessage P C D rnd m =
     obj_call (\<lambda>impl. (RSA_signMessage P C D impl rnd m, impl))"

definition RSASignaturePublicKeyCtx_copy ::
  "nat \<Rightarrow> nat \<Rightarrow> 'k RSASignatureImpl ostate \<Rightarrow> 'k RSASignatureImpl ostate option" where
  "RSASignaturePublicKeyCtx_copy ob other s = obj_copy ob other s"

definition RSASignaturePublicKeyCtx_assign ::
  "nat \<Rightarrow> nat \<Rightarrow> 'k RSASignatureImpl ostate \<Rightarrow> 'k RSASignatureImpl ostate option" where
  "RSASignaturePublicKeyCtx_assign ob other s = obj_assign ob other s"

definition RSASignaturePublicKeyCtx_verifyDigest ::
  "('k, 'e, 'g, 'c) pkey_lib \<Rightarrow> 'c pctx_lib \<Rightarrow> bytes \<Rightarrow> bytes \<Rightarrow> nat \<Rightarrow> 'k RSASignatureImpl ostate \<Rightarrow> (unit res \<times> 'k RSASignatureImpl ostate) option" where
  "RSASignaturePublicKeyCtx_verifyDigest P C sig dg =
     obj_call (\<lambda>impl. (RSA_verifyDigest P C impl sig dg, impl))"

definition RSASignaturePublicKeyCtx_verifyMessage ::
  "('k, 'e, 'g, 'c) pkey_lib \<Rightarrow> 'c pctx_lib \<Rightarrow> 'd digest_lib \<Rightarrow> bytes \<Rightarrow> bytes \<Rightarrow> nat \<Rightarrow> 'k RSASignatureImpl ostate \<Rightarrow> (unit res \<times> 'k RSASignatureImpl ostate) option" where
  "RSASignaturePublicKeyCtx_verifyMessage P C D sig m =
     obj_call (\<lambda>impl. (RSA_verifyMessage P C D impl sig m, impl))"

definition ECDSASignaturePrivateKeyCtx_copy ::
  "nat \<Rightarrow> nat \<Rightarrow> 'k ECDSAImpl ostate \<Rightarrow> 'k ECDSAImpl ostate option" where
  "ECDSASignaturePrivateKeyCtx_copy ob other s = obj_copy ob other s"

definition ECDSASignaturePrivateKeyCtx_assign ::
  "nat \<Rightarrow> nat \<Rightarrow> 'k ECDSAImpl ostate \<Rightarrow> 'k ECDSAImpl ostate option" where
  "ECDSASignaturePrivateKeyCtx_assign ob other s = obj_assign ob other s"

definition ECDSASignaturePrivateKeyCtx_signDigest ::
  "('k, 'e, 'g, 'c) pkey_lib \<Rightarrow> 'c pctx_lib \<Rightarrow> ('b, 's) ecsig_lib \<Rightarrow> nat \<Rightarrow> bytes \<Rightarrow> nat \<Rightarrow> 'k ECDSAImpl ostate \<Rightarrow> (bytes res \<times> 'k ECDSAImpl ostate) option" where
  "ECDSASignaturePrivateKeyCtx_signDigest P C B rnd dg =
     obj_call (\<lambda>impl. (ECDSA_signDigest P C B impl rnd dg, impl))"

definition ECDSASignaturePrivateKeyCtx_signMessage ::
  "('k, 'e, 'g, 'c) pkey_lib \<Rightarrow> 'c pctx_lib \<Rightarrow> ('b, 's) ecsig_lib \<Rightarrow> 'd digest_lib \<Rightarrow> nat \<Rightarrow> bytes \<Rightarrow> nat \<Rightarrow> 'k ECDSAImpl ostate \<Rightarrow> (bytes res \<times> 'k ECDSAImpl ostate) option" where
  "ECDSASignaturePrivateKeyCtx_signMessage P C B D rnd m =
     obj_call (\<lambda>impl. (ECDSA_signMessage P C B D impl rnd m, impl))"

definition ECDSASignaturePublicKeyCtx_copy ::
  "nat \<Rightarrow> nat \<Rightarrow> 'k ECDSAImpl ostate \<Rightarrow> 'k ECDSAImpl ostate option" where
  "ECDSASignaturePublicKeyCtx_copy ob other s = obj_copy ob other s"

definition ECDSASignaturePublicKeyCtx_assign ::
  "nat \<Rightarrow> nat \<Rightarrow> 'k ECDSAImpl ostate \<Rightarrow> 'k ECDSAImpl ostate option" where
  "ECDSASignaturePublicKeyCtx_assign ob other s = obj_assign ob other s"

definition ECDSASignaturePublicKeyCtx_verifyDigest ::
  "('k, 'e, 'g, 'c) pkey_lib \<Rightarrow> 'c pctx_lib \<Rightarrow> ('b, 's) ecsig_lib \<Rightarrow> bytes \<Rightarrow> bytes \<Rightarrow> nat \<Rightarrow> 'k ECDSAImpl ostate \<Rightarrow> (unit res \<times> 'k ECDSAImpl ostate) option" where
  "ECDSASignaturePublicKeyCtx_verifyDigest P C B sig dg =
     obj_call (\<lambda>impl. (ECDSA_verifyDigest P C B impl sig dg, impl))"

definition ECDSASignaturePublicKeyCtx_verifyMessage ::
  "('k, 'e, 'g, 'c) pkey_lib \<Rightarrow> 'c pctx_lib \<Rightarrow> ('b, 's) ecsig_lib \<Rightarrow> 'd digest_lib \<Rightarrow> bytes \<Rightarrow> bytes \<Rightarrow> nat \<Rightarrow> 'k ECDSAImpl ostate \<Rightarrow> (unit res \<times> 'k ECDSAImpl ostate) option" where
  "ECDSASignaturePublicKeyCtx_verifyMessage P C B D sig m =
     obj_call (\<lambda>impl. (ECDSA_verifyMessage P C B D impl sig m, impl))"

definition EdDSASignaturePrivateKeyCtx_copy ::
  "nat \<Rightarrow> nat \<Rightarrow> 'k EdDSAImpl ostate \<Rightarrow> 'k EdDSAImpl ostate option" where
  "EdDSASignaturePrivateKeyCtx_copy ob other s = obj_copy ob other s"

definition EdDSASignaturePrivateKeyCtx_assign ::
  "nat \<Rightarrow> nat \<Rightarrow> 'k EdDSAImpl ostate \<Rightarrow> 'k EdDSAImpl ostate option" where
  "EdDSASignaturePrivateKeyCtx_assign ob other s = obj_assign ob other s"

definition EdDSASignaturePrivateKeyCtx_signMessage ::
  "'d digest_lib \<Rightarrow> ('k, 'd) eddsa_lib \<Rightarrow> bytes \<Rightarrow> nat \<Rightarrow> 'k EdDSAImpl ostate \<Rightarrow> (bytes res \<times> 'k EdDSAImpl ostate) option" where
  "EdDSASignaturePrivateKeyCtx_signMessage D X m =
     obj_call (\<lambda>impl. (EdDSA_signMessage D X impl m, impl))"

definition EdDSASignaturePublicKeyCtx_copy ::
  "nat \<Rightarrow> nat \<Rightarrow> 'k EdDSAImpl ostate \<Rightarrow> 'k EdDSAImpl ostate option" where
  "EdDSASignaturePublicKeyCtx_copy ob other s = obj_copy ob other s"

definition EdDSASignaturePublicKeyCtx_assign ::
  "nat \<Rightarrow> nat \<Rightarrow> 'k EdDSAImpl ostate \<Rightarrow> 'k EdDSAImpl ostate option" where
  "EdDSASignaturePublicKeyCtx_assign ob other s = obj_assign ob other s"

definition EdDSASignaturePublicKeyCtx_verifyMessage ::
  "'d digest_lib \<Rightarrow> ('k, 'd) eddsa_lib \<Rightarrow> bytes \<Rightarrow> bytes \<Rightarrow> nat \<Rightarrow> 'k EdDSAImpl ostate \<Rightarrow> (unit res \<times> 'k EdDSAImpl ostate) option" where
  "EdDSASignaturePublicKeyCtx_verifyMessage D X sig m =
     obj_call (\<lambda>impl. (EdDSA_verifyMessage D X impl sig m, impl))"

section \<open>Paddings\<close>

definition PSSPadding_copy ::
  "nat \<Rightarrow> nat \<Rightarrow> RSASignaturePadding ostate \<Rightarrow> RSASignaturePadding ostate option" where
  "PSSPadding_copy ob other s = obj_copy ob other s"

definition PSSPadding_assign ::
  "nat \<Rightarrow> nat \<Rightarrow> RSASignaturePadding ostate \<Rightarrow> RSASignaturePadding ostate option" where
  "PSSPadding_assign ob other s = obj_assign ob other s"

definition OAEPPadding_copy ::
  "nat \<Rightarrow> nat \<Rightarrow> RSAEncryptionPadding ostate \<Rightarrow> RSAEncryptionPadding ostate option" where
  "OAEPPadding_copy ob other s = obj_copy ob other s"

definition OAEPPadding_assign ::
  "nat \<Rightarrow> nat \<Rightarrow> RSAEncryptionPadding ostate \<Rightarrow> RSAEncryptionPadding ostate option" where
  "OAEPPadding_assign ob other s = obj_assign ob other s"

section \<open>Key derivation functions\<close>

definition PBKDF2_move ::
  "nat \<Rightarrow> nat \<Rightarrow> PBKDF2 ostate \<Rightarrow> PBKDF2 ostate option" where
  "PBKDF2_move ob other s = obj_move ob other s"

definition PBKDF2_move_assign ::
  "nat \<Rightarrow> nat \<Rightarrow> PBKDF2 ostate \<Rightarrow> PBKDF2 ostate option" where
  "PBKDF2_move_assign ob other s = obj_move_assign ob other s"

definition PBKDF2_copy ::
  "nat \<Rightarrow> nat \<Rightarrow> PBKDF2 ostate \<Rightarrow> PBKDF2 ostate option" where
  "PBKDF2_copy ob other s = obj_copy ob other s"

definition PBKDF2_assign ::
  "nat \<Rightarrow> nat \<Rightarrow> PBKDF2 ostate \<Rightarrow> PBKDF2 ostate option" where
  "PBKDF2_assign ob other s = obj_assign ob other s"

definition PBKDF2_derive ::
  "kdf_lib \<Rightarrow> bytes \<Rightarrow> nat \<Rightarrow> bytes \<Rightarrow> nat \<Rightarrow> PBKDF2 ostate \<Rightarrow> (bytes res \<times> PBKDF2 ostate) option" where
  "PBKDF2_derive L password n salt = obj_call (\<lambda>impl. (PBKDF2_deriveKey L impl password n salt, impl))"

definition X963KDF_move ::
  "nat \<Rightarrow> nat \<Rightarrow> X963KDF ostate \<Rightarrow> X963KDF ostate option" where
  "X963KDF_move ob other s = obj_move ob other s"

definition X963KDF_copy ::
  "nat \<Rightarrow> nat \<Rightarrow> X963KDF ostate \<Rightarrow> X963KDF ostate option" where
  "X963KDF_copy ob other s = obj_copy ob other s"

definition X963KDF_move_assign ::
  "nat \<Rightarrow> nat \<Rightarrow> X963KDF ostate \<Rightarrow> X963KDF ostate option" where
  "X963KDF_move_assign ob other s = obj_move_assign ob other s"

definition X963KDF_assign ::
  "nat \<Rightarrow> nat \<Rightarrow> X963KDF ostate \<Rightarrow> X963KDF ostate option" where
  "X963KDF_assign ob other s = obj_assign ob other s"

definition X963KDF_derive ::
  "kdf_lib \<Rightarrow> bytes \<Rightarrow> nat \<Rightarrow> bytes \<Rightarrow> nat \<Rightarrow> X963KDF ostate \<Rightarrow> (bytes res \<times> X963KDF ostate) option" where
  "X963KDF_derive L password n salt = obj_call (\<lambda>impl. (X963KDF_deriveKey L impl password n salt, impl))"

section \<open>Message authentication codes\<close>

text \<open>Their copy operations are deleted.\<close>

definition HMAC_ctor ::
  "'c hmac_lib \<Rightarrow> DigestTypes \<Rightarrow> bytes \<Rightarrow> nat \<Rightarrow> 'c mac_impl ostate \<Rightarrow> (unit res \<times> 'c mac_impl ostate) option" where
  "HMAC_ctor L h key ob s =
     obj_construct ob (HMAC_new L h key) s"

definition HMAC_move ::
  "nat \<Rightarrow> nat \<Rightarrow> 'c mac_impl ostate \<Rightarrow> 'c mac_impl ostate option" where
  "HMAC_move ob other s = obj_move ob other s"

definition HMAC_move_assign ::
  "nat \<Rightarrow> nat \<Rightarrow> 'c mac_impl ostate \<Rightarrow> 'c mac_impl ostate option" where
  "HMAC_move_assign ob other s = obj_move_assign ob other s"

definition HMAC_obj_update ::
  "'c hmac_lib \<Rightarrow> bytes \<Rightarrow> nat \<Rightarrow> 'c mac_impl ostate \<Rightarrow> (unit res \<times> 'c mac_impl ostate) option" where
  "HMAC_obj_update L m =
     obj_call (HMAC_update L m)"

definition HMAC_obj_finish ::
  "'c hmac_lib \<Rightarrow> nat \<Rightarrow> 'c mac_impl ostate \<Rightarrow> (bytes res \<times> 'c mac_impl ostate) option" where
  "HMAC_obj_finish L =
     obj_call (HMAC_finish L)"

definition HMAC_obj_verify ::
  "'c hmac_lib \<Rightarrow> bytes \<Rightarrow> nat \<Rightarrow> 'c mac_impl ostate \<Rightarrow> (unit res \<times> 'c mac_impl ostate) option" where
  "HMAC_obj_verify L v =
     obj_call (HMAC_verify L v)"

definition CMAC_ctor ::
  "'c cmac_lib \<Rightarrow> CmacCipherTypes \<Rightarrow> bytes \<Rightarrow> nat \<Rightarrow> 'c mac_impl ostate \<Rightarrow> (unit res \<times> 'c mac_impl ostate) option" where
  "CMAC_ctor L t key ob s =
     obj_construct ob (CMAC_new L t key) s"

definition CMAC_move ::
  "nat \<Rightarrow> nat \<Rightarrow> 'c mac_impl ostate \<Rightarrow> 'c mac_impl ostate option" where
  "CMAC_move ob other s = obj_move ob other s"

definition CMAC_move_assign ::
  "nat \<Rightarrow> nat \<Rightarrow> 'c mac_impl ostate \<Rightarrow> 'c mac_impl ostate option" where
  "CMAC_move_assign ob other s = obj_move_assign ob other s"

definition CMAC_obj_update ::
  "'c cmac_lib \<Rightarrow> bytes \<Rightarrow> nat \<Rightarrow> 'c mac_impl ostate \<Rightarrow> (unit res \<times> 'c mac_impl ostate) option" where
  "CMAC_obj_update L m =
     obj_call (CMAC_update L m)"

definition CMAC_obj_finish ::
  "'c cmac_lib \<Rightarrow> nat \<Rightarrow> 'c mac_impl ostate \<Rightarrow> (bytes res \<times> 'c mac_impl ostate) option" where
  "CMAC_obj_finish L =
     obj_call (CMAC_finish L)"

definition CMAC_obj_verify ::
  "'c cmac_lib \<Rightarrow> bytes \<Rightarrow> nat \<Rightarrow> 'c mac_impl ostate \<Rightarrow> (unit res \<times> 'c mac_impl ostate) option" where
  "CMAC_obj_verify L v =
     obj_call (CMAC_verify L v)"

section \<open>Symmetric ciphers\<close>

definition AESCipher_ctor ::
  "'c cipher_lib \<Rightarrow> SymmetricCipherMode \<Rightarrow> SymmetricCipherKeySize \<Rightarrow> SymmetricCipherPadding \<Rightarrow> bytes \<Rightarrow> bytes \<Rightarrow> Operation \<Rightarrow> nat \<Rightarrow> 'c aes ostate \<Rightarrow> (unit res \<times> 'c aes ostate) option" where
  "AESCipher_ctor L mode keySize padding key iv operation ob s =
     obj_construct ob (AESCipher_new L mode keySize padding key iv operation) s"

definition AESCipher_update ::
  "'c cipher_lib \<Rightarrow> bytes \<Rightarrow> nat \<Rightarrow> 'c aes ostate \<Rightarrow> (unit res \<times> 'c aes ostate) option" where
  "AESCipher_update L m =
     obj_call (AES_update L m)"

definition AESCipher_read ::
  "nat \<Rightarrow> nat \<Rightarrow> 'c aes ostate \<Rightarrow> (bytes res \<times> 'c aes ostate) option" where
  "AESCipher_read n =
     obj_call (AES_read n)"

definition AESCipher_readAll ::
  "nat \<Rightarrow> 'c aes ostate \<Rightarrow> (bytes res \<times> 'c aes ostate) option" where
  "AESCipher_readAll  =
     obj_call (AES_readAll)"

definition AESCipher_finish ::
  "'c cipher_lib \<Rightarrow> nat \<Rightarrow> 'c aes ostate \<Rightarrow> (bytes res \<times> 'c aes ostate) option" where
  "AESCipher_finish L =
     obj_call (AES_finish L)"

definition AESCipher_getIV ::
  "nat \<Rightarrow> 'c aes ostate \<Rightarrow> (bytes res \<times> 'c aes ostate) option" where
  "AESCipher_getIV  =
     obj_call (\<lambda>impl. (Inr (AES_getIV impl), impl))"

definition AuthenticatedAESCipher_getAuthTag ::
  "nat \<Rightarrow> 'c aes ostate \<Rightarrow> (bytes res \<times> 'c aes ostate) option" where
  "AuthenticatedAESCipher_getAuthTag  =
     obj_call (\<lambda>impl. (Inr (AES_getAuthTag impl), impl))"

definition AuthenticatedAESCipher_setAuthTag ::
  "bytes \<Rightarrow> nat \<Rightarrow> 'c aes ostate \<Rightarrow> (unit res \<times> 'c aes ostate) option" where
  "AuthenticatedAESCipher_setAuthTag tag =
     obj_call (modifyS (AES_setAuthTag tag))"

definition AuthenticatedAESCipher_addAssociatedData ::
  "'c cipher_lib \<Rightarrow> bytes \<Rightarrow> nat \<Rightarrow> 'c aes ostate \<Rightarrow> (unit res \<times> 'c aes ostate) option" where
  "AuthenticatedAESCipher_addAssociatedData L aad =
     obj_call (AES_addAssociatedData L aad)"

section \<open>ECIES\<close>

definition ECIESEncryptionCtx_ctor ::
  "('h, 'm, 'a, 's) crypto_env \<Rightarrow> ('k, 'e, 'g, 'c) pkey_lib \<Rightarrow> nat \<Rightarrow> ('h, 'm, 'a, 's, 'k) ecies_builder \<Rightarrow> nat \<Rightarrow> ('h, 'm, 'a, 's, 'k) ecies_ctx ostate \<Rightarrow> (unit res \<times> ('h, 'm, 'a, 's, 'k) ecies_ctx ostate) option" where
  "ECIESEncryptionCtx_ctor E P rnd b ob s =
     obj_construct ob (ECIESEncryptionCtx_new E P rnd b) s"

definition ECIESEncryptionCtx_update ::
  "('h, 'm, 'a, 's) crypto_env \<Rightarrow> bytes \<Rightarrow> nat \<Rightarrow> ('h, 'm, 'a, 's, 'k) ecies_ctx ostate \<Rightarrow> (unit res \<times> ('h, 'm, 'a, 's, 'k) ecies_ctx ostate) option" where
  "ECIESEncryptionCtx_update E m =
     obj_call (ECIESEnc_update E m)"

definition ECIESEncryptionCtx_finish ::
  "('h, 'm, 'a, 's) crypto_env \<Rightarrow> nat \<Rightarrow> ('h, 'm, 'a, 's, 'k) ecies_ctx ostate \<Rightarrow> (bytes res \<times> ('h, 'm, 'a, 's, 'k) ecies_ctx ostate) option" where
  "ECIESEncryptionCtx_finish E =
     obj_call (ECIESEnc_finish E)"

definition ECIESEncryptionCtx_getEphemeralKey ::
  "nat \<Rightarrow> ('h, 'm, 'a, 's, 'k) ecies_ctx ostate \<Rightarrow> ('k res \<times> ('h, 'm, 'a, 's, 'k) ecies_ctx ostate) option" where
  "ECIESEncryptionCtx_getEphemeralKey  =
     obj_call (\<lambda>impl. (Inr (ECIESEnc_getEphemeralKey impl), impl))"

definition ECIESEncryptionCtx_getMAC ::
  "nat \<Rightarrow> ('h, 'm, 'a, 's, 'k) ecies_ctx ostate \<Rightarrow> (bytes res \<times> ('h, 'm, 'a, 's, 'k) ecies_ctx ostate) option" where
  "ECIESEncryptionCtx_getMAC  =
     obj_call (\<lambda>impl. (ECIESEnc_getMAC impl, impl))"

definition ECIESDecryptionCtx_ctor ::
  "('h, 'm, 'a, 's) crypto_env \<Rightarrow> ('k, 'e, 'g, 'c) pkey_lib \<Rightarrow> ('h, 'm, 'a, 's, 'k) ecies_builder \<Rightarrow> nat \<Rightarrow> ('h, 'm, 'a, 's, 'k) ecies_ctx ostate \<Rightarrow> (unit res \<times> ('h, 'm, 'a, 's, 'k) ecies_ctx ostate) option" where
  "ECIESDecryptionCtx_ctor E P b ob s =
     obj_construct ob (ECIESDecryptionCtx_new E P b) s"

definition ECIESDecryptionCtx_update ::
  "('h, 'm, 'a, 's) crypto_env \<Rightarrow> bytes \<Rightarrow> nat \<Rightarrow> ('h, 'm, 'a, 's, 'k) ecies_ctx ostate \<Rightarrow> (unit res \<times> ('h, 'm, 'a, 's, 'k) ecies_ctx ostate) option" where
  "ECIESDecryptionCtx_update E m =
     obj_call (ECIESDec_update E m)"

definition ECIESDecryptionCtx_finish ::
  "('h, 'm, 'a, 's) crypto_env \<Rightarrow> nat \<Rightarrow> ('h, 'm, 'a, 's, 'k) ecies_ctx ostate \<Rightarrow> (bytes res \<times> ('h, 'm, 'a, 's, 'k) ecies_ctx ostate) option" where
  "ECIESDecryptionCtx_finish E =
     obj_call (ECIESDec_finish E)"

definition ECIESDecryptionCtx_setMAC ::
  "bytes \<Rightarrow> nat \<Rightarrow> ('h, 'm, 'a, 's, 'k) ecies_ctx ostate \<Rightarrow> (unit res \<times> ('h, 'm, 'a, 's, 'k) ecies_ctx ostate) option" where
  "ECIESDecryptionCtx_setMAC tag =
     obj_call (modifyS (ECIESDec_setMAC tag))"

definition ECIESCtxBuilder_ctor ::
  "nat \<Rightarrow> ('h, 'm, 'a, 's, 'k) ecies_builder ostate \<Rightarrow> (unit res \<times> ('h, 'm, 'a, 's, 'k) ecies_builder ostate) option" where
  "ECIESCtxBuilder_ctor  ob s =
     obj_construct ob (Inr ECIESCtxBuilder_new) s"

definition ECIESCtxBuilder_setKDF ::
  "kdf_dyn \<Rightarrow> nat \<Rightarrow> ('h, 'm, 'a, 's, 'k) ecies_builder ostate \<Rightarrow> (unit res \<times> ('h, 'm, 'a, 's, 'k) ecies_builder ostate) option" where
  "ECIESCtxBuilder_setKDF kdf =
     obj_call (modifyS (setKDF kdf))"

definition ECIESCtxBuilder_setMacKeySize ::
  "nat \<Rightarrow> nat \<Rightarrow> ('h, 'm, 'a, 's, 'k) ecies_builder ostate \<Rightarrow> (unit res \<times> ('h, 'm, 'a, 's, 'k) ecies_builder ostate) option" where
  "ECIESCtxBuilder_setMacKeySize n =
     obj_call (modifyS (setMacKeySize n))"

definition ECIESCtxBuilder_setMacFactoryFunction ::
  "('h, 'm) mac_factory \<Rightarrow> nat \<Rightarrow> ('h, 'm, 'a, 's, 'k) ecies_builder ostate \<Rightarrow> (unit res \<times> ('h, 'm, 'a, 's, 'k) ecies_builder ostate) option" where
  "ECIESCtxBuilder_setMacFactoryFunction func =
     obj_call (modifyS (setMacFactoryFunction func))"

definition ECIESCtxBuilder_setSymmetricCipherKeySize ::
  "nat \<Rightarrow> nat \<Rightarrow> ('h, 'm, 'a, 's, 'k) ecies_builder ostate \<Rightarrow> (unit res \<times> ('h, 'm, 'a, 's, 'k) ecies_builder ostate) option" where
  "ECIESCtxBuilder_setSymmetricCipherKeySize n =
     obj_call (modifyS (setSymmetricCipherKeySize n))"

definition ECIESCtxBuilder_setSymmetricCipherFactoryFunction ::
  "('a, 's) cipher_factory \<Rightarrow> nat \<Rightarrow> ('h, 'm, 'a, 's, 'k) ecies_builder ostate \<Rightarrow> (unit res \<times> ('h, 'm, 'a, 's, 'k) ecies_builder ostate) option" where
  "ECIESCtxBuilder_setSymmetricCipherFactoryFunction func =
     obj_call (modifyS (setSymmetricCipherFactoryFunction func))"

definition ECIESCtxBuilder_setKDFSalt ::
  "bytes \<Rightarrow> nat \<Rightarrow> ('h, 'm, 'a, 's, 'k) ecies_builder ostate \<Rightarrow> (unit res \<times> ('h, 'm, 'a, 's, 'k) ecies_builder ostate) option" where
  "ECIESCtxBuilder_setKDFSalt salt =
     obj_call (modifyS (setKDFSalt salt))"

definition ECIESCtxBuilder_setMACSalt ::
  "bytes \<Rightarrow> nat \<Rightarrow> ('h, 'm, 'a, 's, 'k) ecies_builder ostate \<Rightarrow> (unit res \<times> ('h, 'm, 'a, 's, 'k) ecies_builder ostate) option" where
  "ECIESCtxBuilder_setMACSalt salt =
     obj_call (modifyS (setMACSalt salt))"

section \<open>Value semantics\<close>

interpretation RSAEncryptionPrivateKeyCtx_obj: copyable_class RSAEncryptionPrivateKeyCtx_copy RSAEncryptionPrivateKeyCtx_assign
  by (rule copyable_same) (simp_all add: fun_eq_iff RSAEncryptionPrivateKeyCtx_copy_def RSAEncryptionPrivateKeyCtx_assign_def)

interpretation RSAEncryptionPublicKeyCtx_obj: copyable_class RSAEncryptionPublicKeyCtx_copy RSAEncryptionPublicKeyCtx_assign
  by (rule copyable_same) (simp_all add: fun_eq_iff RSAEncryptionPublicKeyCtx_copy_def RSAEncryptionPublicKeyCtx_assign_def)

interpretation RSASignaturePrivateKeyCtx_obj: copyable_class RSASignaturePrivateKeyCtx_copy RSASignaturePrivateKeyCtx_assign
  by (rule copyable_same) (simp_all add: fun_eq_iff RSASignaturePrivateKeyCtx_copy_def RSASignaturePrivateKeyCtx_assign_def)

interpretation RSASignaturePublicKeyCtx_obj: copyable_class RSASignaturePublicKeyCtx_copy RSASignaturePublicKeyCtx_assign
  by (rule copyable_same) (simp_all add: fun_eq_iff RSASignaturePublicKeyCtx_copy_def RSASignaturePublicKeyCtx_assign_def)

interpretation ECDSASignaturePrivateKeyCtx_obj: copyable_class ECDSASignaturePrivateKeyCtx_copy ECDSASignaturePrivateKeyCtx_assign
  by (rule copyable_same) (simp_all add: fun_eq_iff ECDSASignaturePrivateKeyCtx_copy_def ECDSASignaturePrivateKeyCtx_assign_def)

interpretation ECDSASignaturePublicKeyCtx_obj: copyable_class ECDSASignaturePublicKeyCtx_copy ECDSASignaturePublicKeyCtx_assign
  by (rule copyable_same) (simp_all add: fun_eq_iff ECDSASignaturePublicKeyCtx_copy_def ECDSASignaturePublicKeyCtx_assign_def)

interpretation EdDSASignaturePrivateKeyCtx_obj: copyable_class EdDSASignaturePrivateKeyCtx_copy EdDSASignaturePrivateKeyCtx_assign
  by (rule copyable_same) (simp_all add: fun_eq_iff EdDSASignaturePrivateKeyCtx_copy_def EdDSASignaturePrivateKeyCtx_assign_def)

interpretation EdDSASignaturePublicKeyCtx_obj: copyable_class EdDSASignaturePublicKeyCtx_copy EdDSASignaturePublicKeyCtx_assign
  by (rule copyable_same) (simp_all add: fun_eq_iff EdDSASignaturePublicKeyCtx_copy_def EdDSASignaturePublicKeyCtx_assign_def)

interpretation PSSPadding_obj: copyable_class PSSPadding_copy PSSPadding_assign
  by (rule copyable_same) (simp_all add: fun_eq_iff PSSPadding_copy_def PSSPadding_assign_def)

interpretation OAEPPadding_obj: copyable_class OAEPPadding_copy OAEPPadding_assign
  by (rule copyable_same) (simp_all add: fun_eq_iff OAEPPadding_copy_def OAEPPadding_assign_def)

interpretation PBKDF2_obj: value_class PBKDF2_copy PBKDF2_assign PBKDF2_move PBKDF2_move_assign
  by (rule value_class.intro [OF copyable_same movable_same])
    (simp_all add: fun_eq_iff PBKDF2_copy_def PBKDF2_assign_def PBKDF2_move_def PBKDF2_move_assign_def)

interpretation X963KDF_obj: value_class X963KDF_copy X963KDF_assign X963KDF_move X963KDF_move_assign
  by (rule value_class.intro [OF copyable_same movable_same])
    (simp_all add: fun_eq_iff X963KDF_copy_def X963KDF_assign_def X963KDF_move_def X963KDF_move_assign_def)

interpretation HMAC_obj: movable_class HMAC_move HMAC_move_assign
  by (rule movable_same) (simp_all add: fun_eq_iff HMAC_move_def HMAC_move_assign_def)

interpretation CMAC_obj: movable_class CMAC_move CMAC_move_assign
  by (rule movable_same) (simp_all add: fun_eq_iff CMAC_move_def CMAC_move_assign_def)

section \<open>Examples\<close>

text \<open>
  A key derivation object is copied, the copy assigned to, and the original moved: each step
  is defined, and the moved-from object cannot be used.
\<close>

lemma kdf_objects_run:
  "\<exists>s. obj_run s \<and> objects s 0 = Some None \<and> objects s 1 = Some (Some (X963KDF_new SHA256))
     \<and> objects s 2 = Some (Some (X963KDF_new SHA512)) \<and> X963KDF_derive L [] 16 [] 0 s = None"
proof -
  let ?s1 = "snd (the (obj_construct 0 (Inr (X963KDF_new SHA512)) os_empty))"
  let ?s2 = "snd (the (obj_construct 1 (Inr (X963KDF_new SHA256)) ?s1))"
  let ?s3 = "the (obj_move 2 0 ?s2)"
  note ev = obj_defs os_empty_def
  have c1: "obj_construct 0 (Inr (X963KDF_new SHA512)) os_empty = Some (Inr (), ?s1)" by (simp add: ev)
  have r1: "obj_run ?s1" by (rule run_construct [OF run_empty c1])
  have c2: "obj_construct 1 (Inr (X963KDF_new SHA256)) ?s1 = Some (Inr (), ?s2)" by (simp add: ev)
  have r2: "obj_run ?s2" by (rule run_construct [OF r1 c2])
  have c3: "obj_move 2 0 ?s2 = Some ?s3" by (simp add: ev)
  have r3: "obj_run ?s3" by (rule run_move [OF r2 c3])
  show ?thesis
    by (intro exI [of _ ?s3] conjI r3) (simp_all add: ev objects_def X963KDF_derive_def)
qed

end
