(* ===== verification/Program_Run.thy ===== *)
theory Program_Run
  imports Check_Call
begin

text \<open>
  Whole programs, for the programs under \<open>src/examples\<close>: what a program writes to its
  two output streams and how it ends.  A step returns a value, leaves the program by
  \<open>exit\<close>, is left by an exception, does not return, or uses a null pointer, which has no
  defined behaviour; the output before stays.
\<close>

section \<open>Steps\<close>

datatype stream = Cout | Cerr

type_synonym stream_log = "(stream \<times> message) list"

datatype 'a outcome = Returns 'a | Exits int | Throws exn | Diverges | Undefined

type_synonym 'a prog = "stream_log \<times> 'a outcome"

definition EXIT_SUCCESS :: int where "EXIT_SUCCESS = 0"
definition EXIT_FAILURE :: int where "EXIT_FAILURE = 1"

definition endl :: frag where "endl = Str [CHR 0x0A]"

definition returnP :: "'a \<Rightarrow> 'a prog" where "returnP x = ([], Returns x)"

definition printP :: "stream \<Rightarrow> message \<Rightarrow> unit prog" where "printP s m = ([(s, m)], Returns ())"

definition exitP :: "int \<Rightarrow> 'a prog" where "exitP code = ([], Exits code)"

definition bindP :: "'a prog \<Rightarrow> ('a \<Rightarrow> 'b prog) \<Rightarrow> 'b prog" where
  "bindP p f =
     (case snd p of
        Returns x \<Rightarrow> (fst p @ fst (f x), snd (f x))
      | Exits code \<Rightarrow> (fst p, Exits code)
      | Throws e \<Rightarrow> (fst p, Throws e)
      | Diverges \<Rightarrow> (fst p, Diverges)
      | Undefined \<Rightarrow> (fst p, Undefined))"

text \<open>A library call; a call that may not return; a call that changes a local object.\<close>

definition callP :: "'a res \<Rightarrow> 'a prog" where
  "callP r = ([], case r of Inl e \<Rightarrow> Throws e | Inr x \<Rightarrow> Returns x)"

definition callD :: "'a res option \<Rightarrow> 'a prog" where
  "callD r = (case r of None \<Rightarrow> ([], Diverges) | Some q \<Rightarrow> callP q)"

definition callS :: "('s, 'a) st \<Rightarrow> 's \<Rightarrow> ('a \<times> 's) prog" where
  "callS m s = callP (bindR (fst (m s)) (\<lambda>x. Inr (x, snd (m s))))"

text \<open>A key object whose pointer may be null, at its first use.\<close>

definition keyP :: "'k option \<Rightarrow> 'k prog" where
  "keyP k = ([], case k of None \<Rightarrow> Undefined | Some key \<Rightarrow> Returns key)"

text \<open>
  A \<open>try\<close> block: the handler says for which exceptions there is a \<open>catch\<close> clause.  The two
  clauses of the programs name \<open>OpenSSLException\<close> and \<open>MoCOCrWException\<close>.
\<close>

definition tryP :: "'a prog \<Rightarrow> (exn \<Rightarrow> 'a prog option) \<Rightarrow> 'a prog" where
  "tryP p h =
     (case snd p of
        Throws e \<Rightarrow> (case h e of None \<Rightarrow> p | Some q \<Rightarrow> (fst p @ fst q, snd q))
      | _ \<Rightarrow> p)"

fun catch_both :: "(message \<Rightarrow> 'a prog) \<Rightarrow> (message \<Rightarrow> 'a prog) \<Rightarrow> exn \<Rightarrow> 'a prog option" where
  "catch_both ho hm (OpenSSLException m) = Some (ho m)"
| "catch_both ho hm (MoCOCrWException m) = Some (hm m)"
| "catch_both ho hm _ = None"

fun catch_mococrw :: "(message \<Rightarrow> 'a prog) \<Rightarrow> exn \<Rightarrow> 'a prog option" where
  "catch_mococrw hm (MoCOCrWException m) = Some (hm m)"
| "catch_mococrw hm _ = None"

fun catch_openssl :: "(message \<Rightarrow> 'a prog) \<Rightarrow> exn \<Rightarrow> 'a prog option" where
  "catch_openssl ho (OpenSSLException m) = Some (ho m)"
| "catch_openssl ho _ = None"

text \<open>The usual clause: two insertions into a stream, then \<open>exit(EXIT_FAILURE)\<close>.\<close>

definition report_exit :: "stream \<Rightarrow> message \<Rightarrow> (message \<Rightarrow> message) \<Rightarrow> message \<Rightarrow> 'a prog" where
  "report_exit s intro reason m =
     bindP (printP s intro) (\<lambda>_. bindP (printP s (reason m)) (\<lambda>_. exitP EXIT_FAILURE))"

abbreviation line :: "string \<Rightarrow> message" where "line s \<equiv> [Str s, endl]"
abbreviation what_line :: "message \<Rightarrow> message" where "what_line m \<equiv> m @ [endl]"

section \<open>Rules\<close>

named_theorems run_simps \<open>rewrite rules for running a program\<close>

lemma run_basic [run_simps]:
  "bindP (returnP x) f = f x"
  "bindP (printP s m) g = ((s, m) # fst (g ()), snd (g ()))"
  "bindP (exitP code :: 'a prog) f = ([], Exits code)"
  "callP (Inr x) = returnP x"
  "callP (Inl e :: 'a res) = ([], Throws e)"
  "callD (Some q) = callP q"
  "keyP (Some k) = returnP k"
  by (simp_all add: bindP_def returnP_def printP_def exitP_def callP_def callD_def keyP_def)

lemma run_try [run_simps]:
  "tryP (returnP x) h = returnP x"
  "tryP (o', Returns x) h = (o', Returns x)"
  "tryP (exitP code) h = exitP code"
  "tryP (o', Exits code) h = (o', Exits code)"
  "tryP (o', Throws e) h = (case h e of None \<Rightarrow> (o', Throws e) | Some q \<Rightarrow> (o' @ fst q, snd q))"
  by (simp_all add: tryP_def returnP_def exitP_def split: option.split)

lemma bindP_pair [run_simps]:
  "bindP (o', Returns x) f = (o' @ fst (f x), snd (f x))"
  "bindP (o', Exits c :: 'a outcome) f = (o', Exits c)"
  "bindP (o', Throws e :: 'a outcome) f = (o', Throws e)"
  "bindP (o', Diverges :: 'a outcome) f = (o', Diverges)"
  by (simp_all add: bindP_def)

lemma callS_Inr [run_simps]: "m s = (Inr x, t) \<Longrightarrow> callS m s = returnP (x, t)"
  by (simp add: callS_def run_simps)

lemma callS_Inl [run_simps]: "m s = (Inl e, t) \<Longrightarrow> callS m s = ([], Throws e)"
  by (simp add: callS_def run_simps)

lemma callS_fst:
  "fst (m s) = Inr x \<Longrightarrow> callS m s = returnP (x, snd (m s))"
  "fst (m s) = Inl e \<Longrightarrow> callS m s = ([], Throws e)"
  by (simp_all add: callS_def run_simps)

lemma fst_snd_returnP [run_simps]: "fst (returnP x) = []" "snd (returnP x) = Returns x"
  by (simp_all add: returnP_def)

lemma fst_snd_exitP [run_simps]: "fst (exitP c) = []" "snd (exitP c :: 'a prog) = Exits c"
  by (simp_all add: exitP_def)

lemma report_exit_run [run_simps]:
  "report_exit s intro reason m = ([(s, intro), (s, reason m)], Exits EXIT_FAILURE)"
  by (simp add: report_exit_def run_simps)

lemma bindP_assoc: "bindP (bindP p f) g = bindP p (\<lambda>x. bindP (f x) g)"
  by (cases "snd p") (simp_all add: bindP_def split: outcome.splits)

text \<open>
  A program that catches both library exceptions around a call never ends with one of them:
  whatever the library does, the reported failure is an exit.
\<close>

lemma try_both_reports:
  assumes "snd (tryP (callP r) (catch_both (report_exit s i f) (report_exit s' i' f'))) = Throws e"
  shows "(\<exists>m. e = RuntimeError m) \<or> e = OutOfRange"
proof (cases r)
  case (Inl x)
  with assms show ?thesis by (cases x) (auto simp: run_simps)
next
  case (Inr x)
  with assms show ?thesis by (simp add: run_simps)
qed

end
