(* ===== verification/Example_Aes.thy ===== *)
theory Example_Aes
  imports Program_Run Aes_Stream
begin

text \<open>
  \<open>src/examples/aes-example.cpp\<close>: encryption and decryption with GCM and with CBC.
\<close>

section \<open>The program\<close>

definition ex_plaintext :: bytes where "ex_plaintext = projr (fromHex ''deadbeef'')"
definition aeOperationMode :: SymmetricCipherMode where "aeOperationMode = GCM"
definition plainOperationMode :: SymmetricCipherMode where "plainOperationMode = CBC"
definition ex_padding :: SymmetricCipherPadding where "ex_padding = PKCS"
definition aesKey :: bytes where "aesKey = projr (fromHex ''000102030405060708090a0b0c0d0e0f'')"
definition ex_associatedData :: bytes where "ex_associatedData = projr (fromHex ''beefdead'')"
definition ex_iv :: bytes where "ex_iv = projr (fromHex ''00102030405060708090a0b0c0d0e0f0'')"
definition ex_authTagLength :: nat where "ex_authTagLength = 16"

record AesEncryptionResult =
  er_iv :: bytes
  er_ciphertext :: bytes

record AesAuthenticatedEncryptionResult = AesEncryptionResult +
  er_authTag :: bytes

definition aesAuthenticatedEncryption ::
  "'c cipher_lib \<Rightarrow> (int \<Rightarrow> int \<times> bytes) \<Rightarrow> AesAuthenticatedEncryptionResult prog" where
  "aesAuthenticatedEncryption L RAND =
     bindP (callP (buildAuthenticatedEncryptor L RAND
       (setAuthTagLength ex_authTagLength (setIV ex_iv (setPadding ex_padding
          (AESCipherBuilder_new aeOperationMode S_128 aesKey)))))) (\<lambda>authenticatedEncryptor.
     bindP (tryP
       (callS (bindS (AES_addAssociatedData L ex_associatedData) (\<lambda>_.
               bindS (AES_update L ex_plaintext) (\<lambda>_. AES_finish L))) authenticatedEncryptor)
       (catch_both
          (report_exit Cerr (line ''Failure encrypting the data.'') what_line)
          (report_exit Cerr (line ''Failure encrypting the data.'') what_line)))
     (\<lambda>(ciphertext, authenticatedEncryptor).
       returnP \<lparr>er_iv = AES_getIV authenticatedEncryptor, er_ciphertext = ciphertext,
                er_authTag = AES_getAuthTag authenticatedEncryptor\<rparr>))"

text \<open>The program asks for an encryptor here, too.\<close>

definition aesAuthenticatedDecryption ::
  "'c cipher_lib \<Rightarrow> (int \<Rightarrow> int \<times> bytes) \<Rightarrow> AesAuthenticatedEncryptionResult \<Rightarrow> bytes prog" where
  "aesAuthenticatedDecryption L RAND aesEncryptResult =
     bindP (callP (buildAuthenticatedEncryptor L RAND
       (setAuthTagLength ex_authTagLength (setIV (er_iv aesEncryptResult) (setPadding ex_padding
          (AESCipherBuilder_new aeOperationMode S_128 aesKey)))))) (\<lambda>authenticatedDecryptor.
     bindP (tryP
       (callS (bindS (AES_addAssociatedData L ex_associatedData) (\<lambda>_.
               bindS (AES_update L (er_ciphertext aesEncryptResult)) (\<lambda>_.
               bindS (modifyS (AES_setAuthTag (er_authTag aesEncryptResult))) (\<lambda>_.
               AES_finish L)))) authenticatedDecryptor)
       (catch_both
          (report_exit Cerr (line ''Failure decrypting the data.'') what_line)
          (report_exit Cout (line ''Decryption or auth tag verification failed!'') what_line)))
     (\<lambda>(plaintext, _). returnP plaintext))"

definition aesEncryption ::
  "'c cipher_lib \<Rightarrow> (int \<Rightarrow> int \<times> bytes) \<Rightarrow> AesEncryptionResult prog" where
  "aesEncryption L RAND =
     bindP (callP (buildEncryptor L RAND (setIV ex_iv (setPadding ex_padding
       (AESCipherBuilder_new plainOperationMode S_128 aesKey))))) (\<lambda>encryptor.
     bindP (tryP
       (callS (bindS (AES_update L ex_plaintext) (\<lambda>_. AES_finish L)) encryptor)
       (catch_both
          (report_exit Cerr (line ''Failure encrypting the data.'') what_line)
          (report_exit Cerr (line ''Failure encrypting the data.'') what_line)))
     (\<lambda>(ciphertext, encryptor).
       returnP \<lparr>er_iv = AES_getIV encryptor, er_ciphertext = ciphertext\<rparr>))"

definition aesDecryption ::
  "'c cipher_lib \<Rightarrow> AesEncryptionResult \<Rightarrow> bytes prog" where
  "aesDecryption L aesEncryptResult =
     bindP (callP (buildDecryptor L (setIV (er_iv aesEncryptResult) (setPadding ex_padding
       (AESCipherBuilder_new plainOperationMode S_128 aesKey))))) (\<lambda>decryptor.
     bindP (tryP
       (callS (bindS (AES_update L (er_ciphertext aesEncryptResult)) (\<lambda>_. AES_finish L)) decryptor)
       (catch_both
          (report_exit Cerr (line ''Failure encrypting the data.'') what_line)
          (report_exit Cout (line ''Decryption failed!'') what_line)))
     (\<lambda>(plaintext, _). returnP plaintext))"

definition aes_main :: "'c cipher_lib \<Rightarrow> (int \<Rightarrow> int \<times> bytes) \<Rightarrow> int prog" where
  "aes_main L RAND =
     bindP (aesAuthenticatedEncryption L RAND) (\<lambda>aeResult.
     bindP (aesAuthenticatedDecryption L RAND aeResult) (\<lambda>decryptionResult.
     if ex_plaintext \<noteq> decryptionResult
     then bindP (printP Cerr (line ''Failure decrypting AEAD data.'')) (\<lambda>_. returnP (- 1))
     else
     bindP (aesEncryption L RAND) (\<lambda>result.
     bindP (aesDecryption L result) (\<lambda>decryptionResult.
     if ex_plaintext \<noteq> decryptionResult
     then bindP (printP Cerr (line ''Failure decrypting data.'')) (\<lambda>_. returnP (- 1))
     else
     bindP (printP Cout (line ''En- and decryption using AES was successful'')) (\<lambda>_. returnP 0)))))"

section \<open>The constants\<close>

lemma ex_hex:
  "fromHex ''deadbeef'' = Inr [0xde, 0xad, 0xbe, 0xef]"
  "fromHex ''beefdead'' = Inr [0xbe, 0xef, 0xde, 0xad]"
  "fromHex ''000102030405060708090a0b0c0d0e0f'' = Inr [0, 1, 2, 3, 4, 5, 6, 7, 8, 9, 10, 11, 12, 13, 14, 15]"
  "fromHex ''00102030405060708090a0b0c0d0e0f0'' =
     Inr [0, 0x10, 0x20, 0x30, 0x40, 0x50, 0x60, 0x70, 0x80, 0x90, 0xa0, 0xb0, 0xc0, 0xd0, 0xe0, 0xf0]"
  by (rule fromHex_literal, code_simp)+

lemmas ex_values = ex_plaintext_def aesKey_def ex_associatedData_def ex_iv_def ex_hex sum.sel

lemma ex_lengths: "length aesKey = 16" "length ex_iv = 16" "length ex_associatedData = 4"
  "length ex_plaintext = 4"
  by (simp_all add: ex_values)

section \<open>What the program does\<close>

text \<open>No operation changes the IV.\<close>

lemma aes_iv_kept:
  "aes_iv (snd (AES_addAssociatedData L d s)) = aes_iv s"
  "aes_iv (snd (AES_update L m s)) = aes_iv s"
  "aes_iv (snd (AES_finish L s)) = aes_iv s"
  by (simp_all add: AES_addAssociatedData_def AES_update_def AES_finish_def AES_hand_over_tag_def
      AES_final_def AES_fetch_tag_def AES_readAll_def bindS_def onCtx_def Let_def case_prod_beta
      split: sum.split)

text \<open>
  A GCM encryptor after its associated data and one piece of data: \<open>finish\<close> gives the
  encryption of that data, whatever tag has been set in between.
\<close>

abbreviation gcm_builder :: "bytes \<Rightarrow> AESCipherBuilder" where
  "gcm_builder iv \<equiv> setAuthTagLength ex_authTagLength (setIV iv (setPadding ex_padding
     (AESCipherBuilder_new aeOperationMode S_128 aesKey)))"

abbreviation cbc_builder :: "bytes \<Rightarrow> AESCipherBuilder" where
  "cbc_builder iv \<equiv> setIV iv (setPadding ex_padding (AESCipherBuilder_new plainOperationMode S_128 aesKey))"

lemma gcm_builder_builds: "iv \<noteq> [] \<Longrightarrow> buildAuthenticatedEncryptor L RAND (gcm_builder iv)
    = AuthenticatedAESCipher_new L GCM S_128 PKCS aesKey iv 16 Encryption"
  by (simp add: buildAuthenticatedEncryptor_def builder_iv_def setAuthTagLength_def setIV_def setPadding_def
      AESCipherBuilder_new_def ex_padding_def aeOperationMode_def ex_authTagLength_def)

lemma cbc_builder_builds: "iv \<noteq> [] \<Longrightarrow> buildEncryptor L RAND (cbc_builder iv)
    = AESCipher_new L CBC S_128 PKCS aesKey iv Encryption"
  "buildDecryptor L (cbc_builder iv) = AESCipher_new L CBC S_128 PKCS aesKey iv Decryption"
  by (simp_all add: buildEncryptor_def buildDecryptor_def builder_iv_def setIV_def setPadding_def
      AESCipherBuilder_new_def ex_padding_def plainOperationMode_def)

lemma new_iv:
  "AESCipher_new L mode ks pad key iv op = Inr s \<Longrightarrow> aes_iv s = iv"
  "AuthenticatedAESCipher_new L mode ks pad key iv n op = Inr s \<Longrightarrow> aes_iv s = iv"
  by (auto simp: AuthenticatedAESCipher_new_def AESCipher_new_def bindR_eq_Inr Let_def case_prod_beta)

lemma gcm_encryptor_run:
  assumes "cipher_lib_laws L view E D T" "iv_accepted GCM iv" "fits_update (Update m)"
    and "E EVP_aes_128_gcm aesKey (take 12 iv) True m = Some r"
  shows "\<exists>s s1 t. buildAuthenticatedEncryptor L RAND (gcm_builder iv) = Inr s
     \<and> AES_addAssociatedData L ex_associatedData s = (Inr (), s1) \<and> AES_update L m s1 = (Inr (), t)
     \<and> (\<exists>u. AES_finish L t = (Inr r, u)) \<and> (\<exists>u. AES_finish L (AES_setAuthTag tag t) = (Inr r, u))
     \<and> aes_iv s = iv"
proof -
  let ?v = "(fresh_view EVP_aes_128_gcm aesKey (take 12 iv) True True)\<lparr>cv_aad := ex_associatedData\<rparr>"
  have L: "cipher_data_laws L view E D T" using assms(1) by (simp add: cipher_lib_laws_def)
  have key: "length aesKey = getSymmetricCipherKeySize S_128" by (simp add: ex_lengths)
  have iv: "iv \<noteq> []" using assms(2) by (auto simp: iv_accepted_def)
  from gcm_session [OF assms(1,2) key, of "[ex_associatedData]" PKCS 16 Encryption] obtain s s1 where s:
    "AuthenticatedAESCipher_new L GCM S_128 PKCS aesKey iv 16 Encryption = Inr s"
    "AES_addAssociatedData L ex_associatedData s = (Inr (), s1)" "aes_at view ?v [] s1"
    "aes_requestedAuthTagLength s1 = 16" "aes_mode s1 = GCM" "aes_operation s1 = Encryption"
    by (auto simp: feed_single ex_lengths INT_MAX_def simp del: feed.simps)
  from AES_update_at [OF L s(3) assms(3)] obtain t out where t: "AES_update L m s1 = (Inr (), t)"
    "aes_at view (?v\<lparr>cv_in := m, cv_out := out\<rparr>) [] t" "aes_requestedAuthTagLength t = 16"
    using s(4) by (auto simp: fresh_view_def)
  have mo: "aes_mode t = GCM" "aes_operation t = Encryption"
    using t(2) by (auto simp: aes_at_def fresh_view_def is_gcm_def)
  have fin: "\<exists>u. AES_finish L (AES_setAuthTag g t) = (Inr r, u)" for g
  proof -
    have at: "aes_at view (?v\<lparr>cv_in := m, cv_out := out\<rparr>) [] (AES_setAuthTag g t)"
      using t(2) by (simp add: aes_at_def AES_setAuthTag_def)
    have "tag_ready (AES_setAuthTag g t)" "\<not> auth_decryption (AES_setAuthTag g t)"
      using mo t(3) by (simp_all add: tag_ready_def auth_decryption_def AES_setAuthTag_def)
    with AES_finish_at [OF L at, of r] assms(4) show ?thesis
      by (auto simp: crypt_def fresh_view_def authentic_def final_view_def)
  qed
  have "AES_setAuthTag (aes_authTag t) t = t" by (simp add: AES_setAuthTag_def)
  with fin [of "aes_authTag t"] fin [of tag] s(1,2) t(1) new_iv(2) [OF s(1)] show ?thesis
    by (auto simp: gcm_builder_builds [OF iv])
qed

lemma cbc_run:
  assumes "cipher_lib_laws L view E D T" "length iv = 16" "fits_update (Update m)"
    and "(if op = Encryption then E else D) EVP_aes_128_cbc aesKey iv True m = Some r"
  shows "\<exists>s t u. AESCipher_new L CBC S_128 PKCS aesKey iv op = Inr s
     \<and> AES_update L m s = (Inr (), t) \<and> AES_finish L t = (Inr r, u) \<and> aes_iv u = iv"
proof -
  obtain s where s: "AESCipher_new L CBC S_128 PKCS aesKey iv op = Inr s" "fst (aes_process L [Update m] s) = Inr r"
    using plain_cipher_process [OF assms(1), of CBC aesKey S_128 iv "[Update m]" op PKCS r] assms(2-4)
    by (auto simp: ex_lengths bindR_eq_Inr)
  then obtain t u where "AES_update L m s = (Inr (), t)" "AES_finish L t = (Inr r, u)"
    by (auto simp: aes_process_def bindS_unfold split: prod.splits sum.splits)
  with s(1) aes_iv_kept(2) [of L m s] aes_iv_kept(3) [of L t] new_iv(1) [OF s(1)] show ?thesis by auto
qed

text \<open>The four functions of the program.\<close>

lemma aesAuthenticatedDecryption_run:
  assumes "cipher_lib_laws L view E D T" "iv_accepted GCM iv" "fits_update (Update c)"
    and "E EVP_aes_128_gcm aesKey (take 12 iv) True c = Some p"
  shows "aesAuthenticatedDecryption L RAND \<lparr>er_iv = iv, er_ciphertext = c, er_authTag = tag\<rparr> = returnP p"
proof -
  from gcm_encryptor_run [OF assms, of RAND tag] obtain s s1 t u where
    "buildAuthenticatedEncryptor L RAND (gcm_builder iv) = Inr s"
    "AES_addAssociatedData L ex_associatedData s = (Inr (), s1)" "AES_update L c s1 = (Inr (), t)"
    "AES_finish L (AES_setAuthTag tag t) = (Inr p, u)"
    by blast
  then show ?thesis
    by (simp add: aesAuthenticatedDecryption_def run_simps bindS_unfold callS_Inr [where x = p and t = u])
qed

lemma ex_fits: "iv_accepted GCM ex_iv" "fits_update (Update ex_plaintext)" "ex_iv \<noteq> []"
  by (simp_all add: iv_accepted_def fits_update_def ex_lengths INT_MAX_def EVP_MAX_BLOCK_LENGTH_def
      flip: length_0_conv)

lemma aesAuthenticatedEncryption_run:
  assumes "cipher_lib_laws L view E D T"
    and "E EVP_aes_128_gcm aesKey (take 12 ex_iv) True ex_plaintext = Some c"
  shows "\<exists>tag. aesAuthenticatedEncryption L RAND
      = returnP \<lparr>er_iv = ex_iv, er_ciphertext = c, er_authTag = tag\<rparr>"
proof -
  from gcm_encryptor_run [OF assms(1) ex_fits(1,2) assms(2), of RAND] obtain s s1 t u where e:
    "buildAuthenticatedEncryptor L RAND (gcm_builder ex_iv) = Inr s"
    "AES_addAssociatedData L ex_associatedData s = (Inr (), s1)" "AES_update L ex_plaintext s1 = (Inr (), t)"
    "AES_finish L t = (Inr c, u)" "aes_iv s = ex_iv"
    by blast
  have "aes_iv u = ex_iv"
    using e(5) aes_iv_kept(1) [of L ex_associatedData s] aes_iv_kept(2) [of L ex_plaintext s1]
      aes_iv_kept(3) [of L t] by (simp add: e(2-4))
  with e show ?thesis
    by (intro exI [of _ "AES_getAuthTag u"])
      (simp add: aesAuthenticatedEncryption_def run_simps bindS_unfold callS_Inr [where x = c and t = u]
        AES_getIV_def)
qed

lemma aesEncryption_run:
  assumes "cipher_lib_laws L view E D T" "E EVP_aes_128_cbc aesKey ex_iv True ex_plaintext = Some c"
  shows "aesEncryption L RAND = returnP \<lparr>er_iv = ex_iv, er_ciphertext = c\<rparr>"
proof -
  from cbc_run [OF assms(1) ex_lengths(2) ex_fits(2), of Encryption c] assms(2) obtain s t u where
    "AESCipher_new L CBC S_128 PKCS aesKey ex_iv Encryption = Inr s" "AES_update L ex_plaintext s = (Inr (), t)"
    "AES_finish L t = (Inr c, u)" "aes_iv u = ex_iv"
    by auto
  then show ?thesis
    by (simp add: aesEncryption_def cbc_builder_builds(1) [OF ex_fits(3)] run_simps bindS_unfold
        callS_Inr [where x = c and t = u] AES_getIV_def)
qed

lemma aesDecryption_run:
  assumes "cipher_lib_laws L view E D T" "fits_update (Update c)" "D EVP_aes_128_cbc aesKey ex_iv True c = Some p"
  shows "aesDecryption L \<lparr>er_iv = ex_iv, er_ciphertext = c\<rparr> = returnP p"
proof -
  from cbc_run [OF assms(1) ex_lengths(2) assms(2), of Decryption p] assms(3) obtain s t u where
    "AESCipher_new L CBC S_128 PKCS aesKey ex_iv Decryption = Inr s" "AES_update L c s = (Inr (), t)"
    "AES_finish L t = (Inr p, u)"
    by auto
  then show ?thesis
    by (simp add: aesDecryption_def cbc_builder_builds(2) run_simps bindS_unfold
        callS_Inr [where x = p and t = u])
qed

text \<open>
  C39: The example reports success.  But its function for authenticated decryption builds an
  encryptor: it returns without an error for every ciphertext, every tag and every long enough IV,
  so that a modified message is not noticed; the plaintext is right only because GCM
  encrypts and decrypts with the same key stream.
\<close>

theorem aes_example_not_authenticated:
  assumes "cipher_lib_laws L view E D T"
    and "\<And>d. E EVP_aes_128_gcm aesKey (take 12 ex_iv) True d = D EVP_aes_128_gcm aesKey (take 12 ex_iv) True d"
    and "E EVP_aes_128_gcm aesKey (take 12 ex_iv) True ex_plaintext = Some c1" "fits_update (Update c1)"
    and "E EVP_aes_128_cbc aesKey ex_iv True ex_plaintext = Some c2" "fits_update (Update c2)"
  shows "aes_main L RAND = ([(Cout, line ''En- and decryption using AES was successful'')], Returns 0)
     \<and> (iv_accepted GCM iv \<and> fits_update (Update c) \<and> E EVP_aes_128_gcm aesKey (take 12 iv) True c = Some p
         \<longrightarrow> aesAuthenticatedDecryption L RAND \<lparr>er_iv = iv, er_ciphertext = c, er_authTag = tag\<rparr> = ([], Returns p))"
proof -
  have m: "D EVP_aes_128_gcm aesKey (take 12 ex_iv) True c1 = Some ex_plaintext"
    "D EVP_aes_128_cbc aesKey ex_iv True c2 = Some ex_plaintext"
    using assms(1,3,5) data_law_math(2) unfolding cipher_lib_laws_def by blast+
  obtain tag1 where
    "aesAuthenticatedEncryption L RAND = returnP \<lparr>er_iv = ex_iv, er_ciphertext = c1, er_authTag = tag1\<rparr>"
    using aesAuthenticatedEncryption_run [OF assms(1,3)] by blast
  moreover have "aesAuthenticatedDecryption L RAND \<lparr>er_iv = ex_iv, er_ciphertext = c1, er_authTag = tag1\<rparr>
      = returnP ex_plaintext"
    by (rule aesAuthenticatedDecryption_run [OF assms(1) ex_fits(1) assms(4)]) (simp add: assms(2) m(1))
  ultimately have "aes_main L RAND = ([(Cout, line ''En- and decryption using AES was successful'')], Returns 0)"
    by (simp add: aes_main_def aesEncryption_run [OF assms(1,5)] aesDecryption_run [OF assms(1,6) m(2)] run_simps)
  then show ?thesis
    using aesAuthenticatedDecryption_run [OF assms(1)] by (simp add: returnP_def)
qed

text \<open>
  With the library of \<open>Aes_Stream\<close>: the program succeeds, and a modified ciphertext with an
  arbitrary tag is decrypted without complaint.
\<close>

theorem aes_example_not_authenticated_witness:
  "aes_main ref_cipher_lib ref_rand = ([(Cout, line ''En- and decryption using AES was successful'')], Returns 0)
   \<and> aesAuthenticatedDecryption ref_cipher_lib ref_rand
       \<lparr>er_iv = ex_iv, er_ciphertext = [1, 2, 3], er_authTag = [0]\<rparr> = ([], Returns [1, 2, 3])"
proof -
  have E: "ref_E cipher aesKey iv pad d = Some d" "ref_D cipher aesKey iv pad d = Some d" for cipher iv pad d
    by (simp_all add: ref_E_def ref_D_def ex_values)
  have f: "fits_update (Update [1, 2, 3])"
    by (simp add: fits_update_def INT_MAX_def EVP_MAX_BLOCK_LENGTH_def)
  show ?thesis
    using aes_example_not_authenticated [OF ref_cipher_lib_laws _ E(1) ex_fits(2) E(1) ex_fits(2),
        of ref_rand ex_iv "[1, 2, 3]" "[1, 2, 3]" "[0]"] f ex_fits(1)
    by (simp add: E)
qed

end
