(* ===== verification/Example_Digest.thy ===== *)
theory Example_Digest
  imports Program_Run Mac_Ctx Hash_Ctx Kdf_Fun
begin

text \<open>
  \<open>src/examples/mac-example.cpp\<close>, \<open>hash-example.cpp\<close> and \<open>kdf-example.cpp\<close>.
\<close>

section \<open>Message authentication codes\<close>

definition mac_failed :: "string \<Rightarrow> message \<Rightarrow> 'a prog" where
  "mac_failed intro = report_exit Cerr (line intro) (\<lambda>m. m)"

definition verify_hmac :: "'h hmac_lib \<Rightarrow> DigestTypes \<Rightarrow> bytes \<Rightarrow> bytes \<Rightarrow> bytes \<Rightarrow> unit prog" where
  "verify_hmac L digestType key message authenticationTag =
     bindP (tryP
       (bindP (callP (HMAC_new L digestType key)) (\<lambda>hmac.
        bindP (callS (bindS (HMAC_update L message) (\<lambda>_. HMAC_verify L authenticationTag)) hmac) (\<lambda>_.
        returnP ())))
       (catch_both (mac_failed ''Verification failed.'') (mac_failed ''Verification failed.'')))
     (\<lambda>_. printP Cout (line ''Verification successful.''))"

definition verify_cmac :: "'c cmac_lib \<Rightarrow> CmacCipherTypes \<Rightarrow> bytes \<Rightarrow> bytes \<Rightarrow> bytes \<Rightarrow> unit prog" where
  "verify_cmac L cipherType key message authenticationTag =
     bindP (tryP
       (bindP (callP (CMAC_new L cipherType key)) (\<lambda>cmac.
        bindP (callS (bindS (CMAC_update L message) (\<lambda>_. CMAC_verify L authenticationTag)) cmac) (\<lambda>_.
        returnP ())))
       (catch_both (mac_failed ''Verification failed.'') (mac_failed ''Verification failed.'')))
     (\<lambda>_. printP Cout (line ''Verification successful.''))"

definition calculate_hmac :: "'h hmac_lib \<Rightarrow> DigestTypes \<Rightarrow> bytes \<Rightarrow> bytes \<Rightarrow> bytes prog" where
  "calculate_hmac L digestType key message =
     tryP
       (bindP (callP (HMAC_new L digestType key)) (\<lambda>hmac.
        bindP (callS (bindS (HMAC_update L message) (\<lambda>_. HMAC_finish L)) hmac) (\<lambda>(tag, _).
        returnP tag)))
       (catch_both (mac_failed ''Verification failed.'') (mac_failed ''HMAC calculation failed.''))"

definition calculate_cmac :: "'c cmac_lib \<Rightarrow> CmacCipherTypes \<Rightarrow> bytes \<Rightarrow> bytes \<Rightarrow> bytes prog" where
  "calculate_cmac L cipherType key message =
     tryP
       (bindP (callP (CMAC_new L cipherType key)) (\<lambda>cmac.
        bindP (callS (bindS (CMAC_update L message) (\<lambda>_. CMAC_finish L)) cmac) (\<lambda>(tag, _).
        returnP tag)))
       (catch_both (mac_failed ''Verification failed.'')
          (mac_failed ''CMAC initialisation or calculation failed.''))"

definition mac_main :: "'h hmac_lib \<Rightarrow> 'c cmac_lib \<Rightarrow> int prog" where
  "mac_main H C =
     bindP (callP (fromHex ''beefdead'')) (\<lambda>key.
     bindP (callP (fromHex ''deadbeef'')) (\<lambda>message.
     bindP (calculate_hmac H SHA512 key message) (\<lambda>hmacTag.
     bindP (verify_hmac H SHA512 key message hmacTag) (\<lambda>_.
     bindP (callP (fromHex (''beefdead12345678'' @ ''12345678deadbeef''))) (\<lambda>key.
     bindP (calculate_cmac C AES_CBC_128 key message) (\<lambda>cmacTag.
     bindP (verify_cmac C AES_CBC_128 key message cmacTag) (\<lambda>_.
     returnP 0)))))))"

section \<open>Hashing\<close>

definition calculateHashSum :: "'d digest_lib \<Rightarrow> DigestTypes \<Rightarrow> bytes \<Rightarrow> unit prog" where
  "calculateHashSum L digestType message =
     bindP (callP (fromDigestType L digestType)) (\<lambda>hash.
     bindP (callS (Hash_update L message) hash) (\<lambda>(_, hash).
     bindP (callS (Hash_digest L) hash) (\<lambda>(hashValue, _).
     printP Cout [Str (toHex hashValue), endl, endl])))"

definition oneShotSha512 :: "'d digest_lib \<Rightarrow> bytes \<Rightarrow> unit prog" where
  "oneShotSha512 L message =
     bindP (callP (sha512 L message)) (\<lambda>a.
     bindP (printP Cout [Str (toHex a), endl, endl]) (\<lambda>_.
     bindP (callP (sha512 L (take (length message) message))) (\<lambda>b.
     bindP (printP Cout [Str (toHex b), endl, endl]) (\<lambda>_.
     bindP (callP (sha512 L (string_bytes ''hello world''))) (\<lambda>c.
     printP Cout [Str (toHex c), endl])))))"

definition hash_main :: "'d digest_lib \<Rightarrow> int prog" where
  "hash_main L =
     bindP (callP (fromHex ''deadbeef'')) (\<lambda>message.
     bindP (calculateHashSum L SHA512 message) (\<lambda>_.
     bindP (oneShotSha512 L message) (\<lambda>_.
     returnP 0)))"

section \<open>Key derivation\<close>

definition kdf_main :: "kdf_lib \<Rightarrow> int prog" where
  "kdf_main L =
     bindP (callP (fromHex ''deadbeef'')) (\<lambda>password.
     bindP (callP (fromHex ''beefdead'')) (\<lambda>salt.
     (let outputLength = 256; digestType = SHA512; iterations = 1024 in
     bindP (callP (PBKDF2_deriveKey L (PBKDF2_new digestType iterations) password outputLength salt)) (\<lambda>derivedKey.
     bindP (printP Cout [Str (toHex derivedKey), endl]) (\<lambda>_.
     bindP (callP (X963KDF_deriveKey L (X963KDF_new digestType) password outputLength salt)) (\<lambda>derivedKey.
     bindP (printP Cout [Str (toHex derivedKey), endl]) (\<lambda>_.
     returnP 0)))))))"

section \<open>What the programs do\<close>

lemma mac_hex:
  "fromHex ''deadbeef'' = Inr [0xde, 0xad, 0xbe, 0xef]"
  "fromHex ''beefdead'' = Inr [0xbe, 0xef, 0xde, 0xad]"
  "fromHex (''beefdead12345678'' @ ''12345678deadbeef'') =
     Inr [0xbe, 0xef, 0xde, 0xad, 0x12, 0x34, 0x56, 0x78, 0x12, 0x34, 0x56, 0x78, 0xde, 0xad, 0xbe, 0xef]"
  by (rule fromHex_literal, code_simp)+

text \<open>One message, as the object's interface describes it; a failed check is a \<open>MoCOCrWException\<close>.\<close>

lemma check_throws:
  "\<forall>e. HMAC_check L r v = Inl e \<longrightarrow> (\<exists>m. e = MoCOCrWException m)"
  "\<forall>e. CMAC_check C r v = Inl e \<longrightarrow> (\<exists>m. e = MoCOCrWException m)"
  by (auto simp: HMAC_check_def CMAC_check_def split: if_splits)

lemma hmac_single:
  assumes "hmac_lib_laws L absorbed F" "getMDPtrFromDigestType t = Inr md" "key \<noteq> []" "fits_int key" "fits_int m"
  shows "\<exists>s. HMAC_new L t key = Inr s
     \<and> fst (bindS (HMAC_update L m) (\<lambda>_. HMAC_finish L) s) = Inr (F (md, key) m)
     \<and> fst (bindS (HMAC_update L m) (\<lambda>_. HMAC_verify L v) s) = HMAC_check L (F (md, key) m) v"
proof -
  obtain s where s: "HMAC_new L t key = Inr s" "\<not> mac_isFinished s" "mac_absorbed absorbed s = ((md, key), [])"
    using HMAC_new_laws [OF assms(1-4)] by (metis mac_absorbed_def)
  then show ?thesis
    using hmac.mac_of_chunks(1,3) [OF assms(1) s(2,3), of "[m]"] assms(5)
    by (simp add: feed_single del: feed.simps)
qed

lemma cmac_single:
  assumes "cmac_lib_laws L absorbed F" "getCipherPtrFromCmacCipherType t = Inr cipher"
    and "SSL_EVP_CIPHER_key_length L cipher = int (length key)"
  shows "\<exists>s. CMAC_new L t key = Inr s
     \<and> fst (bindS (CMAC_update L m) (\<lambda>_. CMAC_finish L) s) = Inr (F (cipher, key) m)
     \<and> fst (bindS (CMAC_update L m) (\<lambda>_. CMAC_verify L v) s) = CMAC_check L (F (cipher, key) m) v"
proof -
  obtain s where s: "CMAC_new L t key = Inr s" "\<not> mac_isFinished s" "mac_absorbed absorbed s = ((cipher, key), [])"
    using CMAC_new_laws [OF assms] by (metis mac_absorbed_def)
  then show ?thesis
    using cmac.mac_of_chunks(1,3) [OF assms(1) s(2,3), of "[m]"]
    by (simp add: feed_single del: feed.simps)
qed

text \<open>The common shape of \<open>verify\<close>: a checked tag, a report.\<close>

lemma verify_run:
  assumes "fst (m s) = chk" "\<forall>e. chk = Inl e \<longrightarrow> (\<exists>w. e = MoCOCrWException w)"
  defines "p \<equiv> bindP (tryP (bindP (callS m s) (\<lambda>_. returnP ()))
       (catch_both (mac_failed ''Verification failed.'') (mac_failed ''Verification failed.'')))
     (\<lambda>_. printP Cout (line ''Verification successful.''))"
  shows "if chk = Inr () then p = ([(Cout, line ''Verification successful.'')], Returns ())
    else snd p = Exits EXIT_FAILURE \<and> hd (fst p) = (Cerr, line ''Verification failed.'')"
proof (cases chk)
  case (Inl e)
  with assms(2) obtain w where "e = MoCOCrWException w" by blast
  with Inl assms(1) show ?thesis
    by (simp add: p_def callS_fst(2) run_simps mac_failed_def)
next
  case (Inr u)
  with assms(1) show ?thesis
    by (simp add: p_def callS_fst(1) run_simps printP_def)
qed

text \<open>
  The functions of the example decide exactly: \<open>calculate\<close> gives the tag of the message,
  \<open>verify\<close> reports success for that tag, and for any other tag it reports a failure and
  ends the program with \<open>EXIT_FAILURE\<close>.
\<close>

theorem mac_example_decides:
  assumes "hmac_lib_laws H absorbed F" "getMDPtrFromDigestType t = Inr md" "key \<noteq> []" "fits_int key" "fits_int m"
    and "cmac_lib_laws C cabsorbed G" "getCipherPtrFromCmacCipherType ct = Inr cipher"
    and "SSL_EVP_CIPHER_key_length C cipher = int (length ckey)"
  shows "calculate_hmac H t key m = ([], Returns (F (md, key) m))
     \<and> (if v = F (md, key) m then verify_hmac H t key m v = ([(Cout, line ''Verification successful.'')], Returns ())
        else snd (verify_hmac H t key m v) = Exits EXIT_FAILURE
          \<and> hd (fst (verify_hmac H t key m v)) = (Cerr, line ''Verification failed.''))
     \<and> calculate_cmac C ct ckey m = ([], Returns (G (cipher, ckey) m))
     \<and> (if v = G (cipher, ckey) m then verify_cmac C ct ckey m v = ([(Cout, line ''Verification successful.'')], Returns ())
        else snd (verify_cmac C ct ckey m v) = Exits EXIT_FAILURE
          \<and> hd (fst (verify_cmac C ct ckey m v)) = (Cerr, line ''Verification failed.''))"
proof -
  have ex: "HMAC_check H r v = Inr () \<longleftrightarrow> v = r" "CMAC_check C r v = Inr () \<longleftrightarrow> v = r" for r
    by (rule hmac.check_exact [OF assms(1)], rule cmac.check_exact [OF assms(6)])
  from hmac_single [OF assms(1-5), of v] obtain s where s: "HMAC_new H t key = Inr s"
    "fst (bindS (HMAC_update H m) (\<lambda>_. HMAC_finish H) s) = Inr (F (md, key) m)"
    "fst (bindS (HMAC_update H m) (\<lambda>_. HMAC_verify H v) s) = HMAC_check H (F (md, key) m) v"
    by blast
  from cmac_single [OF assms(6-8), of m v] obtain c where c: "CMAC_new C ct ckey = Inr c"
    "fst (bindS (CMAC_update C m) (\<lambda>_. CMAC_finish C) c) = Inr (G (cipher, ckey) m)"
    "fst (bindS (CMAC_update C m) (\<lambda>_. CMAC_verify C v) c) = CMAC_check C (G (cipher, ckey) m) v"
    by blast
  have "calculate_hmac H t key m = ([], Returns (F (md, key) m))"
    "calculate_cmac C ct ckey m = ([], Returns (G (cipher, ckey) m))"
    by (simp_all add: calculate_hmac_def calculate_cmac_def s(1,2) c(1,2) callS_fst(1) run_simps)
      (simp_all add: returnP_def)
  moreover note verify_run [of "bindS (HMAC_update H m) (\<lambda>_. HMAC_verify H v)" s, OF s(3) check_throws(1)]
    verify_run [of "bindS (CMAC_update C m) (\<lambda>_. CMAC_verify C v)" c, OF c(3) check_throws(2)]
  ultimately show ?thesis
    by (simp only: verify_hmac_def verify_cmac_def s(1) c(1) run_basic ex simp_thms)
qed

text \<open>
  The three programs: a verified HMAC and CMAC; the digest of the message from the streaming
  interface and from both one-shot functions, then that of the text; both derived keys.
\<close>

theorem digest_examples_print:
  assumes "hmac_lib_laws H absorbed F" "cmac_lib_laws C cabsorbed G" "SSL_EVP_CIPHER_key_length C EVP_aes_128_cbc = 16"
    and "digest_lib_laws L dabsorbed M" "kdf_lib_laws K PB X"
  shows "mac_main H C =
       ([(Cout, line ''Verification successful.''), (Cout, line ''Verification successful.'')], Returns 0)
     \<and> hash_main L = (let d = toHex (M EVP_sha512 [0xde, 0xad, 0xbe, 0xef]) in
         ([(Cout, [Str d, endl, endl]), (Cout, [Str d, endl, endl]), (Cout, [Str d, endl, endl]),
           (Cout, [Str (toHex (M EVP_sha512 (string_bytes ''hello world''))), endl])], Returns 0))
     \<and> kdf_main K =
         ([(Cout, [Str (toHex (PB EVP_sha512 [0xde, 0xad, 0xbe, 0xef] [0xbe, 0xef, 0xde, 0xad] 1024 256)), endl]),
           (Cout, [Str (toHex (X EVP_sha512 [0xde, 0xad, 0xbe, 0xef] [0xbe, 0xef, 0xde, 0xad] 256)), endl])], Returns 0)"
proof (intro conjI)
  have one: "sha512 L m = Inr (M EVP_sha512 m)" for m
    using hash_oneshot_laws [OF assms(4), of SHA512 EVP_sha512 m] by (simp add: sha_defs)
  obtain h where h: "Hash_new L SHA512 = Inr h"
    using Hash_new_laws [OF assms(4), of SHA512] by auto
  then have d: "fst (bindS (Hash_update L m) (\<lambda>_. Hash_digest L) h) = Inr (M EVP_sha512 m)" for m
    using one [of m] by (simp add: sha_defs hash_oneshot_def)
  have sum: "calculateHashSum L SHA512 m = printP Cout [Str (toHex (M EVP_sha512 m)), endl, endl]" for m
    using d [of m] by (cases "Hash_update L m h")
      (auto simp: calculateHashSum_def fromDigestType_def h run_simps callS_fst bindS_unfold split: sum.splits)
  show "hash_main L = (let d = toHex (M EVP_sha512 [0xde, 0xad, 0xbe, 0xef]) in
         ([(Cout, [Str d, endl, endl]), (Cout, [Str d, endl, endl]), (Cout, [Str d, endl, endl]),
           (Cout, [Str (toHex (M EVP_sha512 (string_bytes ''hello world''))), endl])], Returns 0))"
    by (simp add: hash_main_def mac_hex sum oneShotSha512_def one run_simps printP_def Let_def)
  show "kdf_main K =
         ([(Cout, [Str (toHex (PB EVP_sha512 [0xde, 0xad, 0xbe, 0xef] [0xbe, 0xef, 0xde, 0xad] 1024 256)), endl]),
           (Cout, [Str (toHex (X EVP_sha512 [0xde, 0xad, 0xbe, 0xef] [0xbe, 0xef, 0xde, 0xad] 256)), endl])], Returns 0)"
    using KeyDerivation_derives [OF assms(5), of SHA512 EVP_sha512 "[0xde, 0xad, 0xbe, 0xef]"
        "[0xbe, 0xef, 0xde, 0xad]" 256 1024]
    by (simp add: kdf_main_def mac_hex Let_def run_simps fits_int_len_def INT_MAX_def)
  show "mac_main H C =
       ([(Cout, line ''Verification successful.''), (Cout, line ''Verification successful.'')], Returns 0)"
  proof -
    let ?m = "[0xde, 0xad, 0xbe, 0xef]" and ?k = "[0xbe, 0xef, 0xde, 0xad]"
    let ?c = "[0xbe, 0xef, 0xde, 0xad, 0x12, 0x34, 0x56, 0x78, 0x12, 0x34, 0x56, 0x78, 0xde, 0xad, 0xbe, 0xef]"
    have "fits_int ?k" "fits_int ?m" by (simp_all add: fits_int_def INT_MAX_def)
    note d = mac_example_decides [OF assms(1) _ _ this assms(2), of SHA512 EVP_sha512 AES_CBC_128 EVP_aes_128_cbc ?c]
    have "calculate_hmac H SHA512 ?k ?m = ([], Returns (F (EVP_sha512, ?k) ?m))"
      "verify_hmac H SHA512 ?k ?m (F (EVP_sha512, ?k) ?m) = ([(Cout, line ''Verification successful.'')], Returns ())"
      "calculate_cmac C AES_CBC_128 ?c ?m = ([], Returns (G (EVP_aes_128_cbc, ?c) ?m))"
      "verify_cmac C AES_CBC_128 ?c ?m (G (EVP_aes_128_cbc, ?c) ?m) = ([(Cout, line ''Verification successful.'')], Returns ())"
      using d [of "F (EVP_sha512, ?k) ?m"] d [of "G (EVP_aes_128_cbc, ?c) ?m"] assms(3) by simp_all
    then show ?thesis
      by (simp add: mac_main_def mac_hex [simplified] run_simps)
  qed
qed

theorem mac_example_decides_witness:
  "calculate_hmac ref_hmac_lib SHA256 [1, 2] [3] = ([], Returns (resize [1, 2, 3] 32))
   \<and> snd (verify_cmac ref_cmac_lib AES_CBC_128 (replicate 16 7) [3] [0]) = Exits EXIT_FAILURE"
proof -
  have "fits_int [1, 2]" "fits_int [3]" by (simp_all add: fits_int_def INT_MAX_def)
  moreover have "[0] \<noteq> resize (replicate 16 7 @ [3]) 16"
    by (rule notI, drule arg_cong [where f = length]) simp
  ultimately show ?thesis
    using mac_example_decides [OF ref_hmac_lib_laws, of SHA256 EVP_sha256 "[1, 2]" "[3]" ref_cmac_lib id
        ref_cmac AES_CBC_128 EVP_aes_128_cbc "replicate 16 7" "[0]"] ref_cmac_lib_laws
    by (simp add: ref_hmac_def ref_cmac_def ref_cmac_lib_def)
qed

theorem digest_examples_print_witness:
  "mac_main ref_hmac_lib ref_cmac_lib =
     ([(Cout, line ''Verification successful.''), (Cout, line ''Verification successful.'')], Returns 0)"
  using digest_examples_print [OF ref_hmac_lib_laws ref_cmac_lib_laws _ ref_digest_lib_laws ref_kdf_lib_laws]
  by (simp add: ref_cmac_lib_def)

end
