(* ===== verification/Example_Keys.thy ===== *)
theory Example_Keys
  imports Program_Run Public_Ctx Key_Pem
begin

text \<open>
  \<open>src/examples/rsa-example.cpp\<close>, \<open>sig-example.cpp\<close>, \<open>key-example.cpp\<close> and
  \<open>hsm-example.cpp\<close>.  A generated key is used both as private and as public key.
\<close>

section \<open>RSA encryption\<close>

definition encrypt_rsa ::
  "('k, 'e, 'g, 'c) pkey_lib \<Rightarrow> 'c pctx_lib \<Rightarrow> nat \<Rightarrow> 'k \<Rightarrow> RSAEncryptionPadding \<Rightarrow> bytes \<Rightarrow> bytes prog" where
  "encrypt_rsa P C rnd pubKey padding data =
     bindP (callP (RSAEncryptionPublicKeyCtx_new P pubKey padding)) (\<lambda>rsaPubCtx.
     tryP (callP (RSA_encrypt P C rnd rsaPubCtx data))
       (catch_mococrw (report_exit Cerr [Str ''Failure in crypto engine: ''] what_line)))"

definition decrypt_rsa ::
  "('k, 'e, 'g, 'c) pkey_lib \<Rightarrow> 'c pctx_lib \<Rightarrow> 'k \<Rightarrow> RSAEncryptionPadding \<Rightarrow> bytes \<Rightarrow> bytes prog" where
  "decrypt_rsa P C privKey padding ciphertext =
     bindP (callP (RSAEncryptionPrivateKeyCtx_new P privKey padding)) (\<lambda>rsaPrivCtx.
     tryP (callP (RSA_decrypt P C rsaPrivCtx ciphertext))
       (catch_mococrw (report_exit Cerr (line ''Error decrypting data.'') (\<lambda>m. m))))"

definition rsa_main :: "('k, 'e, 'g, 'c) pkey_lib \<Rightarrow> 'c pctx_lib \<Rightarrow> nat \<Rightarrow> nat \<Rightarrow> int prog" where
  "rsa_main P C rnd_key rnd =
     bindP (bindP (callP (generateRSA P rnd_key)) keyP) (\<lambda>keyPair.
     bindP (callP (fromHex ''deadbeef'')) (\<lambda>data.
     (let oaepDigestType = SHA512; oaepLabel = ''this is my awesome label'';
          maskGenerationFunction = MGF1 SHA3_256;
          padding = OAEPPadding_new oaepDigestType (Some maskGenerationFunction) oaepLabel in
     bindP (encrypt_rsa P C rnd keyPair padding data) (\<lambda>ciphertext.
     bindP (decrypt_rsa P C keyPair padding ciphertext) (\<lambda>plaintext.
     if data = plaintext then returnP 0 else returnP 1)))))"

section \<open>Signatures\<close>

definition create_ctx :: "string \<Rightarrow> 'a res \<Rightarrow> 'a prog" where
  "create_ctx complaint r =
     tryP (callP r) (catch_mococrw (report_exit Cerr (line complaint) (\<lambda>m. m)))"

definition use_ctx :: "string \<Rightarrow> 'a res \<Rightarrow> 'a prog" where
  "use_ctx complaint r =
     tryP (callP r) (catch_mococrw (report_exit Cerr (line complaint) what_line))"

definition rsaSign ::
  "('k, 'e, 'g, 'c) pkey_lib \<Rightarrow> 'c pctx_lib \<Rightarrow> 'd digest_lib \<Rightarrow> nat \<Rightarrow>
     'k \<Rightarrow> DigestTypes \<Rightarrow> RSASignaturePadding \<Rightarrow> bytes \<Rightarrow> bytes prog" where
  "rsaSign P C D rnd privKey digestType padding message =
     bindP (create_ctx ''Please check your RSA key. Failure creating context.''
       (RSASignaturePrivateKeyCtx_new P privKey digestType padding)) (\<lambda>signCtx.
     use_ctx ''Failure occurred during signing.'' (RSA_signMessage P C D signCtx rnd message))"

definition rsaVerify ::
  "('k, 'e, 'g, 'c) pkey_lib \<Rightarrow> 'c pctx_lib \<Rightarrow> 'd digest_lib \<Rightarrow>
     'k \<Rightarrow> RSASignaturePadding \<Rightarrow> DigestTypes \<Rightarrow> bytes \<Rightarrow> bytes \<Rightarrow> unit prog" where
  "rsaVerify P C D pubKey rsaPadding digestType signature message =
     bindP (create_ctx ''Please check your RSA key. Failure creating context.''
       (RSASignaturePublicKeyCtx_new P pubKey digestType rsaPadding)) (\<lambda>verifyCtx.
     use_ctx ''Verification failed!'' (RSA_verifyMessage P C D verifyCtx signature message))"

definition ecdsaSign ::
  "('k, 'e, 'g, 'c) pkey_lib \<Rightarrow> 'c pctx_lib \<Rightarrow> ('b, 's) ecsig_lib \<Rightarrow> 'd digest_lib \<Rightarrow> nat \<Rightarrow>
     'k \<Rightarrow> DigestTypes \<Rightarrow> ECDSASignatureFormat \<Rightarrow> bytes \<Rightarrow> bytes prog" where
  "ecdsaSign P C B D rnd privKey digestType sigFormat message =
     bindP (create_ctx ''Please check your ECC key. Failure creating context.''
       (ECDSASignaturePrivateKeyCtx_new P privKey digestType sigFormat)) (\<lambda>signCtx.
     use_ctx ''Failure occurred during signing.'' (ECDSA_signMessage P C B D signCtx rnd message))"

definition ecdsaVerify ::
  "('k, 'e, 'g, 'c) pkey_lib \<Rightarrow> 'c pctx_lib \<Rightarrow> ('b, 's) ecsig_lib \<Rightarrow> 'd digest_lib \<Rightarrow>
     'k \<Rightarrow> DigestTypes \<Rightarrow> ECDSASignatureFormat \<Rightarrow> bytes \<Rightarrow> bytes \<Rightarrow> unit prog" where
  "ecdsaVerify P C B D pubKey digestType sigFormat signature message =
     bindP (create_ctx ''Please check your ECC key. Failure creating context.''
       (ECDSASignaturePublicKeyCtx_new P pubKey digestType sigFormat)) (\<lambda>verifyCtx.
     use_ctx ''Verification failed!'' (ECDSA_verifyMessage P C B D verifyCtx signature message))"

definition edDsaSign ::
  "('k, 'e, 'g, 'c) pkey_lib \<Rightarrow> 'd digest_lib \<Rightarrow> ('k, 'd) eddsa_lib \<Rightarrow> 'k \<Rightarrow> bytes \<Rightarrow> bytes prog" where
  "edDsaSign P D X privKey message =
     bindP (create_ctx ''Please check your ECC-Ed key. Failure creating context.''
       (EdDSASignaturePrivateKeyCtx_new P privKey)) (\<lambda>signCtx.
     use_ctx ''Failure occurred during signing.'' (EdDSA_signMessage D X signCtx message))"

definition edDsaVerify ::
  "('k, 'e, 'g, 'c) pkey_lib \<Rightarrow> 'd digest_lib \<Rightarrow> ('k, 'd) eddsa_lib \<Rightarrow> 'k \<Rightarrow> bytes \<Rightarrow> bytes \<Rightarrow> unit prog" where
  "edDsaVerify P D X pubKey signature message =
     bindP (create_ctx ''Please check your ECC-Ed key. Failure creating context.''
       (EdDSASignaturePublicKeyCtx_new P pubKey)) (\<lambda>verifyCtx.
     use_ctx ''Verification failed!'' (EdDSA_verifyMessage D X verifyCtx signature message))"

text \<open>\<open>main\<close> has no return statement and returns 0.\<close>

definition sig_main ::
  "('k, 'e, 'g, 'c) pkey_lib \<Rightarrow> 'c pctx_lib \<Rightarrow> ('b, 's) ecsig_lib \<Rightarrow> 'd digest_lib \<Rightarrow> ('k, 'd) eddsa_lib \<Rightarrow>
     (nat \<Rightarrow> nat) \<Rightarrow> int prog" where
  "sig_main P C B D X rnd =
     bindP (callP (fromHex ''deadbeef'')) (\<lambda>message.
     bindP (bindP (callP (generateRSA P (rnd 0))) keyP) (\<lambda>rsaPrivKey.
     bindP (callP (getDigestSize SHA512)) (\<lambda>saltLength.
     (let mgf1DigestType = SHA256; rsaSignatureDigestType = SHA512;
          mgf1 = MGF1 mgf1DigestType; padding = PSSPadding (Some mgf1) (Some (int saltLength)) in
     bindP (rsaSign P C D (rnd 1) rsaPrivKey rsaSignatureDigestType padding message) (\<lambda>signature.
     bindP (rsaVerify P C D rsaPrivKey padding rsaSignatureDigestType signature message) (\<lambda>_.
     (let ecdsaDigestType = SHA512; ecdsaSigFormat = ASN1_SEQUENCE_OF_INTS in
     bindP (bindP (callP (generateECC P (rnd 2))) keyP) (\<lambda>eccPrivKey.
     bindP (ecdsaSign P C B D (rnd 3) eccPrivKey ecdsaDigestType ecdsaSigFormat message) (\<lambda>signature.
     bindP (ecdsaVerify P C B D eccPrivKey ecdsaDigestType ecdsaSigFormat signature message) (\<lambda>_.
     bindP (bindP (callP (generateEd25519 P (rnd 4))) keyP) (\<lambda>edPrivKey.
     bindP (edDsaSign P D X edPrivKey message) (\<lambda>signature.
     bindP (edDsaVerify P D X edPrivKey signature message) (\<lambda>_.
     returnP 0)))))))))))))"

section \<open>Key generation and export\<close>

definition SECP_521r1 :: ellipticCurveNid where "SECP_521r1 = 716"

definition createRsaKey ::
  "('k, 'e, 'g, 'c) pkey_lib \<Rightarrow> 'b bio_lib \<Rightarrow> ('k, 'b) private_io \<Rightarrow> nat \<Rightarrow> 32 word \<Rightarrow> string \<Rightarrow> 'k prog" where
  "createRsaKey P B K rnd keySize password =
     bindP (tryP (callP (generate_key P rnd (RSASpec keySize)))
       (catch_openssl (report_exit Cerr (line ''Failure generating RSA key.'') (\<lambda>m. m)))) (\<lambda>key.
     bindP (keyP key) (\<lambda>key.
     bindP (callD (privateKeyToPem B K password key)) (\<lambda>pem.
     bindP (printP Cout [Str ''Encrypted RSA key: '', endl, Str pem, endl]) (\<lambda>_.
     returnP key))))"

definition createEccKey ::
  "('k, 'e, 'g, 'c) pkey_lib \<Rightarrow> 'b bio_lib \<Rightarrow> ('k, 'b) private_io \<Rightarrow> nat \<Rightarrow> ellipticCurveNid \<Rightarrow> string \<Rightarrow> 'k prog" where
  "createEccKey P B K rnd curve password =
     bindP (tryP (callP (generate_key P rnd (ECCSpec curve)))
       (catch_mococrw (report_exit Cerr (line ''Failure generating key.'') (\<lambda>m. m)))) (\<lambda>key.
     bindP (keyP key) (\<lambda>key.
     bindP (callD (privateKeyToPem B K password key)) (\<lambda>pem.
     bindP (printP Cout [Str ''Encrypted ECC key: '', endl, Str pem, endl]) (\<lambda>_.
     returnP key))))"

definition exportPublicKey :: "'b bio_lib \<Rightarrow> ('k, 'b) object_io \<Rightarrow> 'k \<Rightarrow> unit prog" where
  "exportPublicKey B J pubKey =
     bindP (callD (publicKeyToPem B J pubKey)) (\<lambda>pem.
     printP Cout [Str ''PubKey: '', endl, Str pem, endl])"

definition key_main ::
  "('k, 'e, 'g, 'c) pkey_lib \<Rightarrow> 'b bio_lib \<Rightarrow> ('k, 'b) private_io \<Rightarrow> ('k, 'b) object_io \<Rightarrow> (nat \<Rightarrow> nat) \<Rightarrow> int prog" where
  "key_main P B K J rnd =
     bindP (createRsaKey P B K (rnd 0) 2048 ''secretPassword'') (\<lambda>rsaKeyPair.
     bindP (exportPublicKey B J rsaKeyPair) (\<lambda>_.
     bindP (createEccKey P B K (rnd 1) Ed448 ''secretPassword'') (\<lambda>eccKeyPair.
     bindP (exportPublicKey B J eccKeyPair) (\<lambda>_.
     bindP (createEccKey P B K (rnd 2) SECP_521r1 ''secretPassword'') (\<lambda>eccNistKeyPair.
     bindP (exportPublicKey B J eccKeyPair) (\<lambda>_.
     returnP 0))))))"

section \<open>Keys on a module\<close>

text \<open>The engine object is destroyed when \<open>main\<close> returns.\<close>

definition hsm_main :: "('h, 'k) engine_lib \<Rightarrow> 'b bio_lib \<Rightarrow> ('k, 'b) object_io \<Rightarrow> int prog" where
  "hsm_main G B J =
     (let id = ''pkcs11''; modulePath = ''/usr/lib/softhsm/libsofthsm2.so''; pin = ''1234''; keyID = ''1001'' in
     bindP (callP (HsmEngine_new G id modulePath pin)) (\<lambda>hsmEngine.
     bindP (callP (readPublicKeyFromHSM G hsmEngine keyID)) (\<lambda>pubKey.
     bindP (callD (publicKeyToPem B J pubKey)) (\<lambda>pem.
     bindP (printP Cout [Str (''Loaded key: '' @ [CHR 0x0A, CHR 0x0A]), Str pem, Str [CHR 0x0A, CHR 0x0A], endl]) (\<lambda>_.
     bindP (callP (HsmEngine_delete G hsmEngine)) (\<lambda>_.
     returnP 0))))))"

section \<open>What the programs do\<close>

lemma keys_hex: "fromHex ''deadbeef'' = Inr [0xde, 0xad, 0xbe, 0xef]"
  by (rule fromHex_literal) code_simp

lemma ctx_run [run_simps]: "create_ctx c (Inr x) = returnP x" "use_ctx c (Inr x) = returnP x"
  by (simp_all add: create_ctx_def use_ctx_def run_simps)

text \<open>The generated key, which is its own public key, decrypts what it has encrypted.\<close>

theorem rsa_example_decrypts:
  assumes "pctx_laws C view" "ctx_new_laws P view" "rsa_crypt_laws C view (\<lambda>k. k) bits below"
    and "generateRSA P r = Inr (Some k)" "SSL_EVP_PKEY_type_of_id P k = EVP_PKEY_RSA"
    and "getKeySize P k = 2048" "bits k = 2048"
  shows "rsa_main P C r rnd = ([], Returns 0)"
proof -
  let ?p = "OAEPPadding SHA512 (MGF1 SHA3_256) ''this is my awesome label''"
  let ?m = "[0xde, 0xad, 0xbe, 0xef] :: bytes"
  have "malloc_laws C" using assms(1) by (simp add: pctx_laws_def)
  then have "RSA_check_message P C \<lparr>rsa_key = k, rsa_padding = ?p\<rparr> ?m = Inr ()"
    using assms(6) by (simp add: RSA_check_message_def OAEPPadding_checkMessageSize_def remaining_fits_def
        malloc_laws_def ossl_simps INT_MAX_def)
  from RSA_pair_roundtrip [OF assms(1-3), of k ?p ?m rnd] this assms(6,7) obtain ct where
    "RSA_encrypt P C rnd \<lparr>rsa_key = k, rsa_padding = ?p\<rparr> ?m = Inr ct"
    "RSA_decrypt P C \<lparr>rsa_key = k, rsa_padding = ?p\<rparr> ct = Inr ?m"
    by (auto simp: INT_MAX_def)
  then show ?thesis
    using assms(4) RSAImpl_new_ok [OF assms(5), of ?p]
    by (simp add: rsa_main_def encrypt_rsa_def decrypt_rsa_def keys_hex OAEPPadding_new_def public_ctx_defs Let_def
        run_simps)
      (simp add: returnP_def)
qed

text \<open>
  The three pairs of functions of the example: what is signed with a key is accepted, without
  any output.
\<close>

lemma rsa_functions:
  assumes "rsa_sig_laws P C pv pub valid signs h p" "digest_lib_laws D absorbed H"
    and "SSL_EVP_PKEY_type_of_id P k = EVP_PKEY_RSA" "SSL_EVP_PKEY_type_of_id P (pub k) = EVP_PKEY_RSA"
    and "signs k (sig_cfg p (md_of h)) (H (md_of h) m)"
  shows "\<exists>s. rsaSign P C D rnd k h p m = returnP s \<and> rsaVerify P C D (pub k) p h s m = returnP ()"
  using RSA_pair_signs [OF assms(1,2,5), of rnd] assms(3,4)
  by (auto simp: rsaSign_def rsaVerify_def public_ctx_defs RSASignatureImpl_new_ok run_simps)

lemma ecdsa_functions:
  assumes "ecdsa_laws P C B pv pub valid signs val rs der k h" "digest_lib_laws D absorbed H"
    and "SSL_EVP_PKEY_type_of_id P k = EVP_PKEY_EC" "SSL_EVP_PKEY_type_of_id P (pub k) = EVP_PKEY_EC"
    and "signs k cfg_default (H (md_of h) m)"
  shows "\<exists>s. ecdsaSign P C B D rnd k h f m = returnP s \<and> ecdsaVerify P C B D (pub k) h f s m = returnP ()"
  using ECDSA_pair_signs [OF assms(1,2,5), of f rnd] assms(3,4)
  by (auto simp: ecdsaSign_def ecdsaVerify_def public_ctx_defs ECDSAImpl_new_ok run_simps)

lemma eddsa_functions:
  assumes "eddsa_laws D X dkey pub valid" "getType P k = Inr ECC_ED" "getType P (pub k) = Inr ECC_ED"
  shows "\<exists>s. edDsaSign P D X k m = returnP s \<and> edDsaVerify P D X (pub k) s m = returnP ()"
  using EdDSA_signature [OF assms, of m "[]" "[]", THEN conjunct1]
  by (auto simp: edDsaSign_def edDsaVerify_def public_ctx_defs run_simps)

theorem sig_example_accepts:
  fixes P :: "('k, 'e, 'g, 'c) pkey_lib"
  defines "m \<equiv> [0xde, 0xad, 0xbe, 0xef] :: bytes"
    and "p \<equiv> PSSPadding (Some (MGF1 SHA256)) (Some 64)"
  assumes "rsa_sig_laws P C pv (\<lambda>k. k) valid signs SHA512 p" "digest_lib_laws D absorbed H"
    and "generateRSA P (rnd 0) = Inr (Some rk)" "SSL_EVP_PKEY_type_of_id P rk = EVP_PKEY_RSA"
    and "signs rk (sig_cfg p EVP_sha512) (H EVP_sha512 m)"
    and "ecdsa_laws P C B pv (\<lambda>k. k) valid signs val rs der ek SHA512"
    and "generateECC P (rnd 2) = Inr (Some ek)" "SSL_EVP_PKEY_type_of_id P ek = EVP_PKEY_EC"
    and "signs ek cfg_default (H EVP_sha512 m)"
    and "eddsa_laws D X dkey (\<lambda>k. k) edvalid" "generateEd25519 P (rnd 4) = Inr (Some dk)" "getType P dk = Inr ECC_ED"
  shows "sig_main P C B D X rnd = ([], Returns 0)"
proof -
  have md: "md_of SHA512 = EVP_sha512" by (simp add: md_of_def)
  obtain s1 where "rsaSign P C D (rnd 1) rk SHA512 p m = returnP s1" "rsaVerify P C D rk p SHA512 s1 m = returnP ()"
    using rsa_functions [OF assms(3,4), of rk m "rnd 1"] assms(6,7) md by auto
  moreover obtain s2 where "ecdsaSign P C B D (rnd 3) ek SHA512 ASN1_SEQUENCE_OF_INTS m = returnP s2"
      "ecdsaVerify P C B D ek SHA512 ASN1_SEQUENCE_OF_INTS s2 m = returnP ()"
    using ecdsa_functions [OF assms(8,4), of m "rnd 3" ASN1_SEQUENCE_OF_INTS] assms(10,11) md by auto
  moreover obtain s3 where "edDsaSign P D X dk m = returnP s3" "edDsaVerify P D X dk s3 m = returnP ()"
    using eddsa_functions [OF assms(12) assms(14), of m] assms(14) by auto
  ultimately show ?thesis
    using assms(5,9,13)
    by (simp add: sig_main_def keys_hex m_def p_def Let_def run_simps getDigestSize_def lengthInBytes_def)
      (simp add: returnP_def)
qed

text \<open>
  The key example prints three private keys, encrypted with the password, and three public
  keys; but the public key after the NIST key is that of the Ed448 key once more, so that the
  public part of the NIST key is never printed.
\<close>

theorem key_example_exports:
  assumes "ec_gen_laws P curves kspec gen" "key_gen_laws P kspec gen" "\<forall>n \<in> curves. \<not> is_ed n" "SECP_521r1 \<in> curves"
    and "bio_laws B content" "private_laws K content good pemtext" "\<forall>k. good k"
    and "pem_laws J content bm em pgood bd" "\<forall>k. pgood k"
  shows "\<exists>k1 k2 k3. kspec k1 = RSASpec 2048 \<and> kspec k2 = ECCSpec Ed448 \<and> kspec k3 = ECCSpec SECP_521r1
    \<and> (\<exists>p1 p2. publicKeyToPem B J k1 = Some (Inr p1) \<and> publicKeyToPem B J k2 = Some (Inr p2)
        \<and> key_main P B K J rnd =
           ([(Cout, [Str ''Encrypted RSA key: '', endl, Str (pemtext k1 (Some ''secretPassword'')), endl]),
             (Cout, [Str ''PubKey: '', endl, Str p1, endl]),
             (Cout, [Str ''Encrypted ECC key: '', endl, Str (pemtext k2 (Some ''secretPassword'')), endl]),
             (Cout, [Str ''PubKey: '', endl, Str p2, endl]),
             (Cout, [Str ''Encrypted ECC key: '', endl, Str (pemtext k3 (Some ''secretPassword'')), endl]),
             (Cout, [Str ''PubKey: '', endl, Str p2, endl])], Returns 0))"
proof -
  note gen = generate_ok [OF assms(1-3)]
  obtain k1 where k1: "generate_key P (rnd 0) (RSASpec 2048) = Inr (Some k1)" "kspec k1 = RSASpec 2048"
    using gen [of "RSASpec 2048" "rnd 0"] by auto
  obtain k2 where k2: "generate_key P (rnd 1) (ECCSpec Ed448) = Inr (Some k2)" "kspec k2 = ECCSpec Ed448"
    using gen [of "ECCSpec Ed448" "rnd 1"] by (auto simp: is_ed_def)
  obtain k3 where k3: "generate_key P (rnd 2) (ECCSpec SECP_521r1) = Inr (Some k3)" "kspec k3 = ECCSpec SECP_521r1"
    using gen [of "ECCSpec SECP_521r1" "rnd 2"] assms(4) by auto
  have priv: "privateKeyToPem B K ''secretPassword'' k = Some (Inr (pemtext k (Some ''secretPassword'')))" for k
    using privateKeyToPem_ok [OF assms(5,6), of k "''secretPassword''"] assms(7) by (simp add: stored_def INT_MAX_def)
  obtain p1 p2 where pub: "publicKeyToPem B J k1 = Some (Inr p1)" "publicKeyToPem B J k2 = Some (Inr p2)"
    using pubkey.pem_roundtrip [OF assms(5,8)] assms(9) by metis
  have "createRsaKey P B K (rnd 0) 2048 ''secretPassword'' =
      ([(Cout, [Str ''Encrypted RSA key: '', endl, Str (pemtext k1 (Some ''secretPassword'')), endl])], Returns k1)"
    "createEccKey P B K (rnd 1) Ed448 ''secretPassword'' =
      ([(Cout, [Str ''Encrypted ECC key: '', endl, Str (pemtext k2 (Some ''secretPassword'')), endl])], Returns k2)"
    "createEccKey P B K (rnd 2) SECP_521r1 ''secretPassword'' =
      ([(Cout, [Str ''Encrypted ECC key: '', endl, Str (pemtext k3 (Some ''secretPassword'')), endl])], Returns k3)"
    by (simp_all add: createRsaKey_def createEccKey_def k1(1) k2(1) k3(1) priv run_simps del: One_nat_def)
  then show ?thesis
    using k1(2) k2(2) k3(2) pub
    by (intro exI [of _ k1] exI [of _ k2] exI [of _ k3] exI [of _ p1] exI [of _ p2] conjI)
      (simp_all add: key_main_def exportPublicKey_def run_simps printP_def del: One_nat_def)
qed

end
