(* ===== verification/Example_Ca.thy ===== *)
theory Example_Ca
  imports Program_Run Cert_Authority
begin

unbundle bit_operations_syntax

text \<open>
  \<open>src/examples/ca-csr-example.cpp\<close>: a root certificate, an intermediate authority and a
  client certificate, each issued by the one before.
\<close>

section \<open>The program\<close>

definition ca_digestType :: DigestTypes where "ca_digestType = SHA512"

text \<open>
  The validity and the digest of a new builder are set below in every case, so that their
  initial values do not matter.
\<close>

definition ca_params ::
  "int \<Rightarrow> 't \<Rightarrow> BasicConstraintsExtension \<Rightarrow> KeyUsageExtension \<Rightarrow> 't CertificateSigningParameters" where
  "ca_params validity notBefore constraints keyUsage =
     addExtension (KeyUsageExt keyUsage) (addExtension (BasicConstraintsExt constraints)
       (set_digestType ca_digestType (set_notBeforeAsn1 notBefore
         (set_certificateValidity validity (SignParams_Builder_new 0 NONE)))))"

definition getRootCa ::
  "('x, 'n, 'k, 't, 'i) cert_lib \<Rightarrow> 't time_lib \<Rightarrow> ('k, 'ec, 'g, 'p) pkey_lib \<Rightarrow> 't \<Rightarrow> 'x \<Rightarrow> 'k \<Rightarrow>
     ('x, 'k, 't) CertificateAuthority res" where
  "getRootCa L T P notBeforeTime rootCaCert rootCaKey =
     (let rootCertSignConstraints = BasicConstraints_new True 0;
          rootCaKeyUsage = set_cRLSign (set_keyCertSign KeyUsage_Builder_new) in
      bindR (Asn1Time_plus T notBeforeTime 5) (\<lambda>notBefore.
        CA_new L P (ca_params 300 notBefore rootCertSignConstraints rootCaKeyUsage) 1 rootCaCert rootCaKey))"

definition getIntermediateCa ::
  "('x, 'n, 'k, 't, 'i) cert_lib \<Rightarrow> 't time_lib \<Rightarrow> ('k, 'ec, 'g, 'p) pkey_lib \<Rightarrow> 't \<Rightarrow> 'x \<Rightarrow> 'k \<Rightarrow>
     ('x, 'k, 't) CertificateAuthority res" where
  "getIntermediateCa L T P notBeforeTime intermediateCaCert intermediateCaKey =
     (let intermediateCaKeyUsage = set_keyEncipherment (set_digitalSignature KeyUsage_Builder_new);
          intermediateCaSigningConstraints = BasicConstraints_new False 0 in
      bindR (Asn1Time_plus T notBeforeTime 10) (\<lambda>notBefore.
        CA_new L P (ca_params 120 notBefore intermediateCaSigningConstraints intermediateCaKeyUsage) 1
          intermediateCaCert intermediateCaKey))"

definition rootCertDetails :: "DistinguishedName res" where
  "rootCertDetails =
     bindR (set_commonName ''ImATeapot'' Builder_new) (\<lambda>b.
     bindR (set_countryName ''DE'' b) (\<lambda>b.
     bindR (set_organizationName ''Linux AG'' b) (\<lambda>b.
     bindR (set_organizationalUnitName ''Linux Support'' b) (\<lambda>b.
     bindR (set_pkcs9EmailAddress ''support@example.com'' b) (\<lambda>b.
     bindR (set_localityName ''oben'' b) (\<lambda>b.
     bindR (set_stateOrProvinceName ''nebenan'' b) (\<lambda>b.
     bindR (set_serialNumber ''08E36DD501941432358AFE8256BC6EFD'' b) (\<lambda>b.
     bindR (set_givenName ''Hot Teapot'' b) (\<lambda>b.
     bindR (set_userId ''1000'' b) (\<lambda>b.
       set_title ''Teapots contain tea'' b))))))))))"

definition ex_createRootCertificate ::
  "('x, 'n, 'k, 't, 'i, 'bn, 'q, 'd, 'r, 's, 'v, 'a, 'c, 'e) ca_lib \<Rightarrow> ('n, 'ne, 'f, 'b) name_lib \<Rightarrow> int \<Rightarrow> 't \<Rightarrow>
     'k \<Rightarrow> 'x res" where
  "ex_createRootCertificate C N clock notBeforeTime rootEccKey =
     (let rootCertConstraint = BasicConstraints_new True 1;
          rootCaKeyUsage = set_cRLSign (set_keyCertSign KeyUsage_Builder_new);
          rootCaSelfSignParams = ca_params 600 notBeforeTime rootCertConstraint rootCaKeyUsage in
      bindR rootCertDetails (\<lambda>details.
        createRootCertificate C N clock rootEccKey details 0 rootCaSelfSignParams))"

definition sign_reported ::
  "('x, 'n, 'k, 't, 'i, 'bn, 'q, 'd, 'r, 's, 'v, 'a, 'c, 'e) ca_lib \<Rightarrow> int \<Rightarrow> 'q \<Rightarrow>
     ('x, 'k, 't) CertificateAuthority \<Rightarrow> 'x prog" where
  "sign_reported C clock csr ca =
     tryP (bindP (callS (signCSR C clock csr) ca) (\<lambda>(cert, _). returnP cert))
       (catch_both
          (report_exit Cerr (line ''Error reading CSR in PEM format. Please validate your CSR.'') what_line)
          (report_exit Cerr (line ''Failed to create certificate.'') what_line))"

definition signCertificateWithRootCa ::
  "('x, 'n, 'k, 't, 'i, 'bn, 'q, 'd, 'r, 's, 'v, 'a, 'c, 'e) ca_lib \<Rightarrow> ('k, 'ec, 'g, 'p) pkey_lib \<Rightarrow> int \<Rightarrow> 't \<Rightarrow>
     'x \<Rightarrow> 'k \<Rightarrow> 'q \<Rightarrow> 'x prog" where
  "signCertificateWithRootCa C P clock notBeforeTime signingCert signingKey csr =
     bindP (callP (getRootCa (ca_cert C) (ca_time C) P notBeforeTime signingCert signingKey)) (sign_reported C clock csr)"

definition signCertificateWithIntermediateCa ::
  "('x, 'n, 'k, 't, 'i, 'bn, 'q, 'd, 'r, 's, 'v, 'a, 'c, 'e) ca_lib \<Rightarrow> ('k, 'ec, 'g, 'p) pkey_lib \<Rightarrow> int \<Rightarrow> 't \<Rightarrow>
     'x \<Rightarrow> 'k \<Rightarrow> 'q \<Rightarrow> 'x prog" where
  "signCertificateWithIntermediateCa C P clock notBeforeTime signingCert signingKey csr =
     bindP (callP (getIntermediateCa (ca_cert C) (ca_time C) P notBeforeTime signingCert signingKey))
       (sign_reported C clock csr)"

definition intermediateCaCertDetails :: "DistinguishedName res" where
  "intermediateCaCertDetails =
     bindR (set_organizationalUnitName ''ezcode'' Builder_new) (\<lambda>b.
     bindR (set_organizationName ''eazz'' b) (\<lambda>b.
     bindR (set_countryName ''DE'' b) (\<lambda>b.
       set_commonName ''Common secondary certificate'' b)))"

definition createIntermediateCaCertificate ::
  "('x, 'n, 'k, 't, 'i, 'bn, 'q, 'd, 'r, 's, 'v, 'a, 'c, 'e) ca_lib \<Rightarrow> ('n, 'ne, 'f, 'b) name_lib \<Rightarrow>
     ('k, 'ec, 'g, 'p) pkey_lib \<Rightarrow> 'd digest_lib \<Rightarrow> ('k, 'd) eddsa_lib \<Rightarrow> int \<Rightarrow> 't \<Rightarrow> 'k \<Rightarrow> 'k \<Rightarrow> 'x \<Rightarrow> 'x prog" where
  "createIntermediateCaCertificate C N P M X clock notBeforeTime intermediateCaKey rootCaKey rootCaCert =
     bindP (callP intermediateCaCertDetails) (\<lambda>details.
     bindP (callP (Csr_new (ca_req C) N P M X details intermediateCaKey ca_digestType)) (\<lambda>csr.
       signCertificateWithRootCa C P clock notBeforeTime rootCaCert rootCaKey csr))"

definition clientCertDetails :: "DistinguishedName res" where
  "clientCertDetails =
     bindR (set_organizationalUnitName ''ez-code'' Builder_new) (\<lambda>b.
     bindR (set_organizationName ''flamingo'' b) (\<lambda>b.
     bindR (set_countryName ''DE'' b) (\<lambda>b.
       set_commonName ''Client certificate'' b)))"

definition createClientCsr ::
  "('q, 'n, 'k, 'd) req_lib \<Rightarrow> ('n, 'ne, 'f, 'b) name_lib \<Rightarrow> ('k, 'ec, 'g, 'p) pkey_lib \<Rightarrow> 'd digest_lib \<Rightarrow>
     ('k, 'd) eddsa_lib \<Rightarrow> 'k \<Rightarrow> 'q res" where
  "createClientCsr R N P M X clientKey =
     bindR clientCertDetails (\<lambda>details. Csr_new R N P M X details clientKey ca_digestType)"

definition signClientCsr ::
  "('x, 'n, 'k, 't, 'i, 'bn, 'q, 'd, 'r, 's, 'v, 'a, 'c, 'e) ca_lib \<Rightarrow> ('k, 'ec, 'g, 'p) pkey_lib \<Rightarrow> int \<Rightarrow> 't \<Rightarrow>
     'q \<Rightarrow> 'k \<Rightarrow> 'x \<Rightarrow> 'x prog" where
  "signClientCsr C P clock notBeforeTime clientCsr signingCaKey signingCaCert =
     signCertificateWithIntermediateCa C P clock notBeforeTime signingCaCert signingCaKey clientCsr"

text \<open>The static variable \<open>notBeforeTime\<close> is initialised before \<open>main\<close> runs.\<close>

definition ca_main ::
  "('x, 'n, 'k, 't, 'i, 'bn, 'q, 'd, 'r, 's, 'v, 'a, 'c, 'e) ca_lib \<Rightarrow> ('n, 'ne, 'f, 'b) name_lib \<Rightarrow>
     ('k, 'ec, 'g, 'p) pkey_lib \<Rightarrow> 'd digest_lib \<Rightarrow> ('k, 'd) eddsa_lib \<Rightarrow> 'b bio_lib \<Rightarrow> ('x, 'b) object_io \<Rightarrow>
     int \<Rightarrow> (nat \<Rightarrow> nat) \<Rightarrow> int prog" where
  "ca_main C N P M X B J clock rnd =
     bindP (callP (Asn1Time_now (ca_time C) clock)) (\<lambda>notBeforeTime.
     bindP (bindP (callP (generateECC P (rnd 0))) keyP) (\<lambda>rootCaEccKey.
     bindP (callP (ex_createRootCertificate C N clock notBeforeTime rootCaEccKey)) (\<lambda>rootCaCert.
     bindP (callD (X509_toPEM B J rootCaCert)) (\<lambda>pem.
     bindP (printP Cout [Str pem, endl, endl]) (\<lambda>_.
     bindP (bindP (callP (generateECC P (rnd 1))) keyP) (\<lambda>intermediateCaEccKey.
     bindP (createIntermediateCaCertificate C N P M X clock notBeforeTime intermediateCaEccKey rootCaEccKey rootCaCert)
       (\<lambda>intermediateCaCert.
     bindP (callD (X509_toPEM B J intermediateCaCert)) (\<lambda>pem.
     bindP (printP Cout [Str pem, endl, endl]) (\<lambda>_.
     bindP (bindP (callP (generateECC P (rnd 2))) keyP) (\<lambda>clientKey.
     bindP (callP (createClientCsr (ca_req C) N P M X clientKey)) (\<lambda>clientCsr.
     bindP (signClientCsr C P clock notBeforeTime clientCsr intermediateCaEccKey intermediateCaCert) (\<lambda>clientCert.
     bindP (callD (X509_toPEM B J clientCert)) (\<lambda>pem.
     bindP (printP Cout [Str pem, endl]) (\<lambda>_.
     returnP 0))))))))))))))"

section \<open>The parts\<close>

lemma details:
  "bindR rootCertDetails f = f (projr rootCertDetails)"
  "callP intermediateCaCertDetails = returnP (projr intermediateCaCertDetails)"
  "bindR clientCertDetails g = g (projr clientCertDetails)"
  by (simp_all add: rootCertDetails_def intermediateCaCertDetails_def clientCertDetails_def setter_defs
      set_countryName_def Builder_new_def emplace_back_def run_simps)

definition name_entries :: "DistinguishedName res \<Rightarrow> (int \<times> bytes) list" where
  "name_entries d = entries_of (written (projr d))"

lemma name_entries_distinct:
  "name_entries intermediateCaCertDetails \<noteq> name_entries rootCertDetails"
  "name_entries clientCertDetails \<noteq> name_entries intermediateCaCertDetails"
  by code_simp+

lemma ca_params_fields:
  "sp_certificateValidity (ca_params v t bc ku) = v" "sp_digestType (ca_params v t bc ku) = SHA512"
  "notBeforeAsn1 T clock (ca_params v t bc ku) = Inr t"
  "sp_extensions (ca_params v t bc ku) = [(KeyUsage, KeyUsageExt ku), (BasicConstraints, BasicConstraintsExt bc)]"
  by (simp_all add: ca_params_def addExtension_def set_digestType_def set_notBeforeAsn1_def notBeforeAsn1_def
      set_certificateValidity_def SignParams_Builder_new_def ca_digestType_def nid_order)

definition ca_exts :: "('k \<Rightarrow> int \<Rightarrow> string \<Rightarrow> 'e) \<Rightarrow> 'k \<Rightarrow> BasicConstraintsExtension \<Rightarrow> KeyUsageExtension \<Rightarrow> 'e list" where
  "ca_exts mk k bc ku =
     [mk k 83 (KeyUsage_getConfigurationString ku), mk k 87 (BasicConstraints_getConfigurationString bc)]"

lemma ext_list_params: "ext_list mk k (ca_params v t bc ku) = ca_exts mk k bc ku"
  by (simp add: ext_list_def ca_params_fields ca_exts_def)

text \<open>
  A certificate whose extensions are that of a CA and a key usage with \<open>keyCertSign\<close>
  permits certificates with well-formed extensions directly below it.
\<close>

definition permits_law ::
  "(('k, 'e) cert_view \<Rightarrow> ('k, 'e) cert_view \<Rightarrow> bool) \<Rightarrow> ('k \<Rightarrow> int \<Rightarrow> string \<Rightarrow> 'e) \<Rightarrow> (int \<Rightarrow> string \<Rightarrow> bool) \<Rightarrow> bool" where
  "permits_law permits mk valid \<longleftrightarrow>
     (\<forall>r v n ku. 0 \<le> n \<and> keyCertSign ku \<and> cv_extensions r = ca_exts mk (cv_pubkey r) (BasicConstraints_new True n) ku
        \<and> (\<forall>e \<in> set (cv_extensions v). \<exists>nid conf. valid nid conf \<and> e = mk (cv_pubkey v) nid conf)
        \<longrightarrow> permits r v)"

lemma signable_params:
  assumes "secs t = start" "YEAR_1900 < start + v" "start + v \<le> maxAsn1TimeAsTimeT" "signs k EVP_sha512"
    and "valid 83 (KeyUsage_getConfigurationString ku)" "valid 87 (BasicConstraints_getConfigurationString bc)"
  shows "signable T secs signs valid clock k (ca_params v t bc ku) start EVP_sha512"
  using assms by (auto simp: signable_def ca_params_fields)

text \<open>
  An authority with the certificate and key of a CA issues what is asked for, if the validity
  lies in its own.
\<close>

lemma issue_ok:
  assumes "ca_laws C view entries pub secs ival bval signs mk valid rview dsig sc ac cc vv f0 accept permits"
    and "permits_law permits mk valid"
    and "\<forall>a b. SSL_EVP_PKEY_cmp P a (pub b) \<in> (if pub a = pub b then {1} else {0, - 1})"
    and "cv_pubkey (view root) = pub k" "signs k EVP_sha512" "keyCertSign rku" "0 \<le> n"
    and "cv_extensions (view root) = ca_exts mk (pub k) (BasicConstraints_new True n) rku"
    and "valid 83 (KeyUsage_getConfigurationString ku)" "valid 87 (BasicConstraints_getConfigurationString bc)"
    and "rv_subject (rview csr) \<noteq> cv_subject (view root)" "0 \<le> secs nb" "0 \<le> d" "0 < v"
    and "cv_notBefore (view root) \<le> secs nb + d" "secs nb + d + v \<le> cv_notAfter (view root)"
    and "secs nb + d + v \<le> maxAsn1TimeAsTimeT"
  shows "\<exists>x. bindP (callP (bindR (Asn1Time_plus (ca_time C) nb d) (\<lambda>t. CA_new (ca_cert C) P (ca_params v t bc ku) 1 root k)))
      (sign_reported C clock csr) = returnP x
    \<and> view x = \<lparr>cv_subject = rv_subject (rview csr), cv_issuer = cv_subject (view root),
        cv_pubkey = pub (rv_pubkey (rview csr)), cv_notBefore = secs nb + d, cv_notAfter = secs nb + d + v,
        cv_serial = 1, cv_version = 2, cv_extensions = ca_exts mk (pub (rv_pubkey (rview csr))) bc ku,
        cv_signature = Some (k, EVP_sha512)\<rparr>"
proof -
  note make = ca_laws_makeD [OF assms(1)]
  have "YEAR_1900 \<le> secs nb + d \<and> secs nb + d \<le> maxAsn1TimeAsTimeT" using assms(12-14,17) by (simp add: asn1_consts)
  then obtain t where t: "Asn1Time_plus (ca_time C) nb d = Inr t" "secs t = secs nb + d"
    using plus_ok [OF ca_timeD [OF make], of nb d] by auto
  let ?ca = "\<lparr>defaultSignParams = ca_params v t bc ku, nextSerialNumber = 1, rootCert = root, privateKey = k\<rparr>"
  have new: "CA_new (ca_cert C) P (ca_params v t bc ku) 1 root k = Inr ?ca"
    using CA_new_ok [OF ca_getD [OF make] assms(3,4), where k' = k] by simp
  have s: "signable (ca_time C) secs signs valid clock k (ca_params v t bc ku) (secs nb + d) EVP_sha512"
    using assms(5,9,10,12-14,17) t(2) by (intro signable_params) (simp_all add: asn1_consts)
  let ?g = "granted view rview pub mk (secs nb + d) EVP_sha512 ?ca csr"
  have "\<forall>e \<in> set (cv_extensions ?g). \<exists>nid conf. valid nid conf \<and> e = mk (cv_pubkey ?g) nid conf"
    using assms(9,10) by (auto simp: granted_def ext_list_params ca_exts_def)
  then have "permits (view root) ?g"
    using assms(2,4,6-8) unfolding permits_law_def by metis
  then have "acceptable view permits ?ca ?g"
    using assms(14-16) by (simp add: acceptable_def granted_def ca_params_fields)
  then obtain x where "signCSR C clock csr ?ca = (Inr x, ?ca\<lparr>nextSerialNumber := 2\<rparr>)" "view x = ?g"
    using signCSR_ok [OF assms(1), of ?ca clock "secs nb + d" EVP_sha512 csr] s assms(4,11) by (auto simp: LONG_MAX_def)
  then show ?thesis
    by (intro exI [of _ x])
      (simp add: t(1) new sign_reported_def callS_Inr run_simps granted_def ca_params_fields ext_list_params)
qed

lemma now_ok:
  assumes "time_laws T secs" "0 \<le> clock" "clock \<le> LONG_MAX"
  shows "\<exists>t. Asn1Time_now T clock = Inr t \<and> secs t = to_time_t clock \<and> 0 \<le> to_time_t clock
     \<and> to_time_t clock \<le> 9223372036"
proof -
  have r: "0 \<le> to_time_t clock" "to_time_t clock \<le> 9223372036"
    using to_time_t_range [of clock] assms(2,3) by (auto simp: int_limits to_time_t_def sgn_if pos_imp_zdiv_nonneg_iff)
  then obtain t where "SSL_ASN1_TIME_set T (to_time_t clock) = Some t" "secs t = to_time_t clock"
    using time_setD [OF assms(1), of "to_time_t clock"] by (auto simp: asn1_consts)
  with r show ?thesis by (simp add: Asn1Time_now_def Asn1Time_fromTimePoint_def ossl_simps)
qed

lemma printed_ok:
  assumes "bio_laws B content" "\<forall>b x. content b = [] \<longrightarrow>
      (\<exists>b'. SSL_PEM_write_bio J b x = (1, b') \<and> content b' = string_bytes (pemtext x))"
  shows "X509_toPEM B J x = Some (Inr (pemtext x))"
proof -
  have "X509_toPEM B J x = Some (Inr (bytes_string (string_bytes (pemtext x))))"
    unfolding X509_toPEM_def
  proof (rule bio_printed_ok [OF assms(1)])
    fix b assume "content b = []"
    then obtain b' where "SSL_PEM_write_bio J b x = (1, b')" "content b' = string_bytes (pemtext x)"
      using assms(2) by blast
    then show "\<exists>b'. ossl_PEM_write_bio_X509 J x b = Inr b' \<and> content b' = string_bytes (pemtext x)"
      by (simp add: ossl_simps)
  qed
  then show ?thesis by simp
qed

text \<open>What the certificates of the program say.\<close>

definition chain_view ::
  "('k \<Rightarrow> int \<Rightarrow> string \<Rightarrow> 'e) \<Rightarrow> DistinguishedName res \<Rightarrow> DistinguishedName res \<Rightarrow> 'k \<Rightarrow> 'k \<Rightarrow> int \<Rightarrow> int \<Rightarrow> int \<Rightarrow>
     BasicConstraintsExtension \<Rightarrow> KeyUsageExtension \<Rightarrow> ('k, 'e) cert_view" where
  "chain_view mk subject issuer pk signer serial start stop bc ku =
     \<lparr>cv_subject = name_entries subject, cv_issuer = name_entries issuer, cv_pubkey = pk,
      cv_notBefore = start, cv_notAfter = stop, cv_serial = serial, cv_version = 2,
      cv_extensions = ca_exts mk pk bc ku, cv_signature = Some (signer, EVP_sha512)\<rparr>"

abbreviation ku_ca :: KeyUsageExtension where
  "ku_ca \<equiv> set_cRLSign (set_keyCertSign KeyUsage_Builder_new)"
abbreviation ku_leaf :: KeyUsageExtension where
  "ku_leaf \<equiv> set_keyEncipherment (set_digitalSignature KeyUsage_Builder_new)"

lemma ku_ca_signs: "keyCertSign ku_ca"
  by (simp add: set_cRLSign_def set_keyCertSign_def)

lemma chain_permits:
  assumes "permits_law permits mk valid" "0 \<le> n" "keyCertSign ku"
    and "valid 83 (KeyUsage_getConfigurationString ku')" "valid 87 (BasicConstraints_getConfigurationString bc)"
  shows "permits (chain_view mk s i pk k m b e (BasicConstraints_new True n) ku) (chain_view mk s' i' pk' k' m' b' e' bc ku')"
proof -
  let ?v = "chain_view mk s' i' pk' k' m' b' e' bc ku'"
  have "\<forall>x \<in> set (cv_extensions ?v). \<exists>nid conf. valid nid conf \<and> x = mk (cv_pubkey ?v) nid conf"
    using assms(4,5) by (auto simp: chain_view_def ca_exts_def)
  moreover have "cv_extensions (chain_view mk s i pk k m b e (BasicConstraints_new True n) ku) =
      ca_exts mk (cv_pubkey (chain_view mk s i pk k m b e (BasicConstraints_new True n) ku)) (BasicConstraints_new True n) ku"
    by (simp add: chain_view_def)
  ultimately show ?thesis using assms(1-3) unfolding permits_law_def by blast
qed

lemma ex_root_ok:
  fixes P :: "('k, 'ec, 'g, 'p) pkey_lib"
  assumes "ca_make_laws C view entries pub secs ival bval signs mk valid" "name_laws N content entries good"
    and "\<forall>a b. SSL_EVP_PKEY_cmp P a (pub b) \<in> (if pub a = pub b then {1} else {0, - 1})"
    and "\<forall>(i, s) \<in> set (attributes (projr rootCertDetails)). s \<noteq> [] \<longrightarrow> good (nid_value i) (string_bytes s)"
    and "valid 83 (KeyUsage_getConfigurationString ku_ca)"
    and "valid 87 (BasicConstraints_getConfigurationString (BasicConstraints_new True 1))"
    and "signs k EVP_sha512" "0 \<le> secs nb" "secs nb \<le> 9223372036"
  shows "\<exists>root. ex_createRootCertificate C N clock nb k = Inr root
    \<and> view root = chain_view mk rootCertDetails rootCertDetails (pub k) k 0 (secs nb) (secs nb + 600)
        (BasicConstraints_new True 1) ku_ca"
proof -
  let ?sp = "ca_params 600 nb (BasicConstraints_new True 1) ku_ca"
  have s: "signable (ca_time C) secs signs valid clock k ?sp (secs nb) EVP_sha512"
    using assms(5-9) by (intro signable_params) (simp_all add: asn1_consts)
  have l: "uint (0 :: 64 word) \<le> LONG_MAX" by (simp add: LONG_MAX_def)
  have b: "extension_BasicConstraints ?sp = Inr (Some (BasicConstraints_new True 1))" "bc_ca (BasicConstraints_new True 1)"
    by (simp_all add: extension_BasicConstraints_def sp_extension_def ca_params_fields BasicConstraints_new_def)
  obtain x where "createRootCertificate C N clock k (projr rootCertDetails) 0 ?sp = Inr x" "view x =
      chain_view mk rootCertDetails rootCertDetails (pub k) k 0 (secs nb) (secs nb + 600) (BasicConstraints_new True 1) ku_ca"
    using root_certificate_ok [OF assms(1,2) s l assms(4,3), where params = undefined and s = 0 and k' = k]
      b by (auto simp: ca_params_fields ext_list_params chain_view_def name_entries_def)
  then show ?thesis by (auto simp: ex_createRootCertificate_def Let_def details)
qed

lemma ex_csr_ok:
  assumes "req_laws R rview entries pub dsig" "sign_ctx_laws P M X kind dsig" "name_laws N content entries good"
    and "\<forall>(i, s) \<in> set (attributes (projr d)). s \<noteq> [] \<longrightarrow> good (nid_value i) (string_bytes s)"
  shows "\<exists>q. Csr_new R N P M X (projr d) k ca_digestType = Inr q
    \<and> rv_subject (rview q) = name_entries d \<and> rv_pubkey (rview q) = pub k"
  using Csr_new_ok [OF assms(1-3) _ assms(4), of ca_digestType k] by (auto simp: ca_digestType_def name_entries_def)

section \<open>The chain\<close>

text \<open>The certificates the program prints, and the extensions it asks for.\<close>

definition ex_extensions :: "ExtensionBase set" where
  "ex_extensions =
     {BasicConstraintsExt (BasicConstraints_new True 1), BasicConstraintsExt (BasicConstraints_new True 0),
      BasicConstraintsExt (BasicConstraints_new False 0), KeyUsageExt (set_cRLSign (set_keyCertSign KeyUsage_Builder_new)),
      KeyUsageExt (set_keyEncipherment (set_digitalSignature KeyUsage_Builder_new))}"

lemma ca_main_runs:
  fixes C :: "('x, 'n, 'k, 't, 'i, 'bn, 'q, 'd, 'r, 's, 'v, 'a, 'c, 'e) ca_lib"
  assumes "ca_laws C view entries pub secs ival bval signs mk valid rview dsig sc ac cc vv f0 accept permits"
    and "permits_law permits mk valid" "sign_ctx_laws P M X kind dsig" "name_laws N content entries good"
    and "\<forall>a b. SSL_EVP_PKEY_cmp P a (pub b) \<in> (if pub a = pub b then {1} else {0, - 1})"
    and "bio_laws B content" "\<forall>b x. content b = [] \<longrightarrow>
      (\<exists>b'. SSL_PEM_write_bio J b x = (1, b') \<and> content b' = string_bytes (pemtext x))"
    and "\<forall>d \<in> {rootCertDetails, intermediateCaCertDetails, clientCertDetails}.
      \<forall>(i, s) \<in> set (attributes (projr d)). s \<noteq> [] \<longrightarrow> good (nid_value i) (string_bytes s)"
    and "\<forall>e \<in> ex_extensions. valid (ext_nid_value (getNid e)) (getConfigurationString e)"
    and "\<forall>i. generateECC P (rnd i) = Inr (Some (key i)) \<and> signs (key i) EVP_sha512"
    and "0 \<le> clock" "clock \<le> LONG_MAX"
  defines "now \<equiv> to_time_t clock"
  shows "\<exists>root inter client. ca_main C N P M X B J clock rnd =
       ([(Cout, [Str (pemtext root), endl, endl]), (Cout, [Str (pemtext inter), endl, endl]),
         (Cout, [Str (pemtext client), endl])], Returns 0)
    \<and> view root = chain_view mk rootCertDetails rootCertDetails (pub (key 0)) (key 0) 0 now (now + 600)
        (BasicConstraints_new True 1) ku_ca
    \<and> view inter = chain_view mk intermediateCaCertDetails rootCertDetails (pub (key 1)) (key 0) 1 (now + 5) (now + 305)
        (BasicConstraints_new True 0) ku_ca
    \<and> view client = chain_view mk clientCertDetails intermediateCaCertDetails (pub (key 2)) (key 1) 1 (now + 10) (now + 130)
        (BasicConstraints_new False 0) ku_leaf"
proof -
  note make = ca_laws_makeD [OF assms(1)] and req = ca_laws_reqD [OF assms(1)]
  have ok: "valid 83 (KeyUsage_getConfigurationString ku_ca)" "valid 83 (KeyUsage_getConfigurationString ku_leaf)"
    "valid 87 (BasicConstraints_getConfigurationString (BasicConstraints_new True 1))"
    "valid 87 (BasicConstraints_getConfigurationString (BasicConstraints_new True 0))"
    "valid 87 (BasicConstraints_getConfigurationString (BasicConstraints_new False 0))"
    using assms(9) by (simp_all add: ex_extensions_def)
  obtain nb where nb: "Asn1Time_now (ca_time C) clock = Inr nb" "secs nb = now" "0 \<le> now" "now \<le> 9223372036"
    using now_ok [OF ca_timeD [OF make] assms(11,12)] by (auto simp: now_def)
  have k: "generateECC P (rnd i) = Inr (Some (key i))" "signs (key i) EVP_sha512" for i using assms(10) by blast+
  obtain root where root: "ex_createRootCertificate C N clock nb (key 0) = Inr root"
      "view root = chain_view mk rootCertDetails rootCertDetails (pub (key 0)) (key 0) 0 now (now + 600)
         (BasicConstraints_new True 1) ku_ca"
    using ex_root_ok [OF make assms(4,5) _ ok(1,3) k(2) [of 0], where nb = nb and clock = clock] assms(8) nb by auto
  obtain q1 where q1: "Csr_new (ca_req C) N P M X (projr intermediateCaCertDetails) (key 1) ca_digestType = Inr q1"
      "rv_subject (rview q1) = name_entries intermediateCaCertDetails" "rv_pubkey (rview q1) = pub (key 1)"
    using ex_csr_ok [OF req assms(3,4)] assms(8) by blast
  obtain q2 where q2: "Csr_new (ca_req C) N P M X (projr clientCertDetails) (key 2) ca_digestType = Inr q2"
      "rv_subject (rview q2) = name_entries clientCertDetails" "rv_pubkey (rview q2) = pub (key 2)"
    using ex_csr_ok [OF req assms(3,4)] assms(8) by blast
  obtain inter where inter: "signCertificateWithRootCa C P clock nb root (key 0) q1 = returnP inter"
      "view inter = chain_view mk intermediateCaCertDetails rootCertDetails (pub (key 1)) (key 0) 1 (now + 5) (now + 305)
         (BasicConstraints_new True 0) ku_ca"
    using issue_ok [OF assms(1,2,5) _ k(2) [of 0] ku_ca_signs _ _ ok(1,4), where root = root and n = 1 and csr = q1 and nb = nb and d = 5 and v = 300 and clock = clock] root(2) q1 nb(2-4)
      name_entries_distinct(1) ca_pubD [OF make, of "key 1"]
    by (auto simp: signCertificateWithRootCa_def getRootCa_def Let_def asn1_consts chain_view_def)
  obtain client where client: "signCertificateWithIntermediateCa C P clock nb inter (key 1) q2 = returnP client"
      "view client = chain_view mk clientCertDetails intermediateCaCertDetails (pub (key 2)) (key 1) 1 (now + 10) (now + 130)
         (BasicConstraints_new False 0) ku_leaf"
    using issue_ok [OF assms(1,2,5) _ k(2) [of 1] ku_ca_signs _ _ ok(2,5), where root = inter and n = 0 and csr = q2 and nb = nb and d = 10 and v = 120 and clock = clock] inter(2) q2 nb(2-4)
      name_entries_distinct(2) ca_pubD [OF make, of "key 2"]
    by (auto simp: signCertificateWithIntermediateCa_def getIntermediateCa_def Let_def asn1_consts chain_view_def)
  have "ca_main C N P M X B J clock rnd =
      ([(Cout, [Str (pemtext root), endl, endl]), (Cout, [Str (pemtext inter), endl, endl]),
        (Cout, [Str (pemtext client), endl])], Returns 0)"
    by (simp add: ca_main_def nb(1) k(1) root(1) inter(1) client(1) q1(1) q2(1) details printed_ok [OF assms(6,7)]
        createIntermediateCaCertificate_def createClientCsr_def signClientCsr_def run_simps del: One_nat_def)
  with root(2) inter(2) client(2) show ?thesis by blast
qed

text \<open>
  C17: The program prints three certificates and returns 0: a root signed with its own key, an
  intermediate certificate issued by the root and a client certificate issued by the
  intermediate one.  Their periods are nested, so that at every time from 10 to before 130
  seconds after the start of the program the client certificate verifies against the
  intermediate one and this against the root.
\<close>

theorem ca_example_chain:
  fixes C :: "('x, 'n, 'k, 't, 'i, 'bn, 'q, 'd, 'r, 's, 'v, 'a, 'c, 'e) ca_lib"
  assumes "ca_laws C view entries pub secs ival bval signs mk valid rview dsig sc ac cc vv f0 accept permits"
    and "permits_law permits mk valid" "sign_ctx_laws P M X kind dsig" "name_laws N content entries good"
    and "\<forall>a b. SSL_EVP_PKEY_cmp P a (pub b) \<in> (if pub a = pub b then {1} else {0, - 1})"
    and "bio_laws B content" "\<forall>b x. content b = [] \<longrightarrow>
      (\<exists>b'. SSL_PEM_write_bio J b x = (1, b') \<and> content b' = string_bytes (pemtext x))"
    and "\<forall>d \<in> {rootCertDetails, intermediateCaCertDetails, clientCertDetails}.
      \<forall>(i, s) \<in> set (attributes (projr d)). s \<noteq> [] \<longrightarrow> good (nid_value i) (string_bytes s)"
    and "\<forall>e \<in> ex_extensions. valid (ext_nid_value (getNid e)) (getConfigurationString e)"
    and "\<forall>i. generateECC P (rnd i) = Inr (Some (key i)) \<and> signs (key i) EVP_sha512"
    and "0 \<le> clock" "clock \<le> LONG_MAX"
  defines "now \<equiv> to_time_t clock"
  shows "\<exists>root inter client. ca_main C N P M X B J clock rnd =
       ([(Cout, [Str (pemtext root), endl, endl]), (Cout, [Str (pemtext inter), endl, endl]),
         (Cout, [Str (pemtext client), endl])], Returns 0)
    \<and> issued_by pub (view root) (view root) \<and> issued_by pub (view root) (view inter)
    \<and> issued_by pub (view inter) (view client)
    \<and> cv_pubkey (view root) = pub (key 0) \<and> cv_pubkey (view inter) = pub (key 1) \<and> cv_pubkey (view client) = pub (key 2)
    \<and> cv_subject (view client) = name_entries clientCertDetails
    \<and> (\<forall>t. now + 10 \<le> t \<and> t < now + 130 \<longrightarrow>
         X509_verify (ca_verify C) ((ca_context inter)\<lparr>verificationCheckTime := Some t\<rparr>) client = Inr ()
         \<and> X509_verify (ca_verify C) ((ca_context root)\<lparr>verificationCheckTime := Some t\<rparr>) inter = Inr ()
         \<and> valid_at t (view root))"
proof -
  obtain root inter client where main: "ca_main C N P M X B J clock rnd =
      ([(Cout, [Str (pemtext root), endl, endl]), (Cout, [Str (pemtext inter), endl, endl]),
        (Cout, [Str (pemtext client), endl])], Returns 0)"
    and w: "view root = chain_view mk rootCertDetails rootCertDetails (pub (key 0)) (key 0) 0 now (now + 600)
        (BasicConstraints_new True 1) ku_ca"
      "view inter = chain_view mk intermediateCaCertDetails rootCertDetails (pub (key 1)) (key 0) 1 (now + 5) (now + 305)
        (BasicConstraints_new True 0) ku_ca"
      "view client = chain_view mk clientCertDetails intermediateCaCertDetails (pub (key 2)) (key 1) 1 (now + 10) (now + 130)
        (BasicConstraints_new False 0) ku_leaf"
    using ca_main_runs [OF assms(1-12)] unfolding now_def by blast
  have ver: "X509_verify (ca_verify C) ((ca_context r)\<lparr>verificationCheckTime := Some t\<rparr>) x = Inr ()"
    if "issued_by pub (view r) (view x)" "cv_subject (view x) \<noteq> cv_subject (view r)" "permits (view r) (view x)"
      "valid_at t (view r)" "valid_at t (view x)" for r x t
    using verify_single_root [OF ca_laws_verifyD [OF assms(1)] ca_laws_rootD [OF assms(1)] that(2,1) refl] that(3-5) by simp
  have iss: "issued_by pub (view root) (view root)" "issued_by pub (view root) (view inter)"
    "issued_by pub (view inter) (view client)"
    by (simp_all add: issued_by_def w chain_view_def)
  have v: "valid_at t (view root) \<and> valid_at t (view inter) \<and> valid_at t (view client)"
    if "now + 10 \<le> t" "t < now + 130" for t
    using that by (simp add: valid_at_def w chain_view_def)
  have "cv_subject (view inter) \<noteq> cv_subject (view root)" "cv_subject (view client) \<noteq> cv_subject (view inter)"
    using name_entries_distinct by (simp_all add: w chain_view_def)
  moreover have "permits (view root) (view inter)" "permits (view inter) (view client)"
    using chain_permits [OF assms(2) _ ku_ca_signs] assms(9) by (simp_all add: w ex_extensions_def)
  ultimately
  have chain: "\<forall>t. now + 10 \<le> t \<and> t < now + 130 \<longrightarrow>
      X509_verify (ca_verify C) ((ca_context inter)\<lparr>verificationCheckTime := Some t\<rparr>) client = Inr ()
      \<and> X509_verify (ca_verify C) ((ca_context root)\<lparr>verificationCheckTime := Some t\<rparr>) inter = Inr ()
      \<and> valid_at t (view root)"
    using ver [OF iss(2)] ver [OF iss(3)] v by blast
  with main iss show ?thesis
    by (intro exI [of _ root] exI [of _ inter] exI [of _ client]) (simp add: w chain_view_def)
qed

section \<open>A concrete instance\<close>

definition ex_permits :: "ref_key ref_cert \<Rightarrow> ref_key ref_cert \<Rightarrow> bool" where
  "ex_permits r v \<longleftrightarrow> list_ex (\<lambda>(nid, conf). nid = 87 \<and> take 16 conf = ''critical,CA:TRUE'') (cv_extensions r)"

definition ex_cert_io :: "(ref_key ref_cert, bytes) object_io" where
  "ex_cert_io =
     \<lparr>SSL_PEM_read_bio = (\<lambda>b. None), SSL_PEM_write_bio = (\<lambda>b x. (1, b @ string_bytes ''CERTIFICATE'')),
      SSL_d2i_bio = (\<lambda>b. None), SSL_i2d_bio = (\<lambda>b x. (0, b))\<rparr>"

lemma ex_permits_law: "permits_law ex_permits (\<lambda>k nid conf. (nid, conf)) (\<lambda>nid conf. True)"
  by (simp add: permits_law_def ex_permits_def ca_exts_def BasicConstraints_getConfigurationString_def
      BasicConstraints_new_def)

lemma ref_generateECC: "generateECC ref_cmp_lib i = Inr (Some (ECCSpec PRIME_256v1, word_of_nat i))"
  by (simp add: generateECC_def generate_key_def ECCSpec_generate_def ECCSpec_keyCtx_def ref_cmp_lib_def ref_pkey_lib_def
      ossl_simps checkC_def is_ed_def curve_nids pkey_types)

theorem ca_example_chain_witness:
  "\<exists>root inter client. ca_main (ref_ca_lib_for ex_permits) ref_name_lib ref_cmp_lib ref_sign_digest_lib ref_sign_lib ref_bio_lib
        ex_cert_io 5000000000 id =
      ([(Cout, [Str ''CERTIFICATE'', endl, endl]), (Cout, [Str ''CERTIFICATE'', endl, endl]),
        (Cout, [Str ''CERTIFICATE'', endl])], Returns 0)
    \<and> issued_by ref_public_part (ref_view inter) (ref_view client)
    \<and> X509_verify (ca_verify (ref_ca_lib_for ex_permits)) ((ca_context root)\<lparr>verificationCheckTime := Some 20\<rparr>) inter = Inr ()"
proof -
  have s: "sign_ctx_laws ref_cmp_lib ref_sign_digest_lib ref_sign_lib ref_kind id"
    using ref_sign_ctx_laws by (simp add: sign_ctx_laws_def ref_cmp_lib_def)
  have c: "\<forall>a b. SSL_EVP_PKEY_cmp ref_cmp_lib a (ref_public_part b)
      \<in> (if ref_public_part a = ref_public_part b then {1} else {0, - 1})"
    using ca_pubD [OF ref_ca_make_laws] by (auto simp: ref_cmp_lib_def)
  have p: "\<forall>b x. id b = [] \<longrightarrow> (\<exists>b'. SSL_PEM_write_bio ex_cert_io b x = (1, b') \<and> id b' = string_bytes ''CERTIFICATE'')"
    by (simp add: ex_cert_io_def)
  show ?thesis
    using ca_example_chain [OF ref_ca_laws_for ex_permits_law s ref_name_laws c ref_bio_laws p,
        of id "\<lambda>i. (ECCSpec PRIME_256v1, word_of_nat i)" 5000000000] ref_generateECC
    by (auto simp: to_time_t_def LONG_MAX_def dest!: spec [of _ 20])
qed

end
