(* ===== verification/Example_Validation.thy ===== *)
theory Example_Validation
  imports Program_Run X509_Verify X509_Crl
begin

text \<open>
  \<open>src/examples/cert-validation.cpp\<close>: certificates from files are verified in nine ways, some
  of which are expected to succeed and some to fail.
\<close>

section \<open>The program\<close>

definition nl_str :: "string \<Rightarrow> string \<Rightarrow> string" where "nl_str s t = s @ [CHR 0x0A] @ t"

text \<open>A block in which \<open>verify\<close> has to succeed, and one in which it has to fail.\<close>

definition expect_valid :: "string \<Rightarrow> string \<Rightarrow> string \<Rightarrow> unit res \<Rightarrow> unit prog" where
  "expect_valid announcement complaint success verification =
     bindP (printP Cout (line announcement)) (\<lambda>_.
     bindP (tryP (callP verification)
       (catch_mococrw (\<lambda>m. bindP (printP Cerr (Str complaint # what_line m)) (\<lambda>_. exitP EXIT_FAILURE)))) (\<lambda>_.
     printP Cout (line success)))"

definition expect_invalid :: "string \<Rightarrow> stream \<Rightarrow> message list \<Rightarrow> unit res \<Rightarrow> unit prog" where
  "expect_invalid announcement reportTo closing verification =
     bindP (printP Cout (line announcement)) (\<lambda>_.
     bindP (tryP
       (bindP (callP verification) (\<lambda>_.
        bindP (printP Cerr (line ''Exception should be thrown. Something's wrong.'')) (\<lambda>_. exitP EXIT_FAILURE)))
       (catch_mococrw (\<lambda>m. printP reportTo (Str ''Failed as expected. OpenSSL error: '' # what_line m)))) (\<lambda>_.
     (map (Pair Cout) closing, Returns ())))"

definition not_validated :: string where
  "not_validated = ''Failed to validate certificate. OpenSSL error: ''"
definition validated :: string where
  "validated = nl_str ''Certificate successfully validated'' ''---''"

text \<open>The contexts of the blocks.\<close>

definition ctx_issuer :: "'x \<Rightarrow> ('x, 'r) VerificationContext" where
  "ctx_issuer intermediateCA = addTrustedCertificate intermediateCA VerificationContext_new"

definition ctx_chain :: "'x \<Rightarrow> 'x \<Rightarrow> ('x, 'r) VerificationContext" where
  "ctx_chain rootCA intermediateCA =
     addIntermediateCertificate intermediateCA (addTrustedCertificate rootCA VerificationContext_new)"

definition ctx_self_signed :: "'x \<Rightarrow> 'x \<Rightarrow> ('x, 'r) VerificationContext" where
  "ctx_self_signed rootCA intermediateCA = enforceSelfSignedRootCertificate (ctx_chain rootCA intermediateCA)"

definition ctx_not_self_signed :: "'x \<Rightarrow> ('x, 'r) VerificationContext" where
  "ctx_not_self_signed intermediateCA =
     enforceSelfSignedRootCertificate (addTrustedCertificate intermediateCA VerificationContext_new)"

definition ctx_revoked :: "'x \<Rightarrow> 'x \<Rightarrow> 'r \<Rightarrow> ('x, 'r) VerificationContext" where
  "ctx_revoked rootCA intermediateCA intermediateCRL =
     addCertificateRevocationList intermediateCRL (ctx_chain rootCA intermediateCA)"

definition ctx_crl_missing :: "'x \<Rightarrow> 'x \<Rightarrow> 'r \<Rightarrow> ('x, 'r) VerificationContext" where
  "ctx_crl_missing rootCA intermediateCA rootCRL =
     enforceSelfSignedRootCertificate (enforceCrlsForAllCAs
       (addCertificateRevocationList rootCRL (ctx_chain rootCA intermediateCA)))"

definition ctx_all_crls :: "'x \<Rightarrow> 'x \<Rightarrow> 'r \<Rightarrow> 'r \<Rightarrow> ('x, 'r) VerificationContext" where
  "ctx_all_crls rootCA intermediateCA rootCRL intermediateCRL =
     enforceSelfSignedRootCertificate (enforceCrlsForAllCAs
       (addCertificateRevocationList intermediateCRL (addCertificateRevocationList rootCRL
         (ctx_chain rootCA intermediateCA))))"

text \<open>The last context gets a check time before its \<open>try\<close> block.\<close>

definition validation_main ::
  "('x, 'r, 's, 'v, 'a, 'c) verify_lib \<Rightarrow> 't time_lib \<Rightarrow> 'b bio_lib \<Rightarrow> ('x, 'b) object_io \<Rightarrow> ('r, 'b) object_io \<Rightarrow>
     (string \<Rightarrow> (string \<times> bool) option) \<Rightarrow> int prog" where
  "validation_main V T B J K ifstream =
     bindP (callP (X509_fromPEMFile B J ifstream ''root3.pem'')) (\<lambda>rootCA.
     bindP (callP (X509_fromPEMFile B J ifstream ''root3.int1.pem'')) (\<lambda>intermediateCA.
     bindP (callP (X509_fromPEMFile B J ifstream ''root3.int1.int11.pem'')) (\<lambda>intermediateCA_1.
     bindP (callP (Crl_fromPEMFile B K ''root3.crl.pem'')) (\<lambda>rootCRL.
     bindP (callP (Crl_fromPEMFile B K ''root3.int1.crl_otherentry.pem'')) (\<lambda>intermediateCRL.
     bindP (callP (X509_fromPEMFile B J ifstream ''root3.int1.cert.pem'')) (\<lambda>cert.
     bindP (callP (X509_fromPEMFile B J ifstream ''root1.cert1.pem'')) (\<lambda>cert_from_other_chain.
     bindP (expect_valid ''Validating certificate against an issuing CA'' not_validated validated
       (X509_verify_stores V [intermediateCA] [] cert)) (\<lambda>_.
     bindP (expect_valid ''Validating certificate against certificate chain'' not_validated validated
       (X509_verify_stores V [rootCA] [intermediateCA] cert)) (\<lambda>_.
     bindP (printP Cout (line (nl_str [] (nl_str ''*** Certificate validation examples using VerificationContext ***'' [])))) (\<lambda>_.
     bindP (expect_valid ''Validating certificate against an issuing CA'' not_validated validated
       (X509_verify V (ctx_issuer intermediateCA) cert)) (\<lambda>_.
     bindP (expect_valid ''Validating certificate against certificate chain'' not_validated
       (nl_str ''Certificate inside certificate chain successfully validated'' ''---'')
       (X509_verify V (ctx_chain rootCA intermediateCA) cert)) (\<lambda>_.
     bindP (expect_invalid ''Verifying certificate that is issued from other CAs'' Cerr [line ''---'']
       (X509_verify V (ctx_chain rootCA intermediateCA) cert_from_other_chain)) (\<lambda>_.
     bindP (expect_valid ''Checking if root certificate is self signed''
       ''Root certificate probably not self signed. OpenSSL error: ''
       (nl_str ''Root certificate is self signed'' ''---'')
       (X509_verify V (ctx_self_signed rootCA intermediateCA) cert)) (\<lambda>_.
     bindP (expect_invalid ''Checking if intermediate certificate is self signed'' Cerr [line ''---'']
       (X509_verify V (ctx_not_self_signed intermediateCA) rootCA)) (\<lambda>_.
     bindP (expect_invalid ''Checking if certificate is revoked'' Cout [line ''---'']
       (X509_verify V (ctx_revoked rootCA intermediateCA intermediateCRL) cert)) (\<lambda>_.
     bindP (expect_invalid ''Checking enforcement of CRLs'' Cerr [line ''---'']
       (X509_verify V (ctx_crl_missing rootCA intermediateCA rootCRL) cert)) (\<lambda>_.
     bindP (bindP (callP (Asn1Time_max T)) (\<lambda>latest.
            callS (setVerificationCheckTime T latest) (ctx_all_crls rootCA intermediateCA rootCRL intermediateCRL)))
       (\<lambda>(_, ctx).
     bindP (expect_invalid ''Validating certificate in future when stuff is expired'' Cerr []
       (X509_verify V ctx cert)) (\<lambda>_.
     returnP EXIT_SUCCESS)))))))))))))))))))"

section \<open>What it tests\<close>

text \<open>
  The requests the program makes of OpenSSL, in order, each with the verdict it expects.
\<close>

definition validation_checks ::
  "'x \<Rightarrow> 'x \<Rightarrow> 'r \<Rightarrow> 'r \<Rightarrow> 'x \<Rightarrow> 'x \<Rightarrow> int \<Rightarrow> (('x, 'r) VerificationContext \<times> 'x \<times> bool) list" where
  "validation_checks rootCA intermediateCA rootCRL intermediateCRL cert other latest =
     [(ctx_issuer intermediateCA, cert, True), (ctx_chain rootCA intermediateCA, cert, True),
      (ctx_issuer intermediateCA, cert, True), (ctx_chain rootCA intermediateCA, cert, True),
      (ctx_chain rootCA intermediateCA, other, False), (ctx_self_signed rootCA intermediateCA, cert, True),
      (ctx_not_self_signed intermediateCA, rootCA, False),
      (ctx_revoked rootCA intermediateCA intermediateCRL, cert, False),
      (ctx_crl_missing rootCA intermediateCA rootCRL, cert, False),
      ((ctx_all_crls rootCA intermediateCA rootCRL intermediateCRL)\<lparr>verificationCheckTime := Some latest\<rparr>, cert, False)]"

lemmas ctx_defs = ctx_issuer_def ctx_chain_def ctx_self_signed_def ctx_not_self_signed_def ctx_revoked_def
  ctx_crl_missing_def ctx_all_crls_def addTrustedCertificate_def addIntermediateCertificate_def
  addCertificateRevocationList_def enforceSelfSignedRootCertificate_def enforceCrlsForAllCAs_def
  VerificationContext_new_def

lemma ctx_checked:
  "validityCheck (ctx_issuer i) = Inr ()" "validityCheck (ctx_chain r i) = Inr ()"
  "validityCheck (ctx_self_signed r i) = Inr ()" "validityCheck (ctx_not_self_signed i) = Inr ()"
  "validityCheck (ctx_revoked r i c) = Inr ()" "validityCheck (ctx_crl_missing r i c) = Inr ()"
  "validityCheck ((ctx_all_crls r i c d)\<lparr>verificationCheckTime := Some t\<rparr>) = Inr ()"
  by (simp_all add: validityCheck_def ctx_defs)

text \<open>\<open>verify\<close> with two lists of certificates is \<open>verify\<close> in the corresponding context.\<close>

lemma stores_contexts:
  "X509_verify_stores V [i] [] x = X509_verify V (ctx_issuer i) x"
  "X509_verify_stores V [r] [i] x = X509_verify V (ctx_chain r i) x"
  by (simp_all add: X509_verify_stores_def ctx_defs addTrustedCertificates_def addIntermediateCertificates_def)

text \<open>One block goes on exactly if the verdict is the expected one; otherwise the program ends.\<close>

lemma block_run:
  assumes "verify_laws V sc ac cc vv f0 accept" "validityCheck ctx = Inr ()"
  shows "snd (bindP (expect_valid a c s (X509_verify V ctx x)) f) =
       (if accept (verify_request f0 ctx x) then snd (f ()) else Exits EXIT_FAILURE)"
    "snd (bindP (expect_invalid a r cl (X509_verify V ctx x)) f) =
       (if \<not> accept (verify_request f0 ctx x) then snd (f ()) else Exits EXIT_FAILURE)"
proof -
  consider "accept (verify_request f0 ctx x)" "X509_verify V ctx x = Inr ()"
    | m where "\<not> accept (verify_request f0 ctx x)" "X509_verify V ctx x = Inl (MoCOCrWException m)"
    using X509_verify_verdict [OF assms] by blast
  note verdict = this
  from verdict show "snd (bindP (expect_valid a c s (X509_verify V ctx x)) f) =
      (if accept (verify_request f0 ctx x) then snd (f ()) else Exits EXIT_FAILURE)"
    by cases (simp_all add: expect_valid_def run_simps printP_def)
  from verdict show "snd (bindP (expect_invalid a r cl (X509_verify V ctx x)) f) =
      (if \<not> accept (verify_request f0 ctx x) then snd (f ()) else Exits EXIT_FAILURE)"
    by cases (simp_all add: expect_invalid_def run_simps printP_def)
qed

text \<open>
  With readable files, the program succeeds exactly if OpenSSL gives the expected verdict on all
  ten requests, and otherwise exits with a failure; it never ends with an exception.
\<close>

theorem validation_example_decides:
  assumes "verify_laws V sc ac cc vv f0 accept" "time_laws T secs" "Asn1Time_max T = Inr latest"
    and "X509_fromPEMFile B J ifstream ''root3.pem'' = Inr r" "X509_fromPEMFile B J ifstream ''root3.int1.pem'' = Inr i"
    and "X509_fromPEMFile B J ifstream ''root3.int1.int11.pem'' = Inr j"
    and "Crl_fromPEMFile B K ''root3.crl.pem'' = Inr rc" "Crl_fromPEMFile B K ''root3.int1.crl_otherentry.pem'' = Inr ic"
    and "X509_fromPEMFile B J ifstream ''root3.int1.cert.pem'' = Inr x"
    and "X509_fromPEMFile B J ifstream ''root1.cert1.pem'' = Inr y"
  shows "snd (validation_main V T B J K ifstream) =
     (if list_all (\<lambda>(ctx, c, expected). accept (verify_request f0 ctx c) = expected)
           (validation_checks r i rc ic x y (secs latest))
      then Returns EXIT_SUCCESS else Exits EXIT_FAILURE)"
proof -
  have t: "callS (setVerificationCheckTime T latest) ctx = returnP ((), ctx\<lparr>verificationCheckTime := Some (secs latest)\<rparr>)"
    for ctx :: "('x, 'r) VerificationContext"
    by (rule callS_Inr) (simp add: setVerificationCheckTime_def toTimeT_ok [OF assms(2)] bindS_def modifyS_def liftS_def)
  show ?thesis
    by (simp add: validation_main_def assms(3-10) run_simps stores_contexts block_run [OF assms(1) ctx_checked(1)]
        block_run [OF assms(1) ctx_checked(2)] block_run [OF assms(1) ctx_checked(3)] block_run [OF assms(1) ctx_checked(4)]
        block_run [OF assms(1) ctx_checked(5)] block_run [OF assms(1) ctx_checked(6)] block_run [OF assms(1) ctx_checked(7)]
        t validation_checks_def)
qed

end
