(* ===== verification/Ssl_Memory.thy ===== *)
theory Ssl_Memory
  imports Check_Call
begin

text \<open>
  The memory of OpenSSL objects as the library manages it: smart pointers with the deleters of
  \<open>src/src/mococrw/openssl_wrap.h\<close> and the output buffer of \<open>src/src/openssl_wrap.cpp\<close>.
  A step runs on an explicit memory; the result \<open>None\<close> is undefined behaviour: the use of an
  object that was freed, or freeing it again.
\<close>

section \<open>Objects\<close>

text \<open>
  An object has a number of references to it and holds references to other objects, which it
  gives up when it is freed.  Addresses from \<open>mem_next\<close> on were never handed out.  \<open>mem_var\<close> is
  the local \<open>std::unique_ptr\<close> of the function that runs, if it has one that is filled later.
\<close>

record memory =
  mem_next :: nat
  mem_objs :: "nat \<rightharpoonup> nat \<times> nat list"
  mem_var :: "nat option"

type_synonym 'a mem = "memory \<Rightarrow> ('a res \<times> memory) option"

text \<open>A pointer to an object, with the value the object has.\<close>

type_synonym 'v ptr = "nat \<times> 'v"

definition mem_wf :: "memory \<Rightarrow> bool" where
  "mem_wf m \<longleftrightarrow> (\<forall>a. mem_next m \<le> a \<longrightarrow> mem_objs m a = None)
     \<and> (\<forall>a n refs. mem_objs m a = Some (n, refs) \<longrightarrow> 0 < n)"

definition put :: "nat \<Rightarrow> (nat \<times> nat list) option \<Rightarrow> memory \<Rightarrow> memory" where
  "put a c m = m\<lparr>mem_objs := (mem_objs m)(a := c)\<rparr>"

lemma put_simps [simp]:
  "mem_objs (put a c m) = (mem_objs m)(a := c)" "mem_next (put a c m) = mem_next m" "mem_var (put a c m) = mem_var m"
  by (simp_all add: put_def)

text \<open>
  OpenSSL's functions that free an object give up one reference; with the last one the object
  is gone and so are its references to others.
\<close>

definition references :: "memory \<Rightarrow> nat" where
  "references m = (\<Sum>a < mem_next m. case mem_objs m a of None \<Rightarrow> 0 | Some (n, refs) \<Rightarrow> Suc n)"

lemma references_put:
  assumes "a < mem_next m" "mem_objs m a = Some (n, refs)"
    and "(case c of None \<Rightarrow> 0 | Some (k, rs) \<Rightarrow> Suc k) < Suc n"
  shows "references (put a c m) < references m"
  unfolding references_def put_simps
proof (rule sum_strict_mono_ex1)
  let ?f = "\<lambda>m x. case m x of None \<Rightarrow> 0 | Some (n, refs) \<Rightarrow> Suc n" and ?o = "mem_objs m"
  show "\<forall>x \<in> {..<mem_next m}. ?f (?o(a := c)) x \<le> ?f ?o x"
    using assms(2,3) by (auto split: option.splits)
  show "\<exists>x \<in> {..<mem_next m}. ?f (?o(a := c)) x < ?f ?o x"
    using assms by (intro bexI [of _ a]) auto
qed simp

function (sequential) drop_all :: "nat list \<Rightarrow> memory \<Rightarrow> memory option" where
  "drop_all [] m = Some m"
| "drop_all (a # as) m =
     (if mem_next m \<le> a then None
      else case mem_objs m a of
        None \<Rightarrow> None
      | Some (n, refs) \<Rightarrow>
          if n > 1 then drop_all as (put a (Some (n - 1, refs)) m)
          else drop_all (refs @ as) (put a None m))"
  by pat_completeness auto

termination
proof (relation "measure (\<lambda>(as, m). references m)")
  show "wf (measure (\<lambda>(as :: nat list, m). references m))" by simp
qed (auto intro: references_put)

definition SSL_free :: "nat \<Rightarrow> unit mem" where
  "SSL_free a m = Option.bind (drop_all [a] m) (\<lambda>m'. Some (Inr (), m'))"

section \<open>Steps\<close>

definition returnM :: "'a \<Rightarrow> 'a mem" where "returnM x m = Some (Inr x, m)"
definition liftM :: "'a res \<Rightarrow> 'a mem" where "liftM r m = Some (r, m)"

definition bindM :: "'a mem \<Rightarrow> ('a \<Rightarrow> 'b mem) \<Rightarrow> 'b mem" where
  "bindM f g m = Option.bind (f m) (\<lambda>(r, m'). case r of Inl e \<Rightarrow> Some (Inl e, m') | Inr x \<Rightarrow> g x m')"

text \<open>A destructor runs at the end of the scope, whether by an exception or not.\<close>

definition finallyM :: "'a mem \<Rightarrow> unit mem \<Rightarrow> 'a mem" where
  "finallyM f c m = Option.bind (f m) (\<lambda>(r, m'). Option.bind (c m') (\<lambda>(_, m''). Some (r, m'')))"

definition on_errorM :: "'a mem \<Rightarrow> unit mem \<Rightarrow> 'a mem" where
  "on_errorM f c m = Option.bind (f m) (\<lambda>(r, m'). case r of
     Inl e \<Rightarrow> Option.bind (c m') (\<lambda>(_, m''). Some (Inl e, m'')) | Inr x \<Rightarrow> Some (Inr x, m'))"

definition catchM :: "'a mem \<Rightarrow> (message \<Rightarrow> exn) \<Rightarrow> 'a mem" where
  "catchM f h m = Option.bind (f m) (\<lambda>(r, m'). Some (catchOpenSSL r h, m'))"

definition useM :: "nat \<Rightarrow> unit mem" where
  "useM a m = (if mem_objs m a = None then None else Some (Inr (), m))"

text \<open>
  A function of OpenSSL that returns a new object or a null pointer, in a checked call.  The
  new object holds references to the objects \<open>refs\<close>, which have to exist.
\<close>

definition up_ref :: "nat \<Rightarrow> memory \<Rightarrow> memory option" where
  "up_ref a m = (case mem_objs m a of None \<Rightarrow> None | Some (n, refs) \<Rightarrow> Some (put a (Some (Suc n, refs)) m))"

fun up_refs :: "nat list \<Rightarrow> memory \<Rightarrow> memory option" where
  "up_refs [] m = Some m"
| "up_refs (a # as) m = Option.bind (up_ref a m) (up_refs as)"

definition alloc :: "nat list \<Rightarrow> 'v \<Rightarrow> 'v ptr mem" where
  "alloc refs x m = Some (Inr (mem_next m, x),
     m\<lparr>mem_next := Suc (mem_next m), mem_objs := (mem_objs m)(mem_next m \<mapsto> (1, refs))\<rparr>)"

definition newM :: "nat list \<Rightarrow> 'v option \<Rightarrow> 'v ptr mem" where
  "newM refs v = bindM (liftM (OpensslCallPtr v)) (\<lambda>x m. Option.bind (up_refs refs m) (alloc refs x))"

text \<open>An object takes on one more reference: to an object it now owns, or shares.\<close>

definition take_over :: "nat \<Rightarrow> nat \<Rightarrow> unit mem" where
  "take_over a b m = (case mem_objs m a of None \<Rightarrow> None
     | Some (n, refs) \<Rightarrow> Some (Inr (), put a (Some (n, b # refs)) m))"

definition share :: "nat \<Rightarrow> nat \<Rightarrow> unit mem" where
  "share a b m = Option.bind (up_ref b m) (take_over a b)"

section \<open>Smart pointers\<close>

definition SSLDeleter :: "(nat \<Rightarrow> unit mem) \<Rightarrow> nat option \<Rightarrow> unit mem" where
  "SSLDeleter func p = (case p of None \<Rightarrow> returnM () | Some a \<Rightarrow> func a)"

definition SSLRetDeleter :: "(nat \<Rightarrow> 'r mem) \<Rightarrow> nat option \<Rightarrow> unit mem" where
  "SSLRetDeleter func p = (case p of None \<Rightarrow> returnM () | Some a \<Rightarrow> bindM (func a) (\<lambda>_. returnM ()))"

definition SSLFree :: "nat option \<Rightarrow> unit mem" where
  "SSLFree p = (case p of None \<Rightarrow> returnM () | Some a \<Rightarrow> SSL_free a)"

definition OpenSSLGuardedOutputBuffer_delete :: "nat option \<Rightarrow> unit mem" where
  "OpenSSLGuardedOutputBuffer_delete p = (case p of None \<Rightarrow> returnM () | Some a \<Rightarrow> SSL_free a)"

text \<open>
  A local \<open>std::unique_ptr\<close> that is initialised with a new object and lives to the end of the
  scope; one that is returned; one that is empty at first and filled by \<open>reset\<close>.
\<close>

definition scopeM :: "'v ptr mem \<Rightarrow> ('v ptr \<Rightarrow> 'a mem) \<Rightarrow> 'a mem" where
  "scopeM new body = bindM new (\<lambda>p. finallyM (body p) (SSLDeleter SSL_free (Some (fst p))))"

definition returnedM :: "'v ptr mem \<Rightarrow> ('v ptr \<Rightarrow> 'a mem) \<Rightarrow> 'a mem" where
  "returnedM new body = bindM new (\<lambda>p. on_errorM (body p) (SSLDeleter SSL_free (Some (fst p))))"

definition set_var :: "nat option \<Rightarrow> memory \<Rightarrow> memory" where
  "set_var v m = m\<lparr>mem_var := v\<rparr>"

definition varM :: "'a mem \<Rightarrow> 'a mem" where
  "varM body m =
     Option.bind (finallyM body (\<lambda>m'. SSLFree (mem_var m') m') (set_var None m)) (\<lambda>(r, m').
       Some (r, set_var (mem_var m) m'))"

definition resetM :: "nat \<Rightarrow> unit mem" where
  "resetM a m = bindM (\<lambda>m'. SSLFree (mem_var m') m') (\<lambda>_ m'. Some (Inr (), set_var (Some a) m')) m"

definition releaseM :: "unit mem" where
  "releaseM m = Some (Inr (), set_var None m)"

section \<open>Running a step\<close>

text \<open>
  \<open>run f m Q\<close>: \<open>f\<close> is defined on \<open>m\<close>, and \<open>Q\<close> holds of its result and the memory after
  it.  The rules execute a step from its first part on.
\<close>

definition run :: "'a mem \<Rightarrow> memory \<Rightarrow> ('a res \<Rightarrow> memory \<Rightarrow> bool) \<Rightarrow> bool" where
  "run f m Q \<longleftrightarrow> (case f m of None \<Rightarrow> False | Some (r, m') \<Rightarrow> Q r m')"

named_theorems mem_run \<open>rules that run a step on a memory\<close>

lemma mem_basic [mem_run]:
  "run (returnM x) m Q \<longleftrightarrow> Q (Inr x) m"
  "run (liftM r) m Q \<longleftrightarrow> Q r m"
  "run (bindM k g) m R \<longleftrightarrow> run k m (\<lambda>r m'. case r of Inl e \<Rightarrow> R (Inl e) m' | Inr y \<Rightarrow> run (g y) m' R)"
  "run (finallyM f c) m Q \<longleftrightarrow> run f m (\<lambda>r m'. run c m' (\<lambda>_. Q r))"
  "run (on_errorM f c) m Q \<longleftrightarrow> run f m (\<lambda>r m'. case r of Inl e \<Rightarrow> run c m' (\<lambda>_. Q (Inl e)) | Inr x \<Rightarrow> Q (Inr x) m')"
  "run (catchM f h) m Q \<longleftrightarrow> run f m (\<lambda>r. Q (catchOpenSSL r h))"
  "run (useM a) m U \<longleftrightarrow> mem_objs m a \<noteq> None \<and> U (Inr ()) m"
  by (auto simp: run_def returnM_def liftM_def bindM_def finallyM_def on_errorM_def catchM_def useM_def
      split: option.splits sum.splits Option.bind_splits)

lemma run_free [mem_run]:
  "run (SSL_free a) m Q \<longleftrightarrow> (case drop_all [a] m of None \<Rightarrow> False | Some m' \<Rightarrow> Q (Inr ()) m')"
  by (auto simp: run_def SSL_free_def split: option.splits Option.bind_splits)

lemma run_new [mem_run]:
  "run (newM refs v) m Q \<longleftrightarrow> (case v of None \<Rightarrow> Q (Inl OpenSSLException_default) m
     | Some x \<Rightarrow> (case up_refs refs m of None \<Rightarrow> False | Some m' \<Rightarrow> run (alloc refs x) m' Q))"
  by (auto simp: run_def newM_def bindM_def liftM_def split: option.splits Option.bind_splits)

lemma run_alloc [mem_run]:
  "run (alloc refs x) m Q \<longleftrightarrow> Q (Inr (mem_next m, x))
     (m\<lparr>mem_next := Suc (mem_next m), mem_objs := (mem_objs m)(mem_next m \<mapsto> (1, refs))\<rparr>)"
  by (simp add: run_def alloc_def)

lemma run_refs [mem_run]:
  "run (take_over a b) m Q \<longleftrightarrow> (case mem_objs m a of None \<Rightarrow> False
     | Some (n, refs) \<Rightarrow> Q (Inr ()) (put a (Some (n, b # refs)) m))"
  "run (share a b) m Q \<longleftrightarrow> (case up_ref b m of None \<Rightarrow> False | Some m' \<Rightarrow> run (take_over a b) m' Q)"
  by (auto simp: run_def take_over_def share_def split: option.splits Option.bind_splits)

lemma run_deleters [mem_run]:
  "run (SSLDeleter func None) m Q \<longleftrightarrow> Q (Inr ()) m" "run (SSLDeleter func (Some a)) m Q \<longleftrightarrow> run (func a) m Q"
  "run (SSLFree None) m Q \<longleftrightarrow> Q (Inr ()) m" "run (SSLFree (Some a)) m Q \<longleftrightarrow> run (SSL_free a) m Q"
  "run (OpenSSLGuardedOutputBuffer_delete None) m Q \<longleftrightarrow> Q (Inr ()) m"
  "run (OpenSSLGuardedOutputBuffer_delete (Some a)) m Q \<longleftrightarrow> run (SSL_free a) m Q"
  by (simp_all add: SSLDeleter_def SSLFree_def OpenSSLGuardedOutputBuffer_delete_def mem_run)

lemma run_scopes [mem_run]:
  "run (scopeM new body) m Q \<longleftrightarrow> run new m (\<lambda>r m'. case r of Inl e \<Rightarrow> Q (Inl e) m'
     | Inr p \<Rightarrow> run (body p) m' (\<lambda>r m''. run (SSL_free (fst p)) m'' (\<lambda>_. Q r)))"
  "run (returnedM new body) m Q \<longleftrightarrow> run new m (\<lambda>r m'. case r of Inl e \<Rightarrow> Q (Inl e) m'
     | Inr p \<Rightarrow> run (body p) m' (\<lambda>r m''. case r of Inl e \<Rightarrow> run (SSL_free (fst p)) m'' (\<lambda>_. Q (Inl e))
         | Inr x \<Rightarrow> Q (Inr x) m''))"
  by (simp_all add: scopeM_def returnedM_def mem_run cong: sum.case_cong)

lemma run_var [mem_run]:
  "run (varM body) m Q \<longleftrightarrow> run body (set_var None m) (\<lambda>r m'. run (SSLFree (mem_var m')) m' (\<lambda>_ m''.
     Q r (set_var (mem_var m) m'')))"
  "run (resetM a) m U \<longleftrightarrow> run (SSLFree (mem_var m)) m (\<lambda>r m'. case r of Inl e \<Rightarrow> U (Inl e) m'
     | Inr _ \<Rightarrow> U (Inr ()) (set_var (Some a) m'))"
  "run releaseM m U \<longleftrightarrow> U (Inr ()) (set_var None m)"
  by (auto simp: run_def varM_def resetM_def releaseM_def finallyM_def bindM_def
      split: option.splits sum.splits Option.bind_splits)

lemma set_var_simps [simp]:
  "mem_objs (set_var v m) = mem_objs m" "mem_next (set_var v m) = mem_next m" "mem_var (set_var v m) = v"
  by (simp_all add: set_var_def)

end
