(* ===== verification/Ssl_Ownership.thy ===== *)
theory Ssl_Ownership
  imports Ssl_Memory Ecdsa_Ctx Asn1_Integer
begin

text \<open>
  The functions that manage OpenSSL objects with smart pointers, once more with the memory
  they use: ECDSA signatures, elliptic curve keys, key agreement and serial numbers, in
  \<open>src/src/openssl_wrap.cpp\<close>, \<open>asymmetric_crypto_ctx.cpp\<close> and \<open>key.cpp\<close>.
  Each is shown to return what its definition without memory returns, never to use or free an
  object that is gone, and to give back everything it allocated on every path.
\<close>

section \<open>Serial numbers\<close>

definition mem_Asn1IntegerToInt64 :: "('i, 'n) int_lib \<Rightarrow> 'i \<Rightarrow> 64 word mem" where
  "mem_Asn1IntegerToInt64 I number =
     scopeM (newM [] (SSL_ASN1_INTEGER_new I)) (\<lambda>maxLong.
     scopeM (newM [] (SSL_ASN1_INTEGER_new I)) (\<lambda>zero.
     bindM (useM (fst zero)) (\<lambda>_.
     bindM (liftM (checkC OpensslCallIsOne (SSL_ASN1_INTEGER_set I (snd zero) 0))) (\<lambda>z.
     bindM (useM (fst maxLong)) (\<lambda>_.
     bindM (liftM (checkC OpensslCallIsOne (SSL_ASN1_INTEGER_set I (snd maxLong) LONG_MAX))) (\<lambda>l.
       if SSL_ASN1_INTEGER_cmp I number l > 0 \<or> SSL_ASN1_INTEGER_cmp I number z < 0
       then liftM (Inl err_number_range)
       else returnM (word_of_int (SSL_ASN1_INTEGER_get I number))))))))"

definition mem_Asn1IntegerToString :: "('i, 'n) int_lib \<Rightarrow> 'i \<Rightarrow> string mem" where
  "mem_Asn1IntegerToString I number =
     scopeM (newM [] (SSL_ASN1_INTEGER_to_BN I number)) (\<lambda>bnNumber.
     bindM (useM (fst bnNumber)) (\<lambda>_.
     scopeM (newM [] (SSL_BN_bn2dec I (snd bnNumber))) (\<lambda>strNumber.
     bindM (useM (fst strNumber)) (\<lambda>_. returnM (c_str (snd strNumber))))))"

definition mem_Asn1IntegerToBinary :: "('i, 'n) int_lib \<Rightarrow> 'i \<Rightarrow> bytes mem" where
  "mem_Asn1IntegerToBinary I number =
     scopeM (newM [] (SSL_ASN1_INTEGER_to_BN I number)) (\<lambda>bnNumber.
     bindM (useM (fst bnNumber)) (\<lambda>_.
     bindM (liftM (OpensslCallIsPositive (SSL_BN_num_bytes I (snd bnNumber)))) (\<lambda>n.
     bindM (useM (fst bnNumber)) (\<lambda>_.
     bindM (liftM (OpensslCallIsPositive (fst (SSL_BN_bn2bin I (snd bnNumber))))) (\<lambda>size.
       returnM (resize (overwrite (replicate (nat n) 0) (snd (SSL_BN_bn2bin I (snd bnNumber)))) (nat size)))))))"

section \<open>ECDSA signatures\<close>

definition mem_BN_bin2bn :: "('b, 's) ecsig_lib \<Rightarrow> bytes \<Rightarrow> nat \<Rightarrow> 'b ptr mem" where
  "mem_BN_bin2bn B data dataLen =
     (if int dataLen > INT_MAX
      then liftM (Inl (OpenSSLException [Str ''INT_MAX is the maximum supported size for BIGNUM'']))
      else newM [] (SSL_BN_bin2bn B data (int dataLen)))"

text \<open>OpenSSL allocates the buffer; the guard frees it whenever there is one.\<close>

definition mem_i2d_ECDSA_SIG :: "('b, 's) ecsig_lib \<Rightarrow> 's ptr \<Rightarrow> bytes mem" where
  "mem_i2d_ECDSA_SIG B sig =
     bindM (useM (fst sig)) (\<lambda>_.
     bindM (case snd (SSL_i2d_ECDSA_SIG B (snd sig)) of
              None \<Rightarrow> returnM None
            | Some b \<Rightarrow> bindM (alloc [] b) (\<lambda>p. returnM (Some p))) (\<lambda>outputBuffer.
     finallyM
       (let result = fst (SSL_i2d_ECDSA_SIG B (snd sig)) in
        if result \<le> 0
        then liftM (Inl (OpenSSLException [Str ''ECDSA Signature serialization to DER failed.'']))
        else (case outputBuffer of
                None \<Rightarrow> liftM (Inl (OpenSSLException
                  [Str ''ECDSA Signature serialization to DER failed: Returned no data'']))
              | Some p \<Rightarrow> bindM (useM (fst p)) (\<lambda>_. returnM (take (nat result) (snd p)))))
       (OpenSSLGuardedOutputBuffer_delete (map_option fst outputBuffer))))"

text \<open>
  The numbers are released to \<open>ECDSA_SIG_set0\<close>, which takes them over if it succeeds; if it
  does not, nobody owns them any more.
\<close>

definition mem_ECDSA_SIG_set0 :: "('b, 's) ecsig_lib \<Rightarrow> 's ptr \<Rightarrow> 'b ptr \<Rightarrow> 'b ptr \<Rightarrow> 's ptr mem" where
  "mem_ECDSA_SIG_set0 B sig r s =
     bindM (useM (fst sig)) (\<lambda>_.
     bindM (liftM (checkC OpensslCallIsOne (SSL_ECDSA_SIG_set0 B (snd sig) (snd r) (snd s)))) (\<lambda>sig'.
     bindM (take_over (fst sig) (fst s)) (\<lambda>_.
     bindM (take_over (fst sig) (fst r)) (\<lambda>_.
       returnM (fst sig, sig')))))"

text \<open>Up to the call of \<open>_ECDSA_SIG_set0\<close> the local pointers own the numbers.\<close>

definition mem_IEEE1363EcSignatureToAsn1ECSignature ::
  "('b, 's) ecsig_lib \<Rightarrow> bytes \<Rightarrow> nat \<Rightarrow> bytes mem" where
  "mem_IEEE1363EcSignatureToAsn1ECSignature B signature keySizeBytes =
     (if length signature \<noteq> 2 * keySizeBytes then liftM (Inl err_signature_size)
      else bindM
        (returnedM (mem_BN_bin2bn B signature keySizeBytes) (\<lambda>r.
         returnedM (mem_BN_bin2bn B (drop keySizeBytes signature) keySizeBytes) (\<lambda>s.
         bindM (newM [] (SSL_ECDSA_SIG_new B)) (\<lambda>ecdsa. returnM (r, s, ecdsa)))))
        (\<lambda>(r, s, ecdsa). finallyM
           (bindM (mem_ECDSA_SIG_set0 B ecdsa r s) (mem_i2d_ECDSA_SIG B))
           (SSLDeleter SSL_free (Some (fst ecdsa)))))"

text \<open>
  A signature read by OpenSSL owns its two numbers; \<open>get0\<close> returns a pointer to one of them.
\<close>

definition mem_d2i_ECDSA_SIG :: "('b, 's) ecsig_lib \<Rightarrow> bytes \<Rightarrow> 's ptr mem" where
  "mem_d2i_ECDSA_SIG B signature =
     bindM (newM [] (SSL_d2i_ECDSA_SIG B signature)) (\<lambda>sig.
     bindM (alloc [] ()) (\<lambda>s. bindM (take_over (fst sig) (fst s)) (\<lambda>_.
     bindM (alloc [] ()) (\<lambda>r. bindM (take_over (fst sig) (fst r)) (\<lambda>_. returnM sig)))))"

definition mem_get0 :: "nat \<Rightarrow> nat \<Rightarrow> 'b option \<Rightarrow> 'b ptr mem" where
  "mem_get0 sig i v m = (case mem_objs m sig of
     None \<Rightarrow> None
   | Some (n, refs) \<Rightarrow> if i < length refs then liftM (bindR (OpensslCallPtr v) (\<lambda>x. Inr (refs ! i, x))) m else None)"

definition mem_BN_bn2binpad :: "('b, 's) ecsig_lib \<Rightarrow> 'b ptr \<Rightarrow> int \<Rightarrow> bytes mem" where
  "mem_BN_bn2binpad B bignum tolen =
     bindM (useM (fst bignum)) (\<lambda>_. liftM (ossl_BN_bn2binpad B (snd bignum) tolen))"

definition mem_Asn1ECSignatureToIEEE1363EcSignature ::
  "('b, 's) ecsig_lib \<Rightarrow> bytes \<Rightarrow> nat \<Rightarrow> bytes mem" where
  "mem_Asn1ECSignatureToIEEE1363EcSignature B signature keySizeBytes =
     scopeM (mem_d2i_ECDSA_SIG B signature) (\<lambda>ecdsa.
     bindM (mem_get0 (fst ecdsa) 0 (SSL_ECDSA_SIG_get0_r B (snd ecdsa))) (\<lambda>r.
     bindM (mem_get0 (fst ecdsa) 1 (SSL_ECDSA_SIG_get0_s B (snd ecdsa))) (\<lambda>s.
     bindM (mem_BN_bn2binpad B r (to_int keySizeBytes)) (\<lambda>ieee.
     bindM (mem_BN_bn2binpad B s (to_int keySizeBytes)) (\<lambda>s_vec.
       returnM (ieee @ s_vec))))))"

section \<open>Keys\<close>

text \<open>
  \<open>_EVP_PKEY_keygen\<close> frees what a failed call left behind.  A key it returns is owned by the
  caller.
\<close>

definition mem_EVP_PKEY_keygen :: "('k, 'e, 'g, 'c) pkey_lib \<Rightarrow> nat \<Rightarrow> 'c ptr \<Rightarrow> 'k ptr option mem" where
  "mem_EVP_PKEY_keygen P rnd ctx =
     bindM (useM (fst ctx)) (\<lambda>_.
     bindM (case snd (SSL_EVP_PKEY_keygen P rnd (snd ctx)) of
              None \<Rightarrow> returnM None
            | Some k \<Rightarrow> bindM (alloc [] k) (\<lambda>p. returnM (Some p))) (\<lambda>ptr.
     on_errorM
       (bindM (liftM (OpensslCallIsOne (fst (SSL_EVP_PKEY_keygen P rnd (snd ctx))))) (\<lambda>_. returnM ptr))
       (case ptr of None \<Rightarrow> returnM () | Some p \<Rightarrow> SSL_free (fst p))))"

definition mem_EC_KEY_oct2key :: "('k, 'e, 'g, 'c) pkey_lib \<Rightarrow> int \<Rightarrow> bytes \<Rightarrow> 'e ptr mem" where
  "mem_EC_KEY_oct2key P nid buf =
     returnedM (newM [] (SSL_EC_KEY_new_by_curve_name P nid)) (\<lambda>key.
     bindM (useM (fst key)) (\<lambda>_.
     bindM (liftM (checkC OpensslCallIsOne (SSL_EC_KEY_oct2key P (snd key) buf))) (\<lambda>e. returnM (fst key, e))))"

text \<open>\<open>EVP_PKEY_set1_EC_KEY\<close> shares the key with the caller.\<close>

definition mem_EVP_PKEY_set1_EC_KEY :: "('k, 'e, 'g, 'c) pkey_lib \<Rightarrow> 'k ptr \<Rightarrow> 'e ptr \<Rightarrow> 'k ptr mem" where
  "mem_EVP_PKEY_set1_EC_KEY P pkey key =
     bindM (useM (fst pkey)) (\<lambda>_. bindM (useM (fst key)) (\<lambda>_.
     bindM (liftM (checkC OpensslCallIsOne (SSL_EVP_PKEY_set1_EC_KEY P (snd pkey) (snd key)))) (\<lambda>k.
     bindM (share (fst pkey) (fst key)) (\<lambda>_. returnM (fst pkey, k)))))"

definition mem_fromECPoint :: "('k, 'e, 'g, 'c) pkey_lib \<Rightarrow> ellipticCurveNid \<Rightarrow> bytes \<Rightarrow> 'k ptr mem" where
  "mem_fromECPoint P curve point =
     bindM (liftM (ensureEccCurveSupported curve)) (\<lambda>_.
     scopeM (mem_EC_KEY_oct2key P curve point) (\<lambda>ec_key.
     returnedM (newM [] (SSL_EVP_PKEY_new P)) (\<lambda>evp_key.
       mem_EVP_PKEY_set1_EC_KEY P evp_key ec_key)))"

text \<open>The octets are copied from a buffer of OpenSSL's, which is freed here without a guard.\<close>

definition mem_EC_KEY_key2buf :: "('k, 'e, 'g, 'c) pkey_lib \<Rightarrow> 'k ptr \<Rightarrow> int \<Rightarrow> bytes mem" where
  "mem_EC_KEY_key2buf P evp form =
     bindM (useM (fst evp)) (\<lambda>_.
     bindM (liftM (OpensslCallPtr (SSL_EVP_PKEY_get0_EC_KEY P (snd evp)))) (\<lambda>key.
       (let buf = SSL_EC_KEY_key2buf P key form in
        if buf = [] then liftM (Inl OpenSSLException_default)
        else bindM (alloc [] buf) (\<lambda>pbuf.
             bindM (useM (fst pbuf)) (\<lambda>_.
             bindM (SSL_free (fst pbuf)) (\<lambda>_. returnM (snd pbuf)))))))"

text \<open>The context holds references to both keys.\<close>

definition mem_EVP_derive_key :: "('k, 'e, 'g, 'c) pkey_lib \<Rightarrow> 'k ptr \<Rightarrow> 'k ptr \<Rightarrow> bytes mem" where
  "mem_EVP_derive_key P peerkey key =
     bindM (useM (fst key)) (\<lambda>_.
     scopeM (newM [fst key] (SSL_EVP_PKEY_CTX_new P (snd key))) (\<lambda>ctx.
     bindM (liftM (checkC OpensslCallIsOne (SSL_EVP_PKEY_derive_init P (snd ctx)))) (\<lambda>c.
     bindM (liftM (checkC OpensslCallIsOne (SSL_EVP_PKEY_derive_set_peer P c (snd peerkey)))) (\<lambda>c.
     bindM (share (fst ctx) (fst peerkey)) (\<lambda>_.
     bindM (liftM (checkC OpensslCallIsOne (SSL_EVP_PKEY_derive_len P c))) (\<lambda>secret_len.
     bindM (useM (fst ctx)) (\<lambda>_.
     bindM (liftM (checkC OpensslCallIsOne (SSL_EVP_PKEY_derive P c))) (\<lambda>out.
       returnM (overwrite (replicate secret_len 0) out)))))))))"

section \<open>Nothing leaks\<close>

text \<open>
  A step with result \<open>v\<close> that leaves the objects as they were; it may have used addresses
  that were free.
\<close>

definition kept :: "'a res \<Rightarrow> memory \<Rightarrow> 'a res \<Rightarrow> memory \<Rightarrow> bool" where
  "kept v m r m' \<longleftrightarrow> r = v \<and> mem_objs m' = mem_objs m \<and> mem_var m' = mem_var m \<and> mem_next m \<le> mem_next m'"

text \<open>
  A memory with one object more, to which no reference exists, and what an operation leaves
  when it keeps the memory or, in the situation \<open>L\<close>, may lose one object.
\<close>

definition lost :: "nat \<Rightarrow> memory \<Rightarrow> memory" where
  "lost b m = m\<lparr>mem_next := Suc b, mem_objs := (mem_objs m)(b \<mapsto> (1, []))\<rparr>"

lemma lost_simps [simp]:
  "mem_next (lost b m) = Suc b" "mem_objs (lost b m) = (mem_objs m)(b \<mapsto> (1, []))" "mem_var (lost b m) = mem_var m"
  by (simp_all add: lost_def)

definition kept_or_lost :: "bool \<Rightarrow> 'a res \<Rightarrow> memory \<Rightarrow> 'a res \<Rightarrow> memory \<Rightarrow> bool" where
  "kept_or_lost L v m r m' \<longleftrightarrow> kept v m r m' \<or> L \<and> (\<exists>b \<ge> mem_next m. kept v (lost b m) r m')"

text \<open>
  The numbers of a signature: a failure of \<open>ECDSA_SIG_set0\<close> is an error for the caller, and
  loses both.
\<close>

definition set0_refused :: "('b, 's) ecsig_lib \<Rightarrow> bool" where
  "set0_refused B \<longleftrightarrow> (\<exists>sig r s. fst (SSL_ECDSA_SIG_set0 B sig r s) \<noteq> 1)"

definition kept_or_numbers_lost :: "('b, 's) ecsig_lib \<Rightarrow> 'a res \<Rightarrow> memory \<Rightarrow> 'a res \<Rightarrow> memory \<Rightarrow> bool" where
  "kept_or_numbers_lost B v m r m' \<longleftrightarrow> kept v m r m'
     \<or> set0_refused B \<and> v = Inl OpenSSLException_default
       \<and> kept v (lost (Suc (mem_next m)) (lost (mem_next m) m)) r m'"

lemma mem_wf_fresh [simp]: "mem_wf m \<Longrightarrow> mem_next m \<le> a \<Longrightarrow> mem_objs m a = None"
  by (simp add: mem_wf_def)

lemma mem_wf_freed [simp]: "mem_wf m \<Longrightarrow> mem_next m \<le> a \<Longrightarrow> (mem_objs m)(a := None) = mem_objs m"
  by (simp add: fun_upd_idem)

lemma mem_wf_live: "mem_wf m \<Longrightarrow> mem_objs m a = Some c \<Longrightarrow> a < mem_next m \<and> 0 < fst c"
  by (cases c) (metis mem_wf_def fst_conv linorder_not_le option.distinct(1))

lemma kept_wf: "mem_wf m \<Longrightarrow> kept v m r m' \<Longrightarrow> mem_wf m'"
  unfolding mem_wf_def kept_def by (metis le_trans)

lemma mem_Asn1Integer:
  assumes "mem_wf m"
  shows "run (mem_Asn1IntegerToInt64 I i) m (kept (Asn1IntegerToInt64 I i) m)"
    and "run (mem_Asn1IntegerToString I i) m (kept (Asn1IntegerToString I i) m)"
    and "run (mem_Asn1IntegerToBinary I i) m (kept (Asn1IntegerToBinary I i) m)"
  using assms
  by (auto simp: mem_Asn1IntegerToInt64_def mem_Asn1IntegerToString_def mem_Asn1IntegerToBinary_def
      Asn1IntegerToInt64_def Asn1IntegerToString_def Asn1IntegerToBinary_def create_ASN1_INTEGER_def
      mem_run kept_def checkC_def split: option.splits sum.splits)

lemma run_get0 [mem_run]:
  "run (mem_get0 sig i v) m Q \<longleftrightarrow> (case mem_objs m sig of None \<Rightarrow> False
     | Some (n, refs) \<Rightarrow> i < length refs \<and> Q (bindR (OpensslCallPtr v) (\<lambda>x. Inr (refs ! i, x))) m)"
  by (auto simp: run_def mem_get0_def liftM_def split: option.splits)

lemma mem_ECDSA_read:
  assumes "mem_wf m"
  shows "run (mem_Asn1ECSignatureToIEEE1363EcSignature B sig n) m (kept (Asn1ECSignatureToIEEE1363EcSignature B sig n) m)"
proof -
  note defs = mem_Asn1ECSignatureToIEEE1363EcSignature_def Asn1ECSignatureToIEEE1363EcSignature_def
    mem_d2i_ECDSA_SIG_def mem_BN_bn2binpad_def ossl_d2i_ECDSA_SIG_def ossl_ECDSA_SIG_get0_r_def
    ossl_ECDSA_SIG_get0_s_def mem_run kept_def
  show ?thesis
  proof (cases "SSL_d2i_ECDSA_SIG B sig")
    case None
    with assms show ?thesis by (simp add: defs)
  next
    case d: (Some x)
    show ?thesis
    proof (cases "SSL_ECDSA_SIG_get0_r B x")
      case None
      with d assms show ?thesis by (simp add: defs)
    next
      case r: (Some r)
      show ?thesis
        using assms d r
        by (cases "SSL_ECDSA_SIG_get0_s B x"; cases "ossl_BN_bn2binpad B r (to_int n)";
            cases "ossl_BN_bn2binpad B (the (SSL_ECDSA_SIG_get0_s B x)) (to_int n)") (simp_all add: defs)
    qed
  qed
qed

lemma mem_i2d:
  assumes "mem_wf m" "mem_objs m a \<noteq> None"
  shows "run (mem_i2d_ECDSA_SIG B (a, s)) m (kept (ossl_i2d_ECDSA_SIG B s) m)"
  using assms
  by (auto simp: mem_i2d_ECDSA_SIG_def ossl_i2d_ECDSA_SIG_def mem_run kept_def Let_def split: option.splits sum.splits prod.splits)

lemma mem_ECDSA_write:
  assumes "mem_wf m"
  shows "run (mem_IEEE1363EcSignatureToAsn1ECSignature B sig n) m
     (kept_or_numbers_lost B (IEEE1363EcSignatureToAsn1ECSignature B sig n) m)"
  using assms
  by (auto simp: mem_IEEE1363EcSignatureToAsn1ECSignature_def IEEE1363EcSignatureToAsn1ECSignature_def
      mem_BN_bin2bn_def mem_ECDSA_SIG_set0_def mem_i2d_ECDSA_SIG_def mem_run ossl_simps checkC_def kept_def Let_def
      kept_or_numbers_lost_def set0_refused_def
      split: option.splits sum.splits prod.splits)

lemma mem_keygen:
  assumes "mem_wf m" "mem_objs m a \<noteq> None"
  shows "run (mem_EVP_PKEY_keygen P rnd (a, c)) m (\<lambda>r m'. case r of
       Inl e \<Rightarrow> kept (ossl_EVP_PKEY_keygen P rnd c) m (Inl e) m'
     | Inr p \<Rightarrow> ossl_EVP_PKEY_keygen P rnd c = Inr (map_option snd p)
         \<and> (case p of None \<Rightarrow> mem_objs m' = mem_objs m
            | Some q \<Rightarrow> mem_objs m (fst q) = None \<and> mem_objs m' = (mem_objs m)(fst q \<mapsto> (1, []))))"
  using assms
  by (auto simp: mem_EVP_PKEY_keygen_def ossl_EVP_PKEY_keygen_def checkC_def mem_run kept_def
      split: option.splits sum.splits prod.splits)

text \<open>A new object the caller owns: freeing it gives back all that was allocated.\<close>

definition owned_result :: "'v res \<Rightarrow> memory \<Rightarrow> 'v ptr res \<Rightarrow> memory \<Rightarrow> bool" where
  "owned_result v m r m' \<longleftrightarrow> (case r of
       Inl e \<Rightarrow> kept v m (Inl e) m'
     | Inr p \<Rightarrow> v = Inr (snd p) \<and> mem_objs m (fst p) = None \<and> mem_var m' = mem_var m
         \<and> run (SSL_free (fst p)) m' (\<lambda>_ m''. mem_objs m'' = mem_objs m))"

lemma mem_ECPoint:
  assumes "mem_wf m"
  shows "run (mem_fromECPoint P nid pt) m (owned_result (fromECPoint P nid pt) m)"
proof (cases "ensureEccCurveSupported nid")
  case (Inl e)
  then show ?thesis by (simp add: mem_fromECPoint_def fromECPoint_def mem_run owned_result_def kept_def)
next
  case e: (Inr u)
  note defs = mem_fromECPoint_def fromECPoint_def mem_EC_KEY_oct2key_def mem_EVP_PKEY_set1_EC_KEY_def
    ossl_simps checkC_def up_ref_def mem_run owned_result_def kept_def
  show ?thesis
  proof (cases "SSL_EC_KEY_new_by_curve_name P nid")
    case None
    with e assms show ?thesis by (simp add: defs)
  next
    case (Some k)
    with e assms show ?thesis
      by (cases "SSL_EVP_PKEY_new P"; cases "fst (SSL_EC_KEY_oct2key P k pt) = 1";
          cases "fst (SSL_EVP_PKEY_set1_EC_KEY P (the (SSL_EVP_PKEY_new P)) (snd (SSL_EC_KEY_oct2key P k pt))) = 1")
        (simp_all add: defs)
  qed
qed

lemma mem_key2buf:
  assumes "mem_wf m" "mem_objs m a \<noteq> None"
  shows "run (mem_EC_KEY_key2buf P (a, k) form) m (kept (ossl_EC_KEY_key2buf P k form) m)"
  using assms
  by (auto simp: mem_EC_KEY_key2buf_def ossl_EC_KEY_key2buf_def mem_run kept_def Let_def
      split: option.splits sum.splits)

text \<open>
  Freeing a context gives back its references: to its key only, or to the peer's as well.
\<close>

lemma free_context:
  assumes "mem_wf m" "mem_objs m a = Some (n, refs)" "mem_next m < mem_next m'" "mem_var m' = mem_var m"
    "mem_objs m' = (mem_objs m)(a \<mapsto> (Suc n, refs), mem_next m \<mapsto> (1, [a]))"
  shows "run (SSL_free (mem_next m)) m' (\<lambda>_. kept v m v)"
  using assms mem_wf_live [OF assms(1,2)] by (simp add: mem_run kept_def fun_upd_idem)

lemma free_context_peer:
  assumes "mem_wf m" "mem_objs m a = Some (n, refs)" "mem_objs m b = Some (l, refs')"
    "mem_next m < mem_next m'" "mem_var m' = mem_var m"
    "mem_objs m' = (if a = b then (mem_objs m)(a \<mapsto> (Suc (Suc n), refs), mem_next m \<mapsto> (1, [a, a]))
      else (mem_objs m)(a \<mapsto> (Suc n, refs), b \<mapsto> (Suc l, refs'), mem_next m \<mapsto> (1, [b, a])))"
  shows "run (SSL_free (mem_next m)) m' (\<lambda>_. kept v m v)"
  using assms mem_wf_live [OF assms(1,2)] mem_wf_live [OF assms(1,3)]
  by (cases "a = b") (simp_all add: mem_run kept_def fun_upd_idem)

lemma mem_derive:
  assumes "mem_wf m" "mem_objs m a = Some (n, refs)" "mem_objs m b = Some (l, refs')"
  shows "run (mem_EVP_derive_key P (b, peer) (a, k)) m (kept (ossl_EVP_derive_key P peer k) m)"
proof -
  note defs = mem_EVP_derive_key_def ossl_EVP_derive_key_def checkC_def up_ref_def mem_basic run_new run_alloc
    run_refs run_scopes
  note free = free_context [OF assms(1,2)] free_context_peer [OF assms]
  have live: "a < mem_next m" "b < mem_next m"
    using mem_wf_live [OF assms(1,2)] mem_wf_live [OF assms(1,3)] by simp_all
  show ?thesis
  proof (cases "SSL_EVP_PKEY_CTX_new P k")
    case None
    with assms show ?thesis by (simp add: defs kept_def)
  next
    case (Some c)
    let ?i = "SSL_EVP_PKEY_derive_init P c"
    let ?s = "SSL_EVP_PKEY_derive_set_peer P (snd ?i) peer"
    show ?thesis
    proof (cases "fst ?i = 1 \<and> fst ?s = 1")
      case False
      with assms(2) live Some show ?thesis
        by (cases "fst ?i = 1") (simp_all add: defs free)
    next
      case True
      with assms(2,3) live Some show ?thesis
        by (cases "fst (SSL_EVP_PKEY_derive_len P (snd ?s)) = 1"; cases "fst (SSL_EVP_PKEY_derive P (snd ?s)) = 1")
          (auto simp add: defs fun_upd_twist intro!: free)
    qed
  qed
qed

end
