(* ===== verification/Ssl_Rsa.thy ===== *)
theory Ssl_Rsa
  imports Ssl_Ownership
begin

text \<open>
  The memory of RSA operations, \<open>src/src/asymmetric_crypto_ctx.cpp\<close> and
  \<open>padding_mode.cpp\<close>: contexts that share the key, output buffers in a \<open>std::unique_ptr\<close>
  that is filled between the two calls of an operation, and the label of OAEP, which the
  context takes over.
\<close>

section \<open>Operations\<close>

text \<open>
  The wrapper accepts every status that is not negative, OpenSSL takes the label over if the
  status is positive; after 0 nobody owns it.
\<close>

definition mem_OAEPPadding_set_label :: "'c pctx_lib \<Rightarrow> string \<Rightarrow> 'c ptr \<Rightarrow> 'c ptr mem" where
  "mem_OAEPPadding_set_label C label ctx =
     (if label \<noteq> [] then
        bindM (newM [] (SSL_OPENSSL_malloc C (to_int (length label)))) (\<lambda>label_copy.
        bindM (resetM (fst label_copy)) (\<lambda>_.
        bindM (useM (fst label_copy)) (\<lambda>_.
        bindM (liftM (ossl_EVP_PKEY_CTX_set_rsa_oaep_label C (overwrite (snd label_copy) (string_bytes label))
            (to_int (length label)) (snd ctx))) (\<lambda>c.
        bindM (if fst (SSL_EVP_PKEY_CTX_set_rsa_oaep_label C (snd ctx) (overwrite (snd label_copy) (string_bytes label))
                 (to_int (length label))) > 0
               then take_over (fst ctx) (fst label_copy) else returnM ()) (\<lambda>_.
        bindM releaseM (\<lambda>_. returnM (fst ctx, c)))))))
      else returnM ctx)"

definition mem_OAEPPadding_prepareOpenSSLContext ::
  "'c pctx_lib \<Rightarrow> DigestTypes \<Rightarrow> MaskGenerationFunction \<Rightarrow> string \<Rightarrow> 'c ptr \<Rightarrow> 'c ptr mem" where
  "mem_OAEPPadding_prepareOpenSSLContext C hashFunction mgf label ctx =
     varM (catchM
       (bindM (useM (fst ctx)) (\<lambda>_.
        bindM (liftM (ossl_EVP_PKEY_CTX_set_rsa_padding C (padding_value RSA_OAEP) (snd ctx))) (\<lambda>c.
        bindM (liftM (getMDPtrFromDigestType hashFunction)) (\<lambda>md.
        bindM (liftM (ossl_EVP_PKEY_CTX_set_rsa_oaep_md C md c)) (\<lambda>c.
        bindM (liftM (MGF1_prepareOpenSSLContext C mgf c)) (\<lambda>c.
          mem_OAEPPadding_set_label C label (fst ctx, c)))))))
       MoCOCrWException)"

text \<open>The other paddings only set parameters of the context.\<close>

fun mem_prepare_encryption :: "'c pctx_lib \<Rightarrow> RSAEncryptionPadding \<Rightarrow> 'c ptr \<Rightarrow> 'c ptr mem" where
  "mem_prepare_encryption C (OAEPPadding h g l) ctx = mem_OAEPPadding_prepareOpenSSLContext C h g l ctx"
| "mem_prepare_encryption C p ctx =
     bindM (useM (fst ctx)) (\<lambda>_. bindM (liftM (prepare_encryption C p (snd ctx))) (\<lambda>c. returnM (fst ctx, c)))"

definition mem_signHelper :: "'c pctx_lib \<Rightarrow> nat \<Rightarrow> 'c ptr \<Rightarrow> bytes \<Rightarrow> bytes mem" where
  "mem_signHelper C rnd keyCtx toBeSigned =
     varM (bindM (useM (fst keyCtx)) (\<lambda>_.
     bindM (liftM (ossl_EVP_PKEY_sign_len C (snd keyCtx) toBeSigned)) (\<lambda>sigLen.
     bindM (newM [] (SSL_OPENSSL_malloc C (to_int sigLen))) (\<lambda>buf.
     bindM (resetM (fst buf)) (\<lambda>_.
     bindM (useM (fst keyCtx)) (\<lambda>_.
     bindM (liftM (ossl_EVP_PKEY_sign C rnd (snd keyCtx) toBeSigned)) (\<lambda>out.
     bindM (useM (fst buf)) (\<lambda>_. returnM (filled (snd buf) out)))))))))"

text \<open>
  The context lives to the end of the \<open>try\<close> block, the buffer to the end of the function; the
  result is copied from the buffer in between.
\<close>

definition mem_two_calls ::
  "'c pctx_lib \<Rightarrow> 'c ptr \<Rightarrow> nat res \<Rightarrow> bytes res \<Rightarrow> (bytes ptr \<times> bytes) mem" where
  "mem_two_calls C keyCtx len_call call =
     bindM (useM (fst keyCtx)) (\<lambda>_.
     bindM (liftM len_call) (\<lambda>len.
     bindM (newM [] (SSL_OPENSSL_malloc C (to_int len))) (\<lambda>buf.
     bindM (resetM (fst buf)) (\<lambda>_.
     bindM (useM (fst keyCtx)) (\<lambda>_.
     bindM (liftM call) (\<lambda>out. returnM (buf, out)))))))"

definition mem_copied :: "(bytes ptr \<times> bytes) mem \<Rightarrow> bytes mem" where
  "mem_copied f = varM (bindM (catchM f MoCOCrWException) (\<lambda>(buf, out).
     bindM (useM (fst buf)) (\<lambda>_. returnM (filled (snd buf) out))))"

definition mem_RSA_encrypt ::
  "('k, 'e, 'g, 'c) pkey_lib \<Rightarrow> 'c pctx_lib \<Rightarrow> nat \<Rightarrow> ('k, RSAEncryptionPadding) RSAImpl \<Rightarrow> nat \<Rightarrow> bytes \<Rightarrow> bytes mem" where
  "mem_RSA_encrypt P C rnd E key message =
     mem_copied (scopeM (newM [key] (SSL_EVP_PKEY_CTX_new P (rsa_key E))) (\<lambda>keyCtx.
       bindM (liftM (RSA_check_message P C E message)) (\<lambda>_.
       bindM (liftM (ossl_EVP_PKEY_encrypt_init C (snd keyCtx))) (\<lambda>c.
       bindM (mem_prepare_encryption C (rsa_padding E) (fst keyCtx, c)) (\<lambda>keyCtx.
         mem_two_calls C keyCtx (ossl_EVP_PKEY_encrypt_len C (snd keyCtx) message)
           (ossl_EVP_PKEY_encrypt C rnd (snd keyCtx) message))))))"

definition mem_RSA_decrypt ::
  "('k, 'e, 'g, 'c) pkey_lib \<Rightarrow> 'c pctx_lib \<Rightarrow> ('k, RSAEncryptionPadding) RSAImpl \<Rightarrow> nat \<Rightarrow> bytes \<Rightarrow> bytes mem" where
  "mem_RSA_decrypt P C D key message =
     mem_copied (scopeM (newM [key] (SSL_EVP_PKEY_CTX_new P (rsa_key D))) (\<lambda>keyCtx.
       bindM (liftM (ossl_EVP_PKEY_decrypt_init C (snd keyCtx))) (\<lambda>c.
       bindM (mem_prepare_encryption C (rsa_padding D) (fst keyCtx, c)) (\<lambda>keyCtx.
         mem_two_calls C keyCtx (ossl_EVP_PKEY_decrypt_len C (snd keyCtx) message)
           (ossl_EVP_PKEY_decrypt C (snd keyCtx) message)))))"

definition mem_RSA_signDigest ::
  "('k, 'e, 'g, 'c) pkey_lib \<Rightarrow> 'c pctx_lib \<Rightarrow> 'k RSASignatureImpl \<Rightarrow> nat \<Rightarrow> nat \<Rightarrow> bytes \<Rightarrow> bytes mem" where
  "mem_RSA_signDigest P C S rnd key messageDigest =
     bindM (liftM (check_digest (rsa_hashFunction S) messageDigest)) (\<lambda>_.
     catchM (scopeM (newM [key] (SSL_EVP_PKEY_CTX_new P (rsa_key S))) (\<lambda>keyCtx.
       bindM (liftM (ossl_EVP_PKEY_sign_init C (snd keyCtx))) (\<lambda>c.
       bindM (liftM (prepare_signature C (rsa_padding S) (rsa_hashFunction S) c)) (\<lambda>c.
         mem_signHelper C rnd (fst keyCtx, c) messageDigest))))
       MoCOCrWException)"

section \<open>Nothing leaks\<close>

lemma run_conseq: "run f m P \<Longrightarrow> (\<And>r m'. P r m' \<Longrightarrow> Q r m') \<Longrightarrow> run f m Q"
  by (auto simp: run_def split: option.splits)

text \<open>OpenSSL refuses a label of the padding with the status 0.\<close>

definition label_refused :: "'c pctx_lib \<Rightarrow> string \<Rightarrow> bool" where
  "label_refused C label \<longleftrightarrow> label \<noteq> []
     \<and> (\<exists>c x. fst (SSL_EVP_PKEY_CTX_set_rsa_oaep_label C c x (to_int (length label))) = 0)"

fun padding_refused :: "'c pctx_lib \<Rightarrow> RSAEncryptionPadding \<Rightarrow> bool" where
  "padding_refused C (OAEPPadding h g label) = label_refused C label"
| "padding_refused C p = False"

text \<open>
  A prepared context: at its old address, with at most one more object, which it owns, or which
  is lost.
\<close>

definition prepared :: "bool \<Rightarrow> nat \<Rightarrow> 'c res \<Rightarrow> memory \<Rightarrow> 'c ptr res \<Rightarrow> memory \<Rightarrow> bool" where
  "prepared L a v m r m' \<longleftrightarrow> mem_var m' = mem_var m \<and> mem_next m \<le> mem_next m' \<and> (case r of
       Inl e \<Rightarrow> v = Inl e \<and> mem_objs m' = mem_objs m
     | Inr p \<Rightarrow> fst p = a \<and> v = Inr (snd p) \<and> (mem_objs m' = mem_objs m \<or>
         (\<exists>b n refs. mem_next m \<le> b \<and> b < mem_next m' \<and> mem_objs m a = Some (n, refs)
            \<and> mem_objs m' = (mem_objs m)(b \<mapsto> (1, []), a \<mapsto> (n, b # refs)))
         \<or> L \<and> (\<exists>b. mem_next m \<le> b \<and> b < mem_next m' \<and> mem_objs m' = (mem_objs m)(b \<mapsto> (1, [])))))"

lemma label_kept:
  assumes "mem_wf m" "mem_objs m a = Some (n, refs)" "mem_var m = None"
  shows "run (mem_OAEPPadding_set_label C label (a, c)) m (\<lambda>r m'. run (SSLFree (mem_var m')) m' (\<lambda>_ m''.
     prepared (label_refused C label) a (OAEPPadding_set_label C label c) m r (set_var None m'')))"
proof (cases "label = []")
  case True
  then show ?thesis
    using assms by (simp add: mem_OAEPPadding_set_label_def OAEPPadding_set_label_def mem_run prepared_def)
next
  case False
  note defs = mem_OAEPPadding_set_label_def OAEPPadding_set_label_def ossl_OPENSSL_malloc_def
    ossl_EVP_PKEY_CTX_set_rsa_oaep_label_def checkC_def mem_run prepared_def
  show ?thesis
  proof (cases "SSL_OPENSSL_malloc C (to_int (length label))")
    case None
    with False assms show ?thesis by (simp add: defs)
  next
    case (Some b)
    let ?rv = "fst (SSL_EVP_PKEY_CTX_set_rsa_oaep_label C c (overwrite b (string_bytes label)) (to_int (length label)))"
    have live: "a < mem_next m" "0 < n" using mem_wf_live [OF assms(1,2)] by simp_all
    consider "?rv < 0" | "?rv > 0" | "?rv = 0" by linarith
    then show ?thesis
    proof cases
      case 3
      with False have "label_refused C label" by (auto simp: label_refused_def)
      with 3 Some False assms live show ?thesis by (auto simp add: defs intro!: exI [of _ "mem_next m"])
    qed (use Some False assms live in \<open>auto simp add: defs intro!: exI [of _ "mem_next m"]\<close>)
  qed
qed

lemma prepared_catch: "prepared L a v m r m' \<Longrightarrow> prepared L a (catchOpenSSL v h) m (catchOpenSSL r h) m'"
  by (auto simp: prepared_def catchOpenSSL_def split: sum.splits exn.splits)

lemma prepared_var: "prepared L a v (set_var None m) r m' \<Longrightarrow> prepared L a v m r (set_var (mem_var m) m')"
  by (auto simp: prepared_def split: sum.splits)

lemma set_var_twice [simp]: "set_var u (set_var v m) = set_var u m"
  by (simp add: set_var_def)

lemma mem_wf_var [simp]: "mem_wf (set_var v m) = mem_wf m"
  by (simp only: mem_wf_def set_var_simps)

lemma prepared_error: "prepared L a (Inl e) m (Inl e) m' \<longleftrightarrow>
    mem_objs m' = mem_objs m \<and> mem_var m' = mem_var m \<and> mem_next m \<le> mem_next m'"
  by (auto simp: prepared_def)

lemma mem_OAEP:
  assumes "mem_wf m" "mem_objs m a = Some (n, refs)"
  shows "run (mem_OAEPPadding_prepareOpenSSLContext C h g l (a, c)) m
    (prepared (label_refused C l) a (OAEPPadding_prepareOpenSSLContext C h g l c) m)"
proof -
  let ?m = "set_var None m"
  let ?body = "bindM (useM a) (\<lambda>_.
        bindM (liftM (ossl_EVP_PKEY_CTX_set_rsa_padding C (padding_value RSA_OAEP) c)) (\<lambda>c.
        bindM (liftM (getMDPtrFromDigestType h)) (\<lambda>md.
        bindM (liftM (ossl_EVP_PKEY_CTX_set_rsa_oaep_md C md c)) (\<lambda>c.
        bindM (liftM (MGF1_prepareOpenSSLContext C g c)) (\<lambda>c. mem_OAEPPadding_set_label C l (a, c))))))"
  let ?v = "bindR (ossl_EVP_PKEY_CTX_set_rsa_padding C (padding_value RSA_OAEP) c) (\<lambda>c.
        bindR (getMDPtrFromDigestType h) (\<lambda>md.
        bindR (ossl_EVP_PKEY_CTX_set_rsa_oaep_md C md c) (\<lambda>c.
        bindR (MGF1_prepareOpenSSLContext C g c) (\<lambda>c. OAEPPadding_set_label C l c))))"
  have wf: "mem_wf ?m" "mem_objs ?m a = Some (n, refs)" "mem_var ?m = None"
    using assms(1,2) by simp_all
  note label = label_kept [OF wf, of C l]
  have "run ?body ?m (\<lambda>r m'. run (SSLFree (mem_var m')) m' (\<lambda>_ m''. prepared (label_refused C l) a ?v ?m r (set_var None m'')))"
    using wf(2) label by (simp add: mem_run bindR_def prepared_error split: sum.split)
  then show ?thesis
    unfolding mem_OAEPPadding_prepareOpenSSLContext_def OAEPPadding_prepareOpenSSLContext_def run_var(1) mem_basic(6)
      fst_conv snd_conv
    by (elim run_conseq) (auto dest!: prepared_catch [THEN prepared_var] elim!: run_conseq)
qed

lemma mem_prepare:
  assumes "mem_wf m" "mem_objs m a = Some (n, refs)"
  shows "run (mem_prepare_encryption C p (a, c)) m (prepared (padding_refused C p) a (prepare_encryption C p c) m)"
proof (cases p)
  case (OAEPPadding h g l)
  then show ?thesis using mem_OAEP [OF assms] by simp
qed (use assms(2) in \<open>auto simp: mem_run prepared_def split: sum.splits\<close>)

text \<open>
  What holds after the \<open>try\<close> block of a function: its value, and that the buffer is there to be
  copied and is all that is left to free.
\<close>

definition buffered :: "memory \<Rightarrow> bytes res \<Rightarrow> (bytes ptr \<times> bytes) res \<Rightarrow> memory \<Rightarrow> bool" where
  "buffered m v r m' \<longleftrightarrow> (case r of Inl e \<Rightarrow> True | Inr (buf, out) \<Rightarrow> mem_objs m' (fst buf) \<noteq> None)
     \<and> run (SSLFree (mem_var m')) m' (\<lambda>_ m''. mem_objs m'' = mem_objs m \<and> mem_next m \<le> mem_next m'')
     \<and> v = map_sum id (\<lambda>(buf, out). filled (snd buf) out) r"

lemma buffered_done:
  assumes "buffered m v r m'" "\<And>r m''. kept (catchOpenSSL v MoCOCrWException) m r (set_var (mem_var m) m'') \<Longrightarrow> Q r m''"
  shows "case catchOpenSSL r MoCOCrWException of
        Inl e \<Rightarrow> run (SSLFree (mem_var m')) m' (\<lambda>_ m''. Q (Inl e) m'')
      | Inr y \<Rightarrow> run (case y of (buf, out) \<Rightarrow> bindM (useM (fst buf)) (\<lambda>_. returnM (filled (snd buf) out))) m'
          (\<lambda>r m'. run (SSLFree (mem_var m')) m' (\<lambda>_ m''. Q r m''))"
proof (cases r)
  case (Inl e)
  with assms(1) show ?thesis
    by (cases e) (auto simp: buffered_def kept_def intro!: assms(2) elim!: run_conseq)
next
  case (Inr p)
  with assms(1) show ?thesis
    by (cases p) (auto simp: buffered_def kept_def mem_basic intro!: assms(2) elim!: run_conseq)
qed

definition buffered_or_lost :: "bool \<Rightarrow> memory \<Rightarrow> bytes res \<Rightarrow> (bytes ptr \<times> bytes) res \<Rightarrow> memory \<Rightarrow> bool" where
  "buffered_or_lost L m v r m' \<longleftrightarrow> buffered m v r m' \<or> L \<and> (\<exists>b \<ge> mem_next m. buffered (lost b m) v r m')"

lemma buffered_copied:
  assumes "run f (set_var None m) (buffered_or_lost L m v)"
  shows "run (mem_copied f) m (kept_or_lost L (catchOpenSSL v MoCOCrWException) m)"
proof -
  let ?Q = "\<lambda>r m''. kept_or_lost L (catchOpenSSL v MoCOCrWException) m r (set_var (mem_var m) m'')"
  have "run (bindM (catchM f MoCOCrWException) (\<lambda>(buf, out). bindM (useM (fst buf)) (\<lambda>_. returnM (filled (snd buf) out))))
      (set_var None m) (\<lambda>r m'. run (SSLFree (mem_var m')) m' (\<lambda>_ m''. ?Q r m''))"
    unfolding mem_basic(3,6)
  proof (rule run_conseq [OF assms])
    fix r m' assume "buffered_or_lost L m v r m'"
    then consider "buffered m v r m'" | b where "L" "mem_next m \<le> b" "buffered (lost b m) v r m'"
      by (auto simp: buffered_or_lost_def)
    then show "case catchOpenSSL r MoCOCrWException of
        Inl e \<Rightarrow> run (SSLFree (mem_var m')) m' (\<lambda>_ m''. ?Q (Inl e) m'')
      | Inr y \<Rightarrow> run (case y of (buf, out) \<Rightarrow> bindM (useM (fst buf)) (\<lambda>_. returnM (filled (snd buf) out))) m'
          (\<lambda>r m'. run (SSLFree (mem_var m')) m' (\<lambda>_ m''. ?Q r m''))"
    proof cases
      case 1
      then show ?thesis by (rule buffered_done) (simp add: kept_or_lost_def)
    next
      case (2 b)
      show ?thesis by (rule buffered_done [OF 2(3)]) (use 2(1,2) in \<open>auto simp: kept_or_lost_def\<close>)
    qed
  qed
  then show ?thesis by (simp only: mem_copied_def run_var(1))
qed

lemma mem_two_calls_freed:
  fixes C :: "'c pctx_lib"
  assumes "mem_wf m" "mem_objs m k = Some (n, refs)" "mem_objs m a = None" "a < mem_next m'" "mem_var m' = None"
    and "mem_next m \<le> mem_next m'"
    and "mem_objs m' = (mem_objs m)(k \<mapsto> (Suc n, refs), a \<mapsto> (1, [k]))
      \<or> (\<exists>b. b \<noteq> a \<and> mem_objs m b = None \<and> b < mem_next m'
           \<and> mem_objs m' = (mem_objs m)(k \<mapsto> (Suc n, refs), b \<mapsto> (1, []), a \<mapsto> (1, [b, k])))"
  shows "run (mem_two_calls C (a, c) len_call call) m' (\<lambda>r m''. run (SSL_free a) m'' (\<lambda>_.
     buffered m (bindR len_call (\<lambda>len. bindR (ossl_OPENSSL_malloc C (to_int len)) (\<lambda>buf.
       bindR call (\<lambda>out. Inr (filled buf out))))) r))"
proof -
  have k: "k < mem_next m" "0 < n" "a \<noteq> k" using mem_wf_live [OF assms(1,2)] assms(2,3) by auto
  have b: "b \<noteq> k" if "mem_objs m b = None" for b using that assms(2) by auto
  note defs = mem_two_calls_def ossl_OPENSSL_malloc_def buffered_def mem_run fun_upd_idem
  show ?thesis
  proof (cases len_call)
    case (Inl e)
    with assms k b show ?thesis by (auto simp: defs)
  next
    case (Inr len)
    with assms k b show ?thesis
      by (cases "SSL_OPENSSL_malloc C (to_int len)"; cases call) (auto simp: defs)
  qed
qed

lemma mem_wf_upd:
  assumes "mem_wf m" "a < mem_next m'" "mem_next m \<le> mem_next m'" "0 < fst c" "mem_objs m' = (mem_objs m)(a \<mapsto> c)"
  shows "mem_wf m'"
  unfolding mem_wf_def assms(5)
proof (intro conjI allI impI)
  fix b assume "mem_next m' \<le> b"
  then have "b \<noteq> a" "mem_next m \<le> b" using assms(2,3) by simp_all
  then show "((mem_objs m)(a \<mapsto> c)) b = None" using assms(1) by simp
next
  fix b n refs assume "((mem_objs m)(a \<mapsto> c)) b = Some (n, refs)"
  then show "0 < n" using assms(4) mem_wf_live [OF assms(1), of b] by (auto split: if_splits)
qed

text \<open>
  A new context that shares the key: what is left when it is freed, and the part of an
  operation that runs with it.
\<close>

definition shared :: "memory \<Rightarrow> nat \<Rightarrow> nat \<times> nat list \<Rightarrow> memory \<Rightarrow> bool" where
  "shared m k cell m' \<longleftrightarrow> mem_objs m' = (mem_objs m)(k \<mapsto> (Suc (fst cell), snd cell), mem_next m \<mapsto> (1, [k]))
     \<and> mem_next m < mem_next m'"

lemma shared_error:
  assumes "mem_wf m" "mem_objs m k = Some (n, refs)" "shared m k (n, refs) m'" "mem_var m' = None"
  shows "run (SSL_free (mem_next m)) m' (\<lambda>_. buffered m (Inl e) (Inl e))"
  using assms mem_wf_live [OF assms(1,2)] by (auto simp: shared_def mem_run buffered_def fun_upd_idem)

lemma shared_wf:
  assumes "mem_wf m" "mem_objs m k = Some (n, refs)" "shared m k (n, refs) m'"
  shows "mem_wf m'"
proof -
  let ?m = "(put k (Some (Suc n, refs)) m)\<lparr>mem_next := Suc (mem_next m)\<rparr>"
  have "mem_wf ?m"
    by (rule mem_wf_upd [OF assms(1), of k _ "(Suc n, refs)"]) (use mem_wf_live [OF assms(1,2)] in simp_all)
  then show ?thesis
    by (rule mem_wf_upd [of _ "mem_next m" _ "(1, [k])"]) (use assms(3) in \<open>simp_all add: shared_def\<close>)
qed

lemma lost_wf: "mem_wf m \<Longrightarrow> mem_next m \<le> b \<Longrightarrow> mem_wf (lost b m)"
  by (rule mem_wf_upd [of m b _ "(1, [])"]) simp_all

lemma mem_prepared_op:
  fixes C :: "'c pctx_lib"
  assumes "mem_wf m" "mem_objs m k = Some (n, refs)" "shared m k (n, refs) m1" "mem_var m1 = None"
  shows "run (bindM (mem_prepare_encryption C pad (mem_next m, c)) (\<lambda>keyCtx.
         mem_two_calls C keyCtx (len (snd keyCtx)) (call (snd keyCtx)))) m1 (\<lambda>r m'. run (SSL_free (mem_next m)) m' (\<lambda>_.
       buffered_or_lost (padding_refused C pad) m (bindR (prepare_encryption C pad c) (\<lambda>c. bindR (len c) (\<lambda>l.
         bindR (ossl_OPENSSL_malloc C (to_int l)) (\<lambda>buf. bindR (call c) (\<lambda>out. Inr (filled buf out)))))) r))"
    (is "run _ m1 (\<lambda>r m'. ?free r m')")
  unfolding mem_basic(3)
proof (rule run_conseq [OF mem_prepare])
  let ?a = "mem_next m"
  show "mem_wf m1" "mem_objs m1 ?a = Some (1, [k])"
    using shared_wf [OF assms(1,2,3)] assms(3) by (simp_all add: shared_def)
  have k: "k < ?a" using mem_wf_live [OF assms(1,2)] by simp
  fix r m' assume p: "prepared (padding_refused C pad) ?a (prepare_encryption C pad c) m1 r m'"
  show "case r of Inl e \<Rightarrow> ?free (Inl e) m' | Inr y \<Rightarrow> run (mem_two_calls C y (len (snd y)) (call (snd y))) m' ?free"
  proof (cases r)
    case (Inl e)
    with p have "shared m k (n, refs) m'" "mem_var m' = None" using assms(3,4) by (auto simp: prepared_def shared_def)
    with p Inl shared_error [OF assms(1,2), of m' e] show ?thesis
      by (auto simp: prepared_def buffered_or_lost_def elim: run_conseq)
  next
    case (Inr y)
    then have y: "y = (?a, snd y)" "prepare_encryption C pad c = Inr (snd y)"
      and m': "mem_var m' = None" "?a < mem_next m'"
      using p assms(3,4) by (auto simp: prepared_def shared_def prod_eq_iff)
    note calls = mem_two_calls_freed [where a = ?a and m' = m' and k = k and n = n and refs = refs and C = C
        and c = "snd y" and len_call = "len (snd y)" and call = "call (snd y)"]
    have weaken: "run (mem_two_calls C y (len (snd y)) (call (snd y))) m' ?free"
      if "run (mem_two_calls C (?a, snd y) (len (snd y)) (call (snd y))) m' (\<lambda>r m''. run (SSL_free ?a) m'' (\<lambda>_.
          buffered m2 (bindR (len (snd y)) (\<lambda>l. bindR (ossl_OPENSSL_malloc C (to_int l)) (\<lambda>buf.
            bindR (call (snd y)) (\<lambda>out. Inr (filled buf out))))) r))"
        "m2 = m \<or> padding_refused C pad \<and> (\<exists>b \<ge> ?a. m2 = lost b m)" for m2
      using that(1) y(2) that(2) unfolding y(1) [symmetric]
      by (auto simp: buffered_or_lost_def elim!: run_conseq)
    consider "mem_objs m' = mem_objs m1"
      | b where "Suc ?a \<le> b" "b < mem_next m'" "mem_objs m' = (mem_objs m1)(b \<mapsto> (1, []), ?a \<mapsto> (1, [b, k]))"
      | b where "Suc ?a \<le> b" "b < mem_next m'" "mem_objs m' = (mem_objs m1)(b \<mapsto> (1, []))" "padding_refused C pad"
    proof -
      have next1: "?a < mem_next m1" "mem_objs m1 ?a = Some (1, [k])" using assms(3) by (simp_all add: shared_def)
      from p Inr consider "mem_objs m' = mem_objs m1"
        | b where "mem_next m1 \<le> b" "b < mem_next m'" "mem_objs m' = (mem_objs m1)(b \<mapsto> (1, []), ?a \<mapsto> (1, [b, k]))"
        | b where "mem_next m1 \<le> b" "b < mem_next m'" "mem_objs m' = (mem_objs m1)(b \<mapsto> (1, []))" "padding_refused C pad"
        using next1(2) unfolding prepared_def by auto
      then show thesis
      proof cases
        case 1
        then show thesis by (rule that(1))
      next
        case (2 b)
        show thesis by (rule that(2) [OF _ 2(2,3)]) (use 2(1) next1(1) in simp)
      next
        case (3 b)
        show thesis by (rule that(3) [OF _ 3(2-4)]) (use 3(1) next1(1) in simp)
      qed
    qed
    moreover have fresh: "mem_objs m ?a = None" and next0: "mem_next m \<le> mem_next m'"
      using assms(1) m'(2) by simp_all
    ultimately have "run (mem_two_calls C y (len (snd y)) (call (snd y))) m' ?free"
    proof cases
      case 1
      then have objs: "mem_objs m' = (mem_objs m)(k \<mapsto> (Suc n, refs), ?a \<mapsto> (1, [k]))"
        using assms(3) by (simp add: shared_def)
      show ?thesis
        by (rule weaken [OF calls [OF assms(1,2) fresh m'(2,1) next0 disjI1 [OF objs]]]) simp
    next
      case (2 b)
      then have objs: "\<exists>b. b \<noteq> ?a \<and> mem_objs m b = None \<and> b < mem_next m'
          \<and> mem_objs m' = (mem_objs m)(k \<mapsto> (Suc n, refs), b \<mapsto> (1, []), ?a \<mapsto> (1, [b, k]))"
        using assms(1,3) by (intro exI [of _ b]) (auto simp: shared_def fun_eq_iff)
      show ?thesis
        by (rule weaken [OF calls [OF assms(1,2) fresh m'(2,1) next0 disjI2 [OF objs]]]) simp
    next
      case (3 b)
      then have objs: "mem_objs m' = (mem_objs (lost b m))(k \<mapsto> (Suc n, refs), ?a \<mapsto> (1, [k]))"
        using assms(3) k by (auto simp: shared_def fun_eq_iff)
      have cells: "mem_objs (lost b m) k = Some (n, refs)" "mem_objs (lost b m) ?a = None"
          "mem_next (lost b m) \<le> mem_next m'"
        using assms(2) fresh 3(1,2) k by simp_all
      have wf: "mem_wf (lost b m)" using lost_wf [OF assms(1), of b] 3(1) by simp
      show ?thesis
        by (rule weaken [OF calls [OF wf cells(1,2) m'(2,1) cells(3) disjI1 [OF objs]]])
          (rule disjI2, use 3(1,4) in \<open>auto intro!: exI [of _ b]\<close>)
    qed
    then show ?thesis using Inr by simp
  qed
qed

lemma mem_rsa_op:
  fixes C :: "'c pctx_lib" and v :: "'c option"
  assumes "mem_wf m" "mem_objs m k = Some (n, refs)"
  shows "run (mem_copied (scopeM (newM [k] v) (\<lambda>keyCtx.
       bindM (liftM (first (snd keyCtx))) (\<lambda>c.
       bindM (mem_prepare_encryption C pad (fst keyCtx, c)) (\<lambda>keyCtx.
         mem_two_calls C keyCtx (len (snd keyCtx)) (call (snd keyCtx))))))) m
     (kept_or_lost (padding_refused C pad) (catchOpenSSL (bindR (OpensslCallPtr v) (\<lambda>c. bindR (first c) (\<lambda>c.
        bindR (prepare_encryption C pad c) (\<lambda>c. bindR (len c) (\<lambda>l. bindR (ossl_OPENSSL_malloc C (to_int l)) (\<lambda>buf.
        bindR (call c) (\<lambda>out. Inr (filled buf out)))))))) MoCOCrWException) m)"
proof (rule buffered_copied, goal_cases)
  case 1
  let ?m = "(put k (Some (Suc n, refs)) (set_var None m))\<lparr>mem_next := Suc (mem_next m),
      mem_objs := (mem_objs m)(k \<mapsto> (Suc n, refs), mem_next m \<mapsto> (1, [k]))\<rparr>"
  have sh: "shared m k (n, refs) ?m" "mem_var ?m = None" by (simp_all add: shared_def)
  have err: "run (SSL_free (mem_next m)) ?m (\<lambda>_. buffered_or_lost L m (Inl e) (Inl e))" for L e
    by (rule run_conseq [OF shared_error [OF assms sh, of e]]) (simp add: buffered_or_lost_def)
  note run = mem_prepared_op [OF assms sh] err
  show ?case
  proof (cases v)
    case None
    with assms show ?thesis by (simp add: mem_run buffered_or_lost_def buffered_def)
  next
    case (Some c)
    then show ?thesis
      using assms(2) mem_wf_live [OF assms] run
      by (cases "first c") (simp_all add: run_scopes run_new run_alloc mem_basic(2,3) up_ref_def)
  qed
qed

lemma mem_sign:
  assumes "mem_wf m" "mem_objs m a \<noteq> None"
  shows "run (mem_signHelper C rnd (a, c) d) m (kept (signHelper C rnd c d) m)"
proof (cases "ossl_EVP_PKEY_sign_len C c d")
  case (Inl e)
  with assms show ?thesis by (auto simp: mem_signHelper_def signHelper_def mem_run kept_def)
next
  case (Inr len)
  with assms show ?thesis
    by (cases "SSL_OPENSSL_malloc C (to_int len)"; cases "ossl_EVP_PKEY_sign C rnd c d")
      (auto simp: mem_signHelper_def signHelper_def ossl_OPENSSL_malloc_def mem_run kept_def)
qed

lemma bind_lifted: "bindM (liftM r) (\<lambda>x. bindM (liftM (f x)) g) = bindM (liftM (bindR r f)) g"
  by (cases r) (simp_all add: fun_eq_iff bindM_def liftM_def)

lemma mem_RSA:
  assumes "mem_wf m" "mem_objs m k = Some (n, refs)"
  shows "run (mem_RSA_encrypt P C rnd E k d) m
      (kept_or_lost (padding_refused C (rsa_padding E)) (RSA_encrypt P C rnd E d) m)"
    and "run (mem_RSA_decrypt P C E k d) m
      (kept_or_lost (padding_refused C (rsa_padding E)) (RSA_decrypt P C E d) m)"
proof -
  have "run (mem_RSA_encrypt P C rnd E k d) m (kept_or_lost (padding_refused C (rsa_padding E))
      (catchOpenSSL (bindR (OpensslCallPtr (SSL_EVP_PKEY_CTX_new P (rsa_key E))) (\<lambda>c.
      bindR (bindR (RSA_check_message P C E d) (\<lambda>_. ossl_EVP_PKEY_encrypt_init C c)) (\<lambda>c.
      bindR (prepare_encryption C (rsa_padding E) c) (\<lambda>c. bindR (ossl_EVP_PKEY_encrypt_len C c d) (\<lambda>l.
      bindR (ossl_OPENSSL_malloc C (to_int l)) (\<lambda>buf. bindR (ossl_EVP_PKEY_encrypt C rnd c d) (\<lambda>out.
        Inr (filled buf out)))))))) MoCOCrWException) m)"
    unfolding mem_RSA_encrypt_def bind_lifted by (rule mem_rsa_op [OF assms])
  then show "run (mem_RSA_encrypt P C rnd E k d) m
      (kept_or_lost (padding_refused C (rsa_padding E)) (RSA_encrypt P C rnd E d) m)"
    by (simp add: RSA_encrypt_def ossl_EVP_PKEY_CTX_new_def bindR_assoc)
  show "run (mem_RSA_decrypt P C E k d) m
      (kept_or_lost (padding_refused C (rsa_padding E)) (RSA_decrypt P C E d) m)"
    unfolding mem_RSA_decrypt_def RSA_decrypt_def ossl_EVP_PKEY_CTX_new_def by (rule mem_rsa_op [OF assms])
qed

lemma kept_catch: "run f m (kept v m) \<Longrightarrow> run (catchM f h) m (kept (catchOpenSSL v h) m)"
  unfolding mem_basic(6) by (elim run_conseq) (simp add: kept_def)

text \<open>A scope with a context that shares a key: the key is as before when the context is gone.\<close>

lemma mem_shared_scope:
  fixes v :: "'c option" and w :: "'c \<Rightarrow> 'r res"
  assumes "mem_wf m" "mem_objs m k = Some (n, refs)"
    and "\<And>c m'. mem_wf m' \<Longrightarrow> mem_objs m' (mem_next m) \<noteq> None \<Longrightarrow> run (body (mem_next m, c)) m' (kept (w c) m')"
  shows "run (scopeM (newM [k] v) body) m (kept (bindR (OpensslCallPtr v) w) m)"
proof (cases v)
  case None
  then show ?thesis by (simp add: mem_run kept_def)
next
  case (Some c)
  have k: "k < mem_next m" "0 < n" using mem_wf_live [OF assms(1,2)] by simp_all
  let ?a = "mem_next m"
  let ?m = "(put k (Some (Suc n, refs)) m)\<lparr>mem_next := Suc ?a,
      mem_objs := (mem_objs m)(k \<mapsto> (Suc n, refs), ?a \<mapsto> (1, [k]))\<rparr>"
  have wf: "mem_wf ?m" by (rule shared_wf [OF assms(1,2)]) (simp add: shared_def)
  have "run (body (?a, c)) ?m (\<lambda>r m'. run (SSL_free ?a) m' (\<lambda>_. kept (w c) m r))"
  proof (rule run_conseq [OF assms(3) [OF wf]])
    fix r m' assume "kept (w c) ?m r m'"
    then have r: "r = w c" and objs: "mem_objs m' = mem_objs ?m"
      and next_addr: "mem_next ?m \<le> mem_next m'" and var: "mem_var m' = mem_var m"
      by (simp_all add: kept_def)
    show "run (SSL_free ?a) m' (\<lambda>_. kept (w c) m r)"
      using objs next_addr var k assms(1,2) by (auto simp: r mem_run kept_def fun_upd_idem)
  qed simp
  with Some k assms(2) show ?thesis
    by (simp add: run_scopes run_new run_alloc up_ref_def)
qed

lemma mem_RSA_sign:
  assumes "mem_wf m" "mem_objs m k = Some (n, refs)"
  shows "run (mem_RSA_signDigest P C S rnd k d) m (kept (RSA_signDigest P C S rnd d) m)"
proof -
  let ?init = "\<lambda>c. bindR (ossl_EVP_PKEY_sign_init C c) (\<lambda>c. prepare_signature C (rsa_padding S) (rsa_hashFunction S) c)"
  have body: "run (bindM (liftM (?init c)) (\<lambda>c. mem_signHelper C rnd (a, c) d)) m'
      (kept (bindR (?init c) (\<lambda>c. signHelper C rnd c d)) m')"
    if "mem_wf m'" "mem_objs m' a \<noteq> None" for m' a and c
    using mem_sign [OF that] by (cases "?init c") (simp_all add: mem_basic kept_def)
  have "run (catchM (scopeM (newM [k] (SSL_EVP_PKEY_CTX_new P (rsa_key S))) (\<lambda>keyCtx.
       bindM (liftM (?init (snd keyCtx))) (\<lambda>c. mem_signHelper C rnd (fst keyCtx, c) d))) MoCOCrWException) m
     (kept (catchOpenSSL (bindR (OpensslCallPtr (SSL_EVP_PKEY_CTX_new P (rsa_key S)))
       (\<lambda>c. bindR (?init c) (\<lambda>c. signHelper C rnd c d))) MoCOCrWException) m)"
    by (rule kept_catch [OF mem_shared_scope [OF assms]]) (simp add: body)
  then show ?thesis
    unfolding mem_RSA_signDigest_def RSA_signDigest_def ossl_EVP_PKEY_CTX_new_def bind_lifted
    by (cases "check_digest (rsa_hashFunction S) d") (simp_all add: mem_basic kept_def bindR_assoc)
qed

section \<open>The operations give back what they take\<close>

lemma set0_failure_leaks:
  assumes "mem_wf m" "length sig = 2 * w" "int w \<le> INT_MAX" "SSL_BN_bin2bn B sig (int w) = Some r"
    "SSL_BN_bin2bn B (drop w sig) (int w) = Some s" "SSL_ECDSA_SIG_new B = Some e" "fst (SSL_ECDSA_SIG_set0 B e r s) = 0"
  shows "run (mem_IEEE1363EcSignatureToAsn1ECSignature B sig w) m (\<lambda>v m'. v = Inl OpenSSLException_default
     \<and> mem_objs m' = (mem_objs m)(mem_next m \<mapsto> (1, []), Suc (mem_next m) \<mapsto> (1, [])))"
  using assms
  by (simp add: fun_upd_idem mem_IEEE1363EcSignatureToAsn1ECSignature_def mem_BN_bin2bn_def mem_ECDSA_SIG_set0_def
      checkC_def mem_run not_less ossl_simps)

lemma label_refused_leaks:
  assumes "mem_wf m" "mem_objs m a \<noteq> None" "mem_var m = None" "label \<noteq> []"
    "SSL_OPENSSL_malloc C (to_int (length label)) = Some b"
    "fst (SSL_EVP_PKEY_CTX_set_rsa_oaep_label C c (overwrite b (string_bytes label)) (to_int (length label))) = 0"
  shows "run (mem_OAEPPadding_set_label C label (a, c)) m (\<lambda>v m'. (\<exists>p. v = Inr p)
     \<and> mem_var m' = None \<and> mem_objs m' = (mem_objs m)(mem_next m \<mapsto> (1, [])))"
  using assms
  by (auto simp: mem_OAEPPadding_set_label_def ossl_EVP_PKEY_CTX_set_rsa_oaep_label_def checkC_def mem_run)

text \<open>
  C16: Memory safety of the operations that handle OpenSSL objects, whatever OpenSSL returns.
  With the keys alive, RSA encryption, decryption and signing, both conversions of ECDSA
  signatures, key agreement, the octets of a key and the conversions of serial numbers run
  without touching or freeing an object that is gone, and return exactly the results of the
  definitions without memory.  On success and after every exception they leave the very
  objects, with the very reference counts, that were there before, with two exceptions: RSA
  encryption and decryption with a label may lose one object, the copy of the label, if OpenSSL
  refuses a label with the status 0, and the conversion of a raw signature loses the two
  numbers if \<open>ECDSA_SIG_set0\<close> fails, after which it throws.  A public key made from a point is
  one new object of the caller, and freeing it gives back all that was allocated for it.
\<close>

theorem operations_give_memory_back:
  assumes "mem_wf m" "mem_objs m k = Some (n, refs)" "mem_objs m peer = Some (l, refs')"
  shows "run (mem_RSA_encrypt P C rnd E k d) m
      (kept_or_lost (padding_refused C (rsa_padding E)) (RSA_encrypt P C rnd E d) m)
    \<and> run (mem_RSA_decrypt P C E k d) m
      (kept_or_lost (padding_refused C (rsa_padding E)) (RSA_decrypt P C E d) m)
    \<and> run (mem_RSA_signDigest P C S rnd k d) m (kept (RSA_signDigest P C S rnd d) m)
    \<and> run (mem_IEEE1363EcSignatureToAsn1ECSignature B sig w) m
      (kept_or_numbers_lost B (IEEE1363EcSignatureToAsn1ECSignature B sig w) m)
    \<and> run (mem_Asn1ECSignatureToIEEE1363EcSignature B sig w) m (kept (Asn1ECSignatureToIEEE1363EcSignature B sig w) m)
    \<and> run (mem_EVP_derive_key P (peer, pk) (k, sk)) m (kept (ossl_EVP_derive_key P pk sk) m)
    \<and> run (mem_EC_KEY_key2buf P (k, sk) form) m (kept (ossl_EC_KEY_key2buf P sk form) m)
    \<and> run (mem_Asn1IntegerToInt64 I i) m (kept (Asn1IntegerToInt64 I i) m)
    \<and> run (mem_Asn1IntegerToString I i) m (kept (Asn1IntegerToString I i) m)
    \<and> run (mem_Asn1IntegerToBinary I i) m (kept (Asn1IntegerToBinary I i) m)
    \<and> run (mem_fromECPoint P curve pt) m (owned_result (fromECPoint P curve pt) m)"
proof (intro conjI)
  show "run (mem_EC_KEY_key2buf P (k, sk) form) m (kept (ossl_EC_KEY_key2buf P sk form) m)"
    using assms(2) by (intro mem_key2buf [OF assms(1)]) simp
qed (rule mem_RSA [OF assms(1,2)] mem_RSA_sign [OF assms(1,2)] mem_ECDSA_read [OF assms(1)] mem_ECDSA_write [OF assms(1)]
    mem_derive [OF assms] mem_Asn1Integer [OF assms(1)] mem_ECPoint [OF assms(1)])+

definition ref_memory :: memory where
  "ref_memory = \<lparr>mem_next = 2, mem_objs = [0 \<mapsto> (1, []), 1 \<mapsto> (3, [0])], mem_var = None\<rparr>"

lemma ref_memory_wf: "mem_wf ref_memory"
  by (auto simp: mem_wf_def ref_memory_def split: if_splits)

lemma ref_ownership: "\<not> label_refused ref_pctx_lib l" "\<not> set0_refused ref_ecsig_lib"
  by (simp_all add: label_refused_def set0_refused_def ref_pctx_lib_def ref_set_def ref_ecsig_lib_def)

theorem operations_give_memory_back_witness:
  "run (mem_RSA_encrypt ref_asym_lib ref_pctx_lib 0 \<lparr>rsa_key = ref_rsa, rsa_padding = OAEPPadding SHA256 (MGF1 SHA1) ''l''\<rparr> 1 [1])
     ref_memory (\<lambda>r m'. mem_objs m' = mem_objs ref_memory)
   \<and> run (mem_IEEE1363EcSignatureToAsn1ECSignature ref_ecsig_lib [1, 2] 1) ref_memory (\<lambda>r m'. mem_objs m' = mem_objs ref_memory)"
proof -
  have k: "mem_objs ref_memory 1 = Some (3, [0])" "mem_objs ref_memory 0 = Some (1, [])"
    by (simp_all add: ref_memory_def)
  note all = operations_give_memory_back [OF ref_memory_wf k, where P = ref_asym_lib and C = ref_pctx_lib and rnd = 0 and d = "[1]"
      and E = "\<lparr>rsa_key = ref_rsa, rsa_padding = OAEPPadding SHA256 (MGF1 SHA1) ''l''\<rparr>" and sig = "[1, 2]" and w = 1
      and B = ref_ecsig_lib]
  show ?thesis
    using all [THEN conjunct1] all [THEN conjunct2, THEN conjunct2, THEN conjunct2, THEN conjunct1]
    by (auto elim!: run_conseq simp: kept_def kept_or_lost_def kept_or_numbers_lost_def ref_ownership)
qed

end
