(* ===== verification/Key_Wiping.thy ===== *)
theory Key_Wiping
  imports Ecies_Props
begin

text \<open>
  Secrets in memory: \<open>vectorCleanse\<close> and \<open>Finally\<close> of \<open>src/src/mococrw/util.h\<close> and the
  functions of \<open>src/src/ecies.cpp\<close> and \<open>symmetric_crypto.cpp\<close> that use them.  Vectors have
  storage; what a vector held when its storage was given back stays there to be read.
\<close>

section \<open>Vectors with storage\<close>

record vectors =
  vec_next :: nat
  vec_live :: "nat \<rightharpoonup> bytes"
  vec_freed :: "bytes list"

text \<open>\<open>None\<close> is undefined behaviour: a vector that is gone, or an access outside its range.\<close>

type_synonym 'a vec = "vectors \<Rightarrow> ('a res \<times> vectors) option"

definition liftV :: "'a res \<Rightarrow> 'a vec" where "liftV r m = Some (r, m)"

definition bindV :: "'a vec \<Rightarrow> ('a \<Rightarrow> 'b vec) \<Rightarrow> 'b vec" where
  "bindV f g m = Option.bind (f m) (\<lambda>(r, m'). case r of Inl e \<Rightarrow> Some (Inl e, m') | Inr x \<Rightarrow> g x m')"

definition vec_new :: "bytes \<Rightarrow> nat vec" where
  "vec_new xs m = Some (Inr (vec_next m), m\<lparr>vec_next := Suc (vec_next m), vec_live := (vec_live m)(vec_next m \<mapsto> xs)\<rparr>)"

definition vec_get :: "nat \<Rightarrow> bytes vec" where
  "vec_get a m = Option.bind (vec_live m a) (\<lambda>xs. Some (Inr xs, m))"

definition vec_set :: "nat \<Rightarrow> bytes \<Rightarrow> vectors \<Rightarrow> vectors" where
  "vec_set a xs m = m\<lparr>vec_live := (vec_live m)(a \<mapsto> xs)\<rparr>"

text \<open>Assigning a temporary gives the old storage back; the temporary's is taken over.\<close>

definition vec_assign :: "nat \<Rightarrow> bytes \<Rightarrow> unit vec" where
  "vec_assign a xs m = Option.bind (vec_live m a) (\<lambda>old.
     Some (Inr (), (vec_set a xs m)\<lparr>vec_freed := old # vec_freed m\<rparr>))"

text \<open>Moving leaves the source empty.\<close>

definition vec_move :: "nat \<Rightarrow> nat vec" where
  "vec_move a m = Option.bind (vec_live m a) (\<lambda>xs. vec_new xs (vec_set a [] m))"

definition vec_delete :: "nat \<Rightarrow> unit vec" where
  "vec_delete a m = Option.bind (vec_live m a) (\<lambda>xs.
     Some (Inr (), m\<lparr>vec_live := (vec_live m)(a := None), vec_freed := xs # vec_freed m\<rparr>))"

text \<open>\<open>std::copy\<close> from the range \<open>i\<close> to \<open>j\<close> of a vector to the begin of another.\<close>

definition std_copy :: "nat \<Rightarrow> nat \<Rightarrow> nat \<Rightarrow> nat \<Rightarrow> unit vec" where
  "std_copy src i j dst m =
     Option.bind (vec_live m src) (\<lambda>xs. Option.bind (vec_live m dst) (\<lambda>old.
       if i \<le> j \<and> j \<le> length xs \<and> j - i \<le> length old
       then Some (Inr (), vec_set dst (overwrite old (take (j - i) (drop i xs))) m)
       else None))"

section \<open>Wiping\<close>

definition vectorCleanse :: "nat \<Rightarrow> unit vec" where
  "vectorCleanse a m = Option.bind (vec_live m a) (\<lambda>xs.
     Some (Inr (), if length xs > 0 then vec_set a (replicate (length xs) 0) m else m))"

text \<open>The destructor runs the function when the scope is left, by an exception or not.\<close>

definition Finally :: "unit vec \<Rightarrow> 'a vec \<Rightarrow> 'a vec" where
  "Finally func body m = Option.bind (body m) (\<lambda>(r, m'). Option.bind (func m') (\<lambda>(_, m''). Some (r, m'')))"

text \<open>A local vector, destroyed at the end of its scope.\<close>

definition localV :: "nat vec \<Rightarrow> (nat \<Rightarrow> 'a vec) \<Rightarrow> 'a vec" where
  "localV new body = bindV new (\<lambda>a. Finally (vec_delete a) (body a))"

section \<open>Keys of ECIES\<close>

definition vec_createKeysAndInstantiateMacAndSymCipher ::
  "('h, 'm, 'a, 's) crypto_env \<Rightarrow> ('h, 'm, 'a, 's, 'k) ecies_builder \<Rightarrow> nat \<Rightarrow>
     (('h, 'm) mac_dyn \<times> ('a, 's) cipher_dyn) vec" where
  "vec_createKeysAndInstantiateMacAndSymCipher E b sharedSecret =
     Finally (vec_delete sharedSecret) (Finally (vectorCleanse sharedSecret)
      (localV (vec_new []) (\<lambda>result. Finally (vectorCleanse result)
        (bindV (vec_get sharedSecret) (\<lambda>z.
         bindV (liftV (deriveKey E (the (eb_kdf b)) z (eb_macKeySize b + eb_symmetricKeySize b) (eb_kdfSalt b))) (\<lambda>r.
         bindV (vec_assign result r) (\<lambda>_.
         localV (vec_new (replicate (eb_symmetricKeySize b) 0)) (\<lambda>key_encrypt. Finally (vectorCleanse key_encrypt)
          (localV (vec_new (replicate (eb_macKeySize b) 0)) (\<lambda>key_mac. Finally (vectorCleanse key_mac)
           (bindV (std_copy result 0 (eb_symmetricKeySize b) key_encrypt) (\<lambda>_.
            bindV (vec_get result) (\<lambda>r.
            bindV (std_copy result (eb_symmetricKeySize b) (length r) key_mac) (\<lambda>_.
            bindV (vec_get key_mac) (\<lambda>k.
            bindV (liftV (the (eb_macFactory b) k)) (\<lambda>mac.
            bindV (vec_get key_encrypt) (\<lambda>k.
            bindV (liftV (the (eb_cipherFactory b) k)) (\<lambda>cipher. liftV (Inr (mac, cipher))))))))))))))))))))"

text \<open>
  The constructors move the shared secret, a local vector of theirs, into the parameter.
\<close>

definition vec_ecies_ctx_new ::
  "('h, 'm, 'a, 's) crypto_env \<Rightarrow> ('h, 'm, 'a, 's, 'k) ecies_builder \<Rightarrow> bytes \<Rightarrow> 'k \<Rightarrow>
     ('h, 'm, 'a, 's, 'k) ecies_ctx vec" where
  "vec_ecies_ctx_new E b secret key =
     localV (vec_new secret) (\<lambda>sharedSecret.
     bindV (vec_move sharedSecret) (\<lambda>moved.
     bindV (vec_createKeysAndInstantiateMacAndSymCipher E b moved) (\<lambda>(m, c).
       liftV (Inr \<lparr>ec_macSalt = eb_macSalt b, ec_mac = m, ec_cipher = c, ec_macValue = [],
            ec_isFinished = False, ec_key = key, ec_tag = [], ec_macIsSet = False\<rparr>))))"

definition vec_ECIESEncryptionCtx_new ::
  "('h, 'm, 'a, 's) crypto_env \<Rightarrow> ('k, 'e, 'g, 'c) pkey_lib \<Rightarrow> nat \<Rightarrow>
     ('h, 'm, 'a, 's, 'k) ecies_builder \<Rightarrow> ('h, 'm, 'a, 's, 'k) ecies_ctx vec" where
  "vec_ECIESEncryptionCtx_new E P rnd b =
     bindV (liftV (createEphemeralKeyAndSharedSecret P rnd (the (eb_pubKey b)))) (\<lambda>(eph, secret).
       vec_ecies_ctx_new E b secret eph)"

definition vec_setEphemeralKey ::
  "('h, 'm, 'a, 's) crypto_env \<Rightarrow> ('k, 'e, 'g, 'c) pkey_lib \<Rightarrow>
     ('h, 'm, 'a, 's, 'k) ecies_builder \<Rightarrow> 'k \<Rightarrow> ('h, 'm, 'a, 's, 'k) ecies_ctx vec" where
  "vec_setEphemeralKey E P b ephKey =
     bindV (liftV (ossl_EVP_derive_key P ephKey (the (eb_privKey b)))) (\<lambda>secret.
       vec_ecies_ctx_new E b secret (the (eb_privKey b)))"

text \<open>A cipher builder has a copy of the key; its destructor wipes the copy.\<close>

definition AESCipherBuilder_delete :: "nat \<Rightarrow> unit vec" where
  "AESCipherBuilder_delete secretKey = Finally (vec_delete secretKey) (vectorCleanse secretKey)"

definition vec_default_cipher_factory ::
  "('h, 'm, 'a, 's) crypto_env \<Rightarrow> Operation \<Rightarrow> bytes \<Rightarrow> ('a, 's) cipher_dyn vec" where
  "vec_default_cipher_factory E mode key =
     bindV (vec_new key) (\<lambda>secretKey.
     Finally (AESCipherBuilder_delete secretKey)
       (bindV (vec_get secretKey) (\<lambda>k. liftV (default_cipher_factory E mode k))))"

section \<open>No secret stays\<close>

definition runV :: "'a vec \<Rightarrow> vectors \<Rightarrow> ('a res \<Rightarrow> vectors \<Rightarrow> bool) \<Rightarrow> bool" where
  "runV f m Q \<longleftrightarrow> (case f m of None \<Rightarrow> False | Some (r, m') \<Rightarrow> Q r m')"

named_theorems vec_run \<open>rules that run a step on vectors\<close>

lemma runV_steps [vec_run]:
  "runV (liftV r) m Q \<longleftrightarrow> Q r m"
  "runV (bindV k g) m R \<longleftrightarrow> runV k m (\<lambda>r m'. case r of Inl e \<Rightarrow> R (Inl e) m' | Inr y \<Rightarrow> runV (g y) m' R)"
  "runV (Finally f' f) m Q \<longleftrightarrow> runV f m (\<lambda>r m'. runV f' m' (\<lambda>_. Q r))"
  by (auto simp: runV_def liftV_def bindV_def Finally_def split: option.splits sum.splits Option.bind_splits)

lemma runV_local [vec_run]:
  "runV (localV new body) m Q \<longleftrightarrow> runV new m (\<lambda>r m'. case r of Inl e \<Rightarrow> Q (Inl e) m'
     | Inr a \<Rightarrow> runV (body a) m' (\<lambda>r m'. runV (vec_delete a) m' (\<lambda>_. Q r)))"
  by (simp add: localV_def runV_steps cong: sum.case_cong)

lemma runV_vectors [vec_run]:
  "runV (vec_new xs) m N \<longleftrightarrow> N (Inr (vec_next m)) (m\<lparr>vec_next := Suc (vec_next m), vec_live := (vec_live m)(vec_next m \<mapsto> xs)\<rparr>)"
  "runV (vec_get a) m G \<longleftrightarrow> (case vec_live m a of None \<Rightarrow> False | Some xs \<Rightarrow> G (Inr xs) m)"
  "runV (vec_move a) m N \<longleftrightarrow> (case vec_live m a of None \<Rightarrow> False | Some xs \<Rightarrow> runV (vec_new xs) (vec_set a [] m) N)"
  by (auto simp: runV_def vec_new_def vec_get_def vec_move_def split: option.splits)

lemma runV_updates [vec_run]:
  "runV (vec_assign a xs) m Q \<longleftrightarrow> (case vec_live m a of None \<Rightarrow> False
     | Some old \<Rightarrow> Q (Inr ()) ((vec_set a xs m)\<lparr>vec_freed := old # vec_freed m\<rparr>))"
  "runV (vec_delete a) m Q \<longleftrightarrow> (case vec_live m a of None \<Rightarrow> False
     | Some old \<Rightarrow> Q (Inr ()) (m\<lparr>vec_live := (vec_live m)(a := None), vec_freed := old # vec_freed m\<rparr>))"
  "runV (vectorCleanse a) m Q \<longleftrightarrow> (case vec_live m a of None \<Rightarrow> False
     | Some old \<Rightarrow> Q (Inr ()) (vec_set a (replicate (length old) 0) m))"
  "runV (std_copy src i j a) m Q \<longleftrightarrow> (case vec_live m src of None \<Rightarrow> False
     | Some xs \<Rightarrow> (case vec_live m a of None \<Rightarrow> False
     | Some old \<Rightarrow> i \<le> j \<and> j \<le> length xs \<and> j - i \<le> length old
         \<and> Q (Inr ()) (vec_set a (overwrite old (take (j - i) (drop i xs))) m)))"
  by (auto simp: runV_def vec_assign_def vec_delete_def vectorCleanse_def std_copy_def vec_set_def fun_upd_idem
      split: option.splits)

lemma vec_set_simps [simp]:
  "vec_live (vec_set a xs m) = (vec_live m)(a \<mapsto> xs)" "vec_next (vec_set a xs m) = vec_next m"
  "vec_freed (vec_set a xs m) = vec_freed m"
  by (simp_all add: vec_set_def)

text \<open>
  The outcome of an operation on secrets: its result, the vectors that were there before, and
  storage given back with zeros only.
\<close>

definition zeros_added :: "bytes list \<Rightarrow> bytes list \<Rightarrow> bool" where
  "zeros_added old new \<longleftrightarrow> (\<exists>zs. new = zs @ old \<and> set (concat zs) \<subseteq> {0})"

definition wiped :: "'a res \<Rightarrow> vectors \<Rightarrow> 'a res \<Rightarrow> vectors \<Rightarrow> bool" where
  "wiped v m r m' \<longleftrightarrow> r = v \<and> vec_live m' = vec_live m \<and> zeros_added (vec_freed m) (vec_freed m')"

definition vec_fresh :: "vectors \<Rightarrow> bool" where
  "vec_fresh m \<longleftrightarrow> (\<forall>a. vec_next m \<le> a \<longrightarrow> vec_live m a = None)"

lemma vec_freshD [simp]: "vec_fresh m \<Longrightarrow> vec_next m \<le> a \<Longrightarrow> vec_live m a = None"
  by (simp add: vec_fresh_def)

lemma zeros_added_same [simp]: "zeros_added old old"
  by (simp add: zeros_added_def)

lemma zeros_added_Cons [simp]: "set xs \<subseteq> {0} \<Longrightarrow> zeros_added old new \<Longrightarrow> zeros_added old (xs # new)"
  by (auto simp: zeros_added_def intro: exI [of _ "xs # _"])

lemma createKeys_wiped:
  assumes "vec_fresh m" "s < vec_next m" "vec_live m s = Some z" "key_derivation (deriveKey E (the (eb_kdf b)))"
  shows "runV (vec_createKeysAndInstantiateMacAndSymCipher E b s) m (\<lambda>r m'.
     r = createKeysAndInstantiateMacAndSymCipher E b z
     \<and> vec_live m' = (vec_live m)(s := None) \<and> zeros_added (vec_freed m) (vec_freed m'))"
proof -
  note defs = vec_createKeysAndInstantiateMacAndSymCipher_def createKeysAndInstantiateMacAndSymCipher_def vec_run
    Let_def fun_upd_idem
  let ?n = "eb_symmetricKeySize b"
  let ?d = "deriveKey E (the (eb_kdf b)) z (eb_macKeySize b + ?n) (eb_kdfSalt b)"
  show ?thesis
  proof (cases ?d)
    case (Inl e)
    with assms show ?thesis by (simp add: defs set_replicate_conv_if)
  next
    case (Inr r)
    then have l: "length r = eb_macKeySize b + ?n"
      by (rule key_derivation.derive_length [OF assms(4)])
    show ?thesis
      using assms(1-3) Inr l
      by (cases "the (eb_macFactory b) (drop ?n r)"; cases "the (eb_cipherFactory b) (take ?n r)")
        (simp_all add: defs set_replicate_conv_if overwrite_def)
  qed
qed

text \<open>
  The keys of a derivation function that does not return as many bytes as asked for are
  copied past the end of a vector.
\<close>

lemma createKeys_too_long:
  assumes "vec_fresh m" "vec_live m s = Some z" "s < vec_next m"
    "deriveKey E (the (eb_kdf b)) z (eb_macKeySize b + eb_symmetricKeySize b) (eb_kdfSalt b) = Inr r"
    "eb_macKeySize b + eb_symmetricKeySize b < length r"
  shows "vec_createKeysAndInstantiateMacAndSymCipher E b s m = None"
proof -
  have "\<not> length r - eb_symmetricKeySize b \<le> eb_macKeySize b" using assms(5) by linarith
  then have "\<not> runV (vec_createKeysAndInstantiateMacAndSymCipher E b s) m (\<lambda>_ _. True)"
    using assms by (simp add: vec_createKeysAndInstantiateMacAndSymCipher_def vec_run)
  then show ?thesis by (auto simp: runV_def split: option.splits)
qed

lemma runV_conseq: "runV f m P \<Longrightarrow> (\<And>r m'. P r m' \<Longrightarrow> Q r m') \<Longrightarrow> runV f m Q"
  by (auto simp: runV_def split: option.splits)

lemma ecies_ctx_wiped:
  assumes "vec_fresh m" "key_derivation (deriveKey E (the (eb_kdf b)))"
  shows "runV (vec_ecies_ctx_new E b secret key) m (wiped (ecies_ctx_new E b secret key) m)"
proof -
  let ?a = "vec_next m"
  let ?m = "(vec_set ?a [] (m\<lparr>vec_next := Suc ?a, vec_live := (vec_live m)(?a \<mapsto> secret)\<rparr>))
      \<lparr>vec_next := Suc (Suc ?a), vec_live := (vec_live m)(?a \<mapsto> [], Suc ?a \<mapsto> secret)\<rparr>"
  have "vec_fresh ?m" using assms(1) by (simp add: vec_fresh_def)
  then have "runV (vec_createKeysAndInstantiateMacAndSymCipher E b (Suc ?a)) ?m (\<lambda>r m'.
      r = createKeysAndInstantiateMacAndSymCipher E b secret
      \<and> vec_live m' = (vec_live m)(?a \<mapsto> []) \<and> zeros_added (vec_freed m) (vec_freed m'))"
    using createKeys_wiped [of ?m "Suc ?a" secret E b] assms by (simp add: fun_upd_idem)
  then have "runV (vec_createKeysAndInstantiateMacAndSymCipher E b (Suc ?a)) ?m (\<lambda>r m'. case r of
        Inl e \<Rightarrow> runV (vec_delete ?a) m' (\<lambda>_. wiped (ecies_ctx_new E b secret key) m (Inl e))
      | Inr y \<Rightarrow> runV (case y of (u, c) \<Rightarrow> liftV (Inr \<lparr>ec_macSalt = eb_macSalt b, ec_mac = u, ec_cipher = c,
            ec_macValue = [], ec_isFinished = False, ec_key = key, ec_tag = [], ec_macIsSet = False\<rparr>)) m'
          (\<lambda>r m'. runV (vec_delete ?a) m' (\<lambda>_. wiped (ecies_ctx_new E b secret key) m r)))"
    by (rule runV_conseq)
      (use assms(1) in \<open>auto simp: vec_run wiped_def ecies_ctx_new_def fun_upd_idem split: sum.splits prod.splits\<close>)
  then show ?thesis
    by (simp add: vec_ecies_ctx_new_def runV_local runV_vectors runV_steps fun_upd_twist)
qed

text \<open>
  C37: No secret of ECIES stays in memory: the constructors of both contexts and the default
  cipher factory run within the bounds of their vectors, make exactly the objects of the
  definitions without storage, and leave the vectors that were there before; whether they
  return or throw at any point, every piece of storage they give back - shared secret, derived
  key, cipher key, MAC key and the copy in the cipher builder - holds zeros only.
\<close>

theorem ECIES_wipes_secrets:
  assumes "vec_fresh m" "key_derivation (deriveKey E (the (eb_kdf b)))"
  shows "runV (vec_ECIESEncryptionCtx_new E P rnd b) m (wiped (ECIESEncryptionCtx_new E P rnd b) m)
    \<and> runV (vec_setEphemeralKey E P b ephKey) m
        (wiped (ECIESDecryptionCtx_new E P (b\<lparr>eb_ephemeralKey := Some ephKey\<rparr>)) m)
    \<and> runV (vec_default_cipher_factory E mode key) m (wiped (default_cipher_factory E mode key) m)"
proof (intro conjI)
  note ctx = ecies_ctx_wiped [OF assms]
  show "runV (vec_ECIESEncryptionCtx_new E P rnd b) m (wiped (ECIESEncryptionCtx_new E P rnd b) m)"
    using ctx by (cases "createEphemeralKeyAndSharedSecret P rnd (the (eb_pubKey b))")
      (auto simp: vec_ECIESEncryptionCtx_new_def ECIESEncryptionCtx_new_def runV_steps wiped_def)
  have "ecies_ctx_new E (b\<lparr>eb_ephemeralKey := Some ephKey\<rparr>) secret k = ecies_ctx_new E b secret k" for secret k
    by (simp add: ecies_ctx_new_def createKeysAndInstantiateMacAndSymCipher_def)
  then show "runV (vec_setEphemeralKey E P b ephKey) m
      (wiped (ECIESDecryptionCtx_new E P (b\<lparr>eb_ephemeralKey := Some ephKey\<rparr>)) m)"
    using ctx by (cases "ossl_EVP_derive_key P ephKey (the (eb_privKey b))")
      (simp_all add: vec_setEphemeralKey_def ECIESDecryptionCtx_new_def runV_steps wiped_def)
  show "runV (vec_default_cipher_factory E mode key) m (wiped (default_cipher_factory E mode key) m)"
    using assms(1) by (simp add: vec_default_cipher_factory_def AESCipherBuilder_delete_def vec_run wiped_def
        set_replicate_conv_if fun_upd_idem)
qed

definition ref_vectors :: vectors where
  "ref_vectors = \<lparr>vec_next = 1, vec_live = [0 \<mapsto> [1]], vec_freed = [[2]]\<rparr>"

text \<open>Every X9.63 derivation returns as many bytes as asked for.\<close>

lemma x963_key_derivation: "key_derivation (deriveKey E (X963Obj k))"
  using x963.derive_length by unfold_locales simp

theorem ECIES_wipes_secrets_witness:
  "runV (vec_ECIESEncryptionCtx_new ref_env ref_pkey_lib 3
      (with_defaults ref_env Encryption
        ((default_builder [] [1])\<lparr>eb_pubKey := Some (ECCSpec PRIME_256v1, 7)\<rparr>))) ref_vectors
     (\<lambda>r m'. vec_live m' = [0 \<mapsto> [1]] \<and> zeros_added [[2]] (vec_freed m'))"
proof -
  have "vec_fresh ref_vectors" by (simp add: vec_fresh_def ref_vectors_def)
  moreover have "key_derivation (deriveKey ref_env (the (eb_kdf (with_defaults ref_env Encryption b))))" for b
    by (simp add: with_defaults_def x963_key_derivation)
  ultimately show ?thesis
    by (rule ECIES_wipes_secrets [THEN conjunct1, THEN runV_conseq]) (simp add: wiped_def ref_vectors_def)
qed

end
