(* ===== verification/Spec2Isabelle.thy ===== *)
theory Spec2Isabelle
  imports Hex_Util Pem_Format Pem_Reformat Symmetric_Memory Hash_Ctx Mac_Ctx Ecies_Props
    Ecdsa_Ctx Asn1_Time Distinguished_Name X509_Crl Cert_Authority Key_Pem Public_Ctx
    Io_Utils Object_Classes Example_Aes Example_Digest Example_Keys Example_Ca Example_Validation
    Example_Ecies Ssl_Rsa Key_Wiping
begin

text \<open>
  A verification development for MoCOCrW, a C++ library that wraps OpenSSL: symmetric and
  asymmetric cryptography, hashes, message authentication codes, key derivation, ECIES, X.509
  names, times, certificates, requests, revocation lists, a certificate authority and keys on
  hardware modules.  Source paths are relative to \<open>src/src\<close>, those of the example programs to
  \<open>src\<close>.

  The program.  Every public class checks its arguments, drives a sequence of OpenSSL calls
  through the wrappers of \<open>openssl_wrap.cpp\<close>, which turn status codes into exceptions, and
  keeps a little state of its own: finished flags, buffers, counters, maps.  The facade
  \<open>openssl_lib.cpp\<close> has one forwarding function per OpenSSL function.

  The model.  OpenSSL is not modelled: for each component a record (\<open>digest_lib\<close>,
  \<open>cert_lib\<close>, ...) has one field per OpenSSL function the code calls, and the definitions
  take it as a parameter.  What OpenSSL documents is stated as laws over such a record
  (\<open>bio_laws\<close>, \<open>cert_set_laws\<close>, ...) by means of a view that says what an opaque object
  stands for; theorems that need the laws have them as hypotheses, and a witness evaluates each
  of these theorems on a concrete record.  Exceptions are values (\<open>exn\<close>), an operation that
  may throw returns \<open>'a res\<close>, a method \<open>('s, 'a) st\<close> with the state the exception leaves.
  Sizes and flags have their machine width where it matters (\<open>size_t\<close>, \<open>64 word\<close>,
  \<open>to_int\<close>).  The two loops that end only if OpenSSL lets them, reading a BIO and
  enumerating name entries, are partial functions whose result is proved to exist under the
  laws; every other loop is structural recursion or has a termination proof, and there is no fuel.

  The theories and what they show:

  \<^item> \<open>Moc_Prelude\<close>, \<open>Cxx_Strings\<close>, \<open>Decimal_Text\<close>: results, states, machine integers,
    buffers, \<open>std::string\<close> and C strings, decimal numbers and separated fields.
  \<^item> \<open>Check_Call\<close>: \<open>cppc/checkcall.hpp\<close> and the policies of \<open>openssl_wrap.cpp\<close>.
  \<^item> \<open>Hex_Util\<close>: \<open>util.cpp\<close>; hexadecimal round trip, random bytes.
  \<^item> \<open>Pem_Format\<close> (\<open>format_utils.h\<close>), \<open>Pem_Reformat\<close> (the start of \<open>x509.cpp\<close>): chains of PEM
    elements are split into exactly the elements; the layout of base64 text is normalised.
  \<^item> \<open>Symmetric_Memory\<close>: \<open>symmetric_memory.cpp\<close>; the queue of blocks refines a byte stream.
  \<^item> \<open>Hash_Ctx\<close>, \<open>Mac_Ctx\<close>, \<open>Kdf_Fun\<close>: \<open>hash.cpp\<close>, \<open>mac.cpp\<close>, \<open>kdf.cpp\<close>; independence of the
    chunks, acceptance of exactly the right tags.
  \<^item> \<open>Aes_Cipher\<close>, \<open>Aes_Stream\<close>: \<open>symmetric_crypto.cpp\<close>; round trips in any chunks, GCM
    authenticity, life cycle.
  \<^item> \<open>Asym_Key\<close>, \<open>Key_Pem\<close>: \<open>key.cpp\<close>, \<open>hsm.cpp\<close>; generation, points, key agreement,
    PEM with and without password, keys on modules.
  \<^item> \<open>Padding_Mode\<close>, \<open>Rsa_Ctx\<close>, \<open>Ecdsa_Ctx\<close>: \<open>padding_mode.cpp\<close>,
    \<open>asymmetric_crypto_ctx.cpp\<close>; encryption, signatures, formats, errors.  \<open>Public_Ctx\<close>: the
    constructors of the public classes, contexts made from certificates.
  \<^item> \<open>Ecies_Ctx\<close>, \<open>Ecies_Props\<close>: \<open>ecies.cpp\<close>; the hybrid scheme composed of keys, derivation,
    cipher and MAC, with its round trip.
  \<^item> \<open>Asn1_Time\<close>, \<open>Asn1_Integer\<close>: \<open>asn1time.cpp\<close> and conversions of \<open>openssl_wrap.cpp\<close>; exact
    arithmetic, order, ranges.
  \<^item> \<open>Bio_Object\<close>, \<open>Pem_Object\<close>: \<open>bio.cpp\<close>; reading back what was written; the common shape of
    PEM input and output is the locale \<open>pem_object\<close>, interpreted for requests, revocation
    lists and public keys.
  \<^item> \<open>Distinguished_Name\<close>: \<open>distinguished_name.cpp\<close>; builders, round trip, equality.
  \<^item> \<open>X509_Cert\<close>, \<open>X509_Verify\<close>: \<open>x509.cpp\<close>, \<open>x509.h\<close>, \<open>stack_utils.h\<close>; attributes, PEM and
    DER, chains, serial numbers, verification contexts and the exact request made to OpenSSL.
  \<^item> \<open>X509_Csr\<close>, \<open>X509_Crl\<close>: \<open>csr.cpp\<close>, \<open>crl.cpp\<close>.
  \<^item> \<open>X509_Extension\<close>, \<open>Sign_Params\<close>: \<open>extension.h\<close>, \<open>key_usage.h\<close>,
    \<open>basic_constraints.h\<close>, \<open>subject_key_identifier.h\<close>, \<open>sign_params.h\<close>; configuration strings
    say what the objects say; the \<open>std::map\<close> of extensions is the locale \<open>ordered_map\<close>.
  \<^item> \<open>Cert_Authority\<close>: \<open>ca.cpp\<close>; root certificates, decisions on requests, and, for every
    sequence of requests as an inductive relation, unique serial numbers and availability.
  \<^item> \<open>Io_Utils\<close>: \<open>private/IOUtils.h\<close>; what was written to a file is loaded as the same object.
  \<^item> \<open>Object_Ownership\<close>, \<open>Object_Classes\<close>: the public classes own their implementation through a
    \<open>std::unique_ptr\<close>; construction, copies, moves and destruction on a heap never free an
    implementation twice, use a freed one or lose one, and objects behave as values.  The
    copy, assignment, move and forwarding functions of the classes of
    \<open>asymmetric_crypto_ctx.cpp\<close>, \<open>padding_mode.cpp\<close>, \<open>kdf.cpp\<close>, \<open>mac.cpp\<close>,
    \<open>symmetric_crypto.cpp\<close> and \<open>ecies.cpp\<close> are instances.
  \<^item> \<open>Ssl_Memory\<close>, \<open>Ssl_Ownership\<close>, \<open>Ssl_Rsa\<close>: the smart pointers and deleters of
    \<open>openssl_wrap.h\<close> over an explicit memory of OpenSSL objects with reference counts, and the
    functions that release, share or fill pointers by hand (RSA contexts, OAEP labels, ECDSA
    signatures, points, key agreement, serial numbers) once more over that memory; they refine
    their definitions without memory, and nothing is used after it was freed or freed twice,
    whatever OpenSSL returns.  Nothing is lost either, except for what the theorem names: the
    copy of an OAEP label that OpenSSL refuses with the status 0, and the two numbers of a
    signature that \<open>ECDSA_SIG_set0\<close> refuses.
  \<^item> \<open>Key_Wiping\<close>: \<open>vectorCleanse\<close> and \<open>Finally\<close> of \<open>util.h\<close> over vectors with storage; ECIES
    and the cipher builder give back no storage with a secret in it.
  \<^item> \<open>Program_Run\<close>, \<open>Example_Aes\<close>, \<open>Example_Digest\<close>, \<open>Example_Keys\<close>, \<open>Example_Ca\<close>,
    \<open>Example_Validation\<close>, \<open>Example_Ecies\<close>: the programs of \<open>examples\<close>, which compose the
    components, with their output and exit codes; under the laws they print what they announce
    and succeed, for the certificate chain program from the generated keys to the client
    certificate; and one of them decrypts without checking the tag.
  \<^item> This theory: the way of a request through names, keys, requests, authority and certificates.

  Interfaces are locales where the code has them or components share a contract: the cipher
  memory, message authentication codes, key derivation functions, digest signatures, PEM
  objects, ordered maps and classes that own an implementation; each is interpreted on the
  model's own definitions.

  Not modelled: \<open>openssl_lib.cpp\<close> (one forwarding function per OpenSSL function, for which
  the fields of the library records stand), the memory of functions whose objects are created,
  used and freed by one smart pointer each, tests and build files.  Concurrency: the library
  has none of its own.

  Machine integers: sizes that are passed to OpenSSL as \<open>int\<close>, serial numbers, string positions
  and the arithmetic of times have the width of the code and wrap.

  Idealisations, all in the laws, which describe the parts of OpenSSL that are not in this
  repository: an operation that is documented to succeed does so (no lack of memory), and a
  cryptographic check rejects every input that is not the right one.  In particular
  \<open>op_laws\<close> lets every operation be initialised for every key, where OpenSSL also looks at the
  type of the key, and \<open>kdf_lib_laws\<close> puts no bound on the lengths of the X9.63 function, where
  OpenSSL refuses more than \<open>2^30\<close> bytes.  The properties of memory, of errors and of failed
  verifications need none of
  these.  \<open>ext_of_config\<close> is a specification: a reader of OpenSSL's configuration format, which
  translates no code of this repository.
\<close>

section \<open>From a name and a key to a certificate\<close>

text \<open>
  C7: The way of a request through the components: for a name made by the builders, with values
  OpenSSL admits, and a key pair of any kind, a signing request is made, verifies, and is
  granted by an authority that accepts it; the issued certificate carries the requester's
  public key, the authority's name as issuer and the authority's next serial number.  Its
  subject reads back with, for each attribute, the last value given if the name is in default
  order and the first one that is not empty if it is in custom order; so it is equal to the
  given name in default order, and in custom order if no attribute is given twice.
\<close>

theorem issued_for_requester:
  assumes "ca_laws C view entries pub secs ival bval signs mk valid rview dsig sc ac cc vv f0 accept permits"
    and "sign_ctx_laws P M X kind dsig" "name_laws N content entries good" "bio_laws B content"
    and "t \<noteq> NONE" "built dn"
    and "\<forall>(i, s) \<in> set (attributes dn). s \<noteq> [] \<longrightarrow> good (nid_value i) (string_bytes s)"
    and "pub (privateKey ca) = cv_pubkey (view (rootCert ca))" "uint (nextSerialNumber ca) \<le> LONG_MAX"
    and "signable (ca_time C) secs signs valid clock (privateKey ca) (defaultSignParams ca) start md"
    and "entries_of (Distinguished_Name.written dn) \<noteq> cv_subject (view (rootCert ca))"
    and "\<forall>q. rv_subject (rview q) = entries_of (Distinguished_Name.written dn) \<and> rv_pubkey (rview q) = pub k \<longrightarrow>
           acceptable view permits ca (granted view rview pub mk start md ca q)"
  shows "\<exists>q x. Csr_new (ca_req C) N P M X dn k t = Inr q \<and> Csr_verify (ca_req C) q = Inr ()
     \<and> signCSR C clock q ca = (Inr x, ca\<lparr>nextSerialNumber := nextSerialNumber ca + 1\<rparr>)
     \<and> X509_getPublicKey (ca_cert C) x = Inr (pub k)
     \<and> (\<exists>dn'. getSubjectDistinguishedName (ca_cert C) N B x = Some (Inr dn')
          \<and> (\<forall>i. getAttributeByNIDAsString dn' i = read_value dn i)
          \<and> (\<not> customAttributeOrderFlag dn \<or> distinct (map fst (attributes dn)) \<longrightarrow> DN_eq dn dn'))
     \<and> cv_issuer (view x) = cv_subject (view (rootCert ca))
     \<and> getSerialNumber (ca_cert C) (ca_int C) x = Inr (nextSerialNumber ca)"
proof -
  note make = ca_laws_makeD [OF assms(1)] and req = ca_laws_reqD [OF assms(1)]
  obtain q md' where q: "Csr_new (ca_req C) N P M X dn k t = Inr q"
      "rview q = \<lparr>rv_subject = entries_of (Distinguished_Name.written dn), rv_pubkey = pub k, rv_signed = Some (k, md')\<rparr>"
    using Csr_new_ok [OF req assms(2,3,5,7)] by blast
  then obtain x where x: "signCSR C clock q ca = (Inr x, ca\<lparr>nextSerialNumber := nextSerialNumber ca + 1\<rparr>)"
      "view x = granted view rview pub mk start md ca q"
    using signCSR_ok [OF assms(1,8,10,9), of q] assms(11,12) by auto
  obtain n where n: "SSL_X509_get_subject_name (ca_cert C) x = Some n" "entries n = entries_of (Distinguished_Name.written dn)"
    using get_subjectD [OF ca_getD [OF make], of x] x(2) q(2) by (auto simp: granted_def)
  have "getSubjectDistinguishedName (ca_cert C) N B x = fromX509Name N B n"
    using n(1) by (simp add: getSubjectDistinguishedName_def ossl_simps)
  moreover have "X509_getPublicKey (ca_cert C) x = Inr (pub k)"
    using get_pubkeyD [OF ca_getD [OF make], of x] x(2) q(2) ca_pubD [OF make, of k]
    by (simp add: X509_getPublicKey_def ossl_simps granted_def)
  moreover have "getSerialNumber (ca_cert C) (ca_int C) x = Inr (nextSerialNumber ca)"
    using get_serial_ok(1) [OF ca_getD [OF make] ca_intD [OF make], of x] x(2) assms(9) by (simp add: granted_def)
  moreover have "Csr_verify (ca_req C) q = Inr ()" using Csr_read_ok(2) [OF req, of q] q(2) by simp
  ultimately show ?thesis
    using q(1) x populated_reads [OF assms(3,4,6) n(2)] by (auto simp: granted_def)
qed

theorem issued_for_requester_witness:
  "\<exists>q x dn'. Csr_new (ca_req ref_ca_lib) ref_name_lib ref_pkey_lib ref_sign_digest_lib ref_sign_lib ref_dn
       (ECCSpec Ed25519, 7) SHA256 = Inr q
     \<and> signCSR ref_ca_lib 0 q (ref_ca 7) = (Inr x, (ref_ca 7)\<lparr>nextSerialNumber := nextSerialNumber (ref_ca 7) + 1\<rparr>)
     \<and> X509_getPublicKey (ca_cert ref_ca_lib) x = Inr (ECCSpec Ed25519, 6)
     \<and> getSubjectDistinguishedName (ca_cert ref_ca_lib) ref_name_lib ref_bio_lib x = Some (Inr dn') \<and> DN_eq ref_dn dn'"
proof -
  have d: "distinct (map fst (attributes ref_dn))"
    "\<forall>(i, s) \<in> set (attributes ref_dn). s \<noteq> [] \<longrightarrow> True" "SHA256 \<noteq> NONE"
    by (auto simp: ref_dn_def emplace_back_def CustomOrderBuilder_new_def Builder_new_def)
  have l: "uint (nextSerialNumber (ref_ca 7)) \<le> LONG_MAX" by (simp add: ref_ca_def LONG_MAX_def)
  have e: "entries_of (Distinguished_Name.written ref_dn) \<noteq> cv_subject (X509_Cert.ref_view (rootCert (ref_ca 7)))"
    by (simp add: ref_ca_def ref_root_def X509_Cert.ref_view_def Distinguished_Name.written_def ref_dn_def emplace_back_def
        CustomOrderBuilder_new_def Builder_new_def)
  have a: "acceptable X509_Cert.ref_view ref_permits (ref_ca 7)
      (granted X509_Cert.ref_view id ref_public_part (\<lambda>k nid conf. (nid, conf)) 1000 EVP_sha256 (ref_ca 7) q)" for q
    using ref_ca_ready(4) [of 7] by (simp add: acceptable_def granted_def ref_permits_def)
  have p: "ref_public_part (ECCSpec Ed25519, 7) = (ECCSpec Ed25519, 6)" by (simp add: ref_public_part_def)
  show ?thesis
    using issued_for_requester [OF ref_ca_laws ref_sign_ctx_laws ref_name_laws ref_bio_laws d(3) ref_dn_built d(2)
        ref_ca_ready(1) l ref_ca_ready(2) [where clock = 0] e, of "(ECCSpec Ed25519, 7)"] a p d(1) by auto
qed

end
